(* ===== verification/Prelude.thy ===== *)
theory Prelude
  imports Main "HOL-Library.AList"
begin

text \<open>
  Shared vocabulary of the development: clock readings, the outcome of a call that may raise,
  Python dictionaries, and SQLite tables.

  A table is the list of its rows in rowid order. The statements the store issues become four
  operations: \<open>sql_find\<close> (\<open>SELECT ... fetchone\<close>), \<open>sql_update\<close> with
  \<open>sql_rowcount\<close> (\<open>UPDATE ... WHERE\<close> and its \<open>cursor.rowcount\<close>),
  \<open>sql_delete\<close> and \<open>sql_insert\<close> (with the primary-key conflict as a value). The lemmas give the
  table seen as a map from its key: \<open>row_of key t k\<close>.
\<close>

named_theorems table_simps "the table operations seen through row_of"
named_theorems frame_simps "fields an operation leaves alone"

subsection \<open>Clock readings\<close>

text \<open>
  \<open>utc_now()\<close> renders an aware UTC datetime with \<open>isoformat()\<close>, and the store compares the
  resulting strings. For UTC timestamps of four-digit years that order is the order of the
  instants, so an instant is its number of microseconds since the epoch.
\<close>

type_synonym instant = int

definition seconds :: "int \<Rightarrow> instant" where
  "seconds n = n * 1000000"

definition day_micros :: int where
  "day_micros = 86400000000"

definition utc_day_of :: "instant \<Rightarrow> int" where
  "utc_day_of t = t div day_micros"

definition day_start_of :: "int \<Rightarrow> instant" where
  "day_start_of d = d * day_micros"

lemma utc_day_of_bounds:
  "day_start_of (utc_day_of t) \<le> t" "t < day_start_of (utc_day_of t + 1)"
  unfolding utc_day_of_def day_start_of_def day_micros_def by presburger+

lemma utc_day_of_mono: "s \<le> t \<Longrightarrow> utc_day_of s \<le> utc_day_of t"
  by (simp add: utc_day_of_def day_micros_def zdiv_mono1)

subsection \<open>Exceptions\<close>

datatype py_error = ValueError string | RuntimeError string | OverflowError string

subsection \<open>Dictionaries\<close>

text \<open>
  A Python dict keeps insertion order: assigning to a present key keeps its place, a new key goes
  last. That is \<open>AList.update\<close>; \<open>dict.update\<close> is \<open>dict_merge\<close>.
\<close>

type_synonym ('k, 'v) dict = "('k \<times> 'v) list"

definition dict_merge :: "('k, 'v) dict \<Rightarrow> ('k, 'v) dict \<Rightarrow> ('k, 'v) dict" where
  "dict_merge d u = fold (\<lambda>(k, v) acc. AList.update k v acc) u d"

lemma map_of_dict_merge: "map_of (dict_merge d u) = map_of d ++ map_of (rev u)"
proof (induction u arbitrary: d)
  case Nil
  then show ?case by (simp add: dict_merge_def)
next
  case (Cons p u)
  obtain k v where p: "p = (k, v)" by force
  have "map_of (dict_merge d (p # u)) = map_of (dict_merge (AList.update k v d) u)"
    by (simp add: dict_merge_def p)
  also have "\<dots> = map_of (AList.update k v d) ++ map_of (rev u)"
    by (rule Cons.IH)
  also have "\<dots> = map_of d ++ map_of (rev (p # u))"
    by (simp add: update_conv' p map_add_assoc)
  finally show ?case .
qed

subsection \<open>SQLite tables\<close>

definition sql_find :: "('r \<Rightarrow> bool) \<Rightarrow> 'r list \<Rightarrow> 'r option" where
  "sql_find P t = find P t"

definition sql_update :: "('r \<Rightarrow> bool) \<Rightarrow> ('r \<Rightarrow> 'r) \<Rightarrow> 'r list \<Rightarrow> 'r list" where
  "sql_update P f t = map (\<lambda>r. if P r then f r else r) t"

definition sql_rowcount :: "('r \<Rightarrow> bool) \<Rightarrow> 'r list \<Rightarrow> int" where
  "sql_rowcount P t = int (length (filter P t))"

definition sql_delete :: "('r \<Rightarrow> bool) \<Rightarrow> 'r list \<Rightarrow> 'r list" where
  "sql_delete P t = filter (\<lambda>r. \<not> P r) t"

definition row_of :: "('r \<Rightarrow> 'k) \<Rightarrow> 'r list \<Rightarrow> 'k \<Rightarrow> 'r option" where
  "row_of key t k = find (\<lambda>r. key r = k) t"

definition sql_insert :: "('r \<Rightarrow> 'k) \<Rightarrow> 'r \<Rightarrow> 'r list \<Rightarrow> 'r list option" where
  "sql_insert key r t = (if row_of key t (key r) = None then Some (t @ [r]) else None)"

definition keyed :: "('r \<Rightarrow> 'k) \<Rightarrow> 'r list \<Rightarrow> bool" where
  "keyed key t \<longleftrightarrow> distinct (map key t)"

lemma row_of_Nil [simp]: "row_of key [] k = None"
  by (simp add: row_of_def)

lemma row_of_Cons [simp]: "row_of key (r # t) k = (if key r = k then Some r else row_of key t k)"
  by (simp add: row_of_def)

lemma row_of_append: "row_of key (t @ u) k = (case row_of key t k of None \<Rightarrow> row_of key u k | Some r \<Rightarrow> Some r)"
  by (induction t) auto

lemma row_of_Some: "row_of key t k = Some r \<Longrightarrow> r \<in> set t \<and> key r = k"
  by (induction t) (auto split: if_splits)

lemma row_of_None: "row_of key t k = None \<longleftrightarrow> k \<notin> key ` set t"
  by (induction t) auto

lemma keyed_row_of: "keyed key t \<Longrightarrow> r \<in> set t \<Longrightarrow> row_of key t (key r) = Some r"
  by (induction t) (auto simp: keyed_def)

lemma row_of_update [table_simps]:
  "(\<And>r. P r \<Longrightarrow> key (f r) = key r) \<Longrightarrow>
   row_of key (sql_update P f t) k = map_option (\<lambda>r. if P r then f r else r) (row_of key t k)"
  by (induction t) (auto simp: sql_update_def)

lemma row_of_delete [table_simps]:
  "keyed key t \<Longrightarrow>
   row_of key (sql_delete P t) k = (case row_of key t k of None \<Rightarrow> None | Some r \<Rightarrow> if P r then None else Some r)"
proof (induction t)
  case Nil
  then show ?case by (simp add: sql_delete_def)
next
  case (Cons a t)
  then have IH: "row_of key (sql_delete P t) k =
      (case row_of key t k of None \<Rightarrow> None | Some r \<Rightarrow> if P r then None else Some r)"
    and new: "key a \<notin> key ` set t"
    by (auto simp: keyed_def)
  show ?case
  proof (cases "key a = k")
    case True
    with new have "row_of key (sql_delete P t) k = None"
      by (auto simp: row_of_None sql_delete_def)
    with True show ?thesis by (simp add: sql_delete_def)
  next
    case False
    with IH show ?thesis by (simp add: sql_delete_def)
  qed
qed

lemma row_of_insert [table_simps]:
  "sql_insert key r t = Some t' \<Longrightarrow> row_of key t' k = (if k = key r then Some r else row_of key t k)"
  by (auto simp: sql_insert_def row_of_append split: if_splits option.splits)

lemma keyed_Nil [simp]: "keyed key []"
  by (simp add: keyed_def)

lemma keyed_single [simp]: "keyed key [r]"
  by (simp add: keyed_def)

lemma keyed_update [intro]:
  assumes "keyed key t" and "\<And>r. P r \<Longrightarrow> key (f r) = key r"
  shows "keyed key (sql_update P f t)"
proof -
  have "map key (sql_update P f t) = map key t"
    using assms(2) by (simp add: sql_update_def)
  with assms(1) show ?thesis by (simp add: keyed_def)
qed

lemma keyed_delete [intro]: "keyed key t \<Longrightarrow> keyed key (sql_delete P t)"
  unfolding keyed_def sql_delete_def by (rule distinct_map_filter)

lemma keyed_insert [intro]: "keyed key t \<Longrightarrow> sql_insert key r t = Some t' \<Longrightarrow> keyed key t'"
  by (auto simp: keyed_def sql_insert_def row_of_None split: if_splits)

lemma sql_update_id: "(\<And>r. r \<in> set t \<Longrightarrow> \<not> P r) \<Longrightarrow> sql_update P f t = t"
  by (induction t) (auto simp: sql_update_def)

lemma sql_delete_id: "(\<And>r. r \<in> set t \<Longrightarrow> \<not> P r) \<Longrightarrow> sql_delete P t = t"
  by (induction t) (auto simp: sql_delete_def)

lemma rowcount_zero: "sql_rowcount P t = 0 \<longleftrightarrow> (\<forall>r \<in> set t. \<not> P r)"
  by (auto simp: sql_rowcount_def filter_empty_conv)

lemma rowcount_nonneg: "0 \<le> sql_rowcount P t"
  by (simp add: sql_rowcount_def)

text \<open>An UPDATE whose WHERE clause fixes the primary key touches the row with that key or none.\<close>

lemma rowcount_key:
  assumes "keyed key t"
  shows "sql_rowcount (\<lambda>r. key r = k \<and> P r) t =
    (case row_of key t k of None \<Rightarrow> 0 | Some r \<Rightarrow> if P r then 1 else 0)"
  using assms
proof (induction t)
  case Nil
  then show ?case by (simp add: sql_rowcount_def)
next
  case (Cons a t)
  then have IH: "sql_rowcount (\<lambda>r. key r = k \<and> P r) t =
      (case row_of key t k of None \<Rightarrow> 0 | Some r \<Rightarrow> if P r then 1 else 0)"
    and new: "key a \<notin> key ` set t"
    by (auto simp: keyed_def)
  show ?case
  proof (cases "key a = k")
    case True
    with new have "row_of key t k = None" by (auto simp: row_of_None)
    with True IH show ?thesis by (simp add: sql_rowcount_def)
  next
    case False
    with IH show ?thesis by (simp add: sql_rowcount_def)
  qed
qed

lemma sql_find_Some: "sql_find P t = Some r \<Longrightarrow> r \<in> set t \<and> P r"
  unfolding sql_find_def find_Some_iff by auto

lemma sql_find_None: "sql_find P t = None \<longleftrightarrow> (\<forall>r \<in> set t. \<not> P r)"
  unfolding sql_find_def find_None_iff by auto

text \<open>A query that fixes the primary key finds the row with that key, the only one there is.\<close>

lemma sql_find_key:
  "keyed key t \<Longrightarrow> sql_find (\<lambda>r. key r = k \<and> P r) t =
     (case row_of key t k of None \<Rightarrow> None | Some r \<Rightarrow> if P r then Some r else None)"
proof (induction t)
  case Nil
  then show ?case by (simp add: sql_find_def)
next
  case (Cons a t)
  then have "row_of key t (key a) = None" by (auto simp: keyed_def row_of_None)
  with Cons show ?case by (auto simp: sql_find_def keyed_def)
qed

lemma sql_find_keyed:
  assumes "keyed key t" and "sql_find (\<lambda>r. key r = k \<and> P r) t = Some row" and "r \<in> set t" and "key r = k"
  shows "r = row"
  using keyed_row_of [OF assms(1) assms(3)] keyed_row_of [OF assms(1), of row]
    sql_find_Some [OF assms(2)] assms(4) by auto

lemma set_sql_update: "set (sql_update P f t) = (\<lambda>r. if P r then f r else r) ` set t"
  by (simp add: sql_update_def)

lemma set_sql_delete: "set (sql_delete P t) = {r \<in> set t. \<not> P r}"
  by (auto simp: sql_delete_def)

lemma set_sql_insert: "sql_insert key r t = Some t' \<Longrightarrow> set t' = insert r (set t)"
  by (auto simp: sql_insert_def split: if_splits)

lemma length_sql_update [simp]: "length (sql_update P f t) = length t"
  by (simp add: sql_update_def)

text \<open>Aggregates over a selection of the rows, before and after an update.\<close>

lemma filter_sql_update:
  "(\<And>r. P r \<Longrightarrow> Q (f r) = Q r) \<Longrightarrow> filter Q (sql_update P f t) = sql_update P f (filter Q t)"
  by (induction t) (auto simp: sql_update_def)

lemma filter_sql_delete: "filter Q (sql_delete P t) = sql_delete P (filter Q t)"
  by (simp add: sql_delete_def conj_commute)

lemma map_sql_update: "(\<And>r. P r \<Longrightarrow> g (f r) = g r) \<Longrightarrow> map g (sql_update P f t) = map g t"
  by (auto simp: sql_update_def)

lemma length_filter_update:
  "(\<And>r. P r \<Longrightarrow> Q (f r) \<Longrightarrow> Q r) \<Longrightarrow> length (filter Q (sql_update P f t)) \<le> length (filter Q t)"
  by (induction t) (auto simp: sql_update_def le_SucI)

lemma sum_list_update_le:
  fixes w :: "'r \<Rightarrow> int"
  shows "(\<And>r. r \<in> set t \<Longrightarrow> P r \<Longrightarrow> w (f r) \<le> w r) \<Longrightarrow>
   sum_list (map w (sql_update P f t)) \<le> sum_list (map w t)"
  by (induction t) (auto simp: sql_update_def intro: add_mono)

lemma sum_map_nonneg:
  fixes w :: "'r \<Rightarrow> int"
  shows "(\<And>r. r \<in> set t \<Longrightarrow> 0 \<le> w r) \<Longrightarrow> 0 \<le> sum_list (map w t)"
  by (induction t) auto

lemma sum_list_filter_le:
  fixes w :: "'r \<Rightarrow> int"
  shows "(\<And>r. r \<in> set t \<Longrightarrow> 0 \<le> w r) \<Longrightarrow> sum_list (map w (filter Q t)) \<le> sum_list (map w t)"
  by (induction t) (auto intro: add_mono add_increasing)

lemma sum_map_mono:
  fixes f g :: "'r \<Rightarrow> int"
  shows "(\<And>r. r \<in> set t \<Longrightarrow> f r \<le> g r) \<Longrightarrow> sum_list (map f t) \<le> sum_list (map g t)"
  by (induction t) (auto intro: add_mono)

lemma sum_map_zero_iff:
  fixes w :: "'r \<Rightarrow> int"
  shows "(\<And>r. r \<in> set t \<Longrightarrow> 0 \<le> w r) \<Longrightarrow> sum_list (map w t) \<le> 0 \<longleftrightarrow> (\<forall>r \<in> set t. w r = 0)"
proof (induction t)
  case (Cons a t)
  then have "0 \<le> w a" "0 \<le> sum_list (map w t)"
    and IH: "sum_list (map w t) \<le> 0 \<longleftrightarrow> (\<forall>r \<in> set t. w r = 0)"
    by (auto intro: sum_map_nonneg)
  then have "sum_list (map w (a # t)) \<le> 0 \<longleftrightarrow> w a = 0 \<and> sum_list (map w t) \<le> 0" by auto
  with IH show ?case by simp
qed simp

subsection \<open>Sequences of transactions\<close>

text \<open>
  Several processes work on one store; its write lock puts their transactions in one order. A
  component's transactions are a function of the state, an execution is a fold over a list of them,
  and \<open>along\<close> says that a condition on each transaction holds in the state it meets.
\<close>

fun along :: "('x \<Rightarrow> 's \<Rightarrow> 's) \<Rightarrow> ('x \<Rightarrow> 's \<Rightarrow> bool) \<Rightarrow> 'x list \<Rightarrow> 's \<Rightarrow> bool" where
  "along step ok [] s = True"
| "along step ok (x # xs) s = (ok x s \<and> along step ok xs (step x s))"

lemma along_list_all: "along step (\<lambda>x s. P x) xs s = list_all P xs"
  by (induction xs arbitrary: s) auto

text \<open>
  The contract under which an invariant holds along every execution: each transaction that meets
  its condition keeps it.
\<close>

locale transactions =
  fixes step :: "'x \<Rightarrow> 's \<Rightarrow> 's" and ok :: "'x \<Rightarrow> 's \<Rightarrow> bool" and inv :: "'s \<Rightarrow> bool"
  assumes keeps: "inv s \<Longrightarrow> ok x s \<Longrightarrow> inv (step x s)"
begin

lemma run_keeps: "inv s \<Longrightarrow> along step ok xs s \<Longrightarrow> inv (fold step xs s)"
  by (induction xs arbitrary: s) (auto intro: keeps)

lemma run_prefix_keeps:
  "inv s \<Longrightarrow> along step ok (xs @ ys) s \<Longrightarrow> inv (fold step xs s)"
  by (induction xs arbitrary: s) (auto intro: keeps)

end

subsection \<open>Order-preserving removal of duplicates\<close>

text \<open>\<open>dict.fromkeys\<close> and the \<open>seen\<close> loops of the source: keep the first occurrence.\<close>

fun dedup_seen :: "'a list \<Rightarrow> 'a list \<Rightarrow> 'a list" where
  "dedup_seen seen [] = []"
| "dedup_seen seen (x # xs) =
     (if x \<in> set seen then dedup_seen seen xs else x # dedup_seen (x # seen) xs)"

definition dedup :: "'a list \<Rightarrow> 'a list" where
  "dedup xs = dedup_seen [] xs"

lemma set_dedup_seen: "set (dedup_seen seen xs) = set xs - set seen"
  by (induction seen xs rule: dedup_seen.induct) auto

lemma distinct_dedup_seen: "distinct (dedup_seen seen xs)"
  by (induction seen xs rule: dedup_seen.induct) (auto simp: set_dedup_seen)

lemma set_dedup [simp]: "set (dedup xs) = set xs"
  by (simp add: dedup_def set_dedup_seen)

lemma distinct_dedup [simp]: "distinct (dedup xs)"
  by (simp add: dedup_def distinct_dedup_seen)

lemma dedup_Nil_iff [simp]: "dedup xs = [] \<longleftrightarrow> xs = []"
  using set_dedup [of xs] by (metis set_empty)

end
