(* ===== verification/Mission_Types.thy ===== *)
theory Mission_Types
  imports Prelude
begin

text \<open>
  The mission status machine of \<open>mission/types.py\<close>: the statuses, their string values, the terminal
  ones and the transitions \<open>legal_transition\<close> allows.
\<close>

datatype mission_status =
    QUEUED | RUNNING | VERIFYING | COMPLETE | FAILED | WAITING_EVENT | WAITING_TIMER
  | DORMANT | ESCALATED | BUDGET_EXHAUSTED | CANCELLED

fun status_value :: "mission_status \<Rightarrow> string" where
  "status_value QUEUED = ''queued''"
| "status_value RUNNING = ''running''"
| "status_value VERIFYING = ''verifying''"
| "status_value COMPLETE = ''complete''"
| "status_value FAILED = ''failed''"
| "status_value WAITING_EVENT = ''waiting_event''"
| "status_value WAITING_TIMER = ''waiting_timer''"
| "status_value DORMANT = ''dormant''"
| "status_value ESCALATED = ''escalated''"
| "status_value BUDGET_EXHAUSTED = ''budget_exhausted''"
| "status_value CANCELLED = ''cancelled''"

definition all_statuses :: "mission_status list" where
  "all_statuses = [QUEUED, RUNNING, VERIFYING, COMPLETE, FAILED, WAITING_EVENT, WAITING_TIMER,
     DORMANT, ESCALATED, BUDGET_EXHAUSTED, CANCELLED]"

text \<open>\<open>MissionStatus(value)\<close>; \<open>None\<close> is the \<open>ValueError\<close> for a string that names no status.\<close>

definition parse_status :: "string \<Rightarrow> mission_status option" where
  "parse_status s = find (\<lambda>m. status_value m = s) all_statuses"

definition TERMINAL_STATUSES :: "mission_status list" where
  "TERMINAL_STATUSES = [COMPLETE, FAILED, BUDGET_EXHAUSTED, CANCELLED]"

definition ALLOWED :: "(mission_status \<times> mission_status) list" where
  "ALLOWED =
    [(QUEUED, RUNNING),
     (RUNNING, VERIFYING),
     (RUNNING, WAITING_EVENT),
     (RUNNING, WAITING_TIMER),
     (RUNNING, DORMANT),
     (RUNNING, ESCALATED),
     (RUNNING, FAILED),
     (RUNNING, BUDGET_EXHAUSTED),
     (RUNNING, CANCELLED),
     (VERIFYING, COMPLETE),
     (VERIFYING, RUNNING),
     (VERIFYING, FAILED),
     (VERIFYING, ESCALATED),
     (VERIFYING, WAITING_EVENT),
     (WAITING_EVENT, QUEUED),
     (WAITING_EVENT, RUNNING),
     (WAITING_TIMER, QUEUED),
     (DORMANT, QUEUED),
     (ESCALATED, QUEUED),
     (ESCALATED, CANCELLED),
     (RUNNING, QUEUED),
     (VERIFYING, QUEUED)]"

definition allowed_step :: "mission_status \<Rightarrow> mission_status \<Rightarrow> bool" where
  "allowed_step cur nxt \<longleftrightarrow> cur \<notin> set TERMINAL_STATUSES \<and> (cur, nxt) \<in> set ALLOWED"

definition legal_transition :: "string \<Rightarrow> string \<Rightarrow> bool" where
  "legal_transition current nxt =
    (case (parse_status current, parse_status nxt) of
       (Some cur, Some nxt_s) \<Rightarrow> allowed_step cur nxt_s
     | _ \<Rightarrow> False)"

lemma set_all_statuses: "set all_statuses = UNIV"
proof -
  have "m \<in> set all_statuses" for m by (cases m) (simp_all add: all_statuses_def)
  then show ?thesis by blast
qed

lemma status_value_inj [simp]: "status_value a = status_value b \<longleftrightarrow> a = b"
  by (cases a; cases b) simp_all

lemma parse_status_value [simp]: "parse_status (status_value m) = Some m"
  by (cases m) (simp_all add: parse_status_def all_statuses_def)

lemma parse_status_Some: "parse_status s = Some m \<longleftrightarrow> s = status_value m"
proof
  assume "parse_status s = Some m"
  then show "s = status_value m"
    unfolding parse_status_def find_Some_iff by auto
qed simp

lemma legal_transition_iff:
  "legal_transition s t \<longleftrightarrow> (\<exists>a b. s = status_value a \<and> t = status_value b \<and> allowed_step a b)"
  by (auto simp: legal_transition_def parse_status_Some split: option.splits)

lemma legal_transition_value [simp]:
  "legal_transition (status_value a) (status_value b) \<longleftrightarrow> allowed_step a b"
  by (simp add: legal_transition_def)

lemma allowed_step_terminal: "a \<in> set TERMINAL_STATUSES \<Longrightarrow> \<not> allowed_step a b"
  by (simp add: allowed_step_def)

lemma allowed_step_complete: "allowed_step a COMPLETE \<Longrightarrow> a = VERIFYING"
  by (cases a) (simp_all add: allowed_step_def ALLOWED_def TERMINAL_STATUSES_def)

declare status_value.simps [simp del]

lemma allowed_step_irrefl: "\<not> allowed_step a a"
  by (cases a) (simp_all add: allowed_step_def ALLOWED_def TERMINAL_STATUSES_def)

end
