(* ===== verification/Py_Value.thy ===== *)
theory Py_Value
  imports Complex_Main
begin

text \<open>
  The dynamically typed values the source passes between functions and stores as JSON. A finite
  Python float is the rational number it denotes; the other three floats are constructors.
\<close>

datatype pyfloat = Fin rat | PosInf | NegInf | NaN

datatype json =
    JNull
  | JBool bool
  | JInt int
  | JFloat pyfloat
  | JStr string
  | JArr "json list"
  | JObj "(string \<times> json) list"

text \<open>A dict, or a stored JSON object.\<close>

type_synonym doc = "(string \<times> json) list"

text \<open>Python's truth value, as \<open>x or default\<close>, \<open>bool(x)\<close> and \<open>if x\<close> read it.\<close>

fun truthy :: "json \<Rightarrow> bool" where
  "truthy JNull = False"
| "truthy (JBool b) = b"
| "truthy (JInt n) = (n \<noteq> 0)"
| "truthy (JFloat f) = (f \<noteq> Fin 0)"
| "truthy (JStr s) = (s \<noteq> [])"
| "truthy (JArr xs) = (xs \<noteq> [])"
| "truthy (JObj kvs) = (kvs \<noteq> [])"

fun is_obj :: "json \<Rightarrow> bool" where
  "is_obj (JObj _) = True"
| "is_obj _ = False"

fun obj_of :: "json \<Rightarrow> (string \<times> json) list" where
  "obj_of (JObj kvs) = kvs"
| "obj_of _ = []"

text \<open>\<open>d.get(k)\<close> on a dict: \<open>None\<close> for a missing key is Python's \<open>None\<close>.\<close>

definition dget :: "(string \<times> json) list \<Rightarrow> string \<Rightarrow> json" where
  "dget d k = (case map_of d k of None \<Rightarrow> JNull | Some v \<Rightarrow> v)"

definition has_key :: "(string \<times> json) list \<Rightarrow> string \<Rightarrow> bool" where
  "has_key d k \<longleftrightarrow> map_of d k \<noteq> None"

text \<open>Every key of a document, at any depth, with the value it carries.\<close>

fun members :: "json \<Rightarrow> (string \<times> json) list" where
  "members (JObj kvs) = concat (map (\<lambda>(k, v). (k, v) # members v) kvs)"
| "members (JArr xs) = concat (map members xs)"
| "members _ = []"

end
