(* ===== verification/Py_Text.thy ===== *)
theory Py_Text
  imports Prelude
begin

text \<open>
  The text operations of Python the source uses, on ASCII text, and the part of the \<open>re\<close> module
  its patterns need. A pattern denotes, at a position of a text, the list of ends of its matches in
  the order in which Python's backtracking search would reach them: the head of the list is the
  match Python reports, so greedy and lazy repetition, alternation order and groups behave as in
  the source. Repetition carries the length of the text as its bound, which no run of non-empty
  iterations exceeds.
\<close>

subsection \<open>Characters\<close>

definition code :: "char \<Rightarrow> int" where
  "code c = of_char c"

definition in_range :: "int \<Rightarrow> int \<Rightarrow> char \<Rightarrow> bool" where
  "in_range lo hi c \<longleftrightarrow> lo \<le> code c \<and> code c \<le> hi"

definition is_upper :: "char \<Rightarrow> bool" where "is_upper c = in_range 65 90 c"
definition is_lower :: "char \<Rightarrow> bool" where "is_lower c = in_range 97 122 c"
definition is_digit :: "char \<Rightarrow> bool" where "is_digit c = in_range 48 57 c"
definition is_alnum :: "char \<Rightarrow> bool" where "is_alnum c = (is_upper c \<or> is_lower c \<or> is_digit c)"
definition is_word :: "char \<Rightarrow> bool" where "is_word c = (is_alnum c \<or> c = CHR ''_'')"

text \<open>\<open>str.isspace\<close> and the class \<open>\s\<close> on ASCII.\<close>

definition is_space :: "char \<Rightarrow> bool" where
  "is_space c = (in_range 9 13 c \<or> in_range 28 32 c)"

text \<open>The line boundaries of \<open>str.splitlines\<close> on ASCII.\<close>

definition is_newline :: "char \<Rightarrow> bool" where
  "is_newline c = (in_range 10 13 c \<or> in_range 28 30 c)"

definition to_lower :: "char \<Rightarrow> char" where
  "to_lower c = (if is_upper c then char_of (code c + 32) else c)"

subsection \<open>String methods\<close>

definition str_lower :: "string \<Rightarrow> string" where
  "str_lower s = map to_lower s"

definition lstrip_by :: "(char \<Rightarrow> bool) \<Rightarrow> string \<Rightarrow> string" where
  "lstrip_by P s = dropWhile P s"

definition strip_by :: "(char \<Rightarrow> bool) \<Rightarrow> string \<Rightarrow> string" where
  "strip_by P s = rev (dropWhile P (rev (dropWhile P s)))"

definition str_strip :: "string \<Rightarrow> string" where
  "str_strip s = strip_by is_space s"

text \<open>\<open>str.split()\<close>: the maximal runs of non-space characters.\<close>

fun split_words :: "string \<Rightarrow> string \<Rightarrow> string list" where
  "split_words acc [] = (if acc = [] then [] else [rev acc])"
| "split_words acc (c # cs) =
     (if is_space c then (if acc = [] then split_words [] cs else rev acc # split_words [] cs)
      else split_words (c # acc) cs)"

definition str_split :: "string \<Rightarrow> string list" where
  "str_split s = split_words [] s"

text \<open>\<open>str.splitlines()\<close>: \<open>\r\n\<close> is one boundary, no empty line after a final boundary.\<close>

fun split_lines :: "string \<Rightarrow> string \<Rightarrow> string list" where
  "split_lines acc [] = (if acc = [] then [] else [rev acc])"
| "split_lines acc (c # cs) =
     (if is_newline c then
        rev acc # (if code c = 13 then
          (case cs of [] \<Rightarrow> [] | d # ds \<Rightarrow> if code d = 10 then split_lines [] ds else split_lines [] cs)
          else split_lines [] cs)
      else split_lines (c # acc) cs)"

definition str_splitlines :: "string \<Rightarrow> string list" where
  "str_splitlines s = split_lines [] s"

text \<open>\<open>s.split(sep)\<close> for a one-character separator (the pieces, empty ones included).\<close>

fun split_on :: "char \<Rightarrow> string \<Rightarrow> string \<Rightarrow> string list" where
  "split_on sep acc [] = [rev acc]"
| "split_on sep acc (c # cs) =
     (if c = sep then rev acc # split_on sep [] cs else split_on sep (c # acc) cs)"

definition starts_with :: "string \<Rightarrow> string \<Rightarrow> bool" where
  "starts_with p s = (take (length p) s = p)"

fun contains :: "string \<Rightarrow> string \<Rightarrow> bool" where
  "contains needle [] = (needle = [])"
| "contains needle (c # cs) = (starts_with needle (c # cs) \<or> contains needle cs)"

fun join :: "string \<Rightarrow> string list \<Rightarrow> string" where
  "join sep [] = []"
| "join sep [x] = x"
| "join sep (x # y # xs) = x @ sep @ join sep (y # xs)"

definition replace_char :: "char \<Rightarrow> char \<Rightarrow> string \<Rightarrow> string" where
  "replace_char a b s = map (\<lambda>c. if c = a then b else c) s"

definition NEWLINE :: string where
  "NEWLINE = [char_of (10 :: nat)]"

text \<open>\<open>str(n)\<close> for an integer.\<close>

fun nat_digits :: "nat \<Rightarrow> string" where
  "nat_digits n = (if n < 10 then [char_of (48 + n)] else nat_digits (n div 10) @ [char_of (48 + n mod 10)])"

declare nat_digits.simps [simp del]

definition str_int :: "int \<Rightarrow> string" where
  "str_int n = (if n < 0 then CHR ''-'' # nat_digits (nat (- n)) else nat_digits (nat n))"

subsection \<open>Regular expressions\<close>

datatype re =
    Eps
  | Chr "char \<Rightarrow> bool"
  | Seq re re
  | Alt re re
  | Opt re
  | LazyOpt re
  | Star re
  | LazyStar re
  | LazyRep nat re
  | Rep nat re
  | Grp nat re
  | WordB
  | Bos
  | Bol
  | Eos
  | NotAhead re

type_synonym span = "nat \<times> nat"
type_synonym mstate = "nat \<times> (nat \<times> span) list"

primrec iter_greedy :: "nat \<Rightarrow> (mstate \<Rightarrow> mstate list) \<Rightarrow> mstate \<Rightarrow> mstate list" where
  "iter_greedy 0 f x = [x]"
| "iter_greedy (Suc n) f x =
     concat (map (iter_greedy n f) (filter (\<lambda>y. fst y \<noteq> fst x) (f x))) @ [x]"

primrec iter_lazy :: "nat \<Rightarrow> (mstate \<Rightarrow> mstate list) \<Rightarrow> mstate \<Rightarrow> mstate list" where
  "iter_lazy 0 f x = [x]"
| "iter_lazy (Suc n) f x =
     x # concat (map (iter_lazy n f) (filter (\<lambda>y. fst y \<noteq> fst x) (f x)))"

definition word_at :: "string \<Rightarrow> nat \<Rightarrow> bool" where
  "word_at s i \<longleftrightarrow> i < length s \<and> is_word (s ! i)"

text \<open>\<open>Bos\<close> is \<open>^\<close>, \<open>Bol\<close> is \<open>^\<close> under \<open>re.M\<close>.\<close>

definition at_boundary :: "string \<Rightarrow> nat \<Rightarrow> bool" where
  "at_boundary s i \<longleftrightarrow> (0 < i \<and> word_at s (i - 1)) \<noteq> word_at s i"

text \<open>The assertion \<open>$\<close> holds at the end and before a final newline.\<close>

definition at_end :: "string \<Rightarrow> nat \<Rightarrow> bool" where
  "at_end s i \<longleftrightarrow> i = length s \<or> (Suc i = length s \<and> code (s ! i) = 10)"

text \<open>
  \<open>Rep n r\<close> is \<open>r{0,n}\<close>, \<open>LazyRep n r\<close> is \<open>r{0,n}?\<close>; \<open>r{m,n}\<close> is written as \<open>m\<close> copies and a \<open>Rep\<close>.
\<close>

primrec ends :: "re \<Rightarrow> string \<Rightarrow> mstate \<Rightarrow> mstate list" where
  "ends Eps s x = [x]"
| "ends (Chr P) s x = (if fst x < length s \<and> P (s ! fst x) then [(Suc (fst x), snd x)] else [])"
| "ends (Seq a b) s x = concat (map (ends b s) (ends a s x))"
| "ends (Alt a b) s x = ends a s x @ ends b s x"
| "ends (Opt a) s x = ends a s x @ [x]"
| "ends (LazyOpt a) s x = x # ends a s x"
| "ends (Star a) s x = iter_greedy (length s) (ends a s) x"
| "ends (LazyStar a) s x = iter_lazy (length s) (ends a s) x"
| "ends (LazyRep n a) s x = iter_lazy n (ends a s) x"
| "ends (Rep n a) s x = iter_greedy n (ends a s) x"
| "ends (Grp k a) s x = map (\<lambda>y. (fst y, AList.update k (fst x, fst y) (snd y))) (ends a s x)"
| "ends WordB s x = (if at_boundary s (fst x) then [x] else [])"
| "ends Bos s x = (if fst x = 0 then [x] else [])"
| "ends Bol s x = (if fst x = 0 \<or> code (s ! (fst x - 1)) = 10 then [x] else [])"
| "ends Eos s x = (if at_end s (fst x) then [x] else [])"
| "ends (NotAhead a) s x = (if ends a s x = [] then [x] else [])"

definition match_at :: "re \<Rightarrow> string \<Rightarrow> nat \<Rightarrow> mstate option" where
  "match_at r s i = (case ends r s (i, []) of [] \<Rightarrow> None | m # _ \<Rightarrow> Some m)"

text \<open>\<open>pattern.search\<close> from a position: the start of the leftmost match and the match.\<close>

function search_from :: "re \<Rightarrow> string \<Rightarrow> nat \<Rightarrow> (nat \<times> mstate) option" where
  "search_from r s i =
     (if length s < i then None
      else case match_at r s i of Some m \<Rightarrow> Some (i, m) | None \<Rightarrow> search_from r s (Suc i))"
  by pat_completeness auto
termination
  by (relation "measure (\<lambda>(r, s, i). Suc (length s) - i)") auto

declare search_from.simps [simp del]

definition re_search :: "re \<Rightarrow> string \<Rightarrow> bool" where
  "re_search r s \<longleftrightarrow> search_from r s 0 \<noteq> None"

definition re_match :: "re \<Rightarrow> string \<Rightarrow> bool" where
  "re_match r s \<longleftrightarrow> match_at r s 0 \<noteq> None"

definition re_fullmatch :: "re \<Rightarrow> string \<Rightarrow> bool" where
  "re_fullmatch r s \<longleftrightarrow> (\<exists>m \<in> set (ends r s (0, [])). fst m = length s)"

text \<open>
  \<open>pattern.finditer\<close>: after an empty match the search resumes one position later (no pattern of
  the source that is iterated matches the empty string).
\<close>

function finditer_from :: "re \<Rightarrow> string \<Rightarrow> nat \<Rightarrow> (nat \<times> mstate) list" where
  "finditer_from r s i =
     (case search_from r s i of
        None \<Rightarrow> []
      | Some (b, m) \<Rightarrow>
          if b < i then []
          else (b, m) # finditer_from r s (if fst m \<le> b then Suc b else fst m))"
  by pat_completeness auto

lemma search_from_le: "search_from r s i = Some (b, m) \<Longrightarrow> i \<le> b \<and> b \<le> length s"
proof (induction r s i rule: search_from.induct)
  case (1 r s i)
  show ?case
  proof (cases "length s < i \<or> match_at r s i \<noteq> None")
    case True
    with "1.prems" show ?thesis
      by (subst (asm) search_from.simps) (auto split: if_splits option.splits)
  next
    case False
    then have none: "match_at r s i = None" and le: "\<not> length s < i" by blast+
    with "1.prems" have "search_from r s (Suc i) = Some (b, m)"
      by (subst (asm) search_from.simps) simp
    with "1.IH" [OF le none] show ?thesis by simp
  qed
qed

termination finditer_from
  by (relation "measure (\<lambda>(r, s, i). Suc (length s) - i)") (auto dest!: search_from_le)

declare finditer_from.simps [simp del]

definition re_finditer :: "re \<Rightarrow> string \<Rightarrow> (nat \<times> mstate) list" where
  "re_finditer r s = finditer_from r s 0"

definition slice :: "string \<Rightarrow> nat \<Rightarrow> nat \<Rightarrow> string" where
  "slice s i j = take (j - i) (drop i s)"

definition group :: "string \<Rightarrow> mstate \<Rightarrow> nat \<Rightarrow> string option" where
  "group s m k = map_option (\<lambda>(i, j). slice s i j) (map_of (snd m) k)"

definition re_findall :: "re \<Rightarrow> string \<Rightarrow> string list" where
  "re_findall r s = map (\<lambda>(b, m). slice s b (fst m)) (re_finditer r s)"

text \<open>\<open>pattern.sub\<close>: the replacement is computed from the match.\<close>

fun sub_pieces :: "(nat \<times> mstate \<Rightarrow> string) \<Rightarrow> string \<Rightarrow> nat \<Rightarrow> (nat \<times> mstate) list \<Rightarrow> string" where
  "sub_pieces f s i [] = drop i s"
| "sub_pieces f s i ((b, m) # ms) = slice s i b @ f (b, m) @ sub_pieces f s (fst m) ms"

definition re_sub :: "re \<Rightarrow> (nat \<times> mstate \<Rightarrow> string) \<Rightarrow> string \<Rightarrow> string" where
  "re_sub r f s = sub_pieces f s 0 (re_finditer r s)"

lemma re_sub_no_match: "\<not> re_search r s \<Longrightarrow> re_sub r f s = s"
  by (cases "search_from r s 0") (simp_all add: re_sub_def re_finditer_def re_search_def finditer_from.simps)

subsection \<open>Pattern notation\<close>

definition one_of :: "string \<Rightarrow> re" where "one_of cs = Chr (\<lambda>c. c \<in> set cs)"
definition none_of :: "(char \<Rightarrow> bool) \<Rightarrow> re" where "none_of P = Chr (\<lambda>c. \<not> P c)"
definition any_char :: re where "any_char = Chr (\<lambda>_. True)"
definition space_re :: re where "space_re = Chr is_space"

fun seqs :: "re list \<Rightarrow> re" where
  "seqs [] = Eps" | "seqs [r] = r" | "seqs (r # s # rs) = Seq r (seqs (s # rs))"

fun alts :: "re list \<Rightarrow> re" where
  "alts [] = Chr (\<lambda>_. False)" | "alts [r] = r" | "alts (r # s # rs) = Alt r (alts (s # rs))"

definition plus :: "re \<Rightarrow> re" where "plus r = Seq r (Star r)"

text \<open>A literal, read case-sensitively or (flag \<open>re.I\<close>) not.\<close>

definition lit :: "string \<Rightarrow> re" where
  "lit w = seqs (map (\<lambda>c. Chr (\<lambda>d. d = c)) w)"

definition lit_ci :: "string \<Rightarrow> re" where
  "lit_ci w = seqs (map (\<lambda>c. Chr (\<lambda>d. to_lower d = to_lower c)) w)"

subsection \<open>Stripped texts\<close>

lemma dropWhile_all: "(\<forall>c \<in> set (dropWhile P s). P c) \<longleftrightarrow> dropWhile P s = []"
  by (metis dropWhile_eq_Nil_conv dropWhile_idem)

lemma strip_empty: "str_strip s = [] \<longleftrightarrow> (\<forall>c \<in> set s. is_space c)"
proof -
  have "str_strip s = [] \<longleftrightarrow> (\<forall>c \<in> set (dropWhile is_space s). is_space c)"
    by (simp add: str_strip_def strip_by_def dropWhile_eq_Nil_conv)
  then show ?thesis by (simp only: dropWhile_all dropWhile_eq_Nil_conv)
qed

lemma strip_twice [simp]: "str_strip (str_strip s) = str_strip s"
proof -
  have tail: "dropWhile P (rev (dropWhile P (rev xs))) = rev (dropWhile P (rev xs))"
    if "dropWhile P xs = xs" for P and xs :: string
  proof (cases xs)
    case (Cons x ys)
    have x: "\<not> P x"
    proof
      assume "P x"
      with that Cons have "dropWhile P ys = x # ys" by simp
      with length_dropWhile_le [of P ys] show False by simp
    qed
    with Cons show ?thesis by (simp add: dropWhile_append3)
  qed simp
  show ?thesis by (simp add: str_strip_def strip_by_def tail)
qed

lemma strip_blank_append:
  "str_strip (a @ b) = [] \<longleftrightarrow> str_strip a = [] \<and> str_strip b = []"
  by (auto simp: strip_empty)

lemma strip_fixed:
  assumes "s \<noteq> []" "\<not> is_space (hd s)" "\<not> is_space (last s)"
  shows "str_strip s = s"
proof -
  have "dropWhile is_space s = s" using assms(1,2) by (cases s) auto
  moreover have "dropWhile is_space (rev s) = rev s" using assms(1,3) by (cases "rev s") (auto simp: hd_rev [symmetric])
  ultimately show ?thesis by (simp add: str_strip_def strip_by_def)
qed

lemma strip_last: "str_strip s \<noteq> [] \<Longrightarrow> \<not> is_space (last (str_strip s))"
  unfolding str_strip_def strip_by_def
  by (metis hd_dropWhile last_rev rev_is_Nil_conv)

lemma starts_with_append [simp]: "starts_with p (p @ s)"
  by (simp add: starts_with_def)

lemma starts_with_split: "starts_with p s \<longleftrightarrow> (\<exists>r. s = p @ r)"
  by (metis append_eq_conv_conj starts_with_def append_take_drop_id)

text \<open>A hexadecimal digit as \<open>hexdigest\<close> writes it.\<close>

definition hex_digit :: "char \<Rightarrow> bool" where
  "hex_digit c = (is_digit c \<or> in_range 97 102 c)"

lemma hex_not_space: "hex_digit c \<Longrightarrow> \<not> is_space c"
  by (auto simp: hex_digit_def is_digit_def in_range_def is_space_def)

end
