(* ===== verification/Redaction.thy ===== *)
theory Redaction
  imports Py_Value Py_Text
begin

text \<open>
  The redaction layer of \<open>state.py\<close>: the secret patterns, \<open>redact_secrets\<close>,
  \<open>redact_json_value\<close> and \<open>bounded_redacted_text\<close>. Everything the store persists as free text or
  JSON passes through it. Texts are ASCII and are identified with their UTF-8 encoding; the
  truncation marker, which is not ASCII, is given by its UTF-8 bytes.
\<close>

subsection \<open>The secret patterns\<close>

definition ident_ci :: re where
  "ident_ci = Chr (\<lambda>c. is_alnum c \<or> c = CHR ''_'' \<or> c = CHR '' '' \<or> c = CHR ''-'')"

definition sep_opt :: re where
  "sep_opt = Opt (one_of ''_ -'')"

definition assigned_value :: re where
  "assigned_value = seqs [Star space_re, one_of '':='', Star space_re,
     Grp 2 (plus (none_of (\<lambda>c. is_space c \<or> c = CHR '','' \<or> c = CHR '';'')))]"

definition pat_vendor_key :: re where
  "pat_vendor_key = seqs [WordB,
     Grp 1 (seqs [
       alts (map lit_ci [''xai'', ''openai'', ''anthropic'', ''claude'', ''gemini'', ''google'',
         ''github'', ''gh'', ''aws'', ''azure'', ''npm'', ''pypi'']),
       Star ident_ci,
       alts [seqs [lit_ci ''api'', sep_opt, lit_ci ''key''], lit_ci ''token'', lit_ci ''secret'',
         lit_ci ''password'']]),
     assigned_value]"

definition pat_named_key :: re where
  "pat_named_key = seqs [WordB,
     Grp 1 (seqs [
       Opt (Seq (Chr (\<lambda>c. is_upper c \<or> is_lower c)) (LazyRep 80 ident_ci)),
       alts [seqs [lit_ci ''api'', sep_opt, lit_ci ''key''],
         seqs [lit_ci ''access'', sep_opt, lit_ci ''key''],
         lit_ci ''token'', lit_ci ''secret'', lit_ci ''password'', lit_ci ''passwd'',
         lit_ci ''credential'']]),
     assigned_value]"

definition pat_bearer :: re where
  "pat_bearer = seqs [WordB, lit_ci ''bearer'', plus space_re,
     plus (Chr (\<lambda>c. is_alnum c \<or> c \<in> set ''._~+/-'')), Star (one_of ''='')]"

definition token_char :: re where
  "token_char = Chr (\<lambda>c. is_alnum c \<or> c = CHR ''_'' \<or> c = CHR ''-'')"

definition pat_token :: re where
  "pat_token = seqs [WordB,
     alts [lit ''xai-'', Seq (lit ''sk-'') (Opt (lit ''proj-'')),
       seqs [lit ''gh'', one_of ''opusr'', lit ''_'']],
     seqs (replicate 12 token_char), Star token_char, WordB]"

definition pat_private_key :: re where
  "pat_private_key = seqs [lit ''-----BEGIN '', plus (none_of (\<lambda>c. c = CHR ''-'')),
     lit '' PRIVATE KEY-----'', LazyStar any_char,
     lit ''-----END '', plus (none_of (\<lambda>c. c = CHR ''-'')), lit '' PRIVATE KEY-----'']"

text \<open>\<open>_SECRET_PATTERNS\<close>: each pattern with its replacement.\<close>

definition group_then :: "string \<Rightarrow> string \<Rightarrow> nat \<times> mstate \<Rightarrow> string" where
  "group_then rest s m = (case group s (snd m) 1 of None \<Rightarrow> rest | Some g \<Rightarrow> g @ rest)"

definition SECRET_PATTERNS :: "(re \<times> (string \<Rightarrow> nat \<times> mstate \<Rightarrow> string)) list" where
  "SECRET_PATTERNS =
    [(pat_vendor_key, group_then ''=[REDACTED]''),
     (pat_named_key, group_then ''=[REDACTED]''),
     (pat_bearer, \<lambda>_ _. ''Bearer [REDACTED]''),
     (pat_token, \<lambda>_ _. ''[REDACTED_TOKEN]''),
     (pat_private_key, \<lambda>_ _. ''[REDACTED_PRIVATE_KEY]'')]"

definition redact_secrets :: "string \<Rightarrow> string" where
  "redact_secrets value = fold (\<lambda>(p, f) text. re_sub p (f text) text) SECRET_PATTERNS value"

definition SECRET_KEY_NAME :: re where
  "SECRET_KEY_NAME = seqs [Alt Bos (one_of ''_ -''),
     alts [seqs [lit_ci ''api'', sep_opt, lit_ci ''key''],
       seqs [lit_ci ''xai'', sep_opt, lit_ci ''key''],
       seqs [lit_ci ''access'', sep_opt, lit_ci ''key''],
       seqs [lit_ci ''auth'', sep_opt, lit_ci ''token''],
       seqs [lit_ci ''access'', sep_opt, lit_ci ''token''],
       seqs [lit_ci ''refresh'', sep_opt, lit_ci ''token''],
       seqs [lit_ci ''id'', sep_opt, lit_ci ''token''],
       seqs [lit_ci ''bearer'', sep_opt, lit_ci ''token''],
       lit_ci ''token'', lit_ci ''secret'',
       seqs [lit_ci ''client'', sep_opt, lit_ci ''secret''],
       lit_ci ''password'', lit_ci ''passwd'', lit_ci ''credential'', lit_ci ''credentials'',
       seqs [lit_ci ''private'', sep_opt, lit_ci ''key''],
       lit_ci ''authorization'', lit_ci ''cookie'',
       seqs [lit_ci ''set'', sep_opt, lit_ci ''cookie'']],
     Eos]"

definition secret_key :: "string \<Rightarrow> bool" where
  "secret_key k \<longleftrightarrow> re_search SECRET_KEY_NAME k"

subsection \<open>Structured payloads\<close>

definition is_hex :: "char \<Rightarrow> bool" where
  "is_hex c = (is_digit c \<or> in_range 97 102 c \<or> in_range 65 70 c)"

definition hex32 :: "string \<Rightarrow> bool" where
  "hex32 s \<longleftrightarrow> length s = 32 \<and> list_all is_hex s"

definition normalized_key :: "string \<Rightarrow> string" where
  "normalized_key k =
     replace_char (CHR '' '') (CHR ''_'') (replace_char (CHR ''-'') (CHR ''_'') (str_lower (str_strip k)))"

fun continue_token_value :: "string \<Rightarrow> json \<Rightarrow> bool" where
  "continue_token_value k (JStr s) = (normalized_key k = ''continue_token'' \<and> hex32 s)"
| "continue_token_value k _ = False"

text \<open>
  \<open>redact_json_value(value, key=...)\<close>; the key is \<open>''''\<close> where the source passes none, which the
  source treats alike (\<open>str(key or '''')\<close>, \<open>if key and ...\<close>).
\<close>

function redact_json_value :: "string \<Rightarrow> json \<Rightarrow> json" where
  "redact_json_value key value =
    (if continue_token_value key value then value
     else if key \<noteq> [] \<and> secret_key key then
       (if value = JNull then JNull else JStr ''[REDACTED]'')
     else case value of
       JObj kvs \<Rightarrow> JObj (map (\<lambda>(k, v). (k, redact_json_value k v)) kvs)
     | JArr xs \<Rightarrow> JArr (map (redact_json_value []) xs)
     | JStr s \<Rightarrow> JStr (redact_secrets s)
     | v \<Rightarrow> v)"
  by pat_completeness auto
termination
  by (relation "measure (\<lambda>(k, v). size v)") (auto simp: less_Suc_eq_le intro: size_list_estimation')

declare redact_json_value.simps [simp del]

definition redact_dict :: "(string \<times> json) list \<Rightarrow> (string \<times> json) list" where
  "redact_dict d = obj_of (redact_json_value [] (JObj d))"

subsection \<open>Bounded durable text\<close>

definition MARKER :: string where
  "MARKER = NEWLINE @ map char_of [226, 128, 166 :: nat] @ ''[truncated]''"

text \<open>
  \<open>marker_bytes[:n].decode("utf-8", errors="ignore")\<close>: bytes 2 and 3 of the marker begin a
  three-byte character, dropped when the cut leaves it incomplete.
\<close>

definition marker_prefix :: "nat \<Rightarrow> string" where
  "marker_prefix n = take (if n = 2 \<or> n = 3 then 1 else n) MARKER"

definition DURABLE_TEXT_MAX_BYTES :: nat where
  "DURABLE_TEXT_MAX_BYTES = 100000"

definition bounded_redacted_text :: "nat \<Rightarrow> string \<Rightarrow> string" where
  "bounded_redacted_text max_bytes value =
    (let text = redact_secrets value in
     if length text \<le> max_bytes then text
     else if max_bytes \<le> length MARKER then marker_prefix max_bytes
     else take (max_bytes - length MARKER) text @ MARKER)"

lemma bounded_redacted_text_length: "length (bounded_redacted_text n v) \<le> n"
  by (auto simp: bounded_redacted_text_def Let_def marker_prefix_def)

lemma redact_json_value_Obj:
  "redact_json_value [] (JObj kvs) = JObj (map (\<lambda>(k, v). (k, redact_json_value k v)) kvs)"
  by (simp add: redact_json_value.simps [of "[]" "JObj kvs"])

lemma redact_dict_eq: "redact_dict d = map (\<lambda>(k, v). (k, redact_json_value k v)) d"
  by (simp add: redact_dict_def redact_json_value_Obj)

lemma map_of_redact_dict: "map_of (redact_dict d) k = map_option (redact_json_value k) (map_of d k)"
  by (induction d) (auto simp: redact_dict_eq)

lemma redact_dict_keys: "map fst (redact_dict d) = map fst d"
  by (induction d) (auto simp: redact_dict_eq)

text \<open>What may remain under a secret-named key.\<close>

definition masked :: "string \<Rightarrow> json \<Rightarrow> bool" where
  "masked k v \<longleftrightarrow> v = JNull \<or> v = JStr ''[REDACTED]'' \<or> continue_token_value k v"

lemma redact_value_masked: "k \<noteq> [] \<Longrightarrow> secret_key k \<Longrightarrow> masked k (redact_json_value k v)"
  by (auto simp: masked_def redact_json_value.simps [of k v])

lemma redact_leaf_members:
  "(\<And>kvs. v \<noteq> JObj kvs) \<Longrightarrow> (\<And>xs. v \<noteq> JArr xs) \<Longrightarrow> members (redact_json_value key v) = []"
  by (subst redact_json_value.simps) (cases v; auto)

lemma redact_members_masked:
  "(k, v) \<in> set (members (redact_json_value key j)) \<Longrightarrow> k \<noteq> [] \<Longrightarrow> secret_key k \<Longrightarrow> masked k v"
proof (induction key j rule: redact_json_value.induct)
  case (1 key val)
  show ?case
  proof (cases "continue_token_value key val \<or> (key \<noteq> [] \<and> secret_key key)")
    case True
    with "1.prems"(1) show ?thesis
      by (subst (asm) redact_json_value.simps)
        (auto split: if_splits elim: continue_token_value.elims)
  next
    case False
    show ?thesis
    proof (cases val)
      case (JObj kvs)
      have "redact_json_value key val = JObj (map (\<lambda>(k, v). (k, redact_json_value k v)) kvs)"
        using False JObj by (subst redact_json_value.simps) auto
      with "1.prems"(1) obtain k' v' where kv: "(k', v') \<in> set kvs"
        and at: "(k, v) = (k', redact_json_value k' v') \<or> (k, v) \<in> set (members (redact_json_value k' v'))"
        by auto
      from at show ?thesis
      proof
        assume "(k, v) = (k', redact_json_value k' v')"
        with "1.prems" show ?thesis by (auto intro: redact_value_masked)
      next
        assume "(k, v) \<in> set (members (redact_json_value k' v'))"
        with "1.IH"(2) [OF _ _ JObj kv refl] False "1.prems" show ?thesis by auto
      qed
    next
      case (JArr xs)
      have "redact_json_value key val = JArr (map (redact_json_value []) xs)"
        using False JArr by (subst redact_json_value.simps) auto
      with "1.prems"(1) obtain x where "x \<in> set xs" "(k, v) \<in> set (members (redact_json_value [] x))"
        by auto
      with "1.IH"(1) [OF _ _ JArr] False "1.prems" show ?thesis by auto
    qed (use "1.prems"(1) in \<open>auto simp: redact_leaf_members\<close>)
  qed
qed

end
