(* ===== verification/Database.thy ===== *)
theory Database
  imports Mission_Types Redaction
begin

text \<open>
  The SQLite database of \<open>PublicStateStore\<close>: one record per table row, with the columns of
  \<open>_initialize_sync\<close>, and one record for the whole file. Timestamps are instants, UTC days are day
  numbers. A column that holds a JSON object is the decoded dictionary, \<open>None\<close> where the stored
  text does not decode (\<open>json.JSONDecodeError\<close>). An \<open>AUTOINCREMENT\<close> table keeps the last id it gave out.
  The retention pass \<open>_prune_retention_connection\<close> is here too, since it spans the tables.
\<close>


record mission_row =
  m_mission_id :: string
  m_job_id :: string
  m_created_at :: instant
  m_updated_at :: instant
  m_status :: mission_status
  m_acceptance_hash :: string
  m_acceptance_text :: string
  m_continue_token :: string
  m_package :: "doc option"
  m_checkpoint :: "doc option"
  m_checkpoint_version :: int
  m_lease_token :: "string option"
  m_lease_generation :: int
  m_lease_expires_at :: "instant option"
  m_envelope_version :: int
  m_verify_failures :: int
  m_ledger_cursor :: int

record mission_event_row =
  me_id :: int
  me_mission_id :: string
  me_event_type :: string
  me_payload :: doc
  me_created_at :: instant

record mission_artifact_row =
  ma_hash :: string
  ma_mission_id :: string
  ma_kind :: string
  ma_sealed :: string
  ma_projection :: string
  ma_created_at :: instant

record mission_evidence_row =
  ev_id :: int
  ev_mission_id :: string
  ev_class :: string
  ev_digest :: string
  ev_payload :: doc
  ev_artifact_refs :: "string list"
  ev_lease_generation :: int
  ev_created_at :: instant

record side_effect_row =
  se_quantum_key :: string
  se_mission_id :: string
  se_receipt :: doc
  se_lease_generation :: int
  se_created_at :: instant

record autonomy_row =
  a_job_id :: string
  a_created_at :: instant
  a_updated_at :: instant
  a_status :: string
  a_acceptance_hash :: string
  a_acceptance_text :: string
  a_continue_token :: string
  a_claim_lease :: "string option"
  a_claim_expires_at :: "instant option"
  a_ledger_cursor :: int
  a_request :: "doc option"

record autonomy_event_row =
  ae_id :: int
  ae_job_id :: string
  ae_event_type :: string
  ae_payload :: doc
  ae_created_at :: instant

record autonomy_artifact_row =
  aa_hash :: string
  aa_job_id :: string
  aa_kind :: string
  aa_content :: string
  aa_created_at :: instant

record agent_job_row =
  j_job_id :: string
  j_created_at :: instant
  j_status :: string
  j_payload :: "doc option"
  j_owner :: "string option"

datatype guard_status = Pending | Reconciled | Unknown
datatype guard_mode = Fixed | Remaining

record reservation_row =
  r_reservation_id :: string
  r_scope :: string
  r_utc_day :: int
  r_status :: guard_status
  r_limit_ticks :: int
  r_reserved_ticks :: int
  r_reservation_mode :: guard_mode
  r_actual_ticks :: "int option"
  r_created_at :: instant
  r_expires_at :: instant
  r_reconciled_at :: "instant option"
  r_updated_at :: instant
  r_unknown_reason :: "string option"

record baseline_row =
  b_scope :: string
  b_utc_day :: int
  b_telemetry_caller :: string
  b_baseline_ticks :: int
  b_source_max_telemetry_id :: int
  b_created_at :: instant

text \<open>The columns of \<open>telemetry\<close> the accounting reads.\<close>

record telemetry_row =
  t_id :: int
  t_created_at :: instant
  t_caller :: string
  t_cost_usd :: rat

record db =
  missions :: "mission_row list"
  mission_ledger :: "mission_event_row list"
  mission_ledger_seq :: int
  mission_artifacts :: "mission_artifact_row list"
  mission_evidence :: "mission_evidence_row list"
  mission_evidence_seq :: int
  mission_side_effects :: "side_effect_row list"
  autonomy_jobs :: "autonomy_row list"
  autonomy_ledger :: "autonomy_event_row list"
  autonomy_ledger_seq :: int
  autonomy_artifacts :: "autonomy_artifact_row list"
  agent_jobs :: "agent_job_row list"
  reservations :: "reservation_row list"
  baselines :: "baseline_row list"
  telemetry :: "telemetry_row list"

definition empty_db :: db where
  "empty_db = \<lparr>missions = [], mission_ledger = [], mission_ledger_seq = 0, mission_artifacts = [],
     mission_evidence = [], mission_evidence_seq = 0, mission_side_effects = [], autonomy_jobs = [],
     autonomy_ledger = [], autonomy_ledger_seq = 0, autonomy_artifacts = [], agent_jobs = [],
     reservations = [], baselines = [], telemetry = []\<rparr>"

abbreviation mission_at :: "db \<Rightarrow> string \<Rightarrow> mission_row option" where
  "mission_at d \<equiv> row_of m_mission_id (missions d)"

abbreviation autonomy_at :: "db \<Rightarrow> string \<Rightarrow> autonomy_row option" where
  "autonomy_at d \<equiv> row_of a_job_id (autonomy_jobs d)"

abbreviation agent_job_at :: "db \<Rightarrow> string \<Rightarrow> agent_job_row option" where
  "agent_job_at d \<equiv> row_of j_job_id (agent_jobs d)"

abbreviation reservation_at :: "db \<Rightarrow> string \<Rightarrow> reservation_row option" where
  "reservation_at d \<equiv> row_of r_reservation_id (reservations d)"

text \<open>Errors the driver raises out of a transaction (which is then rolled back).\<close>

datatype db_error = IntegrityError

subsection \<open>Retention\<close>

text \<open>
  \<open>_retention_cutoff\<close>: \<open>hours\<close> is the value of \<open>UNIGROK_STATE_RETENTION_HOURS\<close> read by \<open>int()\<close>,
  \<open>None\<close> where that raises \<open>ValueError\<close>.
\<close>

definition retention_cutoff :: "int option \<Rightarrow> instant \<Rightarrow> instant" where
  "retention_cutoff raw now =
    (let hours = (case raw of None \<Rightarrow> 24 | Some h \<Rightarrow> h);
         hours = max 1 (min hours (24 * 30))
     in now - seconds (hours * 3600))"

definition mission_terminal :: "mission_row \<Rightarrow> bool" where
  "mission_terminal r \<longleftrightarrow> m_status r \<in> set TERMINAL_STATUSES"

text \<open>\<open>ON DELETE CASCADE\<close> on the four tables that reference a mission, and on the two that reference an autonomy job.\<close>

definition delete_missions :: "(mission_row \<Rightarrow> bool) \<Rightarrow> db \<Rightarrow> db" where
  "delete_missions P d =
    (let gone = m_mission_id ` set (filter P (missions d)) in
     d\<lparr>missions := sql_delete P (missions d),
       mission_ledger := sql_delete (\<lambda>e. me_mission_id e \<in> gone) (mission_ledger d),
       mission_artifacts := sql_delete (\<lambda>a. ma_mission_id a \<in> gone) (mission_artifacts d),
       mission_evidence := sql_delete (\<lambda>e. ev_mission_id e \<in> gone) (mission_evidence d),
       mission_side_effects := sql_delete (\<lambda>s. se_mission_id s \<in> gone) (mission_side_effects d)\<rparr>)"

definition delete_autonomy_jobs :: "(autonomy_row \<Rightarrow> bool) \<Rightarrow> db \<Rightarrow> db" where
  "delete_autonomy_jobs P d =
    (let gone = a_job_id ` set (filter P (autonomy_jobs d)) in
     d\<lparr>autonomy_jobs := sql_delete P (autonomy_jobs d),
       autonomy_ledger := sql_delete (\<lambda>e. ae_job_id e \<in> gone) (autonomy_ledger d),
       autonomy_artifacts := sql_delete (\<lambda>a. aa_job_id a \<in> gone) (autonomy_artifacts d)\<rparr>)"

definition prunable_agent_job :: "instant \<Rightarrow> agent_job_row \<Rightarrow> bool" where
  "prunable_agent_job cutoff j \<longleftrightarrow> j_created_at j < cutoff \<and> j_status j \<in> {''complete'', ''error''}"

definition prunable_autonomy :: "instant \<Rightarrow> autonomy_row \<Rightarrow> bool" where
  "prunable_autonomy cutoff a \<longleftrightarrow> a_updated_at a < cutoff \<and> a_status a \<in> {''committed'', ''terminal''}"

definition prunable_mission :: "instant \<Rightarrow> mission_row \<Rightarrow> bool" where
  "prunable_mission cutoff m \<longleftrightarrow> m_updated_at m < cutoff \<and> mission_terminal m"

definition prunable_reservation :: "instant \<Rightarrow> int \<Rightarrow> reservation_row \<Rightarrow> bool" where
  "prunable_reservation cutoff today r \<longleftrightarrow>
     r_status r = Reconciled \<and> r_updated_at r < cutoff \<and> r_utc_day r < today"

definition prunable_telemetry :: "instant \<Rightarrow> int \<Rightarrow> baseline_row list \<Rightarrow> telemetry_row \<Rightarrow> bool" where
  "prunable_telemetry cutoff today bs t \<longleftrightarrow>
     t_created_at t < cutoff \<and>
     (t_created_at t < day_start_of today \<or>
      list_ex (\<lambda>b. b_telemetry_caller b = t_caller t \<and> b_utc_day b = today) bs)"

text \<open>
  \<open>_prune_retention_connection\<close> with its two clock readings: the number of rows deleted and the
  database after the pass.
\<close>

definition prune_retention :: "int option \<Rightarrow> instant \<Rightarrow> instant \<Rightarrow> db \<Rightarrow> int \<times> db" where
  "prune_retention raw_hours clock1 clock2 d =
    (let cutoff = retention_cutoff raw_hours clock1;
         n1 = sql_rowcount (prunable_agent_job cutoff) (agent_jobs d);
         d1 = d\<lparr>agent_jobs := sql_delete (prunable_agent_job cutoff) (agent_jobs d)\<rparr>;
         n2 = sql_rowcount (prunable_autonomy cutoff) (autonomy_jobs d1);
         d2 = delete_autonomy_jobs (prunable_autonomy cutoff) d1;
         n3 = sql_rowcount (prunable_mission cutoff) (missions d2);
         d3 = delete_missions (prunable_mission cutoff) d2;
         today = utc_day_of clock2;
         n4 = sql_rowcount (prunable_reservation cutoff today) (reservations d3);
         d4 = d3\<lparr>reservations := sql_delete (prunable_reservation cutoff today) (reservations d3)\<rparr>;
         n5 = sql_rowcount (prunable_telemetry cutoff today (baselines d4)) (telemetry d4);
         d5 = d4\<lparr>telemetry := sql_delete (prunable_telemetry cutoff today (baselines d4)) (telemetry d4)\<rparr>
     in (n1 + n2 + n3 + n4 + n5, d5))"

definition pruned :: "int option \<Rightarrow> instant \<Rightarrow> instant \<Rightarrow> db \<Rightarrow> db" where
  "pruned raw_hours clock1 clock2 d = snd (prune_retention raw_hours clock1 clock2 d)"

lemmas prune_defs = pruned_def prune_retention_def delete_missions_def delete_autonomy_jobs_def Let_def

lemma pruned_missions [frame_simps]:
  "missions (pruned h c1 c2 d) = sql_delete (prunable_mission (retention_cutoff h c1)) (missions d)"
  by (simp add: prune_defs)

lemma pruned_autonomy_jobs [frame_simps]:
  "autonomy_jobs (pruned h c1 c2 d) = sql_delete (prunable_autonomy (retention_cutoff h c1)) (autonomy_jobs d)"
  by (simp add: prune_defs)

lemma pruned_agent_jobs [frame_simps]:
  "agent_jobs (pruned h c1 c2 d) = sql_delete (prunable_agent_job (retention_cutoff h c1)) (agent_jobs d)"
  by (simp add: prune_defs)

lemma pruned_reservations [frame_simps]:
  "reservations (pruned h c1 c2 d) =
     sql_delete (prunable_reservation (retention_cutoff h c1) (utc_day_of c2)) (reservations d)"
  by (simp add: prune_defs)

lemma pruned_baselines [frame_simps]: "baselines (pruned h c1 c2 d) = baselines d"
  by (simp add: prune_defs)

lemma pruned_mission_ledger [frame_simps]:
  "mission_ledger (pruned h c1 c2 d) =
     sql_delete (\<lambda>e. me_mission_id e \<in> m_mission_id ` set (filter (prunable_mission (retention_cutoff h c1)) (missions d)))
       (mission_ledger d)"
  "mission_ledger_seq (pruned h c1 c2 d) = mission_ledger_seq d"
  by (simp_all add: prune_defs)

text \<open>
  The retention window is between one hour and thirty days, whatever the environment says.
\<close>

lemma retention_cutoff_bounds:
  "now - seconds (720 * 3600) \<le> retention_cutoff raw now"
  "retention_cutoff raw now \<le> now - seconds 3600"
  by (auto simp: retention_cutoff_def seconds_def Let_def split: option.splits)

end
