(* ===== verification/Mission_Store.thy ===== *)
theory Mission_Store
  imports Database
begin

text \<open>
  The mission part of \<open>PublicStateStore\<close> (\<open>state.py\<close>) with the lease arithmetic of
  \<open>mission/lease.py\<close>. Each operation is one SQLite transaction: it takes the clock readings the code
  takes, its arguments and the database, and returns the result with the database after the commit
  (the unchanged database after a rollback).
\<close>

subsection \<open>Leases\<close>

definition fence_generation_next :: "int option \<Rightarrow> int" where
  "fence_generation_next current = (case current of None \<Rightarrow> 0 | Some g \<Rightarrow> g) + 1"

text \<open>\<open>lease_expiry_iso(ttl_seconds=ttl)\<close>, reading the clock at \<open>clock\<close>.\<close>

definition lease_expiry :: "instant \<Rightarrow> int \<Rightarrow> instant" where
  "lease_expiry clock ttl = clock + seconds (max 5 ttl)"

definition lease_active :: "instant option \<Rightarrow> instant \<Rightarrow> bool" where
  "lease_active expires_at now = (case expires_at of None \<Rightarrow> False | Some e \<Rightarrow> e > now)"

subsection \<open>Creation and reads\<close>

definition initial_checkpoint :: doc where
  "initial_checkpoint =
     [(''epoch'', JInt 0), (''plan'', JArr []), (''step_cursor'', JInt 0),
      (''previous_checkpoint_hash'', JNull)]"

record create_args =
  cr_mission_id :: string
  cr_job_id :: string
  cr_acceptance_hash :: string
  cr_acceptance_text :: string
  cr_continue_token :: string
  cr_package :: doc
  cr_lease_token :: string
  cr_lease_generation :: int
  cr_lease_expires_at :: instant

definition created_row :: "instant \<Rightarrow> create_args \<Rightarrow> mission_row" where
  "created_row now a =
    \<lparr>m_mission_id = cr_mission_id a, m_job_id = cr_job_id a, m_created_at = now, m_updated_at = now,
     m_status = RUNNING, m_acceptance_hash = cr_acceptance_hash a,
     m_acceptance_text = redact_secrets (cr_acceptance_text a),
     m_continue_token = cr_continue_token a, m_package = Some (redact_dict (cr_package a)),
     m_checkpoint = Some initial_checkpoint, m_checkpoint_version = 0,
     m_lease_token = Some (cr_lease_token a), m_lease_generation = cr_lease_generation a,
     m_lease_expires_at = Some (cr_lease_expires_at a), m_envelope_version = 1,
     m_verify_failures = 0, m_ledger_cursor = 0\<rparr>"

text \<open>\<open>mission_id\<close> is the primary key, \<open>job_id\<close> and \<open>continue_token\<close> are \<open>UNIQUE\<close>.\<close>

definition insert_mission :: "mission_row \<Rightarrow> mission_row list \<Rightarrow> mission_row list option" where
  "insert_mission r t =
    (if row_of m_job_id t (m_job_id r) \<noteq> None \<or> row_of m_continue_token t (m_continue_token r) \<noteq> None
     then None else sql_insert m_mission_id r t)"

definition create_mission ::
  "int option \<Rightarrow> instant \<Rightarrow> instant \<Rightarrow> instant \<Rightarrow> create_args \<Rightarrow> db \<Rightarrow> db_error option \<times> db" where
  "create_mission hours now clock1 clock2 a d =
    (case insert_mission (created_row now a) (missions d) of
       None \<Rightarrow> (Some IntegrityError, d)
     | Some t \<Rightarrow> (None, pruned hours clock1 clock2 (d\<lparr>missions := t\<rparr>)))"

text \<open>\<open>item[key] = json.loads(...)\<close> with \<open>{}\<close> for text that does not decode.\<close>

definition loads_or_empty :: "doc option \<Rightarrow> doc" where
  "loads_or_empty c = (case c of None \<Rightarrow> [] | Some x \<Rightarrow> x)"

definition load_mission :: "string \<Rightarrow> db \<Rightarrow> mission_row option" where
  "load_mission mid d =
    map_option (\<lambda>r. r\<lparr>m_package := Some (loads_or_empty (m_package r)),
                      m_checkpoint := Some (loads_or_empty (m_checkpoint r))\<rparr>) (mission_at d mid)"

definition load_mission_by_job :: "string \<Rightarrow> db \<Rightarrow> mission_row option" where
  "load_mission_by_job job d =
    (case row_of m_job_id (missions d) job of
       None \<Rightarrow> None | Some r \<Rightarrow> load_mission (m_mission_id r) d)"

text \<open>
  \<open>load_mission_by_token\<close> normalises the token and raises \<open>ValueError\<close> (\<open>Inl\<close>) unless it is 32
  lower-case hex digits.
\<close>

definition hex_token :: "string \<Rightarrow> bool" where
  "hex_token s \<longleftrightarrow> length s = 32 \<and> list_all hex_digit s"

definition load_mission_by_token :: "string \<Rightarrow> db \<Rightarrow> py_error + mission_row option" where
  "load_mission_by_token continue_token d =
    (let token = str_lower (str_strip continue_token) in
     if \<not> hex_token token
     then Inl (ValueError ''continue_token must be a 32-character hex token'')
     else Inr (case row_of m_continue_token (missions d) token of
         None \<Rightarrow> None | Some r \<Rightarrow> load_mission (m_mission_id r) d))"

subsection \<open>Claim and heartbeat\<close>

definition same_owner :: "string \<Rightarrow> int option \<Rightarrow> mission_row \<Rightarrow> bool" where
  "same_owner token expect r \<longleftrightarrow> m_lease_token r = Some token \<and> expect = Some (m_lease_generation r)"

definition claimable :: "instant \<Rightarrow> string \<Rightarrow> int option \<Rightarrow> mission_row \<Rightarrow> bool" where
  "claimable now token expect r \<longleftrightarrow>
     m_status r \<in> {QUEUED, WAITING_EVENT, RUNNING, VERIFYING} \<and>
     (same_owner token expect r
      \<or> m_lease_token r = None \<or> m_lease_token r = Some []
      \<or> (case m_lease_expires_at r of None \<Rightarrow> True | Some e \<Rightarrow> e \<le> now))"

definition claimed_row :: "instant \<Rightarrow> instant \<Rightarrow> string \<Rightarrow> int \<Rightarrow> int option \<Rightarrow> mission_row \<Rightarrow> mission_row" where
  "claimed_row now clock token ttl expect r =
    r\<lparr>m_lease_token := Some token,
      m_lease_generation :=
        (if same_owner token expect r then m_lease_generation r else m_lease_generation r + 1),
      m_lease_expires_at := Some (lease_expiry clock ttl),
      m_status := (if m_status r \<in> {QUEUED, WAITING_EVENT} then RUNNING else m_status r),
      m_updated_at := now\<rparr>"

text \<open>
  \<open>claim_mission\<close>: the \<open>UPDATE ... RETURNING lease_generation\<close>, and the report of the current fence
  when it touched no row.
\<close>

definition claim_mission ::
  "instant \<Rightarrow> instant \<Rightarrow> string \<Rightarrow> string \<Rightarrow> int \<Rightarrow> int option \<Rightarrow> db \<Rightarrow> (bool \<times> int) \<times> db" where
  "claim_mission now clock mid token ttl expect d =
    (let P = (\<lambda>r. m_mission_id r = mid \<and> claimable now token expect r);
         f = claimed_row now clock token ttl expect
     in case sql_find P (missions d) of
          Some r \<Rightarrow> ((True, m_lease_generation (f r)), d\<lparr>missions := sql_update P f (missions d)\<rparr>)
        | None \<Rightarrow> ((False, case mission_at d mid of None \<Rightarrow> 0 | Some r \<Rightarrow> m_lease_generation r), d))"

definition owns :: "string \<Rightarrow> int \<Rightarrow> mission_row \<Rightarrow> bool" where
  "owns token generation r \<longleftrightarrow> m_lease_token r = Some token \<and> m_lease_generation r = generation"

definition heartbeat_mission ::
  "instant \<Rightarrow> instant \<Rightarrow> string \<Rightarrow> string \<Rightarrow> int \<Rightarrow> int \<Rightarrow> db \<Rightarrow> bool \<times> db" where
  "heartbeat_mission now clock mid token generation ttl d =
    (let P = (\<lambda>r. m_mission_id r = mid \<and> owns token generation r) in
     (sql_rowcount P (missions d) = 1,
      d\<lparr>missions := sql_update P
          (\<lambda>r. r\<lparr>m_lease_expires_at := Some (lease_expiry clock ttl), m_updated_at := now\<rparr>) (missions d)\<rparr>))"

subsection \<open>Compare-and-swap of the status\<close>

record cas_args =
  ca_mission_id :: string
  ca_expect_status :: string
  ca_expect_version :: int
  ca_expect_generation :: int
  ca_new_status :: string
  ca_expect_token :: "string option"
  ca_clear_lease :: bool
  ca_checkpoint_update :: "doc option"
  ca_bump_verify_failure :: bool

text \<open>The \<open>SELECT\<close> and the guards the code checks in Python on the row it read.\<close>

definition cas_select :: "cas_args \<Rightarrow> db \<Rightarrow> mission_row option" where
  "cas_select a d =
    (case mission_at d (ca_mission_id a) of
       None \<Rightarrow> None
     | Some r \<Rightarrow>
         if status_value (m_status r) \<noteq> ca_expect_status a then None
         else if m_checkpoint_version r \<noteq> ca_expect_version a then None
         else if m_lease_generation r \<noteq> ca_expect_generation a then None
         else Some r)"

definition cas_checkpoint :: "cas_args \<Rightarrow> mission_row \<Rightarrow> doc" where
  "cas_checkpoint a row =
    (case ca_checkpoint_update a of
       None \<Rightarrow> loads_or_empty (m_checkpoint row)
     | Some u \<Rightarrow> if u = [] then loads_or_empty (m_checkpoint row)
                 else dict_merge (loads_or_empty (m_checkpoint row)) (redact_dict u))"

definition cas_where :: "cas_args \<Rightarrow> mission_row \<Rightarrow> bool" where
  "cas_where a r \<longleftrightarrow>
     m_mission_id r = ca_mission_id a \<and> status_value (m_status r) = ca_expect_status a
     \<and> m_checkpoint_version r = ca_expect_version a
     \<and> m_lease_generation r = ca_expect_generation a
     \<and> (case ca_expect_token a of None \<Rightarrow> True | Some t \<Rightarrow> m_lease_token r = Some t)"

definition cas_row :: "instant \<Rightarrow> cas_args \<Rightarrow> mission_status \<Rightarrow> mission_row \<Rightarrow> mission_row \<Rightarrow> mission_row" where
  "cas_row now a new row r =
    (let failures = m_verify_failures row + (if ca_bump_verify_failure a then 1 else 0);
         r' = r\<lparr>m_status := new, m_checkpoint := Some (cas_checkpoint a row),
                m_checkpoint_version := ca_expect_version a + 1,
                m_verify_failures := failures, m_updated_at := now\<rparr>
     in if ca_clear_lease a
        then r'\<lparr>m_lease_token := None, m_lease_expires_at := None,
                m_lease_generation := ca_expect_generation a + 1\<rparr>
        else r')"

text \<open>The second \<open>UPDATE\<close>: a terminal mission settles its autonomy job in the same transaction.\<close>

definition settle_autonomy :: "instant \<Rightarrow> mission_status \<Rightarrow> string \<Rightarrow> db \<Rightarrow> db" where
  "settle_autonomy now new job d =
    (if new \<in> set TERMINAL_STATUSES
     then d\<lparr>autonomy_jobs := sql_update (\<lambda>j. a_job_id j = job)
         (\<lambda>j. j\<lparr>a_status := (if new = COMPLETE then ''committed'' else ''terminal''),
                a_updated_at := now\<rparr>) (autonomy_jobs d)\<rparr>
     else d)"

definition cas_update :: "instant \<Rightarrow> cas_args \<Rightarrow> mission_row \<Rightarrow> db \<Rightarrow> bool \<times> db" where
  "cas_update now a row d =
    (case parse_status (ca_new_status a) of
       None \<Rightarrow> (False, d)
     | Some new \<Rightarrow>
         let changed = (sql_rowcount (cas_where a) (missions d) = 1);
             d1 = d\<lparr>missions := sql_update (cas_where a) (cas_row now a new row) (missions d)\<rparr>
         in (changed, if changed then settle_autonomy now new (m_job_id row) d1 else d1))"

definition cas_mission_status :: "instant \<Rightarrow> cas_args \<Rightarrow> db \<Rightarrow> bool \<times> db" where
  "cas_mission_status now a d =
    (if \<not> legal_transition (ca_expect_status a) (ca_new_status a) then (False, d)
     else case cas_select a d of
        None \<Rightarrow> (False, d)
      | Some row \<Rightarrow> cas_update now a row d)"

subsection \<open>Writes under the lease\<close>

definition touch_mission_envelope ::
  "instant \<Rightarrow> string \<Rightarrow> int \<Rightarrow> string \<Rightarrow> int \<Rightarrow> db \<Rightarrow> bool \<times> db" where
  "touch_mission_envelope now mid envelope_version token generation d =
    (let P = (\<lambda>r. m_mission_id r = mid \<and> owns token generation r \<and> \<not> mission_terminal r) in
     case sql_find P (missions d) of
       None \<Rightarrow> (False, d)
     | Some row \<Rightarrow>
         let current = (if m_envelope_version row = 0 then 1 else m_envelope_version row);
             new_v = max current envelope_version;
             package = AList.update ''bound_envelope_version'' (JInt new_v) (loads_or_empty (m_package row))
         in (sql_rowcount P (missions d) = 1,
             d\<lparr>missions := sql_update P
                 (\<lambda>r. r\<lparr>m_envelope_version := new_v, m_package := Some (redact_dict package),
                        m_updated_at := now\<rparr>) (missions d)\<rparr>))"

text \<open>
  The ownership test of the ledger and artifact writes: no lease arguments at all, or both of them
  naming the current lease. \<open>None\<close> in one of them alone is refused.
\<close>

definition lease_admits :: "string \<Rightarrow> string option \<Rightarrow> int option \<Rightarrow> db \<Rightarrow> bool" where
  "lease_admits mid token generation d =
    (case (token, generation) of
       (None, None) \<Rightarrow> True
     | (Some t, Some g) \<Rightarrow> sql_find (\<lambda>r. m_mission_id r = mid \<and> owns t g r) (missions d) \<noteq> None
     | _ \<Rightarrow> False)"

definition append_mission_event ::
  "instant \<Rightarrow> string \<Rightarrow> string \<Rightarrow> doc \<Rightarrow> string option \<Rightarrow> int option \<Rightarrow> db \<Rightarrow> (db_error + int) \<times> db" where
  "append_mission_event now mid event_type payload token generation d =
    (if \<not> lease_admits mid token generation d then (Inr 0, d)
     else if mission_at d mid = None then (Inl IntegrityError, d)
     else let event_id = mission_ledger_seq d + 1 in
       (Inr event_id,
        d\<lparr>mission_ledger := mission_ledger d @
            [\<lparr>me_id = event_id, me_mission_id = mid, me_event_type = event_type,
              me_payload = redact_dict payload, me_created_at = now\<rparr>],
          mission_ledger_seq := event_id,
          missions := sql_update (\<lambda>r. m_mission_id r = mid)
            (\<lambda>r. r\<lparr>m_ledger_cursor := event_id, m_updated_at := now\<rparr>) (missions d)\<rparr>))"

definition put_mission_artifact ::
  "instant \<Rightarrow> string \<Rightarrow> string \<Rightarrow> string \<Rightarrow> string \<Rightarrow> string \<Rightarrow> string option \<Rightarrow> int option \<Rightarrow> db \<Rightarrow>
   (db_error + bool) \<times> db" where
  "put_mission_artifact now mid digest kind sealed projection token generation d =
    (if \<not> lease_admits mid token generation d then (Inr False, d)
     else case sql_insert ma_hash
         \<lparr>ma_hash = digest, ma_mission_id = mid, ma_kind = kind, ma_sealed = redact_secrets sealed,
          ma_projection = redact_secrets projection, ma_created_at = now\<rparr> (mission_artifacts d) of
       None \<Rightarrow> (Inr True, d)
     | Some t \<Rightarrow> if mission_at d mid = None then (Inl IntegrityError, d)
                 else (Inr True, d\<lparr>mission_artifacts := t\<rparr>))"

definition get_mission_artifact :: "string \<Rightarrow> db \<Rightarrow> mission_artifact_row option" where
  "get_mission_artifact digest d = row_of ma_hash (mission_artifacts d) digest"

definition append_mission_evidence ::
  "instant \<Rightarrow> string \<Rightarrow> string \<Rightarrow> string \<Rightarrow> doc \<Rightarrow> string list \<Rightarrow> int \<Rightarrow> string option \<Rightarrow> db \<Rightarrow> bool \<times> db" where
  "append_mission_evidence now mid klass digest payload refs generation token d =
    (case mission_at d mid of
       None \<Rightarrow> (False, d)
     | Some row \<Rightarrow>
         if m_lease_generation row \<noteq> generation then (False, d)
         else if (case token of None \<Rightarrow> False
                  | Some t \<Rightarrow> (case m_lease_token row of None \<Rightarrow> [] | Some x \<Rightarrow> x) \<noteq> t) then (False, d)
         else if sql_find (\<lambda>e. ev_mission_id e = mid \<and> ev_digest e = digest) (mission_evidence d) \<noteq> None
         then (True, d)
         else let eid = mission_evidence_seq d + 1 in
           (True, d\<lparr>mission_evidence := mission_evidence d @
               [\<lparr>ev_id = eid, ev_mission_id = mid, ev_class = klass, ev_digest = digest,
                 ev_payload = redact_dict payload, ev_artifact_refs = refs,
                 ev_lease_generation = generation, ev_created_at = now\<rparr>],
             mission_evidence_seq := eid\<rparr>))"

definition list_mission_evidence :: "string \<Rightarrow> db \<Rightarrow> mission_evidence_row list" where
  "list_mission_evidence mid d = filter (\<lambda>e. ev_mission_id e = mid) (mission_evidence d)"

definition put_mission_side_effect ::
  "instant \<Rightarrow> string \<Rightarrow> string \<Rightarrow> doc \<Rightarrow> int \<Rightarrow> db \<Rightarrow> bool \<times> db" where
  "put_mission_side_effect now quantum_key mid receipt generation d =
    (case mission_at d mid of
       None \<Rightarrow> (False, d)
     | Some row \<Rightarrow>
         if m_lease_generation row \<noteq> generation then (False, d)
         else case sql_insert se_quantum_key
             \<lparr>se_quantum_key = quantum_key, se_mission_id = mid, se_receipt = redact_dict receipt,
              se_lease_generation = generation, se_created_at = now\<rparr> (mission_side_effects d) of
           None \<Rightarrow> (True, d)
         | Some t \<Rightarrow> (True, d\<lparr>mission_side_effects := t\<rparr>))"

subsection \<open>Expired leases\<close>

text \<open>The columns \<open>list_expired_mission_leases\<close> selects.\<close>

record expired_row =
  x_mission_id :: string
  x_status :: string
  x_checkpoint_version :: int
  x_lease_generation :: int
  x_lease_expires_at :: "instant option"

definition lease_expired :: "instant \<Rightarrow> mission_row \<Rightarrow> bool" where
  "lease_expired now r \<longleftrightarrow>
     (case m_lease_expires_at r of None \<Rightarrow> False | Some e \<Rightarrow> e < now) \<and> \<not> mission_terminal r"

definition project_expired :: "mission_row \<Rightarrow> expired_row" where
  "project_expired r =
    \<lparr>x_mission_id = m_mission_id r, x_status = status_value (m_status r),
     x_checkpoint_version = m_checkpoint_version r, x_lease_generation = m_lease_generation r,
     x_lease_expires_at = m_lease_expires_at r\<rparr>"

definition list_expired_mission_leases :: "instant \<Rightarrow> int \<Rightarrow> db \<Rightarrow> expired_row list" where
  "list_expired_mission_leases now limit d =
    (let bounded = max 1 (min limit 200) in
     map project_expired
       (take (nat bounded) (sort_key m_updated_at (filter (lease_expired now) (missions d)))))"

definition requeue_expired_mission ::
  "instant \<Rightarrow> string \<Rightarrow> string \<Rightarrow> int \<Rightarrow> int \<Rightarrow> instant \<Rightarrow> db \<Rightarrow> bool \<times> db" where
  "requeue_expired_mission now mid expect_status expect_version expect_generation expect_expires d =
    (if \<not> legal_transition expect_status (status_value QUEUED) then (False, d)
     else let P = (\<lambda>r. m_mission_id r = mid \<and> status_value (m_status r) = expect_status
                 \<and> m_checkpoint_version r = expect_version \<and> m_lease_generation r = expect_generation
                 \<and> m_lease_expires_at r = Some expect_expires \<and> expect_expires < now)
     in (sql_rowcount P (missions d) = 1,
         d\<lparr>missions := sql_update P
             (\<lambda>r. r\<lparr>m_status := QUEUED, m_checkpoint_version := m_checkpoint_version r + 1,
                    m_lease_token := None, m_lease_expires_at := None,
                    m_lease_generation := m_lease_generation r + 1, m_updated_at := now\<rparr>)
             (missions d)\<rparr>))"

end
