(* ===== verification/Mission_Fencing.thy ===== *)
theory Mission_Fencing
  imports Mission_Store
begin

text \<open>
  What every interleaving of store operations keeps. \<open>mission_op\<close> is one committed transaction with
  its arguments, \<open>exec\<close> runs it, \<open>run\<close> runs a sequence: any interleaving of any number of workers
  and processes is one such sequence, since SQLite serialises the writers. \<open>row_evolves\<close> is the
  contract of all of them for one mission row; it is reflexive and transitive, so it holds along
  any run.
\<close>

datatype mission_op =
    Create "int option" instant instant instant create_args
  | Claim instant instant string string int "int option"
  | Heartbeat instant instant string string int int
  | Cas instant cas_args
  | Touch instant string int string int
  | Event instant string string doc "string option" "int option"
  | Artifact instant string string string string string "string option" "int option"
  | Evidence instant string string string doc "string list" int "string option"
  | SideEffect instant string string doc int
  | Requeue instant string string int int instant
  | Prune "int option" instant instant

fun exec :: "mission_op \<Rightarrow> db \<Rightarrow> db" where
  "exec (Create h now c1 c2 a) d = snd (create_mission h now c1 c2 a d)"
| "exec (Claim now clock mid tok ttl expect) d = snd (claim_mission now clock mid tok ttl expect d)"
| "exec (Heartbeat now clock mid tok gen ttl) d = snd (heartbeat_mission now clock mid tok gen ttl d)"
| "exec (Cas now a) d = snd (cas_mission_status now a d)"
| "exec (Touch now mid v tok gen) d = snd (touch_mission_envelope now mid v tok gen d)"
| "exec (Event now mid ty p tok gen) d = snd (append_mission_event now mid ty p tok gen d)"
| "exec (Artifact now mid dg k s p tok gen) d = snd (put_mission_artifact now mid dg k s p tok gen d)"
| "exec (Evidence now mid k dg p refs gen tok) d = snd (append_mission_evidence now mid k dg p refs gen tok d)"
| "exec (SideEffect now q mid rc gen) d = snd (put_mission_side_effect now q mid rc gen d)"
| "exec (Requeue now mid st v gen e) d = snd (requeue_expired_mission now mid st v gen e d)"
| "exec (Prune h c1 c2) d = pruned h c1 c2 d"

definition run :: "mission_op list \<Rightarrow> db \<Rightarrow> db" where
  "run ops d = fold exec ops d"

lemma run_Nil [simp]: "run [] d = d"
  and run_Cons [simp]: "run (x # ops) d = run ops (exec x d)"
  by (simp_all add: run_def)

fun creates :: "string \<Rightarrow> mission_op \<Rightarrow> bool" where
  "creates mid (Create h now c1 c2 a) = (cr_mission_id a = mid)"
| "creates mid _ = False"

subsection \<open>The contract of one row\<close>

definition row_evolves :: "mission_row \<Rightarrow> mission_row \<Rightarrow> bool" where
  "row_evolves r r' \<longleftrightarrow>
     m_mission_id r' = m_mission_id r \<and> m_job_id r' = m_job_id r
     \<and> m_continue_token r' = m_continue_token r
     \<and> m_acceptance_hash r' = m_acceptance_hash r \<and> m_acceptance_text r' = m_acceptance_text r
     \<and> allowed_step\<^sup>*\<^sup>* (m_status r) (m_status r')
     \<and> m_checkpoint_version r \<le> m_checkpoint_version r'
     \<and> (m_checkpoint_version r' = m_checkpoint_version r \<longrightarrow>
          m_checkpoint r' = m_checkpoint r \<and> m_verify_failures r' = m_verify_failures r)
     \<and> m_lease_generation r \<le> m_lease_generation r'
     \<and> (m_lease_generation r' = m_lease_generation r \<longrightarrow> m_lease_token r' = m_lease_token r)
     \<and> m_verify_failures r \<le> m_verify_failures r'
     \<and> m_envelope_version r \<le> m_envelope_version r'
     \<and> (mission_terminal r \<longrightarrow>
          m_status r' = m_status r \<and> m_checkpoint_version r' = m_checkpoint_version r
          \<and> m_lease_generation r' = m_lease_generation r)"

lemma row_evolves_refl [simp]: "row_evolves r r"
  by (simp add: row_evolves_def)

lemma row_evolves_trans:
  assumes "row_evolves r s" "row_evolves s t"
  shows "row_evolves r t"
proof -
  have "allowed_step\<^sup>*\<^sup>* (m_status r) (m_status t)"
    using assms by (meson row_evolves_def rtranclp_trans)
  moreover have "mission_terminal r \<Longrightarrow> mission_terminal s"
    using assms(1) by (simp add: row_evolves_def mission_terminal_def)
  ultimately show ?thesis
    using assms unfolding row_evolves_def by auto
qed

lemma allowed_claim: "s \<in> {QUEUED, WAITING_EVENT} \<Longrightarrow> allowed_step s RUNNING"
  by (auto simp: allowed_step_def ALLOWED_def TERMINAL_STATUSES_def)

lemma claimed_row_id [simp]: "m_mission_id (claimed_row now clock tok ttl expect r) = m_mission_id r"
  by (simp add: claimed_row_def)

lemma cas_row_id [simp]: "m_mission_id (cas_row now a new row r) = m_mission_id r"
  by (simp add: cas_row_def Let_def)

definition requeued_row :: "instant \<Rightarrow> mission_row \<Rightarrow> mission_row" where
  "requeued_row now r =
     r\<lparr>m_status := QUEUED, m_checkpoint_version := m_checkpoint_version r + 1,
       m_lease_token := None, m_lease_expires_at := None,
       m_lease_generation := m_lease_generation r + 1, m_updated_at := now\<rparr>"

text \<open>
  What one operation can do to one row: nothing, or the change its \<open>UPDATE\<close> writes under its
  \<open>WHERE\<close> clause.
\<close>

inductive row_step :: "mission_op \<Rightarrow> mission_row \<Rightarrow> mission_row \<Rightarrow> bool" where
  same: "row_step x r r"
| claim: "m_mission_id r = mid \<Longrightarrow> claimable now tok expect r \<Longrightarrow>
    row_step (Claim now clock mid tok ttl expect) r (claimed_row now clock tok ttl expect r)"
| heartbeat: "m_mission_id r = mid \<Longrightarrow> owns tok gen r \<Longrightarrow>
    row_step (Heartbeat now clock mid tok gen ttl) r
      (r\<lparr>m_lease_expires_at := Some (lease_expiry clock ttl), m_updated_at := now\<rparr>)"
| cas: "legal_transition (ca_expect_status a) (ca_new_status a) \<Longrightarrow>
    parse_status (ca_new_status a) = Some new \<Longrightarrow> cas_where a r \<Longrightarrow>
    row_step (Cas now a) r (cas_row now a new r r)"
| touch: "m_mission_id r = mid \<Longrightarrow> owns tok gen r \<Longrightarrow> \<not> mission_terminal r \<Longrightarrow>
    m_envelope_version r \<le> v' \<Longrightarrow> v \<le> v' \<Longrightarrow>
    row_step (Touch now mid v tok gen) r
      (r\<lparr>m_envelope_version := v', m_package := p, m_updated_at := now\<rparr>)"
| event: "m_mission_id r = mid \<Longrightarrow>
    row_step (Event now mid ty p tok gen) r (r\<lparr>m_ledger_cursor := c, m_updated_at := now\<rparr>)"
| requeue: "m_mission_id r = mid \<Longrightarrow> legal_transition st (status_value QUEUED) \<Longrightarrow>
    status_value (m_status r) = st \<Longrightarrow> m_checkpoint_version r = v \<Longrightarrow> m_lease_generation r = gen \<Longrightarrow>
    m_lease_expires_at r = Some e \<Longrightarrow> e < now \<Longrightarrow>
    row_step (Requeue now mid st v gen e) r (requeued_row now r)"

lemma row_step_evolves: "row_step x r r' \<Longrightarrow> row_evolves r r'"
proof (induction rule: row_step.induct)
  case (claim r mid now tok expect clock ttl)
  then show ?case
    by (auto simp: row_evolves_def claimable_def claimed_row_def same_owner_def mission_terminal_def
        TERMINAL_STATUSES_def intro: allowed_claim)
next
  case (cas a new r now)
  then have "allowed_step (m_status r) new"
    by (auto simp: legal_transition_iff parse_status_Some cas_where_def)
  moreover from this have "\<not> mission_terminal r"
    by (auto simp: mission_terminal_def allowed_step_terminal)
  ultimately show ?case
    using cas by (auto simp: row_evolves_def cas_row_def cas_where_def Let_def)
next
  case (requeue r mid st v gen e now)
  then have "allowed_step (m_status r) QUEUED" by auto
  moreover from this have "\<not> mission_terminal r"
    by (auto simp: mission_terminal_def allowed_step_terminal)
  ultimately show ?case by (auto simp: row_evolves_def requeued_row_def)
qed (auto simp: row_evolves_def)

text \<open>Only a compare-and-swap writes a status other than \<open>RUNNING\<close> and \<open>QUEUED\<close>.\<close>

lemma row_step_status:
  "row_step x r r' \<Longrightarrow> m_status r' \<notin> {m_status r, RUNNING, QUEUED} \<Longrightarrow>
   \<exists>now a. x = Cas now a \<and> cas_where a r \<and> allowed_step (m_status r) (m_status r')"
proof (induction rule: row_step.induct)
  case (cas a new r now)
  then show ?case
    by (auto simp: legal_transition_iff parse_status_Some cas_where_def cas_row_def Let_def)
qed (auto simp: claimed_row_def requeued_row_def split: if_splits)

subsection \<open>Every operation keeps it\<close>

text \<open>The missions after one operation, for a mission the operation does not create.\<close>

definition mission_frame :: "(mission_row \<Rightarrow> mission_row \<Rightarrow> bool) \<Rightarrow> string \<Rightarrow> db \<Rightarrow> db \<Rightarrow> bool" where
  "mission_frame R mid d d' \<longleftrightarrow>
     (\<forall>r'. mission_at d' mid = Some r' \<longrightarrow> (\<exists>r. mission_at d mid = Some r \<and> R r r'))"

lemma mission_frame_update:
  assumes "\<And>r. r \<in> set (missions d) \<Longrightarrow> P r \<Longrightarrow> row_step x r (f r)"
    and "\<And>r. P r \<Longrightarrow> m_mission_id (f r) = m_mission_id r"
    and "missions d' = sql_update P f (missions d)"
  shows "mission_frame (row_step x) mid d d'"
  using assms by (auto simp: mission_frame_def table_simps intro: row_step.same dest: row_of_Some)

lemma mission_frame_same: "missions d' = missions d \<Longrightarrow> mission_frame (row_step x) mid d d'"
  by (auto simp: mission_frame_def intro: row_step.same)

lemma mission_frame_delete:
  "keyed m_mission_id (missions d) \<Longrightarrow> missions d' = sql_delete P (missions d) \<Longrightarrow>
   mission_frame (row_step x) mid d d'"
  by (auto simp: mission_frame_def table_simps intro: row_step.same split: option.splits if_splits)

lemma claim_frame:
  "mission_frame (row_step (Claim now clock m tok ttl expect)) mid d
     (snd (claim_mission now clock m tok ttl expect d))"
proof (cases "sql_find (\<lambda>r. m_mission_id r = m \<and> claimable now tok expect r) (missions d)")
  case None
  then show ?thesis by (simp add: claim_mission_def mission_frame_same)
next
  case (Some r)
  then show ?thesis
    by (intro mission_frame_update [where P = "\<lambda>r. m_mission_id r = m \<and> claimable now tok expect r"
          and f = "claimed_row now clock tok ttl expect"])
      (auto simp: claim_mission_def Let_def intro: row_step.claim)
qed

lemma heartbeat_frame:
  "mission_frame (row_step (Heartbeat now clock m tok gen ttl)) mid d
     (snd (heartbeat_mission now clock m tok gen ttl d))"
  unfolding heartbeat_mission_def Let_def
  by (rule mission_frame_update [where P = "\<lambda>r. m_mission_id r = m \<and> owns tok gen r"
        and f = "\<lambda>r. r\<lparr>m_lease_expires_at := Some (lease_expiry clock ttl), m_updated_at := now\<rparr>"])
    (auto intro: row_step.heartbeat)

lemma cas_select_Some:
  "cas_select a d = Some row \<Longrightarrow>
     mission_at d (ca_mission_id a) = Some row \<and> status_value (m_status row) = ca_expect_status a
     \<and> m_checkpoint_version row = ca_expect_version a \<and> m_lease_generation row = ca_expect_generation a"
  by (auto simp: cas_select_def split: option.splits if_splits)

lemma settle_autonomy_missions [frame_simps]:
  "missions (settle_autonomy now new job d) = missions d"
  by (simp add: settle_autonomy_def)

lemma cas_update_missions:
  "parse_status (ca_new_status a) = Some new \<Longrightarrow>
   missions (snd (cas_update now a row d)) = sql_update (cas_where a) (cas_row now a new row) (missions d)"
  by (simp add: cas_update_def Let_def frame_simps)

lemma cas_frame:
  assumes "keyed m_mission_id (missions d)"
  shows "mission_frame (row_step (Cas now a)) mid d (snd (cas_mission_status now a d))"
proof (cases "legal_transition (ca_expect_status a) (ca_new_status a)")
  case False
  then show ?thesis by (simp add: cas_mission_status_def mission_frame_same)
next
  case True
  then obtain new where new: "parse_status (ca_new_status a) = Some new"
    by (auto simp: legal_transition_iff)
  show ?thesis
  proof (cases "cas_select a d")
    case None
    with True show ?thesis by (simp add: cas_mission_status_def mission_frame_same)
  next
    case (Some row)
    note row = cas_select_Some [OF Some]
    have same: "r = row" if "r \<in> set (missions d)" "cas_where a r" for r
      using that keyed_row_of [OF assms, of r] row by (auto simp: cas_where_def)
    have "mission_frame (row_step (Cas now a)) mid d (snd (cas_update now a row d))"
      using same by (intro mission_frame_update [OF _ _ cas_update_missions [OF new]])
        (auto intro: row_step.cas [OF True new])
    with True Some show ?thesis by (simp add: cas_mission_status_def)
  qed
qed

lemma touch_frame:
  assumes "keyed m_mission_id (missions d)"
  shows "mission_frame (row_step (Touch now m v tok gen)) mid d
     (snd (touch_mission_envelope now m v tok gen d))"
proof (cases "sql_find (\<lambda>r. m_mission_id r = m \<and> owns tok gen r \<and> \<not> mission_terminal r) (missions d)")
  case None
  then show ?thesis by (simp add: touch_mission_envelope_def mission_frame_same)
next
  case (Some row)
  have "r = row" if "r \<in> set (missions d)" "m_mission_id r = m" for r
    using sql_find_keyed [OF assms Some] that by simp
  then show ?thesis
    using Some
    by (intro mission_frame_update [where P = "\<lambda>r. m_mission_id r = m \<and> owns tok gen r \<and> \<not> mission_terminal r"])
      (auto simp: touch_mission_envelope_def Let_def intro!: row_step.touch)
qed

lemma event_frame:
  "mission_frame (row_step (Event now m ty p tok gen)) mid d
     (snd (append_mission_event now m ty p tok gen d))"
proof (cases "lease_admits m tok gen d \<and> mission_at d m \<noteq> None")
  case True
  then show ?thesis
    by (intro mission_frame_update [where P = "\<lambda>r. m_mission_id r = m"
          and f = "\<lambda>r. r\<lparr>m_ledger_cursor := mission_ledger_seq d + 1, m_updated_at := now\<rparr>"])
      (auto simp: append_mission_event_def Let_def intro: row_step.event)
next
  case False
  then show ?thesis by (auto simp: append_mission_event_def intro: mission_frame_same)
qed

lemma requeue_frame:
  "mission_frame (row_step (Requeue now m st v gen e)) mid d
     (snd (requeue_expired_mission now m st v gen e d))"
proof (cases "legal_transition st (status_value QUEUED)")
  case False
  then show ?thesis by (simp add: requeue_expired_mission_def mission_frame_same)
next
  case True
  let ?P = "\<lambda>r. m_mission_id r = m \<and> status_value (m_status r) = st \<and> m_checkpoint_version r = v
      \<and> m_lease_generation r = gen \<and> m_lease_expires_at r = Some e \<and> e < now"
  have "missions (snd (requeue_expired_mission now m st v gen e d)) =
      sql_update ?P (requeued_row now) (missions d)"
    using True by (simp add: requeue_expired_mission_def Let_def requeued_row_def [abs_def])
  then show ?thesis
    by (rule mission_frame_update [rotated -1])
      (use True in \<open>auto simp: requeued_row_def intro: row_step.requeue [unfolded requeued_row_def]\<close>)
qed

lemma create_frame:
  assumes "keyed m_mission_id (missions d)" "cr_mission_id a \<noteq> mid"
  shows "mission_frame (row_step x) mid d (snd (create_mission h now c1 c2 a d))"
proof (cases "insert_mission (created_row now a) (missions d)")
  case None
  then show ?thesis by (simp add: create_mission_def mission_frame_same)
next
  case (Some t)
  then have ins: "sql_insert m_mission_id (created_row now a) (missions d) = Some t"
    by (simp add: insert_mission_def split: if_splits)
  have "keyed m_mission_id t"
    using assms(1) ins by (rule keyed_insert)
  then show ?thesis
    using Some assms(2) row_of_insert [OF ins, of mid]
    by (auto simp: create_mission_def mission_frame_def frame_simps table_simps created_row_def
        intro: row_step.same split: option.splits if_splits)
qed

text \<open>The remaining operations leave the missions table alone.\<close>

lemma artifact_missions [frame_simps]:
  "missions (snd (put_mission_artifact now m dg k s p tok gen d)) = missions d"
  by (auto simp: put_mission_artifact_def split: option.splits)

lemma evidence_missions [frame_simps]:
  "missions (snd (append_mission_evidence now m k dg p refs gen tok d)) = missions d"
  by (auto simp: append_mission_evidence_def Let_def split: option.splits)

lemma side_effect_missions [frame_simps]:
  "missions (snd (put_mission_side_effect now q m rc gen d)) = missions d"
  by (auto simp: put_mission_side_effect_def split: option.splits)

lemma exec_frame:
  assumes "keyed m_mission_id (missions d)" "\<not> creates mid x"
  shows "mission_frame (row_step x) mid d (exec x d)"
proof (cases x)
  case (Create h now c1 c2 a)
  with assms show ?thesis by (simp add: create_frame)
next
  case (Prune h c1 c2)
  with assms(1) show ?thesis by (auto intro: mission_frame_delete simp: frame_simps)
qed (use assms(1) in \<open>simp_all add: claim_frame heartbeat_frame cas_frame touch_frame event_frame
       requeue_frame mission_frame_same frame_simps\<close>)

subsection \<open>Primary keys along a run\<close>

lemma claim_keyed:
  "keyed m_mission_id (missions d) \<Longrightarrow> keyed m_mission_id (missions (snd (claim_mission now clock m tok ttl expect d)))"
  by (auto simp: claim_mission_def Let_def intro!: keyed_update split: option.splits)

lemma cas_keyed:
  "keyed m_mission_id (missions d) \<Longrightarrow> keyed m_mission_id (missions (snd (cas_mission_status now a d)))"
  by (auto simp: cas_mission_status_def cas_update_def Let_def frame_simps cas_row_def intro!: keyed_update
      split: option.splits)

lemma create_keyed:
  "keyed m_mission_id (missions d) \<Longrightarrow> keyed m_mission_id (missions (snd (create_mission h now c1 c2 a d)))"
  by (auto simp: create_mission_def insert_mission_def frame_simps intro!: keyed_delete
      intro: keyed_insert split: option.splits if_splits)

lemma exec_keyed: "keyed m_mission_id (missions d) \<Longrightarrow> keyed m_mission_id (missions (exec x d))"
  by (cases x)
    (auto simp: frame_simps claim_keyed cas_keyed create_keyed heartbeat_mission_def
      touch_mission_envelope_def append_mission_event_def requeue_expired_mission_def Let_def
      intro!: keyed_update keyed_delete split: option.splits)

lemma run_keyed: "keyed m_mission_id (missions d) \<Longrightarrow> keyed m_mission_id (missions (run ops d))"
  by (induction ops arbitrary: d) (auto intro: exec_keyed)

lemma run_frame:
  assumes "keyed m_mission_id (missions d)" "list_all (\<lambda>x. \<not> creates mid x) ops"
  shows "mission_frame row_evolves mid d (run ops d)"
  using assms
proof (induction ops arbitrary: d)
  case Nil
  then show ?case by (simp add: mission_frame_def)
next
  case (Cons x ops)
  then have "mission_frame (row_step x) mid d (exec x d)"
    and "mission_frame row_evolves mid (exec x d) (run ops (exec x d))"
    by (simp_all add: exec_frame exec_keyed)
  then show ?case unfolding mission_frame_def run_Cons by (meson row_evolves_trans row_step_evolves)
qed

lemma run_row_evolves:
  assumes "keyed m_mission_id (missions d)" "list_all (\<lambda>x. \<not> creates mid x) ops"
    and "mission_at d mid = Some r" "mission_at (run ops d) mid = Some r'"
  shows "row_evolves r r'"
  using run_frame [OF assms(1,2)] assms(3,4) by (auto simp: mission_frame_def)

subsection \<open>Ownership once lost is lost for good\<close>

lemma not_owns_evolves:
  "row_evolves r r' \<Longrightarrow> generation \<le> m_lease_generation r \<Longrightarrow> \<not> owns token generation r \<Longrightarrow>
   \<not> owns token generation r'"
  by (auto simp: row_evolves_def owns_def)

lemma no_row_matches:
  assumes "keyed m_mission_id (missions d)"
    and "\<And>r. mission_at d mid = Some r \<Longrightarrow> \<not> Q r" and "\<And>r. P r \<Longrightarrow> m_mission_id r = mid \<and> Q r"
  shows "sql_update P f (missions d) = missions d" "sql_find P (missions d) = None"
    "sql_rowcount P (missions d) = 0"
proof -
  have none: "\<not> P r" if "r \<in> set (missions d)" for r
    using keyed_row_of [OF assms(1) that] assms(2,3) by auto
  then show "sql_update P f (missions d) = missions d" by (rule sql_update_id)
  from none show "sql_find P (missions d) = None" "sql_rowcount P (missions d) = 0"
    by (auto simp: sql_find_None rowcount_zero)
qed

text \<open>The writes a worker makes under the lease it was given.\<close>

fun fenced_by :: "string \<Rightarrow> int \<Rightarrow> string \<Rightarrow> mission_op \<Rightarrow> bool" where
  "fenced_by tok gen mid (Heartbeat now clock m t g ttl) = (m = mid \<and> t = tok \<and> g = gen)"
| "fenced_by tok gen mid (Cas now a) =
     (ca_mission_id a = mid \<and> ca_expect_token a = Some tok \<and> ca_expect_generation a = gen)"
| "fenced_by tok gen mid (Touch now m v t g) = (m = mid \<and> t = tok \<and> g = gen)"
| "fenced_by tok gen mid (Event now m ty p t g) = (m = mid \<and> t = Some tok \<and> g = Some gen)"
| "fenced_by tok gen mid (Artifact now m dg k s p t g) = (m = mid \<and> t = Some tok \<and> g = Some gen)"
| "fenced_by tok gen mid (Evidence now m k dg p refs g t) =
     (m = mid \<and> t = Some tok \<and> g = gen \<and> tok \<noteq> [])"
| "fenced_by tok gen mid _ = False"

lemma cas_update_no_match:
  assumes "keyed m_mission_id (missions d)"
    and "\<And>r. mission_at d (ca_mission_id a) = Some r \<Longrightarrow> \<not> cas_where a r"
  shows "cas_update now a row d = (False, d)"
  using no_row_matches [OF assms(1), where mid = "ca_mission_id a" and Q = "cas_where a" and P = "cas_where a"] assms(2)
  by (auto simp: cas_update_def Let_def cas_where_def split: option.splits)

lemma fenced_write_no_owner:
  assumes key: "keyed m_mission_id (missions d)"
    and lost: "\<And>r. mission_at d mid = Some r \<Longrightarrow> \<not> owns tok gen r"
    and x: "fenced_by tok gen mid x"
  shows "exec x d = d"
proof (cases x)
  case (Heartbeat now clock m t g ttl)
  with x no_row_matches [OF key, where mid = mid and Q = "owns tok gen" and P = "\<lambda>r. m_mission_id r = mid \<and> owns tok gen r"] lost
  show ?thesis by (simp add: heartbeat_mission_def Let_def)
next
  case (Cas now a)
  with x lost have "\<not> cas_where a r" if "mission_at d (ca_mission_id a) = Some r" for r
    using that by (auto simp: cas_where_def owns_def)
  with Cas key show ?thesis
    by (auto simp: cas_mission_status_def cas_update_no_match split: option.splits)
next
  case (Touch now m v t g)
  with x no_row_matches(2) [OF key, where mid = mid and Q = "owns tok gen" and P = "\<lambda>r. m_mission_id r = mid \<and> owns tok gen r \<and> \<not> mission_terminal r"] lost
  show ?thesis by (simp add: touch_mission_envelope_def Let_def)
next
  case (Event now m ty p t g)
  with x no_row_matches(2) [OF key, where mid = mid and Q = "owns tok gen" and P = "\<lambda>r. m_mission_id r = mid \<and> owns tok gen r"] lost
  show ?thesis by (simp add: append_mission_event_def lease_admits_def)
next
  case (Artifact now m dg k s p t g)
  with x no_row_matches(2) [OF key, where mid = mid and Q = "owns tok gen" and P = "\<lambda>r. m_mission_id r = mid \<and> owns tok gen r"] lost
  show ?thesis by (simp add: put_mission_artifact_def lease_admits_def)
next
  case (Evidence now m k dg p refs g t)
  with x lost show ?thesis
    by (auto simp: append_mission_evidence_def owns_def split: option.splits)
qed (use x in simp_all)

lemma exec_row_step:
  assumes "keyed m_mission_id (missions d)" "mission_at d mid = Some r" "mission_at (exec x d) mid = Some r'"
  shows "row_step x r r'"
proof (cases "creates mid x")
  case False
  with exec_frame [OF assms(1) False] assms(2,3) show ?thesis by (auto simp: mission_frame_def)
next
  case True
  then obtain h now c1 c2 a where x: "x = Create h now c1 c2 a" "cr_mission_id a = mid"
    by (cases x) auto
  with assms(2) have "insert_mission (created_row now a) (missions d) = None"
    by (simp add: insert_mission_def sql_insert_def created_row_def)
  with assms(2,3) x show ?thesis by (simp add: create_mission_def row_step.same)
qed

lemma stale_lease_fenced:
  assumes "keyed m_mission_id (missions d)" "list_all (\<lambda>x. \<not> creates mid x) ops"
    and "mission_at d mid = Some r" "gen \<le> m_lease_generation r" "\<not> owns tok gen r"
    and "fenced_by tok gen mid x"
  shows "exec x (run ops d) = run ops d"
proof (rule fenced_write_no_owner [OF run_keyed [OF assms(1)] _ assms(6)])
  fix r'
  assume "mission_at (run ops d) mid = Some r'"
  with run_row_evolves [OF assms(1-3)] have "row_evolves r r'" .
  then show "\<not> owns tok gen r'" using assms(4,5) by (rule not_owns_evolves)
qed

lemma claim_mission_cases:
  assumes "keyed m_mission_id (missions d)"
  shows "claim_mission now clock mid tok ttl expect d =
    (case mission_at d mid of
       None \<Rightarrow> ((False, 0), d)
     | Some r \<Rightarrow>
         if claimable now tok expect r
         then ((True, m_lease_generation (claimed_row now clock tok ttl expect r)),
               d\<lparr>missions := sql_update (\<lambda>r. m_mission_id r = mid \<and> claimable now tok expect r)
                   (claimed_row now clock tok ttl expect) (missions d)\<rparr>)
         else ((False, m_lease_generation r), d))"
  by (auto simp: claim_mission_def Let_def sql_find_key [OF assms] split: option.splits)

text \<open>A concrete database for the witnesses: one running mission, leased to worker \<open>w1\<close> until 1000.\<close>

definition sample_mission :: mission_row where
  "sample_mission = \<lparr>m_mission_id = ''m1'', m_job_id = ''j1'', m_created_at = 0, m_updated_at = 0,
     m_status = RUNNING, m_acceptance_hash = ''h'', m_acceptance_text = ''t'',
     m_continue_token = ''c'', m_package = Some [], m_checkpoint = Some initial_checkpoint,
     m_checkpoint_version = 0, m_lease_token = Some ''w1'', m_lease_generation = 1,
     m_lease_expires_at = Some 1000, m_envelope_version = 1, m_verify_failures = 0,
     m_ledger_cursor = 0\<rparr>"

definition sample_db :: db where
  "sample_db = empty_db\<lparr>missions := [sample_mission]\<rparr>"

lemma sample_fields [simp]:
  "m_mission_id sample_mission = ''m1''" "m_status sample_mission = RUNNING"
  "m_lease_token sample_mission = Some ''w1''" "m_lease_generation sample_mission = 1"
  "m_lease_expires_at sample_mission = Some 1000" "m_checkpoint_version sample_mission = 0"
  by (simp_all add: sample_mission_def)

lemma sample_db_missions [simp]: "missions sample_db = [sample_mission]"
  by (simp add: sample_db_def)

text \<open>The swap that commits it.\<close>

definition sample_commit :: "string \<Rightarrow> cas_args" where
  "sample_commit new = \<lparr>ca_mission_id = ''m1'', ca_expect_status = ''verifying'', ca_expect_version = 0,
     ca_expect_generation = 1, ca_new_status = new, ca_expect_token = Some ''w1'',
     ca_clear_lease = True, ca_checkpoint_update = None, ca_bump_verify_failure = False\<rparr>"

lemma sample_commit_legal:
  "legal_transition (ca_expect_status (sample_commit ''complete'')) (ca_new_status (sample_commit ''complete''))"
  "parse_status (ca_new_status (sample_commit ''complete'')) = Some COMPLETE"
  by code_simp+

subsection \<open>Properties\<close>

text \<open>C6. Fencing: once another worker's claim of a mission succeeded, the fence has moved one
  generation past the former owner, and no write the former owner makes under its lease changes
  anything, after any further interleaving of store operations by any number of workers.\<close>

theorem takeover_fences:
  assumes "keyed m_mission_id (missions d)" "mission_at d mid = Some r"
    and "owns tok gen r" "tok' \<noteq> tok"
    and "claim_mission now clock mid tok' ttl expect d = ((True, gen'), d')"
    and "list_all (\<lambda>x. \<not> creates mid x) ops" "fenced_by tok gen mid x"
  shows "gen' = gen + 1 \<and> exec x (run ops d') = run ops d'"
proof -
  let ?f = "claimed_row now clock tok' ttl expect"
  from assms(2,5) have cl: "claimable now tok' expect r" "gen' = m_lease_generation (?f r)"
    and d': "missions d' = sql_update (\<lambda>r. m_mission_id r = mid \<and> claimable now tok' expect r) ?f (missions d)"
    unfolding claim_mission_cases [OF assms(1)] by (auto split: if_splits)
  have "\<not> same_owner tok' expect r" using assms(3,4) by (auto simp: same_owner_def owns_def)
  with cl assms(3) have gen': "gen' = gen + 1" by (simp add: claimed_row_def owns_def)
  have "keyed m_mission_id (missions d')"
    using claim_keyed [OF assms(1), of now clock mid tok' ttl expect] assms(5) by simp
  moreover have "mission_at d' mid = Some (?f r)"
    using assms(2) cl(1) row_of_Some [OF assms(2)] by (simp add: d' table_simps)
  moreover have "gen \<le> m_lease_generation (?f r)" "\<not> owns tok gen (?f r)"
    using cl(2) gen' by (simp_all add: owns_def)
  ultimately show ?thesis using stale_lease_fenced assms(6,7) gen' by blast
qed

theorem takeover_fences_witness:
  "\<exists>d'. claim_mission 2000 2000 ''m1'' ''w2'' 60 None sample_db = ((True, 2), d') \<and>
     exec (Heartbeat 2100 2100 ''m1'' ''w1'' 1 60) (run [Heartbeat 2050 2050 ''m1'' ''w2'' 2 60] d') =
     run [Heartbeat 2050 2050 ''m1'' ''w2'' 2 60] d'"
proof (intro exI conjI)
  let ?d' = "snd (claim_mission 2000 2000 ''m1'' ''w2'' 60 None sample_db)"
  show c: "claim_mission 2000 2000 ''m1'' ''w2'' 60 None sample_db = ((True, 2), ?d')"
    by (simp add: claim_mission_cases claimable_def claimed_row_def same_owner_def)
  show "exec (Heartbeat 2100 2100 ''m1'' ''w1'' 1 60) (run [Heartbeat 2050 2050 ''m1'' ''w2'' 2 60] ?d') =
     run [Heartbeat 2050 2050 ''m1'' ''w2'' 2 60] ?d'"
    using takeover_fences [OF _ _ _ _ c, of sample_mission "''w1''" 1
        "[Heartbeat 2050 2050 ''m1'' ''w2'' 2 60]" "Heartbeat 2100 2100 ''m1'' ''w1'' 1 60"]
    by (simp add: owns_def)
qed

text \<open>Exclusion: while a lease has not expired, a claim that does not present exactly its token
  and its generation is refused, reports the current fence and changes nothing.\<close>

theorem live_lease_excludes:
  assumes "keyed m_mission_id (missions d)" "mission_at d mid = Some r"
    and "m_lease_token r = Some tok" "tok \<noteq> []" "lease_active (m_lease_expires_at r) now"
    and "tok' \<noteq> tok \<or> expect \<noteq> Some (m_lease_generation r)"
  shows "claim_mission now clock mid tok' ttl expect d = ((False, m_lease_generation r), d)"
proof -
  have "\<not> claimable now tok' expect r"
    using assms(3-6) by (auto simp: claimable_def same_owner_def lease_active_def split: option.splits)
  with assms(2) show ?thesis by (simp add: claim_mission_cases [OF assms(1)])
qed

theorem live_lease_excludes_witness:
  "claim_mission 500 500 ''m1'' ''w2'' 60 (Some 1) sample_db = ((False, 1), sample_db)"
  using live_lease_excludes [of sample_db "''m1''" sample_mission "''w1''" 500 "''w2''" "Some 1" 500 60]
  by (simp add: lease_active_def)

text \<open>C17. Along any run of store operations a mission moves only along allowed transitions, its fence
  and its checkpoint version never go back, and a terminal mission keeps its status, checkpoint,
  version, failure count, lease token and fence for as long as it is stored.\<close>

theorem mission_history:
  assumes "keyed m_mission_id (missions d)" "list_all (\<lambda>x. \<not> creates mid x) ops"
    and "mission_at d mid = Some r" "mission_at (run ops d) mid = Some r'"
  shows "allowed_step\<^sup>*\<^sup>* (m_status r) (m_status r')
    \<and> m_lease_generation r \<le> m_lease_generation r'
    \<and> m_checkpoint_version r \<le> m_checkpoint_version r'
    \<and> (mission_terminal r \<longrightarrow>
         m_status r' = m_status r \<and> m_checkpoint r' = m_checkpoint r
         \<and> m_checkpoint_version r' = m_checkpoint_version r
         \<and> m_verify_failures r' = m_verify_failures r
         \<and> m_lease_token r' = m_lease_token r \<and> m_lease_generation r' = m_lease_generation r)"
  using run_row_evolves [OF assms] by (auto simp: row_evolves_def)

theorem mission_history_witness:
  "\<exists>r'. mission_at (run [Heartbeat 10 10 ''m1'' ''w1'' 1 60] sample_db) ''m1'' = Some r' \<and>
     allowed_step\<^sup>*\<^sup>* RUNNING (m_status r') \<and> 1 \<le> m_lease_generation r'"
proof -
  let ?ops = "[Heartbeat 10 10 ''m1'' ''w1'' 1 60]"
  obtain r' where r': "mission_at (run ?ops sample_db) ''m1'' = Some r'"
    by (simp add: heartbeat_mission_def Let_def table_simps)
  then show ?thesis
    using mission_history [of sample_db "''m1''" ?ops sample_mission r'] by simp
qed

text \<open>No operation of the store other than a compare-and-swap on exactly the current version and
  fence of a verifying mission, by its lease holder where a token is given, makes a mission complete.\<close>

theorem complete_only_by_cas:
  assumes "keyed m_mission_id (missions d)" "mission_at d mid = Some r" "m_status r \<noteq> COMPLETE"
    and "mission_at (exec x d) mid = Some r'" "m_status r' = COMPLETE"
  shows "\<exists>now a. x = Cas now a \<and> ca_mission_id a = mid \<and> m_status r = VERIFYING
    \<and> ca_expect_version a = m_checkpoint_version r
    \<and> ca_expect_generation a = m_lease_generation r
    \<and> (ca_expect_token a = None \<or> ca_expect_token a = m_lease_token r)"
proof -
  have "row_step x r r'" using exec_row_step [OF assms(1,2,4)] .
  then obtain now a where x: "x = Cas now a" "cas_where a r" "allowed_step (m_status r) COMPLETE"
    using row_step_status [of x r r'] assms(3,5) by auto
  then have "m_status r = VERIFYING" by (blast dest: allowed_step_complete)
  with x row_of_Some [OF assms(2)] show ?thesis
    by (auto simp: cas_where_def split: option.splits)
qed

theorem complete_only_by_cas_witness:
  "\<exists>now a. Cas 100 (sample_commit ''complete'') = Cas now a \<and> ca_mission_id a = ''m1'' \<and>
     m_status (sample_mission\<lparr>m_status := VERIFYING\<rparr>) = VERIFYING \<and>
     ca_expect_generation a = m_lease_generation (sample_mission\<lparr>m_status := VERIFYING\<rparr>)"
proof -
  let ?r = "sample_mission\<lparr>m_status := VERIFYING\<rparr>" and ?x = "Cas 100 (sample_commit ''complete'')"
  let ?d = "sample_db\<lparr>missions := [?r]\<rparr>"
  have "m_mission_id ?r = ''m1''" "m_lease_generation ?r = 1" "m_lease_token ?r = Some ''w1''"
      "m_checkpoint_version ?r = 0" "m_status ?r = VERIFYING"
    by simp_all
  moreover have "mission_at (exec ?x ?d) ''m1'' =
      Some (cas_row 100 (sample_commit ''complete'') COMPLETE ?r ?r)"
    using sample_commit_legal
    by (simp add: cas_mission_status_def cas_select_def cas_where_def cas_update_def Let_def
        frame_simps sql_update_def sample_commit_def status_value.simps)
  ultimately show ?thesis
    using complete_only_by_cas [of ?d "''m1''" ?r ?x]
    by (simp add: sample_commit_def cas_row_def Let_def)
qed

end
