(* ===== verification/Mission_Concurrency.thy ===== *)
theory Mission_Concurrency
  imports Mission_Fencing
begin

text \<open>
  The one store operation that is not a single statement: \<open>_cas_mission_status_sync\<close> reads the row
  outside any transaction and writes later, so other workers commit in between. \<open>conc_step\<close> lets
  them: a swap is a read step and a write step, the other operations are atomic. The theory shows
  that the write behaves as if the whole swap had run at the moment of the write.
\<close>

subsection \<open>The write of a swap\<close>

lemma cas_update_linearizes:
  assumes key: "keyed m_mission_id (missions d)"
    and legal: "legal_transition (ca_expect_status a) (ca_new_status a)"
    and row: "m_mission_id row = ca_mission_id a" "m_checkpoint_version row = ca_expect_version a"
    and evolves: "\<And>r. mission_at d (ca_mission_id a) = Some r \<Longrightarrow> row_evolves row r"
  shows "cas_update now a row d = cas_mission_status now a d"
proof (cases "\<exists>r. mission_at d (ca_mission_id a) = Some r \<and> cas_where a r")
  case True
  then obtain r where r: "mission_at d (ca_mission_id a) = Some r" "cas_where a r" by blast
  have "m_checkpoint r = m_checkpoint row" "m_verify_failures r = m_verify_failures row"
      "m_job_id r = m_job_id row"
    using evolves [OF r(1)] r(2) row by (auto simp: row_evolves_def cas_where_def)
  moreover from this have "cas_row now a new row = cas_row now a new r" for new
    by (intro ext) (simp add: cas_row_def cas_checkpoint_def Let_def split: option.split)
  ultimately have "cas_update now a row d = cas_update now a r d"
    by (simp add: cas_update_def Let_def split: option.split)
  moreover have "cas_select a d = Some r"
    using r by (auto simp: cas_select_def cas_where_def)
  ultimately show ?thesis using legal by (simp add: cas_mission_status_def)
next
  case False
  then have "cas_update now a row' d = (False, d)" for row'
    by (auto intro: cas_update_no_match [OF key])
  with legal show ?thesis by (simp add: cas_mission_status_def split: option.splits)
qed

subsection \<open>Workers interleaved inside a swap\<close>

text \<open>The database and the swaps that have read their row and not yet written.\<close>

type_synonym pending_swap = "instant \<times> cas_args \<times> mission_row"
type_synonym conc_state = "db \<times> pending_swap list"

definition swap_mission :: "pending_swap \<Rightarrow> string" where
  "swap_mission p = ca_mission_id (fst (snd p))"

text \<open>What takes effect, in order: an atomic operation, or the write of a swap with the answer it gave.\<close>

datatype commit = Done mission_op | Swapped instant cas_args bool

inductive conc_run :: "conc_state \<Rightarrow> commit list \<Rightarrow> conc_state \<Rightarrow> bool" for s where
  start: "conc_run s [] s"
| atomic: "conc_run s tr (d, ps) \<Longrightarrow> list_all (\<lambda>p. \<not> creates (swap_mission p) x) ps \<Longrightarrow>
    conc_run s (tr @ [Done x]) (exec x d, ps)"
| swap_read: "conc_run s tr (d, ps) \<Longrightarrow> legal_transition (ca_expect_status a) (ca_new_status a) \<Longrightarrow>
    cas_select a d = Some row \<Longrightarrow> conc_run s tr (d, (now, a, row) # ps)"
| swap_write: "conc_run s tr (d, ps) \<Longrightarrow> (now, a, row) \<in> set ps \<Longrightarrow> cas_update now a row d = (ok, d') \<Longrightarrow>
    conc_run s (tr @ [Swapped now a ok]) (d', remove1 (now, a, row) ps)"

text \<open>The same trace with every swap made at once, at its write: the operations, and the answers they give.\<close>

fun op_of :: "commit \<Rightarrow> mission_op" where
  "op_of (Done x) = x"
| "op_of (Swapped now a ok) = Cas now a"

fun answers_hold :: "commit list \<Rightarrow> db \<Rightarrow> bool" where
  "answers_hold [] d = True"
| "answers_hold (Done x # tr) d = answers_hold tr (exec x d)"
| "answers_hold (Swapped now a ok # tr) d =
     (ok = fst (cas_mission_status now a d) \<and> answers_hold tr (snd (cas_mission_status now a d)))"

lemma answers_hold_append:
  "answers_hold (tr @ us) d \<longleftrightarrow> answers_hold tr d \<and> answers_hold us (run (map op_of tr) d)"
proof (induction tr arbitrary: d)
  case (Cons c tr)
  then show ?case by (cases c) (simp_all add: run_def)
qed (simp add: run_def)

definition swap_ok :: "db \<Rightarrow> pending_swap \<Rightarrow> bool" where
  "swap_ok d p = (case p of (now, a, row) \<Rightarrow>
     legal_transition (ca_expect_status a) (ca_new_status a)
     \<and> m_mission_id row = ca_mission_id a \<and> m_checkpoint_version row = ca_expect_version a
     \<and> (\<forall>r. mission_at d (ca_mission_id a) = Some r \<longrightarrow> row_evolves row r))"

definition conc_inv :: "conc_state \<Rightarrow> bool" where
  "conc_inv s = (keyed m_mission_id (missions (fst s)) \<and> (\<forall>p \<in> set (snd s). swap_ok (fst s) p))"

lemma swap_ok_write:
  "keyed m_mission_id (missions d) \<Longrightarrow> swap_ok d (now, a, row) \<Longrightarrow>
   cas_update now a row d = cas_mission_status now a d"
  by (rule cas_update_linearizes) (auto simp: swap_ok_def)

lemma swap_ok_exec:
  assumes "keyed m_mission_id (missions d)" "swap_ok d p" "\<not> creates (swap_mission p) x"
  shows "swap_ok (exec x d) p"
proof -
  obtain now a row where p: "p = (now, a, row)" by (cases p)
  have "row_evolves row r'" if r': "mission_at (exec x d) (ca_mission_id a) = Some r'" for r'
  proof -
    have "mission_frame (row_step x) (ca_mission_id a) d (exec x d)"
      using exec_frame [OF assms(1)] assms(3) by (simp add: p swap_mission_def)
    with r' obtain r where "mission_at d (ca_mission_id a) = Some r" "row_step x r r'"
      by (auto simp: mission_frame_def)
    with assms(2) show ?thesis
      by (auto simp: p swap_ok_def intro: row_evolves_trans row_step_evolves)
  qed
  with assms(2) show ?thesis by (simp add: p swap_ok_def)
qed

lemma cas_select_swap_ok:
  "legal_transition (ca_expect_status a) (ca_new_status a) \<Longrightarrow> cas_select a d = Some row \<Longrightarrow>
   swap_ok d (now, a, row)"
  by (auto simp: swap_ok_def dest!: cas_select_Some dest: row_of_Some)

lemma conc_run_simulates:
  assumes "conc_run s tr s'" "conc_inv s"
  shows "conc_inv s' \<and> fst s' = run (map op_of tr) (fst s) \<and> answers_hold tr (fst s)"
  using assms
proof (induction rule: conc_run.induct)
  case start
  then show ?case by (simp add: run_def)
next
  case (atomic tr d ps x)
  then show ?case
    by (auto simp: conc_inv_def list_all_iff answers_hold_append run_def intro: exec_keyed swap_ok_exec)
next
  case (swap_read tr d ps a row now)
  then have "conc_inv (d, ps)" by blast
  then have "conc_inv (d, (now, a, row) # ps)"
    using cas_select_swap_ok [OF swap_read.hyps(2,3)] by (simp add: conc_inv_def)
  moreover have "d = run (map op_of tr) (fst s)" "answers_hold tr (fst s)"
    using swap_read.IH [OF swap_read.prems] by auto
  ultimately show ?case unfolding fst_conv by blast
next
  case (swap_write tr d ps now a row ok d')
  then have key: "keyed m_mission_id (missions d)" and oks: "\<And>p. p \<in> set ps \<Longrightarrow> swap_ok d p"
    and run: "d = run (map op_of tr) (fst s)" "answers_hold tr (fst s)"
    unfolding conc_inv_def fst_conv snd_conv by blast+
  have same: "cas_mission_status now a d = (ok, d')"
    using swap_ok_write [OF key oks [OF swap_write.hyps(2)]] swap_write.hyps(3) by simp
  then have d': "d' = exec (Cas now a) d" by simp
  have "swap_ok d' p" if "p \<in> set (remove1 (now, a, row) ps)" for p
  proof -
    have "p \<in> set ps" using that by (meson notin_set_remove1)
    then show ?thesis unfolding d' by (intro swap_ok_exec [OF key oks]) simp_all
  qed
  moreover have "keyed m_mission_id (missions d')" unfolding d' by (rule exec_keyed [OF key])
  moreover have "d' = run (map op_of (tr @ [Swapped now a ok])) (fst s)" "answers_hold (tr @ [Swapped now a ok]) (fst s)"
    using run(2) arg_cong [OF same, of fst] by (simp_all add: d' answers_hold_append run(1) [symmetric]) (simp add: run_def run(1))
  ultimately show ?case unfolding conc_inv_def fst_conv snd_conv by blast
qed

subsection \<open>Properties\<close>

text \<open>C13. The write of a compare-and-swap, made any number of committed operations after its read, has
  the result and the effect of the whole swap run at that moment: no update made in between is lost,
  although the read is outside the transaction.\<close>

theorem cas_two_phase_linearizes:
  assumes "keyed m_mission_id (missions d)"
    and "legal_transition (ca_expect_status a) (ca_new_status a)" "cas_select a d = Some row"
    and "list_all (\<lambda>x. \<not> creates (ca_mission_id a) x) ops"
  shows "cas_update now a row (run ops d) = cas_mission_status now a (run ops d)"
proof (rule cas_update_linearizes [OF run_keyed [OF assms(1)] assms(2)])
  from cas_select_Some [OF assms(3)]
  have row: "mission_at d (ca_mission_id a) = Some row" "m_checkpoint_version row = ca_expect_version a"
    by simp_all
  show "m_mission_id row = ca_mission_id a" "m_checkpoint_version row = ca_expect_version a"
    using row row_of_Some [OF row(1)] by simp_all
  show "row_evolves row r" if "mission_at (run ops d) (ca_mission_id a) = Some r" for r
    using run_row_evolves [OF assms(1,4) row(1) that] .
qed

theorem cas_two_phase_linearizes_witness:
  "cas_update 100 (sample_commit ''complete'') (sample_mission\<lparr>m_status := VERIFYING\<rparr>)
     (run [Heartbeat 10 10 ''m1'' ''w1'' 1 60] (sample_db\<lparr>missions := [sample_mission\<lparr>m_status := VERIFYING\<rparr>]\<rparr>)) =
   cas_mission_status 100 (sample_commit ''complete'')
     (run [Heartbeat 10 10 ''m1'' ''w1'' 1 60] (sample_db\<lparr>missions := [sample_mission\<lparr>m_status := VERIFYING\<rparr>]\<rparr>))"
proof (rule cas_two_phase_linearizes)
  show "legal_transition (ca_expect_status (sample_commit ''complete''))
      (ca_new_status (sample_commit ''complete''))"
    by (rule sample_commit_legal)
qed (simp_all add: sample_commit_def cas_select_def status_value.simps)

text \<open>C8. The store with the reads and writes of swaps interleaved at will is linearisable: the database it reaches is
  the one the same operations give when each swap is made at once at the moment of its write, in the order in which the
  operations took effect, and every swap returned to its caller the answer it would have got then.\<close>

theorem interleaved_swaps_refine_atomic:
  assumes "keyed m_mission_id (missions d)" "conc_run (d, []) tr (d', ps)"
  shows "d' = run (map op_of tr) d \<and> answers_hold tr d"
  using conc_run_simulates [OF assms(2)] assms(1) by (simp add: conc_inv_def)

text \<open>Two workers read the row for the same swap; a heartbeat and the first write come between the second's read and write.\<close>

theorem interleaved_swaps_refine_atomic_witness:
  "let d = sample_db\<lparr>missions := [sample_mission\<lparr>m_status := VERIFYING\<rparr>]\<rparr>; row = sample_mission\<lparr>m_status := VERIFYING\<rparr>;
       beat = Heartbeat 10 10 ''m1'' ''w1'' 1 60; (ok1, d1) = cas_update 100 (sample_commit ''complete'') row (exec beat d);
       (ok2, d2) = cas_update 101 (sample_commit ''complete'') row d1
   in d2 = run [beat, Cas 100 (sample_commit ''complete''), Cas 101 (sample_commit ''complete'')] d
      \<and> ok2 = fst (cas_mission_status 101 (sample_commit ''complete'') d1)"
proof -
  define c where "c = sample_commit ''complete''"
  define d where "d = sample_db\<lparr>missions := [sample_mission\<lparr>m_status := VERIFYING\<rparr>]\<rparr>"
  define row where "row = sample_mission\<lparr>m_status := VERIFYING\<rparr>"
  define beat where "beat = Heartbeat 10 10 ''m1'' ''w1'' 1 60"
  obtain ok1 d1 where w1: "cas_update 100 c row (exec beat d) = (ok1, d1)" by fastforce
  obtain ok2 d2 where w2: "cas_update 101 c row d1 = (ok2, d2)" by fastforce
  have legal: "legal_transition (ca_expect_status c) (ca_new_status c)" unfolding c_def by (rule sample_commit_legal)
  have sel: "cas_select c d = Some row"
    by (simp add: c_def d_def row_def sample_commit_def cas_select_def status_value.simps)
  have "conc_run (d, []) [] (d, [(101, c, row), (100, c, row)])"
    by (rule conc_run.swap_read [OF conc_run.swap_read [OF conc_run.start legal sel] legal sel])
  then have "conc_run (d, []) ([] @ [Done beat]) (exec beat d, [(101, c, row), (100, c, row)])"
    by (rule conc_run.atomic) (simp add: beat_def)
  then have "conc_run (d, []) (([] @ [Done beat]) @ [Swapped 100 c ok1]) (d1, remove1 (100, c, row) [(101, c, row), (100, c, row)])"
    by (rule conc_run.swap_write) (simp_all add: w1)
  then have "conc_run (d, []) ((([] @ [Done beat]) @ [Swapped 100 c ok1]) @ [Swapped 101 c ok2])
      (d2, remove1 (101, c, row) (remove1 (100, c, row) [(101, c, row), (100, c, row)]))"
    by (rule conc_run.swap_write) (simp_all add: w2)
  moreover have "keyed m_mission_id (missions d)" by (simp add: d_def)
  ultimately have "d2 = run [beat, Cas 100 c, Cas 101 c] d \<and> answers_hold [Done beat, Swapped 100 c ok1, Swapped 101 c ok2] d"
    using interleaved_swaps_refine_atomic by fastforce
  moreover have "d1 = snd (cas_mission_status 100 c (exec beat d))"
  proof -
    have "conc_run (d, []) [Done beat, Swapped 100 c ok1] (d1, [(101, c, row)])"
      using \<open>conc_run (d, []) (([] @ [Done beat]) @ [Swapped 100 c ok1]) _\<close> by simp
    with conc_run_simulates [OF this] show ?thesis by (simp add: conc_inv_def d_def run_def)
  qed
  ultimately have "d2 = run [beat, Cas 100 c, Cas 101 c] d \<and> ok2 = fst (cas_mission_status 101 c d1)"
    by (simp add: run_def)
  then show ?thesis
    unfolding d_def [symmetric] unfolding c_def [symmetric] row_def [symmetric] beat_def [symmetric] Let_def
    unfolding w1 prod.case unfolding w2 prod.case .
qed

end
