(* ===== verification/Mission_Sweeper.thy ===== *)
theory Mission_Sweeper
  imports Mission_Concurrency
begin

text \<open>
  \<open>mission/sweeper.py\<close>: requeueing the missions whose lease expired. The sweeper knows its store
  only through the protocol \<open>MissionSweepStore\<close>; here that is the locale \<open>mission_sweep_store\<close>, whose
  laws say what a requeue promises, and the facts about a sweep are proved from the laws. The SQLite
  store of \<open>Mission_Store\<close> is an instance. \<open>clock i\<close> is the store's clock at the requeue that leaves
  \<open>i\<close> listed rows to go.
\<close>

subsection \<open>The sweep\<close>

type_synonym 's requeue_call = "instant \<Rightarrow> string \<Rightarrow> string \<Rightarrow> int \<Rightarrow> int \<Rightarrow> instant \<Rightarrow> 's \<Rightarrow> bool \<times> 's"

fun sweep_rows :: "'s requeue_call \<Rightarrow> (nat \<Rightarrow> instant) \<Rightarrow> expired_row list \<Rightarrow> 's \<Rightarrow> int \<times> 's" where
  "sweep_rows requeue clock [] s = (0, s)"
| "sweep_rows requeue clock (x # xs) s =
     (if x_status x \<in> {status_value VERIFYING, status_value ESCALATED} then sweep_rows requeue clock xs s
      else if \<not> legal_transition (x_status x) (status_value QUEUED) then sweep_rows requeue clock xs s
      else case x_lease_expires_at x of
          None \<Rightarrow> sweep_rows requeue clock xs s
        | Some e \<Rightarrow>
            let (ok, s1) = requeue (clock (length xs)) (x_mission_id x) (x_status x)
                  (x_checkpoint_version x) (x_lease_generation x) e s;
                (moved, s2) = sweep_rows requeue clock xs s1
            in (if ok then 1 + moved else moved, s2))"

definition sweep_expired_leases ::
  "(instant \<Rightarrow> int \<Rightarrow> 's \<Rightarrow> expired_row list) \<Rightarrow> 's requeue_call \<Rightarrow> instant \<Rightarrow> (nat \<Rightarrow> instant) \<Rightarrow> int \<Rightarrow> 's \<Rightarrow> int \<times> 's" where
  "sweep_expired_leases list_expired requeue now clock limit s =
    sweep_rows requeue clock (list_expired now limit s) s"

subsection \<open>The store the sweeper relies on\<close>

definition sweepable :: "mission_status \<Rightarrow> bool" where
  "sweepable s \<longleftrightarrow> s \<in> {RUNNING, WAITING_EVENT, WAITING_TIMER, DORMANT}"

lemma sweepable_legal:
  "s \<notin> {VERIFYING, ESCALATED} \<Longrightarrow> legal_transition (status_value s) (status_value QUEUED) \<longleftrightarrow> sweepable s"
  by (auto simp: sweepable_def allowed_step_def ALLOWED_def TERMINAL_STATUSES_def)

text \<open>The row a requeue expects to find.\<close>

definition requeue_matches :: "instant \<Rightarrow> string \<Rightarrow> int \<Rightarrow> int \<Rightarrow> instant \<Rightarrow> mission_row \<Rightarrow> bool" where
  "requeue_matches now st v gen e r \<longleftrightarrow>
     status_value (m_status r) = st \<and> m_checkpoint_version r = v \<and> m_lease_generation r = gen
     \<and> m_lease_expires_at r = Some e \<and> e < now"

locale mission_sweep_store =
  fixes requeue :: "'s requeue_call" and mission :: "'s \<Rightarrow> string \<Rightarrow> mission_row option"
    and ok :: "'s \<Rightarrow> bool"
  assumes requeue_done:
      "ok s \<Longrightarrow> mission s mid = Some r \<Longrightarrow> requeue_matches now st v gen e r \<Longrightarrow>
       legal_transition st (status_value QUEUED) \<Longrightarrow>
       \<exists>s'. requeue now mid st v gen e s = (True, s') \<and> ok s' \<and>
         mission s' = (mission s)(mid \<mapsto> requeued_row now r)"
    and requeue_refused:
      "ok s \<Longrightarrow> (\<And>r. mission s mid = Some r \<Longrightarrow> \<not> requeue_matches now st v gen e r) \<Longrightarrow>
       requeue now mid st v gen e s = (False, s)"
begin

lemma requeue_cases:
  assumes "ok s" "legal_transition st (status_value QUEUED)" "requeue now mid st v gen e s = (b, s')"
  shows "ok s' \<and> (if b then \<exists>r. mission s mid = Some r \<and> requeue_matches now st v gen e r
      \<and> mission s' = (mission s)(mid \<mapsto> requeued_row now r) else s' = s)"
proof (cases "\<exists>r. mission s mid = Some r \<and> requeue_matches now st v gen e r")
  case True
  then obtain r where "mission s mid = Some r" "requeue_matches now st v gen e r" by blast
  with requeue_done [OF assms(1) this assms(2)] assms(3) show ?thesis by auto
next
  case False
  then have "requeue now mid st v gen e s = (False, s)" by (intro requeue_refused [OF assms(1)]) blast
  with assms(1,3) show ?thesis by simp
qed

text \<open>What a sweep can have done to one mission.\<close>

definition swept :: "mission_row option \<Rightarrow> mission_row option \<Rightarrow> bool" where
  "swept m m' \<longleftrightarrow> m' = m \<or>
     (\<exists>r t e. m = Some r \<and> sweepable (m_status r) \<and> m_lease_expires_at r = Some e \<and> e < t
        \<and> m' = Some (requeued_row t r))"

lemma swept_trans: "swept a b \<Longrightarrow> swept b c \<Longrightarrow> swept a c"
  by (auto simp: swept_def requeued_row_def)

lemma sweep_rows_swept:
  "ok s \<Longrightarrow> sweep_rows requeue clock xs s = (n, s') \<Longrightarrow> ok s' \<and> swept (mission s mid) (mission s' mid)"
proof (induction xs arbitrary: s n)
  case Nil
  then show ?case by (simp add: swept_def)
next
  case (Cons x xs)
  show ?case
  proof (cases "x_status x \<in> {status_value VERIFYING, status_value ESCALATED}
      \<or> \<not> legal_transition (x_status x) (status_value QUEUED) \<or> x_lease_expires_at x = None")
    case True
    with Cons.prems have "sweep_rows requeue clock xs s = (n, s')" by (auto split: if_splits)
    with Cons show ?thesis by blast
  next
    case False
    then obtain e where e: "x_lease_expires_at x = Some e"
      and legal: "legal_transition (x_status x) (status_value QUEUED)"
      and other: "x_status x \<notin> {status_value VERIFYING, status_value ESCALATED}" by auto
    obtain b s1 where q: "requeue (clock (length xs)) (x_mission_id x) (x_status x)
        (x_checkpoint_version x) (x_lease_generation x) e s = (b, s1)"
      by (cases "requeue (clock (length xs)) (x_mission_id x) (x_status x)
        (x_checkpoint_version x) (x_lease_generation x) e s")
    obtain k where rest: "sweep_rows requeue clock xs s1 = (k, s')"
      using Cons.prems(2) e legal other q by (auto split: prod.splits)
    have q': "ok s1 \<and> swept (mission s mid) (mission s1 mid)"
    proof (cases b)
      case True
      with requeue_cases [OF Cons.prems(1) legal q] obtain r where
        r: "ok s1" "mission s (x_mission_id x) = Some r"
          "requeue_matches (clock (length xs)) (x_status x) (x_checkpoint_version x) (x_lease_generation x) e r"
          "mission s1 = (mission s)(x_mission_id x \<mapsto> requeued_row (clock (length xs)) r)" by auto
      have "m_status r \<notin> {VERIFYING, ESCALATED}" using r(3) other by (auto simp: requeue_matches_def)
      moreover have "x_status x = status_value (m_status r)" using r(3) by (simp add: requeue_matches_def)
      ultimately have "sweepable (m_status r)" using legal sweepable_legal [of "m_status r"] by simp
      with r show ?thesis by (auto simp: swept_def requeue_matches_def)
    next
      case False
      with requeue_cases [OF Cons.prems(1) legal q] show ?thesis by (auto simp: swept_def)
    qed
    with Cons.IH [of s1 k] rest show ?thesis by (auto intro: swept_trans)
  qed
qed

text \<open>A listed row that still describes its mission, on a store nobody else writes to.\<close>

definition listed :: "(nat \<Rightarrow> instant) \<Rightarrow> 's \<Rightarrow> expired_row \<Rightarrow> bool" where
  "listed clock s x \<longleftrightarrow> (\<exists>r e. mission s (x_mission_id x) = Some r \<and> x = project_expired r
     \<and> m_mission_id r = x_mission_id x \<and> m_lease_expires_at r = Some e \<and> (\<forall>i. e < clock i))"

lemma sweep_rows_done:
  assumes "ok s" "distinct (map x_mission_id xs)" "\<forall>x \<in> set xs. listed clock s x"
    and "sweep_rows requeue clock xs s = (n, s')"
  shows "n = int (length (filter (\<lambda>x. \<exists>st. x_status x = status_value st \<and> sweepable st) xs))
    \<and> (\<forall>x \<in> set xs. \<forall>r. mission s (x_mission_id x) = Some r \<longrightarrow> sweepable (m_status r) \<longrightarrow>
          (\<exists>t. mission s' (x_mission_id x) = Some (requeued_row t r)))
    \<and> (\<forall>mid. mid \<notin> x_mission_id ` set xs \<longrightarrow> mission s' mid = mission s mid)"
  using assms
proof (induction xs arbitrary: s n)
  case Nil
  then show ?case by simp
next
  case (Cons x xs)
  obtain r e where r: "mission s (x_mission_id x) = Some r" "x = project_expired r"
      "m_lease_expires_at r = Some e" "\<forall>i. e < clock i"
    using Cons.prems(3) by (auto simp: listed_def)
  have st: "x_status x = status_value (m_status r)" "x_lease_expires_at x = Some e"
      "x_checkpoint_version x = m_checkpoint_version r" "x_lease_generation x = m_lease_generation r"
    using r(2,3) by (simp_all add: project_expired_def)
  show ?case
  proof (cases "sweepable (m_status r)")
    case False
    then have skip: "x_status x \<in> {status_value VERIFYING, status_value ESCALATED}
        \<or> \<not> legal_transition (x_status x) (status_value QUEUED)"
      using sweepable_legal [of "m_status r"] by (auto simp: st)
    with Cons.prems(4) have "sweep_rows requeue clock xs s = (n, s')" by (auto split: if_splits)
    with Cons.IH [OF Cons.prems(1), of n] Cons.prems(2,3) r(1) False st(1) show ?thesis by auto
  next
    case True
    have legal: "legal_transition (x_status x) (status_value QUEUED)"
      and other: "x_status x \<notin> {status_value VERIFYING, status_value ESCALATED}"
      using True sweepable_legal [of "m_status r"] by (auto simp: st sweepable_def)
    have "requeue_matches (clock (length xs)) (x_status x) (x_checkpoint_version x) (x_lease_generation x) e r"
      using r(3,4) by (simp add: requeue_matches_def st)
    then obtain s1 where q: "requeue (clock (length xs)) (x_mission_id x) (x_status x)
        (x_checkpoint_version x) (x_lease_generation x) e s = (True, s1)" "ok s1"
      and s1: "mission s1 = (mission s)(x_mission_id x \<mapsto> requeued_row (clock (length xs)) r)"
      using requeue_done [OF Cons.prems(1) r(1) _ legal] by blast
    obtain k where rest: "sweep_rows requeue clock xs s1 = (k, s')" and n: "n = 1 + k"
      using Cons.prems(4) st(2) legal other q(1) by (auto split: prod.splits)
    have new: "x_mission_id x \<notin> x_mission_id ` set xs" using Cons.prems(2) by auto
    have "\<forall>y \<in> set xs. listed clock s1 y"
    proof
      fix y
      assume y: "y \<in> set xs"
      with new have "x_mission_id y \<noteq> x_mission_id x" by (metis image_eqI)
      with y Cons.prems(3) show "listed clock s1 y" by (auto simp: listed_def s1)
    qed
    with Cons.IH [OF q(2) _ _ rest] Cons.prems(2)
    have IH: "k = int (length (filter (\<lambda>x. \<exists>st. x_status x = status_value st \<and> sweepable st) xs))"
      "\<forall>y \<in> set xs. \<forall>r. mission s1 (x_mission_id y) = Some r \<longrightarrow> sweepable (m_status r) \<longrightarrow>
          (\<exists>t. mission s' (x_mission_id y) = Some (requeued_row t r))"
      "\<forall>mid. mid \<notin> x_mission_id ` set xs \<longrightarrow> mission s' mid = mission s1 mid" by auto
    have "mission s' (x_mission_id x) = Some (requeued_row (clock (length xs)) r)"
      using IH(3) new s1 by simp
    moreover have "mission s1 (x_mission_id y) = mission s (x_mission_id y)" if "y \<in> set xs" for y
      using that new s1 by (metis fun_upd_other image_eqI)
    ultimately show ?thesis
      using IH n True st(1) r(1) s1 by auto
  qed
qed

end

subsection \<open>The SQLite store as the sweeper's store\<close>

lemma requeue_expired_mission_eq:
  "requeue_expired_mission now mid st v gen e d =
    (if legal_transition st (status_value QUEUED)
     then (sql_rowcount (\<lambda>r. m_mission_id r = mid \<and> requeue_matches now st v gen e r) (missions d) = 1,
           d\<lparr>missions := sql_update (\<lambda>r. m_mission_id r = mid \<and> requeue_matches now st v gen e r)
               (requeued_row now) (missions d)\<rparr>)
     else (False, d))"
  by (simp add: requeue_expired_mission_def requeue_matches_def requeued_row_def [abs_def] Let_def)

lemma requeued_row_id [simp]: "m_mission_id (requeued_row now r) = m_mission_id r"
  by (simp add: requeued_row_def)

lemma requeue_store_done:
  assumes "keyed m_mission_id (missions d)" "mission_at d mid = Some r"
    and "requeue_matches now st v gen e r" "legal_transition st (status_value QUEUED)"
  shows "\<exists>d'. requeue_expired_mission now mid st v gen e d = (True, d') \<and> keyed m_mission_id (missions d')
    \<and> mission_at d' = (mission_at d)(mid \<mapsto> requeued_row now r)"
proof -
  let ?P = "\<lambda>r. m_mission_id r = mid \<and> requeue_matches now st v gen e r"
  let ?d = "d\<lparr>missions := sql_update ?P (requeued_row now) (missions d)\<rparr>"
  have "requeue_expired_mission now mid st v gen e d = (True, ?d)"
    using assms by (simp add: requeue_expired_mission_eq rowcount_key)
  moreover have "mission_at ?d = (mission_at d)(mid \<mapsto> requeued_row now r)"
  proof
    fix m
    show "mission_at ?d m = ((mission_at d)(mid \<mapsto> requeued_row now r)) m"
      using assms(2,3) by (cases "mission_at d m") (auto simp: table_simps dest: row_of_Some)
  qed
  moreover have "keyed m_mission_id (missions ?d)" using assms(1) by (simp add: keyed_update)
  ultimately show ?thesis by blast
qed

lemma requeue_store_refused:
  assumes "keyed m_mission_id (missions d)"
    and "\<And>r. mission_at d mid = Some r \<Longrightarrow> \<not> requeue_matches now st v gen e r"
  shows "requeue_expired_mission now mid st v gen e d = (False, d)"
  using no_row_matches [OF assms(1), where mid = mid and Q = "requeue_matches now st v gen e"
      and P = "\<lambda>r. m_mission_id r = mid \<and> requeue_matches now st v gen e r"] assms(2)
  by (simp add: requeue_expired_mission_eq)

interpretation store: mission_sweep_store requeue_expired_mission mission_at "\<lambda>d. keyed m_mission_id (missions d)"
  by unfold_locales (auto intro: requeue_store_done requeue_store_refused)

abbreviation sweep_store :: "instant \<Rightarrow> (nat \<Rightarrow> instant) \<Rightarrow> int \<Rightarrow> db \<Rightarrow> int \<times> db" where
  "sweep_store \<equiv> sweep_expired_leases list_expired_mission_leases requeue_expired_mission"

lemma listed_expired:
  assumes "keyed m_mission_id (missions d)" "x \<in> set (list_expired_mission_leases now limit d)"
    and "\<And>i. now \<le> clock i"
  shows "store.listed clock d x"
proof -
  from assms(2) obtain r e where r: "r \<in> set (missions d)" "x = project_expired r"
      "m_lease_expires_at r = Some e" "e < now"
    by (auto simp: list_expired_mission_leases_def lease_expired_def Let_def dest!: in_set_takeD
        split: option.splits)
  moreover from this have "mission_at d (x_mission_id x) = Some r"
    using keyed_row_of [OF assms(1)] by (simp add: project_expired_def)
  moreover have "e < clock i" for i using r(4) assms(3) [of i] by linarith
  ultimately show ?thesis by (auto simp: store.listed_def project_expired_def)
qed

lemma listed_distinct:
  assumes "keyed m_mission_id (missions d)"
  shows "distinct (map x_mission_id (list_expired_mission_leases now limit d))"
proof -
  let ?rows = "sort_key m_updated_at (filter (lease_expired now) (missions d))"
  have "distinct (map m_mission_id (filter (lease_expired now) (missions d)))"
    using assms unfolding keyed_def by (rule distinct_map_filter)
  then have "distinct ?rows" "inj_on m_mission_id (set ?rows)" by (simp_all add: distinct_map)
  then have "distinct (map m_mission_id ?rows)" by (simp add: distinct_map)
  then have "distinct (map m_mission_id (take (nat (max 1 (min limit 200))) ?rows))"
    by (simp add: take_map [symmetric])
  then show ?thesis
    by (simp add: list_expired_mission_leases_def Let_def project_expired_def comp_def)
qed

subsection \<open>Properties\<close>

text \<open>C19. A sweep touches nothing but expired work: each mission is afterwards as it was, or it was
  running, waiting or dormant under a lease that had expired at the clock of its requeue and is now
  queued without a lease, one checkpoint version and one fence further. Verifying, escalated and
  finished missions are never moved.\<close>

theorem sweep_moves_only_expired:
  assumes "keyed m_mission_id (missions d)" "sweep_store now clock limit d = (n, d')"
    and "mission_at d mid = Some r"
  shows "mission_at d' mid = Some r \<or>
    (\<exists>t e. sweepable (m_status r) \<and> m_lease_expires_at r = Some e \<and> e < t
       \<and> mission_at d' mid = Some (requeued_row t r))"
  using store.sweep_rows_swept [OF assms(1) assms(2) [unfolded sweep_expired_leases_def], of mid] assms(3)
  by (auto simp: store.swept_def)

theorem sweep_moves_only_expired_witness:
  "\<exists>t. mission_at (snd (sweep_store 2000 (\<lambda>i. 2000) 50 sample_db)) ''m1'' = Some sample_mission \<or>
     mission_at (snd (sweep_store 2000 (\<lambda>i. 2000) 50 sample_db)) ''m1'' = Some (requeued_row t sample_mission)"
  using sweep_moves_only_expired [of sample_db 2000 "\<lambda>i. 2000" 50 _ _ "''m1''" sample_mission, OF _ surjective_pairing]
  by auto

text \<open>C20. A sweep misses nothing: on a store nobody else writes to meanwhile, and with no more expired
  leases than its limit, it requeues every sweepable mission whose lease has expired and returns how
  many there were.\<close>

theorem sweep_requeues_all:
  assumes "keyed m_mission_id (missions d)" "sweep_store now clock limit d = (n, d')"
    and "\<And>i. now \<le> clock i"
    and "int (length (filter (lease_expired now) (missions d))) \<le> max 1 (min limit 200)"
  shows "n = int (length (filter (\<lambda>r. lease_expired now r \<and> sweepable (m_status r)) (missions d)))
    \<and> (\<forall>r \<in> set (missions d). lease_expired now r \<and> sweepable (m_status r) \<longrightarrow>
         (\<exists>t. mission_at d' (m_mission_id r) = Some (requeued_row t r)))"
proof -
  let ?xs = "list_expired_mission_leases now limit d"
  let ?ys = "sort_key m_updated_at (filter (lease_expired now) (missions d))"
  have "length ?ys \<le> nat (max 1 (min limit 200))" using assms(4) by simp
  then have xs: "?xs = map project_expired ?ys"
    by (simp add: list_expired_mission_leases_def Let_def)
  have run: "sweep_rows requeue_expired_mission clock ?xs d = (n, d')"
    using assms(2) by (simp add: sweep_expired_leases_def)
  have "\<forall>x \<in> set ?xs. store.listed clock d x"
    using assms(3) by (auto intro: listed_expired [OF assms(1)])
  from store.sweep_rows_done [OF assms(1) listed_distinct [OF assms(1)] this run]
  have n: "n = int (length (filter (\<lambda>x. \<exists>st. x_status x = status_value st \<and> sweepable st) ?xs))"
    and moved: "\<forall>x \<in> set ?xs. \<forall>r. mission_at d (x_mission_id x) = Some r \<longrightarrow> sweepable (m_status r) \<longrightarrow>
          (\<exists>t. mission_at d' (x_mission_id x) = Some (requeued_row t r))" by blast+
  have "n = int (length (filter (\<lambda>r. sweepable (m_status r)) ?ys))"
    unfolding n xs by (simp add: filter_map comp_def project_expired_def)
  also have "\<dots> = int (length (filter (\<lambda>r. sweepable (m_status r)) (filter (lease_expired now) (missions d))))"
    by (simp add: filter_sort)
  finally have "n = int (length (filter (\<lambda>r. lease_expired now r \<and> sweepable (m_status r)) (missions d)))"
    by simp
  moreover have "\<exists>t. mission_at d' (m_mission_id r) = Some (requeued_row t r)"
    if "r \<in> set (missions d)" "lease_expired now r" "sweepable (m_status r)" for r
  proof -
    have "project_expired r \<in> set ?xs" using that by (simp add: xs)
    with moved that(3) keyed_row_of [OF assms(1) that(1)] show ?thesis
      by (auto simp: project_expired_def)
  qed
  ultimately show ?thesis by blast
qed

theorem sweep_requeues_all_witness:
  "fst (sweep_store 2000 (\<lambda>i. 2000) 50 sample_db) = 1"
  using sweep_requeues_all [of sample_db 2000 "\<lambda>i. 2000" 50, OF _ surjective_pairing]
  by (simp add: lease_expired_def mission_terminal_def TERMINAL_STATUSES_def sweepable_def)

text \<open>A worker whose mission was swept is fenced off: none of the writes it makes under its former
  lease changes anything, after any further operations of other workers.\<close>

theorem swept_worker_fenced:
  assumes "keyed m_mission_id (missions d)" "mission_at d mid = Some r" "owns tok gen r"
    and "sweep_store now clock limit d = (n, d')" "mission_at d' mid \<noteq> Some r"
    and "list_all (\<lambda>x. \<not> creates mid x) ops" "fenced_by tok gen mid x"
  shows "exec x (run ops d') = run ops d'"
proof -
  note sw = store.sweep_rows_swept [OF assms(1) assms(4) [unfolded sweep_expired_leases_def]]
  obtain t where r': "mission_at d' mid = Some (requeued_row t r)"
    using sw [of mid] assms(2,5) by (auto simp: store.swept_def)
  have "gen \<le> m_lease_generation (requeued_row t r)" "\<not> owns tok gen (requeued_row t r)"
    using assms(3) by (simp_all add: requeued_row_def owns_def)
  with sw r' show ?thesis using stale_lease_fenced assms(6,7) by blast
qed

theorem swept_worker_fenced_witness:
  "let d' = snd (sweep_store 2000 (\<lambda>i. 2000) 50 sample_db) in
   exec (Heartbeat 2100 2100 ''m1'' ''w1'' 1 60) (run [] d') = run [] d'"
proof -
  let ?d' = "snd (sweep_store 2000 (\<lambda>i. 2000) 50 sample_db)"
  have "mission_at ?d' ''m1'' \<noteq> Some sample_mission" by code_simp
  then show ?thesis
    using swept_worker_fenced [of sample_db "''m1''" sample_mission "''w1''" 1 2000 "\<lambda>i. 2000" 50,
        OF _ _ _ surjective_pairing, of "[]" "Heartbeat 2100 2100 ''m1'' ''w1'' 1 60"]
    by (simp add: owns_def)
qed

end
