(* ===== verification/Py_Decimal.thy ===== *)
theory Py_Decimal
  imports Py_Text Complex_Main
begin

text \<open>
  The part of \<open>decimal.Decimal\<close> the accounting uses: a finite decimal is a signed coefficient and a
  power of ten, and multiplication rounds to the 28 significant digits of the default context
  (\<open>ROUND_HALF_EVEN\<close>), while \<open>to_integral_value\<close> is exact. \<open>NonFinite\<close> stands for the infinities and NaNs.
\<close>

datatype decimal = Dec int int | NonFinite

datatype rounding = ROUND_CEILING | ROUND_FLOOR

definition ten_to :: "int \<Rightarrow> rat" where
  "ten_to e = (if 0 \<le> e then 10 ^ nat e else 1 / 10 ^ nat (- e))"

fun dec_rat :: "decimal \<Rightarrow> rat" where
  "dec_rat (Dec c e) = of_int c * ten_to e"
| "dec_rat NonFinite = 0"

definition digits :: "int \<Rightarrow> nat" where
  "digits c = length (nat_digits (nat \<bar>c\<bar>))"

text \<open>Division by a positive number, to the nearest integer, ties to the even one.\<close>

definition half_even :: "int \<Rightarrow> int \<Rightarrow> int" where
  "half_even n d =
    (let q = n div d; r = n mod d in
     if 2 * r < d then q else if d < 2 * r then q + 1 else if even q then q else q + 1)"

definition context_round :: "int \<Rightarrow> int \<Rightarrow> decimal" where
  "context_round c e =
    (if digits c \<le> 28 then Dec c e
     else let k = digits c - 28 in Dec (sgn c * half_even \<bar>c\<bar> (10 ^ k)) (e + int k))"

fun dec_times :: "decimal \<Rightarrow> int \<Rightarrow> decimal" where
  "dec_times (Dec c e) n = context_round (c * n) e"
| "dec_times NonFinite n = NonFinite"

fun to_integral :: "rounding \<Rightarrow> decimal \<Rightarrow> int" where
  "to_integral r (Dec c e) =
    (if 0 \<le> e then c * 10 ^ nat e
     else case r of ROUND_FLOOR \<Rightarrow> c div 10 ^ nat (- e)
                  | ROUND_CEILING \<Rightarrow> - (- c div 10 ^ nat (- e)))"
| "to_integral r NonFinite = 0"

lemma ten_to_pos [simp]: "0 < ten_to e"
  by (simp add: ten_to_def)

lemma to_integral_ceiling: "dec_rat d \<le> of_int (to_integral ROUND_CEILING d)"
  and to_integral_floor: "of_int (to_integral ROUND_FLOOR d) \<le> dec_rat d"
proof (induction d)
  case (Dec c e)
  let ?p = "10 ^ nat (- e) :: int"
  have p: "0 < ?p" by simp
  have "c \<le> - (- c div ?p) * ?p"
    using div_mult_mod_eq [of "- c" ?p] pos_mod_sign [OF p, of "- c"] by linarith
  then have "(of_int c :: rat) \<le> of_int (- (- c div ?p) * ?p)"
    by (rule of_int_le_iff [THEN iffD2])
  moreover have "(of_int (c div ?p * ?p) :: rat) \<le> of_int c"
    using div_mult_mod_eq [of c ?p] pos_mod_sign [OF p, of c] by (intro of_int_le_iff [THEN iffD2]) linarith
  ultimately show "dec_rat (Dec c e) \<le> of_int (to_integral ROUND_CEILING (Dec c e))"
    "of_int (to_integral ROUND_FLOOR (Dec c e)) \<le> dec_rat (Dec c e)"
    by (simp_all add: ten_to_def field_simps)
qed simp_all

lemma to_integral_lt_ceiling: "of_int (to_integral ROUND_CEILING d) < dec_rat d + 1"
proof (cases d)
  case (Dec c e)
  let ?p = "10 ^ nat (- e) :: int"
  have p: "0 < ?p" by simp
  have "- (- c div ?p) * ?p < c + ?p"
    using div_mult_mod_eq [of "- c" ?p] pos_mod_bound [OF p, of "- c"] by linarith
  then have "(of_int (- (- c div ?p) * ?p) :: rat) < of_int (c + ?p)"
    by (rule of_int_less_iff [THEN iffD2])
  with Dec show ?thesis by (simp add: ten_to_def field_simps)
qed simp

text \<open>A number below \<open>10 ^ n\<close> prints with at most \<open>n\<close> digits.\<close>

lemma length_nat_digits: "0 < n \<Longrightarrow> m < 10 ^ n \<Longrightarrow> length (nat_digits m) \<le> n"
proof (induction m arbitrary: n rule: nat_digits.induct)
  case (1 m)
  show ?case
  proof (cases "m < 10")
    case True
    with 1(2) show ?thesis unfolding nat_digits.simps [of m] by simp
  next
    case False
    obtain k where n: "n = Suc k" using 1(2) by (cases n) auto
    with False 1(3) have "1 < n" by (cases k) simp_all
    moreover have "m div 10 < 10 ^ (n - 1)"
      using 1(3) by (simp add: n less_mult_imp_div_less mult.commute)
    ultimately have "length (nat_digits (m div 10)) \<le> n - 1"
      by (intro 1(1) [OF False]) simp_all
    with False \<open>1 < n\<close> show ?thesis unfolding nat_digits.simps [of m] by simp
  qed
qed

lemma dec_times_exact:
  assumes "\<bar>c * n\<bar> < 10 ^ 28"
  shows "dec_times (Dec c e) n = Dec (c * n) e"
proof -
  have "nat \<bar>c * n\<bar> < 10 ^ 28" using assms by (simp add: nat_less_iff)
  then have "digits (c * n) \<le> 28"
    unfolding digits_def by (intro length_nat_digits) simp_all
  then show ?thesis by (simp add: context_round_def)
qed

end
