(* ===== verification/Spend_Guard.thy ===== *)
theory Spend_Guard
  imports Database Py_Decimal
begin

text \<open>
  The spend guard of \<open>PublicStateStore\<close> (\<open>state.py\<close>): reservations of provider spend against a
  limit per scope and UTC day. Amounts are ticks of 1e-10 USD. A call of the store is one
  \<open>BEGIN IMMEDIATE\<close> transaction at one clock reading; an exception rolls it back, so an \<open>Inl\<close>
  result comes with the database as it was. The result is the admission payload, its amounts in ticks
  where the code renders them as USD floats. \<open>sum_cost\<close> is SQLite's \<open>SUM\<close> over a \<open>REAL\<close> column,
  followed by \<open>str\<close>: the summation order and its rounding are SQLite's.
\<close>

subsection \<open>Amounts, identities and limits\<close>

definition SPEND_GUARD_TICKS_PER_USD :: int where
  "SPEND_GUARD_TICKS_PER_USD = 10000000000"

definition SPEND_GUARD_MAX_TICKS :: int where
  "SPEND_GUARD_MAX_TICKS = 2 ^ 63 - 1"

definition SPEND_GUARD_MAX_ROWS_PER_SCOPE_DAY :: int where
  "SPEND_GUARD_MAX_ROWS_PER_SCOPE_DAY = 10000"

text \<open>An amount as the code reads it: a \<open>bool\<close>, or what \<open>Decimal(str(value))\<close> gives (or raises).\<close>

datatype usd_arg = USDBool | USD decimal | USDInvalid

definition spend_guard_ticks :: "usd_arg \<Rightarrow> string \<Rightarrow> rounding \<Rightarrow> bool \<Rightarrow> py_error + int" where
  "spend_guard_ticks v field rounding require_positive =
    (case v of
       USDBool \<Rightarrow> Inl (ValueError (field @ '' must be a finite non-negative USD amount''))
     | USDInvalid \<Rightarrow> Inl (ValueError (field @ '' must be a finite non-negative USD amount''))
     | USD amount \<Rightarrow>
         if amount = NonFinite \<or> dec_rat amount < 0 \<or> (require_positive \<and> dec_rat amount = 0)
         then Inl (ValueError (field @ '' must be a finite ''
                @ (if require_positive then ''positive'' else ''non-negative'') @ '' USD amount''))
         else let ticks = to_integral rounding (dec_times amount SPEND_GUARD_TICKS_PER_USD) in
           if ticks > SPEND_GUARD_MAX_TICKS
           then Inl (ValueError (field @ '' exceeds the spend guard storage range''))
           else Inr (if require_positive \<and> ticks < 1 then 1 else ticks))"

definition SPEND_GUARD_RESERVATION_PATTERN :: re where
  "SPEND_GUARD_RESERVATION_PATTERN =
    seqs [Bos, Chr is_alnum, Rep 159 (Chr (\<lambda>c. is_alnum c \<or> c \<in> set ''._:/-'')), Eos]"

definition validated_spend_guard_identity :: "string \<Rightarrow> string \<Rightarrow> py_error + string" where
  "validated_spend_guard_identity v field =
    (let normalized = str_strip v in
     if re_fullmatch SPEND_GUARD_RESERVATION_PATTERN normalized then Inr normalized
     else Inl (ValueError (field @ '' must be 1-160 characters using letters, numbers, '' @
       [CHR 0x27] @ ''.'' @ [CHR 0x27] @ '', '' @ [CHR 0x27] @ ''_'' @ [CHR 0x27] @ '', '' @
       [CHR 0x27] @ '':'' @ [CHR 0x27] @ '', '' @ [CHR 0x27] @ ''/'' @ [CHR 0x27] @ '', or '' @
       [CHR 0x27] @ ''-'' @ [CHR 0x27])))"

definition validated_spend_guard_stale_seconds :: "int \<Rightarrow> py_error + int" where
  "validated_spend_guard_stale_seconds n =
    (if 1 \<le> n \<and> n \<le> 24 * 60 * 60 then Inr n
     else Inl (ValueError ''stale_after_seconds must be between 1 and 86400 seconds''))"

subsection \<open>Shared steps of a transaction\<close>

definition expirable :: "instant \<Rightarrow> reservation_row \<Rightarrow> bool" where
  "expirable now r \<longleftrightarrow> r_status r = Pending \<and> r_expires_at r \<le> now"

definition mark_unknown :: "string \<Rightarrow> instant \<Rightarrow> reservation_row \<Rightarrow> reservation_row" where
  "mark_unknown reason now r =
    r\<lparr>r_status := Unknown, r_actual_ticks := None, r_unknown_reason := Some reason, r_updated_at := now\<rparr>"

definition expire_spend_guard_reservations :: "instant \<Rightarrow> db \<Rightarrow> int \<times> db" where
  "expire_spend_guard_reservations now d =
    (max 0 (sql_rowcount (expirable now) (reservations d)),
     d\<lparr>reservations := sql_update (expirable now) (mark_unknown ''stale_reservation'' now) (reservations d)\<rparr>)"

definition in_scope_day :: "string \<Rightarrow> int \<Rightarrow> reservation_row \<Rightarrow> bool" where
  "in_scope_day scope day r \<longleftrightarrow> r_scope r = scope \<and> r_utc_day r = day"

definition baseline_at :: "db \<Rightarrow> string \<Rightarrow> int \<Rightarrow> baseline_row option" where
  "baseline_at d scope day = row_of (\<lambda>b. (b_scope b, b_utc_day b)) (baselines d) (scope, day)"

text \<open>\<open>MIN(created_at)\<close> and the upper bound of the telemetry the baseline counts.\<close>

definition telemetry_upper_bound :: "string \<Rightarrow> int \<Rightarrow> db \<Rightarrow> instant" where
  "telemetry_upper_bound scope day d =
    (case map r_created_at (filter (in_scope_day scope day) (reservations d)) of
       [] \<Rightarrow> day_start_of (day + 1)
     | t # ts \<Rightarrow> min (day_start_of (day + 1)) (max (day_start_of day) (fold min ts t)))"

definition ensure_telemetry_baseline ::
  "(rat list \<Rightarrow> usd_arg) \<Rightarrow> instant \<Rightarrow> string \<Rightarrow> int \<Rightarrow> string option \<Rightarrow> db \<Rightarrow> py_error + (int \<times> db)" where
  "ensure_telemetry_baseline sum_cost now scope day caller d =
    (case baseline_at d scope day of
       Some b \<Rightarrow>
         if caller \<noteq> None \<and> caller \<noteq> Some (b_telemetry_caller b)
         then Inl (ValueError ''spend guard baseline caller does not match its scope'')
         else Inr (b_baseline_ticks b, d)
     | None \<Rightarrow> (case caller of
         None \<Rightarrow> Inr (0, d)
       | Some c \<Rightarrow>
           let rows = filter (\<lambda>t. t_caller t = c \<and> day_start_of day \<le> t_created_at t
                         \<and> t_created_at t < telemetry_upper_bound scope day d) (telemetry d) in
           case spend_guard_ticks (sum_cost (map t_cost_usd rows)) ''telemetry_baseline_usd'' ROUND_CEILING False of
             Inl e \<Rightarrow> Inl e
           | Inr ticks \<Rightarrow>
               Inr (ticks, d\<lparr>baselines := baselines d @
                 [\<lparr>b_scope = scope, b_utc_day = day, b_telemetry_caller = c, b_baseline_ticks = ticks,
                   b_source_max_telemetry_id = fold max (map t_id rows) 0, b_created_at = now\<rparr>]\<rparr>)))"

definition committed_of :: "reservation_row \<Rightarrow> int" where
  "committed_of r = (case r_actual_ticks r of Some a \<Rightarrow> if r_status r = Reconciled then a else 0 | None \<Rightarrow> 0)"

definition pending_of :: "reservation_row \<Rightarrow> int" where
  "pending_of r = (if r_status r = Pending then r_reserved_ticks r else 0)"

definition unknown_of :: "reservation_row \<Rightarrow> int" where
  "unknown_of r =
    (if r_status r = Unknown \<or> (r_status r = Reconciled \<and> r_actual_ticks r = None) then 1 else 0)"

definition spend_guard_totals :: "string \<Rightarrow> int \<Rightarrow> db \<Rightarrow> int \<times> int \<times> int" where
  "spend_guard_totals scope day d =
    (let rows = filter (in_scope_day scope day) (reservations d) in
     ((case baseline_at d scope day of None \<Rightarrow> 0 | Some b \<Rightarrow> b_baseline_ticks b)
        + sum_list (map committed_of rows),
      sum_list (map pending_of rows), sum_list (map unknown_of rows)))"

subsection \<open>The admission payload\<close>

datatype admission_status = Denied | Row guard_status

record admission =
  p_reservation_id :: string
  p_scope :: string
  p_utc_day :: int
  p_status :: admission_status
  p_reservation_mode :: guard_mode
  p_admitted :: bool
  p_execute_provider :: bool
  p_created :: bool
  p_reason :: "string option"
  p_limit_ticks :: int
  p_reserved_ticks :: int
  p_committed_ticks :: int
  p_pending_ticks :: int
  p_remaining_ticks :: int
  p_unknown_count :: int
  p_expires_at :: "instant option"

definition admission_payload ::
  "string \<Rightarrow> string \<Rightarrow> int \<Rightarrow> admission_status \<Rightarrow> guard_mode \<Rightarrow> int \<Rightarrow> int \<Rightarrow> int \<Rightarrow> int \<Rightarrow> int \<Rightarrow> bool \<Rightarrow> bool \<Rightarrow>
   string option \<Rightarrow> instant option \<Rightarrow> admission" where
  "admission_payload rid scope day status mode limit reserved committed pending unknown admitted created
     reason expires =
    \<lparr>p_reservation_id = rid, p_scope = scope, p_utc_day = day, p_status = status,
     p_reservation_mode = mode, p_admitted = admitted,
     p_execute_provider = (admitted \<and> created \<and> status = Row Pending), p_created = created,
     p_reason = reason, p_limit_ticks = limit, p_reserved_ticks = reserved,
     p_committed_ticks = committed, p_pending_ticks = pending,
     p_remaining_ticks = max 0 (limit - (committed + pending)), p_unknown_count = unknown,
     p_expires_at = expires\<rparr>"

subsection \<open>Reserving\<close>

text \<open>The answer to a reservation id that is in the table.\<close>

definition replay_payload :: "reservation_row \<Rightarrow> string \<Rightarrow> db \<Rightarrow> admission" where
  "replay_payload ex rid d =
    (let (committed, pending, unknown) = spend_guard_totals (r_scope ex) (r_utc_day ex) d;
         admitted = (r_status ex \<in> {Pending, Reconciled});
         reason = (if admitted then ''reservation_exists''
                   else case r_unknown_reason ex of None \<Rightarrow> ''unknown_cost''
                        | Some s \<Rightarrow> if s = [] then ''unknown_cost'' else s)
     in admission_payload rid (r_scope ex) (r_utc_day ex) (Row (r_status ex)) (r_reservation_mode ex)
          (r_limit_ticks ex) (r_reserved_ticks ex) committed pending unknown admitted False
          (Some reason) (Some (r_expires_at ex)))"

text \<open>The reason a new reservation is refused, if it is.\<close>

definition refusal :: "guard_mode \<Rightarrow> int \<Rightarrow> int \<Rightarrow> int \<Rightarrow> int \<Rightarrow> int \<Rightarrow> int \<Rightarrow> string option" where
  "refusal mode limit reserved committed pending unknown rows =
    (if unknown \<noteq> 0 then Some ''unknown_cost''
     else if mode = Remaining \<and> pending > 0 then Some ''scope_busy''
     else if reserved \<le> 0 \<or> committed + pending + reserved > limit then Some ''limit_reached''
     else if rows \<ge> SPEND_GUARD_MAX_ROWS_PER_SCOPE_DAY then Some ''ledger_capacity''
     else None)"

definition new_reservation :: "instant \<Rightarrow> string \<Rightarrow> string \<Rightarrow> int \<Rightarrow> int \<Rightarrow> guard_mode \<Rightarrow> int \<Rightarrow> reservation_row" where
  "new_reservation now rid scope limit reserved mode stale =
    \<lparr>r_reservation_id = rid, r_scope = scope, r_utc_day = utc_day_of now, r_status = Pending,
     r_limit_ticks = limit, r_reserved_ticks = reserved, r_reservation_mode = mode,
     r_actual_ticks = None, r_created_at = now, r_expires_at = now + seconds stale,
     r_reconciled_at = None, r_updated_at = now, r_unknown_reason = None\<rparr>"

definition admit_reservation ::
  "instant \<Rightarrow> string \<Rightarrow> string \<Rightarrow> int \<Rightarrow> int option \<Rightarrow> guard_mode \<Rightarrow> int \<Rightarrow> db \<Rightarrow> (py_error + admission) \<times> db" where
  "admit_reservation now rid scope limit requested mode stale d =
    (let today = utc_day_of now;
         (committed, pending, unknown) = spend_guard_totals scope today d;
         amount = (if mode = Remaining then Some (max 0 (limit - committed - pending)) else requested)
     in case amount of
          None \<Rightarrow> (Inl (RuntimeError ''fixed spend reservation is missing its amount''), d)
        | Some reserved \<Rightarrow>
            (case refusal mode limit reserved committed pending unknown
                    (int (length (filter (in_scope_day scope today) (reservations d)))) of
               Some reason \<Rightarrow>
                 (Inr (admission_payload rid scope today Denied mode limit reserved committed pending
                    unknown False False (Some reason) None), d)
             | None \<Rightarrow>
                 (Inr (admission_payload rid scope today (Row Pending) mode limit reserved committed
                    (pending + reserved) 0 True True None (Some (now + seconds stale))),
                  d\<lparr>reservations := reservations d @
                      [new_reservation now rid scope limit reserved mode stale]\<rparr>)))"

definition reserve_sync ::
  "(rat list \<Rightarrow> usd_arg) \<Rightarrow> instant \<Rightarrow> string \<Rightarrow> string \<Rightarrow> int \<Rightarrow> int option \<Rightarrow> guard_mode \<Rightarrow> int \<Rightarrow>
   string option \<Rightarrow> db \<Rightarrow> (py_error + admission) \<times> db" where
  "reserve_sync sum_cost now rid scope limit requested mode stale caller d =
    (let d1 = snd (expire_spend_guard_reservations now d) in
     case reservation_at d1 rid of
       Some ex \<Rightarrow>
         if r_scope ex \<noteq> scope \<or> r_reservation_mode ex \<noteq> mode
            \<or> (mode = Fixed \<and> Some (r_reserved_ticks ex) \<noteq> requested)
         then (Inl (ValueError ''reservation_id is already bound to a different spend attempt''), d)
         else (case ensure_telemetry_baseline sum_cost now scope (r_utc_day ex) caller d1 of
                 Inl e \<Rightarrow> (Inl e, d)
               | Inr (_, d2) \<Rightarrow> (Inr (replay_payload ex rid d2), d2))
     | None \<Rightarrow>
         (case ensure_telemetry_baseline sum_cost now scope (utc_day_of now) caller d1 of
            Inl e \<Rightarrow> (Inl e, d)
          | Inr (_, d2) \<Rightarrow>
              (case admit_reservation now rid scope limit requested mode stale d2 of
                 (Inl e, _) \<Rightarrow> (Inl e, d)
               | ok \<Rightarrow> ok)))"

text \<open>\<open>reserve_spend_guard\<close>: the arguments in the order the code validates them.\<close>

definition reserve_spend_guard ::
  "(rat list \<Rightarrow> usd_arg) \<Rightarrow> instant \<Rightarrow> string \<Rightarrow> string \<Rightarrow> usd_arg \<Rightarrow> usd_arg option \<Rightarrow> int \<Rightarrow> bool \<Rightarrow>
   string option \<Rightarrow> db \<Rightarrow> (py_error + admission) \<times> db" where
  "reserve_spend_guard sum_cost now reservation_id scope limit_usd reserve_usd stale reserve_remaining caller d =
    (case validated_spend_guard_identity reservation_id ''reservation_id'' of
       Inl e \<Rightarrow> (Inl e, d)
     | Inr rid \<Rightarrow>
    (case validated_spend_guard_identity scope ''scope'' of
       Inl e \<Rightarrow> (Inl e, d)
     | Inr sc \<Rightarrow>
    (case (case caller of None \<Rightarrow> Inr None
           | Some c \<Rightarrow> map_sum id Some (validated_spend_guard_identity c ''telemetry_baseline_caller'')) of
       Inl e \<Rightarrow> (Inl e, d)
     | Inr cl \<Rightarrow>
    (case spend_guard_ticks limit_usd ''limit_usd'' ROUND_FLOOR False of
       Inl e \<Rightarrow> (Inl e, d)
     | Inr limit \<Rightarrow>
    (case (if reserve_remaining
           then (if reserve_usd \<noteq> None
                 then Inl (ValueError ''reserve_usd must be omitted when reserve_remaining is true'')
                 else Inr (None, Remaining))
           else (case reserve_usd of
                   None \<Rightarrow> Inl (ValueError ''reserve_usd is required for a fixed reservation'')
                 | Some u \<Rightarrow> map_sum id (\<lambda>t. (Some t, Fixed))
                     (spend_guard_ticks u ''reserve_usd'' ROUND_CEILING True))) of
       Inl e \<Rightarrow> (Inl e, d)
     | Inr (requested, mode) \<Rightarrow>
    (case validated_spend_guard_stale_seconds stale of
       Inl e \<Rightarrow> (Inl e, d)
     | Inr secs \<Rightarrow> reserve_sync sum_cost now rid sc limit requested mode secs cl d))))))"

subsection \<open>Reconciling\<close>

text \<open>What one reconciliation writes into the row it found.\<close>

definition reconciled_row :: "instant \<Rightarrow> int option \<Rightarrow> string \<Rightarrow> bool \<Rightarrow> reservation_row \<Rightarrow> reservation_row" where
  "reconciled_row now actual unknown_reason resolve_unknown r =
    (case r_status r of
       Reconciled \<Rightarrow>
         if actual = None \<or> (r_actual_ticks r \<noteq> None \<and> r_actual_ticks r = actual) then r
         else mark_unknown ''conflicting_reconciliation'' now r
     | s \<Rightarrow>
         if s = Unknown \<and> \<not> resolve_unknown then r
         else (case actual of
             None \<Rightarrow> r\<lparr>r_status := Unknown, r_actual_ticks := None, r_unknown_reason := Some unknown_reason,
                       r_reconciled_at := Some now, r_updated_at := now\<rparr>
           | Some a \<Rightarrow> r\<lparr>r_status := Reconciled, r_actual_ticks := Some a, r_unknown_reason := None,
                         r_reconciled_at := Some now, r_updated_at := now\<rparr>))"

definition reconcile_payload :: "reservation_row \<Rightarrow> string \<Rightarrow> db \<Rightarrow> admission" where
  "reconcile_payload r rid d =
    (let (committed, pending, unknown) = spend_guard_totals (r_scope r) (r_utc_day r) d;
         reason = (if r_status r = Unknown
                   then Some (case r_unknown_reason r of None \<Rightarrow> ''unknown_cost''
                        | Some s \<Rightarrow> if s = [] then ''unknown_cost'' else s)
                   else None)
     in admission_payload rid (r_scope r) (r_utc_day r) (Row (r_status r)) (r_reservation_mode r)
          (r_limit_ticks r) (r_reserved_ticks r) committed pending unknown
          (r_status r = Reconciled) False reason (Some (r_expires_at r)))"

definition reconcile_sync ::
  "instant \<Rightarrow> string \<Rightarrow> int option \<Rightarrow> string \<Rightarrow> bool \<Rightarrow> string option \<Rightarrow> db \<Rightarrow> (py_error + admission) \<times> db" where
  "reconcile_sync now rid actual unknown_reason resolve_unknown expected_scope d =
    (let d1 = snd (expire_spend_guard_reservations now d) in
     case reservation_at d1 rid of
       None \<Rightarrow> (Inl (ValueError ''spend guard reservation was not found''), d)
     | Some row \<Rightarrow>
         if expected_scope \<noteq> None \<and> expected_scope \<noteq> Some (r_scope row)
         then (Inl (ValueError ''spend guard reservation belongs to another scope''), d)
         else let f = reconciled_row now actual unknown_reason resolve_unknown;
                  d2 = d1\<lparr>reservations := sql_update (\<lambda>r. r_reservation_id r = rid) f (reservations d1)\<rparr>
              in (Inr (reconcile_payload (f row) rid d2), d2))"

definition is_machine_label :: "string \<Rightarrow> bool" where
  "is_machine_label s =
    re_fullmatch (Seq (Chr (\<lambda>c. is_lower c \<or> is_digit c \<or> c \<in> set ''_:-''))
      (Rep 79 (Chr (\<lambda>c. is_lower c \<or> is_digit c \<or> c \<in> set ''_:-'')))) s"

definition reconcile_spend_guard ::
  "instant \<Rightarrow> string \<Rightarrow> usd_arg option \<Rightarrow> string \<Rightarrow> string option \<Rightarrow> db \<Rightarrow> (py_error + admission) \<times> db" where
  "reconcile_spend_guard now reservation_id actual_cost_usd unknown_reason expected_scope d =
    (case validated_spend_guard_identity reservation_id ''reservation_id'' of
       Inl e \<Rightarrow> (Inl e, d)
     | Inr rid \<Rightarrow>
    (case (case expected_scope of None \<Rightarrow> Inr None
           | Some s \<Rightarrow> map_sum id Some (validated_spend_guard_identity s ''expected_scope'')) of
       Inl e \<Rightarrow> (Inl e, d)
     | Inr sc \<Rightarrow>
         if \<not> is_machine_label unknown_reason
         then (Inl (ValueError ''unknown_reason must be a bounded machine label''), d)
         else let (actual, reason) =
             (case actual_cost_usd of
                None \<Rightarrow> (None, unknown_reason)
              | Some u \<Rightarrow> (case spend_guard_ticks u ''actual_cost_usd'' ROUND_CEILING False of
                    Inl _ \<Rightarrow> (None, ''invalid_actual_cost'')
                  | Inr t \<Rightarrow> (Some t, unknown_reason)))
           in reconcile_sync now rid actual reason False sc d))"

definition resolve_spend_guard_unknown ::
  "instant \<Rightarrow> string \<Rightarrow> usd_arg \<Rightarrow> db \<Rightarrow> (py_error + admission) \<times> db" where
  "resolve_spend_guard_unknown now reservation_id authoritative_cost_usd d =
    (case validated_spend_guard_identity reservation_id ''reservation_id'' of
       Inl e \<Rightarrow> (Inl e, d)
     | Inr rid \<Rightarrow>
    (case spend_guard_ticks authoritative_cost_usd ''authoritative_cost_usd'' ROUND_CEILING False of
       Inl e \<Rightarrow> (Inl e, d)
     | Inr t \<Rightarrow> reconcile_sync now rid (Some t) ''authoritative_resolution'' True None d))"

subsection \<open>Status\<close>

record guard_summary =
  g_scope :: string
  g_utc_day :: int
  g_committed_ticks :: int
  g_pending_ticks :: int
  g_unknown_count :: int
  g_blocked_unknown :: bool
  g_expired :: int

definition spend_guard_status_sync :: "instant \<Rightarrow> string \<Rightarrow> db \<Rightarrow> guard_summary \<times> db" where
  "spend_guard_status_sync now scope d =
    (let (expired, d1) = expire_spend_guard_reservations now d;
         (committed, pending, unknown) = spend_guard_totals scope (utc_day_of now) d1
     in (\<lparr>g_scope = scope, g_utc_day = utc_day_of now, g_committed_ticks = committed,
          g_pending_ticks = pending, g_unknown_count = unknown, g_blocked_unknown = (unknown \<noteq> 0),
          g_expired = expired\<rparr>, d1))"

definition spend_guard_status :: "instant \<Rightarrow> string \<Rightarrow> db \<Rightarrow> (py_error + guard_summary) \<times> db" where
  "spend_guard_status now scope d =
    (case validated_spend_guard_identity scope ''scope'' of
       Inl e \<Rightarrow> (Inl e, d)
     | Inr sc \<Rightarrow> map_prod Inr id (spend_guard_status_sync now sc d))"

end
