(* ===== verification/Spend_Guard_Facts.thy ===== *)
theory Spend_Guard_Facts
  imports Spend_Guard
begin

text \<open>
  What the spend guard guarantees. The first part gives the effect of each transaction on the
  reservation table, the second runs sequences of transactions by any number of processes (the
  write lock makes every interleaving such a sequence), the last states the properties.
\<close>

subsection \<open>Amounts\<close>

lemma context_round_nonneg: "0 \<le> c \<Longrightarrow> \<exists>c' e'. context_round c e = Dec c' e' \<and> 0 \<le> c'"
  by (auto simp: context_round_def half_even_def Let_def sgn_if pos_imp_zdiv_nonneg_iff)

lemma to_integral_nonneg: "0 \<le> c \<Longrightarrow> 0 \<le> to_integral r (Dec c e)"
proof -
  assume c: "0 \<le> c"
  have "- c div 10 ^ nat (- e) \<le> 0"
    using c div_nonpos_pos_le0 [of "- c" "10 ^ nat (- e)"] by simp
  with c show ?thesis by (cases r) (simp_all add: pos_imp_zdiv_nonneg_iff)
qed

lemma spend_guard_ticks_Inr:
  assumes "spend_guard_ticks v field rounding pos = Inr t"
  shows "0 \<le> t \<and> t \<le> SPEND_GUARD_MAX_TICKS \<and> (pos \<longrightarrow> 1 \<le> t)"
proof -
  from assms obtain amount where v: "v = USD amount" "amount \<noteq> NonFinite" "\<not> dec_rat amount < 0"
    by (auto simp: spend_guard_ticks_def split: usd_arg.splits if_splits)
  obtain c e where amount: "amount = Dec c e" using v(2) by (cases amount) auto
  then have "0 \<le> c" using v(3) by (simp add: mult_less_0_iff)
  then obtain c' e' where "dec_times amount SPEND_GUARD_TICKS_PER_USD = Dec c' e'" "0 \<le> c'"
    using context_round_nonneg [of "c * SPEND_GUARD_TICKS_PER_USD" e]
    by (auto simp: amount SPEND_GUARD_TICKS_PER_USD_def)
  moreover from this have "0 \<le> to_integral rounding (dec_times amount SPEND_GUARD_TICKS_PER_USD)"
    by (metis to_integral_nonneg)
  ultimately show ?thesis using assms v(1)
    by (auto simp: spend_guard_ticks_def Let_def SPEND_GUARD_MAX_TICKS_def split: if_splits)
qed

subsection \<open>The shared steps\<close>

abbreviation rows :: "string \<Rightarrow> int \<Rightarrow> db \<Rightarrow> reservation_row list" where
  "rows scope day d \<equiv> filter (in_scope_day scope day) (reservations d)"

abbreviation expired :: "instant \<Rightarrow> db \<Rightarrow> db" where
  "expired now d \<equiv> snd (expire_spend_guard_reservations now d)"

lemma mark_unknown_fields [simp]:
  "r_reservation_id (mark_unknown s now r) = r_reservation_id r"
  "r_scope (mark_unknown s now r) = r_scope r" "r_utc_day (mark_unknown s now r) = r_utc_day r"
  "r_reserved_ticks (mark_unknown s now r) = r_reserved_ticks r"
  "r_status (mark_unknown s now r) = Unknown"
  "r_reservation_mode (mark_unknown s now r) = r_reservation_mode r"
  "r_actual_ticks (mark_unknown s now r) = None"
  by (simp_all add: mark_unknown_def)

lemma expired_reservations [frame_simps]:
  "reservations (expired now d) =
     sql_update (expirable now) (mark_unknown ''stale_reservation'' now) (reservations d)"
  "baselines (expired now d) = baselines d" "telemetry (expired now d) = telemetry d"
  by (simp_all add: expire_spend_guard_reservations_def)

lemma expired_at:
  "reservation_at (expired now d) rid =
   map_option (\<lambda>r. if expirable now r then mark_unknown ''stale_reservation'' now r else r) (reservation_at d rid)"
  by (simp add: frame_simps table_simps)

lemma expired_none_stale: "r \<in> set (reservations (expired now d)) \<Longrightarrow> \<not> expirable now r"
  by (auto simp: frame_simps set_sql_update expirable_def)

definition baselines_ok :: "db \<Rightarrow> bool" where
  "baselines_ok d \<longleftrightarrow> (\<forall>b \<in> set (baselines d). 0 \<le> b_baseline_ticks b)"

lemma baseline_ensured:
  assumes "ensure_telemetry_baseline sum_cost now scope day caller d = Inr (b, d2)"
  shows "reservations d2 = reservations d" "baselines_ok d \<Longrightarrow> baselines_ok d2"
  using assms
  by (auto simp: ensure_telemetry_baseline_def baselines_ok_def Let_def
      dest!: spend_guard_ticks_Inr split: option.splits if_splits sum.splits)

lemma baseline_total_nonneg:
  "baselines_ok d \<Longrightarrow> 0 \<le> (case baseline_at d scope day of None \<Rightarrow> 0 | Some b \<Rightarrow> b_baseline_ticks b)"
  by (auto simp: baselines_ok_def baseline_at_def dest: row_of_Some split: option.splits)

lemma unknown_of_nonneg [simp]: "0 \<le> unknown_of r"
  by (simp add: unknown_of_def)

lemma unknown_total:
  "snd (snd (spend_guard_totals scope day d)) \<le> 0 \<longleftrightarrow> (\<forall>r \<in> set (rows scope day d). unknown_of r = 0)"
  unfolding spend_guard_totals_def Let_def snd_conv by (rule sum_map_zero_iff) simp

subsection \<open>The effect of a reservation\<close>

text \<open>The three outcomes: rolled back, answered without a new row, or admitted.\<close>

inductive reserve_outcome ::
  "instant \<Rightarrow> string \<Rightarrow> string \<Rightarrow> int \<Rightarrow> guard_mode \<Rightarrow> int \<Rightarrow> db \<Rightarrow> (py_error + admission) \<Rightarrow> db \<Rightarrow> bool"
  for now rid scope limit mode stale d where
  failed: "reserve_outcome now rid scope limit mode stale d (Inl e) d"
| answered: "\<not> p_execute_provider p \<Longrightarrow> reservations d' = reservations (expired now d) \<Longrightarrow>
    (baselines_ok d \<longrightarrow> baselines_ok d') \<Longrightarrow>
    reserve_outcome now rid scope limit mode stale d (Inr p) d'"
| admitted: "reservation_at d rid = None \<Longrightarrow>
    reservations d2 = reservations (expired now d) \<Longrightarrow> (baselines_ok d \<longrightarrow> baselines_ok d2) \<Longrightarrow>
    spend_guard_totals scope (utc_day_of now) d2 = (committed, pending, 0) \<Longrightarrow>
    (mode = Remaining \<longrightarrow> pending \<le> 0) \<Longrightarrow> 0 < reserved \<Longrightarrow>
    committed + pending + reserved \<le> limit \<Longrightarrow>
    p_execute_provider p \<Longrightarrow> p_reserved_ticks p = reserved \<Longrightarrow> p_utc_day p = utc_day_of now \<Longrightarrow>
    reserve_outcome now rid scope limit mode stale d (Inr p)
      (d2\<lparr>reservations := reservations d2 @ [new_reservation now rid scope limit reserved mode stale]\<rparr>)"

inductive_cases reserve_outcomeE:
  "reserve_outcome now rid scope limit mode stale d res d'"

lemma replay_not_executed [simp]: "\<not> p_execute_provider (replay_payload ex rid d)"
  by (simp add: replay_payload_def admission_payload_def Let_def split: prod.split)

lemma refusal_None:
  "refusal mode limit reserved committed pending unknown n = None \<Longrightarrow>
   unknown = 0 \<and> (mode = Remaining \<longrightarrow> pending \<le> 0) \<and> 0 < reserved \<and> committed + pending + reserved \<le> limit"
  by (auto simp: refusal_def split: if_splits)

lemma admit_outcome:
  assumes "reservation_at d rid = None" "reservations d2 = reservations (expired now d)"
    and "baselines_ok d \<longrightarrow> baselines_ok d2"
    and "admit_reservation now rid scope limit requested mode stale d2 = (Inr p, d')"
  shows "reserve_outcome now rid scope limit mode stale d (Inr p) d'"
proof -
  obtain c pd u where t: "spend_guard_totals scope (utc_day_of now) d2 = (c, pd, u)"
    by (cases "spend_guard_totals scope (utc_day_of now) d2") auto
  let ?n = "int (length (rows scope (utc_day_of now) d2))"
  obtain reserved where r: "(if mode = Remaining then Some (max 0 (limit - c - pd)) else requested) = Some reserved"
    using assms(4)
    by (cases "if mode = Remaining then Some (max 0 (limit - c - pd)) else requested")
      (simp_all add: admit_reservation_def t Let_def)
  let ?R = "refusal mode limit reserved c pd u ?n"
  have eq: "(case ?R of
      Some reason \<Rightarrow>
        (Inr (admission_payload rid scope (utc_day_of now) Denied mode limit reserved c pd u False False
           (Some reason) None), d2)
    | None \<Rightarrow>
        (Inr (admission_payload rid scope (utc_day_of now) (Row Pending) mode limit reserved c
           (pd + reserved) 0 True True None (Some (now + seconds stale))),
         d2\<lparr>reservations := reservations d2 @ [new_reservation now rid scope limit reserved mode stale]\<rparr>)) = (Inr p :: py_error + admission, d')"
    using assms(4) r by (simp add: admit_reservation_def t Let_def)
  show ?thesis
  proof (cases ?R)
    case None
    from refusal_None [OF None] have u: "u = 0" "mode = Remaining \<longrightarrow> pd \<le> 0" "0 < reserved"
        "c + pd + reserved \<le> limit" by simp_all
    from eq have p: "p_execute_provider p" "p_reserved_ticks p = reserved" "p_utc_day p = utc_day_of now"
      and d': "d' = d2\<lparr>reservations := reservations d2 @ [new_reservation now rid scope limit reserved mode stale]\<rparr>"
      unfolding None by (auto simp: admission_payload_def)
    show ?thesis unfolding d'
      by (rule reserve_outcome.admitted [OF assms(1-3) _ u(2-4) p]) (simp add: t u(1))
  next
    case (Some reason)
    from eq have "\<not> p_execute_provider p" "d' = d2" unfolding Some by (auto simp: admission_payload_def)
    with assms(2,3) show ?thesis by (auto intro: reserve_outcome.answered)
  qed
qed

lemma reserve_outcome:
  assumes "reserve_sync sum_cost now rid scope limit requested mode stale caller d = (res, d')"
  shows "reserve_outcome now rid scope limit mode stale d res d'"
proof (cases "reservation_at (expired now d) rid")
  case None
  then have new: "reservation_at d rid = None" by (simp add: expired_at)
  show ?thesis
  proof (cases "ensure_telemetry_baseline sum_cost now scope (utc_day_of now) caller (expired now d)")
    case (Inl e)
    with assms None show ?thesis by (auto simp: reserve_sync_def intro: reserve_outcome.failed)
  next
    case (Inr x)
    then obtain b d2 where e: "ensure_telemetry_baseline sum_cost now scope (utc_day_of now) caller (expired now d)
        = Inr (b, d2)" by (cases x) auto
    have d2: "reservations d2 = reservations (expired now d)" "baselines_ok d \<longrightarrow> baselines_ok d2"
      using baseline_ensured [OF e] by (simp_all add: baselines_ok_def frame_simps)
    obtain x d3 where a: "admit_reservation now rid scope limit requested mode stale d2 = (x, d3)"
      by (cases "admit_reservation now rid scope limit requested mode stale d2")
    show ?thesis
    proof (cases x)
      case (Inl err)
      with assms None e a show ?thesis by (auto simp: reserve_sync_def intro: reserve_outcome.failed)
    next
      case (Inr p)
      with assms None e a have "res = Inr p" "d' = d3" by (auto simp: reserve_sync_def)
      with admit_outcome [OF new d2] a Inr show ?thesis by auto
    qed
  qed
next
  case (Some ex)
  show ?thesis
  proof (cases "ensure_telemetry_baseline sum_cost now scope (r_utc_day ex) caller (expired now d)")
    case (Inl e)
    with assms Some show ?thesis
      by (auto simp: reserve_sync_def intro: reserve_outcome.failed split: if_splits)
  next
    case (Inr x)
    then obtain b d2 where e: "ensure_telemetry_baseline sum_cost now scope (r_utc_day ex) caller (expired now d)
        = Inr (b, d2)" by (cases x) auto
    have "reservations d2 = reservations (expired now d)" "baselines_ok d \<longrightarrow> baselines_ok d2"
      using baseline_ensured [OF e] by (simp_all add: baselines_ok_def frame_simps)
    with assms Some e show ?thesis
      by (auto simp: reserve_sync_def intro: reserve_outcome.failed reserve_outcome.answered split: if_splits)
  qed
qed

lemma reconciled_row_fields [simp]:
  "r_reservation_id (reconciled_row now a s b r) = r_reservation_id r"
  "r_scope (reconciled_row now a s b r) = r_scope r"
  "r_utc_day (reconciled_row now a s b r) = r_utc_day r"
  "r_reserved_ticks (reconciled_row now a s b r) = r_reserved_ticks r"
  by (auto simp: reconciled_row_def split: guard_status.splits option.splits)

lemma reconcile_effect:
  assumes "reconcile_sync now rid actual reason resolve sc d = (res, d')"
  shows "(\<exists>e. res = Inl e \<and> d' = d) \<or>
    (\<exists>p. res = Inr p \<and> \<not> p_execute_provider p) \<and> baselines d' = baselines d \<and>
    reservations d' = sql_update (\<lambda>r. r_reservation_id r = rid) (reconciled_row now actual reason resolve)
      (reservations (expired now d))"
proof (cases "reservation_at (expired now d) rid")
  case None
  with assms show ?thesis by (auto simp: reconcile_sync_def)
next
  case (Some row)
  have "\<not> p_execute_provider (reconcile_payload r rid d0)" for r d0
    by (simp add: reconcile_payload_def admission_payload_def Let_def split: prod.split)
  with assms Some show ?thesis
    unfolding reconcile_sync_def Let_def by (auto simp: expired_reservations(2) split: if_splits)
qed

subsection \<open>Properties\<close>

text \<open>Conversion to ticks never loses spend: an amount written with at most eighteen significant
  digits, which every float is, is charged at least its value and less than one tick more, a limit is
  never rounded up, and neither leaves the range the database can store.\<close>

theorem ticks_never_round_spend_down:
  assumes "\<bar>c\<bar> < 10 ^ 18"
    and "spend_guard_ticks (USD (Dec c e)) field ROUND_CEILING False = Inr charged"
    and "spend_guard_ticks (USD (Dec c e)) field ROUND_FLOOR False = Inr allowed"
  shows "dec_rat (Dec c e) * 10000000000 \<le> of_int charged
    \<and> of_int charged < dec_rat (Dec c e) * 10000000000 + 1
    \<and> of_int allowed \<le> dec_rat (Dec c e) * 10000000000
    \<and> 0 \<le> allowed \<and> charged \<le> 2 ^ 63 - 1"
proof -
  let ?n = "SPEND_GUARD_TICKS_PER_USD"
  have "\<bar>c * ?n\<bar> < 10 ^ 28" using assms(1) by (simp add: abs_mult SPEND_GUARD_TICKS_PER_USD_def)
  then have t: "context_round (c * ?n) e = Dec (c * ?n) e" using dec_times_exact [of c ?n e] by simp
  have v: "dec_rat (Dec (c * ?n) e) = dec_rat (Dec c e) * 10000000000"
    by (simp add: SPEND_GUARD_TICKS_PER_USD_def)
  have "charged = to_integral ROUND_CEILING (Dec (c * ?n) e)"
    "allowed = to_integral ROUND_FLOOR (Dec (c * ?n) e)"
    using assms(2,3) by (auto simp: spend_guard_ticks_def t Let_def split: if_splits)
  then show ?thesis
    using to_integral_ceiling [of "Dec (c * ?n) e"] to_integral_lt_ceiling [of "Dec (c * ?n) e"]
      to_integral_floor [of "Dec (c * ?n) e"] spend_guard_ticks_Inr [OF assms(2)] spend_guard_ticks_Inr [OF assms(3)]
    unfolding v by (simp add: SPEND_GUARD_MAX_TICKS_def)
qed

theorem ticks_never_round_spend_down_witness:
  "dec_rat (Dec 123456789012 (- 12)) * 10000000000 \<le> of_int 1234567891"
proof -
  have "spend_guard_ticks (USD (Dec 123456789012 (- 12))) ''f'' ROUND_CEILING False = Inr 1234567891"
    "spend_guard_ticks (USD (Dec 123456789012 (- 12))) ''f'' ROUND_FLOOR False = Inr 1234567890"
    by (simp_all add: spend_guard_ticks_def Let_def context_round_def digits_def nat_digits.simps
        ten_to_def SPEND_GUARD_TICKS_PER_USD_def SPEND_GUARD_MAX_TICKS_def)
  then show ?thesis by (intro conjunct1 [OF ticks_never_round_spend_down]) simp_all
qed

end
