(* ===== verification/Spend_Guard_Runs.thy ===== *)
theory Spend_Guard_Runs
  imports Spend_Guard_Facts
begin

text \<open>
  Executions of the spend guard: \<open>guard_step\<close> runs one transaction and records the provider call it
  authorised, if any. The invariants are kept by every transaction of every process, so they hold
  along every execution (\<open>transactions\<close>).
\<close>

subsection \<open>Executions\<close>

datatype guard_op =
    Reserve instant string string int "int option" guard_mode int "string option"
  | Reconcile instant string "int option" string "string option"
  | Resolve instant string int
  | Status instant string
  | Retention "int option" instant instant

text \<open>A provider call that was authorised: reservation, scope and UTC day.\<close>

type_synonym provider_call = "string \<times> string \<times> int"
type_synonym guard_state = "provider_call list \<times> db"

definition guard_answer :: "(rat list \<Rightarrow> usd_arg) \<Rightarrow> guard_op \<Rightarrow> db \<Rightarrow> (py_error + admission) option \<times> db" where
  "guard_answer sum_cost x d =
    (case x of
       Reserve now rid scope limit requested mode stale caller \<Rightarrow>
         map_prod Some id (reserve_sync sum_cost now rid scope limit requested mode stale caller d)
     | Reconcile now rid actual reason sc \<Rightarrow> map_prod Some id (reconcile_sync now rid actual reason False sc d)
     | Resolve now rid a \<Rightarrow>
         map_prod Some id (reconcile_sync now rid (Some a) ''authoritative_resolution'' True None d)
     | Status now scope \<Rightarrow> (None, snd (spend_guard_status_sync now scope d))
     | Retention h c1 c2 \<Rightarrow> (None, pruned h c1 c2 d))"

definition authorised :: "guard_op \<Rightarrow> (py_error + admission) option \<Rightarrow> provider_call list" where
  "authorised x ans =
    (case (x, ans) of
       (Reserve now rid scope _ _ _ _ _, Some (Inr p)) \<Rightarrow>
         if p_execute_provider p then [(rid, scope, p_utc_day p)] else []
     | _ \<Rightarrow> [])"

fun guard_step :: "(rat list \<Rightarrow> usd_arg) \<Rightarrow> guard_op \<Rightarrow> guard_state \<Rightarrow> guard_state" where
  "guard_step sum_cost x (calls, d) =
    (let (ans, d') = guard_answer sum_cost x d in (calls @ authorised x ans, d'))"

definition guard_run :: "(rat list \<Rightarrow> usd_arg) \<Rightarrow> guard_op list \<Rightarrow> guard_state" where
  "guard_run sum_cost ops = fold (guard_step sum_cost) ops ([], empty_db)"

text \<open>
  What a transaction does to the reservations: nothing at all (it was rolled back), or the expiry of
  stale rows followed by one of four changes.
\<close>

inductive guard_effect :: "(rat list \<Rightarrow> usd_arg) \<Rightarrow> guard_op \<Rightarrow> guard_state \<Rightarrow> guard_state \<Rightarrow> bool" where
  rolled_back: "guard_effect sc x (cs, d) (cs, d)"
| swept: "reservations d' = reservations (expired now d) \<Longrightarrow> (baselines_ok d \<longrightarrow> baselines_ok d') \<Longrightarrow>
    guard_effect sc x (cs, d) (cs, d')"
| reserved: "x = Reserve now rid scope limit requested mode stale caller \<Longrightarrow>
    reserve_outcome now rid scope limit mode stale d (Inr p) d' \<Longrightarrow> p_execute_provider p \<Longrightarrow>
    guard_answer sc x d = (Some (Inr p), d') \<Longrightarrow>
    guard_effect sc x (cs, d) (cs @ [(rid, scope, utc_day_of now)], d')"
| settled: "x = Reconcile now rid actual reason sc' \<and> \<not> resolve
      \<or> (\<exists>a. x = Resolve now rid a \<and> actual = Some a \<and> resolve) \<Longrightarrow>
    baselines d' = baselines d \<Longrightarrow>
    reservations d' = sql_update (\<lambda>r. r_reservation_id r = rid) (reconciled_row now actual reason resolve)
      (reservations (expired now d)) \<Longrightarrow>
    guard_effect sc x (cs, d) (cs, d')"
| retained: "x = Retention h c1 c2 \<Longrightarrow> guard_effect sc x (cs, d) (cs, pruned h c1 c2 d)"

lemma guard_step_effect: "guard_effect sc x s (guard_step sc x s)"
proof -
  obtain cs d where s: "s = (cs, d)" by (cases s)
  show ?thesis
  proof (cases x)
    case (Reserve now rid scope limit requested mode stale caller)
    obtain res d' where r: "reserve_sync sc now rid scope limit requested mode stale caller d = (res, d')"
      by (cases "reserve_sync sc now rid scope limit requested mode stale caller d")
    have ans: "guard_answer sc (Reserve now rid scope limit requested mode stale caller) d = (Some res, d')"
      by (simp add: guard_answer_def r)
    from reserve_outcome [OF r] show ?thesis
    proof (cases rule: reserve_outcome.cases)
      case (failed e)
      then show ?thesis by (simp add: s ans authorised_def Reserve guard_effect.rolled_back)
    next
      case (answered p)
      then show ?thesis by (simp add: s ans authorised_def Reserve guard_effect.swept)
    next
      case (admitted d2 committed pending reserved p)
      then have "reserve_outcome now rid scope limit mode stale d (Inr p) d'"
        using reserve_outcome [OF r] by simp
      with admitted show ?thesis
        using ans by (auto simp: s authorised_def Reserve intro!: guard_effect.reserved)
    qed
  next
    case (Reconcile now rid actual reason sc')
    obtain res d' where r: "reconcile_sync now rid actual reason False sc' d = (res, d')"
      by (cases "reconcile_sync now rid actual reason False sc' d")
    from reconcile_effect [OF r] show ?thesis
      by (auto simp: s guard_answer_def authorised_def Reconcile r intro: guard_effect.rolled_back
          guard_effect.settled)
  next
    case (Resolve now rid a)
    let ?R = "reconcile_sync now rid (Some a) ''authoritative_resolution'' True None d"
    obtain res d' where r: "?R = (res, d')" by (cases ?R)
    from reconcile_effect [OF r] show ?thesis
      by (auto simp: s guard_answer_def authorised_def Resolve r intro: guard_effect.rolled_back
          guard_effect.settled)
  next
    case (Status now scope)
    have "snd (spend_guard_status_sync now scope d) = expired now d"
      by (simp add: spend_guard_status_sync_def Let_def split: prod.split)
    then show ?thesis
      by (simp add: s guard_answer_def authorised_def Status guard_effect.swept baselines_ok_def
          expired_reservations(2))
  next
    case (Retention h c1 c2)
    then show ?thesis by (simp add: s guard_answer_def authorised_def guard_effect.retained)
  qed
qed

subsection \<open>The authorised calls are the rows of the table\<close>

definition row_call :: "reservation_row \<Rightarrow> provider_call" where
  "row_call r = (r_reservation_id r, r_scope r, r_utc_day r)"

lemma row_call_fields [simp]:
  "row_call (mark_unknown s now r) = row_call r" "row_call (reconciled_row now a t b r) = row_call r"
  by (simp_all add: row_call_def)

lemma row_call_expired [simp]: "map row_call (reservations (expired now d)) = map row_call (reservations d)"
  by (simp add: expired_reservations(1) map_sql_update)

text \<open>
  The rows of a day and the calls of that day are the same until a retention pass of a later day has run, which deletes
  reconciled rows; that pass closes the day. No day is reserved on after it was closed when the clocks of the processes agree
  on the day: \<open>forward_dated\<close>.
\<close>

definition calls_on :: "int \<Rightarrow> provider_call list \<Rightarrow> provider_call list" where
  "calls_on day cs = filter (\<lambda>c. snd (snd c) = day) cs"

fun closes :: "int \<Rightarrow> guard_op \<Rightarrow> bool" where
  "closes day (Retention h c1 c2) = (day < utc_day_of c2)"
| "closes day _ = False"

fun reserves_on :: "int \<Rightarrow> guard_op \<Rightarrow> bool" where
  "reserves_on day (Reserve now rid scope limit requested mode stale caller) = (utc_day_of now = day)"
| "reserves_on day _ = False"

definition forward_dated :: "guard_op list \<Rightarrow> bool" where
  "forward_dated ops = sorted_wrt (\<lambda>x y. case (x, y) of
     (Retention h c1 c2, Reserve now _ _ _ _ _ _ _) \<Rightarrow> utc_day_of c2 \<le> utc_day_of now | _ \<Rightarrow> True) ops"

fun day_recorded :: "int \<Rightarrow> bool \<Rightarrow> guard_state \<Rightarrow> bool" where
  "day_recorded day shut (calls, d) \<longleftrightarrow>
     keyed r_reservation_id (reservations d) \<and> distinct (map fst (calls_on day calls))
     \<and> (\<not> shut \<longrightarrow> calls_on day calls = map row_call (filter (\<lambda>r. r_utc_day r = day) (reservations d)))"

lemma calls_on_rows: "calls_on day (map row_call t) = map row_call (filter (\<lambda>r. r_utc_day r = day) t)"
  by (induction t) (simp_all add: calls_on_def row_call_def)

lemma same_rows_recorded:
  assumes "map row_call (reservations d') = map row_call (reservations d)" "day_recorded day shut (cs, d)"
  shows "day_recorded day shut (cs, d')"
proof -
  have "map fst (map row_call (reservations d')) = map fst (map row_call (reservations d))"
    "calls_on day (map row_call (reservations d')) = calls_on day (map row_call (reservations d))"
    by (simp_all only: assms(1))
  then show ?thesis
    using assms(2) by (simp add: keyed_def calls_on_rows comp_def) (simp add: row_call_def)
qed

lemma day_recorded_effect:
  "guard_effect sc x s s' \<Longrightarrow> day_recorded day shut s \<Longrightarrow> (shut \<Longrightarrow> \<not> reserves_on day x) \<Longrightarrow>
   day_recorded day (shut \<or> closes day x) s'"
proof (induction rule: guard_effect.induct)
  case (swept d' now d sc x cs)
  then have "map row_call (reservations d') = map row_call (reservations d)" by simp
  from same_rows_recorded [OF this swept.prems(1)] show ?case by auto
next
  case (reserved x now rid scope limit requested mode stale caller d p d' sc cs)
  then obtain d2 n where new: "reservation_at d rid = None" "reservations d2 = reservations (expired now d)"
    and d': "d' = d2\<lparr>reservations := reservations d2 @ [new_reservation now rid scope limit n mode stale]\<rparr>"
    by (auto elim!: reserve_outcomeE)
  have old: "day_recorded day shut (cs, d2)"
    by (rule same_rows_recorded [OF _ reserved.prems(1)]) (simp add: new(2))
  have "rid \<notin> r_reservation_id ` set (reservations d2)"
  proof -
    have "r_reservation_id ` set (reservations d2) = fst ` set (map row_call (reservations d2))"
      by (simp add: row_call_def image_image)
    also have "\<dots> = fst ` set (map row_call (reservations d))" by (simp only: new(2) row_call_expired)
    finally show ?thesis using new(1) by (auto simp: row_of_None row_call_def)
  qed
  moreover have "rid \<notin> fst ` set (calls_on day cs)" if "utc_day_of now = day"
  proof -
    have "\<not> shut" using that reserved.prems(2) reserved(1) by auto
    with old have "set (calls_on day cs) \<subseteq> row_call ` set (reservations d2)" by auto
    with calculation show ?thesis by (auto simp: row_call_def)
  qed
  ultimately show ?case
    using old by (auto simp: d' keyed_def calls_on_def row_call_def new_reservation_def reserved(1))
next
  case (settled x now rid actual reason sc' resolve d' d sc cs)
  then have "map row_call (reservations d') = map row_call (reservations d)" by (simp add: map_sql_update)
  from same_rows_recorded [OF this settled.prems(1)] show ?case by auto
next
  case (retained x h c1 c2 sc cs d)
  have "filter (\<lambda>r. r_utc_day r = day) (reservations (pruned h c1 c2 d)) = filter (\<lambda>r. r_utc_day r = day) (reservations d)"
    if "\<not> day < utc_day_of c2"
    using that by (auto simp: pruned_reservations sql_delete_def prunable_reservation_def intro: filter_cong)
  moreover have "keyed r_reservation_id (reservations (pruned h c1 c2 d))"
    using retained.prems(1) by (simp add: pruned_reservations keyed_def sql_delete_def distinct_map_filter)
  ultimately show ?case using retained by auto
qed auto

lemma closed_stays:
  assumes "forward_dated (x # ops)" "closes day x"
  shows "list_all (\<lambda>y. \<not> reserves_on day y) ops"
proof -
  obtain h c1 c2 where x: "x = Retention h c1 c2" "day < utc_day_of c2" using assms(2) by (cases x) auto
  with assms(1) have "\<not> reserves_on day y" if "y \<in> set ops" for y
    using that by (cases y) (auto simp: forward_dated_def)
  then show ?thesis by (simp add: list_all_iff)
qed

lemma day_recorded_run:
  "\<lbrakk>day_recorded day shut s; forward_dated ops; shut \<Longrightarrow> list_all (\<lambda>x. \<not> reserves_on day x) ops\<rbrakk> \<Longrightarrow>
   day_recorded day (shut \<or> list_ex (closes day) ops) (fold (guard_step sc) ops s)"
proof (induction ops arbitrary: s shut)
  case (Cons x ops)
  have "day_recorded day (shut \<or> closes day x) (guard_step sc x s)"
    using Cons.prems by (intro day_recorded_effect [OF guard_step_effect]) auto
  moreover have "closes day x \<Longrightarrow> list_all (\<lambda>y. \<not> reserves_on day y) ops"
    using Cons.prems(2) by (rule closed_stays)
  ultimately have "day_recorded day ((shut \<or> closes day x) \<or> list_ex (closes day) ops) (fold (guard_step sc) ops (guard_step sc x s))"
    using Cons.prems(2,3) by (intro Cons.IH) (auto simp: forward_dated_def)
  then show ?case by (simp add: disj_assoc)
qed simp

lemma guard_run_day:
  "forward_dated ops \<Longrightarrow> day_recorded day (list_ex (closes day) ops) (guard_run sc ops)"
  unfolding guard_run_def
  using day_recorded_run [of day False "([], empty_db)" ops sc] by (simp add: empty_db_def keyed_def calls_on_def)

subsection \<open>The bound on the spend\<close>

text \<open>
  \<open>cost rid\<close> is what the provider call of reservation \<open>rid\<close> costs. A transaction is priced when
  it keeps to that: a reservation asks for no more than the scope's limit \<open>L\<close> and holds at least its
  cost, and a reconciliation reports the cost.
\<close>

fun priced :: "(rat list \<Rightarrow> usd_arg) \<Rightarrow> (string \<Rightarrow> int) \<Rightarrow> (string \<Rightarrow> int) \<Rightarrow> guard_op \<Rightarrow> guard_state \<Rightarrow> bool" where
  "priced sum_cost cost L (Reserve now rid scope limit requested mode stale caller) (cs, d) =
     (limit \<le> L scope \<and>
      (case fst (reserve_sync sum_cost now rid scope limit requested mode stale caller d) of
         Inl e \<Rightarrow> True
       | Inr p \<Rightarrow> p_execute_provider p \<longrightarrow> 0 \<le> cost rid \<and> cost rid \<le> p_reserved_ticks p))"
| "priced sum_cost cost L (Reconcile now rid actual reason sc) s = (actual = None \<or> actual = Some (cost rid))"
| "priced sum_cost cost L (Resolve now rid a) s = (a = cost rid)"
| "priced sum_cost cost L (Status now scope) s = True"
| "priced sum_cost cost L (Retention h c1 c2) s = True"

definition row_priced :: "(string \<Rightarrow> int) \<Rightarrow> reservation_row \<Rightarrow> bool" where
  "row_priced cost r \<longleftrightarrow>
     0 \<le> cost (r_reservation_id r) \<and> cost (r_reservation_id r) \<le> r_reserved_ticks r
     \<and> (r_status r = Reconciled \<longrightarrow> r_actual_ticks r = Some (cost (r_reservation_id r)))"

text \<open>What a row can still cost: its cost once that is known, the amount it holds before.\<close>

definition exposure :: "(string \<Rightarrow> int) \<Rightarrow> reservation_row \<Rightarrow> int" where
  "exposure cost r = (if r_status r = Reconciled then cost (r_reservation_id r) else r_reserved_ticks r)"

fun spend_within :: "(string \<Rightarrow> int) \<Rightarrow> (string \<Rightarrow> int) \<Rightarrow> guard_state \<Rightarrow> bool" where
  "spend_within cost L (cs, d) \<longleftrightarrow>
     baselines_ok d \<and> (\<forall>r \<in> set (reservations d). row_priced cost r) \<and>
     (\<forall>scope day. sum_list (map (exposure cost) (rows scope day d)) \<le> max 0 (L scope))"

declare spend_within.simps [simp del]

lemma within_baselines: "spend_within cost L (cs, d) \<Longrightarrow> baselines_ok d"
  by (simp add: spend_within.simps)

lemma in_scope_day_fields [simp]:
  "in_scope_day scope day (mark_unknown s now r) = in_scope_day scope day r"
  "in_scope_day scope day (reconciled_row now a t b r) = in_scope_day scope day r"
  by (simp_all add: in_scope_day_def)

lemma exposure_nonneg: "row_priced cost r \<Longrightarrow> 0 \<le> exposure cost r"
  by (auto simp: row_priced_def exposure_def)

lemma within_update:
  assumes "spend_within cost L (cs, d)" "baselines_ok d'" "reservations d' = sql_update P f (reservations d)"
    and f: "\<And>scope day r. P r \<Longrightarrow> in_scope_day scope day (f r) = in_scope_day scope day r"
      "\<And>r. P r \<Longrightarrow> row_priced cost r \<Longrightarrow> row_priced cost (f r) \<and> exposure cost (f r) \<le> exposure cost r"
  shows "spend_within cost L (cs', d')"
proof -
  have "sum_list (map (exposure cost) (rows scope day d')) \<le> sum_list (map (exposure cost) (rows scope day d))"
    for scope day
  proof -
    have "rows scope day d' = sql_update P f (rows scope day d)"
      unfolding assms(3) by (rule filter_sql_update) (simp add: f)
    with assms(1) f(2) show ?thesis by (auto simp: spend_within.simps intro: sum_list_update_le)
  qed
  moreover have "row_priced cost r" if "r \<in> set (reservations d')" for r
    using that assms(1) f(2) by (auto simp: assms(3) set_sql_update spend_within.simps)
  ultimately show ?thesis
    using assms(1,2) unfolding spend_within.simps by (meson order_trans)
qed

lemma within_expired: "spend_within cost L (cs, d) \<Longrightarrow> spend_within cost L (cs', expired now d)"
  by (rule within_update [OF _ _ expired_reservations(1)])
    (auto simp: spend_within.simps baselines_ok_def expired_reservations(2) row_priced_def exposure_def expirable_def)

lemma within_cong:
  "spend_within cost L (cs, d) \<Longrightarrow> reservations d' = reservations d \<Longrightarrow> baselines_ok d' \<Longrightarrow> spend_within cost L (cs', d')"
  by (simp add: spend_within.simps)

lemma reconciled_row_priced:
  "row_priced cost r \<Longrightarrow> actual = None \<or> actual = Some (cost (r_reservation_id r)) \<Longrightarrow>
   row_priced cost (reconciled_row now actual s b r)
   \<and> exposure cost (reconciled_row now actual s b r) \<le> exposure cost r"
  by (cases "r_status r") (auto simp: reconciled_row_def row_priced_def exposure_def)

lemma within_admitted:
  assumes w: "spend_within cost L (cs, d2)"
    and t: "spend_guard_totals scope (utc_day_of now) d2 = (committed, pending, 0)"
    and fits: "0 < n" "committed + pending + n \<le> limit" "limit \<le> L scope"
    and price: "0 \<le> cost rid" "cost rid \<le> n"
  shows "spend_within cost L (cs', d2\<lparr>reservations := reservations d2 @
    [new_reservation now rid scope limit n mode stale]\<rparr>)"
proof -
  let ?r = "new_reservation now rid scope limit n mode stale" and ?rows = "rows scope (utc_day_of now) d2"
  have r: "r_reservation_id ?r = rid" "r_status ?r = Pending" "r_reserved_ticks ?r = n"
    "\<And>s day. in_scope_day s day ?r \<longleftrightarrow> s = scope \<and> day = utc_day_of now"
    by (auto simp: new_reservation_def in_scope_day_def)
  have known: "unknown_of r = 0" if "r \<in> set ?rows" for r
    using unknown_total [of scope "utc_day_of now" d2] t that by simp
  have "exposure cost r = committed_of r + pending_of r" if "r \<in> set ?rows" for r
    using known [OF that] that w
    by (cases "r_status r") (auto simp: exposure_def committed_of_def pending_of_def unknown_of_def row_priced_def
        spend_within.simps split: option.splits)
  then have "map (exposure cost) ?rows = map (\<lambda>r. committed_of r + pending_of r) ?rows" by simp
  then have "sum_list (map (exposure cost) ?rows) = sum_list (map committed_of ?rows) + sum_list (map pending_of ?rows)"
    by (simp only: sum_list_addf)
  moreover have "sum_list (map committed_of ?rows) \<le> committed" "sum_list (map pending_of ?rows) = pending"
    using t baseline_total_nonneg [of d2 scope "utc_day_of now"] w
    by (auto simp: spend_within.simps spend_guard_totals_def Let_def)
  ultimately have "sum_list (map (exposure cost) ?rows) + n \<le> L scope" using fits by linarith
  then show ?thesis
    using w price r(1-3) by (auto simp: spend_within.simps r(4) baselines_ok_def row_priced_def exposure_def)
qed

lemma within_effect: "guard_effect sc x s s' \<Longrightarrow> priced sc cost L x s \<Longrightarrow> spend_within cost L s \<Longrightarrow> spend_within cost L s'"
proof (induction rule: guard_effect.induct)
  case (swept d' now d sc x cs)
  then show ?case by (metis within_baselines within_cong within_expired)
next
  case (reserved x now rid scope limit requested mode stale caller d p d' sc cs)
  then have "fst (reserve_sync sc now rid scope limit requested mode stale caller d) = Inr p"
    by (cases "reserve_sync sc now rid scope limit requested mode stale caller d") (simp add: guard_answer_def)
  with reserved have p: "limit \<le> L scope" "0 \<le> cost rid" "cost rid \<le> p_reserved_ticks p"
    by simp_all
  from reserved(2,3) obtain d2 committed pending where
    d2: "reservations d2 = reservations (expired now d)" "baselines_ok d \<longrightarrow> baselines_ok d2"
    and t: "spend_guard_totals scope (utc_day_of now) d2 = (committed, pending, 0)"
      "0 < p_reserved_ticks p" "committed + pending + p_reserved_ticks p \<le> limit"
    and d': "d' = d2\<lparr>reservations := reservations d2 @
      [new_reservation now rid scope limit (p_reserved_ticks p) mode stale]\<rparr>"
    by (auto elim!: reserve_outcomeE)
  have "spend_within cost L (cs, d2)"
    using reserved.prems d2 by (metis within_baselines within_cong within_expired)
  then show ?case unfolding d' using t p by (intro within_admitted) auto
next
  case (settled x now rid actual reason sc' resolve d' d sc cs)
  then have "actual = None \<or> actual = Some (cost rid)" by auto
  moreover have "baselines_ok d'" using settled by (simp add: spend_within.simps baselines_ok_def)
  ultimately show ?case
    by (intro within_update [OF within_expired [OF settled.prems(2)] _ settled(3)])
      (simp_all add: reconciled_row_priced)
next
  case (retained x h c1 c2 sc cs d)
  let ?P = "prunable_reservation (retention_cutoff h c1) (utc_day_of c2)"
  have "sum_list (map (exposure cost) (rows scope day (pruned h c1 c2 d)))
      \<le> sum_list (map (exposure cost) (rows scope day d))" for scope day
  proof -
    have "rows scope day (pruned h c1 c2 d) = filter (\<lambda>r. \<not> ?P r) (rows scope day d)"
      by (simp add: pruned_reservations sql_delete_def conj_commute)
    moreover have "0 \<le> exposure cost r" if "r \<in> set (rows scope day d)" for r
      using retained.prems that by (auto simp: spend_within.simps intro: exposure_nonneg)
    ultimately show ?thesis by (simp only: sum_list_filter_le)
  qed
  moreover have "baselines_ok (pruned h c1 c2 d)"
    using retained.prems by (simp add: baselines_ok_def spend_within.simps frame_simps)
  moreover have "row_priced cost r" if "r \<in> set (reservations (pruned h c1 c2 d))" for r
    using that retained.prems by (simp add: spend_within.simps frame_simps set_sql_delete)
  ultimately show ?case
    using retained.prems unfolding spend_within.simps by (meson order_trans)
qed (auto simp: spend_within.simps)

interpretation bound: transactions "guard_step sc" "priced sc cost L" "spend_within cost L"
  by unfold_locales (auto intro: within_effect [OF guard_step_effect])

text \<open>The calls of a scope on a day: they are priced by the rows while the day is open, and no call is added once it is
  closed.\<close>

definition spent_within :: "(string \<Rightarrow> int) \<Rightarrow> (string \<Rightarrow> int) \<Rightarrow> string \<Rightarrow> int \<Rightarrow> bool \<Rightarrow> guard_state \<Rightarrow> bool" where
  "spent_within cost L scope day shut s \<longleftrightarrow> spend_within cost L s \<and> day_recorded day shut s
     \<and> sum_list (map (cost \<circ> fst) (filter (\<lambda>c. snd c = (scope, day)) (fst s))) \<le> max 0 (L scope)"

lemma open_day_spent:
  assumes "spend_within cost L (cs, d)" "day_recorded day False (cs, d)"
  shows "sum_list (map (cost \<circ> fst) (filter (\<lambda>c. snd c = (scope, day)) cs)) \<le> max 0 (L scope)"
proof -
  have "filter (\<lambda>c. snd c = (scope, day)) cs = filter (\<lambda>c. fst (snd c) = scope) (calls_on day cs)"
    by (auto simp: calls_on_def intro: filter_cong)
  also have "\<dots> = filter (\<lambda>c. fst (snd c) = scope) (map row_call (filter (\<lambda>r. r_utc_day r = day) (reservations d)))"
    using assms(2) by simp
  also have "\<dots> = map row_call (rows scope day d)"
    by (simp add: filter_map comp_def row_call_def in_scope_day_def [abs_def] conj_commute)
  finally have "sum_list (map (cost \<circ> fst) (filter (\<lambda>c. snd c = (scope, day)) cs))
      = sum_list (map (cost \<circ> r_reservation_id) (rows scope day d))"
    by (simp add: row_call_def comp_def)
  also have "\<dots> \<le> sum_list (map (exposure cost) (rows scope day d))"
    using assms(1) by (intro sum_map_mono) (auto simp: spend_within.simps exposure_def row_priced_def)
  also have "\<dots> \<le> max 0 (L scope)" using assms(1) unfolding spend_within.simps by blast
  finally show ?thesis .
qed

lemma other_day_calls:
  assumes "guard_effect sc x (cs, d) (cs', d')" "\<not> reserves_on day x"
  shows "filter (\<lambda>c. snd c = (scope, day)) cs' = filter (\<lambda>c. snd c = (scope, day)) cs"
  using assms by (cases rule: guard_effect.cases) auto

lemma spent_within_step:
  assumes s: "spent_within cost L scope day shut s" and x: "priced sc cost L x s" "shut \<Longrightarrow> \<not> reserves_on day x"
  shows "spent_within cost L scope day (shut \<or> closes day x) (guard_step sc x s)"
proof -
  obtain cs d cs' d' where st: "s = (cs, d)" "guard_step sc x s = (cs', d')" by (cases s; cases "guard_step sc x s") blast
  have eff: "guard_effect sc x (cs, d) (cs', d')" using guard_step_effect [of sc x s] st by simp
  have w: "spend_within cost L (cs', d')"
    using within_effect [OF eff] s x(1) by (simp add: spent_within_def st(1))
  have r: "day_recorded day (shut \<or> closes day x) (cs', d')"
  proof -
    have "day_recorded day shut (cs, d)" using s by (simp add: spent_within_def st(1) del: day_recorded.simps)
    then show ?thesis by (rule day_recorded_effect [OF eff _ x(2)])
  qed
  have "sum_list (map (cost \<circ> fst) (filter (\<lambda>c. snd c = (scope, day)) cs')) \<le> max 0 (L scope)"
  proof (cases "reserves_on day x")
    case True
    with x(2) have "\<not> (shut \<or> closes day x)" by (cases x) auto
    then have "day_recorded day False (cs', d')" using r by (simp del: day_recorded.simps)
    then show ?thesis by (rule open_day_spent [OF w])
  next
    case False
    from other_day_calls [OF eff this] s show ?thesis by (simp add: spent_within_def st(1))
  qed
  with w r show ?thesis by (simp add: st(2) spent_within_def)
qed

lemma spent_within_run:
  assumes "spent_within cost L scope day shut s" "forward_dated ops" "along (guard_step sc) (priced sc cost L) ops s"
    "shut \<Longrightarrow> list_all (\<lambda>x. \<not> reserves_on day x) ops"
  shows "spent_within cost L scope day (shut \<or> list_ex (closes day) ops) (fold (guard_step sc) ops s)"
  using assms
proof (induction ops arbitrary: s shut)
  case (Cons x ops)
  have "spent_within cost L scope day (shut \<or> closes day x) (guard_step sc x s)"
    using Cons.prems by (intro spent_within_step) auto
  moreover have "closes day x \<Longrightarrow> list_all (\<lambda>y. \<not> reserves_on day y) ops"
    using Cons.prems(2) by (rule closed_stays)
  ultimately have "spent_within cost L scope day ((shut \<or> closes day x) \<or> list_ex (closes day) ops)
      (fold (guard_step sc) ops (guard_step sc x s))"
    using Cons.prems(2-4) by (intro Cons.IH) (auto simp: forward_dated_def)
  then show ?case by (simp add: disj_assoc)
qed simp

lemma distinct_by_day:
  assumes "\<And>day. distinct (map fst (calls_on day cs))"
  shows "distinct (map (\<lambda>(rid, scope, day). (rid, day)) cs)"
  using assms
proof (induction cs)
  case (Cons c cs)
  obtain rid scope day where c: "c = (rid, scope, day)" by (cases c)
  have "distinct (map fst (calls_on day' cs))" for day'
    using Cons.prems [of day'] by (auto simp: calls_on_def split: if_splits)
  moreover have "rid \<notin> fst ` set (calls_on day cs)"
    using Cons.prems [of day] by (auto simp: calls_on_def c)
  then have "(rid, day) \<notin> (\<lambda>(rid, scope, day). (rid, day)) ` set cs"
    by (force simp: calls_on_def)
  ultimately show ?case using Cons.IH by (simp add: c)
qed simp

subsection \<open>An unknown cost stays\<close>

definition unknown_row :: "string \<Rightarrow> string \<Rightarrow> int \<Rightarrow> guard_state \<Rightarrow> bool" where
  "unknown_row rid scope day s \<longleftrightarrow>
     (\<exists>r \<in> set (reservations (snd s)). r_reservation_id r = rid \<and> in_scope_day scope day r \<and> r_status r = Unknown)"

fun resolves :: "string \<Rightarrow> guard_op \<Rightarrow> bool" where
  "resolves rid (Resolve now i a) = (i = rid)"
| "resolves rid _ = False"

lemma unknown_row_update:
  assumes "unknown_row rid scope day (cs, d)" "reservations d' = sql_update P f (reservations d)"
    and "\<And>r. P r \<Longrightarrow> r_reservation_id r = rid \<Longrightarrow> r_status r = Unknown \<Longrightarrow> f r = r"
  shows "unknown_row rid scope day (cs', d')"
  using assms by (force simp: unknown_row_def set_sql_update)

lemma unknown_row_expired: "unknown_row rid scope day (cs, d) \<Longrightarrow> unknown_row rid scope day (cs', expired now d)"
  by (rule unknown_row_update [OF _ expired_reservations(1)]) (auto simp: expirable_def)

lemma unknown_row_cong:
  "unknown_row rid scope day (cs, d) \<Longrightarrow> set (reservations d) \<subseteq> set (reservations d') \<Longrightarrow>
   unknown_row rid scope day (cs', d')"
  by (auto simp: unknown_row_def)

lemma unknown_row_effect:
  "guard_effect sc x s s' \<Longrightarrow> \<not> resolves rid x \<Longrightarrow> unknown_row rid scope day s \<Longrightarrow> unknown_row rid scope day s'"
proof (induction rule: guard_effect.induct)
  case (swept d' now d sc x cs)
  then show ?case by (metis unknown_row_expired unknown_row_cong subset_refl)
next
  case (reserved x now rid' scope' limit requested mode stale caller d p d' sc cs)
  then have "set (reservations (expired now d)) \<subseteq> set (reservations d')"
    by (auto elim!: reserve_outcomeE)
  then show ?case by (rule unknown_row_cong [OF unknown_row_expired [OF reserved.prems(2)]])
next
  case (settled x now rid' actual reason sc' resolve d' d sc cs)
  then show ?case
    by (intro unknown_row_update [OF unknown_row_expired [OF settled.prems(2)] settled(3)])
      (auto simp: reconciled_row_def)
next
  case (retained x h c1 c2 sc cs d)
  then show ?case by (auto simp: unknown_row_def frame_simps set_sql_delete prunable_reservation_def)
qed simp

interpretation sticky: transactions "guard_step sc" "\<lambda>x s. \<not> resolves rid x" "unknown_row rid scope day"
  by unfold_locales (auto intro: unknown_row_effect [OF guard_step_effect])

lemma unknown_row_blocks:
  assumes "unknown_row rid scope (utc_day_of now) (cs, d)"
    and "reserve_sync sum_cost now rid' scope limit requested mode stale caller d = (Inr p, d')"
  shows "\<not> p_execute_provider p"
  using reserve_outcome [OF assms(2)]
proof (cases rule: reserve_outcome.cases)
  case (admitted d2 committed pending reserved)
  then have "unknown_row rid scope (utc_day_of now) (cs, d2)"
    using unknown_row_cong [OF unknown_row_expired [OF assms(1), of cs now]] by simp
  then obtain r where "r \<in> set (rows scope (utc_day_of now) d2)" "unknown_of r \<noteq> 0"
    by (auto simp: unknown_row_def unknown_of_def)
  with unknown_total [of scope "utc_day_of now" d2] admitted show ?thesis by simp
qed

subsection \<open>One attempt at a time in remaining mode\<close>

definition pendings :: "string \<Rightarrow> int \<Rightarrow> db \<Rightarrow> reservation_row list" where
  "pendings scope day d = filter (\<lambda>r. in_scope_day scope day r \<and> r_status r = Pending) (reservations d)"

fun remaining_only :: "string \<Rightarrow> guard_op \<Rightarrow> bool" where
  "remaining_only sc (Reserve now rid scope limit requested mode stale caller) = (scope = sc \<longrightarrow> mode = Remaining)"
| "remaining_only sc _ = True"

definition one_pending :: "string \<Rightarrow> int \<Rightarrow> guard_state \<Rightarrow> bool" where
  "one_pending scope day s \<longleftrightarrow>
     length (pendings scope day (snd s)) \<le> 1 \<and> (\<forall>r \<in> set (reservations (snd s)). 0 < r_reserved_ticks r)"

lemma pendings_update_le:
  assumes "reservations d' = sql_update P f (reservations d)"
    and "\<And>r. P r \<Longrightarrow> in_scope_day scope day (f r) = in_scope_day scope day r"
    and "\<And>r. P r \<Longrightarrow> r_status (f r) = Pending \<Longrightarrow> r_status r = Pending"
  shows "length (pendings scope day d') \<le> length (pendings scope day d)"
  unfolding pendings_def assms(1) by (rule length_filter_update) (use assms(2,3) in auto)

lemma one_pending_update:
  assumes "one_pending scope day (cs, d)" "reservations d' = sql_update P f (reservations d)"
    and "\<And>r. P r \<Longrightarrow> in_scope_day scope day (f r) = in_scope_day scope day r"
    and "\<And>r. P r \<Longrightarrow> r_status (f r) = Pending \<Longrightarrow> r_status r = Pending"
    and "\<And>r. P r \<Longrightarrow> r_reserved_ticks (f r) = r_reserved_ticks r"
  shows "one_pending scope day (cs', d')"
proof -
  have "length (pendings scope day d') \<le> length (pendings scope day d)"
    by (rule pendings_update_le [OF assms(2)]) (use assms(3,4) in auto)
  also have "\<dots> \<le> 1" using assms(1) by (simp add: one_pending_def)
  finally have "length (pendings scope day d') \<le> 1" .
  moreover have "0 < r_reserved_ticks r" if "r \<in> set (reservations d')" for r
    using that assms(1,5) by (auto simp: assms(2) set_sql_update one_pending_def)
  ultimately show ?thesis by (simp add: one_pending_def)
qed

lemma one_pending_expired: "one_pending scope day (cs, d) \<Longrightarrow> one_pending scope day (cs', expired now d)"
  by (rule one_pending_update [OF _ expired_reservations(1)]) auto

lemma one_pending_cong:
  "one_pending scope day (cs, d) \<Longrightarrow> reservations d' = reservations d \<Longrightarrow> one_pending scope day (cs', d')"
  by (simp add: one_pending_def pendings_def)

lemma pending_total_zero:
  assumes "\<And>r. r \<in> set (reservations d) \<Longrightarrow> 0 < r_reserved_ticks r"
    and "spend_guard_totals scope day d = (committed, pending, u)" "pending \<le> 0"
  shows "pendings scope day d = []"
proof -
  have "sum_list (map pending_of (rows scope day d)) \<le> 0"
    using assms(2,3) by (simp add: spend_guard_totals_def Let_def)
  then have "\<forall>r \<in> set (rows scope day d). pending_of r = 0"
    using assms(1) by (subst (asm) sum_map_zero_iff) (auto simp: pending_of_def less_imp_le)
  with assms(1) show ?thesis by (fastforce simp: pendings_def pending_of_def filter_empty_conv)
qed

lemma reconciled_row_pending:
  "r_status (reconciled_row now a t b r) = Pending \<Longrightarrow> r_status r = Pending"
  by (auto simp: reconciled_row_def split: guard_status.splits option.splits if_splits)

lemma one_pending_effect:
  "guard_effect sc x s s' \<Longrightarrow> remaining_only scope x \<Longrightarrow> one_pending scope day s \<Longrightarrow> one_pending scope day s'"
proof (induction rule: guard_effect.induct)
  case (swept d' now d sc x cs)
  then show ?case by (metis one_pending_expired one_pending_cong)
next
  case (reserved x now rid' scope' limit requested mode stale caller d p d' sc cs)
  then obtain d2 committed pending n where
    d2: "reservations d2 = reservations (expired now d)"
    and t: "spend_guard_totals scope' (utc_day_of now) d2 = (committed, pending, 0)"
      "mode = Remaining \<longrightarrow> pending \<le> 0" "0 < n"
    and d': "d' = d2\<lparr>reservations := reservations d2 @ [new_reservation now rid' scope' limit n mode stale]\<rparr>"
    by (auto elim!: reserve_outcomeE)
  have w: "one_pending scope day (cs, d2)"
    using one_pending_cong [OF one_pending_expired [OF reserved.prems(2)] d2] .
  have "pendings scope day d2 = []" if "scope' = scope" "utc_day_of now = day"
    using reserved.prems(1) reserved(1) t that w
    by (intro pending_total_zero) (auto simp: one_pending_def)
  then show ?case
    using w t(3) by (auto simp: d' one_pending_def pendings_def new_reservation_def in_scope_day_def)
next
  case (settled x now rid' actual reason sc' resolve d' d sc cs)
  then show ?case
    by (intro one_pending_update [OF one_pending_expired [OF settled.prems(2)] settled(3)])
      (auto dest: reconciled_row_pending)
next
  case (retained x h c1 c2 sc cs d)
  have "length (pendings scope day (pruned h c1 c2 d)) \<le> length (pendings scope day d)"
    unfolding pendings_def pruned_reservations by (simp only: filter_sql_delete) (simp only: sql_delete_def length_filter_le)
  with retained show ?case by (auto simp: one_pending_def frame_simps set_sql_delete)
qed simp

interpretation exclusive: transactions "guard_step sc" "\<lambda>x s. remaining_only scope x" "one_pending scope day"
  by unfold_locales (auto intro: one_pending_effect [OF guard_step_effect])

subsection \<open>Properties\<close>

text \<open>The transactions of the witnesses: two reservations of a limit of ten ticks, one settled.\<close>

definition no_cost :: "rat list \<Rightarrow> usd_arg" where
  "no_cost costs = USD (Dec 0 0)"

definition sample_ops :: "guard_op list" where
  "sample_ops = [Reserve 0 ''r1'' ''s'' 10 (Some 6) Fixed 60 None, Reconcile 1 ''r1'' (Some 2) ''x'' None,
     Retention None 0 0, Reserve 2 ''r2'' ''s'' 10 (Some 7) Fixed 60 None]"

definition sample_cost :: "string \<Rightarrow> int" where
  "sample_cost rid = (if rid = ''r1'' then 2 else 5)"

lemma sample_run:
  "fst (guard_run no_cost sample_ops) = [(''r1'', ''s'', 0), (''r2'', ''s'', 0)]"
  "along (guard_step no_cost) (priced no_cost sample_cost (\<lambda>_. 10)) sample_ops ([], empty_db)"
  by code_simp+

lemma sample_ops_kinds: "forward_dated sample_ops"
  by code_simp

lemma sample_admission:
  "fst (reserve_sync no_cost 0 ''r1'' ''s'' 10 (Some 6) Fixed 60 None empty_db) =
     Inr (admission_payload ''r1'' ''s'' 0 (Row Pending) Fixed 10 6 0 6 0 True True None (Some (seconds 60)))"
  by code_simp

text \<open>C5. The limit holds, with the retention passes that run inside the saves: when every admitted reservation holds at
  least what its call costs and asks for no more than the scope's limit, reconciliations report the true cost, and no
  reservation is dated before the day of a retention pass that has already run, the provider calls authorised for a scope
  on a UTC day cost together no more than the scope's limit, whatever the processes do and however many attempts go
  unreported.\<close>

theorem spend_within_limit:
  assumes "forward_dated ops"
    and "along (guard_step sum_cost) (priced sum_cost cost L) ops ([], empty_db)" "0 \<le> L scope"
  shows "sum_list (map (cost \<circ> fst) (filter (\<lambda>c. snd c = (scope, day)) (fst (guard_run sum_cost ops)))) \<le> L scope"
proof -
  have start: "spent_within cost L scope day False ([], empty_db)"
    by (simp add: spend_within.simps baselines_ok_def empty_db_def spent_within_def keyed_def calls_on_def)
  from spent_within_run [OF this assms(1,2)] assms(3) show ?thesis
    unfolding guard_run_def by (simp add: spent_within_def)
qed

theorem spend_within_limit_witness:
  "sum_list (map (sample_cost \<circ> fst) (filter (\<lambda>c. snd c = (''s'', 0)) (fst (guard_run no_cost sample_ops)))) \<le> 10"
  using spend_within_limit [of sample_ops no_cost sample_cost "\<lambda>_. 10" "''s''" 0] sample_run(2)
    sample_ops_kinds by simp

text \<open>C14. On one UTC day a reservation id authorises at most one provider call, however often and from however many
  processes it is presented, and an authorised call has its row in the table until a retention pass of a later day has run
  (which may delete the row, after which the id is free again); no reservation may be dated before the day of a retention
  pass that has already run.\<close>

theorem reservation_authorises_once:
  assumes "forward_dated ops"
  shows "distinct (map (\<lambda>(rid, scope, day). (rid, day)) (fst (guard_run sum_cost ops)))
    \<and> (\<forall>c \<in> set (fst (guard_run sum_cost ops)). list_ex (closes (snd (snd c))) ops
        \<or> c \<in> row_call ` set (reservations (snd (guard_run sum_cost ops))))"
proof -
  obtain cs d where run: "guard_run sum_cost ops = (cs, d)" by (cases "guard_run sum_cost ops")
  have day: "day_recorded day (list_ex (closes day) ops) (cs, d)" for day
    using guard_run_day [OF assms, of day sum_cost] by (simp add: run)
  have "distinct (map (\<lambda>(rid, scope, day). (rid, day)) cs)"
    by (rule distinct_by_day) (use day in auto)
  moreover have "c \<in> row_call ` set (reservations d)" if c: "c \<in> set cs" "\<not> list_ex (closes (snd (snd c))) ops" for c
  proof -
    have "c \<in> set (calls_on (snd (snd c)) cs)" using c(1) by (simp add: calls_on_def)
    with day [of "snd (snd c)"] c(2) show ?thesis by auto
  qed
  ultimately show ?thesis by (auto simp: run)
qed

theorem reservation_authorises_once_witness:
  "distinct (map (\<lambda>(rid, scope, day). (rid, day)) (fst (guard_run no_cost sample_ops)))"
  using reservation_authorises_once [of sample_ops no_cost] sample_ops_kinds by blast

text \<open>An admission that authorises a provider call leaves the scope's known and pending spend of
  that UTC day within the limit it was checked against, with no unknown cost outstanding, and the
  reservation, new in the table, holds the amount it reports.\<close>

theorem admission_within_limit:
  assumes "reserve_sync sum_cost now rid scope limit requested mode stale caller d = (Inr p, d')"
    and "p_execute_provider p"
  shows "reservation_at d rid = None
    \<and> map_option r_reserved_ticks (reservation_at d' rid) = Some (p_reserved_ticks p)
    \<and> (\<exists>committed pending. spend_guard_totals scope (utc_day_of now) d' = (committed, pending, 0)
        \<and> committed + pending \<le> limit)"
  using reserve_outcome [OF assms(1)]
proof (cases rule: reserve_outcome.cases)
  case (admitted d2 committed pending reserved)
  have "reservation_at d2 rid = None"
    using admitted by (simp add: expired_at)
  moreover have "spend_guard_totals scope (utc_day_of now) d' = (committed, pending + reserved, 0)"
    using admitted by (auto simp: spend_guard_totals_def Let_def baseline_at_def new_reservation_def
        in_scope_day_def committed_of_def pending_of_def unknown_of_def)
  ultimately show ?thesis
    using admitted by (auto simp: row_of_append new_reservation_def)
qed (use assms(2) in simp_all)

theorem admission_within_limit_witness:
  "\<exists>committed pending. spend_guard_totals ''s'' 0
       (snd (reserve_sync no_cost 0 ''r1'' ''s'' 10 (Some 6) Fixed 60 None empty_db)) = (committed, pending, 0)
     \<and> committed + pending \<le> 10"
proof -
  let ?R = "reserve_sync no_cost 0 ''r1'' ''s'' 10 (Some 6) Fixed 60 None empty_db"
  obtain p where p: "?R = (Inr p, snd ?R)" "p_execute_provider p"
    using sample_admission by (cases ?R) (simp add: admission_payload_def)
  then show ?thesis
    using admission_within_limit [OF p] by (simp add: utc_day_of_def)
qed

text \<open>C16. An unknown cost blocks its scope for the rest of the UTC day: after any execution without an
  authoritative resolution of that reservation, no reservation in the scope on that day authorises a
  provider call.\<close>

theorem unknown_cost_blocks:
  assumes "unknown_row rid scope day s" "list_all (\<lambda>x. \<not> resolves rid x) ops" "utc_day_of now = day"
    and "fst (reserve_sync sum_cost now rid' scope limit requested mode stale caller
          (snd (fold (guard_step sum_cost) ops s))) = Inr p"
  shows "\<not> p_execute_provider p"
proof -
  obtain cs d where d: "fold (guard_step sum_cost) ops s = (cs, d)" by (cases "fold (guard_step sum_cost) ops s")
  have "unknown_row rid scope (utc_day_of now) (cs, d)"
    using sticky.run_keeps [OF assms(1)] assms(2,3) unfolding d [symmetric] by (simp add: along_list_all)
  moreover obtain d' where "reserve_sync sum_cost now rid' scope limit requested mode stale caller d = (Inr p, d')"
    using assms(4) unfolding d by (cases "reserve_sync sum_cost now rid' scope limit requested mode stale caller d") simp
  ultimately show ?thesis by (rule unknown_row_blocks)
qed

definition unknown_ops :: "guard_op list" where
  "unknown_ops = [Reserve 0 ''r1'' ''s'' 10 (Some 6) Fixed 60 None, Reconcile 1 ''r1'' None ''lost'' None]"

lemma unknown_sample:
  "unknown_row ''r1'' ''s'' 0 (guard_run no_cost unknown_ops)"
  "fst (reserve_sync no_cost 9 ''r2'' ''s'' 10 (Some 1) Fixed 60 None
     (snd (fold (guard_step no_cost) [Reconcile 2 ''r1'' (Some 1) ''x'' None] (guard_run no_cost unknown_ops)))) =
   Inr (admission_payload ''r2'' ''s'' 0 Denied Fixed 10 1 0 0 1 False False (Some ''unknown_cost'') None)"
  by code_simp+

theorem unknown_cost_blocks_witness:
  "\<not> p_execute_provider (admission_payload ''r2'' ''s'' 0 Denied Fixed 10 1 0 0 1 False False
     (Some ''unknown_cost'') None)"
  using unknown_cost_blocks [OF unknown_sample(1) _ _ unknown_sample(2)]
  by (simp add: utc_day_of_def day_micros_def)

text \<open>C18. When every reservation of a scope is made in remaining mode, at most one attempt is pending
  in the scope on each UTC day, whatever the processes do.\<close>

theorem remaining_mode_exclusive:
  assumes "list_all (remaining_only scope) ops"
  shows "length (pendings scope day (snd (guard_run sum_cost ops))) \<le> 1"
proof -
  have "one_pending scope day ([], empty_db)" by (simp add: one_pending_def pendings_def empty_db_def)
  then have "one_pending scope day (guard_run sum_cost ops)"
    unfolding guard_run_def using assms by (intro exclusive.run_keeps) (simp_all add: along_list_all)
  then show ?thesis by (simp add: one_pending_def)
qed

theorem remaining_mode_exclusive_witness:
  "length (pendings ''s'' 0 (snd (guard_run no_cost [Reserve 0 ''r1'' ''s'' 10 None Remaining 60 None,
     Reserve 1 ''r2'' ''s'' 10 None Remaining 60 None]))) \<le> 1"
  by (rule remaining_mode_exclusive) simp

text \<open>Reconciliation is idempotent: repeating a reconciliation that was accepted gives the same
  answer and changes nothing.\<close>

theorem reconcile_idempotent:
  assumes "reconcile_sync now rid actual reason False sc d = (Inr p, d')"
  shows "reconcile_sync now rid actual reason False sc d' = (Inr p, d')"
proof -
  let ?f = "reconciled_row now actual reason False" and ?P = "\<lambda>r. r_reservation_id r = rid"
  obtain row where row: "reservation_at (expired now d) rid = Some row"
      "sc = None \<or> sc = Some (r_scope row)"
    and d': "d' = (expired now d)\<lparr>reservations := sql_update ?P ?f (reservations (expired now d))\<rparr>"
    and p: "p = reconcile_payload (?f row) rid d'"
    using assms by (auto simp: reconcile_sync_def Let_def split: option.splits if_splits)
  have twice: "?f (?f r) = ?f r" for r
    by (auto simp: reconciled_row_def mark_unknown_def split: guard_status.splits option.splits)
  have fresh: "\<not> expirable now r" if "r \<in> set (reservations d')" for r
    using that by (auto simp: d' set_sql_update dest: expired_none_stale
        simp: expirable_def reconciled_row_def mark_unknown_def split: guard_status.splits option.splits if_splits)
  then have "expired now d' = d'"
    by (simp add: expire_spend_guard_reservations_def sql_update_id)
  moreover have "reservation_at d' rid = Some (?f row)"
    using row(1) row_of_Some [OF row(1)] by (simp add: d' table_simps)
  moreover have "sql_update ?P ?f (reservations d') = reservations d'"
    by (simp add: d' sql_update_def twice)
  ultimately show ?thesis
    using row(2) by (auto simp: reconcile_sync_def Let_def twice p)
qed

theorem reconcile_idempotent_witness:
  "\<exists>p d'. reconcile_sync 1 ''r1'' (Some 2) ''x'' False None (snd (guard_run no_cost sample_ops)) = (Inr p, d') \<and>
     reconcile_sync 1 ''r1'' (Some 2) ''x'' False None d' = (Inr p, d')"
proof -
  let ?R = "reconcile_sync 1 ''r1'' (Some 2) ''x'' False None (snd (guard_run no_cost sample_ops))"
  have "isl (fst ?R) = False" by code_simp
  then obtain p d' where "?R = (Inr p, d')" by (cases ?R; cases "fst ?R") auto
  with reconcile_idempotent [OF this] show ?thesis by blast
qed

text \<open>A reconciliation that arrives after its reservation went stale does not settle it, whatever
  amount it reports: the row becomes an unknown cost, which only an authoritative resolution clears.\<close>

theorem stale_reservation_not_reconciled:
  assumes "reservation_at d rid = Some r" "r_status r = Pending" "r_expires_at r \<le> now"
    and "reconcile_sync now rid actual reason False sc d = (Inr p, d')"
  shows "reservation_at d' rid = Some (mark_unknown ''stale_reservation'' now r)
    \<and> p_status p = Row Unknown \<and> \<not> p_admitted p"
proof -
  let ?r = "mark_unknown ''stale_reservation'' now r"
  have row: "reservation_at (expired now d) rid = Some ?r"
    using assms(1-3) by (simp add: expired_at expirable_def)
  have same: "reconciled_row now actual reason False ?r = ?r" by (simp add: reconciled_row_def)
  from assms(4) have p: "p = reconcile_payload ?r rid d'"
    and d': "reservations d' = sql_update (\<lambda>x. r_reservation_id x = rid) (reconciled_row now actual reason False)
      (reservations (expired now d))"
    using row same by (auto simp: reconcile_sync_def Let_def split: if_splits)
  have "reservation_at d' rid = Some ?r"
    using row row_of_Some [OF row] by (simp add: d' table_simps same)
  then show ?thesis
    by (simp add: p reconcile_payload_def admission_payload_def Let_def split: prod.split)
qed

theorem stale_reservation_not_reconciled_witness:
  "\<exists>p d'. reconcile_sync (seconds 61) ''r2'' (Some 5) ''x'' False None (snd (guard_run no_cost sample_ops)) =
     (Inr p, d') \<and> p_status p = Row Unknown"
proof -
  let ?d = "snd (guard_run no_cost sample_ops)"
  let ?R = "reconcile_sync (seconds 61) ''r2'' (Some 5) ''x'' False None ?d"
  have r: "reservation_at ?d ''r2'' = Some (new_reservation 2 ''r2'' ''s'' 10 7 Fixed 60)" by code_simp
  have "isl (fst ?R) = False" by code_simp
  then obtain p d' where R: "?R = (Inr p, d')" by (cases ?R; cases "fst ?R") auto
  with stale_reservation_not_reconciled [OF r _ _ R] show ?thesis
    by (auto simp: new_reservation_def seconds_def)
qed

text \<open>Contradictory amounts: a second, different amount for a settled reservation turns it into an
  unknown cost, so that neither of the two is trusted and the scope is blocked.\<close>

theorem conflicting_amounts_block:
  assumes "reservation_at d rid = Some r" "r_status r = Reconciled" "r_actual_ticks r = Some a" "b \<noteq> a"
    and "reconcile_sync now rid (Some b) reason resolve sc d = (Inr p, d')"
  shows "unknown_row rid (r_scope r) (r_utc_day r) (cs, d')"
proof -
  have row: "reservation_at (expired now d) rid = Some r"
    using assms(1,2) by (simp add: expired_at expirable_def)
  from assms(5) row have "reservations d' = sql_update (\<lambda>x. r_reservation_id x = rid)
      (reconciled_row now (Some b) reason resolve) (reservations (expired now d))"
    by (auto simp: reconcile_sync_def Let_def split: if_splits)
  moreover have "r \<in> set (reservations (expired now d))" "r_reservation_id r = rid"
    using row_of_Some [OF row] by simp_all
  ultimately have "reconciled_row now (Some b) reason resolve r \<in> set (reservations d')"
    by (auto simp: set_sql_update)
  moreover have "r_status (reconciled_row now (Some b) reason resolve r) = Unknown"
    using assms(2-4) by (simp add: reconciled_row_def)
  ultimately show ?thesis
    using \<open>r_reservation_id r = rid\<close>
    by (auto simp: unknown_row_def in_scope_day_def intro!: bexI [of _ "reconciled_row now (Some b) reason resolve r"])
qed

theorem conflicting_amounts_block_witness:
  "\<exists>p d'. reconcile_sync 9 ''r1'' (Some 3) ''x'' False None (snd (guard_run no_cost sample_ops)) = (Inr p, d')
     \<and> unknown_row ''r1'' ''s'' 0 ([], d')"
proof -
  let ?d = "snd (guard_run no_cost sample_ops)"
  let ?R = "reconcile_sync 9 ''r1'' (Some 3) ''x'' False None ?d"
  let ?r = "reconciled_row 1 (Some 2) ''x'' False (new_reservation 0 ''r1'' ''s'' 10 6 Fixed 60)"
  have r: "reservation_at ?d ''r1'' = Some ?r" by code_simp
  have "isl (fst ?R) = False" by code_simp
  then obtain p d' where R: "?R = (Inr p, d')" by (cases ?R; cases "fst ?R") auto
  with conflicting_amounts_block [OF r _ _ _ R, of 2 "[]"] show ?thesis
    by (auto simp: reconciled_row_def new_reservation_def utc_day_of_def)
qed

end
