(* ===== verification/Circuit_Breaker.thy ===== *)
theory Circuit_Breaker
  imports Py_Text "HOL-Library.Char_ord" "HOL-Library.List_Lexorder"
begin

text \<open>
  The provider circuit breaker of \<open>server.py\<close>: per provider key, closed (\<open>open_until = 0\<close>), open until
  an instant, or half open with one probe under way. Each function runs on the event loop without
  suspending, so it is one step of the shared dictionary; the instants are readings of
  \<open>time.monotonic()\<close>. Calls that overlap are interleavings of these steps.
\<close>

record breaker =
  cb_failures :: int
  cb_trips :: int
  cb_open_until :: instant
  cb_half_open :: bool
  cb_generation :: int

type_synonym circuits = "(string, breaker) dict"

record breaker_admission =
  ba_key :: string
  ba_plane :: string
  ba_generation :: int
  ba_probe :: bool

text \<open>The module constants, read from the environment at import.\<close>

record breaker_config =
  cfg_threshold :: int
  cfg_cooldown :: int
  cfg_api_timeout :: int
  cfg_media_timeout :: int
  cfg_build_timeout :: int

text \<open>\<open>credential_digest\<close> stands for the first 16 hex digits of the SHA-256 of the cache key.\<close>

definition breaker_key :: "(string \<Rightarrow> string) \<Rightarrow> string \<Rightarrow> string \<Rightarrow> string option \<Rightarrow> string" where
  "breaker_key credential_digest cache_key plane model =
    plane @ '':'' @ (if plane = ''api'' then credential_digest cache_key else ''shared'') @ '':''
      @ (case model of None \<Rightarrow> ''default'' | Some m \<Rightarrow> if m = [] then ''default'' else m)"

definition new_breaker :: breaker where
  "new_breaker = \<lparr>cb_failures = 0, cb_trips = 0, cb_open_until = 0, cb_half_open = False, cb_generation = 0\<rparr>"

definition breaker_state :: "string \<Rightarrow> circuits \<Rightarrow> breaker \<times> circuits" where
  "breaker_state key cs =
    (case map_of cs key of None \<Rightarrow> (new_breaker, AList.update key new_breaker cs) | Some b \<Rightarrow> (b, cs))"

definition breaker_before_call :: "instant \<Rightarrow> string \<Rightarrow> string \<Rightarrow> circuits \<Rightarrow> (py_error + breaker_admission) \<times> circuits" where
  "breaker_before_call now key plane cs =
    (let (b, cs1) = breaker_state key cs in
     if cb_half_open b then (Inl (RuntimeError ''circuit breaker open''), cs1)
     else if cb_open_until b > now then (Inl (RuntimeError ''circuit breaker open''), cs1)
     else if cb_open_until b \<noteq> 0
     then (Inr \<lparr>ba_key = key, ba_plane = plane, ba_generation = cb_generation b, ba_probe = True\<rparr>,
           AList.update key (b\<lparr>cb_half_open := True\<rparr>) cs1)
     else (Inr \<lparr>ba_key = key, ba_plane = plane, ba_generation = cb_generation b, ba_probe = False\<rparr>, cs1))"

definition breaker_abandon_delay_seconds :: "breaker_config \<Rightarrow> string \<Rightarrow> int" where
  "breaker_abandon_delay_seconds cfg plane =
    max (cfg_cooldown cfg)
      (if plane = ''api'' then max (cfg_api_timeout cfg) (cfg_media_timeout cfg) else cfg_build_timeout cfg)"

definition breaker_abandon_probe :: "breaker_config \<Rightarrow> instant \<Rightarrow> breaker_admission \<Rightarrow> circuits \<Rightarrow> circuits" where
  "breaker_abandon_probe cfg now a cs =
    (if \<not> ba_probe a then cs
     else case map_of cs (ba_key a) of
        None \<Rightarrow> cs
      | Some b \<Rightarrow>
          if cb_generation b \<noteq> ba_generation a \<or> \<not> cb_half_open b then cs
          else AList.update (ba_key a)
            (b\<lparr>cb_half_open := False,
               cb_open_until := now + seconds (breaker_abandon_delay_seconds cfg (ba_plane a)),
               cb_generation := ba_generation a + 1\<rparr>) cs)"

definition breaker_success :: "breaker_admission \<Rightarrow> circuits \<Rightarrow> circuits" where
  "breaker_success a cs =
    (case map_of cs (ba_key a) of
       None \<Rightarrow> cs
     | Some b \<Rightarrow>
         if cb_generation b \<noteq> ba_generation a then cs
         else if ba_probe a then
           (if \<not> cb_half_open b \<or> cb_open_until b = 0 then cs
            else AList.update (ba_key a)
              (b\<lparr>cb_failures := 0, cb_open_until := 0, cb_half_open := False,
                 cb_generation := ba_generation a + 1\<rparr>) cs)
         else if cb_half_open b \<or> cb_open_until b \<noteq> 0 then cs
         else AList.update (ba_key a) (b\<lparr>cb_failures := 0\<rparr>) cs)"

definition tripped :: "breaker_config \<Rightarrow> instant \<Rightarrow> breaker_admission \<Rightarrow> breaker \<Rightarrow> breaker" where
  "tripped cfg now a b =
    b\<lparr>cb_trips := cb_trips b + 1, cb_open_until := now + seconds (cfg_cooldown cfg),
      cb_half_open := False, cb_generation := ba_generation a + 1\<rparr>"

definition breaker_failure :: "breaker_config \<Rightarrow> instant \<Rightarrow> breaker_admission \<Rightarrow> circuits \<Rightarrow> circuits" where
  "breaker_failure cfg now a cs =
    (case map_of cs (ba_key a) of
       None \<Rightarrow> cs
     | Some b \<Rightarrow>
         let b1 = b\<lparr>cb_failures := cb_failures b + 1\<rparr> in
         if cb_generation b \<noteq> ba_generation a then cs
         else if ba_probe a then
           (if \<not> cb_half_open b \<or> cb_open_until b = 0 then cs
            else AList.update (ba_key a) (tripped cfg now a b1) cs)
         else if cb_half_open b \<or> cb_open_until b \<noteq> 0 then cs
         else AList.update (ba_key a)
           (if cb_failures b1 \<ge> cfg_threshold cfg then tripped cfg now a b1 else b1) cs)"

text \<open>\<open>_breaker_snapshot\<close>; \<open>retry_after\<close> is in microseconds where the code rounds to seconds.\<close>

record breaker_view =
  bv_failures :: int
  bv_trips :: int
  bv_open :: bool
  bv_retry_after :: int
  bv_half_open :: bool

text \<open>\<open>key.split(":", 2)\<close>.\<close>

fun split_colon :: "string \<Rightarrow> string \<times> string" where
  "split_colon [] = ([], [])"
| "split_colon (c # cs) = (if c = CHR '':'' then ([], cs) else map_prod (Cons c) id (split_colon cs))"

definition breaker_snapshot :: "instant \<Rightarrow> string \<Rightarrow> circuits \<Rightarrow> (string, breaker_view) dict" where
  "breaker_snapshot now api_credential cs =
    dict_merge [] (concat (map (\<lambda>(key, b).
      let (plane, rest) = split_colon key; (credential, model) = split_colon rest in
      if plane = ''api'' \<and> credential \<noteq> api_credential then []
      else [(plane @ '':'' @ model,
             \<lparr>bv_failures = cb_failures b, bv_trips = cb_trips b, bv_open = (cb_open_until b \<noteq> 0),
              bv_retry_after = max 0 (cb_open_until b - now), bv_half_open = cb_half_open b\<rparr>)])
      (sort_key fst cs)))"

subsection \<open>Interleavings\<close>

datatype breaker_op =
    Before instant string string
  | Succeeded breaker_admission
  | Failed instant breaker_admission
  | Abandoned instant breaker_admission

fun breaker_exec :: "breaker_config \<Rightarrow> breaker_op \<Rightarrow> circuits \<Rightarrow> circuits" where
  "breaker_exec cfg (Before now key plane) cs = snd (breaker_before_call now key plane cs)"
| "breaker_exec cfg (Succeeded a) cs = breaker_success a cs"
| "breaker_exec cfg (Failed now a) cs = breaker_failure cfg now a cs"
| "breaker_exec cfg (Abandoned now a) cs = breaker_abandon_probe cfg now a cs"

text \<open>The reports that end the probe of a generation.\<close>

fun ends_probe :: "string \<Rightarrow> int \<Rightarrow> breaker_op \<Rightarrow> bool" where
  "ends_probe key g (Before now k plane) = False"
| "ends_probe key g (Succeeded a) = (ba_key a = key \<and> ba_generation a = g \<and> ba_probe a)"
| "ends_probe key g (Failed now a) = (ba_key a = key \<and> ba_generation a = g \<and> ba_probe a)"
| "ends_probe key g (Abandoned now a) = (ba_key a = key \<and> ba_generation a = g \<and> ba_probe a)"

lemma before_call_refused:
  "map_of cs key = Some b \<Longrightarrow> cb_half_open b \<or> now < cb_open_until b \<Longrightarrow>
   breaker_before_call now key plane cs = (Inl (RuntimeError ''circuit breaker open''), cs)"
  by (auto simp: breaker_before_call_def breaker_state_def)

lemma map_of_before_call:
  "map_of cs key = Some b \<Longrightarrow>
   map_of (snd (breaker_before_call now k plane cs)) key =
     Some (if k = key \<and> \<not> cb_half_open b \<and> cb_open_until b \<le> now \<and> cb_open_until b \<noteq> 0
           then b\<lparr>cb_half_open := True\<rparr> else b)"
  by (auto simp: breaker_before_call_def breaker_state_def Let_def update_conv' split: option.splits)

definition probing :: "string \<Rightarrow> int \<Rightarrow> circuits \<Rightarrow> bool" where
  "probing key g cs \<longleftrightarrow> (\<exists>b. map_of cs key = Some b \<and> cb_half_open b \<and> cb_generation b = g)"

lemma probing_exec: "probing key g cs \<Longrightarrow> \<not> ends_probe key g x \<Longrightarrow> probing key g (breaker_exec cfg x cs)"
  by (cases x)
    (auto simp: probing_def map_of_before_call breaker_success_def breaker_failure_def breaker_abandon_probe_def
      Let_def update_conv' split: option.splits)

interpretation probe: transactions "breaker_exec cfg" "\<lambda>x s. \<not> ends_probe key g x" "probing key g"
  by unfold_locales (auto intro: probing_exec)

text \<open>Generations only grow, so a report of an earlier one never counts again.\<close>

definition beyond :: "string \<Rightarrow> int \<Rightarrow> circuits \<Rightarrow> bool" where
  "beyond key g cs \<longleftrightarrow> (\<exists>b. map_of cs key = Some b \<and> g < cb_generation b)"

lemma beyond_exec: "beyond key g cs \<Longrightarrow> beyond key g (breaker_exec cfg x cs)"
  by (cases x)
    (auto simp: beyond_def map_of_before_call breaker_success_def breaker_failure_def breaker_abandon_probe_def
      tripped_def Let_def update_conv' split: option.splits)

interpretation fence: transactions "breaker_exec cfg" "\<lambda>x s. True" "beyond key g"
  by unfold_locales (auto intro: beyond_exec)

lemma along_True [simp]: "along step (\<lambda>x s. True) xs s"
  by (induction xs arbitrary: s) auto

subsection \<open>Properties\<close>

definition sample_config :: breaker_config where
  "sample_config = \<lparr>cfg_threshold = 2, cfg_cooldown = 30, cfg_api_timeout = 60, cfg_media_timeout = 60,
     cfg_build_timeout = 120\<rparr>"

definition sample_probe :: breaker_admission where
  "sample_probe = \<lparr>ba_key = ''k'', ba_plane = ''api'', ba_generation = 1, ba_probe = True\<rparr>"

definition sample_circuits :: circuits where
  "sample_circuits = [(''k'', \<lparr>cb_failures = 2, cb_trips = 1, cb_open_until = 50, cb_half_open = False,
     cb_generation = 1\<rparr>)]"

text \<open>C21. A half-open breaker lets a single probe through: once a call was admitted as the probe, every
  other call is refused until that probe's own outcome is reported, whatever calls, successes, failures
  and cancellations of others happen in between.\<close>

theorem single_probe:
  assumes "breaker_before_call now key plane cs = (Inr a, cs')" "ba_probe a"
    and "list_all (\<lambda>x. \<not> ends_probe key (ba_generation a) x) xs"
  shows "fst (breaker_before_call now' key plane' (fold (breaker_exec cfg) xs cs')) =
    Inl (RuntimeError ''circuit breaker open'')"
proof -
  have "probing key (ba_generation a) cs'"
    using assms(1,2)
    by (auto simp: probing_def breaker_before_call_def Let_def update_conv' split: prod.splits if_splits)
  then have "probing key (ba_generation a) (fold (breaker_exec cfg) xs cs')"
    using assms(3) by (intro probe.run_keeps) (simp_all add: along_list_all)
  then show ?thesis by (auto simp: probing_def before_call_refused)
qed

theorem single_probe_witness:
  "fst (breaker_before_call 200 ''k'' ''api'' (fold (breaker_exec sample_config) [Before 100 ''k'' ''api'']
     (snd (breaker_before_call 60 ''k'' ''api'' sample_circuits)))) = Inl (RuntimeError ''circuit breaker open'')"
proof -
  have "breaker_before_call 60 ''k'' ''api'' sample_circuits =
      (Inr sample_probe, snd (breaker_before_call 60 ''k'' ''api'' sample_circuits))"
    by (simp add: breaker_before_call_def breaker_state_def sample_circuits_def sample_probe_def)
  from single_probe [OF this, of "[Before 100 ''k'' ''api'']" 200 "''api''" sample_config] show ?thesis
    by (simp add: sample_probe_def)
qed

text \<open>Late reports do not count: once the breaker of a key has moved past the generation of an
  admission, the outcome of that call changes nothing, after any interleaving of other calls.\<close>

theorem stale_report_ignored:
  assumes "map_of cs (ba_key a) = Some b" "ba_generation a < cb_generation b"
    and "x \<in> {Succeeded a, Failed now a, Abandoned now a}"
  shows "breaker_exec cfg x (fold (breaker_exec cfg) xs cs) = fold (breaker_exec cfg) xs cs"
proof -
  have "beyond (ba_key a) (ba_generation a) (fold (breaker_exec cfg) xs cs)"
    using assms(1,2) by (intro fence.run_keeps) (auto simp: beyond_def)
  with assms(3) show ?thesis
    by (auto simp: beyond_def breaker_success_def breaker_failure_def breaker_abandon_probe_def Let_def)
qed

theorem stale_report_ignored_witness:
  "breaker_exec sample_config (Failed 70 (sample_probe\<lparr>ba_generation := 0\<rparr>)) (fold (breaker_exec sample_config) []
     sample_circuits) = fold (breaker_exec sample_config) [] sample_circuits"
  by (rule stale_report_ignored [where b = "the (map_of sample_circuits ''k'')"])
    (simp_all add: sample_circuits_def sample_probe_def)

lemma failure_closed:
  assumes "map_of cs (ba_key a) = Some b" "\<not> cb_half_open b" "cb_open_until b = 0"
    and "cb_generation b = ba_generation a" "\<not> ba_probe a"
  shows "map_of (breaker_failure cfg now a cs) (ba_key a) =
    Some (if cfg_threshold cfg \<le> cb_failures b + 1
          then tripped cfg now a (b\<lparr>cb_failures := cb_failures b + 1\<rparr>) else b\<lparr>cb_failures := cb_failures b + 1\<rparr>)"
  using assms by (simp add: breaker_failure_def Let_def update_conv')

lemma failures_accumulate:
  assumes "map_of cs key = Some b" "\<not> cb_half_open b" "cb_open_until b = 0"
    and "list_all (\<lambda>(t, a). ba_key a = key \<and> ba_generation a = cb_generation b \<and> \<not> ba_probe a) fs"
    and "cb_failures b + int (length fs) < cfg_threshold cfg"
  shows "map_of (fold (\<lambda>(t, a). breaker_failure cfg t a) fs cs) key =
    Some (b\<lparr>cb_failures := cb_failures b + int (length fs)\<rparr>)"
  using assms
proof (induction fs arbitrary: cs b)
  case Nil
  then show ?case by simp
next
  case (Cons f fs)
  obtain t a where f: "f = (t, a)" by force
  let ?b = "b\<lparr>cb_failures := cb_failures b + 1\<rparr>"
  have "map_of (breaker_failure cfg t a cs) key = Some ?b"
    using failure_closed [of cs a b cfg t] Cons.prems by (simp add: f)
  with Cons.IH [of "breaker_failure cfg t a cs" ?b] Cons.prems show ?case by (simp add: f algebra_simps)
qed

text \<open>The breaker trips exactly at its threshold: on a closed breaker, fewer consecutive failures
  than the threshold leave it closed and calls admitted, and the failure that reaches the threshold
  opens it, counts one trip and refuses every call for the cooldown.\<close>

theorem trips_at_threshold:
  assumes "map_of cs key = Some b" "\<not> cb_half_open b" "cb_open_until b = 0" "0 \<le> cb_failures b"
    and "list_all (\<lambda>(t, a). ba_key a = key \<and> ba_generation a = cb_generation b \<and> \<not> ba_probe a) (fs @ [(t, a)])"
    and "cb_failures b + int (length fs) + 1 = cfg_threshold cfg" "0 \<le> now"
  shows "isl (fst (breaker_before_call now key plane (fold (\<lambda>(t, a). breaker_failure cfg t a) fs cs))) = False
    \<and> map_option cb_trips (map_of (fold (\<lambda>(t, a). breaker_failure cfg t a) (fs @ [(t, a)]) cs) key)
        = Some (cb_trips b + 1)
    \<and> (now < t + seconds (cfg_cooldown cfg) \<longrightarrow>
        fst (breaker_before_call now key plane (fold (\<lambda>(t, a). breaker_failure cfg t a) (fs @ [(t, a)]) cs)) =
          Inl (RuntimeError ''circuit breaker open''))"
proof -
  let ?cs = "fold (\<lambda>(t, a). breaker_failure cfg t a) fs cs"
  let ?b = "b\<lparr>cb_failures := cb_failures b + int (length fs)\<rparr>"
  have closed: "map_of ?cs key = Some ?b"
    using assms by (intro failures_accumulate) simp_all
  have tripped: "map_of (breaker_failure cfg t a ?cs) key =
      Some (tripped cfg t a (?b\<lparr>cb_failures := cb_failures ?b + 1\<rparr>))"
    using failure_closed [of ?cs a ?b cfg t] closed assms by simp
  have "isl (fst (breaker_before_call now key plane ?cs)) = False"
    using closed assms(2,3,7) by (auto simp: breaker_before_call_def breaker_state_def)
  with tripped show ?thesis
    by (auto simp: tripped_def before_call_refused)
qed

theorem trips_at_threshold_witness:
  "fst (breaker_before_call 100 ''k'' ''api'' (fold (\<lambda>(t, a). breaker_failure sample_config t a)
     ([(7, sample_probe\<lparr>ba_probe := False, ba_generation := 0\<rparr>)] @ [(9, sample_probe\<lparr>ba_probe := False, ba_generation := 0\<rparr>)])
     [(''k'', new_breaker)])) = Inl (RuntimeError ''circuit breaker open'')"
  using trips_at_threshold [of "[(''k'', new_breaker)]" "''k''" new_breaker
      "[(7, sample_probe\<lparr>ba_probe := False, ba_generation := 0\<rparr>)]" 9
      "sample_probe\<lparr>ba_probe := False, ba_generation := 0\<rparr>" sample_config 100 "''api''"]
  by (simp add: new_breaker_def sample_probe_def sample_config_def seconds_def)

text \<open>C22. The breaker recovers: when its open time is over the next call is admitted as the probe, its
  success closes the breaker with no failures counted so that calls are admitted again, and its failure
  or cancellation keeps it open for the cooldown or the abandon delay and fences the probe off.\<close>

theorem recovers_through_probe:
  assumes "map_of cs key = Some b" "\<not> cb_half_open b" "cb_open_until b \<noteq> 0" "cb_open_until b \<le> now"
    and "0 \<le> now'"
  shows "\<exists>a cs'. breaker_before_call now key plane cs = (Inr a, cs') \<and> ba_probe a
    \<and> map_of (breaker_success a cs') key =
        Some (b\<lparr>cb_failures := 0, cb_open_until := 0, cb_generation := cb_generation b + 1\<rparr>)
    \<and> isl (fst (breaker_before_call now' key plane (breaker_success a cs'))) = False
    \<and> (\<forall>t. now' < t + seconds (cfg_cooldown cfg) \<longrightarrow>
         isl (fst (breaker_before_call now' key plane (breaker_failure cfg t a cs'))))
    \<and> (\<forall>t. now' < t + seconds (breaker_abandon_delay_seconds cfg plane) \<longrightarrow>
         isl (fst (breaker_before_call now' key plane (breaker_abandon_probe cfg t a cs'))))"
proof -
  let ?a = "\<lparr>ba_key = key, ba_plane = plane, ba_generation = cb_generation b, ba_probe = True\<rparr>"
  let ?cs = "AList.update key (b\<lparr>cb_half_open := True\<rparr>) cs"
  have admit: "breaker_before_call now key plane cs = (Inr ?a, ?cs)"
    using assms by (simp add: breaker_before_call_def breaker_state_def)
  have s: "map_of (breaker_success ?a ?cs) key =
      Some (b\<lparr>cb_failures := 0, cb_open_until := 0, cb_generation := cb_generation b + 1\<rparr>)"
    using assms by (cases b) (simp add: breaker_success_def update_conv')
  then have "isl (fst (breaker_before_call now' key plane (breaker_success ?a ?cs))) = False"
    using assms(2,5) by (auto simp: breaker_before_call_def breaker_state_def)
  moreover have "map_of (breaker_failure cfg t ?a ?cs) key =
      Some (tripped cfg t ?a (b\<lparr>cb_half_open := True, cb_failures := cb_failures b + 1\<rparr>))" for t
    using assms by (simp add: breaker_failure_def update_conv')
  then have "isl (fst (breaker_before_call now' key plane (breaker_failure cfg t ?a ?cs)))"
    if "now' < t + seconds (cfg_cooldown cfg)" for t
    using that by (subst before_call_refused) (auto simp: tripped_def)
  moreover have "map_of (breaker_abandon_probe cfg t ?a ?cs) key = Some (b\<lparr>cb_half_open := False,
      cb_open_until := t + seconds (breaker_abandon_delay_seconds cfg plane),
      cb_generation := cb_generation b + 1\<rparr>)" for t
    using assms by (simp add: breaker_abandon_probe_def update_conv')
  then have "isl (fst (breaker_before_call now' key plane (breaker_abandon_probe cfg t ?a ?cs)))"
    if "now' < t + seconds (breaker_abandon_delay_seconds cfg plane)" for t
    using that by (subst before_call_refused) auto
  ultimately show ?thesis using admit s by auto
qed

theorem recovers_through_probe_witness:
  "\<exists>a cs'. breaker_before_call 60 ''k'' ''api'' sample_circuits = (Inr a, cs') \<and> ba_probe a
    \<and> isl (fst (breaker_before_call 99 ''k'' ''api'' (breaker_success a cs'))) = False"
  using recovers_through_probe [of sample_circuits "''k''" "the (map_of sample_circuits ''k'')" 60 99 "''api''" sample_config]
  by (auto simp: sample_circuits_def)

end
