(* ===== verification/Storm_Breaker.thy ===== *)
theory Storm_Breaker
  imports Prelude
begin

text \<open>
  The 429-storm breaker at the end of \<open>server.py\<close>: enough rate-limit answers of remote providers
  within a window close the remote tiers until a half-open probe succeeds. The knobs (threshold,
  window and half-open time) come from the local plane's database and are arguments; times are
  readings of the monotonic clock.
\<close>

record storm =
  st_events :: "instant list"
  st_open_until :: instant
  st_half_open :: bool
  st_halfopen :: instant
  st_probe_claimed :: bool

definition storm_init :: storm where
  "storm_init = \<lparr>st_events = [], st_open_until = 0, st_half_open = False, st_halfopen = seconds 30,
     st_probe_claimed = False\<rparr>"

definition storm_is_open :: "instant \<Rightarrow> storm \<Rightarrow> bool \<times> storm" where
  "storm_is_open now s =
    (if st_open_until s > now then (True, s)
     else if st_open_until s > 0 \<and> st_open_until s \<le> now
     then (False, s\<lparr>st_open_until := 0, st_half_open := True\<rparr>)
     else (False, s))"

definition storm_note_429 :: "int \<Rightarrow> instant \<Rightarrow> instant \<Rightarrow> instant \<Rightarrow> storm \<Rightarrow> storm" where
  "storm_note_429 n w halfopen now s =
    (let events = filter (\<lambda>t. t \<ge> now - w) (st_events s @ [now]);
         s1 = s\<lparr>st_events := events, st_halfopen := halfopen\<rparr>
     in if int (length events) \<ge> n then s1\<lparr>st_open_until := now + halfopen, st_half_open := False\<rparr> else s1)"

definition storm_probe_claim :: "storm \<Rightarrow> bool \<times> storm" where
  "storm_probe_claim s =
    (if \<not> st_half_open s then (False, s)
     else if st_probe_claimed s then (False, s)
     else (True, s\<lparr>st_probe_claimed := True\<rparr>))"

definition storm_probe_release :: "storm \<Rightarrow> storm" where
  "storm_probe_release s = s\<lparr>st_probe_claimed := False\<rparr>"

definition storm_probe_result :: "instant \<Rightarrow> bool \<Rightarrow> storm \<Rightarrow> storm" where
  "storm_probe_result now success s =
    (if \<not> st_half_open s then s
     else let s1 = s\<lparr>st_probe_claimed := False\<rparr> in
       if success then s1\<lparr>st_events := [], st_open_until := 0, st_half_open := False\<rparr>
       else s1\<lparr>st_open_until := now + (if st_halfopen s1 = 0 then seconds 30 else st_halfopen s1),
               st_half_open := False\<rparr>)"

definition storm_remote_success :: "instant \<Rightarrow> storm \<Rightarrow> storm" where
  "storm_remote_success now s = (if st_half_open s then storm_probe_result now True s else s)"

definition storm_route_tiers_gated :: "instant \<Rightarrow> storm \<Rightarrow> bool \<times> storm" where
  "storm_route_tiers_gated now s =
    (let (open_now, s1) = storm_is_open now s in if open_now then (True, s1) else (st_half_open s1, s1))"

subsection \<open>Interleavings\<close>

datatype storm_op =
    Check instant
  | Note int instant instant instant
  | ProbeClaim
  | ProbeRelease
  | ProbeResult instant bool
  | RemoteSuccess instant

fun storm_exec :: "storm_op \<Rightarrow> storm \<Rightarrow> storm" where
  "storm_exec (Check now) s = snd (storm_route_tiers_gated now s)"
| "storm_exec (Note n w h now) s = storm_note_429 n w h now s"
| "storm_exec ProbeClaim s = snd (storm_probe_claim s)"
| "storm_exec ProbeRelease s = storm_probe_release s"
| "storm_exec (ProbeResult now ok) s = storm_probe_result now ok s"
| "storm_exec (RemoteSuccess now) s = storm_remote_success now s"

text \<open>Operations other than the report of a success, at times the monotonic clock can show.\<close>

fun no_success :: "storm_op \<Rightarrow> bool" where
  "no_success (Note n w h now) = (0 \<le> now \<and> 0 < h)"
| "no_success (ProbeResult now ok) = (\<not> ok \<and> 0 \<le> now)"
| "no_success (RemoteSuccess now) = False"
| "no_success _ = True"

definition gated :: "storm \<Rightarrow> bool" where
  "gated s \<longleftrightarrow> (0 < st_open_until s \<or> st_half_open s) \<and> 0 < st_halfopen s"

lemmas storm_defs = storm_route_tiers_gated_def storm_is_open_def storm_note_429_def storm_probe_claim_def
  storm_probe_release_def storm_probe_result_def storm_remote_success_def

lemma gated_exec: "gated s \<Longrightarrow> no_success x \<Longrightarrow> gated (storm_exec x s)"
  by (cases x) (auto simp: gated_def storm_defs Let_def seconds_def split: prod.splits)

interpretation storm: transactions storm_exec "\<lambda>x s. no_success x" gated
  by unfold_locales (rule gated_exec)

lemma gated_reported: "gated s \<Longrightarrow> fst (storm_route_tiers_gated now s)"
  by (auto simp: gated_def storm_defs)

subsection \<open>Properties\<close>

text \<open>Only a success ends a storm: once the rate-limit answers within the window reach the threshold,
  the remote tiers stay gated through any checks, claims, failed probes and further rate limits, until
  a successful remote call is reported.\<close>

theorem storm_gates_until_success:
  assumes "n \<le> int (length (filter (\<lambda>t. t \<ge> now - w) (st_events s @ [now])))" "0 \<le> now" "0 < h"
    and "list_all no_success xs"
  shows "fst (storm_route_tiers_gated now' (fold storm_exec xs (storm_note_429 n w h now s)))"
proof -
  have "gated (storm_note_429 n w h now s)"
    using assms(1-3) by (simp add: gated_def storm_note_429_def Let_def)
  then have "gated (fold storm_exec xs (storm_note_429 n w h now s))"
    using assms(4) by (intro storm.run_keeps) (simp_all add: along_list_all)
  then show ?thesis by (rule gated_reported)
qed

theorem storm_gates_until_success_witness:
  "fst (storm_route_tiers_gated 99 (fold storm_exec [Check 50, ProbeClaim, ProbeResult 60 False]
     (storm_note_429 1 10 30 5 storm_init)))"
  by (rule storm_gates_until_success) (simp_all add: storm_init_def)

text \<open>C27. A probe overtaken by another storm keeps its claim for good: when the threshold is reached again
  while a probe is claimed, the report of that probe before the next half-open phase does not free the
  slot, and no later probe can be claimed.\<close>

theorem overtaken_probe_blocks_claims:
  assumes "st_half_open s" "st_probe_claimed s" "0 \<le> t" "0 < h" "t + h \<le> now"
    and "n \<le> int (length (filter (\<lambda>u. u \<ge> t - w) (st_events s @ [t])))"
  shows "let s1 = storm_probe_result t' ok (storm_note_429 n w h t s);
             s2 = snd (storm_is_open now s1)
         in st_half_open s2 \<and> fst (storm_probe_claim s2) = False"
  using assms by (auto simp: storm_defs Let_def)

theorem overtaken_probe_blocks_claims_witness:
  "fst (storm_probe_claim (snd (storm_is_open 99 (storm_probe_result 7 True
     (storm_note_429 1 10 30 5 (storm_init\<lparr>st_half_open := True, st_probe_claimed := True\<rparr>)))))) = False"
  using overtaken_probe_blocks_claims [of "storm_init\<lparr>st_half_open := True, st_probe_claimed := True\<rparr>" 5 30 99 1 10 7 True]
  by (simp add: storm_init_def Let_def)

end
