(* ===== verification/Py_Float.thy ===== *)
theory Py_Float
  imports Py_Value
begin

text \<open>
  Python floats: a real result is rounded to the nearest IEEE binary64 number, ties to even
  (\<open>float_of\<close>), and overflows to an infinity. The lemmas used by the accounting are that rounding is
  monotone and leaves floats alone.
\<close>

fun bit_len :: "nat \<Rightarrow> nat" where
  "bit_len n = (if n = 0 then 0 else Suc (bit_len (n div 2)))"

declare bit_len.simps [simp del]

definition round_even :: "rat \<Rightarrow> int" where
  "round_even x =
    (let q = \<lfloor>x\<rfloor>; r = x - of_int q in
     if r < 1 / 2 then q else if 1 / 2 < r then q + 1 else if even q then q else q + 1)"

text \<open>The exponent of the last place of a positive number, subnormal numbers included.\<close>

definition last_place :: "rat \<Rightarrow> int" where
  "last_place x =
    (let (n, d) = quotient_of x;
         e = int (bit_len (nat n)) - int (bit_len (nat d)) - 53
     in if x < 2 ^ 53 * 2 powi e then e else e + 1)"

definition round_pos :: "rat \<Rightarrow> rat" where
  "round_pos x = (if x \<le> 0 then 0
     else let e = max (- 1074) (last_place x) in of_int (round_even (x / 2 powi e)) * 2 powi e)"

definition float_round :: "rat \<Rightarrow> rat" where
  "float_round x = (if x < 0 then - round_pos (- x) else round_pos x)"

definition float_of :: "rat \<Rightarrow> pyfloat" where
  "float_of x =
    (let y = float_round x in
     if 2 ^ 1024 \<le> y then PosInf else if y \<le> - (2 ^ 1024) then NegInf else Fin y)"

definition is_float :: "rat \<Rightarrow> bool" where
  "is_float x \<longleftrightarrow> float_of x = Fin x"

text \<open>\<open>a + b\<close> and comparisons.\<close>

fun float_add :: "pyfloat \<Rightarrow> pyfloat \<Rightarrow> pyfloat" where
  "float_add (Fin a) (Fin b) = float_of (a + b)"
| "float_add NaN _ = NaN"
| "float_add _ NaN = NaN"
| "float_add PosInf NegInf = NaN"
| "float_add NegInf PosInf = NaN"
| "float_add PosInf _ = PosInf"
| "float_add _ PosInf = PosInf"
| "float_add NegInf _ = NegInf"
| "float_add _ NegInf = NegInf"

fun float_le :: "pyfloat \<Rightarrow> pyfloat \<Rightarrow> bool" where
  "float_le NaN _ = False"
| "float_le _ NaN = False"
| "float_le NegInf _ = True"
| "float_le _ PosInf = True"
| "float_le (Fin a) (Fin b) = (a \<le> b)"
| "float_le _ _ = False"

fun is_finite :: "pyfloat \<Rightarrow> bool" where
  "is_finite (Fin _) = True"
| "is_finite _ = False"

subsection \<open>Rounding\<close>

lemma bit_len_bounds: "0 < n \<Longrightarrow> \<exists>k. bit_len n = Suc k \<and> 2 ^ k \<le> n \<and> n < 2 ^ Suc k"
proof (induction n rule: bit_len.induct)
  case (1 n)
  show ?case
  proof (cases "n = 1")
    case True
    then show ?thesis by (simp add: bit_len.simps [of "Suc 0"] bit_len.simps [of 0])
  next
    case False
    with 1(2) have "n \<noteq> 0" "0 < n div 2" by (simp_all add: div_greater_zero_iff)
    then obtain k where "bit_len (n div 2) = Suc k" "2 ^ k \<le> n div 2" "n div 2 < 2 ^ Suc k"
      using 1(1) by blast
    then have "bit_len n = Suc (Suc k)" "2 ^ Suc k \<le> n" "n < 2 ^ Suc (Suc k)"
      using 1(2) by (simp_all add: bit_len.simps [of n])
    then show ?thesis by blast
  qed
qed

lemma powi_mono: "a \<le> b \<Longrightarrow> (2 :: rat) powi a \<le> 2 powi b"
  by (rule power_int_increasing) simp_all

lemma powi_pos [simp]: "0 < (2 :: rat) powi e"
  by simp

lemma rat_nat_bounds:
  assumes "0 \<le> n"
  shows "k \<le> nat n \<Longrightarrow> (of_nat k :: rat) \<le> of_int n" "nat n < k \<Longrightarrow> of_int n < (of_nat k :: rat)"
proof -
  have n: "(of_int n :: rat) = of_nat (nat n)" using assms by simp
  show "k \<le> nat n \<Longrightarrow> (of_nat k :: rat) \<le> of_int n" unfolding n by (rule of_nat_mono)
  show "nat n < k \<Longrightarrow> of_int n < (of_nat k :: rat)" unfolding n by (simp only: of_nat_less_iff)
qed

lemma last_place_bounds:
  assumes "0 < x"
  shows "2 ^ 52 * 2 powi last_place x \<le> x" "x < 2 ^ 53 * 2 powi last_place x"
proof -
  obtain n d where q: "quotient_of x = (n, d)" by (cases "quotient_of x")
  have x: "x = of_int n / of_int d" and d: "0 < d"
    using quotient_of_div [OF q] quotient_of_denom_pos [OF q] by simp_all
  with assms have n: "0 < n" by (simp add: zero_less_divide_iff)
  obtain i where i: "bit_len (nat n) = Suc i" "2 ^ i \<le> nat n" "nat n < 2 ^ Suc i"
    using bit_len_bounds [of "nat n"] n by auto
  obtain j where j: "bit_len (nat d) = Suc j" "2 ^ j \<le> nat d" "nat d < 2 ^ Suc j"
    using bit_len_bounds [of "nat d"] d by auto
  have ni: "(2 :: rat) ^ i \<le> of_int n" "of_int n < (2 :: rat) ^ Suc i"
    using rat_nat_bounds(1) [of n "2 ^ i"] rat_nat_bounds(2) [of n "2 ^ Suc i"] i(2,3) n by simp_all
  have dj: "(2 :: rat) ^ j \<le> of_int d" "of_int d < (2 :: rat) ^ Suc j"
    using rat_nat_bounds(1) [of d "2 ^ j"] rat_nat_bounds(2) [of d "2 ^ Suc j"] j(2,3) d by simp_all
  define e where "e = int i - int j - 53"
  have e: "(2 :: rat) powi e = 2 ^ i / (2 ^ j * 2 ^ 53)"
    by (simp add: e_def power_int_diff)
  have lo: "2 ^ 52 * 2 powi e < x" and hi: "x < 2 ^ 54 * 2 powi e"
  proof -
    have "2 ^ 52 * 2 powi e = (2 ^ i / 2 ^ Suc j :: rat)" by (simp add: e)
    also have "\<dots> < of_int n / of_int d"
      using ni(1) dj d n by (intro frac_less2) simp_all
    finally show "2 ^ 52 * 2 powi e < x" by (simp add: x)
    have "of_int n / of_int d < (2 ^ Suc i / 2 ^ j :: rat)"
      using ni dj d n by (intro frac_less) simp_all
    also have "\<dots> = 2 ^ 54 * 2 powi e" by (simp add: e)
    finally show "x < 2 ^ 54 * 2 powi e" by (simp add: x)
  qed
  have l: "last_place x = (if x < 2 ^ 53 * 2 powi e then e else e + 1)"
    by (simp add: last_place_def q i(1) j(1) e_def)
  show "2 ^ 52 * 2 powi last_place x \<le> x" "x < 2 ^ 53 * 2 powi last_place x"
    using lo hi by (auto simp: l power_int_add)
qed

lemma round_even_bounds: "\<lfloor>x\<rfloor> \<le> round_even x" "round_even x \<le> \<lfloor>x\<rfloor> + 1"
  by (auto simp: round_even_def Let_def)

lemma round_even_int [simp]: "round_even (of_int n) = n"
  by (simp add: round_even_def)

lemma round_even_mono:
  assumes "x \<le> y"
  shows "round_even x \<le> round_even y"
proof (cases "\<lfloor>x\<rfloor> = \<lfloor>y\<rfloor>")
  case True
  with assms show ?thesis by (auto simp: round_even_def Let_def)
next
  case False
  then have "\<lfloor>x\<rfloor> + 1 \<le> \<lfloor>y\<rfloor>" using floor_mono [OF assms] by simp
  with round_even_bounds [of x] round_even_bounds [of y] show ?thesis by linarith
qed

definition place :: "rat \<Rightarrow> int" where
  "place x = max (- 1074) (last_place x)"

lemma round_pos_place: "0 < x \<Longrightarrow> round_pos x = of_int (round_even (x / 2 powi place x)) * 2 powi place x"
  by (simp add: round_pos_def place_def Let_def)

lemma place_upper: "0 < x \<Longrightarrow> x < 2 ^ 53 * 2 powi place x"
  using last_place_bounds(2) [of x] powi_mono [of "last_place x" "place x"] by (auto simp: place_def)

lemma place_lower: "0 < x \<Longrightarrow> - 1074 < place x \<Longrightarrow> 2 ^ 52 * 2 powi place x \<le> x"
  using last_place_bounds(1) [of x] by (auto simp: place_def max_def split: if_splits)

lemma place_least:
  assumes "0 < x" "x < 2 ^ 53 * 2 powi e" "- 1074 \<le> e"
  shows "place x \<le> e"
proof (rule ccontr)
  assume "\<not> place x \<le> e"
  then have e: "e + 1 \<le> place x" by simp
  have "2 * 2 powi e \<le> (2 :: rat) powi place x"
    using powi_mono [OF e] by (simp add: power_int_add)
  moreover have "2 ^ 52 * 2 powi place x \<le> x" using place_lower [OF assms(1)] e assms(3) by simp
  ultimately show False using assms(2) by simp
qed

lemma round_pos_mono:
  assumes "x \<le> y"
  shows "round_pos x \<le> round_pos y"
proof (cases "0 < x")
  case True
  with assms have y: "0 < y" by simp
  have "y < 2 ^ 53 * 2 powi place y" by (rule place_upper [OF y])
  then have le: "place x \<le> place y"
    using assms True by (intro place_least) (auto simp: place_def)
  show ?thesis
  proof (cases "place x = place y")
    case True
    have "x / 2 powi place y \<le> y / 2 powi place y" using assms by (simp add: divide_right_mono)
    then have "round_even (x / 2 powi place y) \<le> round_even (y / 2 powi place y)" by (rule round_even_mono)
    then show ?thesis
      using True y \<open>0 < x\<close> by (simp add: round_pos_place)
  next
    case False
    with le have lt: "place x + 1 \<le> place y" by simp
    have "x / 2 powi place x \<le> of_int (2 ^ 53)"
      using place_upper [OF \<open>0 < x\<close>] by (simp add: divide_le_eq)
    then have "round_even (x / 2 powi place x) \<le> 2 ^ 53" using round_even_mono round_even_int by metis
    then have "(of_int (round_even (x / 2 powi place x)) :: rat) \<le> of_int (2 ^ 53)"
      by (simp only: of_int_le_iff)
    then have "round_pos x \<le> 2 ^ 53 * 2 powi place x"
      using \<open>0 < x\<close> by (simp add: round_pos_place)
    also have "\<dots> \<le> 2 ^ 52 * 2 powi place y"
      using powi_mono [OF lt] by (simp add: power_int_add)
    also have "\<dots> \<le> round_pos y"
    proof -
      have "of_int (2 ^ 52) \<le> y / 2 powi place y"
        using place_lower [OF y] lt by (simp add: place_def le_divide_eq)
      then have "2 ^ 52 \<le> round_even (y / 2 powi place y)" using round_even_mono round_even_int by metis
      then have "of_int (2 ^ 52) \<le> (of_int (round_even (y / 2 powi place y)) :: rat)"
        by (simp only: of_int_le_iff)
      then show ?thesis using y by (simp add: round_pos_place)
    qed
    finally show ?thesis .
  qed
next
  case False
  then have "round_pos x = 0" by (simp add: round_pos_def)
  moreover have "0 \<le> round_pos y"
    using round_even_mono [of 0 "y / 2 powi place y"] round_even_int [of 0]
    by (cases "0 < y") (simp_all add: round_pos_place, simp add: round_pos_def)
  ultimately show ?thesis by simp
qed

lemma round_pos_nonneg: "0 \<le> round_pos x"
  using round_pos_mono [of 0 x] by (cases "0 \<le> x") (simp_all add: round_pos_def)

lemma round_pos_small:
  assumes "0 < m" "m < 2 ^ 53" "- 1074 \<le> e"
  shows "round_pos (of_int m * 2 powi e) = of_int m * 2 powi e"
proof -
  let ?y = "of_int m * 2 powi e :: rat"
  have y: "0 < ?y" using assms(1) by simp
  have "(of_int m :: rat) < of_int (2 ^ 53)" using assms(2) by (simp only: of_int_less_iff)
  then have "place ?y \<le> e" using y assms(3) by (intro place_least) simp_all
  then obtain k where e: "e = place ?y + int k" using zle_iff_zadd by metis
  define q where "q = place ?y"
  have pw: "(2 :: rat) powi e = 2 powi q * 2 ^ k" using e unfolding q_def [symmetric] by (simp add: power_int_add)
  have "?y / 2 powi q = of_int (m * 2 ^ k)" by (simp add: pw)
  then have "round_even (?y / 2 powi q) = m * 2 ^ k" by (simp only: round_even_int)
  then have "round_pos ?y = of_int (m * 2 ^ k) * 2 powi q"
    using y by (simp only: round_pos_place q_def)
  also have "\<dots> = ?y" by (simp add: pw)
  finally show ?thesis .
qed

lemma round_pos_idem: "round_pos (round_pos x) = round_pos x"
proof (cases "0 < round_pos x")
  case True
  then have x: "0 < x" by (cases "0 < x") (simp_all add: round_pos_def)
  define m where "m = round_even (x / 2 powi place x)"
  have r: "round_pos x = of_int m * 2 powi place x" using x by (simp add: round_pos_place m_def)
  have m: "0 < m" using True powi_pos [of "place x"] by (auto simp: r zero_less_mult_iff)
  have "x / 2 powi place x \<le> of_int (2 ^ 53)"
    using place_upper [OF x] by (simp add: divide_le_eq)
  then have "m \<le> 2 ^ 53" unfolding m_def using round_even_mono round_even_int by metis
  then consider "m < 2 ^ 53" | "m = 2 ^ 53" by linarith
  then show ?thesis
  proof cases
    case 1
    with m show ?thesis unfolding r by (intro round_pos_small) (simp_all add: place_def)
  next
    case 2
    then have eq: "round_pos x = of_int (2 ^ 52) * 2 powi (place x + 1)"
      by (simp add: r power_int_add)
    show ?thesis unfolding eq by (rule round_pos_small) (simp_all add: place_def)
  qed
next
  case False
  with round_pos_nonneg [of x] have "round_pos x = 0" by simp
  then show ?thesis by (simp add: round_pos_def)
qed

lemma float_round_mono: "x \<le> y \<Longrightarrow> float_round x \<le> float_round y"
  using round_pos_mono [of x y] round_pos_mono [of "- y" "- x"] round_pos_nonneg [of "- x"] round_pos_nonneg [of y]
  by (auto simp: float_round_def)

lemma float_round_idem: "float_round (float_round x) = float_round x"
proof (cases "x < 0")
  case True
  have "float_round x = - round_pos (- x)" using True by (simp add: float_round_def)
  then show ?thesis
    using round_pos_idem [of "- x"] round_pos_nonneg [of "- x"]
    by (cases "round_pos (- x) = 0") (simp_all add: float_round_def round_pos_def [of 0])
next
  case False
  then show ?thesis using round_pos_nonneg [of x] by (simp add: float_round_def round_pos_idem)
qed

lemma float_round_zero [simp]: "float_round 0 = 0"
  by (simp add: float_round_def round_pos_def)

lemma float_of_Fin: "float_of x = Fin y \<Longrightarrow> y = float_round x \<and> \<bar>y\<bar> < 2 ^ 1024"
  by (auto simp: float_of_def Let_def split: if_splits)

lemma float_of_is_float: "float_of x = Fin y \<Longrightarrow> is_float y"
  by (auto simp: is_float_def float_of_def Let_def float_round_idem split: if_splits)

lemma is_float_round: "is_float x \<Longrightarrow> float_round x = x"
  by (auto simp: is_float_def dest: float_of_Fin)

lemma is_float_0 [simp]: "is_float 0"
  by (simp add: is_float_def float_of_def)

text \<open>Adding a non-negative number to a float never gives less than the float.\<close>

lemma float_add_increases:
  assumes "is_float a" "0 \<le> b"
  shows "float_le (Fin a) (float_add (Fin a) (Fin b))"
proof -
  have "a \<le> float_round (a + b)"
    using float_round_mono [of a "a + b"] assms by (simp add: is_float_round)
  moreover have "\<not> float_round (a + b) \<le> - (2 ^ 1024)"
    using calculation float_of_Fin [of a a] assms(1) by (auto simp: is_float_def)
  ultimately show ?thesis by (auto simp: float_of_def Let_def)
qed

text \<open>Small integers are floats.\<close>

lemma small_int_float:
  assumes "\<bar>n\<bar> < 2 ^ 53"
  shows "float_of (of_int n) = Fin (of_int n)"
proof -
  have pos: "round_pos (of_int k) = of_int k" if k: "0 < k" "k < 2 ^ 53" for k
  proof -
    let ?x = "of_int k :: rat" and ?e = "place (of_int k)"
    have x: "0 < ?x" "1 \<le> ?x" "?x < 2 ^ 53" using k of_int_less_iff [of k "2 ^ 53", where 'a = rat] by simp_all
    have "?e \<le> 0"
    proof (rule ccontr)
      assume "\<not> ?e \<le> 0"
      then have "2 powi 1 \<le> (2 :: rat) powi ?e" by (intro powi_mono) simp
      moreover have "2 ^ 52 * 2 powi ?e \<le> ?x" using \<open>\<not> ?e \<le> 0\<close> x(1) by (intro place_lower) simp_all
      ultimately show False using x(3) by simp
    qed
    then have "?x / 2 powi ?e = of_int (k * 2 ^ nat (- ?e))"
      by (simp add: power_int_def field_simps)
    then have "round_even (?x / 2 powi ?e) = k * 2 ^ nat (- ?e)" by (simp only: round_even_int)
    then have "round_pos ?x = of_int (k * 2 ^ nat (- ?e)) * 2 powi ?e" by (simp add: round_pos_place [OF x(1)])
    also have "\<dots> = ?x" using \<open>?e \<le> 0\<close> by (simp add: power_int_def field_simps)
    finally show ?thesis .
  qed
  have "float_round (of_int n) = of_int n"
    using assms pos [of n] pos [of "- n"] by (cases n "0 :: int" rule: linorder_cases) (simp_all add: float_round_def round_pos_def)
  moreover have "\<bar>of_int n :: rat\<bar> < 2 ^ 53" using assms of_int_less_iff [of "\<bar>n\<bar>" "2 ^ 53", where 'a = rat] by simp
  moreover have "(2 :: rat) ^ 53 \<le> 2 ^ 1024" by (intro power_increasing) simp_all
  ultimately show ?thesis by (auto simp: float_of_def Let_def)
qed

lemma float_of_numeral: "float_of (numeral n) = Fin (numeral n)" if "(numeral n :: int) < 2 ^ 53"
  using small_int_float [of "numeral n"] that by simp

end
