(* ===== verification/Py_Number.thy ===== *)
theory Py_Number
  imports Py_Text Py_Float Py_Decimal
begin

text \<open>\<open>float(text)\<close> on ASCII text, and the cost fields the accounting reads.\<close>

definition digit_run :: re where
  "digit_run = Seq (Chr is_digit) (Star (Seq (Opt (lit ''_'')) (Chr is_digit)))"

definition float_literal :: re where
  "float_literal = seqs
     [Alt (Seq digit_run (Opt (Seq (lit ''.'') (Opt digit_run)))) (Seq (lit ''.'') digit_run),
      Opt (seqs [lit_ci ''e'', Opt (one_of ''+-''), digit_run])]"

definition digits_value :: "string \<Rightarrow> int" where
  "digits_value s = foldl (\<lambda>a c. 10 * a + (code c - 48)) 0 s"

fun split_first :: "char \<Rightarrow> string \<Rightarrow> string \<times> string" where
  "split_first sep [] = ([], [])"
| "split_first sep (c # cs) = (if c = sep then ([], cs) else map_prod (Cons c) id (split_first sep cs))"

definition signed_value :: "string \<Rightarrow> int" where
  "signed_value s =
    (case s of [] \<Rightarrow> 0
     | c # cs \<Rightarrow> if c = CHR ''-'' then - digits_value cs else if c = CHR ''+'' then digits_value cs
                else digits_value (c # cs))"

definition literal_value :: "string \<Rightarrow> rat" where
  "literal_value s =
    (let (mantissa, exponent) = split_first (CHR ''e'') (filter (\<lambda>c. c \<noteq> CHR ''_'') (str_lower s));
         (whole, fraction) = split_first (CHR ''.'') mantissa
     in of_int (digits_value (whole @ fraction)) * ten_to (signed_value exponent - int (length fraction)))"

definition float_of_text :: "string \<Rightarrow> pyfloat option" where
  "float_of_text text =
    (let s = str_strip text;
         (negative, body) = (case s of [] \<Rightarrow> (False, [])
            | c # cs \<Rightarrow> if c = CHR ''-'' then (True, cs) else if c = CHR ''+'' then (False, cs) else (False, s));
         word = str_lower body
     in if word \<in> {''inf'', ''infinity''} then Some (if negative then NegInf else PosInf)
        else if word = ''nan'' then Some NaN
        else if re_fullmatch float_literal body
        then Some (float_of (if negative then - literal_value body else literal_value body))
        else None)"

text \<open>\<open>float(value)\<close> on an \<open>int\<close>, which raises where the result would overflow.\<close>

definition float_of_int :: "int \<Rightarrow> py_error + rat" where
  "float_of_int n =
    (case float_of (of_int n) of Fin q \<Rightarrow> Inr q | _ \<Rightarrow> Inl (OverflowError ''int too large to convert to float''))"

end
