(* ===== verification/Local_Budget.thy ===== *)
theory Local_Budget
  imports Database Py_Number
begin

text \<open>
  The local daily budget of \<open>caller_budget.py\<close>: one row per UTC day with the spend so far and at most
  one lease, held by the metered operation under way. Each function of the ledger is one
  \<open>BEGIN IMMEDIATE\<close> transaction; a rolled-back one returns the database it started from, a raise after
  a commit the committed one. \<open>sum_real\<close> is SQLite's \<open>SUM\<close> over the \<open>REAL\<close> cost column. Messages are
  given without the amounts the code formats into them.
\<close>

datatype budget_error =
    CallerBudgetExceeded string
  | CallerBudgetUnavailable string
  | CallerBudgetConfigurationError string
  | PyError py_error

record local_row =
  lb_day :: int
  lb_spent :: pyfloat
  lb_lease_token :: "string option"
  lb_lease_expires_at :: "instant option"
  lb_updated_at :: instant

record budget_db =
  bd_rows :: "local_row list"
  bd_telemetry :: "telemetry_row list"

record local_reservation =
  lr_day :: int
  lr_token :: string
  lr_limit :: rat

definition LOCAL_BUDGET_LEASE_SECONDS :: int where
  "LOCAL_BUDGET_LEASE_SECONDS = 900"

definition LOCAL_BUDGET_RETENTION_DAYS :: int where
  "LOCAL_BUDGET_RETENTION_DAYS = 8"

definition load_local_daily_budget :: "string \<Rightarrow> budget_error + rat option" where
  "load_local_daily_budget env =
    (let raw = str_strip env in
     if raw = [] then Inr None
     else if length raw > 64 then Inl (CallerBudgetConfigurationError ''invalid_local_limit'')
     else case float_of_text raw of
         Some (Fin limit) \<Rightarrow>
           if limit < 0 then Inl (CallerBudgetConfigurationError ''invalid_local_limit'') else Inr (Some limit)
       | _ \<Rightarrow> Inl (CallerBudgetConfigurationError ''invalid_local_limit''))"

fun valid_cost :: "json \<Rightarrow> py_error + rat option" where
  "valid_cost (JInt n) = map_sum id (\<lambda>q. if q < 0 then None else Some q) (float_of_int n)"
| "valid_cost (JFloat (Fin q)) = Inr (if q < 0 then None else Some q)"
| "valid_cost _ = Inr None"

definition closed_at :: "instant \<Rightarrow> pyfloat \<Rightarrow> local_row \<Rightarrow> local_row" where
  "closed_at now spent r =
    r\<lparr>lb_spent := spent, lb_lease_token := None, lb_lease_expires_at := None, lb_updated_at := now\<rparr>"

definition set_row :: "int \<Rightarrow> (local_row \<Rightarrow> local_row) \<Rightarrow> local_row list \<Rightarrow> budget_db \<Rightarrow> budget_db" where
  "set_row day f rows d = d\<lparr>bd_rows := sql_update (\<lambda>r. lb_day r = day) f rows\<rparr>"

text \<open>The last part of a reservation: the lease in force, the limit, and the grant.\<close>

definition grant_lease ::
  "instant \<Rightarrow> instant \<Rightarrow> local_reservation \<Rightarrow> rat \<Rightarrow> (string \<times> instant) option \<Rightarrow> local_row list \<Rightarrow> budget_db \<Rightarrow>
   (budget_error + local_reservation) \<times> budget_db" where
  "grant_lease now lease_expires rv spent lease rows d =
    (case lease of
       Some (token, expiry) \<Rightarrow>
         if expiry > now
         then (Inl (CallerBudgetUnavailable ''Another metered local operation is still active; provider spend was denied.''), d)
         else (Inl (CallerBudgetExceeded
                 ''A prior metered operation ended without an exact receipt; the local daily budget is exhausted.''),
               set_row (lr_day rv) (closed_at now (Fin (max spent (lr_limit rv)))) rows d)
     | None \<Rightarrow>
         if spent \<ge> lr_limit rv then (Inl (CallerBudgetExceeded ''Local daily budget exhausted''), d)
         else (Inr rv, set_row (lr_day rv)
             (\<lambda>r. r\<lparr>lb_lease_token := Some (lr_token rv), lb_lease_expires_at := Some lease_expires,
                    lb_updated_at := now\<rparr>) rows d))"

definition reserve_local_budget_sync ::
  "(rat list \<Rightarrow> pyfloat) \<Rightarrow> local_reservation \<Rightarrow> instant \<Rightarrow> instant \<Rightarrow> int \<Rightarrow> budget_db \<Rightarrow>
   (budget_error + local_reservation) \<times> budget_db" where
  "reserve_local_budget_sync sum_real rv now lease_expires prune_before d =
    (let rows = sql_delete (\<lambda>r. lb_day r < prune_before) (bd_rows d) in
     case row_of lb_day rows (lr_day rv) of
       None \<Rightarrow>
         (case valid_cost (JFloat (sum_real (map t_cost_usd (filter
                (\<lambda>t. day_start_of (lr_day rv) \<le> t_created_at t \<and> t_created_at t < day_start_of (lr_day rv + 1))
                (bd_telemetry d))))) of
            Inl e \<Rightarrow> (Inl (PyError e), d)
          | Inr None \<Rightarrow> (Inl (CallerBudgetUnavailable
                ''Local daily budget telemetry is invalid; provider spend was denied.''), d)
          | Inr (Some spent) \<Rightarrow>
              grant_lease now lease_expires rv spent None
                (rows @ [\<lparr>lb_day = lr_day rv, lb_spent = Fin spent, lb_lease_token = None,
                          lb_lease_expires_at = None, lb_updated_at = now\<rparr>]) d)
     | Some row \<Rightarrow>
         let token = (if lb_lease_token row = Some [] then None else lb_lease_token row);
             expiry = lb_lease_expires_at row
         in case valid_cost (JFloat (lb_spent row)) of
              Inr (Some spent) \<Rightarrow>
                if (token = None) \<noteq> (expiry = None)
                then (Inl (CallerBudgetUnavailable ''Local daily budget state is invalid; provider spend was denied.''),
                      set_row (lr_day rv) (closed_at now (Fin (lr_limit rv))) rows d)
                else grant_lease now lease_expires rv spent
                       (case (token, expiry) of (Some t, Some e) \<Rightarrow> Some (t, e) | _ \<Rightarrow> None) rows d
            | _ \<Rightarrow> (Inl (CallerBudgetUnavailable ''Local daily budget state is invalid; provider spend was denied.''),
                    set_row (lr_day rv) (closed_at now (Fin (lr_limit rv))) rows d))"

text \<open>The three ways an operation ends: an exact cost, no usable receipt, or no provider call at all.\<close>

datatype settlement = Cost rat | Exhaust | Release

definition update_local_budget_sync ::
  "local_reservation \<Rightarrow> instant \<Rightarrow> settlement \<Rightarrow> budget_db \<Rightarrow> (budget_error + pyfloat) \<times> budget_db" where
  "update_local_budget_sync rv now how d =
    (case row_of lb_day (bd_rows d) (lr_day rv) of
       None \<Rightarrow> (Inl (CallerBudgetUnavailable
           ''Local daily budget reservation is unavailable; provider spend was denied.''), d)
     | Some row \<Rightarrow>
         if (case lb_lease_token row of None \<Rightarrow> [] | Some t \<Rightarrow> t) \<noteq> lr_token rv
         then (Inl (CallerBudgetUnavailable
           ''Local daily budget reservation is unavailable; provider spend was denied.''), d)
         else case valid_cost (JFloat (lb_spent row)) of
             Inr (Some spent) \<Rightarrow>
               let updated = (case how of Release \<Rightarrow> Fin spent | Exhaust \<Rightarrow> Fin (max spent (lr_limit rv))
                                | Cost c \<Rightarrow> float_add (Fin spent) (Fin c))
               in (Inr updated, set_row (lr_day rv) (closed_at now updated) (bd_rows d) d)
           | _ \<Rightarrow> (Inl (CallerBudgetUnavailable ''Local daily budget state is invalid; provider spend was denied.''),
                   set_row (lr_day rv) (closed_at now (Fin (lr_limit rv))) (bd_rows d) d))"

subsection \<open>The operations callers use\<close>

text \<open>\<open>cloudrun\<close> is \<open>is_cloudrun_runtime()\<close>, \<open>token\<close> the fresh \<open>secrets.token_hex(16)\<close>.\<close>

definition reserve_local_budget ::
  "(rat list \<Rightarrow> pyfloat) \<Rightarrow> bool \<Rightarrow> string \<Rightarrow> instant \<Rightarrow> string \<Rightarrow> budget_db \<Rightarrow>
   (budget_error + local_reservation option) \<times> budget_db" where
  "reserve_local_budget sum_real cloudrun env now token d =
    (if cloudrun then (Inr None, d)
     else case load_local_daily_budget env of
         Inl e \<Rightarrow> (Inl e, d)
       | Inr None \<Rightarrow> (Inr None, d)
       | Inr (Some limit) \<Rightarrow>
           map_prod (map_sum id Some) id
             (reserve_local_budget_sync sum_real
               \<lparr>lr_day = utc_day_of now, lr_token = token, lr_limit = limit\<rparr> now
               (now + seconds LOCAL_BUDGET_LEASE_SECONDS) (utc_day_of now - LOCAL_BUDGET_RETENTION_DAYS) d))"

definition settle_with ::
  "local_reservation \<Rightarrow> instant \<Rightarrow> settlement \<Rightarrow> budget_error option \<Rightarrow> budget_db \<Rightarrow> budget_error option \<times> budget_db" where
  "settle_with rv now how denial d =
    (case update_local_budget_sync rv now how d of
       (Inl e, d1) \<Rightarrow> (Some e, d1)
     | (Inr _, d1) \<Rightarrow> (denial, d1))"

definition settle_local_budget ::
  "local_reservation option \<Rightarrow> instant \<Rightarrow> (string \<times> json) list \<Rightarrow> budget_db \<Rightarrow> budget_error option \<times> budget_db" where
  "settle_local_budget reservation now result d =
    (case reservation of
       None \<Rightarrow> (None, d)
     | Some rv \<Rightarrow>
         (case valid_cost (dget result ''cost_usd'') of
            Inl e \<Rightarrow> (Some (PyError e), d)
          | Inr None \<Rightarrow> settle_with rv now Exhaust (Some (CallerBudgetUnavailable
                ''Provider cost receipt is unavailable; the local daily budget was exhausted.'')) d
          | Inr (Some c) \<Rightarrow> settle_with rv now (Cost c) None d))"

text \<open>The cost of the attempts an error carries; \<open>None\<close> is the \<open>-1.0\<close> of the code or a sum that is not finite.\<close>

fun attempts_cost :: "pyfloat \<Rightarrow> json list \<Rightarrow> py_error + rat option" where
  "attempts_cost acc [] = Inr (case acc of Fin q \<Rightarrow> if q < 0 then None else Some q | _ \<Rightarrow> None)"
| "attempts_cost acc (JObj kvs # rest) =
     (case valid_cost (dget kvs ''cost_usd'') of
        Inl e \<Rightarrow> Inl e
      | Inr None \<Rightarrow> Inr None
      | Inr (Some c) \<Rightarrow> attempts_cost (float_add acc (Fin c)) rest)"
| "attempts_cost acc (_ # rest) = Inr None"

definition settle_local_budget_error ::
  "local_reservation option \<Rightarrow> instant \<Rightarrow> json \<Rightarrow> budget_db \<Rightarrow> budget_error option \<times> budget_db" where
  "settle_local_budget_error reservation now incurred_attempts d =
    (case reservation of
       None \<Rightarrow> (None, d)
     | Some rv \<Rightarrow>
         (case incurred_attempts of
            JArr (a # attempts) \<Rightarrow>
              (case attempts_cost (Fin 0) (a # attempts) of
                 Inl e \<Rightarrow> (Some (PyError e), d)
               | Inr None \<Rightarrow> settle_with rv now Exhaust (Some (CallerBudgetUnavailable
                     ''Provider error cost receipt is invalid; the local daily budget was exhausted.'')) d
               | Inr (Some c) \<Rightarrow> settle_with rv now (Cost c) None d)
          | _ \<Rightarrow> (None, d)))"

definition release_local_budget ::
  "local_reservation option \<Rightarrow> instant \<Rightarrow> budget_db \<Rightarrow> budget_error option \<times> budget_db" where
  "release_local_budget reservation now d =
    (case reservation of None \<Rightarrow> (None, d) | Some rv \<Rightarrow> settle_with rv now Release None d)"

subsection \<open>A day that is spent stays spent\<close>

datatype budget_op =
    OpReserve instant string
  | OpSettle local_reservation instant "(string \<times> json) list"
  | OpSettleError local_reservation instant json
  | OpRelease local_reservation instant

fun budget_exec :: "(rat list \<Rightarrow> pyfloat) \<Rightarrow> string \<Rightarrow> budget_op \<Rightarrow> budget_db \<Rightarrow> budget_db" where
  "budget_exec sum_real env (OpReserve now token) d = snd (reserve_local_budget sum_real False env now token d)"
| "budget_exec sum_real env (OpSettle rv now result) d = snd (settle_local_budget (Some rv) now result d)"
| "budget_exec sum_real env (OpSettleError rv now attempts) d =
     snd (settle_local_budget_error (Some rv) now attempts d)"
| "budget_exec sum_real env (OpRelease rv now) d = snd (release_local_budget (Some rv) now d)"

text \<open>
  Operations of a service whose configured limit is \<open>limit\<close>, at clocks that have not left the
  retention window of \<open>day\<close>, reporting costs that are floats.
\<close>

fun regular :: "int \<Rightarrow> rat \<Rightarrow> budget_op \<Rightarrow> bool" where
  "regular day limit (OpReserve now token) = (utc_day_of now \<le> day + 8)"
| "regular day limit (OpSettle rv now result) = (lr_limit rv = limit)"
| "regular day limit (OpSettleError rv now attempts) = (lr_limit rv = limit)"
| "regular day limit (OpRelease rv now) = (lr_limit rv = limit)"

definition reached :: "rat \<Rightarrow> pyfloat \<Rightarrow> bool" where
  "reached limit spent \<longleftrightarrow> (case spent of Fin q \<Rightarrow> is_float q \<and> 0 \<le> q \<and> limit \<le> q | PosInf \<Rightarrow> True | _ \<Rightarrow> False)"

definition exhausted :: "int \<Rightarrow> rat \<Rightarrow> budget_db \<Rightarrow> bool" where
  "exhausted day limit d \<longleftrightarrow> (\<exists>r. row_of lb_day (bd_rows d) day = Some r \<and> reached limit (lb_spent r))
     \<and> keyed lb_day (bd_rows d) \<and> is_float limit \<and> 0 \<le> limit"

lemma closed_at_fields [simp]: "lb_day (closed_at now s r) = lb_day r" "lb_spent (closed_at now s r) = s"
  by (simp_all add: closed_at_def)

lemma row_of_set_row:
  "(\<And>r. lb_day (f r) = lb_day r) \<Longrightarrow> row_of lb_day (bd_rows (set_row k f rows d)) day =
     map_option (\<lambda>r. if lb_day r = k then f r else r) (row_of lb_day rows day)"
  by (simp add: set_row_def table_simps)

lemma keyed_set_row: "(\<And>r. lb_day (f r) = lb_day r) \<Longrightarrow> keyed lb_day rows \<Longrightarrow> keyed lb_day (bd_rows (set_row k f rows d))"
  by (simp add: set_row_def keyed_update)

lemma reached_limit [simp]: "is_float limit \<Longrightarrow> 0 \<le> limit \<Longrightarrow> reached limit (Fin limit)"
  by (simp add: reached_def)

lemma reached_max:
  "is_float limit \<Longrightarrow> 0 \<le> limit \<Longrightarrow> is_float q \<Longrightarrow> 0 \<le> q \<Longrightarrow> reached limit (Fin (max q limit))"
  by (simp add: reached_def max_def)

lemma reached_add:
  assumes "reached limit (Fin q)" "0 \<le> c"
  shows "reached limit (float_add (Fin q) (Fin c))"
proof (cases "float_add (Fin q) (Fin c)")
  case (Fin y)
  with assms float_add_increases [of q c] float_of_is_float [of "q + c" y] show ?thesis
    by (auto simp: reached_def)
next
  case PosInf
  then show ?thesis by (simp add: reached_def)
qed (use assms float_add_increases [of q c] in \<open>auto simp: reached_def\<close>)

lemma valid_cost_nonneg: "valid_cost v = Inr (Some c) \<Longrightarrow> 0 \<le> c"
proof (induction v rule: valid_cost.induct)
  case (1 n)
  then show ?case by (cases "float_of_int n") (auto split: if_splits)
qed (auto split: if_splits)

lemma attempts_cost_nonneg: "attempts_cost a xs = Inr (Some c) \<Longrightarrow> 0 \<le> c"
  by (induction a xs rule: attempts_cost.induct)
    (auto split: if_splits sum.splits option.splits pyfloat.splits)

lemma reached_spent:
  "reached limit s \<Longrightarrow> valid_cost (JFloat s) = Inr (Some q) \<Longrightarrow> s = Fin q \<and> is_float q \<and> 0 \<le> q \<and> limit \<le> q"
  by (cases s) (auto simp: reached_def split: if_splits)

lemma update_keeps_exhausted:
  assumes "exhausted day limit d" "lr_limit rv = limit" "\<And>c. how = Cost c \<Longrightarrow> 0 \<le> c"
  shows "exhausted day limit (snd (update_local_budget_sync rv now how d))"
proof -
  have close: "exhausted day limit (set_row k (closed_at now s) (bd_rows d) d)"
    if "k = day \<Longrightarrow> reached limit s" for k s
  proof -
    obtain r where r: "row_of lb_day (bd_rows d) day = Some r" "reached limit (lb_spent r)"
      using assms(1) by (auto simp: exhausted_def)
    with row_of_Some [OF r(1)] that assms(1) show ?thesis
      by (cases "k = day") (simp_all add: exhausted_def row_of_set_row keyed_set_row)
  qed
  show ?thesis
  proof (cases "row_of lb_day (bd_rows d) (lr_day rv)")
    case None
    with assms(1) show ?thesis by (simp add: update_local_budget_sync_def)
  next
    case (Some row)
    let ?s = "\<lambda>q. case how of Release \<Rightarrow> Fin q | Exhaust \<Rightarrow> Fin (max q (lr_limit rv)) | Cost c \<Rightarrow> float_add (Fin q) (Fin c)"
    have ok: "reached limit (?s q)"
      if "lr_day rv = day" "valid_cost (JFloat (lb_spent row)) = Inr (Some q)" for q
    proof -
      have r: "reached limit (lb_spent row)" using Some that(1) assms(1) by (auto simp: exhausted_def)
      with reached_spent [OF r that(2)] show ?thesis
        using assms by (auto simp: exhausted_def reached_max reached_add [simplified]
            split: settlement.split)
    qed
    have lim: "reached limit (Fin (lr_limit rv))" using assms(1,2) by (simp add: exhausted_def)
    show ?thesis
      using Some assms(1) ok lim
      by (auto simp: update_local_budget_sync_def Let_def intro!: close split: sum.split option.split)
  qed
qed

lemma settle_with_keeps:
  "exhausted day limit d \<Longrightarrow> lr_limit rv = limit \<Longrightarrow> (\<And>c. how = Cost c \<Longrightarrow> 0 \<le> c) \<Longrightarrow>
   exhausted day limit (snd (settle_with rv now how e d))"
  using update_keeps_exhausted [of day limit d rv how now]
  by (auto simp: settle_with_def split: prod.split sum.split)

lemma exhausted_set_row:
  assumes "exhausted day limit d" "prune_before \<le> day"
    and "\<And>r. lb_day (f r) = lb_day r" "k = day \<Longrightarrow> (\<And>r. reached limit (lb_spent r) \<Longrightarrow> reached limit (lb_spent (f r)))"
  shows "exhausted day limit (set_row k f (sql_delete (\<lambda>r. lb_day r < prune_before) (bd_rows d)) d')"
proof -
  obtain r where r: "row_of lb_day (bd_rows d) day = Some r" "reached limit (lb_spent r)"
    and k: "keyed lb_day (bd_rows d)"
    using assms(1) by (auto simp: exhausted_def)
  then have "row_of lb_day (sql_delete (\<lambda>r. lb_day r < prune_before) (bd_rows d)) day = Some r"
    using assms(2) row_of_Some [OF r(1)] by (simp add: table_simps)
  with r(2) assms(1,3,4) k row_of_Some [OF r(1)] show ?thesis
    by (cases "k = day") (auto simp: exhausted_def row_of_set_row keyed_set_row keyed_delete)
qed

lemma reserve_sync_exhausted:
  assumes "exhausted (lr_day rv) (lr_limit rv) d" "prune_before \<le> lr_day rv"
  shows "exhausted (lr_day rv) (lr_limit rv) (snd (reserve_local_budget_sync sum_real rv now e prune_before d))
    \<and> isl (fst (reserve_local_budget_sync sum_real rv now e prune_before d))"
proof -
  let ?rows = "sql_delete (\<lambda>r. lb_day r < prune_before) (bd_rows d)"
  obtain r where r: "row_of lb_day (bd_rows d) (lr_day rv) = Some r" "reached (lr_limit rv) (lb_spent r)"
    and k: "keyed lb_day (bd_rows d)" and l: "is_float (lr_limit rv)" "0 \<le> lr_limit rv"
    using assms(1) by (auto simp: exhausted_def)
  have kept: "row_of lb_day ?rows (lr_day rv) = Some r"
    using r(1) k assms(2) row_of_Some [OF r(1)] by (simp add: table_simps)
  have close: "exhausted (lr_day rv) (lr_limit rv) (set_row (lr_day rv) (closed_at now s) ?rows d)"
    if "reached (lr_limit rv) s" for s
    using that by (intro exhausted_set_row [OF assms]) simp_all
  show ?thesis
  proof (cases "\<exists>q. valid_cost (JFloat (lb_spent r)) = Inr (Some q)")
    case True
    then obtain q where q: "valid_cost (JFloat (lb_spent r)) = Inr (Some q)" by blast
    with reached_spent [OF r(2) q] have "is_float q" "0 \<le> q" "lr_limit rv \<le> q" "reached (lr_limit rv) (Fin q)"
      by (auto simp: reached_def)
    with kept q l assms(1) show ?thesis
      by (auto simp: reserve_local_budget_sync_def grant_lease_def Let_def reached_max
          split: option.split intro!: close)
  next
    case False
    then consider e where "valid_cost (JFloat (lb_spent r)) = Inl e" | "valid_cost (JFloat (lb_spent r)) = Inr None"
      by (cases "valid_cost (JFloat (lb_spent r))") auto
    then show ?thesis
      by cases (use kept l in \<open>simp_all add: reserve_local_budget_sync_def Let_def close\<close>)
  qed
qed

lemma reserve_sync_other_day:
  assumes "exhausted day limit d" "prune_before \<le> day" "lr_day rv \<noteq> day"
  shows "exhausted day limit (snd (reserve_local_budget_sync sum_real rv now e prune_before d))"
proof -
  let ?rows = "sql_delete (\<lambda>r. lb_day r < prune_before) (bd_rows d)"
  have upd: "exhausted day limit (set_row (lr_day rv) f ?rows d)" if "\<And>r. lb_day (f r) = lb_day r" for f
    using that assms(3) by (intro exhausted_set_row [OF assms(1,2)]) simp_all
  have new: "exhausted day limit (set_row (lr_day rv) f (?rows @ [x]) d)"
    if f: "\<And>r. lb_day (f r) = lb_day r" and x: "lb_day x = lr_day rv"
      and none: "row_of lb_day ?rows (lr_day rv) = None" for f x
  proof -
    have "exhausted day limit (set_row (lr_day rv) (\<lambda>r. r) ?rows d)" by (rule upd) simp
    then obtain r where r: "row_of lb_day ?rows day = Some r" "reached limit (lb_spent r)"
      and k: "keyed lb_day ?rows" "is_float limit" "0 \<le> limit"
      using assms(3) by (auto simp: exhausted_def set_row_def sql_update_def)
    have "keyed lb_day (?rows @ [x])"
      using k(1) x none by (auto simp: keyed_def row_of_None)
    with r k(2,3) f assms(3) row_of_Some [OF r(1)] show ?thesis
      by (auto simp: exhausted_def row_of_set_row keyed_set_row row_of_append)
  qed
  have grant: "exhausted day limit (snd (grant_lease now e rv q lease ?rows d))" for q lease
    using assms(1) by (auto simp: grant_lease_def intro!: upd split: option.split)
  have grant_new: "exhausted day limit (snd (grant_lease now e rv q None (?rows @ [x]) d))"
    if "lb_day x = lr_day rv" "row_of lb_day ?rows (lr_day rv) = None" for q x
    using assms(1) that by (auto simp: grant_lease_def intro!: new)
  show ?thesis
  proof (cases "row_of lb_day ?rows (lr_day rv)")
    case None
    then show ?thesis using assms(1)
      by (auto simp: reserve_local_budget_sync_def Let_def intro!: grant_new split: option.split sum.split)
  next
    case (Some row)
    then show ?thesis
      by (auto simp: reserve_local_budget_sync_def Let_def intro!: grant upd split: option.split sum.split)
  qed
qed

lemma budget_exec_exhausted:
  assumes "exhausted day limit d" "load_local_daily_budget env = Inr (Some limit)" "regular day limit x"
  shows "exhausted day limit (budget_exec sum_real env x d)"
proof (cases x)
  case (OpReserve now token)
  with assms show ?thesis
    using reserve_sync_exhausted [of "\<lparr>lr_day = utc_day_of now, lr_token = token, lr_limit = limit\<rparr>" d
        "utc_day_of now - 8"]
      reserve_sync_other_day [OF assms(1), of "utc_day_of now - 8"
        "\<lparr>lr_day = utc_day_of now, lr_token = token, lr_limit = limit\<rparr>"]
    by (cases "utc_day_of now = day") (simp_all add: reserve_local_budget_def LOCAL_BUDGET_RETENTION_DAYS_def)
next
  case (OpSettle rv now result)
  with assms show ?thesis
    by (auto simp: settle_local_budget_def dest: valid_cost_nonneg intro!: settle_with_keeps
        split: sum.split option.split)
next
  case (OpSettleError rv now attempts)
  with assms show ?thesis
    by (auto simp: settle_local_budget_error_def dest: attempts_cost_nonneg intro!: settle_with_keeps
        split: sum.split option.split json.split list.split)
next
  case (OpRelease rv now)
  with assms show ?thesis by (auto simp: release_local_budget_def intro!: settle_with_keeps)
qed

interpretation spent_day: transactions "budget_exec sum_real env"
  "\<lambda>x d. load_local_daily_budget env = Inr (Some limit) \<and> regular day limit x" "exhausted day limit"
  by unfold_locales (auto intro: budget_exec_exhausted)

subsection \<open>Properties\<close>

definition sample_row :: local_row where
  "sample_row = \<lparr>lb_day = 0, lb_spent = Fin 0, lb_lease_token = Some ''t1'', lb_lease_expires_at = Some (seconds 900),
     lb_updated_at = 0\<rparr>"

definition sample_budget :: budget_db where
  "sample_budget = \<lparr>bd_rows = [sample_row], bd_telemetry = []\<rparr>"

text \<open>One metered operation at a time: while the day's lease has not expired, a reservation on that
  day is refused and the ledger is left exactly as it was.\<close>

theorem live_local_lease_excludes:
  assumes "keyed lb_day (bd_rows d)" "row_of lb_day (bd_rows d) (lr_day rv) = Some r"
    and "lb_spent r = Fin q" "0 \<le> q" "lb_lease_token r = Some t" "t \<noteq> []"
    and "lb_lease_expires_at r = Some e" "now < e" "prune_before \<le> lr_day rv"
  shows "\<exists>why. reserve_local_budget_sync sum_real rv now lease_expires prune_before d =
    (Inl (CallerBudgetUnavailable why), d)"
proof -
  have "row_of lb_day (sql_delete (\<lambda>r. lb_day r < prune_before) (bd_rows d)) (lr_day rv) = Some r"
    using assms row_of_Some [OF assms(2)] by (simp add: table_simps)
  with assms show ?thesis by (simp add: reserve_local_budget_sync_def grant_lease_def Let_def)
qed

theorem live_local_lease_excludes_witness:
  "\<exists>why. reserve_local_budget_sync (\<lambda>_. Fin 0) \<lparr>lr_day = 0, lr_token = ''t2'', lr_limit = 5\<rparr> 7 (seconds 907) (- 8)
     sample_budget = (Inl (CallerBudgetUnavailable why), sample_budget)"
  by (rule live_local_lease_excludes [where r = sample_row and q = 0 and t = "''t1''" and e = "seconds 900"])
    (simp_all add: sample_budget_def sample_row_def seconds_def)

text \<open>The configured limit is a float.\<close>

lemma configured_limit:
  "load_local_daily_budget env = Inr (Some limit) \<Longrightarrow> is_float limit \<and> 0 \<le> limit"
  by (auto simp: load_local_daily_budget_def float_of_text_def Let_def dest: float_of_is_float
      split: if_splits option.splits pyfloat.splits prod.splits)

text \<open>An operation that never settles costs the whole day: once its lease has expired the next
  reservation is refused, charges the day up to the limit, and from then on no reservation on that day
  succeeds, whatever settlements, releases and reservations follow within the retention window.\<close>

theorem unsettled_lease_exhausts_day:
  assumes "keyed lb_day (bd_rows d)" "row_of lb_day (bd_rows d) (utc_day_of now) = Some r"
    and "lb_spent r = Fin q" "0 \<le> q" "is_float q" "lb_lease_token r = Some t" "t \<noteq> []"
    and "lb_lease_expires_at r = Some e" "e \<le> now"
    and "load_local_daily_budget env = Inr (Some limit)"
    and "list_all (regular (utc_day_of now) limit) xs" "utc_day_of now' = utc_day_of now"
  shows "isl (fst (reserve_local_budget sum_real False env now' token'
    (fold (budget_exec sum_real env) xs (budget_exec sum_real env (OpReserve now token) d))))"
proof -
  note limit = configured_limit [OF assms(10)]
  let ?day = "utc_day_of now" and ?d = "budget_exec sum_real env (OpReserve now token) d"
  have "row_of lb_day (sql_delete (\<lambda>r. lb_day r < ?day - 8) (bd_rows d)) ?day = Some r"
    using assms(1,2) row_of_Some [OF assms(2)] by (simp add: table_simps)
  moreover have "keyed lb_day (sql_delete (\<lambda>r. lb_day r < ?day - 8) (bd_rows d))"
    using assms(1) by (rule keyed_delete)
  ultimately have "exhausted ?day limit ?d"
    using assms limit row_of_Some [OF assms(2)]
    by (auto simp: reserve_local_budget_def reserve_local_budget_sync_def grant_lease_def Let_def
        LOCAL_BUDGET_RETENTION_DAYS_def exhausted_def row_of_set_row keyed_set_row reached_max)
  then have "exhausted ?day limit (fold (budget_exec sum_real env) xs ?d)"
    using assms(10,11) by (intro spent_day.run_keeps) (simp_all add: along_list_all)
  then show ?thesis
    using reserve_sync_exhausted [of "\<lparr>lr_day = utc_day_of now', lr_token = token', lr_limit = limit\<rparr>"
        "fold (budget_exec sum_real env) xs ?d" "?day - 8"] assms(10,12)
    by (simp add: reserve_local_budget_def LOCAL_BUDGET_RETENTION_DAYS_def isl_map_sum)
qed

lemma sample_limit: "load_local_daily_budget ''5'' = Inr (Some 5)"
proof -
  have "str_strip ''5'' = ''5''" "str_lower ''5'' = ''5''" "re_fullmatch float_literal ''5''" "literal_value ''5'' = 5"
    by code_simp+
  then show ?thesis by (simp add: load_local_daily_budget_def float_of_text_def float_of_numeral)
qed

theorem unsettled_lease_exhausts_day_witness:
  "isl (fst (reserve_local_budget (\<lambda>_. Fin 0) False ''5'' (seconds 2000) ''t3''
    (fold (budget_exec (\<lambda>_. Fin 0) ''5'') [] (budget_exec (\<lambda>_. Fin 0) ''5'' (OpReserve (seconds 1000) ''t2'') sample_budget))))"
  using sample_limit
  by (intro unsettled_lease_exhausts_day [where r = sample_row and q = 0 and t = "''t1''" and e = "seconds 900" and limit = 5])
    (simp_all add: sample_budget_def sample_row_def seconds_def utc_day_of_def day_micros_def)

end
