(* ===== verification/Job_Store.thy ===== *)
theory Job_Store
  imports Mission_Fencing
begin

text \<open>
  The agent-job and autonomy-job part of \<open>PublicStateStore\<close> (\<open>state.py\<close>). A \<open>payload\<close> column that does
  not hold a JSON object reads as \<open>None\<close>, which is what every reader of the column makes of it.
\<close>

subsection \<open>Durable payloads\<close>

definition is_str :: "json \<Rightarrow> string \<Rightarrow> bool" where
  "is_str v s \<longleftrightarrow> v = JStr s"

text \<open>\<open>bounded_redacted_text(value)\<close> first makes a string of its argument; \<open>text_of\<close> is \<open>str(value or "")\<close>.\<close>

definition durable_fields :: "string list" where
  "durable_fields = [''text'', ''proposed_text'', ''status_text'', ''review'']"

fun bound_field :: "(json \<Rightarrow> string) \<Rightarrow> string \<Rightarrow> doc \<Rightarrow> doc" where
  "bound_field text_of k [] = []"
| "bound_field text_of k ((k', v) # kvs) =
     (if k' = k then (k', JStr (bounded_redacted_text DURABLE_TEXT_MAX_BYTES (text_of v))) # kvs
      else (k', v) # bound_field text_of k kvs)"

definition durable_agent_payload :: "(json \<Rightarrow> string) \<Rightarrow> doc \<Rightarrow> doc" where
  "durable_agent_payload text_of payload =
    (let safe = redact_dict payload;
         mission = dget safe ''mission''; autonomy = dget safe ''autonomy'';
         mission_payload = (is_obj mission \<and> dget (obj_of mission) ''protocol'' = JStr ''unigrok_mission_v2'');
         legacy_continue = (dget safe ''status'' = JStr ''continue'' \<and> is_obj autonomy
           \<and> dget (obj_of autonomy) ''protocol'' = JStr ''unigrok_continue_v1'')
     in if mission_payload \<or> legacy_continue then fold (bound_field text_of) durable_fields safe else safe)"

subsection \<open>Agent jobs\<close>

text \<open>\<open>str(owner or "")[:160] or None\<close>.\<close>

definition owner_arg :: "string option \<Rightarrow> string option" where
  "owner_arg owner = (case owner of None \<Rightarrow> None | Some s \<Rightarrow> if s = [] then None else Some (take 160 s))"

text \<open>\<open>INSERT ... ON CONFLICT(job_id) DO UPDATE\<close>; \<open>own\<close> is what the update makes of the stored owner.\<close>

definition upsert_agent_job ::
  "instant \<Rightarrow> string \<Rightarrow> string \<Rightarrow> doc option \<Rightarrow> string option \<Rightarrow> (string option \<Rightarrow> string option) \<Rightarrow>
   agent_job_row list \<Rightarrow> agent_job_row list" where
  "upsert_agent_job now job status payload owner own t =
    (if row_of j_job_id t job = None
     then t @ [\<lparr>j_job_id = job, j_created_at = now, j_status = status, j_payload = payload, j_owner = owner\<rparr>]
     else sql_update (\<lambda>r. j_job_id r = job)
       (\<lambda>r. r\<lparr>j_created_at := now, j_status := status, j_payload := payload, j_owner := own (j_owner r)\<rparr>) t)"

definition coalesce :: "'a option \<Rightarrow> 'a option \<Rightarrow> 'a option" where
  "coalesce a b = (case a of None \<Rightarrow> b | Some x \<Rightarrow> Some x)"

definition save_agent_job ::
  "(json \<Rightarrow> string) \<Rightarrow> int option \<Rightarrow> instant \<Rightarrow> instant \<Rightarrow> instant \<Rightarrow> string \<Rightarrow> string \<Rightarrow> doc option \<Rightarrow> string option \<Rightarrow>
   db \<Rightarrow> db" where
  "save_agent_job text_of hours now c1 c2 job status payload owner d =
    pruned hours c1 c2 (d\<lparr>agent_jobs := upsert_agent_job now job status
      (map_option (durable_agent_payload text_of) payload) (owner_arg owner)
      (\<lambda>old. coalesce old (owner_arg owner)) (agent_jobs d)\<rparr>)"

definition load_agent_job :: "string \<Rightarrow> string option \<Rightarrow> db \<Rightarrow> (string \<times> doc option) option" where
  "load_agent_job job owner d =
    (case owner_arg owner of
       Some o' \<Rightarrow> map_option (\<lambda>r. (j_status r, j_payload r))
         (sql_find (\<lambda>r. j_job_id r = job \<and> j_owner r = Some o') (agent_jobs d))
     | None \<Rightarrow> map_option (\<lambda>r. (j_status r, j_payload r)) (agent_job_at d job))"

definition mirror_matches :: "string \<Rightarrow> string \<Rightarrow> int \<Rightarrow> int \<Rightarrow> mission_row \<Rightarrow> bool" where
  "mirror_matches st job v gen r \<longleftrightarrow>
     status_value (m_status r) = st \<and> m_job_id r = job \<and> m_checkpoint_version r = v \<and> m_lease_generation r = gen"

definition mirror_mission_result ::
  "(json \<Rightarrow> string) \<Rightarrow> int option \<Rightarrow> instant \<Rightarrow> instant \<Rightarrow> instant \<Rightarrow> string \<Rightarrow> string \<Rightarrow> int \<Rightarrow> int \<Rightarrow> string \<Rightarrow> string \<Rightarrow>
   string \<Rightarrow> doc \<Rightarrow> db \<Rightarrow> bool \<times> db" where
  "mirror_mission_result text_of hours now c1 c2 mid st v gen job job_status autonomy_status payload d =
    (case mission_at d mid of
       None \<Rightarrow> (False, d)
     | Some r \<Rightarrow>
         if \<not> mirror_matches st job v gen r then (False, d)
         else (True, pruned hours c1 c2 (d\<lparr>
             agent_jobs := upsert_agent_job now job job_status
               (Some (durable_agent_payload text_of payload)) None id (agent_jobs d),
             autonomy_jobs := sql_update (\<lambda>a. a_job_id a = job)
               (\<lambda>a. a\<lparr>a_status := autonomy_status, a_updated_at := now\<rparr>) (autonomy_jobs d)\<rparr>)))"

text \<open>
  \<open>_merge_agent_job_enrichment_sync\<close>: the status of the job (\<open>None\<close> when there is none) and the row's
  new payload.
\<close>

definition set_review :: "doc \<Rightarrow> doc \<Rightarrow> doc" where
  "set_review enrichment payload =
    (if truthy (dget enrichment ''review_kind'') \<and> dget payload ''status'' = JStr ''complete''
     then AList.update ''review'' (dget payload ''text'') payload else payload)"

definition enriched_payload :: "string \<Rightarrow> doc \<Rightarrow> doc \<Rightarrow> doc" where
  "enriched_payload status enrichment payload =
    (let safe = redact_dict enrichment in
     if status \<in> {''complete'', ''error'', ''needs_continuation''}
     then set_review enrichment (dict_merge payload safe)
     else AList.update ''pending_enrichment''
       (JObj (dict_merge (obj_of (dget payload ''pending_enrichment'')) safe)) payload)"

definition merge_agent_job_enrichment :: "string \<Rightarrow> doc \<Rightarrow> db \<Rightarrow> string option \<times> db" where
  "merge_agent_job_enrichment job enrichment d =
    (case agent_job_at d job of
       None \<Rightarrow> (None, d)
     | Some r \<Rightarrow>
         let payload = enriched_payload (j_status r) enrichment (loads_or_empty (j_payload r)) in
         (Some (j_status r),
          d\<lparr>agent_jobs := sql_update (\<lambda>r. j_job_id r = job)
              (\<lambda>r. r\<lparr>j_payload := Some (redact_dict payload)\<rparr>) (agent_jobs d)\<rparr>))"

subsection \<open>Autonomy jobs\<close>

definition create_autonomy_job ::
  "int option \<Rightarrow> instant \<Rightarrow> instant \<Rightarrow> instant \<Rightarrow> string \<Rightarrow> string \<Rightarrow> string \<Rightarrow> string \<Rightarrow> doc option \<Rightarrow> db \<Rightarrow>
   db_error option \<times> db" where
  "create_autonomy_job hours now c1 c2 job acceptance_hash acceptance_text token request d =
    (let row = \<lparr>a_job_id = job, a_created_at = now, a_updated_at = now, a_status = ''running'',
           a_acceptance_hash = acceptance_hash,
           a_acceptance_text = take 20000 (str_strip (redact_secrets acceptance_text)),
           a_continue_token = token, a_claim_lease = None, a_claim_expires_at = None, a_ledger_cursor = 0,
           a_request = Some (redact_dict (loads_or_empty request))\<rparr>;
         event_id = autonomy_ledger_seq d + 1
     in if row_of a_continue_token (autonomy_jobs d) token \<noteq> None then (Some IntegrityError, d)
        else case sql_insert a_job_id row (autonomy_jobs d) of
            None \<Rightarrow> (Some IntegrityError, d)
          | Some t \<Rightarrow> (None, pruned hours c1 c2 (d\<lparr>autonomy_jobs := t,
               autonomy_ledger := autonomy_ledger d @
                 [\<lparr>ae_id = event_id, ae_job_id = job, ae_event_type = ''JobCreated'',
                   ae_payload = [(''acceptance_hash'', JStr acceptance_hash)], ae_created_at = now\<rparr>],
               autonomy_ledger_seq := event_id\<rparr>)))"

definition load_autonomy_by_token :: "string \<Rightarrow> db \<Rightarrow> py_error + autonomy_row option" where
  "load_autonomy_by_token continue_token d =
    (let token = str_lower (str_strip continue_token) in
     if \<not> hex_token token then Inl (ValueError ''continue_token must be a 32-character hex token'')
     else Inr (row_of a_continue_token (autonomy_jobs d) token))"

definition set_autonomy_status :: "instant \<Rightarrow> string \<Rightarrow> string \<Rightarrow> db \<Rightarrow> db" where
  "set_autonomy_status now job status d =
    d\<lparr>autonomy_jobs := sql_update (\<lambda>a. a_job_id a = job)
        (\<lambda>a. a\<lparr>a_status := status, a_updated_at := now\<rparr>) (autonomy_jobs d)\<rparr>"

text \<open>
  \<open>_claim_autonomy_sync\<close> reads the claim in one statement and writes it in another, without a
  transaction around them: the decision, the write, and the two run without interruption.
\<close>

definition autonomy_claimable :: "instant \<Rightarrow> string \<Rightarrow> autonomy_row \<Rightarrow> bool" where
  "autonomy_claimable now lease r \<longleftrightarrow>
     \<not> (\<exists>cur \<in> set_option (a_claim_lease r). cur \<noteq> [] \<and> cur \<noteq> lease
          \<and> (\<exists>e \<in> set_option (a_claim_expires_at r). e > now))"

definition claim_autonomy_read :: "instant \<Rightarrow> string \<Rightarrow> string \<Rightarrow> db \<Rightarrow> bool" where
  "claim_autonomy_read now job lease d =
    (case autonomy_at d job of None \<Rightarrow> False | Some r \<Rightarrow> autonomy_claimable now lease r)"

definition claim_autonomy_write :: "instant \<Rightarrow> instant \<Rightarrow> string \<Rightarrow> string \<Rightarrow> int \<Rightarrow> db \<Rightarrow> db" where
  "claim_autonomy_write now clock job lease ttl d =
    d\<lparr>autonomy_jobs := sql_update (\<lambda>a. a_job_id a = job)
        (\<lambda>a. a\<lparr>a_claim_lease := Some lease, a_claim_expires_at := Some (lease_expiry clock ttl),
               a_updated_at := now\<rparr>) (autonomy_jobs d)\<rparr>"

definition claim_autonomy :: "instant \<Rightarrow> instant \<Rightarrow> string \<Rightarrow> string \<Rightarrow> int \<Rightarrow> db \<Rightarrow> bool \<times> db" where
  "claim_autonomy now clock job lease ttl d =
    (if claim_autonomy_read now job lease d then (True, claim_autonomy_write now clock job lease ttl d)
     else (False, d))"

definition release_autonomy_claim :: "instant \<Rightarrow> string \<Rightarrow> string \<Rightarrow> db \<Rightarrow> db" where
  "release_autonomy_claim now job lease d =
    d\<lparr>autonomy_jobs := sql_update (\<lambda>a. a_job_id a = job \<and> a_claim_lease a = Some lease)
        (\<lambda>a. a\<lparr>a_claim_lease := None, a_claim_expires_at := None, a_updated_at := now\<rparr>) (autonomy_jobs d)\<rparr>"

definition append_autonomy_event :: "instant \<Rightarrow> string \<Rightarrow> string \<Rightarrow> doc \<Rightarrow> db \<Rightarrow> (db_error + int) \<times> db" where
  "append_autonomy_event now job event_type payload d =
    (if autonomy_at d job = None then (Inl IntegrityError, d)
     else let event_id = autonomy_ledger_seq d + 1 in
       (Inr event_id, d\<lparr>autonomy_ledger := autonomy_ledger d @
            [\<lparr>ae_id = event_id, ae_job_id = job, ae_event_type = event_type,
              ae_payload = redact_dict payload, ae_created_at = now\<rparr>],
          autonomy_ledger_seq := event_id,
          autonomy_jobs := sql_update (\<lambda>a. a_job_id a = job)
            (\<lambda>a. a\<lparr>a_ledger_cursor := event_id, a_updated_at := now\<rparr>) (autonomy_jobs d)\<rparr>))"

definition list_autonomy_events :: "string \<Rightarrow> int \<Rightarrow> int \<Rightarrow> db \<Rightarrow> autonomy_event_row list" where
  "list_autonomy_events job after_id limit d =
    take (nat (max 1 (min limit 200)))
      (sort_key ae_id (filter (\<lambda>e. ae_job_id e = job \<and> ae_id e > after_id) (autonomy_ledger d)))"

definition put_autonomy_artifact ::
  "int option \<Rightarrow> instant \<Rightarrow> instant \<Rightarrow> instant \<Rightarrow> string \<Rightarrow> string \<Rightarrow> string \<Rightarrow> string \<Rightarrow> db \<Rightarrow> db_error option \<times> db" where
  "put_autonomy_artifact hours now c1 c2 job digest kind content d =
    (case sql_insert aa_hash
         \<lparr>aa_hash = digest, aa_job_id = job, aa_kind = kind,
          aa_content = take 100000 (str_strip (redact_secrets content)), aa_created_at = now\<rparr> (autonomy_artifacts d) of
       None \<Rightarrow> (None, pruned hours c1 c2 d)
     | Some t \<Rightarrow>
         if autonomy_at d job = None then (Some IntegrityError, d)
         else (None, pruned hours c1 c2 (d\<lparr>autonomy_artifacts := t\<rparr>)))"

definition get_autonomy_artifact :: "string \<Rightarrow> db \<Rightarrow> autonomy_artifact_row option" where
  "get_autonomy_artifact digest d = row_of aa_hash (autonomy_artifacts d) digest"

subsection \<open>Executions\<close>

datatype job_op =
    SaveJob "json \<Rightarrow> string" "int option" instant instant instant string string "doc option" "string option"
  | MirrorMission "json \<Rightarrow> string" "int option" instant instant instant string string int int string string string doc
  | MergeEnrichment string doc
  | CreateAutonomy "int option" instant instant instant string string string string "doc option"
  | SetAutonomyStatus instant string string
  | ClaimAutonomy instant instant string string int
  | ReleaseAutonomy instant string string
  | AutonomyEvent instant string string doc
  | AutonomyArtifact "int option" instant instant instant string string string string

fun job_exec :: "job_op \<Rightarrow> db \<Rightarrow> db" where
  "job_exec (SaveJob tx h now c1 c2 job st p own) d = save_agent_job tx h now c1 c2 job st p own d"
| "job_exec (MirrorMission tx h now c1 c2 mid st v gen job js aus p) d =
     snd (mirror_mission_result tx h now c1 c2 mid st v gen job js aus p d)"
| "job_exec (MergeEnrichment job e) d = snd (merge_agent_job_enrichment job e d)"
| "job_exec (CreateAutonomy h now c1 c2 job hash tx tok req) d =
     snd (create_autonomy_job h now c1 c2 job hash tx tok req d)"
| "job_exec (SetAutonomyStatus now job st) d = set_autonomy_status now job st d"
| "job_exec (ClaimAutonomy now clock job lease ttl) d = snd (claim_autonomy now clock job lease ttl d)"
| "job_exec (ReleaseAutonomy now job lease) d = release_autonomy_claim now job lease d"
| "job_exec (AutonomyEvent now job ty p) d = snd (append_autonomy_event now job ty p d)"
| "job_exec (AutonomyArtifact h now c1 c2 job dg k c) d = snd (put_autonomy_artifact h now c1 c2 job dg k c d)"

lemma keyed_upsert: "keyed j_job_id t \<Longrightarrow> keyed j_job_id (upsert_agent_job now job st p own f t)"
  by (auto simp: upsert_agent_job_def row_of_None keyed_def map_sql_update)

lemma row_of_upsert:
  "row_of j_job_id (upsert_agent_job now job st p own f t) k =
    (if k \<noteq> job then row_of j_job_id t k
     else Some (case row_of j_job_id t job of
         None \<Rightarrow> \<lparr>j_job_id = job, j_created_at = now, j_status = st, j_payload = p, j_owner = own\<rparr>
       | Some r \<Rightarrow> r\<lparr>j_created_at := now, j_status := st, j_payload := p, j_owner := f (j_owner r)\<rparr>))"
proof (cases "row_of j_job_id t job")
  case None
  then show ?thesis by (auto simp: upsert_agent_job_def row_of_append split: option.split)
next
  case (Some r)
  have "row_of j_job_id (sql_update (\<lambda>r. j_job_id r = job)
      (\<lambda>r. r\<lparr>j_created_at := now, j_status := st, j_payload := p, j_owner := f (j_owner r)\<rparr>) t) k =
      map_option (\<lambda>r. if j_job_id r = job
        then r\<lparr>j_created_at := now, j_status := st, j_payload := p, j_owner := f (j_owner r)\<rparr> else r) (row_of j_job_id t k)"
    by (rule row_of_update) simp
  with Some row_of_Some [OF Some] show ?thesis
    by (cases "row_of j_job_id t k") (auto simp: upsert_agent_job_def dest: row_of_Some)
qed

text \<open>A row of \<open>agent_jobs\<close> after one operation: its owner is the owner it had, unless it had none.\<close>

lemma pruned_agent_row:
  "keyed j_job_id (agent_jobs d) \<Longrightarrow> agent_job_at (pruned h c1 c2 d) job = Some r \<Longrightarrow> agent_job_at d job = Some r"
  by (simp add: pruned_agent_jobs table_simps split: option.splits if_splits)

lemma job_exec_owner:
  assumes "keyed j_job_id (agent_jobs d)" "agent_job_at d job = Some r" "agent_job_at (job_exec x d) job = Some r'"
    and "j_owner r = Some own"
  shows "j_owner r' = Some own"
proof (cases x)
  case (SaveJob tx h now c1 c2 job' st p o')
  then show ?thesis
    using assms pruned_agent_row [of "d\<lparr>agent_jobs := _\<rparr>", OF _ assms(3) [unfolded SaveJob job_exec.simps save_agent_job_def]]
    by (auto simp: keyed_upsert row_of_upsert coalesce_def split: if_splits)
next
  case (MirrorMission tx h now c1 c2 mid st v gen job' js aus p)
  show ?thesis
  proof (cases "\<exists>m. mission_at d mid = Some m \<and> mirror_matches st job' v gen m")
    case True
    then obtain m where "mission_at d mid = Some m" "mirror_matches st job' v gen m" by blast
    with assms(3) MirrorMission have "agent_job_at (pruned h c1 c2 (d\<lparr>
        agent_jobs := upsert_agent_job now job' js (Some (durable_agent_payload tx p)) None id (agent_jobs d),
        autonomy_jobs := sql_update (\<lambda>a. a_job_id a = job')
          (\<lambda>a. a\<lparr>a_status := aus, a_updated_at := now\<rparr>) (autonomy_jobs d)\<rparr>)) job = Some r'"
      by (simp add: mirror_mission_result_def)
    from pruned_agent_row [OF _ this] assms show ?thesis
      by (auto simp: keyed_upsert row_of_upsert split: if_splits)
  next
    case False
    with assms MirrorMission show ?thesis by (auto simp: mirror_mission_result_def split: option.splits)
  qed
next
  case (MergeEnrichment job' e)
  with assms show ?thesis
    by (auto simp: merge_agent_job_enrichment_def Let_def table_simps split: option.splits)
next
  case (CreateAutonomy h now c1 c2 job' hash tx tok req)
  with assms show ?thesis
    by (auto simp: create_autonomy_job_def Let_def dest!: pruned_agent_row [rotated] split: option.splits if_splits)
next
  case (AutonomyArtifact h now c1 c2 job' dg k c)
  with assms show ?thesis
    by (auto simp: put_autonomy_artifact_def dest!: pruned_agent_row [rotated] split: option.splits if_splits)
qed (use assms in \<open>auto simp: set_autonomy_status_def claim_autonomy_def claim_autonomy_write_def
      release_autonomy_claim_def append_autonomy_event_def Let_def split: if_splits\<close>)

subsection \<open>Properties\<close>

definition sample_job :: agent_job_row where
  "sample_job = \<lparr>j_job_id = ''j1'', j_created_at = 0, j_status = ''complete'', j_payload = None, j_owner = Some ''alice''\<rparr>"

definition sample_autonomy :: autonomy_row where
  "sample_autonomy = \<lparr>a_job_id = ''j1'', a_created_at = 0, a_updated_at = 0, a_status = ''running'',
     a_acceptance_hash = ''h'', a_acceptance_text = ''t'', a_continue_token = ''c'', a_claim_lease = None,
     a_claim_expires_at = None, a_ledger_cursor = 0, a_request = None\<rparr>"

definition sample_jobs_db :: db where
  "sample_jobs_db = sample_db\<lparr>agent_jobs := [sample_job], autonomy_jobs := [sample_autonomy]\<rparr>"

text \<open>C25. A job that has an owner keeps it: no operation on jobs changes the owner of a stored job, so a
  reader who presents another owner finds nothing, before and after any such operation.\<close>

theorem job_owner_fixed:
  assumes "keyed j_job_id (agent_jobs d)" "agent_job_at d job = Some r" "j_owner r = Some own"
    and "agent_job_at (job_exec x d) job = Some r'" "owner_arg other = Some o'" "o' \<noteq> own"
    and "keyed j_job_id (agent_jobs (job_exec x d))"
  shows "j_owner r' = Some own \<and> load_agent_job job other d = None \<and> load_agent_job job other (job_exec x d) = None"
proof -
  have "j_owner r' = Some own" by (rule job_exec_owner [OF assms(1,2,4,3)])
  then show ?thesis
    using assms by (simp add: load_agent_job_def sql_find_key)
qed

theorem job_owner_fixed_witness:
  "load_agent_job ''j1'' (Some ''bob'') (job_exec (MergeEnrichment ''j1'' []) sample_jobs_db) = None"
proof -
  obtain r' where r': "agent_job_at (job_exec (MergeEnrichment ''j1'' []) sample_jobs_db) ''j1'' = Some r'"
    and k: "keyed j_job_id (agent_jobs (job_exec (MergeEnrichment ''j1'' []) sample_jobs_db))"
    by (simp add: merge_agent_job_enrichment_def sample_jobs_db_def sample_job_def Let_def sql_update_def)
  show ?thesis
    using job_owner_fixed [OF _ _ _ r' _ _ k, of sample_job "''alice''" "Some ''bob''" "''bob''"]
    by (simp add: sample_jobs_db_def sample_job_def owner_arg_def)
qed

text \<open>A mission result is mirrored into the job tables only by the current worker: once the fence of
  the mission has moved past the generation a worker holds, the worker's mirror is refused and changes
  nothing, after any operations of other workers.\<close>

theorem stale_mirror_refused:
  assumes "keyed m_mission_id (missions d)" "mission_at d mid = Some r" "gen < m_lease_generation r"
    and "list_all (\<lambda>x. \<not> creates mid x) ops"
  shows "mirror_mission_result text_of h now c1 c2 mid st v gen job js aus payload (run ops d) = (False, run ops d)"
proof (cases "mission_at (run ops d) mid")
  case None
  then show ?thesis by (simp add: mirror_mission_result_def)
next
  case (Some r')
  from run_row_evolves [OF assms(1,4,2) Some] have "m_lease_generation r \<le> m_lease_generation r'"
    by (simp add: row_evolves_def)
  with assms(3) Some show ?thesis by (simp add: mirror_mission_result_def mirror_matches_def)
qed

theorem stale_mirror_refused_witness:
  "mirror_mission_result (\<lambda>_. []) None 9 9 9 ''m1'' ''complete'' 0 0 ''j1'' ''complete'' ''committed'' []
     (run [Heartbeat 5 5 ''m1'' ''w1'' 1 60] sample_db) = (False, run [Heartbeat 5 5 ''m1'' ''w1'' 1 60] sample_db)"
  by (rule stale_mirror_refused [where r = sample_mission]) simp_all

text \<open>A claim of an autonomy job that runs without interruption is exclusive: it is granted when the
  job's claim is free, expired or the caller's own, is refused with no effect otherwise, and once granted
  refuses every other claim until it expires.\<close>

theorem autonomy_claim_exclusive:
  assumes "keyed a_job_id (autonomy_jobs d)" "autonomy_at d job = Some r" "lease \<noteq> []"
  shows "fst (claim_autonomy now clock job lease ttl d) = autonomy_claimable now lease r
    \<and> (\<not> autonomy_claimable now lease r \<longrightarrow> snd (claim_autonomy now clock job lease ttl d) = d)
    \<and> (autonomy_claimable now lease r \<and> other \<noteq> lease \<and> later < clock + seconds (max 5 ttl) \<longrightarrow>
        claim_autonomy later clock' job other ttl' (snd (claim_autonomy now clock job lease ttl d)) =
          (False, snd (claim_autonomy now clock job lease ttl d)))"
  using assms row_of_Some [OF assms(2)]
  by (auto simp: claim_autonomy_def claim_autonomy_read_def claim_autonomy_write_def table_simps
      autonomy_claimable_def lease_expiry_def)

theorem autonomy_claim_exclusive_witness:
  "fst (claim_autonomy 1 1 ''j1'' ''a'' 60 sample_jobs_db) = True"
  using autonomy_claim_exclusive [of sample_jobs_db "''j1''" sample_autonomy "''a''" 1 1 60]
  by (simp add: sample_jobs_db_def sample_autonomy_def autonomy_claimable_def)

text \<open>C26. Two processes that interleave their claims of an autonomy job can both be granted: the claim is
  decided on a read made before the write, and the write checks nothing, so the second overwrites the
  first and the first worker goes on without the lease.\<close>

theorem autonomy_claim_race:
  assumes "keyed a_job_id (autonomy_jobs d)" "autonomy_at d job = Some r"
    and "a_claim_lease r = None" "lease1 \<noteq> lease2"
  shows "claim_autonomy_read now1 job lease1 d \<and> claim_autonomy_read now2 job lease2 d
    \<and> map_option a_claim_lease (autonomy_at
        (claim_autonomy_write now2 clock2 job lease2 ttl2 (claim_autonomy_write now1 clock1 job lease1 ttl1 d)) job)
      = Some (Some lease2)"
  using assms row_of_Some [OF assms(2)]
  by (simp add: claim_autonomy_read_def claim_autonomy_write_def autonomy_claimable_def table_simps)

theorem autonomy_claim_race_witness:
  "claim_autonomy_read 1 ''j1'' ''a'' sample_jobs_db \<and> claim_autonomy_read 2 ''j1'' ''b'' sample_jobs_db"
  using autonomy_claim_race [of sample_jobs_db "''j1''" sample_autonomy "''a''" "''b''" 1 2]
  by (simp add: sample_jobs_db_def sample_autonomy_def)

end
