(* ===== verification/Store_Invariants.thy ===== *)
theory Store_Invariants
  imports Job_Store
begin

text \<open>
  What holds of the database after any operations of the mission and job store, from the empty
  database on: the references between tables, the numbering of the ledgers, and the masking of
  secret-named members in every stored JSON document.
\<close>

datatype store_op = MissionOp mission_op | JobOp job_op

fun store_exec :: "store_op \<Rightarrow> db \<Rightarrow> db" where
  "store_exec (MissionOp x) d = exec x d"
| "store_exec (JobOp x) d = job_exec x d"

subsection \<open>References and ledgers\<close>

definition mission_ids :: "db \<Rightarrow> string set" where
  "mission_ids d = m_mission_id ` set (missions d)"

definition autonomy_ids :: "db \<Rightarrow> string set" where
  "autonomy_ids d = a_job_id ` set (autonomy_jobs d)"

definition references_ok :: "db \<Rightarrow> bool" where
  "references_ok d \<longleftrightarrow>
     me_mission_id ` set (mission_ledger d) \<subseteq> mission_ids d
     \<and> ma_mission_id ` set (mission_artifacts d) \<subseteq> mission_ids d
     \<and> ev_mission_id ` set (mission_evidence d) \<subseteq> mission_ids d
     \<and> se_mission_id ` set (mission_side_effects d) \<subseteq> mission_ids d
     \<and> ae_job_id ` set (autonomy_ledger d) \<subseteq> autonomy_ids d
     \<and> aa_job_id ` set (autonomy_artifacts d) \<subseteq> autonomy_ids d"

text \<open>The ids of an \<open>AUTOINCREMENT\<close> table: increasing in the order of insertion, none beyond the last given out.\<close>

definition numbered :: "('r \<Rightarrow> int) \<Rightarrow> int \<Rightarrow> 'r list \<Rightarrow> bool" where
  "numbered ident n t \<longleftrightarrow> sorted_wrt (<) (map ident t) \<and> (\<forall>r \<in> set t. ident r \<le> n)"

definition ledgers_ok :: "db \<Rightarrow> bool" where
  "ledgers_ok d \<longleftrightarrow>
     numbered me_id (mission_ledger_seq d) (mission_ledger d)
     \<and> numbered ev_id (mission_evidence_seq d) (mission_evidence d)
     \<and> numbered ae_id (autonomy_ledger_seq d) (autonomy_ledger d)"

definition structure_ok :: "db \<Rightarrow> bool" where
  "structure_ok d \<longleftrightarrow> references_ok d \<and> ledgers_ok d"

lemma numbered_Nil [simp]: "numbered ident n []"
  by (simp add: numbered_def)

lemma numbered_append: "numbered ident n t \<Longrightarrow> ident r = n + 1 \<Longrightarrow> numbered ident (n + 1) (t @ [r])"
  by (force simp: numbered_def sorted_wrt_append)

lemma numbered_delete: "numbered ident n t \<Longrightarrow> numbered ident n (sql_delete P t)"
  by (auto simp: numbered_def sql_delete_def sorted_wrt_filter sorted_wrt_map)

lemma key_image_update: "(\<And>r. P r \<Longrightarrow> key (f r) = key r) \<Longrightarrow> key ` set (sql_update P f t) = key ` set t"
  unfolding set_sql_update image_image by (rule image_cong) auto

lemma present_id: "mission_at d mid \<noteq> None \<Longrightarrow> mid \<in> mission_ids d"
  by (auto simp: row_of_None mission_ids_def)

lemma present_job: "autonomy_at d job \<noteq> None \<Longrightarrow> job \<in> autonomy_ids d"
  by (auto simp: row_of_None autonomy_ids_def)

text \<open>An operation that keeps the ids and the child tables.\<close>

definition same_structure :: "db \<Rightarrow> db \<Rightarrow> bool" where
  "same_structure d d' \<longleftrightarrow>
     mission_ids d \<subseteq> mission_ids d' \<and> autonomy_ids d \<subseteq> autonomy_ids d'
     \<and> mission_ledger d' = mission_ledger d \<and> mission_ledger_seq d' = mission_ledger_seq d
     \<and> mission_artifacts d' = mission_artifacts d
     \<and> mission_evidence d' = mission_evidence d \<and> mission_evidence_seq d' = mission_evidence_seq d
     \<and> mission_side_effects d' = mission_side_effects d
     \<and> autonomy_ledger d' = autonomy_ledger d \<and> autonomy_ledger_seq d' = autonomy_ledger_seq d
     \<and> autonomy_artifacts d' = autonomy_artifacts d"

lemma same_structure_ok: "same_structure d d' \<Longrightarrow> structure_ok d \<Longrightarrow> structure_ok d'"
  unfolding same_structure_def structure_ok_def references_ok_def ledgers_ok_def by auto

lemma same_structure_refl [simp]: "same_structure d d"
  by (simp add: same_structure_def)

lemma kept_children:
  "key ` set t \<subseteq> ids ` set u \<Longrightarrow>
   key ` set (sql_delete (\<lambda>e. key e \<in> ids ` set (filter P u)) t) \<subseteq> ids ` set (sql_delete P u)"
  by (auto simp: set_sql_delete)

lemma pruned_structure: "structure_ok d \<Longrightarrow> structure_ok (pruned h c1 c2 d)"
  unfolding structure_ok_def references_ok_def ledgers_ok_def mission_ids_def autonomy_ids_def
  by (simp add: prune_defs kept_children numbered_delete del: set_filter)

lemma pruned_structure_of: "same_structure d d' \<Longrightarrow> structure_ok d \<Longrightarrow> structure_ok (pruned h c1 c2 d')"
  by (rule pruned_structure, rule same_structure_ok)

lemma exec_structure: "structure_ok d \<Longrightarrow> structure_ok (exec x d)"
proof (cases x)
  case (Create h now c1 c2 a)
  have "same_structure d (d\<lparr>missions := t\<rparr>)" if "insert_mission r (missions d) = Some t" for r t
    using that by (auto simp: same_structure_def mission_ids_def autonomy_ids_def insert_mission_def
        dest: set_sql_insert split: if_splits)
  then show "structure_ok d \<Longrightarrow> ?thesis"
    using Create by (auto simp: create_mission_def intro: pruned_structure_of split: option.splits)
next
  case (Claim now clock mid tok ttl expect)
  show "structure_ok d \<Longrightarrow> ?thesis"
    by (erule same_structure_ok [rotated])
      (simp add: Claim same_structure_def claim_mission_def Let_def mission_ids_def autonomy_ids_def
        key_image_update split: option.split)
next
  case (Heartbeat now clock mid tok gen ttl)
  show "structure_ok d \<Longrightarrow> ?thesis"
    by (erule same_structure_ok [rotated])
      (simp add: Heartbeat same_structure_def heartbeat_mission_def Let_def mission_ids_def autonomy_ids_def
        key_image_update)
next
  case (Cas now a)
  show "structure_ok d \<Longrightarrow> ?thesis"
    by (erule same_structure_ok [rotated])
      (simp add: Cas same_structure_def cas_mission_status_def cas_update_def settle_autonomy_def Let_def
        mission_ids_def autonomy_ids_def key_image_update split: option.split)
next
  case (Touch now mid v tok gen)
  show "structure_ok d \<Longrightarrow> ?thesis"
    by (erule same_structure_ok [rotated])
      (simp add: Touch same_structure_def touch_mission_envelope_def Let_def mission_ids_def autonomy_ids_def
        key_image_update split: option.split)
next
  case (Event now mid ty p tok gen)
  then show "structure_ok d \<Longrightarrow> ?thesis"
    by (auto simp: append_mission_event_def structure_ok_def references_ok_def ledgers_ok_def Let_def
        mission_ids_def autonomy_ids_def key_image_update numbered_append row_of_None)
next
  case (Artifact now mid dg k s p tok gen)
  then show "structure_ok d \<Longrightarrow> ?thesis"
    by (auto simp: put_mission_artifact_def structure_ok_def references_ok_def ledgers_ok_def
        mission_ids_def autonomy_ids_def row_of_None sql_insert_def split: option.split if_splits)
next
  case (Evidence now mid k dg p refs gen tok)
  then show "structure_ok d \<Longrightarrow> ?thesis"
    by (auto simp: append_mission_evidence_def structure_ok_def references_ok_def ledgers_ok_def Let_def
        mission_ids_def autonomy_ids_def numbered_append dest: row_of_Some split: option.split)
next
  case (SideEffect now q mid rc gen)
  then show "structure_ok d \<Longrightarrow> ?thesis"
    by (auto simp: put_mission_side_effect_def structure_ok_def references_ok_def ledgers_ok_def
        mission_ids_def autonomy_ids_def sql_insert_def dest: row_of_Some split: option.split if_splits)
next
  case (Requeue now mid st v gen e)
  show "structure_ok d \<Longrightarrow> ?thesis"
    by (erule same_structure_ok [rotated])
      (simp add: Requeue same_structure_def requeue_expired_mission_def Let_def mission_ids_def autonomy_ids_def
        key_image_update)
next
  case (Prune h c1 c2)
  then show "structure_ok d \<Longrightarrow> ?thesis" by (simp add: pruned_structure)
qed

lemma job_exec_structure: "structure_ok d \<Longrightarrow> structure_ok (job_exec x d)"
proof (cases x)
  case (SaveJob tx h now c1 c2 job st p own)
  then show "structure_ok d \<Longrightarrow> ?thesis"
    by (auto simp: save_agent_job_def same_structure_def mission_ids_def autonomy_ids_def intro!: pruned_structure_of)
next
  case (MirrorMission tx h now c1 c2 mid st v gen job js aus p)
  then show "structure_ok d \<Longrightarrow> ?thesis"
    by (auto simp: mirror_mission_result_def same_structure_def mission_ids_def autonomy_ids_def key_image_update
        intro!: pruned_structure_of split: option.split)
next
  case (MergeEnrichment job e)
  show "structure_ok d \<Longrightarrow> ?thesis"
    by (erule same_structure_ok [rotated])
      (simp add: MergeEnrichment same_structure_def merge_agent_job_enrichment_def Let_def mission_ids_def
        autonomy_ids_def split: option.split)
next
  case (CreateAutonomy h now c1 c2 job hash tx tok req)
  have "structure_ok (d\<lparr>autonomy_jobs := t, autonomy_ledger := autonomy_ledger d @ [e],
      autonomy_ledger_seq := autonomy_ledger_seq d + 1\<rparr>)"
    if "structure_ok d" "sql_insert a_job_id r (autonomy_jobs d) = Some t" "ae_job_id e = a_job_id r"
      "ae_id e = autonomy_ledger_seq d + 1" for r t e
    using that by (auto simp: structure_ok_def references_ok_def ledgers_ok_def mission_ids_def autonomy_ids_def
        sql_insert_def numbered_append split: if_splits)
  then show "structure_ok d \<Longrightarrow> ?thesis"
    using CreateAutonomy
    by (auto simp: create_autonomy_job_def Let_def intro!: pruned_structure split: option.split)
next
  case (SetAutonomyStatus now job st)
  show "structure_ok d \<Longrightarrow> ?thesis"
    by (erule same_structure_ok [rotated])
      (simp add: SetAutonomyStatus same_structure_def set_autonomy_status_def mission_ids_def autonomy_ids_def
        key_image_update)
next
  case (ClaimAutonomy now clock job lease ttl)
  show "structure_ok d \<Longrightarrow> ?thesis"
    by (erule same_structure_ok [rotated])
      (simp add: ClaimAutonomy same_structure_def claim_autonomy_def claim_autonomy_write_def mission_ids_def
        autonomy_ids_def key_image_update)
next
  case (ReleaseAutonomy now job lease)
  show "structure_ok d \<Longrightarrow> ?thesis"
    by (erule same_structure_ok [rotated])
      (simp add: ReleaseAutonomy same_structure_def release_autonomy_claim_def mission_ids_def autonomy_ids_def
        key_image_update)
next
  case (AutonomyEvent now job ty p)
  then show "structure_ok d \<Longrightarrow> ?thesis"
    by (auto simp: append_autonomy_event_def structure_ok_def references_ok_def ledgers_ok_def Let_def
        mission_ids_def autonomy_ids_def key_image_update numbered_append row_of_None)
next
  case (AutonomyArtifact h now c1 c2 job dg k c)
  have "structure_ok (d\<lparr>autonomy_artifacts := t\<rparr>)"
    if "structure_ok d" "sql_insert aa_hash a (autonomy_artifacts d) = Some t" "aa_job_id a = job"
      "autonomy_at d job \<noteq> None" for a t
    using that by (auto simp: structure_ok_def references_ok_def ledgers_ok_def mission_ids_def autonomy_ids_def
        sql_insert_def row_of_None image_subset_iff split: if_splits)
  then show "structure_ok d \<Longrightarrow> ?thesis"
    using AutonomyArtifact by (auto simp: put_autonomy_artifact_def intro!: pruned_structure split: option.split)
qed

interpretation store_structure: transactions store_exec "\<lambda>x s. True" structure_ok
  by unfold_locales (metis exec_structure job_exec_structure store_exec.simps store_op.exhaust)

lemma along_always [simp]: "along step (\<lambda>x s. True) xs s"
  by (induction xs arbitrary: s) auto

subsection \<open>The ledger cursor\<close>

definition last_event :: "string \<Rightarrow> mission_event_row list \<Rightarrow> int" where
  "last_event mid t = (case rev (filter (\<lambda>e. me_mission_id e = mid) t) of [] \<Rightarrow> 0 | e # _ \<Rightarrow> me_id e)"

definition cursors_ok :: "db \<Rightarrow> bool" where
  "cursors_ok d \<longleftrightarrow> (\<forall>r \<in> set (missions d). m_ledger_cursor r = last_event (m_mission_id r) (mission_ledger d))"

lemma cursors_update:
  assumes "cursors_ok d" "mission_ledger d' = mission_ledger d"
    and "missions d' = sql_update P f (missions d)"
    and "\<And>r. P r \<Longrightarrow> m_mission_id (f r) = m_mission_id r \<and> m_ledger_cursor (f r) = m_ledger_cursor r"
  shows "cursors_ok d'"
  using assms by (auto simp: cursors_ok_def set_sql_update)

lemma cursors_cong:
  "cursors_ok d \<Longrightarrow> missions d' = missions d \<Longrightarrow> mission_ledger d' = mission_ledger d \<Longrightarrow> cursors_ok d'"
  by (simp add: cursors_ok_def)

lemma last_event_delete:
  "mid \<notin> gone \<Longrightarrow> last_event mid (sql_delete (\<lambda>e. me_mission_id e \<in> gone) t) = last_event mid t"
proof -
  assume "mid \<notin> gone"
  then have "filter (\<lambda>e. me_mission_id e = mid) (sql_delete (\<lambda>e. me_mission_id e \<in> gone) t) =
      filter (\<lambda>e. me_mission_id e = mid) t"
    by (induction t) (auto simp: sql_delete_def)
  then show ?thesis by (simp add: last_event_def)
qed

lemma cursors_pruned:
  assumes "cursors_ok d" "keyed m_mission_id (missions d)"
  shows "cursors_ok (pruned h c1 c2 d)"
proof -
  let ?P = "prunable_mission (retention_cutoff h c1)"
  have "m_mission_id r \<notin> m_mission_id ` set (filter ?P (missions d))"
    if "r \<in> set (missions d)" "\<not> ?P r" for r
  proof
    assume "m_mission_id r \<in> m_mission_id ` set (filter ?P (missions d))"
    then obtain r' where "r' \<in> set (missions d)" "?P r'" "m_mission_id r' = m_mission_id r" by auto
    with that keyed_row_of [OF assms(2)] show False by (metis option.inject)
  qed
  with assms(1) show ?thesis
    by (simp add: cursors_ok_def frame_simps set_sql_delete last_event_delete del: set_filter)
qed

lemma last_event_append:
  "last_event mid (t @ [e]) = (if me_mission_id e = mid then me_id e else last_event mid t)"
  by (simp add: last_event_def)

lemma last_event_absent: "mid \<notin> me_mission_id ` set t \<Longrightarrow> last_event mid t = 0"
proof -
  assume "mid \<notin> me_mission_id ` set t"
  then have "filter (\<lambda>e. me_mission_id e = mid) t = []" by (auto simp: filter_empty_conv)
  then show ?thesis by (simp add: last_event_def)
qed

definition ledger_inv :: "db \<Rightarrow> bool" where
  "ledger_inv d \<longleftrightarrow> structure_ok d \<and> keyed m_mission_id (missions d) \<and> cursors_ok d"

lemma exec_cursors:
  assumes "ledger_inv d"
  shows "cursors_ok (exec x d)"
proof (cases x)
  case (Create h now c1 c2 a)
  show ?thesis
  proof (cases "insert_mission (created_row now a) (missions d)")
    case None
    with assms Create show ?thesis by (simp add: create_mission_def ledger_inv_def)
  next
    case (Some t)
    then have ins: "sql_insert m_mission_id (created_row now a) (missions d) = Some t"
      by (simp add: insert_mission_def split: if_splits)
    then have "cr_mission_id a \<notin> mission_ids d"
      by (auto simp: sql_insert_def row_of_None mission_ids_def created_row_def split: if_splits)
    then have "last_event (cr_mission_id a) (mission_ledger d) = 0"
      using assms by (intro last_event_absent) (auto simp: ledger_inv_def structure_ok_def references_ok_def)
    with assms ins have "cursors_ok (d\<lparr>missions := t\<rparr>)"
      by (auto simp: cursors_ok_def ledger_inv_def sql_insert_def created_row_def split: if_splits)
    moreover have "keyed m_mission_id t" using assms ins by (auto simp: ledger_inv_def)
    ultimately show ?thesis using Create Some by (simp add: create_mission_def cursors_pruned)
  qed
next
  case (Claim now clock mid tok ttl expect)
  have "cursors_ok (d\<lparr>missions := sql_update P (claimed_row now clock tok ttl expect) (missions d)\<rparr>)" for P
    by (rule cursors_update [where f = "claimed_row now clock tok ttl expect" and P = P])
      (use assms in \<open>simp_all add: ledger_inv_def claimed_row_def\<close>)
  with Claim assms show ?thesis
    by (simp add: claim_mission_def Let_def ledger_inv_def split: option.split)
next
  case (Heartbeat now clock mid tok gen ttl)
  then show ?thesis
    using assms by (auto simp: heartbeat_mission_def Let_def ledger_inv_def cursors_ok_def set_sql_update)
next
  case (Cas now a)
  have "cursors_ok (snd (cas_update now a row d))" for row
  proof (cases "parse_status (ca_new_status a)")
    case None
    with assms show ?thesis by (simp add: cas_update_def ledger_inv_def)
  next
    case (Some new)
    show ?thesis
      by (rule cursors_update [OF _ _ cas_update_missions [OF Some]])
        (use assms Some in \<open>auto simp: ledger_inv_def cas_update_def settle_autonomy_def cas_row_def Let_def\<close>)
  qed
  with assms Cas show ?thesis by (auto simp: cas_mission_status_def ledger_inv_def split: option.split)
next
  case (Touch now mid v tok gen)
  with assms show ?thesis
    by (auto simp: touch_mission_envelope_def Let_def ledger_inv_def cursors_ok_def set_sql_update split: option.split)
next
  case (Event now mid ty p tok gen)
  let ?n = "mission_ledger_seq d + 1"
  let ?e = "\<lparr>me_id = ?n, me_mission_id = mid, me_event_type = ty, me_payload = redact_dict p, me_created_at = now\<rparr>"
  let ?d = "d\<lparr>mission_ledger := mission_ledger d @ [?e], mission_ledger_seq := ?n,
      missions := sql_update (\<lambda>r. m_mission_id r = mid)
        (\<lambda>r. r\<lparr>m_ledger_cursor := ?n, m_updated_at := now\<rparr>) (missions d)\<rparr>"
  have old: "cursors_ok d" using assms by (simp add: ledger_inv_def)
  have "m_ledger_cursor r' = last_event (m_mission_id r') (mission_ledger ?d)" if r': "r' \<in> set (missions ?d)" for r'
  proof -
    obtain r where r: "r \<in> set (missions d)" "r' = (if m_mission_id r = mid
        then r\<lparr>m_ledger_cursor := ?n, m_updated_at := now\<rparr> else r)"
      using r' by (auto simp: set_sql_update)
    with old show ?thesis
      by (cases "m_mission_id r = mid") (simp_all add: cursors_ok_def last_event_append)
  qed
  then have "cursors_ok ?d" unfolding cursors_ok_def by blast
  moreover have "exec x d = d \<or> exec x d = ?d"
    by (simp add: Event append_mission_event_def Let_def)
  ultimately show ?thesis using old by auto
next
  case (Artifact now mid dg k s p tok gen)
  with assms show ?thesis
    by (auto simp: put_mission_artifact_def ledger_inv_def intro: cursors_cong split: option.split)
next
  case (Evidence now mid k dg p refs gen tok)
  with assms show ?thesis
    by (auto simp: append_mission_evidence_def Let_def ledger_inv_def intro: cursors_cong split: option.split)
next
  case (SideEffect now q mid rc gen)
  with assms show ?thesis
    by (auto simp: put_mission_side_effect_def ledger_inv_def intro: cursors_cong split: option.split)
next
  case (Requeue now mid st v gen e)
  with assms show ?thesis
    by (auto simp: requeue_expired_mission_def Let_def ledger_inv_def cursors_ok_def set_sql_update)
next
  case (Prune h c1 c2)
  with assms show ?thesis by (simp add: ledger_inv_def cursors_pruned)
qed

text \<open>Job operations touch missions and their ledger only through retention.\<close>

definition pruned_from :: "db \<Rightarrow> db \<Rightarrow> bool" where
  "pruned_from d e \<longleftrightarrow>
     (\<exists>h c1 c2 d'. e = pruned h c1 c2 d' \<and> missions d' = missions d \<and> mission_ledger d' = mission_ledger d)"

lemma pruned_fromI:
  "missions d' = missions d \<Longrightarrow> mission_ledger d' = mission_ledger d \<Longrightarrow> pruned_from d (pruned h c1 c2 d')"
  unfolding pruned_from_def by blast

lemma job_exec_missions:
  "(missions (job_exec x d) = missions d \<and> mission_ledger (job_exec x d) = mission_ledger d)
   \<or> pruned_from d (job_exec x d)"
proof (cases x)
  case (SaveJob tx h now c1 c2 job st p own)
  then show ?thesis by (simp add: save_agent_job_def pruned_fromI)
next
  case (MirrorMission tx h now c1 c2 mid st v gen job js aus p)
  then show ?thesis by (simp add: mirror_mission_result_def pruned_fromI split: option.split)
next
  case (CreateAutonomy h now c1 c2 job hash tx tok req)
  then show ?thesis by (simp add: create_autonomy_job_def Let_def pruned_fromI split: option.split)
next
  case (AutonomyArtifact h now c1 c2 job dg k c)
  then show ?thesis by (simp add: put_autonomy_artifact_def pruned_fromI split: option.split)
qed (simp_all add: merge_agent_job_enrichment_def set_autonomy_status_def claim_autonomy_def claim_autonomy_write_def
      release_autonomy_claim_def append_autonomy_event_def Let_def split: option.split)

lemma store_exec_ledger: "ledger_inv d \<Longrightarrow> ledger_inv (store_exec x d)"
proof (cases x)
  case (MissionOp m)
  then show "ledger_inv d \<Longrightarrow> ?thesis"
    using exec_cursors [of d m] exec_structure [of d m] exec_keyed [of d m] by (simp add: ledger_inv_def)
next
  case (JobOp j)
  assume inv: "ledger_inv d"
  have "cursors_ok (job_exec j d) \<and> keyed m_mission_id (missions (job_exec j d))"
    using job_exec_missions [of j d]
  proof
    assume "missions (job_exec j d) = missions d \<and> mission_ledger (job_exec j d) = mission_ledger d"
    with inv show ?thesis by (auto simp: ledger_inv_def intro: cursors_cong)
  next
    assume "pruned_from d (job_exec j d)"
    then obtain h c1 c2 d' where d': "job_exec j d = pruned h c1 c2 d'" "missions d' = missions d"
        "mission_ledger d' = mission_ledger d" unfolding pruned_from_def by blast
    with inv have "cursors_ok d'" "keyed m_mission_id (missions d')"
      by (auto simp: ledger_inv_def intro: cursors_cong)
    then show ?thesis by (simp add: d'(1) cursors_pruned frame_simps keyed_delete)
  qed
  with JobOp inv show ?thesis by (simp add: ledger_inv_def job_exec_structure)
qed

interpretation ledger: transactions store_exec "\<lambda>x s. True" ledger_inv
  by unfold_locales (rule store_exec_ledger)

lemma ledger_inv_empty: "ledger_inv empty_db"
  by (simp add: ledger_inv_def structure_ok_def references_ok_def ledgers_ok_def cursors_ok_def empty_db_def)

subsection \<open>Secrets at rest\<close>

definition secret_ok :: "string \<times> json \<Rightarrow> bool" where
  "secret_ok p \<longleftrightarrow> (fst p \<noteq> [] \<longrightarrow> secret_key (fst p) \<longrightarrow> masked (fst p) (snd p))"

definition masked_entry :: "string \<times> json \<Rightarrow> bool" where
  "masked_entry p \<longleftrightarrow> secret_ok p \<and> (\<forall>m \<in> set (members (snd p)). secret_ok m)"

definition masked_doc :: "doc \<Rightarrow> bool" where
  "masked_doc d \<longleftrightarrow> (\<forall>p \<in> set d. masked_entry p)"

lemma masked_doc_members: "masked_doc d \<longleftrightarrow> (\<forall>m \<in> set (members (JObj d)). secret_ok m)"
proof (induction d)
  case (Cons p d)
  have "members (JObj (p # d)) = p # members (snd p) @ members (JObj d)" by (cases p) simp
  with Cons show ?case by (simp add: masked_doc_def masked_entry_def ball_Un del: members.simps)
qed (simp add: masked_doc_def)

lemma masked_redact [simp]: "masked_doc (redact_dict d)"
proof -
  have "JObj (redact_dict d) = redact_json_value [] (JObj d)"
    by (simp add: redact_dict_def redact_json_value_Obj)
  moreover have "\<forall>m \<in> set (members (redact_json_value [] (JObj d))). secret_ok m"
    using redact_members_masked unfolding secret_ok_def by (metis prod.collapse)
  ultimately show ?thesis unfolding masked_doc_members by metis
qed

lemma set_AList_update: "p \<in> set (AList.update k v d) \<Longrightarrow> p = (k, v) \<or> p \<in> set d"
  by (induction d) (auto split: if_splits)

lemma masked_update: "masked_doc d \<Longrightarrow> masked_entry (k, v) \<Longrightarrow> masked_doc (AList.update k v d)"
  by (auto simp: masked_doc_def dest: set_AList_update)

lemma masked_merge: "masked_doc d \<Longrightarrow> masked_doc u \<Longrightarrow> masked_doc (dict_merge d u)"
  unfolding dict_merge_def
  by (induction u arbitrary: d) (auto simp: masked_doc_def dest!: set_AList_update)

lemma masked_Nil [simp]: "masked_doc []"
  by (simp add: masked_doc_def)

lemma plain_text: "\<not> secret_key ''text''" by code_simp
lemma plain_proposed_text: "\<not> secret_key ''proposed_text''" by code_simp
lemma plain_status_text: "\<not> secret_key ''status_text''" by code_simp
lemma plain_review: "\<not> secret_key ''review''" by code_simp
lemma plain_epoch: "\<not> secret_key ''epoch''" by code_simp
lemma plain_plan: "\<not> secret_key ''plan''" by code_simp
lemma plain_acceptance_hash: "\<not> secret_key ''acceptance_hash''" by code_simp
lemma plain_step_cursor: "\<not> secret_key ''step_cursor''" by code_simp

lemmas plain_keys = plain_text plain_proposed_text plain_status_text plain_review plain_epoch plain_plan plain_acceptance_hash plain_step_cursor

lemma masked_bound_field:
  "\<not> secret_key k \<Longrightarrow> masked_doc d \<Longrightarrow> masked_doc (bound_field text_of k d)"
proof (induction d)
  case (Cons p d)
  have "masked_entry (k, JStr t)" for t using Cons.prems(1) by (simp add: masked_entry_def secret_ok_def)
  with Cons show ?case by (cases p) (simp add: masked_doc_def)
qed simp

lemma masked_durable [simp]: "masked_doc (durable_agent_payload text_of p)"
  by (simp add: durable_agent_payload_def durable_fields_def Let_def masked_bound_field plain_keys)

lemma masked_initial [simp]: "masked_doc initial_checkpoint"
  by (simp add: initial_checkpoint_def masked_doc_def masked_entry_def secret_ok_def masked_def plain_keys)

definition table_masked :: "('r \<Rightarrow> doc option) \<Rightarrow> 'r list \<Rightarrow> bool" where
  "table_masked f t \<longleftrightarrow> (\<forall>r \<in> set t. \<forall>d. f r = Some d \<longrightarrow> masked_doc d)"

definition docs_masked :: "db \<Rightarrow> bool" where
  "docs_masked d \<longleftrightarrow>
     table_masked m_package (missions d) \<and> table_masked m_checkpoint (missions d)
     \<and> table_masked (\<lambda>e. Some (me_payload e)) (mission_ledger d)
     \<and> table_masked (\<lambda>e. Some (ev_payload e)) (mission_evidence d)
     \<and> table_masked (\<lambda>e. Some (se_receipt e)) (mission_side_effects d)
     \<and> table_masked j_payload (agent_jobs d)
     \<and> table_masked a_request (autonomy_jobs d)
     \<and> table_masked (\<lambda>e. Some (ae_payload e)) (autonomy_ledger d)"

lemma table_masked_keep: "table_masked f t \<Longrightarrow> (\<And>r. f (g r) = f r) \<Longrightarrow> table_masked f (sql_update P g t)"
  by (auto simp: table_masked_def set_sql_update)

lemma table_masked_set:
  "table_masked f t \<Longrightarrow> (\<And>r. r \<in> set t \<Longrightarrow> P r \<Longrightarrow> f (g r) = Some d \<and> masked_doc d) \<Longrightarrow>
   table_masked f (sql_update P g t)"
  by (auto simp: table_masked_def set_sql_update)

lemma table_masked_delete: "table_masked f t \<Longrightarrow> table_masked f (sql_delete P t)"
  by (auto simp: table_masked_def set_sql_delete)

lemma table_masked_append: "table_masked f (t @ [r]) \<longleftrightarrow> table_masked f t \<and> (\<forall>d. f r = Some d \<longrightarrow> masked_doc d)"
  by (auto simp: table_masked_def)

lemma table_masked_insert:
  "sql_insert key r t = Some t' \<Longrightarrow> table_masked f t' \<longleftrightarrow> table_masked f t \<and> (\<forall>d. f r = Some d \<longrightarrow> masked_doc d)"
  by (auto simp: sql_insert_def table_masked_append split: if_splits)

lemma masked_loads: "table_masked f t \<Longrightarrow> r \<in> set t \<Longrightarrow> masked_doc (loads_or_empty (f r))"
  by (auto simp: table_masked_def loads_or_empty_def split: option.split)

lemma docs_masked_pruned: "docs_masked d \<Longrightarrow> docs_masked (pruned h c1 c2 d)"
  by (simp add: docs_masked_def prune_defs table_masked_delete)

lemmas masked_intros = table_masked_keep table_masked_delete

lemma cas_checkpoint_masked: "masked_doc (loads_or_empty (m_checkpoint row)) \<Longrightarrow> masked_doc (cas_checkpoint a row)"
  by (auto simp: cas_checkpoint_def masked_merge split: option.split)

lemma exec_masked: "docs_masked d \<Longrightarrow> docs_masked (exec x d)"
proof (cases x)
  case (Create h now c1 c2 a)
  have "docs_masked (d\<lparr>missions := t\<rparr>)"
    if "docs_masked d" "insert_mission (created_row now a) (missions d) = Some t" for t
  proof -
    from that(2) have ins: "sql_insert m_mission_id (created_row now a) (missions d) = Some t"
      by (simp add: insert_mission_def split: if_splits)
    then show ?thesis
      using that(1) by (simp add: docs_masked_def table_masked_insert [OF ins] created_row_def)
  qed
  then show "docs_masked d \<Longrightarrow> ?thesis"
    using Create by (simp add: create_mission_def docs_masked_pruned split: option.split)
next
  case (Claim now clock mid tok ttl expect)
  then show "docs_masked d \<Longrightarrow> ?thesis"
    by (simp add: claim_mission_def Let_def docs_masked_def table_masked_keep claimed_row_def split: option.split)
next
  case (Heartbeat now clock mid tok gen ttl)
  then show "docs_masked d \<Longrightarrow> ?thesis"
    by (simp add: heartbeat_mission_def Let_def docs_masked_def table_masked_keep)
next
  case (Cas now a)
  assume d: "docs_masked d"
  show ?thesis
  proof (cases "cas_select a d")
    case None
    with d Cas show ?thesis by (simp add: cas_mission_status_def)
  next
    case (Some row)
    then have "row \<in> set (missions d)" using cas_select_Some [OF Some] row_of_Some by metis
    with d have "masked_doc (cas_checkpoint a row)"
      by (auto simp: docs_masked_def intro: cas_checkpoint_masked masked_loads)
    then have "table_masked m_checkpoint (sql_update (cas_where a) (cas_row now a new row) (missions d))" for new
      using d by (intro table_masked_set [where d = "cas_checkpoint a row"]) (auto simp: docs_masked_def cas_row_def Let_def)
    moreover have "table_masked m_package (sql_update (cas_where a) (cas_row now a new row) (missions d))" for new
      using d by (intro table_masked_keep) (auto simp: docs_masked_def cas_row_def Let_def)
    ultimately show ?thesis
      using d Cas Some
      by (simp add: cas_mission_status_def cas_update_def settle_autonomy_def docs_masked_def Let_def table_masked_keep
          split: option.split)
  qed
next
  case (Touch now mid v tok gen)
  assume d: "docs_masked d"
  have "table_masked m_package (sql_update P (\<lambda>r. r\<lparr>m_envelope_version := n, m_package := Some (redact_dict p),
      m_updated_at := now\<rparr>) (missions d))" for P n p
    using d by (intro table_masked_set [where d = "redact_dict p"]) (auto simp: docs_masked_def)
  with d Touch show ?thesis
    by (simp add: touch_mission_envelope_def Let_def docs_masked_def table_masked_keep split: option.split)
next
  case (Event now mid ty p tok gen)
  then show "docs_masked d \<Longrightarrow> ?thesis"
    by (simp add: append_mission_event_def Let_def docs_masked_def table_masked_keep table_masked_append)
next
  case (Artifact now mid dg k s p tok gen)
  then show "docs_masked d \<Longrightarrow> ?thesis"
    by (simp add: put_mission_artifact_def docs_masked_def split: option.split)
next
  case (Evidence now mid k dg p refs gen tok)
  then show "docs_masked d \<Longrightarrow> ?thesis"
    by (simp add: append_mission_evidence_def Let_def docs_masked_def table_masked_append split: option.split)
next
  case (SideEffect now q mid rc gen)
  then show "docs_masked d \<Longrightarrow> ?thesis"
    by (auto simp: put_mission_side_effect_def docs_masked_def table_masked_insert split: option.split)
next
  case (Requeue now mid st v gen e)
  then show "docs_masked d \<Longrightarrow> ?thesis"
    by (simp add: requeue_expired_mission_def Let_def docs_masked_def table_masked_keep)
next
  case (Prune h c1 c2)
  then show "docs_masked d \<Longrightarrow> ?thesis" by (simp add: docs_masked_pruned)
qed

lemma masked_upsert:
  "table_masked j_payload t \<Longrightarrow> (\<And>d. p = Some d \<Longrightarrow> masked_doc d) \<Longrightarrow>
   table_masked j_payload (upsert_agent_job now job st p own f t)"
  by (auto simp: upsert_agent_job_def table_masked_append) (auto simp: table_masked_def set_sql_update)

lemma docs_masked_agent_jobs:
  "docs_masked d \<Longrightarrow> table_masked j_payload t \<Longrightarrow> docs_masked (d\<lparr>agent_jobs := t\<rparr>)"
  by (simp add: docs_masked_def)

lemma docs_masked_autonomy_jobs:
  "docs_masked d \<Longrightarrow> table_masked a_request t \<Longrightarrow> docs_masked (d\<lparr>autonomy_jobs := t\<rparr>)"
  by (simp add: docs_masked_def)

lemma docs_masked_artifacts [simp]: "docs_masked (d\<lparr>autonomy_artifacts := t\<rparr>) = docs_masked d"
  by (simp add: docs_masked_def)

lemma docs_masked_tables:
  "docs_masked d \<Longrightarrow> table_masked j_payload (agent_jobs d)"
  "docs_masked d \<Longrightarrow> table_masked a_request (autonomy_jobs d)"
  by (simp_all add: docs_masked_def)

lemmas masked_rules = docs_masked_pruned docs_masked_agent_jobs docs_masked_autonomy_jobs docs_masked_tables
  masked_upsert table_masked_keep

lemma job_exec_masked: "docs_masked d \<Longrightarrow> docs_masked (job_exec x d)"
proof (cases x)
  case (SaveJob tx h now c1 c2 job st p own)
  then show "docs_masked d \<Longrightarrow> ?thesis"
    by (auto simp: save_agent_job_def intro!: masked_rules)
next
  case (MirrorMission tx h now c1 c2 mid st v gen job js aus p)
  then show "docs_masked d \<Longrightarrow> ?thesis"
    by (auto simp: mirror_mission_result_def intro!: masked_rules split: option.split)
next
  case (MergeEnrichment job e)
  have "docs_masked (d\<lparr>agent_jobs := sql_update P (\<lambda>r. r\<lparr>j_payload := Some (redact_dict q)\<rparr>) (agent_jobs d)\<rparr>)"
    if "docs_masked d" for P q
    using that table_masked_set [where f = j_payload and d = "redact_dict q" and t = "agent_jobs d" and P = P
        and g = "\<lambda>r. r\<lparr>j_payload := Some (redact_dict q)\<rparr>"]
    by (simp add: docs_masked_def)
  then show "docs_masked d \<Longrightarrow> ?thesis"
    by (simp add: MergeEnrichment merge_agent_job_enrichment_def Let_def split: option.split)
next
  case (CreateAutonomy h now c1 c2 job hash tx tok req)
  have "masked_doc [(''acceptance_hash'', JStr hash)]"
    by (simp add: masked_doc_def masked_entry_def secret_ok_def plain_acceptance_hash)
  then have "docs_masked (d\<lparr>autonomy_jobs := t, autonomy_ledger := autonomy_ledger d @ [e], autonomy_ledger_seq := n\<rparr>)"
    if "docs_masked d" "sql_insert a_job_id r (autonomy_jobs d) = Some t" "a_request r = Some (redact_dict q)"
      "ae_payload e = [(''acceptance_hash'', JStr hash)]" for r t e n q
    using that by (simp add: docs_masked_def table_masked_append table_masked_insert [OF that(2)])
  then show "docs_masked d \<Longrightarrow> ?thesis"
    by (auto simp: CreateAutonomy create_autonomy_job_def Let_def intro!: docs_masked_pruned split: option.split)
next
  case (SetAutonomyStatus now job st)
  then show "docs_masked d \<Longrightarrow> ?thesis" by (simp add: set_autonomy_status_def docs_masked_def table_masked_keep)
next
  case (ClaimAutonomy now clock job lease ttl)
  then show "docs_masked d \<Longrightarrow> ?thesis"
    by (simp add: claim_autonomy_def claim_autonomy_write_def docs_masked_def table_masked_keep)
next
  case (ReleaseAutonomy now job lease)
  then show "docs_masked d \<Longrightarrow> ?thesis" by (simp add: release_autonomy_claim_def docs_masked_def table_masked_keep)
next
  case (AutonomyEvent now job ty p)
  then show "docs_masked d \<Longrightarrow> ?thesis"
    by (simp add: append_autonomy_event_def Let_def docs_masked_def table_masked_keep table_masked_append)
next
  case (AutonomyArtifact h now c1 c2 job dg k c)
  then show "docs_masked d \<Longrightarrow> ?thesis"
    by (simp add: put_autonomy_artifact_def docs_masked_pruned split: option.split)
qed

interpretation store_secrets: transactions store_exec "\<lambda>x s. True" docs_masked
  by unfold_locales (metis exec_masked job_exec_masked store_exec.simps store_op.exhaust)

lemma docs_masked_empty: "docs_masked empty_db"
  by (simp add: docs_masked_def empty_db_def table_masked_def)

subsection \<open>Every run of the store\<close>

text \<open>C24. After any sequence of mission, agent-job and autonomy operations from the empty database,
  retention included, every ledger event, artifact, evidence record and side-effect receipt belongs to a
  mission (or autonomy job) that is stored, and each ledger's ids increase in insertion order and never
  repeat.\<close>
theorem store_references_hold: "structure_ok (fold store_exec ops empty_db)"
  using store_structure.run_keeps [of empty_db ops] ledger_inv_empty by (simp add: ledger_inv_def)

text \<open>After any such sequence, the ledger cursor of every stored mission is the id of the newest event
  of that mission in the ledger, and 0 when it has none: a reader that has consumed the ledger up to the
  cursor has missed nothing.\<close>
theorem ledger_cursor_newest:
  "cursors_ok (fold store_exec ops empty_db)"
  using ledger.run_keeps [of empty_db ops] ledger_inv_empty by (simp add: ledger_inv_def)

text \<open>C23. After any such sequence, every JSON document the store keeps (mission packages and checkpoints,
  ledger payloads, evidence, side-effect receipts, agent-job payloads, autonomy requests and events) holds,
  under each secret-named key at any depth, only null, the redaction marker, or a well-formed continue
  token: no operation writes a document that has not passed through redaction.\<close>
theorem secrets_masked_at_rest: "docs_masked (fold store_exec ops empty_db)"
  using store_secrets.run_keeps [of empty_db ops] docs_masked_empty by simp

end
