(* ===== verification/Task_Class.thy ===== *)
theory Task_Class
  imports Py_Text
begin

text \<open>
  \<open>mission/task_class.py\<close>: the class of a task, the verification mode frozen for a mission, and the
  literal token an acceptance asks for. A group of a pattern is numbered: 1 is \<open>exactly\<close>, 2 is
  \<open>tok\<close>. The two switches read from the environment are arguments (\<open>None\<close> for an unset variable).
\<close>

subsection \<open>Patterns\<close>

definition words_re :: "string list \<Rightarrow> re" where
  "words_re ws = alts (map lit_ci ws)"

definition spaces :: re where
  "spaces = plus space_re"

definition upto_chars :: "nat \<Rightarrow> re" where
  "upto_chars n = Rep n any_char"

definition whole_words :: "re list \<Rightarrow> re" where
  "whole_words rs = seqs [WordB, alts rs, WordB]"

definition quote_re :: re where
  "quote_re = one_of [CHR 0x22, CHR 0x27, CHR 0x60]"

definition EXACTLY_GAP :: re where
  "EXACTLY_GAP = seqs [lit_ci ''exactly'', Star space_re, Opt (lit '':''), spaces]"

definition tok_char :: re where
  "tok_char = Chr (\<lambda>c. is_alnum c \<or> c \<in> set ''_./+-'')"

definition framed_token :: re where
  "framed_token = seqs
     [Opt (seqs [lit_ci ''the'', spaces, words_re [''string'', ''token'', ''text'', ''word''], spaces]),
      Opt quote_re, Grp 2 (Seq (Chr is_alnum) (Rep 127 tok_char)), NotAhead tok_char, Opt quote_re]"

definition REPLY_WITH :: re where
  "REPLY_WITH = seqs
     [WordB, words_re [''reply'', ''respond'', ''answer''], spaces, lit_ci ''with'', spaces,
      Opt (Grp 1 EXACTLY_GAP), framed_token]"

definition RETURN_EXACTLY :: re where
  "RETURN_EXACTLY = seqs
     [WordB, words_re [''return'', ''output'', ''print'', ''say''], spaces, EXACTLY_GAP, framed_token]"

definition STRUCTURE :: re where
  "STRUCTURE = whole_words (map lit_ci
     [''checklist'', ''steps'', ''bullet'', ''evidence'', ''artifact'', ''diff'', ''patch''])"

definition hyphen_or_space :: re where
  "hyphen_or_space = one_of ''- ''"

definition ADVERSARIAL :: re where
  "ADVERSARIAL = whole_words
     [lit_ci ''adversarial'', seqs [lit_ci ''no'', Opt (lit ''-''), lit_ci ''ship''],
      seqs [lit_ci ''security'', spaces, lit_ci ''review''],
      seqs [lit_ci ''threat'', spaces, lit_ci ''model''],
      seqs [lit_ci ''self'', hyphen_or_space, lit_ci ''verif''],
      seqs [lit_ci ''red'', hyphen_or_space, lit_ci ''team'']]"

definition RECEIPT :: re where
  "RECEIPT = whole_words (map lit_ci
     [''receipt'', ''job_id'', ''continue_token'', ''digest'', ''hash'', ''telemetry_id''])"

definition WORK_CUE :: re where
  "WORK_CUE = whole_words (map lit_ci
     [''then'', ''after'', ''before'', ''also'', ''apply'', ''implement'', ''fix'', ''build'', ''write'',
      ''create'', ''deploy'', ''patch'', ''migrate'', ''refactor'', ''investigate''])"

definition proof_words :: re where
  "proof_words = whole_words (map lit_ci
     [''prove'', ''verify'', ''validate'', ''confirm'', ''demonstrate'', ''certify''])"

definition INFORMATIONAL_PROOF :: re where
  "INFORMATIONAL_PROOF = seqs
     [Bos, Star space_re, Opt (Seq (lit_ci ''please'') spaces),
      words_re [''explain'', ''describe'', ''summarize'', ''outline'', ''draft''], WordB,
      upto_chars 100, whole_words (map lit_ci [''how'', ''plan'', ''strategy'', ''steps'', ''guide'']),
      upto_chars 100, proof_words]"

definition PROOF_ACTION :: re where
  "PROOF_ACTION = proof_words"

definition test_words :: re where
  "test_words = whole_words
     [Seq (lit_ci ''test'') (Opt (lit_ci ''s'')), seqs [lit_ci ''test'', hyphen_or_space, lit_ci ''suite''],
      lit_ci ''benchmark'']"

definition TEST_OUTCOME :: re where
  "TEST_OUTCOME = Alt
     (seqs [whole_words (map lit_ci [''run'', ''execute'', ''rerun'', ''perform'']), upto_chars 80, test_words])
     (seqs [test_words, upto_chars 80, whole_words
       [Seq (lit_ci ''pass'') (Opt (words_re [''ed'', ''ing''])),
        Seq (lit_ci ''succeed'') (Opt (words_re [''ed'', ''ing''])),
        lit_ci ''green'', lit_ci ''result'', lit_ci ''evidence'']])"

definition RUNTIME_OUTCOME :: re where
  "RUNTIME_OUTCOME = seqs
     [whole_words [lit_ci ''runtime'', lit_ci ''live'', lit_ci ''production'',
        Seq (lit_ci ''deploye'') (Opt (lit_ci ''d''))],
      upto_chars 80,
      whole_words [lit_ci ''observation'', lit_ci ''evidence'', lit_ci ''result'', lit_ci ''check'',
        lit_ci ''verification'', Seq (lit_ci ''passe'') (Opt (lit_ci ''d'')), lit_ci ''healthy'',
        Seq (lit_ci ''work'') (Opt (lit_ci ''s''))]]"

definition EXPLICIT_EVIDENCE :: re where
  "EXPLICIT_EVIDENCE = seqs
     [whole_words (map lit_ci [''provide'', ''include'', ''attach'', ''supply'', ''cite'', ''show'']),
      upto_chars 80, WordB, Opt (Seq (lit_ci ''independent'') spaces),
      alts [lit_ci ''evidence'', lit_ci ''proof'',
        seqs [lit_ci ''test'', spaces, lit_ci ''result'', Opt (lit_ci ''s'')],
        seqs [lit_ci ''runtime'', spaces, lit_ci ''log'', Opt (lit_ci ''s'')]],
      WordB]"

subsection \<open>Tokens\<close>

text \<open>\<open>os.environ.get(name, ''true'')\<close> read as a switch.\<close>

definition switch_on :: "string option \<Rightarrow> bool" where
  "switch_on env \<longleftrightarrow>
     str_lower (str_strip (case env of None \<Rightarrow> ''true'' | Some v \<Rightarrow> v)) \<notin> {''0'', ''false'', ''off'', ''no''}"

record switches =
  env_task_class :: "string option"
  env_verify_literal :: "string option"

definition task_class_enabled :: "switches \<Rightarrow> bool" where
  "task_class_enabled sw \<longleftrightarrow> switch_on (env_task_class sw)"

definition literal_verify_enabled :: "switches \<Rightarrow> bool" where
  "literal_verify_enabled sw \<longleftrightarrow> switch_on (env_verify_literal sw)"

definition demands_structure :: "string \<Rightarrow> bool" where
  "demands_structure text \<longleftrightarrow> re_search STRUCTURE text"

definition explicit_exact_phrase :: "string \<Rightarrow> bool" where
  "explicit_exact_phrase text \<longleftrightarrow>
     (\<exists>(b, m) \<in> set (re_finditer REPLY_WITH text). group text m 1 \<noteq> None \<and> group text m 1 \<noteq> Some [])
     \<or> re_search RETURN_EXACTLY text"

definition is_quote :: "char \<Rightarrow> bool" where
  "is_quote c \<longleftrightarrow> c \<in> set [CHR 0x22, CHR 0x27, CHR 0x60]"

definition normalize_extracted_token :: "string \<Rightarrow> string" where
  "normalize_extracted_token raw = strip_by (\<lambda>c. c \<in> set '':.,;'') (strip_by is_quote (str_strip raw))"

definition stop_tokens :: "string list" where
  "stop_tokens =
     [''a'', ''an'', ''the'', ''with'', ''exactly'', ''reply'', ''respond'', ''answer'', ''return'', ''output'',
      ''print'', ''say'', ''string'', ''token'', ''text'', ''word'']"

text \<open>\<open>str.isupper()\<close>: some letter, and no lower-case one.\<close>

definition str_isupper :: "string \<Rightarrow> bool" where
  "str_isupper s \<longleftrightarrow> list_ex is_upper s \<and> \<not> list_ex is_lower s"

definition usable_literal_token :: "string \<Rightarrow> bool \<Rightarrow> bool" where
  "usable_literal_token raw command_framed \<longleftrightarrow>
     (let token = normalize_extracted_token raw in
      if token = [] \<or> 128 < length token then False
      else if str_lower token \<in> set stop_tokens then False
      else command_framed \<or> str_isupper token \<or> CHR ''_'' \<in> set token \<or> list_ex is_digit token)"

text \<open>The tokens the framed patterns find, in the order the two loops visit them.\<close>

definition framed_tokens :: "string \<Rightarrow> string list" where
  "framed_tokens cleaned =
     concat (map (\<lambda>pattern. map (\<lambda>(b, m). normalize_extracted_token
         (case group cleaned m 2 of None \<Rightarrow> [] | Some t \<Rightarrow> t)) (re_finditer pattern cleaned))
       [REPLY_WITH, RETURN_EXACTLY])"

definition literal_in :: "string \<Rightarrow> string option" where
  "literal_in text =
     (let cleaned = str_strip text in
      if cleaned = [] \<or> demands_structure cleaned then None
      else case filter (\<lambda>t. usable_literal_token t True) (framed_tokens cleaned) of
          t # _ \<Rightarrow> Some t
        | [] \<Rightarrow> (case str_split cleaned of
              [w] \<Rightarrow> let token = normalize_extracted_token w in
                     if usable_literal_token token False then Some token else None
            | _ \<Rightarrow> None))"

fun extract_literal_acceptance :: "string list \<Rightarrow> string option" where
  "extract_literal_acceptance [] = None"
| "extract_literal_acceptance (text # texts) =
     (case literal_in text of Some t \<Rightarrow> Some t | None \<Rightarrow> extract_literal_acceptance texts)"

definition stripped_lines :: "string \<Rightarrow> string list" where
  "stripped_lines s = filter (\<lambda>l. l \<noteq> []) (map str_strip (str_splitlines s))"

definition matches_literal :: "string \<Rightarrow> string \<Rightarrow> bool" where
  "matches_literal candidate expected \<longleftrightarrow>
     (let right = normalize_extracted_token expected; left = str_strip candidate; lines = stripped_lines left
      in right \<noteq> [] \<and> left \<noteq> [] \<and> (left = right \<or> (2 \<le> length lines \<and> last lines = right)))"

text \<open>The prompt block that asks for the bare token.\<close>

definition literal_output_contract :: "string \<Rightarrow> string" where
  "literal_output_contract token =
     (let tok = normalize_extracted_token token in
      if tok = [] then []
      else ''This is a literal probe. Your entire answer must be exactly this token and nothing else:''
        @ NEWLINE @ tok)"

subsection \<open>Classes and modes\<close>

definition TASK_CLASSES :: "string list" where
  "TASK_CLASSES = [''literal'', ''echo_ok'', ''receipt'', ''substantial'', ''adversarial'']"

definition VERIFICATION_STRUCTURAL :: string where "VERIFICATION_STRUCTURAL = ''structural''"
definition VERIFICATION_INDEPENDENT :: string where "VERIFICATION_INDEPENDENT = ''independent_evidence''"

definition VERIFICATION_MODES :: "string list" where
  "VERIFICATION_MODES = [VERIFICATION_STRUCTURAL, VERIFICATION_INDEPENDENT]"

definition dual_intent_work :: "string \<Rightarrow> bool" where
  "dual_intent_work text \<longleftrightarrow>
     (let cleaned = str_strip text;
          stripped = re_sub RETURN_EXACTLY (\<lambda>_. '' '') (re_sub REPLY_WITH (\<lambda>_. '' '') cleaned)
      in cleaned \<noteq> [] \<and> (re_search WORK_CUE stripped \<or> 8 \<le> length (str_split stripped)))"

definition assign_task_class :: "switches \<Rightarrow> string \<Rightarrow> string \<Rightarrow> string" where
  "assign_task_class sw task acceptance =
    (if \<not> task_class_enabled sw then ''substantial''
     else let acceptance_clean = str_strip acceptance; task_clean = str_strip task;
              combined = str_strip (task_clean @ NEWLINE @ acceptance_clean)
       in if combined = [] then ''substantial''
          else if demands_structure acceptance_clean \<or> demands_structure task_clean then
            (if re_search ADVERSARIAL combined then ''adversarial'' else ''substantial'')
          else if re_search ADVERSARIAL combined then ''adversarial''
          else if extract_literal_acceptance [acceptance_clean, task_clean] \<noteq> None then
            (if dual_intent_work acceptance_clean \<or> dual_intent_work task_clean then ''substantial''
             else if explicit_exact_phrase combined then ''literal''
             else if re_search REPLY_WITH combined \<or> length (str_split acceptance_clean) \<le> 3 then ''echo_ok''
             else ''literal'')
          else if re_search RECEIPT combined then ''receipt'' else ''substantial'')"

definition assign_verification_mode :: "string \<Rightarrow> string \<Rightarrow> bool \<Rightarrow> string" where
  "assign_verification_mode task acceptance destructive =
    (if destructive then VERIFICATION_INDEPENDENT
     else let combined = str_strip (task @ NEWLINE @ acceptance) in
       if combined = [] then VERIFICATION_STRUCTURAL
       else if re_search EXPLICIT_EVIDENCE combined then VERIFICATION_INDEPENDENT
       else if re_search TEST_OUTCOME combined \<or> re_search RUNTIME_OUTCOME combined then VERIFICATION_INDEPENDENT
       else if re_search PROOF_ACTION combined \<and> \<not> re_search INFORMATIONAL_PROOF combined
       then VERIFICATION_INDEPENDENT
       else VERIFICATION_STRUCTURAL)"

text \<open>Whether the candidate matched, the expected token and the class.\<close>

definition literal_commit_ready ::
  "switches \<Rightarrow> string \<Rightarrow> string \<Rightarrow> string \<Rightarrow> string option \<Rightarrow> bool \<times> string option \<times> string" where
  "literal_commit_ready sw task acceptance candidate assigned =
    (let klass = (case assigned of Some c \<Rightarrow> if c \<in> set TASK_CLASSES then c else assign_task_class sw task acceptance
                  | None \<Rightarrow> assign_task_class sw task acceptance)
     in if \<not> literal_verify_enabled sw then (False, None, klass)
        else if klass \<notin> {''literal'', ''echo_ok''} then (False, None, klass)
        else case extract_literal_acceptance [acceptance, task] of
            None \<Rightarrow> (False, None, klass)
          | Some expected \<Rightarrow> (matches_literal candidate expected, Some expected, klass))"

lemma assign_task_class_range: "assign_task_class sw task acceptance \<in> set TASK_CLASSES"
  by (simp add: assign_task_class_def TASK_CLASSES_def Let_def)

lemma assign_verification_mode_range: "assign_verification_mode task acceptance destructive \<in> set VERIFICATION_MODES"
  by (simp add: assign_verification_mode_def VERIFICATION_MODES_def Let_def)

lemma ready_class:
  "snd (snd (literal_commit_ready sw task acceptance candidate assigned)) =
    (case assigned of Some c \<Rightarrow> if c \<in> set TASK_CLASSES then c else assign_task_class sw task acceptance
     | None \<Rightarrow> assign_task_class sw task acceptance)" (is "_ = ?k")
  by (simp add: literal_commit_ready_def Let_def del: extract_literal_acceptance.simps split: option.split)

lemma ready_class_range: "snd (snd (literal_commit_ready sw task acceptance candidate assigned)) \<in> set TASK_CLASSES"
  unfolding ready_class using assign_task_class_range by (simp split: option.split)

lemma ready_expected:
  "literal_commit_ready sw task acceptance candidate assigned = (matched, Some expected, klass) \<Longrightarrow>
   klass \<in> {''literal'', ''echo_ok''} \<and> matched = matches_literal candidate expected
   \<and> extract_literal_acceptance [acceptance, task] = Some expected"
  by (auto simp: literal_commit_ready_def Let_def simp del: extract_literal_acceptance.simps split: option.splits if_splits)

end
