(* ===== verification/Py_Convert.thy ===== *)
theory Py_Convert
  imports Py_Number Redaction
begin

text \<open>
  \<open>int(value)\<close>, \<open>float(value)\<close> and \<open>str(value)\<close> on decoded JSON. \<open>TypeError\<close> and \<open>ValueError\<close> are both
  \<open>ValueError\<close> here: every caller catches them together or lets both escape. Rounding leaves a number that
  is a Python float as it is.
\<close>

definition int_literal :: re where
  "int_literal = Seq (Opt (one_of ''+-'')) digit_run"

text \<open>
  The functions of \<open>hashlib\<close> and \<open>json\<close> the source calls: \<open>sha256(...).hexdigest()\<close>, \<open>json.dumps(v)\<close> and
  \<open>json.dumps(v, sort_keys=True, separators=...)\<close>; \<open>datetime.isoformat\<close>; and \<open>str\<close> of a value that is no string.
\<close>

record pylib =
  sha256 :: "string \<Rightarrow> string"
  json_dumps :: "json \<Rightarrow> string"
  json_canonical :: "json \<Rightarrow> string"
  isoformat :: "int \<Rightarrow> string"
  py_str :: "json \<Rightarrow> string"

text \<open>\<open>str(v)\<close> and \<open>str(v or "")\<close>.\<close>

definition str_of :: "pylib \<Rightarrow> json \<Rightarrow> string" where
  "str_of lib v = (case v of JStr s \<Rightarrow> s | _ \<Rightarrow> py_str lib v)"

definition text_or_empty :: "pylib \<Rightarrow> json \<Rightarrow> string" where
  "text_or_empty lib v = (if truthy v then str_of lib v else [])"

lemma str_of_JStr [simp]: "str_of lib (JStr s) = s"
  by (simp add: str_of_def)

lemma text_or_empty_JStr [simp]: "text_or_empty lib (JStr s) = s"
  by (cases s) (simp_all add: text_or_empty_def)

lemma text_or_empty_JNull [simp]: "text_or_empty lib JNull = []"
  by (simp add: text_or_empty_def)

definition INT_MAX_STR_DIGITS :: nat where
  "INT_MAX_STR_DIGITS = 4300"

definition int_of_text :: "string \<Rightarrow> int option" where
  "int_of_text text =
    (let s = str_strip text in
     if \<not> re_fullmatch int_literal s then None
     else if INT_MAX_STR_DIGITS < length (filter is_digit s) then None
     else Some (signed_value (filter (\<lambda>c. c \<noteq> CHR ''_'') s)))"

definition trunc_rat :: "rat \<Rightarrow> int" where
  "trunc_rat q = (if q < 0 then \<lceil>q\<rceil> else \<lfloor>q\<rfloor>)"

fun py_int :: "json \<Rightarrow> py_error + int" where
  "py_int (JBool b) = Inr (if b then 1 else 0)"
| "py_int (JInt n) = Inr n"
| "py_int (JFloat (Fin q)) = Inr (trunc_rat q)"
| "py_int (JFloat NaN) = Inl (ValueError ''cannot convert float NaN to integer'')"
| "py_int (JFloat _) = Inl (OverflowError ''cannot convert float infinity to integer'')"
| "py_int (JStr s) = (case int_of_text s of Some n \<Rightarrow> Inr n | None \<Rightarrow> Inl (ValueError ''invalid literal for int()''))"
| "py_int _ = Inl (ValueError ''int() argument'')"

fun py_float :: "json \<Rightarrow> py_error + pyfloat" where
  "py_float (JBool b) = Inr (Fin (if b then 1 else 0))"
| "py_float (JInt n) = map_sum id Fin (float_of_int n)"
| "py_float (JFloat f) = Inr (case f of Fin q \<Rightarrow> float_of q | _ \<Rightarrow> f)"
| "py_float (JStr s) = (case float_of_text s of Some f \<Rightarrow> Inr f | None \<Rightarrow> Inl (ValueError ''could not convert string to float''))"
| "py_float _ = Inl (ValueError ''float() argument'')"

text \<open>\<open>value or default\<close>.\<close>

definition or_else :: "json \<Rightarrow> json \<Rightarrow> json" where
  "or_else v w = (if truthy v then v else w)"

text \<open>
  \<open>str(value or '''')\<close> where the code only compares the result with words none of which is the rendering
  of another kind of value (a number, \<open>True\<close>, a list or a dict).
\<close>

definition label_of :: "json \<Rightarrow> string" where
  "label_of v = (case v of JStr s \<Rightarrow> s | _ \<Rightarrow> [])"

text \<open>The elements a \<open>for\<close> over \<open>value or []\<close> visits.\<close>

fun py_iter :: "json \<Rightarrow> py_error + json list" where
  "py_iter (JArr xs) = Inr xs"
| "py_iter (JStr s) = Inr (map (\<lambda>c. JStr [c]) s)"
| "py_iter (JObj kvs) = Inr (map (\<lambda>(k, v). JStr k) kvs)"
| "py_iter v = (if truthy v then Inl (ValueError ''object is not iterable'') else Inr [])"

lemma label_of_JStr [simp]: "label_of (JStr s) = s"
  by (simp add: label_of_def)

lemma trunc_rat_int [simp]: "trunc_rat (of_int n) = n"
  by (simp add: trunc_rat_def)

end
