(* ===== verification/Mission_Evidence.thy ===== *)
theory Mission_Evidence
  imports Py_Convert "HOL-Library.List_Lexorder" "HOL-Library.Char_ord"
begin

text \<open>
  \<open>mission/evidence.py\<close> and \<open>mission/artifacts.py\<close>: which evidence records may justify a commit, and the
  sealed hash of an artifact against its redacted projection. An evidence policy's classes are a set, printed sorted.
\<close>

subsection \<open>Evidence policies\<close>

definition EVIDENCE_STRUCTURAL :: string where "EVIDENCE_STRUCTURAL = ''structural''"
definition EVIDENCE_RUNTIME :: string where "EVIDENCE_RUNTIME = ''runtime_observation''"
definition EVIDENCE_CALLER :: string where "EVIDENCE_CALLER = ''caller_evidence''"
definition EVIDENCE_HUMAN :: string where "EVIDENCE_HUMAN = ''human_approval''"

definition ALL_EVIDENCE_CLASSES :: "string set" where
  "ALL_EVIDENCE_CLASSES = {EVIDENCE_STRUCTURAL, EVIDENCE_RUNTIME, EVIDENCE_CALLER, EVIDENCE_HUMAN}"

lemmas evidence_class_defs = EVIDENCE_STRUCTURAL_def EVIDENCE_RUNTIME_def EVIDENCE_CALLER_def
  EVIDENCE_HUMAN_def ALL_EVIDENCE_CLASSES_def

record evidence_policy =
  allowed_classes :: "string set"
  require_human_for_destructive :: bool
  min_records :: int

definition allows :: "evidence_policy \<Rightarrow> string \<Rightarrow> bool" where
  "allows p klass \<longleftrightarrow> klass \<in> allowed_classes p \<and> klass \<in> ALL_EVIDENCE_CLASSES"

definition policy_to_dict :: "evidence_policy \<Rightarrow> (string \<times> json) list" where
  "policy_to_dict p =
    [(''allowed_classes'', JArr (map JStr (sorted_list_of_set (allowed_classes p)))),
     (''require_human_for_destructive'', JBool (require_human_for_destructive p)),
     (''min_records'', JInt (min_records p))]"

definition default_agent_policy :: evidence_policy where
  "default_agent_policy =
    \<lparr>allowed_classes = {EVIDENCE_STRUCTURAL, EVIDENCE_RUNTIME, EVIDENCE_CALLER, EVIDENCE_HUMAN},
     require_human_for_destructive = True, min_records = 1\<rparr>"

definition policy_classes :: "json list \<Rightarrow> string set" where
  "policy_classes xs =
    (let classes = set (map label_of xs) \<inter> ALL_EVIDENCE_CLASSES in
     if classes = {} then {EVIDENCE_STRUCTURAL, EVIDENCE_CALLER} else classes)"

definition policy_from_dict :: "(string \<times> json) list \<Rightarrow> py_error + evidence_policy" where
  "policy_from_dict data =
    (if data = [] then Inr default_agent_policy
     else case py_iter (or_else (dget data ''allowed_classes'') (JArr [])) of
         Inl e \<Rightarrow> Inl e
       | Inr xs \<Rightarrow>
           (case py_int (or_else (dget data ''min_records'') (JInt 1)) of
              Inl e \<Rightarrow> Inl e
            | Inr n \<Rightarrow> Inr
                \<lparr>allowed_classes = policy_classes xs,
                 require_human_for_destructive =
                   (if has_key data ''require_human_for_destructive''
                    then truthy (dget data ''require_human_for_destructive'') else True),
                 min_records = max 1 n\<rparr>))"

text \<open>A policy as a mission can carry it.\<close>

definition wf_policy :: "evidence_policy \<Rightarrow> bool" where
  "wf_policy p \<longleftrightarrow> allowed_classes p \<noteq> {} \<and> allowed_classes p \<subseteq> ALL_EVIDENCE_CLASSES \<and> 1 \<le> min_records p"

lemma wf_default_policy: "wf_policy default_agent_policy"
  by (simp add: wf_policy_def default_agent_policy_def ALL_EVIDENCE_CLASSES_def)

lemma policy_classes_wf: "policy_classes xs \<noteq> {} \<and> policy_classes xs \<subseteq> ALL_EVIDENCE_CLASSES"
  by (auto simp: policy_classes_def Let_def ALL_EVIDENCE_CLASSES_def)

lemma policy_from_dict_wf: "policy_from_dict data = Inr p \<Longrightarrow> wf_policy p"
  using wf_default_policy
  by (auto simp: policy_from_dict_def wf_policy_def policy_classes_wf
      dest: subsetD [OF policy_classes_wf [THEN conjunct2]] split: if_splits sum.splits)

lemma finite_classes: "finite ALL_EVIDENCE_CLASSES"
  by (simp add: ALL_EVIDENCE_CLASSES_def)

lemma policy_classes_print:
  assumes "allowed_classes p \<noteq> {}" "allowed_classes p \<subseteq> ALL_EVIDENCE_CLASSES"
  shows "policy_classes (map JStr (sorted_list_of_set (allowed_classes p))) = allowed_classes p"
proof -
  have "finite (allowed_classes p)" using assms(2) finite_classes by (rule finite_subset)
  then have "set (map label_of (map JStr (sorted_list_of_set (allowed_classes p)))) = allowed_classes p"
    by (simp add: image_image)
  with assms show ?thesis by (simp add: policy_classes_def Let_def Int_absorb2)
qed

lemma policy_iter:
  assumes "allowed_classes p \<noteq> {}" "allowed_classes p \<subseteq> ALL_EVIDENCE_CLASSES"
  shows "py_iter (or_else (JArr (map JStr (sorted_list_of_set (allowed_classes p)))) d) =
    Inr (map JStr (sorted_list_of_set (allowed_classes p)))"
proof -
  have "finite (allowed_classes p)" using assms(2) finite_classes by (rule finite_subset)
  with assms(1) show ?thesis by (simp add: or_else_def)
qed

text \<open>Printing an evidence policy into a mission package and reading it back gives the same policy,
  for every policy a mission can carry (some allowed class, known classes only, at least one record).\<close>
theorem evidence_policy_roundtrip:
  assumes "wf_policy p"
  shows "policy_from_dict (policy_to_dict p) = Inr p"
  using assms policy_classes_print [of p] policy_iter [of p]
  by (simp add: wf_policy_def policy_from_dict_def policy_to_dict_def dget_def has_key_def or_else_def)

theorem evidence_policy_roundtrip_witness:
  "policy_from_dict (policy_to_dict default_agent_policy) = Inr default_agent_policy"
  by (rule evidence_policy_roundtrip [OF wf_default_policy])

subsection \<open>Self-reference\<close>

fun mentions :: "string list \<Rightarrow> json \<Rightarrow> bool" where
  "mentions needles (JObj kvs) =
     (\<exists>kv \<in> set kvs. list_ex (\<lambda>n. contains n (str_lower (fst kv))) needles \<or> mentions needles (snd kv))"
| "mentions needles (JArr xs) = (\<exists>x \<in> set xs. mentions needles x)"
| "mentions needles (JStr s) = list_ex (\<lambda>n. contains n (str_lower s)) needles"
| "mentions needles _ = False"

definition candidate_is_forbidden_evidence :: "json \<Rightarrow> string list \<Rightarrow> bool" where
  "candidate_is_forbidden_evidence record candidate_refs =
    (let needles = map str_lower (filter (\<lambda>v. v \<noteq> []) candidate_refs) in
     if \<not> is_obj record \<or> needles = [] then False
     else if label_of (dget (obj_of record) ''class'') = EVIDENCE_STRUCTURAL then False
     else mentions needles record)"

subsection \<open>Sealed artifacts\<close>

definition PROJECTION_MAX_BYTES :: nat where
  "PROJECTION_MAX_BYTES = 100000"

definition sealed_content_hash :: "pylib \<Rightarrow> string \<Rightarrow> string \<Rightarrow> string" where
  "sealed_content_hash lib raw kind = sha256 lib (kind @ NEWLINE @ raw)"

definition artifact_projection :: "string \<Rightarrow> string" where
  "artifact_projection raw = bounded_redacted_text PROJECTION_MAX_BYTES raw"

end
