(* ===== verification/Mission_Verify.thy ===== *)
theory Mission_Verify
  imports Answer_Check Mission_Evidence
begin

text \<open>
  \<open>mission/verify.py\<close>: the deterministic check a candidate has to pass before its mission completes. A
  frozen class or mode is the JSON value of the mission package (\<open>JNull\<close> for \<open>None\<close>).
\<close>

record verify_input =
  candidate_text :: string
  candidate_hash :: string
  acceptance_text :: string
  evidence_records :: "json list"
  vi_policy :: evidence_policy
  lease_generation :: int
  expected_lease_generation :: int
  vi_status :: string
  destructive :: bool
  security_veto :: bool
  qa_veto :: bool
  task_text :: string
  frozen_task_class :: json
  frozen_verification_mode :: json
  candidate_artifact_refs :: "string list"

record verify_result =
  vr_ok :: bool
  vr_gaps :: "string list"
  vr_structural_record :: "(string \<times> json) list option"
  vr_task_class :: string
  vr_verification_mode :: string

definition gaps_json :: "string list \<Rightarrow> json" where
  "gaps_json gaps = JArr (map JStr gaps)"

definition verify_to_dict :: "verify_result \<Rightarrow> (string \<times> json) list" where
  "verify_to_dict r =
    [(''ok'', JBool (vr_ok r)), (''gaps'', gaps_json (vr_gaps r)),
     (''structural_record'', (case vr_structural_record r of None \<Rightarrow> JNull | Some d \<Rightarrow> JObj d)),
     (''task_class'', JStr (vr_task_class r)), (''verification_mode'', JStr (vr_verification_mode r))]"

subsection \<open>Structural gaps\<close>

definition TERM_RE :: re where
  "TERM_RE = seqs [Chr is_word, Chr is_word, Chr is_word, Star (Chr is_word)]"

fun collect_terms :: "nat \<Rightarrow> string list \<Rightarrow> string list \<Rightarrow> string list" where
  "collect_terms limit seen [] = seen"
| "collect_terms limit seen (m # ms) =
     (if m \<in> set seen then collect_terms limit seen ms
      else let seen' = seen @ [m] in if limit \<le> length seen' then seen' else collect_terms limit seen' ms)"

definition significant_terms :: "string \<Rightarrow> string list" where
  "significant_terms text = collect_terms 24 [] (re_findall TERM_RE (str_lower text))"

definition BULLET_LINE :: re where
  "BULLET_LINE = seqs
     [Bos, alts [one_of ''-*'', lit BULLET, Seq (plus (Chr is_digit)) (one_of ''.)'')], spaces, none_of is_space]"

fun split_any :: "(char \<Rightarrow> bool) \<Rightarrow> string \<Rightarrow> string \<Rightarrow> string list" where
  "split_any P acc [] = [rev acc]"
| "split_any P acc (c # cs) = (if P c then rev acc # split_any P [] cs else split_any P (c # acc) cs)"

definition checklist_item_count :: "string \<Rightarrow> nat" where
  "checklist_item_count answer =
    (let lines = stripped_lines answer; bullets = filter (re_match BULLET_LINE) lines
     in if bullets \<noteq> [] then length bullets
        else if 3 \<le> length lines then length lines
        else length (filter (\<lambda>part. 4 \<le> length (str_strip part)) (split_any (\<lambda>c. c \<in> set '',;'') [] answer)))"

definition stop_words :: "string list" where
  "stop_words = [''return'', ''provide'', ''include'', ''including'', ''with'', ''the'', ''and'', ''for'', ''from'',
     ''that'', ''this'', ''your'', ''into'']"

definition needed_terms :: "nat \<Rightarrow> nat" where
  "needed_terms n = (if 8 \<le> n then max 3 (n div 5) else if 5 \<le> n then 2 else 0)"

text \<open>The checklist part: its gaps and \<open>structured_ok\<close>.\<close>

definition checklist_gaps :: "string \<Rightarrow> string list \<Rightarrow> string \<Rightarrow> string list \<times> bool" where
  "checklist_gaps acceptance_l terms answer =
    (if \<not> (contains ''checklist'' acceptance_l \<or> contains ''steps'' acceptance_l) then ([], False)
     else let items = checklist_item_count answer in
       if items < 3 then ([''checklist_too_thin:'' @ str_int (int items)], False)
       else if length answer < 80 then ([''checklist_too_short''], False)
       else let distinctive = filter (\<lambda>t. t \<notin> set stop_words) terms in
         if distinctive \<noteq> [] \<and> \<not> list_ex (\<lambda>t. contains t (str_lower answer)) distinctive
         then ([''missing_key_term''], False) else ([], True))"

text \<open>The coverage part.\<close>

definition coverage_gaps :: "string list \<Rightarrow> string \<Rightarrow> string list" where
  "coverage_gaps terms answer =
    (let hit = length (filter (\<lambda>t. contains t (str_lower answer)) terms); need = needed_terms (length terms)
     in (if need \<noteq> 0 \<and> hit < need
         then [''acceptance_coverage:'' @ str_int (int hit) @ ''/'' @ str_int (int need)] else [])
        @ (if length (str_split answer) \<le> 2 \<and> 3 \<le> length terms then [''token_echo''] else []))"

definition structural_gaps :: "string \<Rightarrow> string \<Rightarrow> string list" where
  "structural_gaps acceptance candidate =
    (let answer = str_strip candidate; acceptance_clean = str_strip (redact_secrets acceptance);
         terms = significant_terms acceptance_clean;
         (checklist, structured_ok) = checklist_gaps (str_lower acceptance_clean) terms answer
     in (if answer = [] then [''empty_answer''] else [])
        @ (if answer \<noteq> [] \<and> is_nonanswer_completion answer acceptance_clean then [''nonanswer_completion''] else [])
        @ (if answer \<noteq> [] \<and> length (str_split answer) < 8 then [''answer_too_short''] else [])
        @ checklist
        @ (if terms \<noteq> [] \<and> answer \<noteq> [] \<and> \<not> structured_ok then coverage_gaps terms answer else []))"

definition literal_gaps :: "string \<Rightarrow> string \<Rightarrow> string option \<Rightarrow> string list" where
  "literal_gaps acceptance candidate expected =
    (let answer = str_strip candidate; acceptance_clean = str_strip (redact_secrets acceptance)
     in if answer = [] then [''empty_answer'']
        else if is_nonanswer_completion answer acceptance_clean then [''nonanswer_completion'']
        else case expected of
            None \<Rightarrow> [''literal_expected_missing'']
          | Some e \<Rightarrow> if e = [] then [''literal_expected_missing'']
                      else if matches_literal answer e then [] else [''literal_mismatch''])"

subsection \<open>Terminal failures\<close>

definition UNREPAIRABLE_GAPS :: "string list" where
  "UNREPAIRABLE_GAPS = [''literal_expected_missing'']"

text \<open>
  \<open>last_verify\<close> is the JSON value of the checkpoint; its gaps are a list there, and its hash a string.
\<close>

definition should_terminal_fail :: "string list \<Rightarrow> string \<Rightarrow> string \<Rightarrow> int \<Rightarrow> json \<Rightarrow> bool" where
  "should_terminal_fail gaps task_class hash prior_verify_failures last_verify =
    (let last_gaps = (case dget (obj_of last_verify) ''gaps'' of JArr xs \<Rightarrow> map label_of xs | _ \<Rightarrow> []);
         last_hash = label_of (dget (obj_of last_verify) ''candidate_hash'')
     in if set gaps \<inter> set UNREPAIRABLE_GAPS \<noteq> {} then True
        else if task_class \<notin> {''literal'', ''echo_ok''} then False
        else if ''literal_mismatch'' \<notin> set gaps then False
        else if ''literal_mismatch'' \<in> set last_gaps \<and> last_hash \<noteq> [] \<and> last_hash = hash then True
        else 1 \<le> prior_verify_failures)"

subsection \<open>The commit check\<close>

definition record_class :: "json \<Rightarrow> string" where
  "record_class r = label_of (dget (obj_of r) ''class'')"

definition record_digest :: "pylib \<Rightarrow> (string \<times> json) list \<Rightarrow> string" where
  "record_digest lib d = sha256 lib (json_canonical lib (JObj d))"

text \<open>The class and the mode, with the gaps of invalid frozen ones.\<close>

definition decided_class :: "switches \<Rightarrow> verify_input \<Rightarrow> string list \<times> string" where
  "decided_class sw i =
    (case frozen_task_class i of
       JNull \<Rightarrow> ([], assign_task_class sw (task_text i) (acceptance_text i))
     | c \<Rightarrow> if c \<in> set (map JStr TASK_CLASSES) then ([], label_of c)
            else ([''invalid_frozen_task_class''], assign_task_class sw (task_text i) (acceptance_text i)))"

definition decided_mode :: "verify_input \<Rightarrow> string list \<times> string" where
  "decided_mode i =
    (case frozen_verification_mode i of
       JNull \<Rightarrow> ([], assign_verification_mode (task_text i) (acceptance_text i) (destructive i))
     | m \<Rightarrow> if m \<in> set (map JStr VERIFICATION_MODES) then ([], label_of m)
            else ([''invalid_frozen_verification_mode''], VERIFICATION_INDEPENDENT))"

definition control_gaps :: "pylib \<Rightarrow> verify_input \<Rightarrow> string list" where
  "control_gaps lib i =
    (if vi_status i \<noteq> ''verifying'' then [''status_not_verifying''] else [])
    @ (if lease_generation i \<noteq> expected_lease_generation i then [''stale_lease_generation''] else [])
    @ (if security_veto i then [''security_veto''] else [])
    @ (if qa_veto i then [''qa_veto''] else [])
    @ (if sealed_content_hash lib (candidate_text i) ''candidate'' \<noteq> candidate_hash i
       then [''candidate_hash_mismatch''] else [])"

text \<open>A record whose payload quotes the first forty characters of the candidate.\<close>

definition smuggled :: "pylib \<Rightarrow> verify_input \<Rightarrow> json \<Rightarrow> bool" where
  "smuggled lib i r \<longleftrightarrow>
     (case dget (obj_of r) ''payload'' of
        JObj p \<Rightarrow> 40 \<le> length (candidate_text i)
          \<and> contains (take 40 (candidate_text i)) (json_dumps lib (JObj p))
      | _ \<Rightarrow> False)"

definition forbidden_refs :: "verify_input \<Rightarrow> string list" where
  "forbidden_refs i = candidate_hash i # candidate_artifact_refs i"

definition record_gaps :: "verify_input \<Rightarrow> json \<Rightarrow> string list" where
  "record_gaps i r =
    (if \<not> is_obj r then [''invalid_evidence_record'']
     else (if candidate_is_forbidden_evidence r (forbidden_refs i) then [''self_evidence_forbidden''] else [])
        @ (if \<not> allows (vi_policy i) (record_class r) then [''evidence_class_denied:'' @ record_class r] else []))"

definition acceptable :: "verify_input \<Rightarrow> json \<Rightarrow> bool" where
  "acceptable i r \<longleftrightarrow> is_obj r \<and> allows (vi_policy i) (record_class r)
     \<and> \<not> candidate_is_forbidden_evidence r (forbidden_refs i)"

definition structural_payload ::
  "pylib \<Rightarrow> verify_input \<Rightarrow> string list \<Rightarrow> string \<Rightarrow> string \<Rightarrow> string option \<Rightarrow> (string \<times> json) list" where
  "structural_payload lib i sgaps klass mode token =
    [(''class'', JStr EVIDENCE_STRUCTURAL), (''source'', JStr ''deterministic_verifier''),
     (''candidate_hash'', JStr (candidate_hash i)), (''structural_gaps'', gaps_json sgaps),
     (''checks_passed'', JBool (sgaps = [])), (''task_class'', JStr klass), (''verification_mode'', JStr mode)]
    @ (case token of None \<Rightarrow> []
       | Some t \<Rightarrow> [(''literal_match'', JBool True),
           (''expected_token_hash'', JStr (record_digest lib [(''expected'', JStr t)]))])"

definition structural_record ::
  "pylib \<Rightarrow> verify_input \<Rightarrow> (string \<times> json) list \<Rightarrow> (string \<times> json) list" where
  "structural_record lib i payload =
    [(''class'', JStr EVIDENCE_STRUCTURAL), (''digest'', JStr (record_digest lib payload)),
     (''payload'', JObj payload), (''artifact_refs'', JArr [JStr (candidate_hash i)])]"

definition evidence_gaps :: "verify_input \<Rightarrow> string \<Rightarrow> bool \<Rightarrow> json list \<Rightarrow> string list" where
  "evidence_gaps i mode excused records =
    (let accepted = filter (acceptable i) records;
         independent = filter (\<lambda>r. record_class r \<noteq> EVIDENCE_STRUCTURAL) accepted
     in (if (int (length accepted) < min_records (vi_policy i)
             \<or> (mode = VERIFICATION_INDEPENDENT \<and> independent = [])) \<and> \<not> excused
         then [''insufficient_evidence''] else [])
        @ (if destructive i \<and> require_human_for_destructive (vi_policy i)
              \<and> \<not> list_ex (\<lambda>r. record_class r = EVIDENCE_HUMAN) accepted
           then [''human_approval_required''] else []))"

text \<open>
  From the line that rejects smuggled records on: \<open>control\<close> are the gaps found before the structural ones,
  \<open>excused\<close> says that missing evidence is no gap (a literal answer that is wrong already).
\<close>

definition conclude ::
  "pylib \<Rightarrow> verify_input \<Rightarrow> string list \<Rightarrow> string \<Rightarrow> string \<Rightarrow> string list \<Rightarrow> (string \<times> json) list \<Rightarrow> bool \<Rightarrow>
   verify_result" where
  "conclude lib i control klass mode sgaps sr excused =
    (let records = evidence_records i @ (if sgaps = [] then [JObj sr] else []);
         gaps = dedup (control @ sgaps
           @ concat (map (\<lambda>r. if smuggled lib i r then [''self_evidence_forbidden''] else []) (evidence_records i))
           @ concat (map (record_gaps i) records)
           @ evidence_gaps i mode excused records)
     in \<lparr>vr_ok = (gaps = []), vr_gaps = gaps,
         vr_structural_record = (if sgaps = [] then Some sr else None),
         vr_task_class = klass, vr_verification_mode = mode\<rparr>)"

definition verify_commit :: "pylib \<Rightarrow> switches \<Rightarrow> verify_input \<Rightarrow> verify_result" where
  "verify_commit lib sw i =
    (let (class_gaps, assigned) = decided_class sw i;
         (mode_gaps, mode) = decided_mode i;
         (matched, expected, klass) =
           literal_commit_ready sw (task_text i) (acceptance_text i) (candidate_text i) (Some assigned);
         literal_path = (klass \<in> {''literal'', ''echo_ok''} \<and> expected \<noteq> None);
         sgaps = (if literal_path then literal_gaps (acceptance_text i) (candidate_text i) expected
                  else structural_gaps (acceptance_text i) (candidate_text i));
         token = (if literal_path \<and> matched \<and> sgaps = [] then expected else None)
     in conclude lib i (class_gaps @ mode_gaps @ control_gaps lib i) klass mode sgaps
          (structural_record lib i (structural_payload lib i sgaps klass mode token))
          (literal_path \<and> sgaps \<noteq> []))"

end
