(* ===== verification/Mission_Verify_Facts.thy ===== *)
theory Mission_Verify_Facts
  imports Mission_Verify
begin

text \<open>
  What a passed check guarantees, and the reference reading of the two early-exit loops of the checks
  (the significant terms and the plan lines).
\<close>

subsection \<open>Gaps\<close>


lemma record_gaps_empty: "record_gaps i r = [] \<longleftrightarrow> acceptable i r"
  by (auto simp: record_gaps_def acceptable_def)


lemma record_class_structural [simp]: "record_class (JObj (structural_record lib i p)) = EVIDENCE_STRUCTURAL"
  by (simp add: record_class_def structural_record_def dget_def)

lemma conclude_fields [simp]:
  "vr_task_class (conclude lib i control klass mode sgaps sr excused) = klass"
  "vr_verification_mode (conclude lib i control klass mode sgaps sr excused) = mode"
  "vr_structural_record (conclude lib i control klass mode sgaps sr excused) = (if sgaps = [] then Some sr else None)"
  by (simp_all add: conclude_def Let_def)

lemma conclude_ok:
  assumes "vr_ok (conclude lib i control klass mode sgaps sr excused)"
  shows "control = []" "sgaps = []" "\<forall>r \<in> set (evidence_records i). \<not> smuggled lib i r"
    and "\<forall>r \<in> set (evidence_records i @ [JObj sr]). acceptable i r"
    and "evidence_gaps i mode excused (evidence_records i @ [JObj sr]) = []"
  using assms by (auto simp: conclude_def Let_def record_gaps_empty split: if_splits)

text \<open>A passed check: no structural gap, and every list of gaps is empty.\<close>

lemma verify_ok_parts:
  assumes "vr_ok (verify_commit lib sw i)"
  obtains expected matched klass sr where
    "literal_commit_ready sw (task_text i) (acceptance_text i) (candidate_text i)
       (Some (snd (decided_class sw i))) = (matched, expected, klass)"
    "vr_task_class (verify_commit lib sw i) = klass"
    "vr_verification_mode (verify_commit lib sw i) = snd (decided_mode i)"
    "vr_structural_record (verify_commit lib sw i) = Some sr"
    "record_class (JObj sr) = EVIDENCE_STRUCTURAL"
    "control_gaps lib i = []"
    "(if klass \<in> {''literal'', ''echo_ok''} \<and> expected \<noteq> None
      then literal_gaps (acceptance_text i) (candidate_text i) expected
      else structural_gaps (acceptance_text i) (candidate_text i)) = []"
    "\<forall>r \<in> set (evidence_records i). \<not> smuggled lib i r"
    "\<forall>r \<in> set (evidence_records i @ [JObj sr]). acceptable i r"
    "evidence_gaps i (snd (decided_mode i)) False (evidence_records i @ [JObj sr]) = []"
proof -
  obtain matched expected klass where ready: "literal_commit_ready sw (task_text i) (acceptance_text i)
      (candidate_text i) (Some (snd (decided_class sw i))) = (matched, expected, klass)"
    by (metis prod_cases3)
  define literal where "literal = (klass \<in> {''literal'', ''echo_ok''} \<and> expected \<noteq> None)"
  define sgaps where "sgaps = (if literal then literal_gaps (acceptance_text i) (candidate_text i) expected
      else structural_gaps (acceptance_text i) (candidate_text i))"
  define sr where "sr = structural_record lib i (structural_payload lib i sgaps klass (snd (decided_mode i))
      (if literal \<and> matched \<and> sgaps = [] then expected else None))"
  have result: "verify_commit lib sw i =
      conclude lib i (fst (decided_class sw i) @ fst (decided_mode i) @ control_gaps lib i) klass
        (snd (decided_mode i)) sgaps sr (literal \<and> sgaps \<noteq> [])"
    unfolding verify_commit_def sr_def sgaps_def literal_def
    by (simp only: case_prod_beta ready fst_conv snd_conv Let_def)
  note parts = conclude_ok [OF assms [unfolded result]]
  show thesis
  proof (rule that [OF ready])
    show "record_class (JObj sr) = EVIDENCE_STRUCTURAL" by (simp add: sr_def)
    show "(if klass \<in> {''literal'', ''echo_ok''} \<and> expected \<noteq> None
        then literal_gaps (acceptance_text i) (candidate_text i) expected
        else structural_gaps (acceptance_text i) (candidate_text i)) = []"
      using parts(2) by (simp add: sgaps_def literal_def)
  qed (use parts in \<open>simp_all add: result\<close>)
qed


text \<open>A mission asked for a literal token commits only an answer that is that token, or whose last line
  is that token: no essay around it and no other text passes.\<close>
theorem literal_commit_exact:
  assumes "vr_ok (verify_commit lib sw i)"
    and "vr_task_class (verify_commit lib sw i) \<in> {''literal'', ''echo_ok''}"
    and "literal_verify_enabled sw"
    and "extract_literal_acceptance [acceptance_text i, task_text i] = Some token"
  shows "matches_literal (str_strip (candidate_text i)) token"
proof -
  obtain matched expected klass where ready: "literal_commit_ready sw (task_text i) (acceptance_text i)
       (candidate_text i) (Some (snd (decided_class sw i))) = (matched, expected, klass)"
      and klass: "vr_task_class (verify_commit lib sw i) = klass"
      and gaps: "(if klass \<in> {''literal'', ''echo_ok''} \<and> expected \<noteq> None
        then literal_gaps (acceptance_text i) (candidate_text i) expected
        else structural_gaps (acceptance_text i) (candidate_text i)) = []"
    using verify_ok_parts [OF assms(1)] by metis
  have k: "klass \<in> {''literal'', ''echo_ok''}" using assms(2) klass by simp
  then have "expected = Some token"
    using ready assms(3,4)
    by (auto simp: literal_commit_ready_def Let_def simp del: extract_literal_acceptance.simps split: if_splits)
  with gaps k have "literal_gaps (acceptance_text i) (candidate_text i) (Some token) = []" by simp
  then show ?thesis by (auto simp: literal_gaps_def Let_def split: if_splits)
qed

text \<open>A literal mission and the answer that closes it.\<close>

definition sample_lib :: pylib where
  "sample_lib = \<lparr>sha256 = rev, json_dumps = (\<lambda>_. ''{}''), json_canonical = (\<lambda>_. ''{}''), isoformat = str_int, py_str = (\<lambda>_. [])\<rparr>"

definition sample_switches :: switches where
  "sample_switches = \<lparr>env_task_class = None, env_verify_literal = None\<rparr>"

definition sample_verify_input :: verify_input where
  "sample_verify_input =
    \<lparr>candidate_text = ''7'', candidate_hash = sealed_content_hash sample_lib ''7'' ''candidate'',
     acceptance_text = ''7'', evidence_records = [], vi_policy = default_agent_policy,
     lease_generation = 1, expected_lease_generation = 1, vi_status = ''verifying'', destructive = False,
     security_veto = False, qa_veto = False, task_text = [], frozen_task_class = JStr ''literal'',
     frozen_verification_mode = JStr ''structural'', candidate_artifact_refs = []\<rparr>"

lemma sample_pieces:
  "search_from PROMISE_ONLY_PREFIX ''7'' 0 = None"
  "\<not> re_search COMPLETION_EVIDENCE ''7''"
  "\<not> prompt_requests_plan ''7''"
  by code_simp+

lemma sample_not_a_plan: "\<not> looks_like_plan ''7''" "\<not> is_bare_promise_preamble ''7''"
  by code_simp+

lemma sample_text:
  "str_strip ''7'' = ''7''" "join NEWLINE (map str_rstrip (str_splitlines ''7'')) = ''7''"
  "starts_with DEEP_HARNESS_PROMPT ''7'' = False"
  by code_simp+

lemma sample_redacted: "redact_secrets ''7'' = ''7''"
  by code_simp

lemma sample_answer: "\<not> is_nonanswer_completion ''7'' ''7''"
  by (simp add: is_nonanswer_completion_def sample_text sample_pieces sample_not_a_plan)

lemma sample_literal:
  "extract_literal_acceptance [''7'', []] = Some ''7''" "matches_literal ''7'' ''7''"
  "literal_verify_enabled sample_switches"
  by code_simp+

lemma sample_controls:
  "decided_class sample_switches sample_verify_input = ([], ''literal'')"
  "decided_mode sample_verify_input = ([], ''structural'')"
  "control_gaps sample_lib sample_verify_input = []"
  by (simp_all add: decided_class_def decided_mode_def control_gaps_def sample_verify_input_def TASK_CLASSES_def
      VERIFICATION_MODES_def VERIFICATION_STRUCTURAL_def label_of_def)

lemma sample_ready:
  "literal_commit_ready sample_switches (task_text sample_verify_input) (acceptance_text sample_verify_input)
     (candidate_text sample_verify_input) (Some ''literal'') = (True, Some ''7'', ''literal'')"
  by (simp add: literal_commit_ready_def sample_literal sample_verify_input_def TASK_CLASSES_def
      del: extract_literal_acceptance.simps)

lemma sample_gaps: "literal_gaps (acceptance_text sample_verify_input) (candidate_text sample_verify_input) (Some ''7'') = []"
  by (simp add: literal_gaps_def sample_text sample_redacted sample_answer sample_literal sample_verify_input_def)

lemma sample_concluded:
  assumes "record_class (JObj sr) = EVIDENCE_STRUCTURAL"
  shows "vr_ok (conclude sample_lib sample_verify_input [] klass ''structural'' [] sr False)"
proof -
  have "acceptable sample_verify_input (JObj sr)"
    using assms by (simp add: acceptable_def allows_def candidate_is_forbidden_evidence_def record_class_def
        sample_verify_input_def default_agent_policy_def ALL_EVIDENCE_CLASSES_def)
  moreover have "evidence_gaps sample_verify_input ''structural'' False [JObj sr] = []"
    using \<open>acceptable sample_verify_input (JObj sr)\<close>
    by (simp add: evidence_gaps_def VERIFICATION_INDEPENDENT_def sample_verify_input_def default_agent_policy_def)
  moreover have "evidence_records sample_verify_input = []" by (simp add: sample_verify_input_def)
  ultimately show ?thesis by (simp add: conclude_def record_gaps_empty)
qed

lemma sample_verified:
  "vr_ok (verify_commit sample_lib sample_switches sample_verify_input)
   \<and> vr_task_class (verify_commit sample_lib sample_switches sample_verify_input) = ''literal''"
  by (simp add: verify_commit_def sample_controls sample_ready sample_gaps sample_concluded)


theorem literal_commit_exact_witness: "matches_literal (str_strip ''7'') ''7''"
  using literal_commit_exact [of sample_lib sample_switches sample_verify_input "''7''"] sample_verified sample_literal
  by (simp add: sample_verify_input_def del: extract_literal_acceptance.simps)

subsection \<open>The loops\<close>

text \<open>The first occurrences of a list, in order.\<close>

definition firsts :: "'a list \<Rightarrow> 'a list" where
  "firsts xs = rev (remdups (rev xs))"

lemma firsts_Cons: "firsts (x # xs) = x # filter (\<lambda>y. y \<noteq> x) (firsts xs)"
proof -
  have "remdups (ys @ [x]) = filter (\<lambda>y. y \<noteq> x) (remdups ys) @ [x]" for ys
    by (induction ys) auto
  then show ?thesis by (simp add: firsts_def rev_filter)
qed

lemma collect_terms_firsts:
  "length seen < limit \<Longrightarrow> collect_terms limit seen ms = take limit (seen @ filter (\<lambda>m. m \<notin> set seen) (firsts ms))"
proof (induction limit seen ms rule: collect_terms.induct)
  case (2 limit seen m ms)
  show ?case
  proof (cases "m \<in> set seen")
    case True
    then have "filter (\<lambda>y. y \<notin> set seen) (firsts (m # ms)) = filter (\<lambda>y. y \<notin> set seen) (firsts ms)"
      by (auto simp: firsts_Cons intro: filter_cong)
    with True 2 show ?thesis by simp
  next
    case False
    have step: "seen @ filter (\<lambda>y. y \<notin> set seen) (firsts (m # ms)) =
        (seen @ [m]) @ filter (\<lambda>y. y \<notin> set (seen @ [m])) (firsts ms)"
      using False by (auto simp: firsts_Cons intro: filter_cong)
    show ?thesis
    proof (cases "limit \<le> length (seen @ [m])")
      case True
      with 2(3) have "limit = length (seen @ [m])" by simp
      then show ?thesis unfolding step using False by simp
    next
      case more: False
      with False 2(2) [OF False refl] show ?thesis unfolding step by simp
    qed
  qed
qed (simp add: firsts_def)

text \<open>The early-exit loop over the matches computes the specification: the significant terms of a
  text are its first 24 distinct terms, in the order of their first occurrence.\<close>
theorem significant_terms_spec:
  "significant_terms text = take 24 (firsts (re_findall TERM_RE (str_lower text)))"
  by (simp add: significant_terms_def collect_terms_firsts)

text \<open>The check for unsolicited plans, which leaves its loop at the second line that is no action, is the
  rule it stands for: a plan heading, or at least two action lines and at most one other line among the
  non-blank lines.\<close>
theorem looks_like_plan_spec:
  "looks_like_plan text \<longleftrightarrow> re_search PLAN_ONLY_HEADING text
    \<or> (2 \<le> length (filter (\<lambda>l. str_strip l \<noteq> [] \<and> action_line l) (str_splitlines text))
       \<and> length (filter (\<lambda>l. str_strip l \<noteq> [] \<and> \<not> action_line l) (str_splitlines text)) \<le> 1)"
  using plan_lines_count [of 0 0 "str_splitlines text"] by (auto simp: looks_like_plan_def)

end
