(* ===== verification/Mission_Billing.thy ===== *)
theory Mission_Billing
  imports Py_Convert
begin

text \<open>
  The durable billing of \<open>mission/epoch.py\<close>: the closed projection of reported usage, the merge of one
  quantum into a checkpoint keyed by the lease generation, and the projection onto an envelope. The
  code's dicts with fixed keys are records with their JSON form; an absent key is \<open>None\<close>. A cost that
  the clamp replaces by the integer \<open>10**9\<close> is the float of the same value.
\<close>

subsection \<open>Numbers and labels\<close>

definition BILLING_RECEIPT_LIMIT :: nat where "BILLING_RECEIPT_LIMIT = 32"
definition BILLING_ATTEMPT_LIMIT :: nat where "BILLING_ATTEMPT_LIMIT = 64"
definition BILLING_INT_LIMIT :: int where "BILLING_INT_LIMIT = 1000000000000000"
definition BILLING_COST_LIMIT :: rat where "BILLING_COST_LIMIT = 1000000000"

definition clamp_cost :: "pyfloat \<Rightarrow> rat" where
  "clamp_cost f = (case f of Fin q \<Rightarrow> min BILLING_COST_LIMIT (max 0 q) | _ \<Rightarrow> 0)"

definition clamp_int :: "int \<Rightarrow> int" where
  "clamp_int n = min BILLING_INT_LIMIT (max 0 n)"

definition billing_cost :: "json \<Rightarrow> rat" where
  "billing_cost v = (case py_float (or_else v (JFloat (Fin 0))) of Inl _ \<Rightarrow> 0 | Inr f \<Rightarrow> clamp_cost f)"

definition billing_int :: "json \<Rightarrow> int" where
  "billing_int v = (case py_int (or_else v (JInt 0)) of Inl _ \<Rightarrow> 0 | Inr n \<Rightarrow> clamp_int n)"

definition SAFE_BILLING_PLANES :: "(string \<times> string) list" where
  "SAFE_BILLING_PLANES =
    [(''api'', ''api''), (''cli'', ''cli''), (''grok_build_oauth'', ''cli''), (''xai_api_key'', ''api''),
     (''mixed'', ''mixed'')]"

definition SAFE_BILLING_STAGES :: "string list" where
  "SAFE_BILLING_STAGES =
    [''agent_result'', ''agent_turn'', ''agent_work'', ''completion_initial'', ''completion_retry'',
     ''final_polish'', ''hive_draft'', ''hive_merge'', ''hive_vote'', ''mission_quantum'', ''route_vote'',
     ''router_vote'', ''routing'', ''semantic_router'']"

definition SAFE_BILLING_OUTCOMES :: "string list" where
  "SAFE_BILLING_OUTCOMES =
    [''completed'', ''completed_before_projection_failure'', ''completed_before_state_failure'',
     ''failed_after_reported_usage'', ''rejected_cleanup'', ''rejected_nonanswer'']"

definition lower_label :: "json \<Rightarrow> string" where
  "lower_label v = str_lower (str_strip (label_of v))"

definition billing_plane :: "json \<Rightarrow> string option" where
  "billing_plane v = map_of SAFE_BILLING_PLANES (lower_label v)"

definition safe_label :: "string list \<Rightarrow> json \<Rightarrow> string option" where
  "safe_label allowed v = (if lower_label v \<in> set allowed then Some (lower_label v) else None)"

subsection \<open>Token counts\<close>

record tokens =
  tk_input :: "int option"
  tk_output :: "int option"
  tk_total :: "int option"

definition no_tokens :: tokens where
  "no_tokens = \<lparr>tk_input = None, tk_output = None, tk_total = None\<rparr>"

text \<open>\<open>_first\<close>: the first of the keys that is present, in the value and then in its nested usage.\<close>

fun first_key :: "doc list \<Rightarrow> string list \<Rightarrow> int option" where
  "first_key [] keys = None"
| "first_key (source # sources) keys =
     (case filter (has_key source) keys of
        k # _ \<Rightarrow> Some (billing_int (dget source k))
      | [] \<Rightarrow> first_key sources keys)"

definition count_of :: "int option \<Rightarrow> int" where
  "count_of c = (case c of None \<Rightarrow> 0 | Some n \<Rightarrow> n)"

definition usage_numbers :: "doc \<Rightarrow> tokens" where
  "usage_numbers value =
    (let sources = [value, obj_of (dget value ''usage'')];
         i = first_key sources [''input_tokens'', ''prompt_tokens'', ''inputTokens'', ''promptTokens''];
         j = first_key sources [''output_tokens'', ''completion_tokens'', ''outputTokens'', ''completionTokens''];
         t = first_key sources [''total_tokens'', ''totalTokens'']
     in \<lparr>tk_input = i, tk_output = j,
         tk_total = (if t = None \<and> (i \<noteq> None \<or> j \<noteq> None) then Some (clamp_int (count_of i + count_of j)) else t)\<rparr>)"

definition opt_entry :: "string \<Rightarrow> ('a \<Rightarrow> json) \<Rightarrow> 'a option \<Rightarrow> doc" where
  "opt_entry k f v = (case v of None \<Rightarrow> [] | Some x \<Rightarrow> [(k, f x)])"

definition tokens_json :: "tokens \<Rightarrow> doc" where
  "tokens_json t = opt_entry ''input_tokens'' JInt (tk_input t) @ opt_entry ''output_tokens'' JInt (tk_output t)
     @ opt_entry ''total_tokens'' JInt (tk_total t)"

subsection \<open>Receipts and attempts\<close>

record receipt =
  rc_generation :: int
  rc_cost :: rat
  rc_attempts :: int
  rc_tokens :: tokens
  rc_plane :: "string option"

record attempt =
  at_generation :: int
  at_cost :: rat
  at_tokens :: tokens
  at_plane :: "string option"
  at_stage :: "string option"
  at_outcome :: "string option"

definition safe_billing_attempt :: "int \<Rightarrow> doc \<Rightarrow> attempt" where
  "safe_billing_attempt generation value =
    \<lparr>at_generation = clamp_int generation, at_cost = billing_cost (dget value ''cost_usd''),
     at_tokens = usage_numbers value,
     at_plane = billing_plane (or_else (dget value ''plane'') (dget value ''resolved_plane'')),
     at_stage = safe_label SAFE_BILLING_STAGES (dget value ''stage''),
     at_outcome = safe_label SAFE_BILLING_OUTCOMES (dget value ''outcome'')\<rparr>"

definition safe_billing_receipt :: "doc \<Rightarrow> receipt" where
  "safe_billing_receipt value =
    \<lparr>rc_generation = billing_int (dget value ''lease_generation''), rc_cost = billing_cost (dget value ''cost_usd''),
     rc_attempts = billing_int (dget value ''incurred_attempt_count''), rc_tokens = usage_numbers value,
     rc_plane = billing_plane (dget value ''plane'')\<rparr>"

definition receipt_json :: "receipt \<Rightarrow> doc" where
  "receipt_json r =
    [(''lease_generation'', JInt (rc_generation r)), (''cost_usd'', JFloat (Fin (rc_cost r))),
     (''incurred_attempt_count'', JInt (rc_attempts r))]
    @ tokens_json (rc_tokens r) @ opt_entry ''plane'' JStr (rc_plane r)"

definition attempt_json :: "attempt \<Rightarrow> doc" where
  "attempt_json a =
    [(''lease_generation'', JInt (at_generation a)), (''cost_usd'', JFloat (Fin (at_cost a)))]
    @ tokens_json (at_tokens a) @ opt_entry ''plane'' JStr (at_plane a)
    @ opt_entry ''stage'' JStr (at_stage a) @ opt_entry ''outcome'' JStr (at_outcome a)"

subsection \<open>Billing snapshots\<close>

record billing =
  bl_cost :: rat
  bl_tokens :: tokens
  bl_quanta :: int
  bl_last_generation :: int
  bl_receipts :: "receipt list"
  bl_receipts_truncated :: int
  bl_attempts :: "attempt list"
  bl_attempts_truncated :: int

definition empty_billing :: billing where
  "empty_billing =
    \<lparr>bl_cost = 0, bl_tokens = no_tokens, bl_quanta = 0, bl_last_generation = 0, bl_receipts = [],
     bl_receipts_truncated = 0, bl_attempts = [], bl_attempts_truncated = 0\<rparr>"

definition billing_json :: "billing \<Rightarrow> doc" where
  "billing_json b =
    [(''schema_version'', JInt 1), (''cost_usd'', JFloat (Fin (bl_cost b))), (''quanta'', JInt (bl_quanta b)),
     (''last_lease_generation'', JInt (bl_last_generation b)),
     (''receipts'', JArr (map (JObj \<circ> receipt_json) (bl_receipts b))),
     (''receipts_truncated'', JInt (bl_receipts_truncated b)),
     (''incurred_attempts'', JArr (map (JObj \<circ> attempt_json) (bl_attempts b))),
     (''incurred_attempts_truncated'', JInt (bl_attempts_truncated b))]
    @ tokens_json (bl_tokens b)"

definition arr_of :: "json \<Rightarrow> json list" where
  "arr_of v = (case v of JArr xs \<Rightarrow> xs | _ \<Rightarrow> [])"

definition newest :: "nat \<Rightarrow> 'a list \<Rightarrow> 'a list" where
  "newest n xs = drop (length xs - n) xs"

definition dicts_of :: "json list \<Rightarrow> doc list" where
  "dicts_of xs = map obj_of (filter is_obj xs)"

definition present_int :: "doc \<Rightarrow> string \<Rightarrow> int option" where
  "present_int d k = (if has_key d k then Some (billing_int (dget d k)) else None)"

definition normalized_raw :: "doc \<Rightarrow> billing" where
  "normalized_raw raw =
    (let raw_receipts = arr_of (dget raw ''receipts'');
         receipts = newest BILLING_RECEIPT_LIMIT (map safe_billing_receipt (dicts_of raw_receipts));
         raw_attempts = arr_of (dget raw ''incurred_attempts'');
         attempts = newest BILLING_ATTEMPT_LIMIT
           (map (\<lambda>v. safe_billing_attempt (billing_int (dget v ''lease_generation'')) v) (dicts_of raw_attempts))
     in \<lparr>bl_cost = billing_cost (dget raw ''cost_usd''),
         bl_tokens = \<lparr>tk_input = present_int raw ''input_tokens'', tk_output = present_int raw ''output_tokens'',
           tk_total = present_int raw ''total_tokens''\<rparr>,
         bl_quanta = billing_int (dget raw ''quanta''),
         bl_last_generation = billing_int (dget raw ''last_lease_generation''),
         bl_receipts = receipts,
         bl_receipts_truncated = billing_int (dget raw ''receipts_truncated'')
           + max 0 (int (length raw_receipts) - int (length receipts)),
         bl_attempts = attempts,
         bl_attempts_truncated = billing_int (dget raw ''incurred_attempts_truncated'')
           + max 0 (int (length raw_attempts) - int (length attempts))\<rparr>)"

text \<open>The checkpoint is a JSON value (\<open>JNull\<close> for none).\<close>

definition normalized_billing :: "json \<Rightarrow> billing" where
  "normalized_billing checkpoint =
    (case dget (obj_of checkpoint) ''billing'' of JObj raw \<Rightarrow> normalized_raw raw | _ \<Rightarrow> empty_billing)"

definition billing_present :: "json \<Rightarrow> bool" where
  "billing_present usage \<longleftrightarrow> list_ex (has_key (obj_of usage))
     [''cost_usd'', ''input_tokens'', ''output_tokens'', ''total_tokens'', ''usage'', ''incurred_attempts'']"

subsection \<open>The merge\<close>

definition current_receipt :: "doc \<Rightarrow> int \<Rightarrow> receipt" where
  "current_receipt usage generation =
    \<lparr>rc_generation = generation, rc_cost = billing_cost (dget usage ''cost_usd''),
     rc_attempts = int (length (dicts_of (arr_of (dget usage ''incurred_attempts'')))),
     rc_tokens = usage_numbers usage,
     rc_plane = billing_plane (or_else (dget usage ''resolved_plane'') (dget usage ''plane''))\<rparr>"

definition max_count :: "int option \<Rightarrow> int option \<Rightarrow> int option" where
  "max_count a b = (if a = None \<and> b = None then None else Some (max (count_of a) (count_of b)))"

definition max_tokens :: "tokens \<Rightarrow> tokens \<Rightarrow> tokens" where
  "max_tokens s t =
    \<lparr>tk_input = max_count (tk_input s) (tk_input t), tk_output = max_count (tk_output s) (tk_output t),
     tk_total = max_count (tk_total s) (tk_total t)\<rparr>"

definition merged_receipt :: "receipt \<Rightarrow> receipt \<Rightarrow> receipt" where
  "merged_receipt prior cur =
    \<lparr>rc_generation = rc_generation prior, rc_cost = max (rc_cost prior) (rc_cost cur),
     rc_attempts = max (clamp_int (rc_attempts prior)) (clamp_int (rc_attempts cur)),
     rc_tokens = max_tokens (rc_tokens prior) (rc_tokens cur),
     rc_plane = (case rc_plane cur of None \<Rightarrow> rc_plane prior | Some p \<Rightarrow> Some p)\<rparr>"

definition added_count :: "int option \<Rightarrow> int option \<Rightarrow> int option \<Rightarrow> int option" where
  "added_count tot cur prior =
    (if cur = None \<and> prior = None then tot
     else Some (clamp_int (count_of tot + max 0 (count_of cur - count_of prior))))"

definition added_tokens :: "tokens \<Rightarrow> tokens \<Rightarrow> tokens \<Rightarrow> tokens" where
  "added_tokens tot cur prior =
    \<lparr>tk_input = added_count (tk_input tot) (tk_input cur) (tk_input prior),
     tk_output = added_count (tk_output tot) (tk_output cur) (tk_output prior),
     tk_total = added_count (tk_total tot) (tk_total cur) (tk_total prior)\<rparr>"

definition added_cost :: "rat \<Rightarrow> rat \<Rightarrow> rat \<Rightarrow> rat" where
  "added_cost tot cur prior =
    clamp_cost (float_add (Fin tot) (case float_of (cur - prior) of Fin q \<Rightarrow> Fin (max 0 q) | f \<Rightarrow> f))"

text \<open>What is added to the totals for a receipt that replaces \<open>prior\<close> (no receipt costs nothing).\<close>

definition no_receipt :: receipt where
  "no_receipt = \<lparr>rc_generation = 0, rc_cost = 0, rc_attempts = 0, rc_tokens = no_tokens, rc_plane = None\<rparr>"

definition add_totals :: "int \<Rightarrow> bool \<Rightarrow> receipt \<Rightarrow> receipt \<Rightarrow> billing \<Rightarrow> billing" where
  "add_totals generation is_new cur prior b =
    b\<lparr>bl_cost := added_cost (bl_cost b) (rc_cost cur) (rc_cost prior),
      bl_tokens := added_tokens (bl_tokens b) (rc_tokens cur) (rc_tokens prior),
      bl_quanta := (if is_new then clamp_int (bl_quanta b + 1) else bl_quanta b),
      bl_last_generation := max (bl_last_generation b) generation\<rparr>"

fun split_receipts :: "int \<Rightarrow> receipt list \<Rightarrow> (receipt list \<times> receipt \<times> receipt list) option" where
  "split_receipts g [] = None"
| "split_receipts g (r # rs) =
     (if rc_generation r = g then Some ([], r, rs)
      else map_option (\<lambda>(before, x, after). (r # before, x, after)) (split_receipts g rs))"

text \<open>The receipts part of \<open>merge_mission_billing\<close>: the snapshot with the new totals and receipts.\<close>

definition merge_receipt :: "int \<Rightarrow> receipt \<Rightarrow> billing \<Rightarrow> billing" where
  "merge_receipt generation cur b =
    (case split_receipts generation (bl_receipts b) of
       Some (before, prior, after) \<Rightarrow>
         let merged = safe_billing_receipt (receipt_json (merged_receipt prior cur))
         in add_totals generation False merged prior (b\<lparr>bl_receipts := before @ merged # after\<rparr>)
     | None \<Rightarrow>
         if bl_last_generation b < generation then
           let safe = safe_billing_receipt (receipt_json cur)
           in add_totals generation True cur no_receipt (b\<lparr>bl_receipts := bl_receipts b @ [safe]\<rparr>)
         else b)"

definition trim_receipts :: "billing \<Rightarrow> billing" where
  "trim_receipts b =
    (if BILLING_RECEIPT_LIMIT < length (bl_receipts b)
     then b\<lparr>bl_receipts := newest BILLING_RECEIPT_LIMIT (bl_receipts b),
            bl_receipts_truncated := clamp_int (bl_receipts_truncated b
              + int (length (bl_receipts b) - BILLING_RECEIPT_LIMIT))\<rparr>
     else b)"

fun add_attempts :: "attempt list \<Rightarrow> attempt list \<Rightarrow> attempt list" where
  "add_attempts known [] = known"
| "add_attempts known (a # as) = add_attempts (if a \<in> set known then known else known @ [a]) as"

definition trim_attempts :: "billing \<Rightarrow> billing" where
  "trim_attempts b =
    (if BILLING_ATTEMPT_LIMIT < length (bl_attempts b)
     then b\<lparr>bl_attempts := newest BILLING_ATTEMPT_LIMIT (bl_attempts b),
            bl_attempts_truncated := clamp_int (bl_attempts_truncated b
              + int (length (bl_attempts b) - BILLING_ATTEMPT_LIMIT))\<rparr>
     else b)"

definition usage_attempts :: "doc \<Rightarrow> int \<Rightarrow> attempt list" where
  "usage_attempts usage generation =
    map (safe_billing_attempt generation) (dicts_of (arr_of (dget usage ''incurred_attempts'')))"

definition checkpoint_of :: "billing \<Rightarrow> json" where
  "checkpoint_of b = JObj [(''billing'', JObj (billing_json b))]"

definition merge_mission_billing :: "json \<Rightarrow> json \<Rightarrow> int \<Rightarrow> billing" where
  "merge_mission_billing checkpoint usage lease_generation =
    (let b = normalized_billing checkpoint in
     if \<not> billing_present usage then b
     else let generation = clamp_int lease_generation; u = obj_of usage;
              b1 = trim_receipts (merge_receipt generation (current_receipt u generation) b);
              b2 = trim_attempts (b1\<lparr>bl_attempts := add_attempts (bl_attempts b1) (usage_attempts u generation)\<rparr>)
       in normalized_billing (checkpoint_of b2))"

subsection \<open>Projection onto an envelope\<close>

definition set_opt :: "string \<Rightarrow> json option \<Rightarrow> doc \<Rightarrow> doc" where
  "set_opt k v d = (case v of None \<Rightarrow> d | Some x \<Rightarrow> AList.update k x d)"

definition apply_mission_billing :: "doc \<Rightarrow> billing \<Rightarrow> doc" where
  "apply_mission_billing payload b =
    (let safe = normalized_billing (checkpoint_of b) in
     if bl_quanta safe = 0 \<and> bl_cost safe = 0 then payload
     else AList.update ''mission_billing'' (JObj (billing_json safe))
       ((if bl_attempts safe \<noteq> []
         then AList.update ''incurred_attempts'' (JArr (map (JObj \<circ> attempt_json) (bl_attempts safe)))
         else AList.delete ''incurred_attempts'')
        (set_opt ''total_tokens'' (map_option JInt (tk_total (bl_tokens safe)))
          (set_opt ''output_tokens'' (map_option JInt (tk_output (bl_tokens safe)))
            (set_opt ''input_tokens'' (map_option JInt (tk_input (bl_tokens safe)))
              (AList.update ''cost_usd'' (JFloat (Fin (bl_cost safe))) payload))))))"

definition apply_checkpoint_billing :: "doc \<Rightarrow> json \<Rightarrow> doc" where
  "apply_checkpoint_billing payload checkpoint = apply_mission_billing payload (normalized_billing checkpoint)"

definition billing_with_result :: "json \<Rightarrow> doc \<Rightarrow> int \<Rightarrow> billing" where
  "billing_with_result checkpoint result generation =
    merge_mission_billing checkpoint (JObj result) generation"

end
