(* ===== verification/Mission_Billing_Facts.thy ===== *)
theory Mission_Billing_Facts
  imports Mission_Billing
begin

text \<open>
  The invariant of billing snapshots, the round trip through the stored checkpoint, and the replay of a
  quantum: the lease generation is an idempotency key.
\<close>

subsection \<open>Well-formed snapshots\<close>

definition int_ok :: "int \<Rightarrow> bool" where
  "int_ok n \<longleftrightarrow> 0 \<le> n \<and> n \<le> BILLING_INT_LIMIT"

definition cost_ok :: "rat \<Rightarrow> bool" where
  "cost_ok c \<longleftrightarrow> 0 \<le> c \<and> c \<le> BILLING_COST_LIMIT \<and> is_float c"

definition opt_ok :: "('a \<Rightarrow> bool) \<Rightarrow> 'a option \<Rightarrow> bool" where
  "opt_ok P v \<longleftrightarrow> (\<forall>x. v = Some x \<longrightarrow> P x)"

definition counts_ok :: "tokens \<Rightarrow> bool" where
  "counts_ok t \<longleftrightarrow> opt_ok int_ok (tk_input t) \<and> opt_ok int_ok (tk_output t) \<and> opt_ok int_ok (tk_total t)"

definition tokens_ok :: "tokens \<Rightarrow> bool" where
  "tokens_ok t \<longleftrightarrow> counts_ok t \<and> (tk_input t \<noteq> None \<or> tk_output t \<noteq> None \<longrightarrow> tk_total t \<noteq> None)"

definition plane_ok :: "string option \<Rightarrow> bool" where
  "plane_ok p \<longleftrightarrow> p \<in> {None, Some ''api'', Some ''cli'', Some ''mixed''}"

definition receipt_ok :: "receipt \<Rightarrow> bool" where
  "receipt_ok r \<longleftrightarrow> int_ok (rc_generation r) \<and> cost_ok (rc_cost r) \<and> int_ok (rc_attempts r)
     \<and> tokens_ok (rc_tokens r) \<and> plane_ok (rc_plane r)"

definition attempt_ok :: "attempt \<Rightarrow> bool" where
  "attempt_ok a \<longleftrightarrow> int_ok (at_generation a) \<and> cost_ok (at_cost a) \<and> tokens_ok (at_tokens a)
     \<and> plane_ok (at_plane a) \<and> opt_ok (\<lambda>l. l \<in> set SAFE_BILLING_STAGES) (at_stage a)
     \<and> opt_ok (\<lambda>l. l \<in> set SAFE_BILLING_OUTCOMES) (at_outcome a)"

text \<open>A snapshot before the truncation counters are considered.\<close>

definition parts_ok :: "billing \<Rightarrow> bool" where
  "parts_ok b \<longleftrightarrow> cost_ok (bl_cost b) \<and> counts_ok (bl_tokens b) \<and> int_ok (bl_quanta b)
     \<and> int_ok (bl_last_generation b) \<and> (\<forall>r \<in> set (bl_receipts b). receipt_ok r)
     \<and> (\<forall>a \<in> set (bl_attempts b). attempt_ok a)"

definition sizes_ok :: "billing \<Rightarrow> bool" where
  "sizes_ok b \<longleftrightarrow> length (bl_receipts b) \<le> BILLING_RECEIPT_LIMIT \<and> length (bl_attempts b) \<le> BILLING_ATTEMPT_LIMIT"

definition counters_ok :: "billing \<Rightarrow> bool" where
  "counters_ok b \<longleftrightarrow> int_ok (bl_receipts_truncated b) \<and> int_ok (bl_attempts_truncated b)"

lemma limit_pos [simp]: "0 < BILLING_COST_LIMIT" "BILLING_COST_LIMIT \<noteq> 0" "0 \<le> BILLING_COST_LIMIT"
  by (simp_all add: BILLING_COST_LIMIT_def)

lemma is_float_limit: "is_float BILLING_COST_LIMIT"
  using round_pos_small [of 1000000000 0]
  by (simp add: is_float_def BILLING_COST_LIMIT_def float_of_def float_round_def)

lemma clamp_int_ok [simp]: "int_ok (clamp_int n)"
  by (simp add: int_ok_def clamp_int_def BILLING_INT_LIMIT_def)

lemma clamp_int_id: "int_ok n \<Longrightarrow> clamp_int n = n"
  by (simp add: int_ok_def clamp_int_def)

lemma clamp_cost_ok: "(\<And>q. f = Fin q \<Longrightarrow> is_float q) \<Longrightarrow> cost_ok (clamp_cost f)"
  using is_float_limit
  by (cases f) (auto simp: clamp_cost_def cost_ok_def min_def max_def)

lemma float_of_clamped: "cost_ok (clamp_cost (float_of q))"
  by (rule clamp_cost_ok) (rule float_of_is_float)

lemma billing_int_ok [simp]: "int_ok (billing_int v)"
  by (simp add: billing_int_def int_ok_def BILLING_INT_LIMIT_def clamp_int_def split: sum.split)

lemma is_float_1 [simp]: "is_float 1"
  using round_pos_small [of 1 0] by (simp add: is_float_def float_of_def float_round_def)

lemma float_of_text_is_float: "float_of_text t = Some (Fin q) \<Longrightarrow> is_float q"
  by (auto simp: float_of_text_def Let_def dest: float_of_is_float split: if_splits prod.splits)

lemma py_float_is_float: "py_float v = Inr (Fin q) \<Longrightarrow> is_float q"
  by (induction v rule: py_float.induct)
    (auto simp: float_of_int_def dest: float_of_is_float float_of_text_is_float
      split: pyfloat.splits option.splits if_splits sum.splits)

lemma cost_ok_0 [simp]: "cost_ok 0"
  by (simp add: cost_ok_def)

lemma billing_cost_ok [simp]: "cost_ok (billing_cost v)"
  by (auto simp: billing_cost_def split: sum.split intro: clamp_cost_ok py_float_is_float)

lemma float_of_0: "float_of 0 = Fin 0"
  using is_float_0 by (simp add: is_float_def)

lemma billing_cost_float: "cost_ok c \<Longrightarrow> billing_cost (JFloat (Fin c)) = c"
  by (cases "c = 0") (auto simp: billing_cost_def or_else_def cost_ok_def clamp_cost_def is_float_def float_of_0)

lemma billing_int_int: "int_ok n \<Longrightarrow> billing_int (JInt n) = n"
  by (auto simp: billing_int_def or_else_def clamp_int_id)

lemma int_ok_0 [simp]: "int_ok 0"
  by (simp add: int_ok_def BILLING_INT_LIMIT_def)

lemma count_of_ok: "opt_ok int_ok v \<Longrightarrow> int_ok (count_of v)"
  by (auto simp: opt_ok_def count_of_def split: option.split)

lemma first_key_ok: "opt_ok int_ok (first_key sources keys)"
  by (induction sources keys rule: first_key.induct) (auto simp: opt_ok_def split: list.split)

lemma usage_numbers_ok [simp]: "tokens_ok (usage_numbers d)"
  using first_key_ok by (auto simp: usage_numbers_def tokens_ok_def counts_ok_def Let_def opt_ok_def)

lemma billing_plane_ok [simp]: "plane_ok (billing_plane v)"
  by (auto simp: billing_plane_def SAFE_BILLING_PLANES_def plane_ok_def)

lemma safe_label_ok [simp]: "opt_ok (\<lambda>l. l \<in> set allowed) (safe_label allowed v)"
  by (simp add: safe_label_def opt_ok_def)

lemma safe_receipt_ok [simp]: "receipt_ok (safe_billing_receipt d)"
  by (simp add: safe_billing_receipt_def receipt_ok_def)

lemma safe_attempt_ok [simp]: "attempt_ok (safe_billing_attempt g d)"
  by (simp add: safe_billing_attempt_def attempt_ok_def)

subsection \<open>Reading back\<close>

lemma map_of_opt_entry [simp]: "map_of (opt_entry k f v) k' = (if k' = k then map_option f v else None)"
  by (cases v) (simp_all add: opt_entry_def)

lemma plane_read [simp]:
  "billing_plane (JStr ''api'') = Some ''api''" "billing_plane (JStr ''cli'') = Some ''cli''"
  "billing_plane (JStr ''mixed'') = Some ''mixed''" "billing_plane JNull = None"
  by code_simp+

lemma plane_back: "plane_ok p \<Longrightarrow> billing_plane (case map_option JStr p of None \<Rightarrow> JNull | Some v \<Rightarrow> v) = p"
  by (auto simp: plane_ok_def)

lemma labels_lower:
  "list_all (\<lambda>l. lower_label (JStr l) = l) SAFE_BILLING_STAGES"
  "list_all (\<lambda>l. lower_label (JStr l) = l) SAFE_BILLING_OUTCOMES"
  "lower_label JNull \<notin> set SAFE_BILLING_STAGES" "lower_label JNull \<notin> set SAFE_BILLING_OUTCOMES"
  by code_simp+

lemma label_back:
  assumes "list_all (\<lambda>l. lower_label (JStr l) = l) allowed" "lower_label JNull \<notin> set allowed"
    and "opt_ok (\<lambda>l. l \<in> set allowed) v"
  shows "safe_label allowed (case map_option JStr v of None \<Rightarrow> JNull | Some x \<Rightarrow> x) = v"
  using assms by (cases v) (auto simp: safe_label_def opt_ok_def list_all_iff)

definition hides :: "doc \<Rightarrow> string list \<Rightarrow> bool" where
  "hides d ks \<longleftrightarrow> (\<forall>k \<in> set ks. map_of d k = None)"

lemma usage_numbers_back:
  assumes "tokens_ok t" "map_of d ''input_tokens'' = map_option JInt (tk_input t)"
    "map_of d ''output_tokens'' = map_option JInt (tk_output t)"
    "map_of d ''total_tokens'' = map_option JInt (tk_total t)"
    "hides d [''prompt_tokens'', ''inputTokens'', ''promptTokens'', ''completion_tokens'', ''outputTokens'',
       ''completionTokens'', ''totalTokens'', ''usage'']"
  shows "usage_numbers d = t"
  using assms billing_int_int
  by (cases t) (auto simp: usage_numbers_def hides_def has_key_def dget_def tokens_ok_def counts_ok_def opt_ok_def Let_def)

lemma tokens_json_map [simp]:
  "map_of (tokens_json t) k = (if k = ''input_tokens'' then map_option JInt (tk_input t)
     else if k = ''output_tokens'' then map_option JInt (tk_output t)
     else if k = ''total_tokens'' then map_option JInt (tk_total t) else None)"
  by (simp add: tokens_json_def map_add_def split: option.split)

lemma receipt_back: "receipt_ok r \<Longrightarrow> safe_billing_receipt (receipt_json r) = r"
proof -
  assume r: "receipt_ok r"
  have "usage_numbers (receipt_json r) = rc_tokens r"
    by (rule usage_numbers_back)
      (use r in \<open>auto simp: receipt_json_def receipt_ok_def hides_def map_add_def split: option.split\<close>)
  moreover have "billing_plane (dget (receipt_json r) ''plane'') = rc_plane r"
    using r plane_back [of "rc_plane r"] by (simp add: receipt_json_def receipt_ok_def dget_def map_add_def)
  ultimately show ?thesis
    using r by (cases r) (simp add: safe_billing_receipt_def receipt_json_def receipt_ok_def dget_def map_add_def
        billing_int_int billing_cost_float)
qed

lemma attempt_back: "attempt_ok a \<Longrightarrow>
  safe_billing_attempt (billing_int (dget (attempt_json a) ''lease_generation'')) (attempt_json a) = a"
proof -
  assume a: "attempt_ok a"
  have "usage_numbers (attempt_json a) = at_tokens a"
    by (rule usage_numbers_back)
      (use a in \<open>auto simp: attempt_json_def attempt_ok_def hides_def map_add_def split: option.split\<close>)
  moreover have "billing_plane (or_else (dget (attempt_json a) ''plane'') (dget (attempt_json a) ''resolved_plane''))
      = at_plane a"
    using a by (auto simp: attempt_json_def attempt_ok_def dget_def map_add_def plane_ok_def or_else_def)
  moreover have "safe_label SAFE_BILLING_STAGES (dget (attempt_json a) ''stage'') = at_stage a"
    using a label_back [OF labels_lower(1,3), of "at_stage a"]
    by (cases "at_stage a") (simp_all add: attempt_json_def attempt_ok_def dget_def map_add_def)
  moreover have "safe_label SAFE_BILLING_OUTCOMES (dget (attempt_json a) ''outcome'') = at_outcome a"
    using a label_back [OF labels_lower(2,4), of "at_outcome a"]
    by (cases "at_outcome a") (simp_all add: attempt_json_def attempt_ok_def dget_def map_add_def)
  ultimately show ?thesis
    using a by (cases a) (simp add: safe_billing_attempt_def attempt_json_def attempt_ok_def dget_def map_add_def
        billing_int_int billing_cost_float clamp_int_id)
qed

lemma newest_all [simp]: "length xs \<le> n \<Longrightarrow> newest n xs = xs"
  by (simp add: newest_def)

lemma newest_length [simp]: "length (newest n xs) = min n (length xs)"
  by (auto simp: newest_def)

lemma set_newest: "set (newest n xs) \<subseteq> set xs"
  by (simp add: newest_def set_drop_subset)

lemma dicts_of_map [simp]: "dicts_of (map (JObj \<circ> f) xs) = map f xs"
  by (induction xs) (simp_all add: dicts_of_def)

lemma receipts_back: "\<forall>r \<in> set rs. receipt_ok r \<Longrightarrow> map safe_billing_receipt (map receipt_json rs) = rs"
  by (induction rs) (simp_all add: receipt_back)

lemma attempts_back: "\<forall>a \<in> set as. attempt_ok a \<Longrightarrow>
  map (\<lambda>v. safe_billing_attempt (billing_int (dget v ''lease_generation'')) v) (map attempt_json as) = as"
  by (induction as) (simp_all add: attempt_back)

definition clamp_counters :: "billing \<Rightarrow> billing" where
  "clamp_counters b = b\<lparr>bl_receipts_truncated := clamp_int (bl_receipts_truncated b),
     bl_attempts_truncated := clamp_int (bl_attempts_truncated b)\<rparr>"

lemma billing_int_clamp: "billing_int (JInt n) = clamp_int n"
  by (auto simp: billing_int_def or_else_def)

lemma present_back: "opt_ok int_ok c \<Longrightarrow> map_of d k = map_option JInt c \<Longrightarrow> present_int d k = c"
  by (cases c) (auto simp: present_int_def has_key_def dget_def opt_ok_def billing_int_int)

lemma normalized_back:
  assumes "parts_ok b" "sizes_ok b" "dget (obj_of cp) ''billing'' = JObj (billing_json b)"
  shows "normalized_billing cp = clamp_counters b"
proof -
  have "present_int (billing_json b) ''input_tokens'' = tk_input (bl_tokens b)"
    "present_int (billing_json b) ''output_tokens'' = tk_output (bl_tokens b)"
    "present_int (billing_json b) ''total_tokens'' = tk_total (bl_tokens b)"
    using assms(1) by (intro present_back; simp add: billing_json_def parts_ok_def counts_ok_def)+
  moreover have "billing_cost (dget (billing_json b) ''cost_usd'') = bl_cost b"
    "billing_int (dget (billing_json b) ''quanta'') = bl_quanta b"
    "billing_int (dget (billing_json b) ''last_lease_generation'') = bl_last_generation b"
    "arr_of (dget (billing_json b) ''receipts'') = map (JObj \<circ> receipt_json) (bl_receipts b)"
    "arr_of (dget (billing_json b) ''incurred_attempts'') = map (JObj \<circ> attempt_json) (bl_attempts b)"
    "billing_int (dget (billing_json b) ''receipts_truncated'') = clamp_int (bl_receipts_truncated b)"
    "billing_int (dget (billing_json b) ''incurred_attempts_truncated'') = clamp_int (bl_attempts_truncated b)"
    using assms(1) by (simp_all add: billing_json_def dget_def arr_of_def parts_ok_def billing_cost_float
        billing_int_clamp clamp_int_id)
  moreover note receipts_back [of "bl_receipts b"] attempts_back [of "bl_attempts b"]
  ultimately have "normalized_raw (billing_json b) = clamp_counters b"
    using assms(1,2)
    by (cases b) (simp add: normalized_raw_def Let_def parts_ok_def sizes_ok_def clamp_counters_def
        del: map_map)
  then show ?thesis using assms(3) by (simp add: normalized_billing_def)
qed

lemma normalized_wf: "parts_ok (normalized_billing cp) \<and> sizes_ok (normalized_billing cp)"
proof -
  have "parts_ok (normalized_raw raw) \<and> sizes_ok (normalized_raw raw)" for raw
    by (auto simp: normalized_raw_def Let_def parts_ok_def sizes_ok_def counts_ok_def opt_ok_def present_int_def
        dest!: subsetD [OF set_newest])
  moreover have "parts_ok empty_billing \<and> sizes_ok empty_billing"
    by (simp add: parts_ok_def sizes_ok_def empty_billing_def counts_ok_def no_tokens_def opt_ok_def)
  ultimately show ?thesis by (simp add: normalized_billing_def split: json.split)
qed

lemma clamp_counters_id: "counters_ok b \<Longrightarrow> clamp_counters b = b"
  by (simp add: counters_ok_def clamp_counters_def clamp_int_id)

definition wf_billing :: "billing \<Rightarrow> bool" where
  "wf_billing b \<longleftrightarrow> parts_ok b \<and> sizes_ok b \<and> counters_ok b"

lemma clamp_counters_wf: "parts_ok b \<Longrightarrow> sizes_ok b \<Longrightarrow> wf_billing (clamp_counters b)"
  by (simp add: wf_billing_def clamp_counters_def parts_ok_def sizes_ok_def counters_ok_def)

text \<open>A well-formed billing snapshot survives the round trip through the mission checkpoint: printed
  into a stored checkpoint, whatever else that holds, and read back it is the same snapshot, with every
  receipt, attempt and counter.\<close>
theorem billing_roundtrip:
  assumes "wf_billing b" "dget (obj_of checkpoint) ''billing'' = JObj (billing_json b)"
  shows "normalized_billing checkpoint = b"
  using assms normalized_back [of b checkpoint] by (simp add: wf_billing_def clamp_counters_id)

lemma empty_billing_wf: "wf_billing empty_billing"
  by (simp add: wf_billing_def parts_ok_def sizes_ok_def counters_ok_def empty_billing_def counts_ok_def
      no_tokens_def opt_ok_def)

theorem billing_roundtrip_witness: "normalized_billing (checkpoint_of empty_billing) = empty_billing"
  by (rule billing_roundtrip [OF empty_billing_wf]) (simp add: checkpoint_of_def dget_def)

subsection \<open>Replaying a quantum\<close>

lemma split_receipts_Some:
  "split_receipts g rs = Some (before, r, after) \<Longrightarrow>
   rs = before @ r # after \<and> rc_generation r = g \<and> (\<forall>x \<in> set before. rc_generation x \<noteq> g)"
  by (induction rs arbitrary: before) (auto split: if_splits)

lemma split_receipts_None: "split_receipts g rs = None \<longleftrightarrow> (\<forall>x \<in> set rs. rc_generation x \<noteq> g)"
  by (induction rs) auto

lemma split_receipts_at:
  "\<forall>x \<in> set before. rc_generation x \<noteq> g \<Longrightarrow> rc_generation r = g \<Longrightarrow>
   split_receipts g (before @ r # after) = Some (before, r, after)"
  by (induction before) auto

definition covers :: "tokens \<Rightarrow> tokens \<Rightarrow> bool" where
  "covers t s \<longleftrightarrow> (tk_input s \<noteq> None \<longrightarrow> tk_input t \<noteq> None) \<and> (tk_output s \<noteq> None \<longrightarrow> tk_output t \<noteq> None)
     \<and> (tk_total s \<noteq> None \<longrightarrow> tk_total t \<noteq> None)"

text \<open>The receipt of this quantum is already in the snapshot, or its generation is long past.\<close>

definition settled :: "int \<Rightarrow> receipt \<Rightarrow> billing \<Rightarrow> bool" where
  "settled g cur b \<longleftrightarrow> g \<le> bl_last_generation b
     \<and> (case split_receipts g (bl_receipts b) of
          None \<Rightarrow> True
        | Some (before, prior, after) \<Rightarrow> merged_receipt prior cur = prior \<and> covers (bl_tokens b) (rc_tokens prior))"

lemma added_count_same: "opt_ok int_ok t \<Longrightarrow> (c \<noteq> None \<longrightarrow> t \<noteq> None) \<Longrightarrow> added_count t c c = t"
  by (auto simp: added_count_def opt_ok_def count_of_def clamp_int_id)

lemma added_tokens_same: "counts_ok t \<Longrightarrow> covers t s \<Longrightarrow> added_tokens t s s = t"
  by (cases t) (simp add: added_tokens_def counts_ok_def covers_def added_count_same)

lemma added_cost_same: "cost_ok c \<Longrightarrow> added_cost c x x = c"
  by (simp add: added_cost_def float_of_0 cost_ok_def is_float_def clamp_cost_def)

lemma merge_receipt_settled:
  assumes "parts_ok b" "settled g cur b"
  shows "merge_receipt g cur b = b"
proof (cases "split_receipts g (bl_receipts b)")
  case None
  with assms(2) show ?thesis by (simp add: merge_receipt_def settled_def)
next
  case (Some p)
  obtain before prior after where p: "p = (before, prior, after)" by (cases p)
  with Some have rs: "bl_receipts b = before @ prior # after" using split_receipts_Some by simp
  then have "receipt_ok prior" using assms(1) by (simp add: parts_ok_def)
  with assms(2) Some p have same: "safe_billing_receipt (receipt_json (merged_receipt prior cur)) = prior"
    and cov: "covers (bl_tokens b) (rc_tokens prior)" and g: "g \<le> bl_last_generation b"
    by (simp_all add: settled_def receipt_back)
  have "add_totals g False prior prior (b\<lparr>bl_receipts := before @ prior # after\<rparr>) = b"
    using assms(1) cov g rs
    by (cases b) (simp add: add_totals_def parts_ok_def added_cost_same added_tokens_same)
  with Some p same show ?thesis by (simp add: merge_receipt_def)
qed

lemma max_count_same [simp]: "max_count (max_count a b) b = max_count a b" "max_count a a = a"
  by (auto simp: max_count_def count_of_def split: option.split)

lemma clamp_int_max: "clamp_int (max a b) = max (clamp_int a) (clamp_int b)"
  by (simp add: clamp_int_def min_max_distrib2 max.assoc max.left_commute)

lemma clamp_int_idem [simp]: "clamp_int (clamp_int n) = clamp_int n"
  by (simp add: clamp_int_id)

lemma merged_twice: "merged_receipt (merged_receipt prior cur) cur = merged_receipt prior cur"
  by (simp add: merged_receipt_def max_tokens_def clamp_int_max max.assoc split: option.split)

lemma max_cost_ok: "cost_ok a \<Longrightarrow> cost_ok b \<Longrightarrow> cost_ok (max a b)"
  by (simp add: max_def)

lemma max_count_ok: "opt_ok int_ok a \<Longrightarrow> opt_ok int_ok b \<Longrightarrow> opt_ok int_ok (max_count a b)"
  by (auto simp: max_count_def opt_ok_def count_of_def max_def split: option.splits)

lemma max_tokens_ok: "tokens_ok s \<Longrightarrow> tokens_ok t \<Longrightarrow> tokens_ok (max_tokens s t)"
  by (auto simp: tokens_ok_def counts_ok_def max_tokens_def max_count_ok) (auto simp: max_count_def)

text \<open>What the current receipt of a quantum satisfies.\<close>

definition current_ok :: "receipt \<Rightarrow> bool" where
  "current_ok r \<longleftrightarrow> int_ok (rc_generation r) \<and> cost_ok (rc_cost r) \<and> 0 \<le> rc_attempts r
     \<and> tokens_ok (rc_tokens r) \<and> plane_ok (rc_plane r)"

lemma current_receipt_ok: "int_ok g \<Longrightarrow> current_ok (current_receipt u g)"
  by (simp add: current_ok_def current_receipt_def)

lemma merged_receipt_ok: "receipt_ok prior \<Longrightarrow> current_ok cur \<Longrightarrow> receipt_ok (merged_receipt prior cur)"
  by (auto simp: receipt_ok_def current_ok_def merged_receipt_def max_tokens_ok max_cost_ok max_def
      split: option.split)

lemma safe_current:
  assumes "current_ok cur"
  shows "safe_billing_receipt (receipt_json cur) = cur\<lparr>rc_attempts := clamp_int (rc_attempts cur)\<rparr>"
proof -
  let ?safe = "cur\<lparr>rc_attempts := clamp_int (rc_attempts cur)\<rparr>"
  have "safe_billing_receipt (receipt_json cur) = safe_billing_receipt (receipt_json ?safe)"
  proof -
    have "usage_numbers (receipt_json cur) = rc_tokens cur" "usage_numbers (receipt_json ?safe) = rc_tokens cur"
      by (rule usage_numbers_back;
          use assms in \<open>auto simp: receipt_json_def current_ok_def hides_def map_add_def split: option.split\<close>)+
    then show ?thesis
      by (simp add: safe_billing_receipt_def receipt_json_def dget_def map_add_def billing_int_clamp clamp_int_id)
  qed
  also have "\<dots> = ?safe" using assms by (intro receipt_back) (simp add: current_ok_def receipt_ok_def)
  finally show ?thesis .
qed

lemma merged_fresh:
  "current_ok cur \<Longrightarrow> merged_receipt (cur\<lparr>rc_attempts := clamp_int (rc_attempts cur)\<rparr>) cur
     = cur\<lparr>rc_attempts := clamp_int (rc_attempts cur)\<rparr>"
  by (cases cur, cases "rc_tokens cur") (simp add: merged_receipt_def max_tokens_def split: option.split)

lemma float_add_is_float: "float_add a b = Fin q \<Longrightarrow> is_float q"
  by (cases a; cases b) (auto dest: float_of_is_float)

lemma added_cost_ok: "cost_ok (added_cost t c p)"
  unfolding added_cost_def by (rule clamp_cost_ok) (rule float_add_is_float)

lemma added_count_ok: "opt_ok int_ok t \<Longrightarrow> opt_ok int_ok (added_count t c p)"
  by (simp add: added_count_def opt_ok_def)

lemma add_totals_parts:
  "parts_ok b \<Longrightarrow> int_ok g \<Longrightarrow> parts_ok (add_totals g n cur prior b)"
  by (auto simp: add_totals_def parts_ok_def added_cost_ok counts_ok_def added_tokens_def added_count_ok max_def)

lemma added_covers:
  "covers (added_tokens t c p) c" "covers (added_tokens t c p) p"
  by (auto simp: covers_def added_tokens_def added_count_def)

lemma max_int_ok: "int_ok a \<Longrightarrow> int_ok b \<Longrightarrow> int_ok (max a b)"
  by (simp add: max_def)

text \<open>The receipts of \<open>merge_receipt\<close> after trimming: well-formed, bounded, and settled for the quantum.\<close>

definition receipts_done :: "int \<Rightarrow> receipt \<Rightarrow> billing \<Rightarrow> billing \<Rightarrow> bool" where
  "receipts_done g cur b m \<longleftrightarrow> parts_ok m \<and> length (bl_receipts m) \<le> BILLING_RECEIPT_LIMIT \<and> settled g cur m
     \<and> bl_attempts m = bl_attempts b \<and> bl_attempts_truncated m = bl_attempts_truncated b"

lemma merge_existing:
  assumes "parts_ok b" "sizes_ok b" "current_ok cur" "int_ok g"
    and "split_receipts g (bl_receipts b) = Some (before, prior, after)"
  shows "receipts_done g cur b (trim_receipts (merge_receipt g cur b))"
proof -
  note rs = split_receipts_Some [OF assms(5)]
  let ?m = "merged_receipt prior cur"
  have prior: "receipt_ok prior" using assms(1) rs by (simp add: parts_ok_def)
  then have ok: "receipt_ok ?m" using assms(3) by (rule merged_receipt_ok)
  let ?b = "add_totals g False ?m prior (b\<lparr>bl_receipts := before @ ?m # after\<rparr>)"
  have merge: "merge_receipt g cur b = ?b"
    using assms(5) ok by (simp add: merge_receipt_def receipt_back Let_def)
  have len: "length (bl_receipts ?b) \<le> BILLING_RECEIPT_LIMIT"
    using assms(2) rs by (simp add: add_totals_def sizes_ok_def)
  have "parts_ok (b\<lparr>bl_receipts := before @ ?m # after\<rparr>)"
    using assms(1) ok rs by (auto simp: parts_ok_def)
  then have "parts_ok ?b" using assms(4) by (rule add_totals_parts)
  moreover have "split_receipts g (before @ ?m # after) = Some (before, ?m, after)"
    using rs by (intro split_receipts_at) (simp_all add: merged_receipt_def)
  then have "settled g cur ?b"
    by (simp add: settled_def add_totals_def merged_twice added_covers)
  ultimately show ?thesis
    using len by (simp add: merge receipts_done_def trim_receipts_def) (simp add: add_totals_def)
qed

lemma merge_new:
  assumes "parts_ok b" "sizes_ok b" "current_ok cur" "int_ok g" "rc_generation cur = g"
    and "split_receipts g (bl_receipts b) = None" "bl_last_generation b < g"
  shows "receipts_done g cur b (trim_receipts (merge_receipt g cur b))"
proof -
  let ?safe = "cur\<lparr>rc_attempts := clamp_int (rc_attempts cur)\<rparr>"
  let ?b = "add_totals g True cur no_receipt (b\<lparr>bl_receipts := bl_receipts b @ [?safe]\<rparr>)"
  let ?t = "trim_receipts ?b"
  have merge: "merge_receipt g cur b = ?b"
    using assms(3,6,7) by (simp add: merge_receipt_def safe_current Let_def)
  have ok: "receipt_ok ?safe" using assms(3) by (simp add: current_ok_def receipt_ok_def)
  have none: "\<forall>x \<in> set (bl_receipts b). rc_generation x \<noteq> g" using assms(6) by (simp add: split_receipts_None)
  have "parts_ok (b\<lparr>bl_receipts := bl_receipts b @ [?safe]\<rparr>)"
    using assms(1) ok by (auto simp: parts_ok_def)
  then have parts: "parts_ok ?b" using assms(4) by (rule add_totals_parts)
  obtain old where receipts: "bl_receipts ?t = old @ [?safe]" and old: "set old \<subseteq> set (bl_receipts b)"
  proof (cases "BILLING_RECEIPT_LIMIT < length (bl_receipts ?b)")
    case True
    then have "bl_receipts ?t = newest BILLING_RECEIPT_LIMIT (bl_receipts b @ [?safe])"
      by (simp add: trim_receipts_def add_totals_def)
    also have "\<dots> = drop (Suc (length (bl_receipts b)) - BILLING_RECEIPT_LIMIT) (bl_receipts b) @ [?safe]"
      by (simp add: newest_def BILLING_RECEIPT_LIMIT_def)
    finally show ?thesis by (rule that) (simp add: set_drop_subset)
  next
    case False
    then show ?thesis by (intro that [of "bl_receipts b"]) (simp_all add: trim_receipts_def add_totals_def)
  qed
  have "split_receipts g (old @ ?safe # []) = Some (old, ?safe, [])"
    using none old assms(5) by (intro split_receipts_at) auto
  moreover have "bl_tokens ?t = added_tokens (bl_tokens b) (rc_tokens cur) no_tokens" "g \<le> bl_last_generation ?t"
    "bl_attempts ?t = bl_attempts b" "bl_attempts_truncated ?t = bl_attempts_truncated b"
    by (simp_all add: trim_receipts_def add_totals_def no_receipt_def)
  moreover have "parts_ok ?t"
    using parts set_newest by (force simp: trim_receipts_def parts_ok_def)
  moreover have "length (bl_receipts ?t) \<le> BILLING_RECEIPT_LIMIT"
    by (simp add: trim_receipts_def)
  ultimately show ?thesis
    using receipts assms(3) by (simp add: merge receipts_done_def settled_def merged_fresh added_covers)
qed

lemma merge_receipts_done:
  assumes "parts_ok b" "sizes_ok b" "current_ok cur" "int_ok g" "rc_generation cur = g"
  shows "receipts_done g cur b (trim_receipts (merge_receipt g cur b))"
proof (cases "split_receipts g (bl_receipts b)")
  case (Some p)
  then show ?thesis using merge_existing [OF assms(1-4)] by (cases p) blast
next
  case None
  show ?thesis
  proof (cases "bl_last_generation b < g")
    case True
    with None show ?thesis using merge_new [OF assms] by blast
  next
    case False
    with None assms(1,2) show ?thesis
      by (simp add: merge_receipt_def trim_receipts_def receipts_done_def sizes_ok_def settled_def)
  qed
qed

subsection \<open>The whole merge\<close>

lemma add_attempts_set: "set (add_attempts known as) = set known \<union> set as"
  by (induction known as rule: add_attempts.induct) auto

lemma add_attempts_known: "set as \<subseteq> set known \<Longrightarrow> add_attempts known as = known"
  by (induction known as rule: add_attempts.induct) auto

lemma add_attempts_length: "length (add_attempts known as) \<le> length known + length as"
proof (induction known as rule: add_attempts.induct)
  case (2 known a as)
  then show ?case by (cases "a \<in> set known") simp_all
qed simp

lemma usage_attempts_ok: "\<forall>a \<in> set (usage_attempts u g). attempt_ok a"
  by (auto simp: usage_attempts_def)

definition with_attempts :: "doc \<Rightarrow> int \<Rightarrow> billing \<Rightarrow> billing" where
  "with_attempts u g m = trim_attempts (m\<lparr>bl_attempts := add_attempts (bl_attempts m) (usage_attempts u g)\<rparr>)"

lemma with_attempts_parts: "parts_ok m \<Longrightarrow> parts_ok (with_attempts u g m)"
  using usage_attempts_ok [of u g] set_newest
  by (force simp: with_attempts_def trim_attempts_def parts_ok_def add_attempts_set)

lemma with_attempts_sizes: "length (bl_receipts m) \<le> BILLING_RECEIPT_LIMIT \<Longrightarrow> sizes_ok (with_attempts u g m)"
  by (simp add: with_attempts_def trim_attempts_def sizes_ok_def)

lemma settled_cong:
  "bl_receipts b' = bl_receipts b \<Longrightarrow> bl_tokens b' = bl_tokens b \<Longrightarrow> bl_last_generation b' = bl_last_generation b \<Longrightarrow>
   settled g cur b' = settled g cur b"
  by (simp add: settled_def split: option.split)

lemma with_attempts_settled: "settled g cur (with_attempts u g' m) = settled g cur m"
  by (rule settled_cong) (simp_all add: with_attempts_def trim_attempts_def)

text \<open>The part of a snapshot that is money: everything but the list of attempts.\<close>

definition ledger_of :: "billing \<Rightarrow> billing" where
  "ledger_of b = b\<lparr>bl_attempts := [], bl_attempts_truncated := 0\<rparr>"

lemma with_attempts_ledger: "ledger_of (with_attempts u g m) = ledger_of m"
  by (simp add: with_attempts_def trim_attempts_def ledger_of_def)

lemma merge_unfold:
  fixes u :: doc and g generation :: int and cp usage :: json and m :: billing
  assumes "billing_present usage"
  defines "u \<equiv> obj_of usage" and "g \<equiv> clamp_int generation"
  defines "m \<equiv> trim_receipts (merge_receipt g (current_receipt u g) (normalized_billing cp))"
  shows "merge_mission_billing cp usage generation = clamp_counters (with_attempts u g m)"
    and "receipts_done g (current_receipt u g) (normalized_billing cp) m"
proof -
  show rd: "receipts_done g (current_receipt u g) (normalized_billing cp) m"
    unfolding m_def using normalized_wf
    by (intro merge_receipts_done current_receipt_ok) (simp_all add: g_def current_receipt_def)
  have "normalized_billing (checkpoint_of (with_attempts u g m)) = clamp_counters (with_attempts u g m)"
    using rd by (intro normalized_back)
      (simp_all add: receipts_done_def with_attempts_parts with_attempts_sizes checkpoint_of_def dget_def)
  then show "merge_mission_billing cp usage generation = clamp_counters (with_attempts u g m)"
    using assms(1) by (simp add: merge_mission_billing_def Let_def m_def u_def g_def with_attempts_def)
qed

lemma merge_wf: "billing_present usage \<Longrightarrow> wf_billing (merge_mission_billing cp usage generation)"
  using merge_unfold [where usage = usage and cp = cp and generation = generation]
  by (simp add: receipts_done_def clamp_counters_wf with_attempts_parts with_attempts_sizes)

lemma ledger_clamp: "ledger_of (clamp_counters b) = ledger_of (b\<lparr>bl_receipts_truncated := clamp_int (bl_receipts_truncated b)\<rparr>)"
  by (simp add: ledger_of_def clamp_counters_def)

lemma settled_clamp: "settled g cur (clamp_counters b) = settled g cur b"
  by (rule settled_cong) (simp_all add: clamp_counters_def)

lemma trim_receipts_short: "length (bl_receipts b) \<le> BILLING_RECEIPT_LIMIT \<Longrightarrow> trim_receipts b = b"
  by (simp add: trim_receipts_def)

text \<open>A snapshot in which the quantum is settled takes nothing but attempts from a replay.\<close>

lemma merge_settled:
  assumes "billing_present usage" "wf_billing b" "dget (obj_of cp) ''billing'' = JObj (billing_json b)"
    and "settled (clamp_int generation) (current_receipt (obj_of usage) (clamp_int generation)) b"
  shows "merge_mission_billing cp usage generation = clamp_counters (with_attempts (obj_of usage) (clamp_int generation) b)"
proof -
  have cp: "normalized_billing cp = b"
    using normalized_back [of b cp] assms(2,3) by (simp add: wf_billing_def clamp_counters_id)
  have "trim_receipts (merge_receipt (clamp_int generation)
      (current_receipt (obj_of usage) (clamp_int generation)) b) = b"
    using assms(2,4) by (simp add: wf_billing_def merge_receipt_settled trim_receipts_short sizes_ok_def)
  then show ?thesis using merge_unfold(1) [OF assms(1), where cp = cp and generation = generation] cp by simp
qed

lemma replay_parts:
  assumes "billing_present usage"
    and "dget (obj_of cp') ''billing'' = JObj (billing_json (merge_mission_billing cp usage generation))"
  shows "merge_mission_billing cp' usage generation =
    clamp_counters (with_attempts (obj_of usage) (clamp_int generation) (merge_mission_billing cp usage generation))"
proof (rule merge_settled [OF assms(1) merge_wf [OF assms(1)] assms(2)])
  show "settled (clamp_int generation) (current_receipt (obj_of usage) (clamp_int generation))
      (merge_mission_billing cp usage generation)"
    using merge_unfold [OF assms(1), where cp = cp and generation = generation]
    by (simp add: receipts_done_def settled_clamp with_attempts_settled)
qed

lemma wf_clamp: "wf_billing b \<Longrightarrow> clamp_counters b = b"
  by (simp add: wf_billing_def clamp_counters_id)

lemma ledger_counters: "wf_billing b \<Longrightarrow> ledger_of (clamp_counters (with_attempts u g b)) = ledger_of b"
  by (cases b) (simp add: wf_billing_def counters_ok_def ledger_of_def clamp_counters_def with_attempts_def
      trim_attempts_def clamp_int_id)

lemma with_attempts_known:
  "set (usage_attempts u g) \<subseteq> set (bl_attempts b) \<Longrightarrow> sizes_ok b \<Longrightarrow> with_attempts u g b = b"
  by (simp add: with_attempts_def add_attempts_known trim_attempts_def sizes_ok_def)

text \<open>C28. The lease generation is an idempotency key of a mission's bill: merging the same reported usage
  again under the same generation, whatever else the checkpoint it was stored in holds, changes no cost,
  token count, quantum or receipt; and if no attempt was dropped from the bounded list, the whole
  snapshot is the same.\<close>
theorem billing_replay:
  assumes "billing_present usage"
    and "dget (obj_of checkpoint') ''billing'' = JObj (billing_json (merge_mission_billing checkpoint usage generation))"
  shows "ledger_of (merge_mission_billing checkpoint' usage generation) =
      ledger_of (merge_mission_billing checkpoint usage generation)
    \<and> (length (bl_attempts (normalized_billing checkpoint))
        + length (usage_attempts (obj_of usage) (clamp_int generation)) \<le> BILLING_ATTEMPT_LIMIT \<longrightarrow>
      merge_mission_billing checkpoint' usage generation = merge_mission_billing checkpoint usage generation)"
proof (rule conjI, goal_cases)
  case 1
  show ?case unfolding replay_parts [OF assms] by (rule ledger_counters [OF merge_wf [OF assms(1)]])
next
  case 2
  let ?u = "obj_of usage" and ?g = "clamp_int generation"
  let ?m = "trim_receipts (merge_receipt ?g (current_receipt ?u ?g) (normalized_billing checkpoint))"
  let ?b = "merge_mission_billing checkpoint usage generation"
  note unfold = merge_unfold [OF assms(1), where cp = checkpoint and generation = generation]
  show ?case
  proof
    assume short: "length (bl_attempts (normalized_billing checkpoint)) + length (usage_attempts ?u ?g)
      \<le> BILLING_ATTEMPT_LIMIT"
    then have "length (add_attempts (bl_attempts ?m) (usage_attempts ?u ?g)) \<le> BILLING_ATTEMPT_LIMIT"
      using add_attempts_length [of "bl_attempts ?m" "usage_attempts ?u ?g"] unfold(2)
      by (simp add: receipts_done_def)
    then have "bl_attempts ?b = add_attempts (bl_attempts ?m) (usage_attempts ?u ?g)"
      by (simp add: unfold(1) clamp_counters_def with_attempts_def trim_attempts_def)
    then have "with_attempts ?u ?g ?b = ?b"
      using merge_wf [OF assms(1), of checkpoint generation]
      by (intro with_attempts_known) (simp_all add: add_attempts_set wf_billing_def)
    then show "merge_mission_billing checkpoint' usage generation = ?b"
      using merge_wf [OF assms(1), of checkpoint generation] by (simp add: replay_parts [OF assms] wf_clamp)
  qed
qed

definition sample_usage :: json where
  "sample_usage = JObj [(''cost_usd'', JFloat (Fin (1 / 4))), (''input_tokens'', JInt 12), (''plane'', JStr ''api'')]"

theorem billing_replay_witness:
  "merge_mission_billing (checkpoint_of (merge_mission_billing JNull sample_usage 1)) sample_usage 1
   = merge_mission_billing JNull sample_usage 1"
proof -
  have "billing_present sample_usage" by (simp add: billing_present_def sample_usage_def has_key_def)
  moreover have "length (bl_attempts (normalized_billing JNull))
      + length (usage_attempts (obj_of sample_usage) (clamp_int 1)) \<le> BILLING_ATTEMPT_LIMIT"
    by (simp add: normalized_billing_def dget_def empty_billing_def usage_attempts_def sample_usage_def arr_of_def
        dicts_of_def)
  ultimately show ?thesis
    using billing_replay [of sample_usage "checkpoint_of (merge_mission_billing JNull sample_usage 1)" JNull 1]
    by (simp add: checkpoint_of_def dget_def)
qed

text \<open>The bill only grows.\<close>

lemma float_small:
  assumes "\<bar>x\<bar> \<le> 2 ^ 31"
  shows "float_of x = Fin (float_round x) \<and> \<bar>float_round x\<bar> \<le> 2 ^ 31"
proof -
  have id: "float_round (2 ^ 31) = 2 ^ 31"
    using round_pos_small [of "2 ^ 31" 0] by (simp add: float_round_def)
  then have neg: "float_round (- (2 ^ 31)) = - (2 ^ 31)" by (simp add: float_round_def)
  have "float_round x \<le> 2 ^ 31" using float_round_mono [of x "2 ^ 31"] assms id by simp
  moreover have "- (2 ^ 31) \<le> float_round x" using float_round_mono [of "- (2 ^ 31)" x] assms neg by simp
  moreover have "(2 :: rat) ^ 31 < 2 ^ 1024" by (rule power_strict_increasing) simp_all
  ultimately show ?thesis by (auto simp: float_of_def Let_def)
qed

lemma limit_small: "BILLING_COST_LIMIT \<le> 2 ^ 30"
  by (simp add: BILLING_COST_LIMIT_def)

lemma added_cost_increases:
  assumes "cost_ok t" "cost_ok c" "cost_ok p"
  shows "t \<le> added_cost t c p"
proof -
  have "float_round (c - p) \<le> 2 ^ 30"
  proof -
    have "c - p \<le> 2 ^ 30" using assms(2,3) limit_small by (simp add: cost_ok_def)
    moreover have "float_round (2 ^ 30) = 2 ^ 30"
      using round_pos_small [of "2 ^ 30" 0] by (simp add: float_round_def)
    ultimately show ?thesis using float_round_mono [of "c - p" "2 ^ 30"] by simp
  qed
  then have q: "0 \<le> max 0 (float_round (c - p))" "max 0 (float_round (c - p)) \<le> 2 ^ 30" by simp_all
  have "\<bar>c - p\<bar> \<le> 2 ^ 31" using assms(2,3) limit_small by (simp add: cost_ok_def abs_le_iff)
  then have diff: "float_of (c - p) = Fin (float_round (c - p))" using float_small by blast
  have "\<bar>t + max 0 (float_round (c - p))\<bar> \<le> 2 ^ 31"
    using q assms(1) limit_small by (auto simp: cost_ok_def abs_le_iff max_def)
  then obtain y where y: "float_of (t + max 0 (float_round (c - p))) = Fin y" using float_small by blast
  have "t \<le> y"
    using float_add_increases [of t, OF _ q(1)] assms(1) y by (simp add: cost_ok_def)
  with assms(1) y diff show ?thesis by (simp add: added_cost_def clamp_cost_def cost_ok_def)
qed

definition grows :: "billing \<Rightarrow> billing \<Rightarrow> bool" where
  "grows b m \<longleftrightarrow> bl_cost b \<le> bl_cost m \<and> bl_quanta b \<le> bl_quanta m \<and> bl_last_generation b \<le> bl_last_generation m"

lemma add_totals_grows:
  assumes "parts_ok b" "cost_ok (rc_cost cur)" "cost_ok (rc_cost prior)"
  shows "grows b (add_totals g n cur prior (b\<lparr>bl_receipts := rs\<rparr>))"
  using assms by (simp add: grows_def add_totals_def parts_ok_def added_cost_increases clamp_int_def int_ok_def)

lemma merge_receipt_grows:
  assumes "parts_ok b" "current_ok cur"
  shows "grows b (merge_receipt g cur b)"
proof (cases "split_receipts g (bl_receipts b)")
  case None
  have "cost_ok (rc_cost cur)" "cost_ok (rc_cost no_receipt)"
    using assms(2) by (simp_all add: current_ok_def no_receipt_def)
  with None assms(1) show ?thesis
    by (simp add: merge_receipt_def Let_def add_totals_grows) (simp add: grows_def)
next
  case (Some p)
  obtain before prior after where p: "p = (before, prior, after)" by (cases p)
  with Some assms(1) have prior: "receipt_ok prior"
    using split_receipts_Some [of g "bl_receipts b" before prior after] by (simp add: parts_ok_def)
  then have "cost_ok (rc_cost (merged_receipt prior cur))" "cost_ok (rc_cost prior)"
    using merged_receipt_ok [OF prior assms(2)] by (simp_all add: receipt_ok_def)
  with Some p assms prior show ?thesis
    by (simp add: merge_receipt_def Let_def receipt_back merged_receipt_ok add_totals_grows)
qed

text \<open>Merging never shrinks a bill: the accumulated cost (with its binary64 additions), the number of
  quanta and the newest generation of the stored snapshot are kept or increased by every merge, and the
  snapshot stays within 32 receipts and 64 attempts.\<close>
theorem billing_grows:
  "grows (normalized_billing checkpoint) (merge_mission_billing checkpoint usage generation)
   \<and> length (bl_receipts (merge_mission_billing checkpoint usage generation)) \<le> BILLING_RECEIPT_LIMIT
   \<and> length (bl_attempts (merge_mission_billing checkpoint usage generation)) \<le> BILLING_ATTEMPT_LIMIT"
proof (cases "billing_present usage")
  case False
  then show ?thesis
    using normalized_wf [of checkpoint] by (simp add: merge_mission_billing_def grows_def sizes_ok_def)
next
  case True
  let ?u = "obj_of usage" and ?g = "clamp_int generation" and ?b = "normalized_billing checkpoint"
  have "grows ?b (merge_receipt ?g (current_receipt ?u ?g) ?b)"
    using normalized_wf by (intro merge_receipt_grows) (simp_all add: current_receipt_ok)
  then have "grows ?b (merge_mission_billing checkpoint usage generation)"
    by (simp add: merge_unfold(1) [OF True] grows_def clamp_counters_def with_attempts_def trim_attempts_def
        trim_receipts_def)
  with merge_wf [OF True, of checkpoint generation] show ?thesis by (simp add: wf_billing_def sizes_ok_def)
qed

end
