(* ===== verification/Host_UX.thy ===== *)
theory Host_UX
  imports Answer_Check Py_Convert
begin

text \<open>
  \<open>host_ux.py\<close>: the layout that puts code, diff and artifact blocks first, and the soft-continue
  decision. A positive lookahead is a double negative one; \<open>\Z\<close> is where no character follows.
\<close>

subsection \<open>Layout\<close>

definition ahead :: "re \<Rightarrow> re" where
  "ahead r = NotAhead (NotAhead r)"

definition text_end :: re where
  "text_end = NotAhead any_char"

definition FENCE :: string where
  "FENCE = replicate 3 (CHR 0x60)"

definition not_newline :: re where
  "not_newline = none_of (\<lambda>c. code c = 10)"

definition CODE_FENCE :: re where
  "CODE_FENCE = seqs [lit FENCE, Star (Chr (\<lambda>c. is_word c \<or> c \<in> set ''+-'')), lit NEWLINE,
     LazyStar any_char, lit FENCE]"

definition DIFF :: re where
  "DIFF = Seq Bol (alts
     [lit ''diff --git '', lit ''@@ '', lit ''--- a/'', lit ''+++ b/'',
      seqs [lit ''+'', Chr is_word, Star not_newline], lit ''Index: ''])"

definition ARTIFACT :: re where
  "ARTIFACT = seqs [Alt Bos (lit NEWLINE), lit ''##'', Star space_re, lit_ci ''ARTIFACT'', WordB,
     LazyStar any_char, ahead (Alt (seqs [lit NEWLINE, lit ''##'', spaces, Chr is_word]) text_end)]"

definition THREE_NEWLINES :: re where
  "THREE_NEWLINES = seqs [lit NEWLINE, lit NEWLINE, plus (lit NEWLINE)]"

text \<open>\<open>s.replace(old, new, 1)\<close> for a non-empty \<open>old\<close>.\<close>

fun replace_first :: "string \<Rightarrow> string \<Rightarrow> string \<Rightarrow> string" where
  "replace_first old new [] = []"
| "replace_first old new (c # cs) =
     (if starts_with old (c # cs) then new @ drop (length old) (c # cs) else c # replace_first old new cs)"

fun add_blocks :: "string list \<Rightarrow> string list \<Rightarrow> string list" where
  "add_blocks blocks [] = blocks"
| "add_blocks blocks (m # ms) =
     (let chunk = str_strip m in
      add_blocks (if chunk \<noteq> [] \<and> chunk \<notin> set blocks then blocks @ [chunk] else blocks) ms)"

definition diff_lines :: "string \<Rightarrow> string list" where
  "diff_lines text =
     filter (\<lambda>ln. re_match DIFF ln \<or> starts_with ''+'' ln \<or> starts_with ''-'' ln \<or> starts_with '' '' ln)
       (str_splitlines text)"

definition cream_blocks :: "string \<Rightarrow> string list" where
  "cream_blocks text =
    (let blocks = add_blocks (add_blocks [] (re_findall ARTIFACT text)) (re_findall CODE_FENCE text)
     in if blocks = [] \<and> re_search DIFF text \<and> 3 \<le> length (diff_lines text)
        then [str_strip (join NEWLINE (diff_lines text))] else blocks)"

definition BLANK_LINE :: string where
  "BLANK_LINE = NEWLINE @ NEWLINE"

definition cream_first_layout :: "string \<Rightarrow> string" where
  "cream_first_layout body =
    (let text = str_strip body in
     if text = [] then []
     else let blocks = cream_blocks text in
       if blocks = [] then text
       else let remainder = str_strip (re_sub THREE_NEWLINES (\<lambda>_. BLANK_LINE)
                (fold (\<lambda>chunk r. replace_first chunk NEWLINE r) blocks text));
                cream = str_strip (join BLANK_LINE blocks)
         in if remainder = [] \<or> remainder = cream then cream
            else if starts_with (take 40 cream) text then text
            else cream @ BLANK_LINE @ ''---'' @ NEWLINE @ remainder)"

text \<open>The lines of a text, for the examples.\<close>

definition lines :: "string list \<Rightarrow> string" where
  "lines ls = join NEWLINE ls"

text \<open>The layout is not idempotent where cream already leads: a text whose diff lines were moved to the
  front is laid out again, with its cream in front a second time, because the rule that separates the
  cream from the rest counts as a diff line.\<close>
theorem layout_repeats_cream:
  "cream_first_layout (lines [''x'', ''+a1'', ''+b1'', ''+c1'']) = lines [''+a1'', ''+b1'', ''+c1'', [], ''---'', ''x'']
   \<and> cream_first_layout (lines [''+a1'', ''+b1'', ''+c1'', [], ''---'', ''x'']) =
     lines [''+a1'', ''+b1'', ''+c1'', ''---'', [], ''---'', ''+a1'', ''+b1'', ''+c1'', [], ''---'', ''x'']"
  by code_simp

subsection \<open>Short questions\<close>

definition ENGINEERING_MARKERS :: re where
  "ENGINEERING_MARKERS = whole_words
     [lit_ci ''implement'', lit_ci ''refactor'',
      seqs [lit_ci ''write'', spaces, Opt (Seq (lit_ci ''a'') spaces),
        words_re [''file'', ''module'', ''function'', ''class'', ''test'']],
      seqs [lit_ci ''create'', spaces, Opt (Seq (lit_ci ''a'') spaces),
        alts [lit_ci ''pr'', phrase [''pull'', ''request''], lit_ci ''branch'']],
      phrase [''edit'', ''the''], phrase [''fix'', ''the'', ''bug''],
      Seq (phrase [''add'', ''test'']) (Opt (lit_ci ''s'')),
      lit_ci ''migrate'', lit_ci ''deploy'', phrase [''debug'', ''this''], lit_ci ''patch'', lit_ci ''commit'',
      lit_ci ''push'',
      seqs [phrase [''search'', ''the''], spaces, words_re [''web'', ''codebase'']],
      lit_ci ''browse'', lit_ci ''scrape'',
      seqs [lit_ci ''run'', spaces, Opt (Seq (lit_ci ''the'') spaces),
        Alt (Seq (lit_ci ''test'') (Opt (lit_ci ''s''))) (lit_ci ''ci'')],
      Seq (phrase [''use'', ''tool'']) (Opt (lit_ci ''s'')), phrase [''tool'', ''call'']]"

definition FULLWIDTH_QUESTION :: string where
  "FULLWIDTH_QUESTION = map char_of [239, 188, 159 :: nat]"

definition QA_MARKERS :: re where
  "QA_MARKERS = Alt
     (seqs [Bos, alts (map lit_ci [''what'', ''why'', ''how'', ''when'', ''where'', ''who'', ''which'', ''is'', ''are'',
        ''can'', ''could'', ''should'', ''does'', ''do'', ''explain'', ''define'', ''summarize'', ''compare'', ''list'',
        ''describe''] @ [phrase [''tell'', ''me'']]), WordB])
     (seqs [Alt (lit ''?'') (lit FULLWIDTH_QUESTION), Star space_re, Eos])"

definition NUMBERED_STEP :: re where
  "NUMBERED_STEP = seqs [Bol, Star space_re,
     Seq (Alt (Seq (plus (Chr is_digit)) (one_of '').'')) (Seq (one_of ''-*'') spaces))
       (seqs (replicate 20 not_newline)), Star not_newline]"

text \<open>The default \<open>max_chars=480\<close> is the only one used.\<close>

definition looks_like_pure_qa :: "string \<Rightarrow> bool" where
  "looks_like_pure_qa task \<longleftrightarrow>
    (let text = str_strip task
     in text \<noteq> [] \<and> length text \<le> 480 \<and> \<not> re_search ENGINEERING_MARKERS text
        \<and> \<not> (re_search NUMBERED_STEP text \<and> 200 < length text) \<and> re_search QA_MARKERS text)"

subsection \<open>Soft continuation\<close>

definition SOFT_STOP_MARKERS :: "string list" where
  "SOFT_STOP_MARKERS =
    [''maxturn'', ''max_turns'', ''maxturns'', ''length'', ''toolbudget'', ''tool_budget'', ''incomplete'',
     ''budgetslice'', ''budget_slice'', ''truncated'']"

definition normalize_stop :: "pylib \<Rightarrow> json \<Rightarrow> string" where
  "normalize_stop lib stop_reason =
     filter (\<lambda>c. is_lower c \<or> is_digit c) (str_lower (text_or_empty lib stop_reason))"

definition should_soft_continue :: "pylib \<Rightarrow> doc \<Rightarrow> bool" where
  "should_soft_continue lib result \<longleftrightarrow>
    (let cream = str_strip (text_or_empty lib
           (or_else (dget result ''proposed_text'') (or_else (dget result ''text'') (dget result ''review''))));
         stop = normalize_stop lib (dget result ''stop_reason'')
     in cream \<noteq> []
        \<and> (truthy (dget result ''tool_budget_exhausted'') \<or> truthy (dget result ''partial'')
           \<or> list_ex (\<lambda>marker. contains marker stop) SOFT_STOP_MARKERS
           \<or> truthy (dget result ''truncated'') \<or> truthy (dget result ''incomplete'')))"

definition soft_continue_status_note :: "pylib \<Rightarrow> doc \<Rightarrow> string" where
  "soft_continue_status_note lib result =
    (let stop = str_strip (text_or_empty lib (dget result ''stop_reason''))
     in ''Soft-continue: partial cream sealed after '' @ (if stop = [] then ''tool/turn budget'' else stop)
        @ ''. Re-invoke agent with continue_token to finish; do not treat as CommitDone.'')"

definition set_default :: "string \<Rightarrow> json \<Rightarrow> doc \<Rightarrow> doc" where
  "set_default k v d = (if has_key d k then d else d @ [(k, v)])"

definition apply_soft_continue_markers :: "pylib \<Rightarrow> doc \<Rightarrow> doc" where
  "apply_soft_continue_markers lib result =
    (if \<not> should_soft_continue lib result then result
     else set_default ''status_text'' (JStr (soft_continue_status_note lib result))
       (AList.update ''partial'' (JBool True) (AList.update ''soft_continue'' (JBool True) result)))"

end
