(* ===== verification/Autonomy.thy ===== *)
theory Autonomy
  imports Host_UX Mission_Verify_Facts
begin

text \<open>
  \<open>autonomy.py\<close>: the hashes of acceptances and artifacts, the structural gate of the first-generation
  continue protocol, and the envelopes a host sees. \<open>_checklist_item_count\<close>, \<open>significant_terms\<close> and the
  term part of the gate are the same code as in \<open>mission/verify.py\<close> and share its definitions. The
  envelopes are dicts; \<open>attach_poll_contract\<close> is not modelled, so \<open>continue_envelope\<close> is the one the
  mission code asks for, with \<open>poll=False\<close>.
\<close>

subsection \<open>Hashes\<close>

definition ARTIFACT_CONTENT_MAX :: nat where "ARTIFACT_CONTENT_MAX = 100000"

definition normalize_artifact_content :: "string \<Rightarrow> string" where
  "normalize_artifact_content content = take ARTIFACT_CONTENT_MAX (str_strip (redact_secrets content))"

definition acceptance_digest :: "pylib \<Rightarrow> string \<Rightarrow> string" where
  "acceptance_digest lib text =
     sha256 lib (join '' '' (str_split (str_lower (str_strip (redact_secrets text)))))"

definition artifact_digest :: "pylib \<Rightarrow> string \<Rightarrow> string \<Rightarrow> string" where
  "artifact_digest lib content kind = sha256 lib (kind @ NEWLINE @ normalize_artifact_content content)"

subsection \<open>The structural gate\<close>

definition gate_result ::
  "pylib \<Rightarrow> string \<Rightarrow> nat \<Rightarrow> string \<Rightarrow> bool \<Rightarrow> string list \<Rightarrow> doc" where
  "gate_result lib acceptance evidence_count task_class literal_match gaps =
    [(''ok'', JBool (gaps = [])), (''gaps'', gaps_json gaps),
     (''acceptance_hash'', JStr (acceptance_digest lib acceptance)),
     (''evidence_count'', JInt (int evidence_count)), (''task_class'', JStr task_class),
     (''literal_match'', JBool literal_match)]"

definition propose_gaps :: "string \<Rightarrow> string \<Rightarrow> string list \<Rightarrow> string list" where
  "propose_gaps acceptance answer evidence =
    (let terms = significant_terms acceptance;
         (checklist, structured_ok) = checklist_gaps (str_lower acceptance) terms answer
     in (if evidence = [] then [''missing_evidence''] else [])
        @ (if answer = [] then [''empty_answer''] else [])
        @ (if answer \<noteq> [] \<and> is_nonanswer_completion answer acceptance then [''nonanswer_completion''] else [])
        @ (if answer \<noteq> [] \<and> length (str_split answer) < 8 then [''answer_too_short''] else [])
        @ checklist
        @ (if terms \<noteq> [] \<and> answer \<noteq> [] \<and> \<not> structured_ok then coverage_gaps terms answer else []))"

definition check_propose_done ::
  "pylib \<Rightarrow> switches \<Rightarrow> string \<Rightarrow> string \<Rightarrow> string list \<Rightarrow> string \<Rightarrow> doc" where
  "check_propose_done lib sw raw_acceptance raw_answer contents task =
    (let answer = normalize_artifact_content raw_answer;
         acceptance = str_strip (redact_secrets raw_acceptance);
         evidence = map normalize_artifact_content (filter (\<lambda>e. e \<noteq> []) contents);
         (matched, expected, task_class) =
           literal_commit_ready sw (if task = [] then acceptance else task) acceptance answer None
     in if matched \<and> expected \<noteq> None then gate_result lib acceptance (length evidence) task_class True []
        else if task_class \<in> {''literal'', ''echo_ok''} \<and> expected \<noteq> None then
          gate_result lib acceptance (length evidence) task_class False
            [if answer = [] then ''empty_answer''
             else if is_nonanswer_completion answer acceptance then ''nonanswer_completion''
             else ''literal_mismatch'']
        else gate_result lib acceptance (length evidence) task_class False (propose_gaps acceptance answer evidence))"

subsection \<open>Cream\<close>

definition CONTINUE_DRAFT_MARKER :: string where
  "CONTINUE_DRAFT_MARKER = ''[continue '' @ map char_of [194, 183 :: nat] @ '' not committed]''"

definition EMPTY_CONTINUE_BODY :: string where
  "EMPTY_CONTINUE_BODY = ''No draft cream yet. Re-invoke agent with continue_token to produce an answer.''"

definition EMPTY_COMMIT_BODY :: string where
  "EMPTY_COMMIT_BODY =
    ''CommitDone produced no host-visible answer body. Re-run the agent or continue with a clearer acceptance.''"

lemma dget_size: "dget d k = v \<Longrightarrow> v \<noteq> JNull \<Longrightarrow> size v < size (JObj d)"
proof -
  assume v: "dget d k = v" "v \<noteq> JNull"
  then have "(k, v) \<in> set d" by (auto simp: dget_def dest: map_of_SomeD split: option.splits)
  then have "size v < size_list (size_prod (\<lambda>_. 0) size) d"
    by (induction d) auto
  then show ?thesis by simp
qed

text \<open>\<open>recover_cream\<close>: the first non-empty text among the parts, looking into dicts.\<close>

function (sequential) cream_of :: "pylib \<Rightarrow> json \<Rightarrow> string" where
  "cream_of lib JNull = []"
| "cream_of lib (JObj d) =
    (let proposed = cream_of lib (dget d ''proposed_text'') in
     if proposed \<noteq> [] then proposed
     else let text = cream_of lib (dget d ''text'') in
       if text \<noteq> [] then text
       else let review = cream_of lib (dget d ''review'') in
         if review \<noteq> [] then review else cream_of lib (dget d ''answer''))"
| "cream_of lib v = str_strip (str_of lib v)"
  by pat_completeness auto

termination
proof (relation "measure (\<lambda>(lib, v). if v = JNull then 0 else Suc (size v))", goal_cases)
  case (2 lib d)
  then show ?case using dget_size [of d "''proposed_text''"] by auto
next
  case (3 lib d)
  then show ?case using dget_size [of d "''text''"] by auto
next
  case (4 lib d)
  then show ?case using dget_size [of d "''review''"] by auto
next
  case (5 lib d)
  then show ?case using dget_size [of d "''answer''"] by auto
qed simp

declare cream_of.simps(2) [simp del]

fun recover_cream :: "pylib \<Rightarrow> json list \<Rightarrow> string" where
  "recover_cream lib [] = []"
| "recover_cream lib (part # parts) =
     (let c = cream_of lib part in if c \<noteq> [] then c else recover_cream lib parts)"

definition host_visible_continue_text :: "string \<Rightarrow> string \<Rightarrow> string" where
  "host_visible_continue_text proposed_text status_text =
    (let cream = str_strip proposed_text; status = str_strip status_text
     in if cream = [] then status
        else cream @ BLANK_LINE @ CONTINUE_DRAFT_MARKER @ (if status = [] then [] else NEWLINE @ status))"

definition status_is :: "pylib \<Rightarrow> doc \<Rightarrow> string \<Rightarrow> bool" where
  "status_is lib d s \<longleftrightarrow> str_lower (str_strip (text_or_empty lib (dget d ''status''))) = s"

definition stripped :: "pylib \<Rightarrow> doc \<Rightarrow> string \<Rightarrow> string" where
  "stripped lib d k = str_strip (text_or_empty lib (dget d k))"

definition apply_continue_cream :: "pylib \<Rightarrow> doc \<Rightarrow> json \<Rightarrow> doc" where
  "apply_continue_cream lib envelope proposed_text =
    (if \<not> status_is lib envelope ''continue'' then envelope
     else let cream = cream_first_layout (recover_cream lib [proposed_text, dget envelope ''proposed_text'']) in
       if cream = [] then envelope
       else let first = str_strip (text_or_empty lib (or_else (dget envelope ''status_text'') (dget envelope ''text'')));
                status_text = (if starts_with cream first \<or> contains CONTINUE_DRAFT_MARKER first
                  then stripped lib envelope ''status_text'' else first)
         in AList.update ''text'' (JStr (host_visible_continue_text cream status_text))
              (AList.update ''status_text'' (JStr status_text)
                (AList.update ''proposed_text'' (JStr cream) envelope)))"

text \<open>The branch of \<open>ensure_host_text\<close> for a committed answer.\<close>

definition ensure_complete_text :: "pylib \<Rightarrow> json \<Rightarrow> doc \<Rightarrow> doc" where
  "ensure_complete_text lib cream payload =
    (let recovered = cream_first_layout (recover_cream lib
           [cream, dget payload ''proposed_text'', dget payload ''text'', dget payload ''review'', dget payload ''answer''])
     in if recovered \<noteq> [] then
          (let p = AList.update ''text'' (JStr recovered) payload
           in if stripped lib p ''proposed_text'' = [] then AList.update ''proposed_text'' (JStr recovered) p else p)
        else let note = stripped lib payload ''status_text'' in
          AList.update ''empty_answer_guard'' (JBool True)
            (AList.update ''text'' (JStr (if note = [] then EMPTY_COMMIT_BODY else note)) payload))"

definition ensure_continue_text :: "pylib \<Rightarrow> json \<Rightarrow> doc \<Rightarrow> doc" where
  "ensure_continue_text lib cream payload =
    (let status_note = stripped lib payload ''status_text'';
         text_val = stripped lib payload ''text'';
         candidates = [cream, dget payload ''proposed_text'', dget payload ''review'', dget payload ''answer'']
           @ (if text_val \<noteq> [] \<and> text_val \<noteq> status_note \<and> \<not> contains CONTINUE_DRAFT_MARKER text_val
                 \<and> text_val \<notin> {EMPTY_CONTINUE_BODY, EMPTY_COMMIT_BODY} then [JStr text_val] else []);
         recovered = cream_first_layout (recover_cream lib candidates)
     in if recovered \<noteq> [] then
          (let note1 = (if status_note = [] then (if text_val \<noteq> recovered then text_val else []) else status_note);
               note = (if starts_with recovered note1 \<or> contains CONTINUE_DRAFT_MARKER note1
                 then stripped lib payload ''status_text'' else note1);
               p = AList.update ''proposed_text'' (JStr recovered) payload;
               q = (if note \<noteq> [] \<and> note \<noteq> recovered then AList.update ''status_text'' (JStr note) p else p)
           in AList.update ''text''
                (JStr (host_visible_continue_text recovered (if note \<noteq> recovered then note else []))) q)
        else if text_val = [] then
          (let p = AList.update ''empty_answer_guard'' (JBool True)
                 (AList.update ''text'' (JStr EMPTY_CONTINUE_BODY) payload)
           in if status_note = [] then AList.update ''status_text'' (JStr EMPTY_CONTINUE_BODY) p else p)
        else payload)"

definition ensure_host_text :: "pylib \<Rightarrow> doc \<Rightarrow> json \<Rightarrow> bool \<Rightarrow> doc" where
  "ensure_host_text lib payload cream is_complete =
    (if is_complete \<or> status_is lib payload ''complete'' then ensure_complete_text lib cream payload
     else ensure_continue_text lib cream payload)"

definition QUANTUM_NOTE :: string where
  "QUANTUM_NOTE = ''UniGrok sealed a deadline quantum. Preferred: call agent again with argument '' @
     ''continue_token set to this envelope'' @ [CHR 0x27] @
     ''s continue_token. Alternate: poll agent_result with job_id while the quantum is running.''"

definition continue_envelope ::
  "pylib \<Rightarrow> string \<Rightarrow> string \<Rightarrow> int \<Rightarrow> string \<Rightarrow> string list \<Rightarrow> string list \<Rightarrow> string option \<Rightarrow> json \<Rightarrow> doc" where
  "continue_envelope lib job_id continue_token ledger_cursor acceptance_hash gaps artifact_refs text proposed_text =
    (let status_note = (case text of None \<Rightarrow> QUANTUM_NOTE | Some t \<Rightarrow> if t = [] then QUANTUM_NOTE else t);
         envelope =
           [(''status'', JStr ''continue''), (''job_id'', JStr job_id), (''job_kind'', JStr ''agent''),
            (''continue_token'', JStr continue_token), (''ledger_cursor'', JInt ledger_cursor),
            (''acceptance_hash'', JStr acceptance_hash), (''artifact_refs'', JArr (map JStr artifact_refs)),
            (''autonomy'', JObj
               [(''protocol'', JStr ''unigrok_continue_v1''), (''reattach'', JStr ''agent''),
                (''committed'', JBool False), (''gaps'', gaps_json gaps)]),
            (''text'', JStr status_note), (''status_text'', JStr status_note), (''stop_reason'', JStr ''Continue''),
            (''workspace_attached'', JBool False),
            (''reattach'', JObj
               [(''tool'', JStr ''agent''), (''argument'', JStr ''continue_token''),
                (''continue_token'', JStr continue_token)])];
         shown = (if proposed_text \<noteq> JNull \<and> str_strip (str_of lib proposed_text) \<noteq> []
           then apply_continue_cream lib envelope proposed_text else envelope)
     in ensure_host_text lib shown proposed_text False)"

subsection \<open>What a host sees\<close>

lemma dget_update [simp]: "dget (AList.update k v d) k' = (if k' = k then v else dget d k')"
  by (simp add: dget_def update_conv)

lemma layout_visible: "cream_first_layout body \<noteq> [] \<Longrightarrow> str_strip (cream_first_layout body) \<noteq> []"
proof -
  have "str_strip (join BLANK_LINE bs @ BLANK_LINE @ ''---'' @ r) \<noteq> []" for bs r
    by (simp add: strip_empty is_space_def in_range_def code_def)
  moreover have "str_strip (str_strip c @ BLANK_LINE @ ''---'' @ r) \<noteq> []" for c r
    by (simp add: strip_empty is_space_def in_range_def code_def)
  ultimately show "cream_first_layout body \<noteq> [] \<Longrightarrow> ?thesis"
    by (auto simp: cream_first_layout_def Let_def)
qed

lemma host_visible_nonblank: "str_strip c \<noteq> [] \<Longrightarrow> str_strip (host_visible_continue_text c s) \<noteq> []"
  by (simp add: host_visible_continue_text_def Let_def strip_blank_append)

lemma notes_visible: "str_strip EMPTY_COMMIT_BODY \<noteq> []" "str_strip EMPTY_CONTINUE_BODY \<noteq> []"
  by (simp_all add: strip_empty EMPTY_COMMIT_BODY_def EMPTY_CONTINUE_BODY_def is_space_def in_range_def code_def)

lemma stripped_update: "stripped lib (AList.update k (JStr s) d) k' = (if k' = k then str_strip s else stripped lib d k')"
  by (simp add: stripped_def)

lemma stripped_update_flag: "k' \<noteq> k \<Longrightarrow> stripped lib (AList.update k v d) k' = stripped lib d k'"
  by (simp add: stripped_def)

lemma complete_visible: "stripped lib (ensure_complete_text lib cream payload) ''text'' \<noteq> []"
  using layout_visible
  by (simp add: ensure_complete_text_def Let_def stripped_update stripped_update_flag notes_visible)
    (simp add: stripped_def)

lemma continue_visible: "stripped lib (ensure_continue_text lib cream payload) ''text'' \<noteq> []"
  using layout_visible host_visible_nonblank
  by (simp add: ensure_continue_text_def Let_def stripped_update stripped_update_flag notes_visible)

text \<open>A host never gets a blank body: whatever the payload and the cream, the text of the envelope after
  the guard has a visible character, for a continuation and for a committed answer.\<close>
theorem host_text_never_blank: "stripped lib (ensure_host_text lib payload cream is_complete) ''text'' \<noteq> []"
  by (simp add: ensure_host_text_def complete_visible continue_visible)

subsection \<open>A continuation is no commit\<close>

lemma status_kept [simp]: "k \<notin> {''text'', ''status_text'', ''proposed_text''} \<Longrightarrow>
    dget (apply_continue_cream lib e p) k = dget e k"
  by (simp add: apply_continue_cream_def Let_def)

lemma continue_text_kept [simp]:
  "k \<notin> {''text'', ''status_text'', ''proposed_text'', ''empty_answer_guard''} \<Longrightarrow>
    dget (ensure_continue_text lib cream p) k = dget p k"
  by (simp add: ensure_continue_text_def Let_def)

text \<open>The gate passes literal answers only on the token, everything else only with evidence.\<close>

text \<open>The first-generation gate never passes an answer on words alone: an accepted proposal either is the
  literal token the acceptance asks for, or came with some evidence, is not empty and is no promise or
  plan.\<close>
theorem propose_done_justified:
  assumes "dget (check_propose_done lib sw raw_acceptance raw_answer contents task) ''ok'' = JBool True"
  defines "answer \<equiv> normalize_artifact_content raw_answer"
    and "acceptance \<equiv> str_strip (redact_secrets raw_acceptance)"
  shows "(\<exists>token. matches_literal answer token)
    \<or> (\<exists>e \<in> set contents. e \<noteq> []) \<and> answer \<noteq> [] \<and> \<not> is_nonanswer_completion answer acceptance"
proof -
  obtain matched expected klass where ready: "literal_commit_ready sw (if task = [] then acceptance else task)
      acceptance answer None = (matched, expected, klass)" by (metis prod_cases3)
  show ?thesis
  proof (cases "matched \<and> expected \<noteq> None")
    case True
    then show ?thesis using ready_expected [of sw _ acceptance answer None] ready by blast
  next
    case False
    have "propose_gaps acceptance answer (map normalize_artifact_content (filter (\<lambda>e. e \<noteq> []) contents)) = []"
      using assms(1) ready False unfolding assms(2,3) check_propose_done_def
      by (simp add: gate_result_def dget_def Let_def split: if_splits prod.splits)
    then show ?thesis
      by (auto simp: propose_gaps_def Let_def filter_empty_conv split: if_splits prod.splits)
  qed
qed

lemma sample_class: "assign_task_class sample_switches ''7'' ''7'' = ''echo_ok''"
  by code_simp

lemma sample_content: "normalize_artifact_content ''7'' = ''7''"
  by (simp add: normalize_artifact_content_def sample_redacted sample_text ARTIFACT_CONTENT_MAX_def)

lemma sample_extracted: "extract_literal_acceptance [''7'', ''7''] = Some ''7''"
  by code_simp

lemma sample_proposal:
  "dget (check_propose_done sample_lib sample_switches ''7'' ''7'' [] []) ''ok'' = JBool True"
  by (simp add: check_propose_done_def sample_redacted sample_text sample_content literal_commit_ready_def
      sample_class sample_extracted sample_literal gate_result_def dget_def del: extract_literal_acceptance.simps)

theorem propose_done_justified_witness: "\<exists>token. matches_literal ''7'' token"
  using propose_done_justified [OF sample_proposal] by (simp add: sample_content)

end
