(* ===== verification/Mission_Governor.thy ===== *)
theory Mission_Governor
  imports Mission_Verify
begin

text \<open>
  \<open>mission/governor.py\<close>: the signals read off a task, the beliefs and the score they give, and the
  recommended configuration that a mission freezes into its package. The weights are those of
  \<open>WEIGHT_BUNDLE\<close>, the only bundle in use. Floats are the rational numbers they denote, each operation
  rounded to binary64 (\<open>float_round\<close>); the numbers are too small to overflow.
\<close>

subsection \<open>Floats\<close>

definition fl :: "int \<Rightarrow> int \<Rightarrow> rat" where
  "fl n d = float_round (of_int n / of_int d)"

definition fadd :: "rat \<Rightarrow> rat \<Rightarrow> rat" where "fadd a b = float_round (a + b)"
definition fmul :: "rat \<Rightarrow> rat \<Rightarrow> rat" where "fmul a b = float_round (a * b)"

subsection \<open>Configurations\<close>

definition WEIGHT_BUNDLE_VERSION :: string where "WEIGHT_BUNDLE_VERSION = ''gov_weights_v1''"

record governor_config =
  g_reasoning_level :: string
  g_voter_roles :: "string list"
  g_candidate_count :: int
  g_critique_rounds :: int
  g_context_budget :: int
  g_tool_budget :: int
  g_verification_depth :: string
  g_quantum_size :: int
  g_shadow :: bool
  g_signals :: "string list"
  g_weight_bundle_version :: string

definition governor_to_dict :: "governor_config \<Rightarrow> doc" where
  "governor_to_dict g =
    [(''reasoning_level'', JStr (g_reasoning_level g)), (''voter_roles'', JArr (map JStr (g_voter_roles g))),
     (''candidate_count'', JInt (g_candidate_count g)), (''critique_rounds'', JInt (g_critique_rounds g)),
     (''context_budget'', JInt (g_context_budget g)), (''tool_budget'', JInt (g_tool_budget g)),
     (''verification_depth'', JStr (g_verification_depth g)), (''quantum_size'', JInt (g_quantum_size g)),
     (''shadow'', JBool (g_shadow g)), (''signals'', JArr (map JStr (g_signals g))),
     (''weight_bundle_version'', JStr (g_weight_bundle_version g))]"

definition LEVELS :: "string list" where
  "LEVELS = [''none'', ''minimal'', ''low'', ''medium'', ''high'', ''xhigh'', ''max'', ''ultra'']"

definition ALL_ROLES :: "string list" where
  "ALL_ROLES = [''architect'', ''pm'', ''engineer'', ''qa'', ''security'', ''product'', ''perf'']"

text \<open>\<open>int(raw[key])\<close> under \<open>except (KeyError, TypeError, ValueError)\<close>: \<open>Inr None\<close> when caught.\<close>

definition required_int :: "doc \<Rightarrow> string \<Rightarrow> py_error + int option" where
  "required_int raw k =
    (if \<not> has_key raw k then Inr None
     else case py_int (dget raw k) of
         Inr n \<Rightarrow> Inr (Some n)
       | Inl (OverflowError m) \<Rightarrow> Inl (OverflowError m)
       | Inl _ \<Rightarrow> Inr None)"

fun required_ints :: "doc \<Rightarrow> string list \<Rightarrow> py_error + int list option" where
  "required_ints raw [] = Inr (Some [])"
| "required_ints raw (k # ks) =
     (case required_int raw k of
        Inl e \<Rightarrow> Inl e
      | Inr None \<Rightarrow> Inr None
      | Inr (Some n) \<Rightarrow> (case required_ints raw ks of
            Inl e \<Rightarrow> Inl e | Inr None \<Rightarrow> Inr None | Inr (Some ns) \<Rightarrow> Inr (Some (n # ns))))"

definition governor_tail ::
  "pylib \<Rightarrow> doc \<Rightarrow> string \<Rightarrow> string list \<Rightarrow> int list \<Rightarrow> py_error + governor_config option" where
  "governor_tail lib raw level roles ns =
    (case ns of
       [candidates, critique, context_budget, tool_budget, quantum] \<Rightarrow>
         let depth = label_of (dget raw ''verification_depth'') in
         if candidates < 1 \<or> critique < 0 \<or> context_budget < 1 \<or> tool_budget < 0 \<or> quantum < 1 then Inr None
         else if depth \<notin> {''normal'', ''strict''} then Inr None
         else (case py_iter (or_else (dget raw ''signals'') (JArr [])) of
             Inl e \<Rightarrow> Inl e
           | Inr signals \<Rightarrow> Inr (Some
               \<lparr>g_reasoning_level = level, g_voter_roles = roles, g_candidate_count = candidates,
                g_critique_rounds = critique, g_context_budget = context_budget, g_tool_budget = tool_budget,
                g_verification_depth = depth, g_quantum_size = quantum,
                g_shadow = (if has_key raw ''shadow'' then truthy (dget raw ''shadow'') else True),
                g_signals = map (str_of lib) signals,
                g_weight_bundle_version = str_of lib
                  (or_else (dget raw ''weight_bundle_version'') (JStr WEIGHT_BUNDLE_VERSION))\<rparr>))
     | _ \<Rightarrow> Inr None)"

definition governor_from_dict :: "pylib \<Rightarrow> json \<Rightarrow> py_error + governor_config option" where
  "governor_from_dict lib v =
    (case v of
       JObj raw \<Rightarrow>
         let level = label_of (dget raw ''reasoning_level'') in
         if level \<notin> set LEVELS then Inr None
         else (case py_iter (or_else (dget raw ''voter_roles'') (JArr [])) of
             Inl e \<Rightarrow> Inl e
           | Inr rs \<Rightarrow>
               let roles = dedup (filter (\<lambda>r. r \<in> set ALL_ROLES) (map label_of rs)) in
               if roles = [] then Inr None
               else (case required_ints raw
                   [''candidate_count'', ''critique_rounds'', ''context_budget'', ''tool_budget'', ''quantum_size''] of
                   Inl e \<Rightarrow> Inl e
                 | Inr None \<Rightarrow> Inr None
                 | Inr (Some ns) \<Rightarrow> governor_tail lib raw level roles ns))
     | _ \<Rightarrow> Inr None)"

subsection \<open>Signals\<close>

definition sep_class :: "string \<Rightarrow> re" where
  "sep_class cs = one_of cs"

definition SIGNAL_PATTERNS :: "(string \<times> re) list" where
  "SIGNAL_PATTERNS =
    [(''concurrency'', whole_words
       [lit_ci ''lease'', lit_ci ''fencing'', seqs [lit_ci ''fence'', Opt (sep_class ''_ -''), lit_ci ''gen''],
        Seq (lit_ci ''cas'') WordB,
        seqs [lit_ci ''compare'', hyphen_or_space, lit_ci ''and'', hyphen_or_space, lit_ci ''swap''],
        Seq (lit_ci ''race'') (Opt (Seq spaces (lit_ci ''condition''))),
        lit_ci ''concurrent'', lit_ci ''atomicity'', phrase [''stale'', ''worker''], lit_ci ''deadlock'',
        lit_ci ''semaphore'', seqs [lit_ci ''lock'', Opt (sep_class ''_ -''), lit_ci ''order''],
        seqs [lit_ci ''dual'', Opt (sep_class ''_ -''), lit_ci ''writer''],
        seqs [lit_ci ''durable'', hyphen_or_space, lit_ci ''job''], lit_ci ''checkpoint'', lit_ci ''continuation'']),
     (''security'', whole_words
       [lit_ci ''security'', lit_ci ''secret'', lit_ci ''redact'', Seq (lit_ci ''leak'') (Opt (lit_ci ''age'')),
        lit_ci ''credential'', phrase [''token'', ''leak''], lit_ci ''injection'', lit_ci ''authz'', lit_ci ''attack'',
        lit_ci ''exfil'', lit_ci ''privilege'', lit_ci ''unsafe'']),
     (''irreversible'', whole_words
       [lit_ci ''irreversible'', lit_ci ''destructive'', Seq (lit_ci ''delete'') WordB, Seq (lit_ci ''drop'') WordB,
        lit_ci ''truncate'', lit_ci ''production'', Seq (lit_ci ''prod'') WordB, lit_ci ''deploy'',
        seqs [lit_ci ''no'', hyphen_or_space, lit_ci ''ship''], Seq (lit_ci ''ship'') WordB, lit_ci ''release'']),
     (''adversarial_review'', whole_words
       [lit_ci ''adversarial'', lit_ci ''audit'', lit_ci ''review'', lit_ci ''critique'',
        phrase [''fault'', ''inject''], phrase [''threat'', ''model''],
        seqs [lit_ci ''red'', Star space_re, lit_ci ''team''],
        seqs [lit_ci ''blast'', hyphen_or_space, lit_ci ''radius'']]),
     (''self_verification'', whole_words
       [seqs [lit_ci ''self'', hyphen_or_space, lit_ci ''attest''],
        seqs [lit_ci ''self'', hyphen_or_space, lit_ci ''verif''], lit_ci ''acceptance'', lit_ci ''commitdone'',
        seqs [lit_ci ''propose'', hyphen_or_space, lit_ci ''done''], lit_ci ''evidence'', lit_ci ''verifier'']),
     (''corruption'', whole_words
       [Seq (lit_ci ''corrupt'') (Opt (lit_ci ''ion'')), Seq (lit_ci ''hash'') WordB, lit_ci ''checksum'',
        lit_ci ''artifact'', lit_ci ''retention'', lit_ci ''truncat'', lit_ci ''integrity''])]"

definition classify_task_signals :: "string list \<Rightarrow> string list" where
  "classify_task_signals texts =
    (let blob = join NEWLINE texts in
     if str_strip blob = [] then [] else map fst (filter (\<lambda>(n, p). re_search p blob) SIGNAL_PATTERNS))"

subsection \<open>Beliefs\<close>

record beliefs =
  b_uncertainty :: rat
  b_impact :: rat
  b_risk :: rat
  b_irreversibility :: rat
  b_novelty :: rat
  b_evidence_deficit :: rat

definition raise_to :: "rat \<Rightarrow> rat \<Rightarrow> rat \<Rightarrow> rat \<Rightarrow> rat \<Rightarrow> beliefs \<Rightarrow> beliefs" where
  "raise_to u i r v n b =
    b\<lparr>b_uncertainty := max (b_uncertainty b) u, b_impact := max (b_impact b) i, b_risk := max (b_risk b) r,
      b_irreversibility := max (b_irreversibility b) v, b_novelty := max (b_novelty b) n\<rparr>"

text \<open>\<open>belief_floors\<close>: a dimension a floor does not name is raised to 0.\<close>

definition floor_of :: "string \<Rightarrow> beliefs \<Rightarrow> beliefs" where
  "floor_of name =
    (if name = ''concurrency'' then raise_to (fl 3 4) (fl 8 10) (fl 85 100) 0 (fl 55 100)
     else if name = ''security'' then raise_to 0 (fl 3 4) (fl 9 10) (fl 55 100) 0
     else if name = ''irreversible'' then raise_to 0 (fl 8 10) (fl 7 10) (fl 85 100) 0
     else if name = ''adversarial_review'' then raise_to (fl 7 10) 0 (fl 65 100) 0 (fl 65 100)
     else if name = ''self_verification'' then raise_to (fl 55 100) 0 (fl 6 10) 0 0
     else if name = ''corruption'' then raise_to 0 (fl 65 100) (fl 7 10) 0 0
     else if name = ''concurrency_security'' then raise_to (fl 8 10) (fl 85 100) (fl 9 10) 0 0
     else id)"

definition belief_defaults :: "rat \<Rightarrow> beliefs" where
  "belief_defaults deficit =
    \<lparr>b_uncertainty = fl 35 100, b_impact = fl 35 100, b_risk = fl 25 100, b_irreversibility = fl 15 100,
     b_novelty = fl 25 100, b_evidence_deficit = deficit\<rparr>"

definition beliefs_from_signals :: "string list \<Rightarrow> int \<Rightarrow> beliefs" where
  "beliefs_from_signals signals prior_verify_failures =
    (let deficit = (if ''self_verification'' \<in> set signals then fl 35 100 else fl 15 100);
         named = filter (\<lambda>n. n \<in> set signals) (map fst SIGNAL_PATTERNS);
         b = fold floor_of named (belief_defaults deficit);
         c = (if ''concurrency'' \<in> set signals \<and> (''security'' \<in> set signals \<or> ''adversarial_review'' \<in> set signals)
              then floor_of ''concurrency_security'' b else b)
     in if prior_verify_failures \<noteq> 0
        then c\<lparr>b_uncertainty := min 1 (fadd (b_uncertainty c) (fmul (fl 8 100) (of_int (min prior_verify_failures 4))))\<rparr>
        else c)"

subsection \<open>The recommendation\<close>

definition index_of :: "string list \<Rightarrow> string \<Rightarrow> nat option" where
  "index_of xs x = (let k = length (takeWhile (\<lambda>y. y \<noteq> x) xs) in if k < length xs then Some k else None)"

text \<open>An unknown level counts as \<open>medium\<close> (3), an unknown ceiling as \<open>high\<close> (4).\<close>

definition clamp_level :: "string \<Rightarrow> string \<Rightarrow> string" where
  "clamp_level level cap =
     LEVELS ! min (case index_of LEVELS level of Some i \<Rightarrow> i | None \<Rightarrow> 3)
                  (case index_of LEVELS cap of Some i \<Rightarrow> i | None \<Rightarrow> 4)"

definition floor_level :: "string \<Rightarrow> string \<Rightarrow> string" where
  "floor_level level least =
    (case index_of LEVELS least of
       None \<Rightarrow> level
     | Some f \<Rightarrow> LEVELS ! max (case index_of LEVELS level of Some i \<Rightarrow> i | None \<Rightarrow> 3) f)"

definition merge_roles :: "string list \<Rightarrow> string list \<Rightarrow> string list" where
  "merge_roles roles extra = filter (\<lambda>r. r \<in> set roles \<or> r \<in> set extra) ALL_ROLES"

definition governor_score :: "beliefs \<Rightarrow> int \<Rightarrow> rat \<Rightarrow> rat" where
  "governor_score b prior_verify_failures remaining_budget_ratio =
    (let terms = [fmul (fl 25 100) (b_uncertainty b), fmul (fl 2 10) (b_impact b), fmul (fl 25 100) (b_risk b),
           fmul (fl 15 100) (b_irreversibility b), fmul (fl 1 10) (b_novelty b), fmul (fl 15 100) 0,
           fmul (fl 2 10) (b_evidence_deficit b), fmul (fl 5 100) (of_int (min prior_verify_failures 5))];
         score = foldl fadd (hd terms) (tl terms)
     in if remaining_budget_ratio < fl 15 100 then fmul score (fl 5 10) else score)"

text \<open>Level, roles and candidates by score, then raised by the signals.\<close>

definition by_score :: "rat \<Rightarrow> rat \<Rightarrow> string \<times> string list \<times> int" where
  "by_score score remaining_budget_ratio =
    (let (level, roles, cands) =
           (if score < fl 35 100 then (''low'', [''engineer''], 1)
            else if score < fl 55 100 then (''medium'', [''engineer'', ''qa''], 1)
            else if score < fl 75 100 then (''high'', [''engineer'', ''architect'', ''qa''], 2)
            else (''xhigh'', [''architect'', ''engineer'', ''qa'', ''security''], 2))
     in if fl 9 10 \<le> score \<and> fl 4 10 < remaining_budget_ratio
        then (''ultra'', [''architect'', ''pm'', ''engineer'', ''qa'', ''security''], cands)
        else (level, roles, cands))"

definition raise_concurrency :: "string set \<Rightarrow> string \<times> string list \<times> int \<Rightarrow> string \<times> string list \<times> int" where
  "raise_concurrency s x =
    (case x of (level, roles, cands) \<Rightarrow>
       if ''concurrency'' \<in> s \<and> (''adversarial_review'' \<in> s \<or> ''security'' \<in> s)
       then (floor_level level ''high'', merge_roles roles [''engineer'', ''architect'', ''qa'', ''security''], max cands 2)
       else if ''concurrency'' \<in> s
       then (floor_level level ''high'', merge_roles roles [''engineer'', ''architect'', ''qa''], max cands 2)
       else x)"

definition raise_security :: "string set \<Rightarrow> string \<times> string list \<times> int \<Rightarrow> string \<times> string list \<times> int" where
  "raise_security s x =
    (case x of (level, roles, cands) \<Rightarrow>
       if ''security'' \<in> s
       then (floor_level level ''high'', merge_roles roles [''security'', ''qa'', ''engineer''], cands) else x)"

definition raise_irreversible :: "string set \<Rightarrow> string \<times> string list \<times> int \<Rightarrow> string \<times> string list \<times> int" where
  "raise_irreversible s x =
    (case x of (level, roles, cands) \<Rightarrow>
       if ''irreversible'' \<in> s
       then (floor_level level ''xhigh'', merge_roles roles [''architect'', ''security'', ''qa''], cands) else x)"

definition shadow_recommend ::
  "beliefs \<Rightarrow> int \<Rightarrow> rat \<Rightarrow> string \<Rightarrow> bool \<Rightarrow> string list \<Rightarrow> governor_config" where
  "shadow_recommend b prior_verify_failures remaining_budget_ratio level_ceiling is_destructive signals =
    (let score = governor_score b prior_verify_failures remaining_budget_ratio in
     if is_destructive then
       \<lparr>g_reasoning_level = clamp_level ''max'' level_ceiling, g_voter_roles = [''architect'', ''security'', ''qa''],
        g_candidate_count = 1, g_critique_rounds = 1, g_context_budget = 8000, g_tool_budget = 0,
        g_verification_depth = ''strict'', g_quantum_size = 1, g_shadow = True, g_signals = signals,
        g_weight_bundle_version = WEIGHT_BUNDLE_VERSION\<rparr>
     else
       let s = set signals;
           (level, roles, cands) =
             raise_irreversible s (raise_security s (raise_concurrency s (by_score score remaining_budget_ratio)));
           rich = fl 55 100 \<le> score;
           high_stakes = (s \<inter> {''concurrency'', ''security'', ''irreversible''} \<noteq> {})
       in \<lparr>g_reasoning_level = clamp_level level level_ceiling, g_voter_roles = roles, g_candidate_count = cands,
           g_critique_rounds = (if rich \<or> ''concurrency'' \<in> s then 2 else 1),
           g_context_budget = (if rich then 12000 else 4000), g_tool_budget = (if rich then 6 else 2),
           g_verification_depth = (if rich \<or> high_stakes then ''strict'' else ''normal''), g_quantum_size = 1,
           g_shadow = True, g_signals = signals, g_weight_bundle_version = WEIGHT_BUNDLE_VERSION\<rparr>)"

definition recommend_for_task :: "string \<Rightarrow> string \<Rightarrow> int \<Rightarrow> rat \<Rightarrow> string \<Rightarrow> bool \<Rightarrow> governor_config" where
  "recommend_for_task task acceptance prior_verify_failures remaining_budget_ratio level_ceiling is_destructive =
    (let signals = classify_task_signals [task, acceptance] in
     shadow_recommend (beliefs_from_signals signals prior_verify_failures) prior_verify_failures
       remaining_budget_ratio level_ceiling is_destructive signals)"

subsection \<open>A frozen configuration is read back as it was\<close>

definition wf_governor :: "governor_config \<Rightarrow> bool" where
  "wf_governor g \<longleftrightarrow> g_reasoning_level g \<in> set LEVELS \<and> g_voter_roles g \<noteq> [] \<and> distinct (g_voter_roles g)
     \<and> set (g_voter_roles g) \<subseteq> set ALL_ROLES \<and> 1 \<le> g_candidate_count g \<and> 0 \<le> g_critique_rounds g
     \<and> 1 \<le> g_context_budget g \<and> 0 \<le> g_tool_budget g \<and> 1 \<le> g_quantum_size g
     \<and> g_verification_depth g \<in> {''normal'', ''strict''} \<and> g_weight_bundle_version g \<noteq> []"

lemma LEVELS_length: "length LEVELS = 8"
  by (simp add: LEVELS_def)

lemma clamp_level_known: "clamp_level level cap \<in> set LEVELS"
proof -
  have "min (case index_of LEVELS level of Some i \<Rightarrow> i | None \<Rightarrow> 3)
      (case index_of LEVELS cap of Some i \<Rightarrow> i | None \<Rightarrow> 4) < length LEVELS"
    by (auto simp: index_of_def Let_def LEVELS_length split: option.split if_splits)
  then show ?thesis unfolding clamp_level_def by (rule nth_mem)
qed

definition wf_choice :: "string \<times> string list \<times> int \<Rightarrow> bool" where
  "wf_choice x \<longleftrightarrow> (case x of (level, roles, cands) \<Rightarrow>
     roles \<noteq> [] \<and> distinct roles \<and> set roles \<subseteq> set ALL_ROLES \<and> 1 \<le> cands)"

lemma distinct_roles: "distinct ALL_ROLES"
  by (simp add: ALL_ROLES_def)

lemma merge_roles_wf:
  assumes "roles \<noteq> []" "set roles \<subseteq> set ALL_ROLES"
  shows "merge_roles roles extra \<noteq> []" "distinct (merge_roles roles extra)"
    "set (merge_roles roles extra) \<subseteq> set ALL_ROLES"
proof -
  obtain r where "r \<in> set roles" using assms(1) by (cases roles) auto
  with assms(2) show "merge_roles roles extra \<noteq> []" by (auto simp: merge_roles_def filter_empty_conv)
qed (use distinct_roles in \<open>simp_all add: merge_roles_def distinct_filter filter_is_subset\<close>)

lemma by_score_wf: "wf_choice (by_score score ratio)"
  by (simp add: by_score_def wf_choice_def ALL_ROLES_def Let_def)

lemma raises_wf:
  "wf_choice x \<Longrightarrow> wf_choice (raise_concurrency s x)" "wf_choice x \<Longrightarrow> wf_choice (raise_security s x)"
  "wf_choice x \<Longrightarrow> wf_choice (raise_irreversible s x)"
  by (auto simp: wf_choice_def raise_concurrency_def raise_security_def raise_irreversible_def merge_roles_wf
      dest: subsetD [OF merge_roles_wf(3)] split: prod.split)

lemma shadow_recommend_wf: "wf_governor (shadow_recommend b prior ratio cap is_destructive signals)"
proof (cases is_destructive)
  case True
  then show ?thesis
    by (simp add: shadow_recommend_def wf_governor_def clamp_level_known ALL_ROLES_def WEIGHT_BUNDLE_VERSION_def)
next
  case False
  let ?s = "set signals"
  obtain level roles cands where x: "raise_irreversible ?s (raise_security ?s (raise_concurrency ?s
      (by_score (governor_score b prior ratio) ratio))) = (level, roles, cands)" by (metis prod_cases3)
  have "wf_choice (level, roles, cands)" unfolding x [symmetric] by (intro raises_wf by_score_wf)
  with False x show ?thesis
    by (simp add: shadow_recommend_def wf_governor_def wf_choice_def clamp_level_known WEIGHT_BUNDLE_VERSION_def Let_def)
qed

lemma dedup_seen_distinct: "distinct xs \<Longrightarrow> set xs \<inter> set seen = {} \<Longrightarrow> dedup_seen seen xs = xs"
  by (induction seen xs rule: dedup_seen.induct) auto

lemma dedup_distinct: "distinct xs \<Longrightarrow> dedup xs = xs"
  by (simp add: dedup_def dedup_seen_distinct)

definition has_role :: "string \<Rightarrow> string \<times> string list \<times> int \<Rightarrow> bool" where
  "has_role r x \<longleftrightarrow> r \<in> set (fst (snd x))"

lemma merge_roles_mem: "r \<in> set (merge_roles roles extra) \<longleftrightarrow> r \<in> set ALL_ROLES \<and> (r \<in> set roles \<or> r \<in> set extra)"
  by (auto simp: merge_roles_def)

lemma qa_known: "''qa'' \<in> set ALL_ROLES"
  by (simp add: ALL_ROLES_def)

lemma raises_keep_qa:
  "has_role ''qa'' x \<Longrightarrow> has_role ''qa'' (raise_security s x)"
  "has_role ''qa'' x \<Longrightarrow> has_role ''qa'' (raise_irreversible s x)"
  by (simp_all add: has_role_def raise_security_def raise_irreversible_def case_prod_beta merge_roles_mem qa_known)

lemma raises_add_qa:
  "''concurrency'' \<in> s \<Longrightarrow> has_role ''qa'' (raise_concurrency s x)"
  "''security'' \<in> s \<Longrightarrow> has_role ''qa'' (raise_security s x)"
  "''irreversible'' \<in> s \<Longrightarrow> has_role ''qa'' (raise_irreversible s x)"
  by (simp_all add: has_role_def raise_concurrency_def raise_security_def raise_irreversible_def case_prod_beta
      merge_roles_mem qa_known)

lemma raises_qa:
  "s \<inter> {''concurrency'', ''security'', ''irreversible''} \<noteq> {} \<Longrightarrow>
     has_role ''qa'' (raise_irreversible s (raise_security s (raise_concurrency s x)))"
  by (auto intro: raises_keep_qa raises_add_qa)

lemma labels_of_strings [simp]: "map label_of (map JStr xs) = xs"
  by (induction xs) simp_all

lemma strings_of [simp]: "map (str_of lib) (map JStr xs) = xs"
  by (induction xs) simp_all

lemma iter_strings: "py_iter (or_else (JArr (map JStr xs)) (JArr [])) = Inr (map JStr xs)"
  by (simp add: or_else_def)

lemma governor_fields:
  "dget (governor_to_dict g) ''reasoning_level'' = JStr (g_reasoning_level g)"
  "dget (governor_to_dict g) ''voter_roles'' = JArr (map JStr (g_voter_roles g))"
  "dget (governor_to_dict g) ''candidate_count'' = JInt (g_candidate_count g)"
  "dget (governor_to_dict g) ''critique_rounds'' = JInt (g_critique_rounds g)"
  "dget (governor_to_dict g) ''context_budget'' = JInt (g_context_budget g)"
  "dget (governor_to_dict g) ''tool_budget'' = JInt (g_tool_budget g)"
  "dget (governor_to_dict g) ''quantum_size'' = JInt (g_quantum_size g)"
  "dget (governor_to_dict g) ''verification_depth'' = JStr (g_verification_depth g)"
  "dget (governor_to_dict g) ''shadow'' = JBool (g_shadow g)"
  "dget (governor_to_dict g) ''signals'' = JArr (map JStr (g_signals g))"
  "dget (governor_to_dict g) ''weight_bundle_version'' = JStr (g_weight_bundle_version g)"
  "has_key (governor_to_dict g) k \<longleftrightarrow> k \<in> set (map fst (governor_to_dict g))"
  "map fst (governor_to_dict g) = [''reasoning_level'', ''voter_roles'', ''candidate_count'', ''critique_rounds'',
     ''context_budget'', ''tool_budget'', ''verification_depth'', ''quantum_size'', ''shadow'', ''signals'',
     ''weight_bundle_version'']"
  by (simp_all add: governor_to_dict_def dget_def has_key_def)

lemma governor_back:
  assumes "wf_governor g"
  shows "governor_from_dict lib (JObj (governor_to_dict g)) = Inr (Some g)"
proof -
  have roles: "dedup (filter (\<lambda>r. r \<in> set ALL_ROLES) (g_voter_roles g)) = g_voter_roles g"
    using assms by (subst filter_True) (auto simp: wf_governor_def intro: dedup_distinct)
  have ints: "required_ints (governor_to_dict g)
      [''candidate_count'', ''critique_rounds'', ''context_budget'', ''tool_budget'', ''quantum_size''] =
    Inr (Some [g_candidate_count g, g_critique_rounds g, g_context_budget g, g_tool_budget g, g_quantum_size g])"
    by (simp add: required_int_def governor_fields)
  have tail: "governor_tail lib (governor_to_dict g) (g_reasoning_level g) (g_voter_roles g)
      [g_candidate_count g, g_critique_rounds g, g_context_budget g, g_tool_budget g, g_quantum_size g] = Inr (Some g)"
  proof -
    have guards: "\<not> (g_candidate_count g < 1 \<or> g_critique_rounds g < 0 \<or> g_context_budget g < 1 \<or> g_tool_budget g < 0
        \<or> g_quantum_size g < 1)" "g_verification_depth g \<in> {''normal'', ''strict''}"
      using assms by (auto simp: wf_governor_def)
    have signals: "py_iter (or_else (dget (governor_to_dict g) ''signals'') (JArr [])) = Inr (map JStr (g_signals g))"
      unfolding governor_fields by (rule iter_strings)
    have version: "str_of lib (or_else (dget (governor_to_dict g) ''weight_bundle_version'') (JStr WEIGHT_BUNDLE_VERSION))
        = g_weight_bundle_version g"
      using assms by (simp add: governor_fields or_else_def wf_governor_def)
    show ?thesis
      unfolding governor_tail_def list.case Let_def if_not_P [OF guards(1)] signals sum.case version strings_of
      using guards(2) by (simp add: governor_fields)
  qed
  have "label_of (dget (governor_to_dict g) ''reasoning_level'') = g_reasoning_level g"
    "py_iter (or_else (dget (governor_to_dict g) ''voter_roles'') (JArr [])) = Inr (map JStr (g_voter_roles g))"
    by (simp_all add: governor_fields iter_strings)
  with assms roles ints tail show ?thesis
    by (simp add: governor_from_dict_def wf_governor_def Let_def del: map_map)
qed

text \<open>A mission's cognition is frozen: the configuration the governor recommends for any task, at any
  failure count, budget and ceiling, is read back from the mission package exactly as it was written, so
  no later quantum falls back to a fresh recommendation.\<close>
theorem governor_frozen:
  "governor_from_dict lib (JObj (governor_to_dict
      (recommend_for_task task acceptance prior ratio cap is_destructive)))
   = Inr (Some (recommend_for_task task acceptance prior ratio cap is_destructive))"
  by (rule governor_back) (simp add: recommend_for_task_def shadow_recommend_wf Let_def)

text \<open>High stakes are never verified lightly: a task with a concurrency, security or irreversibility
  signal, and every destructive one, is recommended the strict verification depth, with the qa role on
  its council, whatever its score.\<close>
theorem high_stakes_strict:
  assumes "is_destructive \<or> set (classify_task_signals [task, acceptance])
      \<inter> {''concurrency'', ''security'', ''irreversible''} \<noteq> {}"
  shows "g_verification_depth (recommend_for_task task acceptance prior ratio cap is_destructive) = ''strict''
    \<and> ''qa'' \<in> set (g_voter_roles (recommend_for_task task acceptance prior ratio cap is_destructive))"
proof (cases is_destructive)
  case True
  then show ?thesis by (simp add: recommend_for_task_def shadow_recommend_def Let_def)
next
  case False
  let ?s = "set (classify_task_signals [task, acceptance])"
  obtain level roles cands where x: "raise_irreversible ?s (raise_security ?s (raise_concurrency ?s
      (by_score (governor_score (beliefs_from_signals (classify_task_signals [task, acceptance]) prior) prior ratio)
        ratio))) = (level, roles, cands)" by (metis prod_cases3)
  have stakes: "?s \<inter> {''concurrency'', ''security'', ''irreversible''} \<noteq> {}" using False assms by simp
  have "''qa'' \<in> set roles" using raises_qa [OF stakes] x by (metis fst_conv has_role_def snd_conv)
  with False x stakes show ?thesis by (simp add: recommend_for_task_def shadow_recommend_def Let_def)
qed

theorem high_stakes_strict_witness:
  "g_verification_depth (recommend_for_task ''drop the table'' [] 0 1 ''ultra'' True) = ''strict''"
  using high_stakes_strict [of True "''drop the table''" "[]" 0 1 "''ultra''"] by simp

end
