(* ===== verification/Mission_Voters.thy ===== *)
theory Mission_Voters
  imports Py_Convert
begin

text \<open>
  \<open>mission/voters.py\<close>: the council's slots, the deterministic shadow executor and the merge of the
  scorecards, in which a hard veto of \<open>qa\<close> or \<open>security\<close> wins.
\<close>

definition ROLE_BRIEF :: "(string \<times> string) list" where
  "ROLE_BRIEF =
    [(''architect'', ''Boundaries, maintainability, reversibility.''),
     (''pm'', ''Sequencing, dependencies, scope, budget.''),
     (''engineer'', ''Implementation correctness and simplicity.''),
     (''qa'', ''Evidence, recovery, operability; veto unsupported completion.''),
     (''security'', ''Secret safety, abuse, attack surface; veto unsafe execution.''),
     (''product'', ''User value and honest acceptance.''),
     (''perf'', ''Latency and resource efficiency.'')]"

record voter_slot =
  vs_role_id :: string
  vs_brief :: string
  vs_budget_tokens :: int
  vs_timeout_s :: int
  vs_runtime_binding :: string

record scorecard =
  sc_role_id :: string
  sc_recommended_action :: string
  sc_assumptions :: "string list"
  sc_expected_outcome :: string
  sc_p_success :: pyfloat
  sc_evidence_refs_needed :: "string list"
  sc_risks :: "string list"
  sc_reversibility :: string
  sc_time_compute_estimate :: string
  sc_confidence :: pyfloat
  sc_verification_method :: string
  sc_hard_veto :: bool
  sc_veto_reason :: string
  sc_valid :: bool

definition scorecard_to_dict :: "scorecard \<Rightarrow> (string \<times> json) list" where
  "scorecard_to_dict c =
    [(''role_id'', JStr (sc_role_id c)), (''recommended_action'', JStr (sc_recommended_action c)),
     (''assumptions'', JArr (map JStr (sc_assumptions c))), (''expected_outcome'', JStr (sc_expected_outcome c)),
     (''p_success'', JFloat (sc_p_success c)),
     (''evidence_refs_needed'', JArr (map JStr (sc_evidence_refs_needed c))),
     (''risks'', JArr (map JStr (sc_risks c))), (''reversibility'', JStr (sc_reversibility c)),
     (''time_compute_estimate'', JStr (sc_time_compute_estimate c)), (''confidence'', JFloat (sc_confidence c)),
     (''verification_method'', JStr (sc_verification_method c)), (''hard_veto'', JBool (sc_hard_veto c)),
     (''veto_reason'', JStr (sc_veto_reason c)), (''valid'', JBool (sc_valid c))]"

definition default_slot :: "string \<Rightarrow> string \<Rightarrow> voter_slot" where
  "default_slot rid brief =
    \<lparr>vs_role_id = rid, vs_brief = brief, vs_budget_tokens = 256, vs_timeout_s = 30,
     vs_runtime_binding = ''default''\<rparr>"

definition slot_for :: "string \<Rightarrow> voter_slot option" where
  "slot_for role =
    (let rid = str_lower (str_strip role) in
     map_option (default_slot rid) (map_of ROLE_BRIEF rid))"

text \<open>The default \<open>cap=7\<close> is the only one passed.\<close>

definition build_slots :: "string list \<Rightarrow> voter_slot list" where
  "build_slots role_ids =
    (case List.map_filter slot_for (take 7 role_ids) of
       [] \<Rightarrow> [default_slot ''engineer'' ''Implementation correctness and simplicity.'']
     | slots \<Rightarrow> slots)"

definition shadow_invoke :: "string \<Rightarrow> voter_slot \<Rightarrow> scorecard" where
  "shadow_invoke draft slot =
    (let thin = length (str_strip draft) < 40; veto = vs_role_id slot \<in> {''qa'', ''security''} \<and> thin in
     \<lparr>sc_role_id = vs_role_id slot, sc_recommended_action = (if thin then ''continue'' else ''propose_done''),
      sc_assumptions = [''shadow_executor''], sc_expected_outcome = ''shadow_only'',
      sc_p_success = float_of (if thin then 4 / 10 else 7 / 10), sc_evidence_refs_needed = [],
      sc_risks = (if thin then [''insufficient_draft''] else []), sc_reversibility = ''high'',
      sc_time_compute_estimate = [], sc_confidence = float_of (3 / 10),
      sc_verification_method = ''structural'', sc_hard_veto = veto,
      sc_veto_reason = (if veto then ''thin_draft'' else []), sc_valid = True\<rparr>)"

definition is_veto :: "scorecard \<Rightarrow> bool" where
  "is_veto c \<longleftrightarrow> sc_valid c \<and> sc_hard_veto c \<and> sc_role_id c \<in> {''qa'', ''security''}"

definition merge_scorecards :: "scorecard list \<Rightarrow> (string \<times> json) list" where
  "merge_scorecards cards =
    (let valid = filter sc_valid cards; vetoes = filter is_veto cards;
         propose = length (filter (\<lambda>c. sc_recommended_action c = ''propose_done'') valid)
     in if vetoes \<noteq> [] then
          [(''action'', JStr ''revise''), (''hard_veto'', JBool True),
           (''veto_roles'', JArr (map (\<lambda>c. JStr (sc_role_id c)) vetoes)),
           (''reasons'', JArr (map JStr (filter (\<lambda>r. r \<noteq> []) (map sc_veto_reason vetoes)))),
           (''shadow'', JBool True)]
        else
          [(''action'', JStr (if max 1 (length valid div 2) \<le> propose then ''propose_done'' else ''continue'')),
           (''hard_veto'', JBool False), (''votes'', JInt (int (length valid))), (''shadow'', JBool True)])"

end
