(* ===== verification/Mission_Epoch.thy ===== *)
theory Mission_Epoch
  imports Job_Store Autonomy Mission_Governor Mission_Voters Mission_Billing
begin

text \<open>
  \<open>seal_mission_epoch\<close> of \<open>mission/epoch.py\<close>: the coroutine that freezes a worker's candidate, moves the
  mission to verifying, checks it and commits, fails or returns it. Every awaited store call is a step at
  which other workers may have run: \<open>interfere n\<close> is what they did to the database before call \<open>n\<close>,
  \<open>reading n\<close> gives the clock values the call reads, \<open>wd_seen\<close> keeps, for the theorems, the databases the calls found, \<open>retention\<close> the configured retention hours. A raised exception ends the program with its error
  and the database as it is then. The keyword defaults of \<open>continue_envelope\<close> are written out.
\<close>

subsection \<open>Programs over the store\<close>

record outside =
  interfere :: "nat \<Rightarrow> db \<Rightarrow> db"
  reading :: "nat \<Rightarrow> nat \<Rightarrow> instant"
  retention :: "int option"

record world =
  wd_db :: db
  wd_calls :: nat
  wd_seen :: "db list"

datatype epoch_error = StoreError db_error | PyRaise py_error

type_synonym 'a prog = "world \<Rightarrow> (epoch_error + 'a) \<times> world"

definition give :: "'a \<Rightarrow> 'a prog" where
  "give x w = (Inr x, w)"

definition and_then :: "'a prog \<Rightarrow> ('a \<Rightarrow> 'b prog) \<Rightarrow> 'b prog" where
  "and_then m f w = (case m w of (Inl e, w') \<Rightarrow> (Inl e, w') | (Inr x, w') \<Rightarrow> f x w')"

text \<open>A value whose computation may raise.\<close>

definition lift_py :: "py_error + 'a \<Rightarrow> 'a prog" where
  "lift_py v w = (case v of Inl e \<Rightarrow> (Inl (PyRaise e), w) | Inr x \<Rightarrow> (Inr x, w))"

definition store_call :: "outside \<Rightarrow> ((nat \<Rightarrow> instant) \<Rightarrow> db \<Rightarrow> (db_error + 'a) \<times> db) \<Rightarrow> 'a prog" where
  "store_call out f w =
    (let n = wd_calls w; found = interfere out n (wd_db w); (x, d) = f (reading out n) found
     in (map_sum StoreError id x, \<lparr>wd_db = d, wd_calls = Suc n, wd_seen = wd_seen w @ [found]\<rparr>))"

definition read_call :: "outside \<Rightarrow> (db \<Rightarrow> 'a) \<Rightarrow> 'a prog" where
  "read_call out f = store_call out (\<lambda>_ d. (Inr (f d), d))"

text \<open>A call that writes and raises nothing.\<close>

definition write_call :: "outside \<Rightarrow> ((nat \<Rightarrow> instant) \<Rightarrow> db \<Rightarrow> 'a \<times> db) \<Rightarrow> 'a prog" where
  "write_call out f = store_call out (\<lambda>clock d. (Inr (fst (f clock d)), snd (f clock d)))"

subsection \<open>Arguments and rows\<close>

record epoch_args =
  ea_mission_id :: string
  ea_job_id :: string
  ea_acceptance_text :: string
  ea_result :: doc
  ea_generation :: int
  ea_continue_token :: string
  ea_lease_token :: "string option"
  ea_envelope_version :: int
  ea_shadow_cognition :: bool
  ea_lease_ttl :: int

definition package_of :: "mission_row \<Rightarrow> doc" where
  "package_of r = loads_or_empty (m_package r)"

definition checkpoint_doc :: "mission_row \<Rightarrow> doc" where
  "checkpoint_doc r = loads_or_empty (m_checkpoint r)"

definition bill :: "epoch_args \<Rightarrow> mission_row \<Rightarrow> billing" where
  "bill a r = billing_with_result (JObj (checkpoint_doc r)) (ea_result a) (ea_generation a)"

definition token_of :: "mission_row \<Rightarrow> string" where
  "token_of r = (case m_lease_token r of None \<Rightarrow> [] | Some t \<Rightarrow> t)"

text \<open>\<open>int(package.get(''lease_ttl_seconds'', ttl))\<close> with its handler, then the clamp.\<close>

definition frozen_lease_ttl :: "doc \<Rightarrow> int \<Rightarrow> py_error + int" where
  "frozen_lease_ttl package ttl =
    (case (if has_key package ''lease_ttl_seconds'' then py_int (dget package ''lease_ttl_seconds'') else Inr ttl) of
       Inr n \<Rightarrow> Inr (max 30 (min n 900))
     | Inl (OverflowError m) \<Rightarrow> Inl (OverflowError m)
     | Inl _ \<Rightarrow> Inr (max 30 (min ttl 900)))"

definition worker_token :: "epoch_args \<Rightarrow> mission_row \<Rightarrow> string" where
  "worker_token a r = (case ea_lease_token a of Some t \<Rightarrow> if t = [] then token_of r else t | None \<Rightarrow> token_of r)"

text \<open>The row still carries the worker's fence.\<close>

definition fence_held :: "epoch_args \<Rightarrow> string \<Rightarrow> mission_row \<Rightarrow> bool" where
  "fence_held a token r \<longleftrightarrow> ea_generation a = m_lease_generation r \<and> token = token_of r"

subsection \<open>Envelopes\<close>

definition continue_from ::
  "pylib \<Rightarrow> epoch_args \<Rightarrow> mission_row \<Rightarrow> string list \<Rightarrow> string list \<Rightarrow> string option \<Rightarrow> doc" where
  "continue_from lib a r gaps refs text =
     continue_envelope lib (ea_job_id a) (ea_continue_token a) (m_ledger_cursor r) (m_acceptance_hash r) gaps refs
       text JNull"

definition with_mission :: "doc \<Rightarrow> doc \<Rightarrow> doc" where
  "with_mission m sealed = AList.update ''mission'' (JObj m) sealed"

definition status_json :: "mission_row \<Rightarrow> json" where
  "status_json r = JStr (status_value (m_status r))"

text \<open>The lease was lost before the candidate was frozen, and after.\<close>

definition lost_before :: "pylib \<Rightarrow> epoch_args \<Rightarrow> mission_row \<Rightarrow> string \<Rightarrow> billing \<Rightarrow> doc" where
  "lost_before lib a r text b =
    apply_mission_billing
      (with_mission [(''status'', status_json r), (''lease_lost'', JBool True), (''committed'', JBool False)]
        (continue_from lib a r [''stale_lease_owner''] [] (Some text))) b"

definition lost_after ::
  "pylib \<Rightarrow> epoch_args \<Rightarrow> mission_row \<Rightarrow> string \<Rightarrow> string \<Rightarrow> string \<Rightarrow> doc \<Rightarrow> billing \<Rightarrow> doc" where
  "lost_after lib a r projection digest text extra b =
    apply_mission_billing
      (with_mission ([(''status'', status_json r), (''lease_lost'', JBool True)] @ extra)
        (apply_continue_cream lib
          (continue_from lib a r [''stale_lease_generation''] [digest] (Some text)) (JStr projection))) b"

subsection \<open>Terminal missions\<close>

definition job_for :: "epoch_args \<Rightarrow> mission_row \<Rightarrow> string" where
  "job_for a r = (if m_job_id r = [] then ea_job_id a else m_job_id r)"

definition expected_job_status :: "mission_row \<Rightarrow> string" where
  "expected_job_status r = (if m_status r = COMPLETE then ''complete'' else ''error'')"

text \<open>The stored job is this mission's durable result.\<close>

definition stored_result :: "pylib \<Rightarrow> epoch_args \<Rightarrow> mission_row \<Rightarrow> (string \<times> doc option) option \<Rightarrow> doc option" where
  "stored_result lib a r stored =
    (case stored of
       Some (st, Some payload) \<Rightarrow>
         if st = expected_job_status r
           \<and> text_or_empty lib (dget payload ''status'') = expected_job_status r
           \<and> text_or_empty lib (dget payload ''job_id'') = job_for a r
           \<and> text_or_empty lib (dget payload ''acceptance_hash'') = m_acceptance_hash r
           \<and> text_or_empty lib (dget (obj_of (dget payload ''mission'')) ''status'') = status_value (m_status r)
         then Some payload else None
     | _ \<Rightarrow> None)"

definition terminal_gaps :: "pylib \<Rightarrow> mission_row \<Rightarrow> py_error + string list" where
  "terminal_gaps lib r =
    (if m_status r = COMPLETE then Inr []
     else case py_iter (or_else (dget (obj_of (dget (checkpoint_doc r) ''last_verify'')) ''gaps'') (JArr [])) of
         Inl e \<Rightarrow> Inl e
       | Inr xs \<Rightarrow>
           (case filter truthy xs of
              [] \<Rightarrow> Inr [str_of lib (or_else (dget (checkpoint_doc r) ''terminal_reason'')
                                          (JStr (status_value (m_status r))))]
            | ys \<Rightarrow> Inr (map (str_of lib) ys)))"

definition terminal_envelope ::
  "epoch_args \<Rightarrow> mission_row \<Rightarrow> string \<Rightarrow> mission_artifact_row option \<Rightarrow> string list \<Rightarrow> doc" where
  "terminal_envelope a r projection_hash artifact gaps =
    (let complete = (m_status r = COMPLETE); status = status_value (m_status r);
         base =
           [(''status'', JStr (if complete then ''complete'' else ''error'')), (''job_id'', JStr (ea_job_id a)),
            (''continue_token'', JStr (if m_continue_token r = [] then ea_continue_token a else m_continue_token r)),
            (''acceptance_hash'', JStr (m_acceptance_hash r)),
            (''artifact_refs'', JArr (if projection_hash = [] then [] else [JStr projection_hash])),
            (''mission'', JObj
               [(''protocol'', JStr ''unigrok_mission_v2''), (''status'', JStr status), (''terminal'', JBool True),
                (''committed'', JBool complete), (''gaps'', gaps_json gaps)]),
            (''autonomy'', JObj
               [(''protocol'', JStr ''unigrok_continue_v1''), (''committed'', JBool complete),
                (''gaps'', gaps_json gaps)])]
     in case (complete, artifact) of
          (True, Some x) \<Rightarrow> base @ [(''text'', JStr (if ma_sealed x = [] then ma_projection x else ma_sealed x))]
        | (True, None) \<Rightarrow> base @ [(''text'', JStr ''Mission completed; the durable answer projection is unavailable.'')]
        | (False, x) \<Rightarrow> base
            @ [(''text'', JStr (''Mission ended with terminal status '' @ status @ '': '' @ join '', '' gaps @ ''.''))]
            @ (case x of None \<Rightarrow> []
               | Some y \<Rightarrow> [(''proposed_text'', JStr (if ma_projection y = [] then ma_sealed y else ma_projection y))]))"

definition terminal_payload :: "pylib \<Rightarrow> outside \<Rightarrow> epoch_args \<Rightarrow> mission_row \<Rightarrow> billing \<Rightarrow> doc prog" where
  "terminal_payload lib out a r b =
    and_then (read_call out (load_agent_job (job_for a r) None)) (\<lambda>stored.
      case stored_result lib a r stored of
        Some payload \<Rightarrow> give (apply_mission_billing (set_default ''job_id'' (JStr (ea_job_id a)) payload) b)
      | None \<Rightarrow>
          let cp = checkpoint_doc r;
              projection_hash = str_of lib (or_else (dget cp ''candidate_projection_hash'')
                (JStr (text_or_empty lib (dget cp ''candidate_hash''))))
          in and_then (if projection_hash = [] then give None
               else read_call out (get_mission_artifact projection_hash)) (\<lambda>artifact.
             and_then (lift_py (terminal_gaps lib r)) (\<lambda>gaps.
               give (apply_mission_billing (terminal_envelope a r projection_hash artifact gaps) b))))"

subsection \<open>The frozen candidate\<close>

record candidate =
  cd_token :: string
  cd_text :: string
  cd_digest :: string
  cd_projection :: string
  cd_key :: string
  cd_task :: string
  cd_governor :: governor_config
  cd_source :: string
  cd_merge :: doc

definition candidate_cards :: "epoch_args \<Rightarrow> governor_config \<Rightarrow> string \<Rightarrow> scorecard list" where
  "candidate_cards a gov text =
    (if ea_shadow_cognition a then map (shadow_invoke text) (build_slots (g_voter_roles gov)) else [])"

definition council_merge :: "scorecard list \<Rightarrow> doc" where
  "council_merge cards =
    (if cards = [] then [(''action'', JStr ''propose_done''), (''shadow'', JBool True)] else merge_scorecards cards)"

definition package_task :: "pylib \<Rightarrow> epoch_args \<Rightarrow> doc \<Rightarrow> string" where
  "package_task lib a package = text_or_empty lib (or_else (dget package ''task'') (JStr (ea_acceptance_text a)))"

text \<open>The frozen configuration, or the one recommendation for a row that has none.\<close>

definition epoch_governor :: "pylib \<Rightarrow> epoch_args \<Rightarrow> mission_row \<Rightarrow> py_error + governor_config \<times> string" where
  "epoch_governor lib a r =
    (let package = package_of r in
     case governor_from_dict lib (dget package ''governor_config'') of
       Inl e \<Rightarrow> Inl e
     | Inr (Some gov) \<Rightarrow> Inr (gov, ''frozen_mission'')
     | Inr None \<Rightarrow> Inr
         (recommend_for_task (package_task lib a package)
            (text_or_empty lib (or_else (JStr (ea_acceptance_text a)) (dget package ''acceptance'')))
            (m_verify_failures r) 1
            (str_of lib (or_else (dget package ''level_ceiling'') (JStr ''ultra'')))
            (truthy (dget package ''destructive'')),
          ''legacy_mission_fallback''))"

definition projection_kind :: "epoch_args \<Rightarrow> string" where
  "projection_kind a = ''candidate_projection:'' @ ea_mission_id a"

definition candidate_of :: "pylib \<Rightarrow> epoch_args \<Rightarrow> mission_row \<Rightarrow> governor_config \<times> string \<Rightarrow> candidate" where
  "candidate_of lib a r gs =
    (let text = text_or_empty lib (dget (ea_result a) ''text''); projection = artifact_projection text in
     \<lparr>cd_token = worker_token a r, cd_text = text, cd_digest = sealed_content_hash lib text ''candidate'',
      cd_projection = projection, cd_key = sealed_content_hash lib projection (projection_kind a),
      cd_task = package_task lib a (package_of r), cd_governor = fst gs, cd_source = snd gs,
      cd_merge = council_merge (candidate_cards a (fst gs) text)\<rparr>)"

text \<open>A ledger event under the worker's fence.\<close>

definition fenced_event :: "outside \<Rightarrow> epoch_args \<Rightarrow> string \<Rightarrow> string \<Rightarrow> doc \<Rightarrow> int prog" where
  "fenced_event out a token event_type payload =
    store_call out (\<lambda>clock. append_mission_event (clock 0) (ea_mission_id a) event_type payload (Some token)
      (Some (ea_generation a)))"

definition freeze_candidate :: "outside \<Rightarrow> epoch_args \<Rightarrow> candidate \<Rightarrow> unit prog" where
  "freeze_candidate out a c =
    and_then (store_call out (\<lambda>clock. put_mission_artifact (clock 0) (ea_mission_id a) (cd_key c) (projection_kind a)
        (cd_projection c) (cd_projection c) (Some (cd_token c)) (Some (ea_generation a)))) (\<lambda>_.
    and_then (fenced_event out a (cd_token c) ''CandidateFrozen''
        [(''candidate_hash'', JStr (cd_digest c)), (''projection_hash'', JStr (cd_key c)),
         (''bytes'', JInt (int (length (cd_text c)))), (''governor'', JObj (governor_to_dict (cd_governor c))),
         (''governor_source'', JStr (cd_source c))]) (\<lambda>_.
    if candidate_cards a (cd_governor c) (cd_text c) = [] then give ()
    else and_then (fenced_event out a (cd_token c) ''CouncilShadow''
        [(''merge'', JObj (cd_merge c)),
         (''votes'', JArr (map (JObj \<circ> scorecard_to_dict) (candidate_cards a (cd_governor c) (cd_text c))))])
      (\<lambda>_. give ())))"

subsection \<open>The verdict\<close>

definition evidence_json :: "pylib \<Rightarrow> mission_evidence_row \<Rightarrow> json" where
  "evidence_json lib e = JObj
    [(''class'', JStr (ev_class e)), (''digest'', JStr (ev_digest e)), (''payload'', JObj (ev_payload e)),
     (''artifact_refs'', JArr (map JStr (ev_artifact_refs e))), (''lease_generation'', JInt (ev_lease_generation e)),
     (''created_at'', JStr (isoformat lib (ev_created_at e)))]"

definition epoch_policy :: "doc \<Rightarrow> py_error + evidence_policy" where
  "epoch_policy package =
    (case dget package ''evidence_policy'' of JObj p \<Rightarrow> policy_from_dict p | _ \<Rightarrow> Inr default_agent_policy)"

definition live_veto :: "epoch_args \<Rightarrow> candidate \<Rightarrow> string \<Rightarrow> bool" where
  "live_veto a c role \<longleftrightarrow> truthy (dget (cd_merge c) ''hard_veto'') \<and> \<not> ea_shadow_cognition a
     \<and> JStr role \<in> set (arr_of (dget (cd_merge c) ''veto_roles''))"

definition epoch_input ::
  "pylib \<Rightarrow> epoch_args \<Rightarrow> candidate \<Rightarrow> mission_row \<Rightarrow> mission_evidence_row list \<Rightarrow> evidence_policy \<Rightarrow> verify_input" where
  "epoch_input lib a c r evidence policy =
    \<lparr>candidate_text = cd_text c, candidate_hash = cd_digest c, acceptance_text = ea_acceptance_text a,
     evidence_records = map (evidence_json lib) evidence, vi_policy = policy, lease_generation = ea_generation a,
     expected_lease_generation = m_lease_generation r, vi_status = status_value VERIFYING,
     destructive = truthy (dget (package_of r) ''destructive''),
     security_veto = live_veto a c ''security'', qa_veto = live_veto a c ''qa'', task_text = cd_task c,
     frozen_task_class = dget (package_of r) ''task_class'',
     frozen_verification_mode = dget (package_of r) ''verification_mode'', candidate_artifact_refs = [cd_key c]\<rparr>"

subsection \<open>Settling a checked candidate\<close>

definition swap_args ::
  "epoch_args \<Rightarrow> candidate \<Rightarrow> mission_row \<Rightarrow> mission_status \<Rightarrow> mission_status \<Rightarrow> doc \<Rightarrow> bool \<Rightarrow> bool \<Rightarrow> cas_args" where
  "swap_args a c r st new update clear bump =
    \<lparr>ca_mission_id = ea_mission_id a, ca_expect_status = status_value st, ca_expect_version = m_checkpoint_version r,
     ca_expect_generation = ea_generation a, ca_new_status = status_value new, ca_expect_token = Some (cd_token c),
     ca_clear_lease = clear, ca_checkpoint_update = Some update, ca_bump_verify_failure = bump\<rparr>"

definition swap :: "outside \<Rightarrow> cas_args \<Rightarrow> bool prog" where
  "swap out ca = write_call out (\<lambda>clock. cas_mission_status (clock 0) ca)"

definition reload :: "outside \<Rightarrow> epoch_args \<Rightarrow> mission_row \<Rightarrow> mission_row prog" where
  "reload out a r = and_then (read_call out (load_mission (ea_mission_id a)))
     (\<lambda>row. give (case row of None \<Rightarrow> r | Some x \<Rightarrow> x))"

definition save_job :: "pylib \<Rightarrow> outside \<Rightarrow> epoch_args \<Rightarrow> string \<Rightarrow> doc \<Rightarrow> unit prog" where
  "save_job lib out a status payload =
    write_call out (\<lambda>clock d. ((), save_agent_job (text_or_empty lib) (retention out) (clock 0) (clock 1) (clock 2)
      (ea_job_id a) status (Some payload) None d))"

definition settled_update :: "candidate \<Rightarrow> doc \<Rightarrow> doc \<Rightarrow> billing \<Rightarrow> doc" where
  "settled_update c check extra b =
    [(''candidate_hash'', JStr (cd_digest c)), (''candidate_projection_hash'', JStr (cd_key c)),
     (''last_verify'', JObj check)] @ extra @ [(''billing'', JObj (billing_json b))]"

definition mission_report :: "candidate \<Rightarrow> json \<Rightarrow> bool \<Rightarrow> string list \<Rightarrow> verify_result \<Rightarrow> doc \<Rightarrow> json" where
  "mission_report c status committed gaps check extra = JObj
    ([(''protocol'', JStr ''unigrok_mission_v2''), (''status'', status), (''committed'', JBool committed),
      (''gaps'', gaps_json gaps), (''check'', JObj (verify_to_dict check)),
      (''governor_shadow'', JObj (governor_to_dict (cd_governor c))), (''governor_source'', JStr (cd_source c))] @ extra)"

definition autonomy_report :: "bool \<Rightarrow> string list \<Rightarrow> json" where
  "autonomy_report committed gaps = JObj
    [(''protocol'', JStr ''unigrok_continue_v1''), (''committed'', JBool committed), (''gaps'', gaps_json gaps),
     (''check'', JObj [(''ok'', JBool committed), (''gaps'', gaps_json gaps)])]"

fun set_all :: "doc \<Rightarrow> doc \<Rightarrow> doc" where
  "set_all [] d = d"
| "set_all ((k, v) # kvs) d = set_all kvs (AList.update k v d)"

definition base_updates :: "epoch_args \<Rightarrow> candidate \<Rightarrow> mission_row \<Rightarrow> string \<Rightarrow> doc" where
  "base_updates a c r status =
    [(''status'', JStr status), (''job_id'', JStr (ea_job_id a)), (''acceptance_hash'', JStr (m_acceptance_hash r)),
     (''continue_token'', JStr (ea_continue_token a)), (''artifact_refs'', JArr [JStr (cd_key c)])]"

definition complete_payload :: "epoch_args \<Rightarrow> candidate \<Rightarrow> mission_row \<Rightarrow> verify_result \<Rightarrow> billing \<Rightarrow> doc" where
  "complete_payload a c r check b =
    apply_mission_billing
      (set_all (base_updates a c r ''complete''
         @ [(''mission'', mission_report c (JStr (status_value COMPLETE)) True [] check []),
            (''autonomy'', autonomy_report True [])]) (ea_result a)) b"

definition failed_payload :: "epoch_args \<Rightarrow> candidate \<Rightarrow> mission_row \<Rightarrow> verify_result \<Rightarrow> billing \<Rightarrow> doc" where
  "failed_payload a c r check b =
    apply_mission_billing
      (set_all (base_updates a c r ''error''
         @ [(''stop_reason'', JStr ''FailDone''),
            (''text'', JStr (''Mission verifier failed permanently (unrepairable gaps under task class ''
               @ vr_task_class check @ ''): '' @ join '', '' (vr_gaps check) @ ''.'')),
            (''mission'', mission_report c (JStr (status_value FAILED)) False (vr_gaps check) check
               [(''terminal_reason'', JStr ''unrepairable_gaps''), (''cas_failed'', JBool False)]),
            (''autonomy'', autonomy_report False (vr_gaps check))]) (ea_result a)) b"

definition copied_keys :: "string list" where
  "copied_keys = [''model'', ''plane'', ''resolved_plane'', ''cost_usd'', ''orchestration'', ''telemetry_id'',
     ''harness'', ''requested_mode'', ''level'', ''resolved_depth'', ''agent_tools'', ''session'']"

definition copy_keys :: "doc \<Rightarrow> doc \<Rightarrow> doc" where
  "copy_keys result sealed =
    set_all (map (\<lambda>k. (k, dget result k)) (filter (has_key result) copied_keys)) sealed"

text \<open>The candidate's hash beside the gaps of the previous verdict.\<close>

definition previous_verdict :: "doc \<Rightarrow> json" where
  "previous_verdict cp =
    (case dget cp ''last_verify'' of
       JObj raw \<Rightarrow> JObj (AList.update ''candidate_hash''
         (or_else (dget raw ''candidate_hash'') (dget cp ''candidate_hash'')) raw)
     | _ \<Rightarrow> if truthy (dget cp ''candidate_hash'')
            then JObj [(''candidate_hash'', dget cp ''candidate_hash''), (''gaps'', JArr [])] else JNull)"

definition fail_is_final :: "candidate \<Rightarrow> mission_row \<Rightarrow> verify_result \<Rightarrow> bool" where
  "fail_is_final c r check \<longleftrightarrow>
     should_terminal_fail (vr_gaps check) (if vr_task_class check = [] then ''substantial'' else vr_task_class check)
       (cd_digest c) (m_verify_failures r) (previous_verdict (checkpoint_doc r))"

text \<open>The mission goes back to the host.\<close>

definition waiting_envelope ::
  "pylib \<Rightarrow> epoch_args \<Rightarrow> candidate \<Rightarrow> mission_row \<Rightarrow> mission_row option \<Rightarrow> verify_result \<Rightarrow> bool \<Rightarrow> string list \<Rightarrow> doc" where
  "waiting_envelope lib a c r cursor_row check waiting gaps =
    (let envelope = continue_envelope lib (ea_job_id a) (ea_continue_token a)
           (case cursor_row of None \<Rightarrow> 0 | Some x \<Rightarrow> m_ledger_cursor x) (m_acceptance_hash r) gaps [cd_key c]
           (Some (''Mission verifier rejected CommitDone. Re-invoke agent with continue_token to close gaps: ''
             @ join '', '' gaps @ ''.'')) JNull;
         status = (case cursor_row of None \<Rightarrow> JStr (status_value WAITING_EVENT) | Some x \<Rightarrow> status_json x)
     in apply_mission_billing
       (AList.update ''autonomy'' (autonomy_report False gaps)
         (AList.update ''mission''
           (mission_report c status False gaps check [(''waiting_cas_ok'', JBool waiting)])
           (apply_continue_cream lib (copy_keys (ea_result a) envelope) (JStr (cd_projection c)))))
       (bill a (case cursor_row of None \<Rightarrow> r | Some x \<Rightarrow> x)))"

definition return_to_host ::
  "pylib \<Rightarrow> outside \<Rightarrow> epoch_args \<Rightarrow> candidate \<Rightarrow> mission_row \<Rightarrow> verify_result \<Rightarrow> doc prog" where
  "return_to_host lib out a c r check =
    and_then (swap out (swap_args a c r VERIFYING WAITING_EVENT
        (settled_update c (AList.update ''candidate_hash'' (JStr (cd_digest c)) (verify_to_dict check)) [] (bill a r))
        True True)) (\<lambda>waiting.
    and_then (read_call out (load_mission (ea_mission_id a))) (\<lambda>cursor_row.
      if waiting then give (waiting_envelope lib a c r cursor_row check True (vr_gaps check))
      else case cursor_row of
          None \<Rightarrow> give (waiting_envelope lib a c r None check False (vr_gaps check @ [''cas_waiting_event_failed'']))
        | Some x \<Rightarrow>
            if mission_terminal x then terminal_payload lib out a x (bill a x)
            else give (waiting_envelope lib a c r (Some x) check False
              (vr_gaps check @ [''cas_waiting_event_failed'']))))"

definition conflict_envelope ::
  "pylib \<Rightarrow> epoch_args \<Rightarrow> candidate \<Rightarrow> mission_row \<Rightarrow> string list \<Rightarrow> doc" where
  "conflict_envelope lib a c cur gaps =
    apply_mission_billing
      (with_mission [(''protocol'', JStr ''unigrok_mission_v2''), (''status'', status_json cur),
          (''committed'', JBool False), (''gaps'', gaps_json gaps), (''cas_failed'', JBool True)]
        (apply_continue_cream lib (continue_from lib a cur gaps [cd_key c]
           (Some (''Mission ownership changed before FailDone; re-invoke the '' @
              ''same continue_token to read durable truth.''))) (JStr (cd_projection c))))
      (bill a cur)"

definition fail_done ::
  "pylib \<Rightarrow> outside \<Rightarrow> epoch_args \<Rightarrow> candidate \<Rightarrow> mission_row \<Rightarrow> verify_result \<Rightarrow> doc prog" where
  "fail_done lib out a c r check =
    and_then (swap out (swap_args a c r VERIFYING FAILED
        (settled_update c (verify_to_dict check) [(''terminal_reason'', JStr ''unrepairable_gaps'')] (bill a r))
        True True)) (\<lambda>failed.
      if failed then
        let payload = failed_payload a c r check (bill a r)
        in and_then (save_job lib out a ''error'' payload) (\<lambda>_. give payload)
      else and_then (reload out a r) (\<lambda>cur.
        if mission_terminal cur then terminal_payload lib out a cur (bill a cur)
        else give (conflict_envelope lib a c cur (vr_gaps check @ [''cas_faildone_failed'']))))"

definition commit_failed_or_refused ::
  "pylib \<Rightarrow> outside \<Rightarrow> epoch_args \<Rightarrow> candidate \<Rightarrow> mission_row \<Rightarrow> verify_result \<Rightarrow> doc prog" where
  "commit_failed_or_refused lib out a c r check =
    (if fail_is_final c r check then fail_done lib out a c r check else return_to_host lib out a c r check)"

text \<open>\<open>CommitDone\<close>: the structural evidence, then the swap to \<open>COMPLETE\<close>.\<close>

definition commit_done ::
  "pylib \<Rightarrow> outside \<Rightarrow> epoch_args \<Rightarrow> candidate \<Rightarrow> mission_row \<Rightarrow> verify_result \<Rightarrow> doc \<Rightarrow> doc prog" where
  "commit_done lib out a c r check record =
    and_then (write_call out (\<lambda>clock. append_mission_evidence (clock 0) (ea_mission_id a) ''structural''
        (str_of lib (dget record ''digest'')) (obj_of (dget record ''payload'')) [cd_key c] (ea_generation a)
        (Some (cd_token c)))) (\<lambda>_.
    and_then (swap out (swap_args a c r VERIFYING COMPLETE
        (settled_update c (verify_to_dict check) [] (bill a r)) True False)) (\<lambda>committed.
      if committed then
        let payload = complete_payload a c r check (bill a r)
        in and_then (save_job lib out a ''complete'' payload) (\<lambda>_. give payload)
      else commit_failed_or_refused lib out a c r check))"

text \<open>After the check: the row is read again, since a claim may have taken the mission meanwhile.\<close>

definition settle ::
  "pylib \<Rightarrow> outside \<Rightarrow> epoch_args \<Rightarrow> candidate \<Rightarrow> mission_row \<Rightarrow> verify_result \<Rightarrow> doc prog" where
  "settle lib out a c refreshed check =
    and_then (reload out a refreshed) (\<lambda>r.
      if m_status r = COMPLETE then terminal_payload lib out a r (bill a r)
      else if \<not> fence_held a (cd_token c) r then
        give (lost_after lib a r (cd_projection c) (cd_key c)
          ''Mission lease lost during verifying; re-invoke continue_token.'' [(''committed'', JBool False)] (bill a r))
      else case (vr_ok check, vr_structural_record check) of
          (True, Some record) \<Rightarrow> commit_done lib out a c r check record
        | _ \<Rightarrow> commit_failed_or_refused lib out a c r check)"

definition check_candidate :: "pylib \<Rightarrow> switches \<Rightarrow> outside \<Rightarrow> epoch_args \<Rightarrow> candidate \<Rightarrow> mission_row \<Rightarrow> doc prog" where
  "check_candidate lib sw out a c r =
    and_then (read_call out (list_mission_evidence (ea_mission_id a))) (\<lambda>evidence.
    and_then (lift_py (epoch_policy (package_of r))) (\<lambda>policy.
      let check = verify_commit lib sw (epoch_input lib a c r evidence policy) in
      and_then (fenced_event out a (cd_token c) ''VerifyChecked'' (verify_to_dict check)) (\<lambda>_.
        settle lib out a c r check)))"

subsection \<open>Entering verification\<close>

definition cas_envelope :: "pylib \<Rightarrow> epoch_args \<Rightarrow> candidate \<Rightarrow> mission_row \<Rightarrow> mission_status \<Rightarrow> doc" where
  "cas_envelope lib a c r status_now =
    apply_mission_billing
      (with_mission [(''protocol'', JStr ''unigrok_mission_v2''), (''status'', status_json r),
          (''committed'', JBool False), (''gaps'', gaps_json [''cas_verifying_failed'']),
          (''status_at_cas'', JStr (status_value status_now))]
        (apply_continue_cream lib (continue_from lib a r [''cas_verifying_failed''] [cd_key c] None)
          (JStr (cd_projection c))))
      (bill a r)"

text \<open>A sticky \<open>VERIFYING\<close> row is checked as it is; \<open>VERIFYING\<close> to \<open>VERIFYING\<close> is no transition.\<close>

definition enter_verifying ::
  "pylib \<Rightarrow> switches \<Rightarrow> outside \<Rightarrow> epoch_args \<Rightarrow> candidate \<Rightarrow> mission_row \<Rightarrow> doc prog" where
  "enter_verifying lib sw out a c fresh =
    (if m_status fresh = VERIFYING then check_candidate lib sw out a c fresh
     else if m_status fresh = RUNNING then
       and_then (swap out (swap_args a c fresh RUNNING VERIFYING
           [(''billing'', JObj (billing_json (bill a fresh)))] False False)) (\<lambda>ok.
       and_then (reload out a fresh) (\<lambda>r.
         if ok then check_candidate lib sw out a c r else give (cas_envelope lib a c r (m_status fresh))))
     else give (cas_envelope lib a c fresh (m_status fresh)))"

definition bind_envelope ::
  "pylib \<Rightarrow> switches \<Rightarrow> outside \<Rightarrow> epoch_args \<Rightarrow> candidate \<Rightarrow> mission_row \<Rightarrow> doc prog" where
  "bind_envelope lib sw out a c fresh =
    and_then (write_call out (\<lambda>clock. touch_mission_envelope (clock 0) (ea_mission_id a) (ea_envelope_version a)
        (cd_token c) (ea_generation a))) (\<lambda>bound.
      if bound then enter_verifying lib sw out a c fresh
      else and_then (reload out a fresh) (\<lambda>cur.
        if mission_terminal cur then terminal_payload lib out a cur (bill a cur)
        else give (lost_after lib a cur (cd_projection c) (cd_key c)
          ''Mission lease lost while binding the envelope; re-invoke continue_token.''
          [(''committed'', JBool False)] (bill a cur))))"

definition seal_frozen :: "pylib \<Rightarrow> switches \<Rightarrow> outside \<Rightarrow> epoch_args \<Rightarrow> candidate \<Rightarrow> mission_row \<Rightarrow> doc prog" where
  "seal_frozen lib sw out a c r =
    and_then (freeze_candidate out a c) (\<lambda>_.
    and_then (reload out a r) (\<lambda>fresh.
      if \<not> fence_held a (cd_token c) fresh then
        give (lost_after lib a fresh (cd_projection c) (cd_key c)
          ''Mission lease lost before verifying; re-invoke continue_token.'' [] (bill a fresh))
      else bind_envelope lib sw out a c fresh))"

definition seal_owned :: "pylib \<Rightarrow> switches \<Rightarrow> outside \<Rightarrow> epoch_args \<Rightarrow> int \<Rightarrow> mission_row \<Rightarrow> doc prog" where
  "seal_owned lib sw out a ttl r =
    and_then (write_call out (\<lambda>clock. heartbeat_mission (clock 0) (clock 1) (ea_mission_id a) (worker_token a r)
        (ea_generation a) ttl)) (\<lambda>renewed.
      if \<not> renewed then give (lost_before lib a r ''Mission lease was lost before candidate freeze.'' (bill a r))
      else and_then (lift_py (epoch_governor lib a r)) (\<lambda>gs.
        seal_frozen lib sw out a (candidate_of lib a r gs) r))"

definition seal_mission_epoch :: "pylib \<Rightarrow> switches \<Rightarrow> outside \<Rightarrow> epoch_args \<Rightarrow> doc prog" where
  "seal_mission_epoch lib sw out a =
    and_then (read_call out (load_mission (ea_mission_id a))) (\<lambda>loaded.
      case loaded of
        None \<Rightarrow> give (set_default ''job_id'' (JStr (ea_job_id a)) (ea_result a))
      | Some r \<Rightarrow>
          and_then (lift_py (frozen_lease_ttl (package_of r) (ea_lease_ttl a))) (\<lambda>ttl.
            if mission_terminal r then terminal_payload lib out a r (bill a r)
            else if worker_token a r = [] \<or> \<not> fence_held a (worker_token a r) r then
              give (lost_before lib a r ''Mission lease is not owned by this worker; re-invoke continue_token.'' (bill a r))
            else seal_owned lib sw out a ttl r))"

end
