(* ===== verification/Mission_Epoch_Facts.thy ===== *)
theory Mission_Epoch_Facts
  imports Mission_Epoch Mission_Concurrency
begin

text \<open>
  What an epoch can do to its mission while other workers run: it completes the mission only on a verdict
  of the commit check about its own candidate, and it writes nothing for a worker that has lost its lease.
  \<open>keeps I m\<close> says that the program \<open>m\<close> keeps \<open>I\<close>; its rules follow the program's structure, one per
  combinator, and each store call is an operation of \<open>mission_op\<close> or leaves the missions alone.
\<close>

named_theorems keeps_rules

definition keeps :: "(db \<Rightarrow> bool) \<Rightarrow> 'a prog \<Rightarrow> bool" where
  "keeps I m \<longleftrightarrow> (\<forall>w. I (wd_db w) \<longrightarrow> I (wd_db (snd (m w))))"

lemma keeps_give [keeps_rules]: "keeps I (give x)"
  by (simp add: keeps_def give_def)

lemma keeps_lift [keeps_rules]: "keeps I (lift_py v)"
  by (simp add: keeps_def lift_py_def split: sum.split)

lemma keeps_and_then [keeps_rules]:
  assumes "keeps I m" "\<And>x. keeps I (f x)"
  shows "keeps I (and_then m f)"
  unfolding keeps_def
proof (intro allI impI)
  fix w :: world assume "I (wd_db w)"
  with assms(1) have "I (wd_db (snd (m w)))" by (simp add: keeps_def)
  with assms(2) show "I (wd_db (snd (and_then m f w)))"
    by (auto simp: and_then_def keeps_def split: prod.split sum.split)
qed

lemma keeps_if [keeps_rules]: "keeps I m \<Longrightarrow> keeps I m' \<Longrightarrow> keeps I (if c then m else m')"
  by simp

lemma keeps_option [keeps_rules]:
  "keeps I m \<Longrightarrow> (\<And>x. keeps I (f x)) \<Longrightarrow> keeps I (case v of None \<Rightarrow> m | Some x \<Rightarrow> f x)"
  by (cases v) simp_all

lemma keeps_Let [keeps_rules]: "(\<And>x. keeps I (f x)) \<Longrightarrow> keeps I (Let v f)"
  by (simp add: Let_def)

text \<open>The other workers keep the invariant.\<close>

definition respected :: "outside \<Rightarrow> (db \<Rightarrow> bool) \<Rightarrow> bool" where
  "respected out I \<longleftrightarrow> (\<forall>n d. I d \<longrightarrow> I (interfere out n d))"

lemma keeps_store [keeps_rules]:
  "respected out I \<Longrightarrow> (\<And>clock d. I d \<Longrightarrow> I (snd (f clock d))) \<Longrightarrow> keeps I (store_call out f)"
  by (simp add: keeps_def store_call_def respected_def Let_def case_prod_beta)

lemma keeps_read [keeps_rules]: "respected out I \<Longrightarrow> keeps I (read_call out f)"
  unfolding read_call_def by (rule keeps_store) simp_all

lemma keeps_write [keeps_rules]:
  "respected out I \<Longrightarrow> (\<And>clock d. I d \<Longrightarrow> I (snd (f clock d))) \<Longrightarrow> keeps I (write_call out f)"
  unfolding write_call_def by (rule keeps_store) simp_all

subsection \<open>Missions that are not complete\<close>

definition open_mission :: "string \<Rightarrow> db \<Rightarrow> bool" where
  "open_mission mid d \<longleftrightarrow> keyed m_mission_id (missions d)
     \<and> (\<forall>r. mission_at d mid = Some r \<longrightarrow> m_status r \<noteq> COMPLETE)"

fun completes :: "mission_op \<Rightarrow> bool" where
  "completes (Cas now a) \<longleftrightarrow> ca_new_status a = status_value COMPLETE"
| "completes _ \<longleftrightarrow> False"

lemma row_step_not_complete:
  assumes "row_step x r r'" "\<not> completes x" "m_status r \<noteq> COMPLETE"
  shows "m_status r' \<noteq> COMPLETE"
  using assms
proof (induction rule: row_step.induct)
  case (cas a new r now)
  then show ?case by (auto simp: cas_row_def Let_def parse_status_Some)
qed (auto simp: claimed_row_def requeued_row_def)

lemma exec_open:
  assumes "open_mission mid d" "\<not> completes x" "\<not> creates mid x"
  shows "open_mission mid (exec x d)"
proof -
  have "mission_frame (row_step x) mid d (exec x d)"
    using assms(1,3) by (intro exec_frame) (simp_all add: open_mission_def)
  with assms show ?thesis
    using row_step_not_complete exec_keyed [of d x] unfolding open_mission_def mission_frame_def by blast
qed

lemma same_missions_open: "missions d' = missions d \<Longrightarrow> open_mission mid d \<Longrightarrow> open_mission mid d'"
  by (simp add: open_mission_def)

lemma heartbeat_open [keeps_rules]:
  "open_mission mid d \<Longrightarrow> open_mission mid (snd (heartbeat_mission now clock m tok gen ttl d))"
  using exec_open [of mid d "Heartbeat now clock m tok gen ttl"] by simp

lemma touch_open [keeps_rules]:
  "open_mission mid d \<Longrightarrow> open_mission mid (snd (touch_mission_envelope now m v tok gen d))"
  using exec_open [of mid d "Touch now m v tok gen"] by simp

lemma event_open [keeps_rules]:
  "open_mission mid d \<Longrightarrow> open_mission mid (snd (append_mission_event now m ty p tok gen d))"
  using exec_open [of mid d "Event now m ty p tok gen"] by simp

lemma artifact_open [keeps_rules]:
  "open_mission mid d \<Longrightarrow> open_mission mid (snd (put_mission_artifact now m dg k s p tok gen d))"
  using exec_open [of mid d "Artifact now m dg k s p tok gen"] by simp

lemma evidence_open [keeps_rules]:
  "open_mission mid d \<Longrightarrow> open_mission mid (snd (append_mission_evidence now m k dg p refs gen tok d))"
  using exec_open [of mid d "Evidence now m k dg p refs gen tok"] by simp

lemma cas_open:
  "open_mission mid d \<Longrightarrow> ca_new_status a \<noteq> status_value COMPLETE \<Longrightarrow>
   open_mission mid (snd (cas_mission_status now a d))"
  using exec_open [of mid d "Cas now a"] by simp

lemma save_job_open [keeps_rules]:
  assumes "open_mission mid d"
  shows "open_mission mid (save_agent_job tx h now c1 c2 job st p own d)"
proof -
  have "open_mission mid (pruned h c1 c2 d)" using exec_open [of mid d "Prune h c1 c2"] assms by simp
  then show ?thesis by (rule same_missions_open [rotated]) (simp add: save_agent_job_def frame_simps)
qed

lemma swap_open:
  assumes "respected out (open_mission mid)" "new \<noteq> COMPLETE"
  shows "keeps (open_mission mid) (swap out (swap_args a c r st new u clear bump))"
  unfolding swap_def using assms by (intro keeps_write cas_open) (simp_all add: swap_args_def)

subsection \<open>The stages\<close>

lemma reload_open [keeps_rules]: "respected out I \<Longrightarrow> keeps I (reload out a r)"
  unfolding reload_def by (intro keeps_rules)

lemma terminal_payload_open [keeps_rules]: "respected out I \<Longrightarrow> keeps I (terminal_payload lib out a r b)"
  unfolding terminal_payload_def by (intro keeps_rules)

lemma fenced_event_open [keeps_rules]:
  "respected out (open_mission mid) \<Longrightarrow> keeps (open_mission mid) (fenced_event out a tok ty p)"
  unfolding fenced_event_def by (intro keeps_rules)

lemma freeze_open [keeps_rules]:
  "respected out (open_mission mid) \<Longrightarrow> keeps (open_mission mid) (freeze_candidate out a c)"
  unfolding freeze_candidate_def by (intro keeps_rules)

lemma save_open [keeps_rules]:
  "respected out (open_mission mid) \<Longrightarrow> keeps (open_mission mid) (save_job lib out a st p)"
  unfolding save_job_def by (rule keeps_write) (auto intro: save_job_open)

lemma return_open [keeps_rules]:
  "respected out (open_mission mid) \<Longrightarrow> keeps (open_mission mid) (return_to_host lib out a c r check)"
  unfolding return_to_host_def by (intro keeps_rules swap_open) simp_all

lemma fail_done_open [keeps_rules]:
  "respected out (open_mission mid) \<Longrightarrow> keeps (open_mission mid) (fail_done lib out a c r check)"
  unfolding fail_done_def by (intro keeps_rules swap_open) simp_all

lemma refused_open [keeps_rules]:
  "respected out (open_mission mid) \<Longrightarrow> keeps (open_mission mid) (commit_failed_or_refused lib out a c r check)"
  unfolding commit_failed_or_refused_def by (intro keeps_rules)

lemma settle_open:
  assumes "respected out (open_mission mid)" "\<not> vr_ok check"
  shows "keeps (open_mission mid) (settle lib out a c r check)"
  unfolding settle_def using assms by (auto intro!: keeps_rules)

subsection \<open>The databases a run found\<close>

named_theorems grows_rules

definition grows :: "'a prog \<Rightarrow> bool" where
  "grows m \<longleftrightarrow> (\<forall>w. \<exists>ds. wd_seen (snd (m w)) = wd_seen w @ ds)"

lemma grows_give [grows_rules]: "grows (give x)"
  by (simp add: grows_def give_def)

lemma grows_lift [grows_rules]: "grows (lift_py v)"
  by (simp add: grows_def lift_py_def split: sum.split)

lemma grows_store [grows_rules]: "grows (store_call out f)" "grows (read_call out g)" "grows (write_call out h)"
  by (simp_all add: grows_def read_call_def write_call_def store_call_def Let_def case_prod_beta)

lemma grows_and_then [grows_rules]:
  assumes "grows m" "\<And>x. grows (f x)"
  shows "grows (and_then m f)"
  unfolding grows_def
proof
  fix w
  obtain ds where ds: "wd_seen (snd (m w)) = wd_seen w @ ds" using assms(1) unfolding grows_def by blast
  show "\<exists>ds. wd_seen (snd (and_then m f w)) = wd_seen w @ ds"
  proof (cases "fst (m w)")
    case (Inl e)
    with ds show ?thesis by (simp add: and_then_def case_prod_beta)
  next
    case (Inr x)
    then show ?thesis
      using assms(2) [of x] ds unfolding grows_def and_then_def
      by (auto simp: case_prod_beta) (metis append_assoc)
  qed
qed

lemma grows_if [grows_rules]: "grows m \<Longrightarrow> grows m' \<Longrightarrow> grows (if c then m else m')"
  by simp

lemma grows_option [grows_rules]: "grows m \<Longrightarrow> (\<And>x. grows (f x)) \<Longrightarrow> grows (case v of None \<Rightarrow> m | Some x \<Rightarrow> f x)"
  by (cases v) simp_all

lemma grows_Let [grows_rules]: "(\<And>x. grows (f x)) \<Longrightarrow> grows (Let v f)"
  by (simp add: Let_def)

lemma grows_stages [grows_rules]:
  "grows (reload out a r)" "grows (terminal_payload lib out a r b)" "grows (fenced_event out a tok ty p)"
  "grows (swap out ca)" "grows (save_job lib out a st pl)"
  unfolding reload_def terminal_payload_def fenced_event_def swap_def save_job_def by (intro grows_rules)+

lemma grows_freeze [grows_rules]: "grows (freeze_candidate out a c)"
  unfolding freeze_candidate_def by (intro grows_rules)

lemma grows_refused [grows_rules]: "grows (commit_failed_or_refused lib out a c r check)"
  unfolding commit_failed_or_refused_def fail_done_def return_to_host_def by (intro grows_rules)

lemma grows_settle [grows_rules]: "grows (settle lib out a c r check)"
  unfolding settle_def commit_done_def by (auto intro!: grows_rules split: option.split bool.split)

text \<open>
  A positive verdict on what the run found: the candidate made of the row the first call loaded and of its governor,
  checked with a row of the mission loaded before the evidence, the evidence itself, and the policy of that row.
\<close>

definition passed_on :: "pylib \<Rightarrow> switches \<Rightarrow> epoch_args \<Rightarrow> db list \<Rightarrow> bool" where
  "passed_on lib sw a ds \<longleftrightarrow>
    (\<exists>r gs j rc k policy. ds \<noteq> [] \<and> load_mission (ea_mission_id a) (hd ds) = Some r \<and> epoch_governor lib a r = Inr gs
      \<and> j < k \<and> k < length ds \<and> load_mission (ea_mission_id a) (ds ! j) = Some rc \<and> epoch_policy (package_of rc) = Inr policy
      \<and> vr_ok (verify_commit lib sw (epoch_input lib a (candidate_of lib a r gs) rc
           (list_mission_evidence (ea_mission_id a) (ds ! k)) policy)))"

lemma passed_on_append: "passed_on lib sw a ds \<Longrightarrow> passed_on lib sw a (ds @ es)"
proof -
  assume "passed_on lib sw a ds"
  then obtain r gs j rc k policy where p: "ds \<noteq> []" "load_mission (ea_mission_id a) (hd ds) = Some r" "epoch_governor lib a r = Inr gs"
    "j < k" "k < length ds" "load_mission (ea_mission_id a) (ds ! j) = Some rc" "epoch_policy (package_of rc) = Inr policy"
    "vr_ok (verify_commit lib sw (epoch_input lib a (candidate_of lib a r gs) rc
       (list_mission_evidence (ea_mission_id a) (ds ! k)) policy))"
    unfolding passed_on_def by blast
  have "hd (ds @ es) = hd ds" "(ds @ es) ! j = ds ! j" "(ds @ es) ! k = ds ! k" "k < length (ds @ es)" "ds @ es \<noteq> []"
    using p(1,4,5) by (simp_all add: nth_append)
  with p show ?thesis unfolding passed_on_def by metis
qed

text \<open>\<open>found n w\<close> is what was found since call \<open>n\<close>; \<open>sound\<close> is the claim about the end of a run, \<open>knows\<close> what holds on
  the way: the mission is open, and the row is the first one loaded, or one loaded since.\<close>

definition found :: "nat \<Rightarrow> world \<Rightarrow> db list" where
  "found n w = drop n (wd_seen w)"

definition sound :: "pylib \<Rightarrow> switches \<Rightarrow> epoch_args \<Rightarrow> nat \<Rightarrow> world \<Rightarrow> bool" where
  "sound lib sw a n w \<longleftrightarrow> open_mission (ea_mission_id a) (wd_db w) \<or> passed_on lib sw a (found n w)"

definition knows :: "epoch_args \<Rightarrow> nat \<Rightarrow> mission_row \<Rightarrow> mission_row \<Rightarrow> world \<Rightarrow> bool" where
  "knows a n first r w \<longleftrightarrow> open_mission (ea_mission_id a) (wd_db w) \<and> n < length (wd_seen w)
    \<and> load_mission (ea_mission_id a) (hd (found n w)) = Some first
    \<and> (\<exists>j < length (found n w). load_mission (ea_mission_id a) (found n w ! j) = Some r)"

lemma knows_grown:
  assumes "knows a n first r w" "wd_seen w' = wd_seen w @ es" "open_mission (ea_mission_id a) (wd_db w')"
  shows "knows a n first r w'"
proof -
  obtain j where j: "j < length (found n w)" "load_mission (ea_mission_id a) (found n w ! j) = Some r"
    using assms(1) by (auto simp: knows_def)
  have f: "found n w' = found n w @ es" "found n w \<noteq> []"
    using assms(1,2) by (auto simp: knows_def found_def)
  have "j < length (found n w') \<and> load_mission (ea_mission_id a) (found n w' ! j) = Some r"
    using j by (simp add: f nth_append)
  then have "\<exists>j < length (found n w'). load_mission (ea_mission_id a) (found n w' ! j) = Some r" by blast
  moreover have "n < length (wd_seen w')" "hd (found n w') = hd (found n w)"
    using assms(1,2) f by (auto simp: knows_def)
  ultimately show ?thesis using assms(1,3) by (simp add: knows_def)
qed

lemma knows_step:
  assumes "knows a n first r w" "keeps (open_mission (ea_mission_id a)) m" "grows m"
  shows "knows a n first r (snd (m w))"
proof -
  obtain es where "wd_seen (snd (m w)) = wd_seen w @ es" using assms(3) unfolding grows_def by blast
  with assms(1,2) show ?thesis by (intro knows_grown [OF assms(1)]) (auto simp: keeps_def knows_def)
qed

lemma knows_sound: "knows a n first r w \<Longrightarrow> sound lib sw a n w"
  by (simp add: knows_def sound_def)

lemma sound_and_then:
  assumes "\<And>e w'. m w = (Inl e, w') \<Longrightarrow> sound lib sw a n w'" "\<And>x w'. m w = (Inr x, w') \<Longrightarrow> sound lib sw a n (snd (f x w'))"
  shows "sound lib sw a n (snd (and_then m f w))"
  using assms by (cases "m w"; cases "fst (m w)") (auto simp: and_then_def)

text \<open>A step that keeps the mission open, then the rest.\<close>

lemma sound_after:
  assumes "knows a n first r w" "keeps (open_mission (ea_mission_id a)) m" "grows m"
    and "\<And>x w'. m w = (Inr x, w') \<Longrightarrow> knows a n first r w' \<Longrightarrow> sound lib sw a n (snd (f x w'))"
  shows "sound lib sw a n (snd (and_then m f w))"
proof (rule sound_and_then)
  show "sound lib sw a n w'" if "m w = (Inl e, w')" for e w'
    using knows_sound [OF knows_step [OF assms(1-3)]] that by simp
  show "sound lib sw a n (snd (f x w'))" if "m w = (Inr x, w')" for x w'
    using assms(4) [OF that] knows_step [OF assms(1-3)] that by simp
qed

lemma sound_passed:
  assumes "passed_on lib sw a (found n w)" "n \<le> length (wd_seen w)" "grows m"
  shows "sound lib sw a n (snd (m w))"
proof -
  obtain es where "wd_seen (snd (m w)) = wd_seen w @ es" using assms(3) unfolding grows_def by blast
  then have "found n (snd (m w)) = found n w @ es" using assms(2) by (simp add: found_def)
  with assms(1) show ?thesis by (simp add: sound_def passed_on_append)
qed

lemma sound_kept:
  assumes "knows a n first r w" "keeps (open_mission (ea_mission_id a)) m"
  shows "sound lib sw a n (snd (m w))"
  using assms by (simp add: knows_def sound_def keeps_def)

lemma read_run: "read_call out f w = (Inr (f (interfere out (wd_calls w) (wd_db w))),
    \<lparr>wd_db = interfere out (wd_calls w) (wd_db w), wd_calls = Suc (wd_calls w),
      wd_seen = wd_seen w @ [interfere out (wd_calls w) (wd_db w)]\<rparr>)"
  by (simp add: read_call_def store_call_def Let_def)

lemma check_sound:
  assumes out: "respected out (open_mission (ea_mission_id a))" and k: "knows a n first r w"
    and gs: "epoch_governor lib a first = Inr gs"
  shows "sound lib sw a n (snd (check_candidate lib sw out a (candidate_of lib a first gs) r w))"
  unfolding check_candidate_def
proof (rule sound_after [OF k], intro keeps_rules out, intro grows_rules)
  fix E w1 assume read: "read_call out (list_mission_evidence (ea_mission_id a)) w = (Inr E, w1)" and k1: "knows a n first r w1"
  let ?d = "interfere out (wd_calls w) (wd_db w)"
  have E: "E = list_mission_evidence (ea_mission_id a) ?d" and w1: "found n w1 = found n w @ [?d]" "n < length (wd_seen w1)"
    using read k by (auto simp: read_run found_def knows_def)
  show "sound lib sw a n (snd (and_then (lift_py (epoch_policy (package_of r))) (\<lambda>policy.
      let check = verify_commit lib sw (epoch_input lib a (candidate_of lib a first gs) r E policy) in
      and_then (fenced_event out a (cd_token (candidate_of lib a first gs)) ''VerifyChecked'' (verify_to_dict check)) (\<lambda>_.
        settle lib out a (candidate_of lib a first gs) r check)) w1))"
  proof (cases "epoch_policy (package_of r)")
    case (Inl e)
    with knows_sound [OF k1] show ?thesis by (simp add: and_then_def lift_py_def)
  next
    case (Inr policy)
    let ?check = "verify_commit lib sw (epoch_input lib a (candidate_of lib a first gs) r E policy)"
    let ?rest = "and_then (fenced_event out a (cd_token (candidate_of lib a first gs)) ''VerifyChecked'' (verify_to_dict ?check))
      (\<lambda>_. settle lib out a (candidate_of lib a first gs) r ?check)"
    have "sound lib sw a n (snd (?rest w1))"
    proof (cases "vr_ok ?check")
      case True
      obtain j where j: "j < length (found n w)" "load_mission (ea_mission_id a) (found n w ! j) = Some r"
        "load_mission (ea_mission_id a) (hd (found n w)) = Some first" "found n w \<noteq> []"
        using k by (auto simp: knows_def found_def)
      have "found n w1 \<noteq> []" "hd (found n w1) = hd (found n w)" "found n w1 ! j = found n w ! j"
        "found n w1 ! length (found n w) = ?d" "length (found n w) < length (found n w1)"
        using j by (simp_all add: w1 nth_append)
      then have "passed_on lib sw a (found n w1)"
        unfolding passed_on_def using j gs Inr True E by metis
      then show ?thesis by (rule sound_passed) (use w1(2) in simp, intro grows_rules)
    next
      case False
      then show ?thesis by (intro sound_kept [OF k1] keeps_rules settle_open out)
    qed
    with Inr show ?thesis by (simp add: and_then_def [of "lift_py (Inr policy)"] lift_py_def Let_def)
  qed
qed

lemma reload_knows:
  assumes "knows a n first r w" "reload out a r w = (Inr x, w')" "respected out (open_mission (ea_mission_id a))"
  shows "knows a n first x w'"
proof -
  let ?d = "interfere out (wd_calls w) (wd_db w)"
  have k: "knows a n first r w'"
    using knows_step [OF assms(1), of "reload out a r"] assms(2,3) by (simp add: keeps_rules grows_rules)
  have w': "found n w' = found n w @ [?d]" "x = (case load_mission (ea_mission_id a) ?d of None \<Rightarrow> r | Some y \<Rightarrow> y)"
    using assms(1,2) by (auto simp: reload_def and_then_def read_run give_def found_def knows_def)
  show ?thesis
  proof (cases "load_mission (ea_mission_id a) ?d")
    case None
    with w' k show ?thesis by simp
  next
    case (Some y)
    then have "found n w' ! length (found n w) = ?d \<and> length (found n w) < length (found n w')" by (simp add: w')
    with Some w'(2) k show ?thesis unfolding knows_def by (auto intro!: exI [of _ "length (found n w)"])
  qed
qed

lemma enter_sound:
  assumes out: "respected out (open_mission (ea_mission_id a))" and k: "knows a n first r w"
    and gs: "epoch_governor lib a first = Inr gs"
  shows "sound lib sw a n (snd (enter_verifying lib sw out a (candidate_of lib a first gs) r w))"
proof -
  note checked = check_sound [OF out _ gs]
  consider "m_status r = VERIFYING" | "m_status r = RUNNING" | "m_status r \<noteq> VERIFYING" "m_status r \<noteq> RUNNING" by blast
  then show ?thesis
  proof cases
    case 1
    then show ?thesis using checked [OF k] by (simp add: enter_verifying_def)
  next
    case 2
    let ?c = "candidate_of lib a first gs"
    have "sound lib sw a n (snd (and_then (swap out (swap_args a ?c r RUNNING VERIFYING
           [(''billing'', JObj (billing_json (bill a r)))] False False)) (\<lambda>ok.
       and_then (reload out a r) (\<lambda>r'.
         if ok then check_candidate lib sw out a ?c r' else give (cas_envelope lib a ?c r' (m_status r)))) w))"
    proof (rule sound_after [OF k])
      fix ok w1 assume k1: "knows a n first r w1"
      show "sound lib sw a n (snd (and_then (reload out a r) (\<lambda>r'.
         if ok then check_candidate lib sw out a ?c r' else give (cas_envelope lib a ?c r' (m_status r))) w1))"
      proof (rule sound_after [OF k1], intro keeps_rules out, intro grows_rules)
        fix r' w2 assume "reload out a r w1 = (Inr r', w2)"
        from reload_knows [OF k1 this out] have k2: "knows a n first r' w2" .
        then show "sound lib sw a n (snd ((if ok then check_candidate lib sw out a ?c r'
            else give (cas_envelope lib a ?c r' (m_status r))) w2))"
          using checked [OF k2] knows_sound [OF k2] by (simp add: give_def)
      qed
    qed (auto intro: swap_open out grows_rules)
    with 2 show ?thesis by (simp add: enter_verifying_def)
  next
    case 3
    then show ?thesis using knows_sound [OF k] by (simp add: enter_verifying_def give_def)
  qed
qed

lemma bind_sound:
  assumes out: "respected out (open_mission (ea_mission_id a))" and k: "knows a n first r w"
    and gs: "epoch_governor lib a first = Inr gs"
  shows "sound lib sw a n (snd (bind_envelope lib sw out a (candidate_of lib a first gs) r w))"
  unfolding bind_envelope_def
proof (rule sound_after [OF k])
  fix ok w1 assume k1: "knows a n first r w1"
  let ?lost = "\<lambda>cur. give (lost_after lib a cur (cd_projection (candidate_of lib a first gs)) (cd_key (candidate_of lib a first gs))
          ''Mission lease lost while binding the envelope; re-invoke continue_token.'' [(''committed'', JBool False)] (bill a cur))"
  have "sound lib sw a n (snd (and_then (reload out a r) (\<lambda>cur.
        if mission_terminal cur then terminal_payload lib out a cur (bill a cur) else ?lost cur) w1))"
    by (intro sound_kept [OF k1] keeps_rules out)
  with enter_sound [OF out k1 gs]
  show "sound lib sw a n (snd ((if ok then enter_verifying lib sw out a (candidate_of lib a first gs) r
      else and_then (reload out a r) (\<lambda>cur.
        if mission_terminal cur then terminal_payload lib out a cur (bill a cur) else ?lost cur)) w1))"
    by simp
qed (auto intro!: keeps_rules out grows_rules)

lemma seal_frozen_sound:
  assumes out: "respected out (open_mission (ea_mission_id a))" and k: "knows a n first first w"
    and gs: "epoch_governor lib a first = Inr gs"
  shows "sound lib sw a n (snd (seal_frozen lib sw out a (candidate_of lib a first gs) first w))"
  unfolding seal_frozen_def
proof (rule sound_after [OF k], intro keeps_rules out, intro grows_rules)
  fix u :: unit and w1 assume k1: "knows a n first first w1"
  show "sound lib sw a n (snd (and_then (reload out a first) (\<lambda>fresh.
      if \<not> fence_held a (cd_token (candidate_of lib a first gs)) fresh then
        give (lost_after lib a fresh (cd_projection (candidate_of lib a first gs)) (cd_key (candidate_of lib a first gs))
          ''Mission lease lost before verifying; re-invoke continue_token.'' [] (bill a fresh))
      else bind_envelope lib sw out a (candidate_of lib a first gs) fresh) w1))"
  proof (rule sound_after [OF k1], intro keeps_rules out, intro grows_rules)
    fix r' w2 assume "reload out a first w1 = (Inr r', w2)"
    from reload_knows [OF k1 this out] have k2: "knows a n first r' w2" .
    show "sound lib sw a n (snd ((if \<not> fence_held a (cd_token (candidate_of lib a first gs)) r' then
        give (lost_after lib a r' (cd_projection (candidate_of lib a first gs)) (cd_key (candidate_of lib a first gs))
          ''Mission lease lost before verifying; re-invoke continue_token.'' [] (bill a r'))
      else bind_envelope lib sw out a (candidate_of lib a first gs) r') w2))"
      using bind_sound [OF out k2 gs] knows_sound [OF k2] by (simp add: give_def)
  qed
qed

lemma seal_owned_sound:
  assumes out: "respected out (open_mission (ea_mission_id a))" and k: "knows a n first first w"
  shows "sound lib sw a n (snd (seal_owned lib sw out a ttl first w))"
  unfolding seal_owned_def
proof (rule sound_after [OF k])
  fix renewed w1 assume k1: "knows a n first first w1"
  show "sound lib sw a n (snd ((if \<not> renewed then give (lost_before lib a first ''Mission lease was lost before candidate freeze.'' (bill a first))
      else and_then (lift_py (epoch_governor lib a first)) (\<lambda>gs. seal_frozen lib sw out a (candidate_of lib a first gs) first)) w1))"
  proof (cases "epoch_governor lib a first")
    case (Inl e)
    with knows_sound [OF k1] show ?thesis by (simp add: give_def and_then_def lift_py_def)
  next
    case (Inr gs)
    with knows_sound [OF k1] seal_frozen_sound [OF out k1 Inr] show ?thesis by (simp add: give_def and_then_def lift_py_def)
  qed
qed (auto intro!: keeps_rules out grows_rules)

lemma seal_sound:
  assumes out: "respected out (open_mission (ea_mission_id a))" and w: "open_mission (ea_mission_id a) (wd_db w)"
  shows "sound lib sw a (length (wd_seen w)) (snd (seal_mission_epoch lib sw out a w))"
  unfolding seal_mission_epoch_def
proof (rule sound_and_then)
  fix loaded w1 assume read: "read_call out (load_mission (ea_mission_id a)) w = (Inr loaded, w1)"
  let ?n = "length (wd_seen w)"
  have open1: "open_mission (ea_mission_id a) (wd_db w1)" using read out w by (auto simp: read_run respected_def)
  show "sound lib sw a ?n (snd ((case loaded of
        None \<Rightarrow> give (set_default ''job_id'' (JStr (ea_job_id a)) (ea_result a))
      | Some r \<Rightarrow>
          and_then (lift_py (frozen_lease_ttl (package_of r) (ea_lease_ttl a))) (\<lambda>ttl.
            if mission_terminal r then terminal_payload lib out a r (bill a r)
            else if worker_token a r = [] \<or> \<not> fence_held a (worker_token a r) r then
              give (lost_before lib a r ''Mission lease is not owned by this worker; re-invoke continue_token.'' (bill a r))
            else seal_owned lib sw out a ttl r)) w1))"
  proof (cases loaded)
    case None
    with open1 show ?thesis by (simp add: give_def sound_def)
  next
    case (Some r)
    with read open1 have k: "knows a ?n r r w1" by (auto simp: read_run knows_def found_def)
    have "sound lib sw a ?n (snd (terminal_payload lib out a r (bill a r) w1))"
      by (intro sound_kept [OF k] keeps_rules out)
    with Some knows_sound [OF k] seal_owned_sound [OF out k] show ?thesis
      by (cases "frozen_lease_ttl (package_of r) (ea_lease_ttl a)") (simp_all add: and_then_def [of "lift_py _"] lift_py_def give_def)
  qed
qed (use out w in \<open>auto simp: read_run sound_def respected_def\<close>)

end
