(* ===== verification/Mission_Epoch_Alone.thy ===== *)
theory Mission_Epoch_Alone
  imports Mission_Epoch_Facts
begin

text \<open>
  The epoch of a worker nobody disturbs: it returns, and what it makes of the mission is a function of the
  verdict. \<open>achieves P m Q\<close> is total correctness: from a database with \<open>P\<close> the program \<open>m\<close> returns a value
  and a database related by \<open>Q\<close>. The fields the program reads of its row are the \<open>core\<close>; a lease
  renewal, a ledger event and an artifact leave it alone.
\<close>

subsection \<open>Total correctness\<close>

definition undisturbed :: "outside \<Rightarrow> bool" where
  "undisturbed out \<longleftrightarrow> (\<forall>n d. interfere out n d = d)"

definition achieves :: "(db \<Rightarrow> bool) \<Rightarrow> 'a prog \<Rightarrow> ('a \<Rightarrow> db \<Rightarrow> bool) \<Rightarrow> bool" where
  "achieves P m Q \<longleftrightarrow>
     (\<forall>w. P (wd_db w) \<longrightarrow> (\<exists>x w'. m w = (Inr x, w') \<and> Q x (wd_db w')))"

lemma achieves_give: "(\<And>d. P d \<Longrightarrow> Q x d) \<Longrightarrow> achieves P (give x) Q"
  by (simp add: achieves_def give_def)

lemma achieves_lift: "v = Inr x \<Longrightarrow> (\<And>d. P d \<Longrightarrow> Q x d) \<Longrightarrow> achieves P (lift_py v) Q"
  by (simp add: achieves_def lift_py_def)

lemma achieves_and_then:
  assumes "achieves P m R" "\<And>x. achieves (R x) (f x) Q"
  shows "achieves P (and_then m f) Q"
  unfolding achieves_def
proof (intro allI impI)
  fix w :: world assume "P (wd_db w)"
  with assms(1) obtain x w1 where x: "m w = (Inr x, w1)" "R x (wd_db w1)" unfolding achieves_def by blast
  with assms(2) obtain y w2 where "f x w1 = (Inr y, w2)" "Q y (wd_db w2)" unfolding achieves_def by blast
  with x show "\<exists>x w'. and_then m f w = (Inr x, w') \<and> Q x (wd_db w')" by (simp add: and_then_def)
qed

lemma achieves_store:
  assumes "undisturbed out" "\<And>n d. P d \<Longrightarrow> \<exists>x d'. f (reading out n) d = (Inr x, d') \<and> Q x d'"
  shows "achieves P (store_call out f) Q"
  unfolding achieves_def
proof (intro allI impI)
  fix w :: world assume "P (wd_db w)"
  with assms(2) obtain x d' where "f (reading out (wd_calls w)) (wd_db w) = (Inr x, d')" "Q x d'" by blast
  with assms(1) show "\<exists>x w'. store_call out f w = (Inr x, w') \<and> Q x (wd_db w')"
    by (simp add: store_call_def undisturbed_def Let_def)
qed

lemma achieves_read: "undisturbed out \<Longrightarrow> (\<And>d. P d \<Longrightarrow> Q (f d) d) \<Longrightarrow> achieves P (read_call out f) Q"
  unfolding read_call_def by (rule achieves_store) auto

lemma achieves_write:
  "undisturbed out \<Longrightarrow> (\<And>n d. P d \<Longrightarrow> Q (fst (f (reading out n) d)) (snd (f (reading out n) d))) \<Longrightarrow>
   achieves P (write_call out f) Q"
  unfolding write_call_def by (rule achieves_store) auto

lemma achieves_False [simp]: "achieves (\<lambda>d. False) m Q"
  by (simp add: achieves_def)

lemma achieves_pure:
  "(\<And>d. P d \<Longrightarrow> B) \<Longrightarrow> (B \<Longrightarrow> achieves P m Q) \<Longrightarrow> achieves P m Q"
  unfolding achieves_def by blast

lemma achieves_given: "(B \<Longrightarrow> achieves P m Q) \<Longrightarrow> achieves (\<lambda>d. B \<and> P d) m Q"
  by (auto simp: achieves_def)

lemma achieves_weaken: "achieves P m Q' \<Longrightarrow> (\<And>x d. Q' x d \<Longrightarrow> Q x d) \<Longrightarrow> achieves P m Q"
  unfolding achieves_def by blast

subsection \<open>The core of a row\<close>

record core =
  co_status :: mission_status
  co_version :: int
  co_token :: "string option"
  co_generation :: int
  co_package :: doc
  co_checkpoint :: doc
  co_failures :: int
  co_envelope :: int

definition core_of :: "mission_row \<Rightarrow> core" where
  "core_of r = \<lparr>co_status = m_status r, co_version = m_checkpoint_version r, co_token = m_lease_token r,
     co_generation = m_lease_generation r, co_package = package_of r, co_checkpoint = checkpoint_doc r,
     co_failures = m_verify_failures r, co_envelope = m_envelope_version r\<rparr>"

definition tracks :: "string \<Rightarrow> core \<Rightarrow> mission_evidence_row list \<Rightarrow> db \<Rightarrow> bool" where
  "tracks mid k E d \<longleftrightarrow> keyed m_mission_id (missions d)
     \<and> (\<exists>r. mission_at d mid = Some r \<and> core_of r = k) \<and> list_mission_evidence mid d = E"

lemma tracks_load: "tracks mid k E d \<Longrightarrow> \<exists>r. load_mission mid d = Some r \<and> core_of r = k"
  by (auto simp: tracks_def load_mission_def core_of_def package_of_def checkpoint_doc_def loads_or_empty_def)

lemma core_fields:
  "core_of r = k \<Longrightarrow> m_status r = co_status k" "core_of r = k \<Longrightarrow> m_checkpoint_version r = co_version k"
  "core_of r = k \<Longrightarrow> m_lease_token r = co_token k" "core_of r = k \<Longrightarrow> m_lease_generation r = co_generation k"
  "core_of r = k \<Longrightarrow> package_of r = co_package k" "core_of r = k \<Longrightarrow> checkpoint_doc r = co_checkpoint k"
  "core_of r = k \<Longrightarrow> m_verify_failures r = co_failures k" "core_of r = k \<Longrightarrow> m_envelope_version r = co_envelope k"
  by (auto simp: core_of_def)

text \<open>An update of the tracked row, and of no other.\<close>

lemma tracked_update:
  assumes "keyed m_mission_id (missions d)" "mission_at d mid = Some r" "P r"
    and "\<And>r. P r \<Longrightarrow> m_mission_id r = mid" "\<And>r. m_mission_id (f r) = m_mission_id r"
  shows "row_of m_mission_id (sql_update P f (missions d)) mid = Some (f r)"
    "keyed m_mission_id (sql_update P f (missions d))" "sql_rowcount P (missions d) = 1"
    "sql_find P (missions d) = Some r"
proof -
  have P: "P = (\<lambda>r. m_mission_id r = mid \<and> P r)" using assms(4) by auto
  from assms show "row_of m_mission_id (sql_update P f (missions d)) mid = Some (f r)"
    "keyed m_mission_id (sql_update P f (missions d))" by (auto simp: table_simps)
  show "sql_rowcount P (missions d) = 1" by (subst P) (use assms in \<open>simp add: rowcount_key\<close>)
  show "sql_find P (missions d) = Some r" by (subst P) (use assms in \<open>simp add: sql_find_key\<close>)
qed

lemma heartbeat_tracks:
  assumes "tracks mid k E d" "co_token k = Some tok" "co_generation k = gen"
  shows "fst (heartbeat_mission now clock mid tok gen ttl d)"
    "tracks mid k E (snd (heartbeat_mission now clock mid tok gen ttl d))"
proof -
  from assms(1) obtain r where r: "keyed m_mission_id (missions d)" "mission_at d mid = Some r" "core_of r = k"
    "list_mission_evidence mid d = E" by (auto simp: tracks_def)
  have own: "m_mission_id r = mid \<and> owns tok gen r"
    using assms(2,3) r row_of_Some [OF r(2)] by (auto simp: owns_def core_of_def)
  note u = tracked_update [OF r(1,2), where P = "\<lambda>r. m_mission_id r = mid \<and> owns tok gen r", OF own]
  show "fst (heartbeat_mission now clock mid tok gen ttl d)" using u(3) by (simp add: heartbeat_mission_def)
  show "tracks mid k E (snd (heartbeat_mission now clock mid tok gen ttl d))"
    using u(1,2) r(3,4) by (auto simp: heartbeat_mission_def Let_def tracks_def list_mission_evidence_def core_of_def
        package_of_def checkpoint_doc_def)
qed

lemma owned_admits:
  assumes "tracks mid k E d" "co_token k = Some tok" "co_generation k = gen"
  shows "lease_admits mid (Some tok) (Some gen) d" "mission_at d mid \<noteq> None"
proof -
  from assms(1) obtain r where r: "keyed m_mission_id (missions d)" "mission_at d mid = Some r" "core_of r = k"
    by (auto simp: tracks_def)
  have own: "m_mission_id r = mid \<and> owns tok gen r"
    using assms(2,3) r row_of_Some [OF r(2)] by (auto simp: owns_def core_of_def)
  from tracked_update(4) [OF r(1,2), where P = "\<lambda>r. m_mission_id r = mid \<and> owns tok gen r" and f = "\<lambda>r. r", OF own]
  show "lease_admits mid (Some tok) (Some gen) d" by (simp add: lease_admits_def)
  show "mission_at d mid \<noteq> None" using r(2) by simp
qed

lemma event_tracks:
  assumes "tracks mid k E d" "co_token k = Some tok" "co_generation k = gen"
  shows "\<exists>n d'. append_mission_event now mid ty p (Some tok) (Some gen) d = (Inr n, d') \<and> tracks mid k E d'"
proof -
  from assms(1) obtain r where r: "keyed m_mission_id (missions d)" "mission_at d mid = Some r" "core_of r = k"
    "list_mission_evidence mid d = E" by (auto simp: tracks_def)
  have "m_mission_id r = mid" using row_of_Some [OF r(2)] by simp
  note u = tracked_update [OF r(1,2), where P = "\<lambda>r. m_mission_id r = mid", OF this]
  show ?thesis
    using u(1,2) r(3,4) owned_admits [OF assms]
    by (auto simp: append_mission_event_def Let_def tracks_def list_mission_evidence_def core_of_def package_of_def
        checkpoint_doc_def)
qed

lemma artifact_tracks:
  assumes "tracks mid k E d" "co_token k = Some tok" "co_generation k = gen"
  shows "\<exists>b d'. put_mission_artifact now mid dg kind s p (Some tok) (Some gen) d = (Inr b, d') \<and> tracks mid k E d'"
  using owned_admits [OF assms] assms(1)
  by (auto simp: put_mission_artifact_def tracks_def list_mission_evidence_def split: option.split)

lemma evidence_tracks:
  assumes "tracks mid k E d"
  shows "\<exists>E'. tracks mid k E' (snd (append_mission_evidence now mid kl dg p refs gen tok d))"
  using assms by (simp add: tracks_def frame_simps)

text \<open>The envelope version is recorded in the package.\<close>

definition touched :: "int \<Rightarrow> core \<Rightarrow> core" where
  "touched v k =
    (let new_v = max (if co_envelope k = 0 then 1 else co_envelope k) v
     in k\<lparr>co_envelope := new_v,
          co_package := redact_dict (AList.update ''bound_envelope_version'' (JInt new_v) (co_package k))\<rparr>)"

lemma touch_tracks:
  assumes "tracks mid k E d" "co_token k = Some tok" "co_generation k = gen"
    "co_status k \<notin> set TERMINAL_STATUSES"
  shows "fst (touch_mission_envelope now mid v tok gen d)"
    "tracks mid (touched v k) E (snd (touch_mission_envelope now mid v tok gen d))"
proof -
  from assms(1) obtain r where r: "keyed m_mission_id (missions d)" "mission_at d mid = Some r" "core_of r = k"
    "list_mission_evidence mid d = E" by (auto simp: tracks_def)
  have own: "m_mission_id r = mid \<and> owns tok gen r \<and> \<not> mission_terminal r"
    using assms(2-4) r row_of_Some [OF r(2)] by (auto simp: owns_def core_of_def mission_terminal_def)
  note u = tracked_update [OF r(1,2), where P = "\<lambda>r. m_mission_id r = mid \<and> owns tok gen r \<and> \<not> mission_terminal r", OF own]
  show "fst (touch_mission_envelope now mid v tok gen d)"
    using u(3,4) by (simp add: touch_mission_envelope_def Let_def)
  show "tracks mid (touched v k) E (snd (touch_mission_envelope now mid v tok gen d))"
    using u(1,2,4) r(3,4) by (auto simp: touch_mission_envelope_def Let_def tracks_def list_mission_evidence_def
        core_of_def package_of_def checkpoint_doc_def touched_def loads_or_empty_def)
qed

text \<open>A swap by the owner at the version it read.\<close>

definition swapped :: "cas_args \<Rightarrow> mission_status \<Rightarrow> core \<Rightarrow> core" where
  "swapped a new k =
    (let k' = k\<lparr>co_status := new, co_version := co_version k + 1,
           co_checkpoint := (case ca_checkpoint_update a of None \<Rightarrow> co_checkpoint k
             | Some u \<Rightarrow> if u = [] then co_checkpoint k else dict_merge (co_checkpoint k) (redact_dict u)),
           co_failures := co_failures k + (if ca_bump_verify_failure a then 1 else 0)\<rparr>
     in if ca_clear_lease a then k'\<lparr>co_token := None, co_generation := co_generation k + 1\<rparr> else k')"

lemma swap_tracks:
  assumes "tracks (ca_mission_id a) k E d" "ca_expect_status a = status_value (co_status k)"
    "ca_expect_version a = co_version k" "ca_expect_generation a = co_generation k" "ca_expect_token a = co_token k"
    "ca_new_status a = status_value new" "allowed_step (co_status k) new"
  shows "fst (cas_mission_status now a d)"
    "tracks (ca_mission_id a) (swapped a new k) E (snd (cas_mission_status now a d))"
    "\<exists>r. mission_at (snd (cas_mission_status now a d)) (ca_mission_id a) = Some r \<and> m_updated_at r = now"
proof -
  from assms(1) obtain r where r: "keyed m_mission_id (missions d)" "mission_at d (ca_mission_id a) = Some r"
    "core_of r = k" "list_mission_evidence (ca_mission_id a) d = E" by (auto simp: tracks_def)
  have own: "cas_where a r"
    using assms(2-5) r row_of_Some [OF r(2)] by (auto simp: cas_where_def core_of_def split: option.split)
  note u = tracked_update [OF r(1,2), where P = "cas_where a", OF own]
  have sel: "cas_select a d = Some r"
    using assms(2-4) r by (auto simp: cas_select_def core_of_def)
  have legal: "legal_transition (ca_expect_status a) (ca_new_status a)" "parse_status (ca_new_status a) = Some new"
    using assms(2,6,7) by simp_all
  have swap: "cas_mission_status now a d = cas_update now a r d"
    by (simp add: cas_mission_status_def legal(1) sel)
  have missions: "missions (snd (cas_mission_status now a d)) = sql_update (cas_where a) (cas_row now a new r) (missions d)"
    unfolding swap by (rule cas_update_missions [OF legal(2)])
  have evidence: "mission_evidence (snd (cas_mission_status now a d)) = mission_evidence d"
    unfolding swap by (simp add: cas_update_def legal(2) Let_def settle_autonomy_def)
  have id: "m_mission_id x = ca_mission_id a" if "cas_where a x" for x using that by (simp add: cas_where_def)
  show "fst (cas_mission_status now a d)" unfolding swap using u(3) id by (simp add: cas_update_def legal(2) Let_def)
  have row: "mission_at (snd (cas_mission_status now a d)) (ca_mission_id a) = Some (cas_row now a new r r)"
    and key: "keyed m_mission_id (missions (snd (cas_mission_status now a d)))"
    unfolding missions using u(1,2) id by auto
  have core: "core_of (cas_row now a new r r) = swapped a new k"
    using r(3) assms(3,4) by (auto simp: core_of_def cas_row_def swapped_def Let_def package_of_def checkpoint_doc_def
        cas_checkpoint_def loads_or_empty_def split: option.split)
  show "tracks (ca_mission_id a) (swapped a new k) E (snd (cas_mission_status now a d))"
    using row key core r(4) evidence by (simp add: tracks_def list_mission_evidence_def)
  show "\<exists>r. mission_at (snd (cas_mission_status now a d)) (ca_mission_id a) = Some r \<and> m_updated_at r = now"
    using row by (simp add: cas_row_def Let_def)
qed

subsection \<open>Settling\<close>

text \<open>Every clock reading of the epoch lies in the hour after \<open>start\<close>: the retention pass of the result's
  mirror prunes nothing the epoch wrote.\<close>

definition within_the_hour :: "outside \<Rightarrow> instant \<Rightarrow> bool" where
  "within_the_hour out start \<longleftrightarrow> (\<forall>n k. start \<le> reading out n k \<and> reading out n k \<le> start + seconds 3600)"

definition ended :: "string \<Rightarrow> instant \<Rightarrow> mission_status \<Rightarrow> db \<Rightarrow> bool" where
  "ended mid start st d \<longleftrightarrow> keyed m_mission_id (missions d) \<and>
     (\<exists>r. mission_at d mid = Some r \<and> m_status r = st \<and> m_lease_token r = None \<and> start \<le> m_updated_at r)"

definition outcome :: "candidate \<Rightarrow> mission_row \<Rightarrow> verify_result \<Rightarrow> mission_status" where
  "outcome c r check =
    (if vr_ok check then COMPLETE else if fail_is_final c r check then FAILED else WAITING_EVENT)"

lemma save_ended:
  assumes "ended mid start st d" "c1 \<le> start + seconds 3600"
  shows "ended mid start st (save_agent_job tx h now c1 c2 job js p own d)"
proof -
  from assms(1) obtain r where r: "keyed m_mission_id (missions d)" "mission_at d mid = Some r" "m_status r = st"
    "m_lease_token r = None" "start \<le> m_updated_at r" by (auto simp: ended_def)
  have "retention_cutoff h c1 \<le> start" using retention_cutoff_bounds(2) [of h c1] assms(2) by simp
  with r(5) have "\<not> prunable_mission (retention_cutoff h c1) r" by (simp add: prunable_mission_def)
  with r show ?thesis
    by (auto simp: ended_def save_agent_job_def frame_simps table_simps)
qed

lemma swap_ends:
  assumes "within_the_hour out start" "undisturbed out" "core_of r = k" "co_status k = VERIFYING"
    "co_token k = Some (cd_token c)" "co_generation k = ea_generation a" "new \<in> {COMPLETE, FAILED, WAITING_EVENT}"
  shows "achieves (tracks (ea_mission_id a) k E) (swap out (swap_args a c r VERIFYING new u True bump))
    (\<lambda>ok d. ok \<and> ended (ea_mission_id a) start new d)"
  unfolding swap_def
proof (rule achieves_write [OF assms(2)])
  fix n d assume t: "tracks (ea_mission_id a) k E d"
  let ?a = "swap_args a c r VERIFYING new u True bump"
  have a: "ca_mission_id ?a = ea_mission_id a" "ca_clear_lease ?a" by (simp_all add: swap_args_def)
  have step: "allowed_step VERIFYING new"
    using assms(7) by (auto simp: allowed_step_def ALLOWED_def TERMINAL_STATUSES_def)
  have "tracks (ca_mission_id ?a) k E d" using t a by simp
  from swap_tracks [where a = ?a and new = new, OF this] step assms(3-6)
  have swapping: "fst (cas_mission_status now ?a d)"
    "tracks (ea_mission_id a) (swapped ?a new k) E (snd (cas_mission_status now ?a d))"
    "\<exists>r. mission_at (snd (cas_mission_status now ?a d)) (ea_mission_id a) = Some r \<and> m_updated_at r = now" for now
    by (auto simp: swap_args_def core_fields)
  then obtain r' where r': "mission_at (snd (cas_mission_status (reading out n 0) ?a d)) (ea_mission_id a) = Some r'"
    "core_of r' = swapped ?a new k" "m_updated_at r' = reading out n 0"
    unfolding tracks_def by (metis option.inject)
  have "co_status (swapped ?a new k) = new" "co_token (swapped ?a new k) = None"
    using a(2) by (simp_all add: swapped_def Let_def)
  with r' have "m_status r' = new" "m_lease_token r' = None" "start \<le> m_updated_at r'"
    using assms(1) core_fields(1,3) [OF r'(2)] by (simp_all add: within_the_hour_def)
  with r'(1) swapping show "fst (cas_mission_status (reading out n 0) ?a d)
      \<and> ended (ea_mission_id a) start new (snd (cas_mission_status (reading out n 0) ?a d))"
    by (auto simp: ended_def tracks_def)
qed

lemma achieves_reload:
  assumes "undisturbed out"
  shows "achieves (tracks (ea_mission_id a) k E) (reload out a r0) (\<lambda>r d. core_of r = k \<and> tracks (ea_mission_id a) k E d)"
  unfolding reload_def
proof (rule achieves_and_then [OF achieves_read [OF assms, where Q = "\<lambda>row d. (\<exists>r. row = Some r \<and> core_of r = k)
      \<and> tracks (ea_mission_id a) k E d"]])
  show "achieves (\<lambda>d. (\<exists>r. x = Some r \<and> core_of r = k) \<and> tracks (ea_mission_id a) k E d)
      (give (case x of None \<Rightarrow> r0 | Some x \<Rightarrow> x)) (\<lambda>r d. core_of r = k \<and> tracks (ea_mission_id a) k E d)" for x
    by (rule achieves_give) auto
qed (auto dest: tracks_load)

lemma return_ends:
  assumes "within_the_hour out start" "undisturbed out" "core_of r = k" "co_status k = VERIFYING"
    "co_token k = Some (cd_token c)" "co_generation k = ea_generation a"
  shows "achieves (tracks (ea_mission_id a) k E) (return_to_host lib out a c r check)
    (\<lambda>_. ended (ea_mission_id a) start WAITING_EVENT)"
  unfolding return_to_host_def
proof (rule achieves_and_then [OF swap_ends [OF assms]])
  show "achieves (\<lambda>d. ok \<and> ended (ea_mission_id a) start WAITING_EVENT d)
     (and_then (read_call out (load_mission (ea_mission_id a))) (\<lambda>cursor_row.
        if ok then give (waiting_envelope lib a c r cursor_row check True (vr_gaps check))
        else (case cursor_row of
            None \<Rightarrow> give (waiting_envelope lib a c r None check False (vr_gaps check @ [''cas_waiting_event_failed'']))
          | Some x \<Rightarrow>
              if mission_terminal x then terminal_payload lib out a x (bill a x)
              else give (waiting_envelope lib a c r (Some x) check False
                (vr_gaps check @ [''cas_waiting_event_failed''])))))
     (\<lambda>_. ended (ea_mission_id a) start WAITING_EVENT)" for ok
  proof (cases ok)
    case True
    then show ?thesis
      by (auto intro!: achieves_and_then [OF achieves_read [OF assms(2), where Q = "\<lambda>_. ended (ea_mission_id a) start WAITING_EVENT"]]
          achieves_give)
  qed simp
qed simp

lemma saved_ends:
  assumes "within_the_hour out start" "undisturbed out"
  shows "achieves (ended mid start st) (and_then (save_job lib out a js p) (\<lambda>_. give p)) (\<lambda>_. ended mid start st)"
proof (rule achieves_and_then)
  show "achieves (ended mid start st) (save_job lib out a js p) (\<lambda>_. ended mid start st)"
    unfolding save_job_def using assms(1)
    by (intro achieves_write [OF assms(2)]) (auto simp: within_the_hour_def intro: save_ended)
qed (rule achieves_give)

lemma fail_ends:
  assumes "within_the_hour out start" "undisturbed out" "core_of r = k" "co_status k = VERIFYING"
    "co_token k = Some (cd_token c)" "co_generation k = ea_generation a"
  shows "achieves (tracks (ea_mission_id a) k E) (fail_done lib out a c r check)
    (\<lambda>_. ended (ea_mission_id a) start FAILED)"
  unfolding fail_done_def Let_def
  by (rule achieves_and_then [OF swap_ends [OF assms]], simp)
    (rule achieves_pure, blast, simp add: saved_ends [OF assms(1,2)])

lemma commit_ends:
  assumes "within_the_hour out start" "undisturbed out" "core_of r = k" "co_status k = VERIFYING"
    "co_token k = Some (cd_token c)" "co_generation k = ea_generation a"
  shows "achieves (tracks (ea_mission_id a) k E) (commit_done lib out a c r check record)
    (\<lambda>_. ended (ea_mission_id a) start COMPLETE)"
  unfolding commit_done_def Let_def
proof (rule achieves_and_then [OF achieves_write [OF assms(2), where Q = "\<lambda>_ d. \<exists>E. tracks (ea_mission_id a) k E d"]])
  show "\<exists>E. tracks (ea_mission_id a) k E (snd (append_mission_evidence now (ea_mission_id a) kl dg p refs gen tok d))"
    if "tracks (ea_mission_id a) k E d" for now kl dg p refs gen tok d
    by (rule evidence_tracks [OF that])
next
  fix x
  have swap: "achieves (\<lambda>d. \<exists>E. tracks (ea_mission_id a) k E d)
      (swap out (swap_args a c r VERIFYING COMPLETE u True False))
      (\<lambda>ok d. ok \<and> ended (ea_mission_id a) start COMPLETE d)" for u
    using swap_ends [OF assms, of COMPLETE] unfolding achieves_def by blast
  show "achieves (\<lambda>d. \<exists>E. tracks (ea_mission_id a) k E d)
      (and_then (swap out (swap_args a c r VERIFYING COMPLETE (settled_update c (verify_to_dict check) [] (bill a r)) True False))
        (\<lambda>committed. if committed
          then and_then (save_job lib out a ''complete'' (complete_payload a c r check (bill a r)))
              (\<lambda>_. give (complete_payload a c r check (bill a r)))
          else commit_failed_or_refused lib out a c r check))
      (\<lambda>_. ended (ea_mission_id a) start COMPLETE)"
    by (rule achieves_and_then [OF swap], rule achieves_pure, blast) (simp add: saved_ends [OF assms(1,2)])
qed


text \<open>A positive verdict carries its structural record.\<close>

lemma concluded_record:
  "vr_ok (conclude lib i control klass mode sgaps sr excused) \<Longrightarrow>
   vr_structural_record (conclude lib i control klass mode sgaps sr excused) \<noteq> None"
  by (simp add: conclude_def Let_def)

lemma ok_has_record: "vr_ok (verify_commit lib sw i) \<Longrightarrow> vr_structural_record (verify_commit lib sw i) \<noteq> None"
  unfolding verify_commit_def Let_def case_prod_beta by (rule concluded_record)

lemma fail_is_final_core: "core_of r = core_of r' \<Longrightarrow> fail_is_final c r check = fail_is_final c r' check"
  by (simp add: fail_is_final_def core_of_def)

lemma settle_ends:
  assumes "within_the_hour out start" "undisturbed out" "core_of r = k" "co_status k = VERIFYING"
    "co_token k = Some (cd_token c)" "co_generation k = ea_generation a"
    "vr_ok check \<Longrightarrow> vr_structural_record check \<noteq> None"
  shows "achieves (tracks (ea_mission_id a) k E) (settle lib out a c r0 check)
    (\<lambda>_. ended (ea_mission_id a) start (outcome c r check))"
  unfolding settle_def
proof (rule achieves_and_then [OF achieves_reload [OF assms(2)]], rule achieves_given)
  fix x :: mission_row
  assume x: "core_of x = k"
  have fence: "fence_held a (cd_token c) x" "m_status x \<noteq> COMPLETE"
    using core_fields [OF x] assms(4-6) by (simp_all add: fence_held_def token_of_def)
  note ends = assms(1,2) x assms(4-6)
  have "achieves (tracks (ea_mission_id a) k E)
      (case (vr_ok check, vr_structural_record check) of
          (True, Some record) \<Rightarrow> commit_done lib out a c x check record
        | _ \<Rightarrow> commit_failed_or_refused lib out a c x check)
      (\<lambda>_. ended (ea_mission_id a) start (outcome c r check))"
  proof (cases "vr_ok check")
    case True
    with assms(7) obtain sr where "vr_structural_record check = Some sr" by blast
    with True show ?thesis by (simp add: outcome_def commit_ends [OF ends])
  next
    case False
    then show ?thesis
      using fail_is_final_core [of r x c check] x assms(3)
      by (auto simp: outcome_def commit_failed_or_refused_def fail_ends [OF ends] return_ends [OF ends])
  qed
  with fence show "achieves (tracks (ea_mission_id a) k E)
      (if m_status x = COMPLETE then terminal_payload lib out a x (bill a x)
       else if \<not> fence_held a (cd_token c) x then
         give (lost_after lib a x (cd_projection c) (cd_key c)
           ''Mission lease lost during verifying; re-invoke continue_token.'' [(''committed'', JBool False)] (bill a x))
       else case (vr_ok check, vr_structural_record check) of
          (True, Some record) \<Rightarrow> commit_done lib out a c x check record
        | _ \<Rightarrow> commit_failed_or_refused lib out a c x check)
      (\<lambda>_. ended (ea_mission_id a) start (outcome c r check))"
    by simp
qed

lemma fenced_event_tracks:
  assumes "undisturbed out" "co_token k = Some tok" "co_generation k = ea_generation a"
  shows "achieves (tracks (ea_mission_id a) k E) (fenced_event out a tok ty p) (\<lambda>_. tracks (ea_mission_id a) k E)"
  unfolding fenced_event_def
  by (rule achieves_store [OF assms(1)]) (rule event_tracks [OF _ assms(2,3)])

lemma epoch_input_core:
  "core_of r = core_of r' \<Longrightarrow> epoch_input lib a c r E policy = epoch_input lib a c r' E policy"
  by (simp add: epoch_input_def core_of_def)

lemma check_ends:
  assumes "within_the_hour out start" "undisturbed out" "core_of r1 = k" "co_status k = VERIFYING"
    "co_token k = Some (cd_token c)" "co_generation k = ea_generation a" "epoch_policy (package_of r) = Inr policy"
  shows "achieves (tracks (ea_mission_id a) k E) (check_candidate lib sw out a c r)
    (\<lambda>_. ended (ea_mission_id a) start
       (outcome c r1 (verify_commit lib sw (epoch_input lib a c r E policy))))"
  unfolding check_candidate_def
proof (rule achieves_and_then [OF achieves_read [OF assms(2), where Q = "\<lambda>e d. e = E \<and> tracks (ea_mission_id a) k E d"]])
  show "list_mission_evidence (ea_mission_id a) d = E \<and> tracks (ea_mission_id a) k E d"
    if "tracks (ea_mission_id a) k E d" for d using that by (simp add: tracks_def)
next
  fix e
  show "achieves (\<lambda>d. e = E \<and> tracks (ea_mission_id a) k E d)
     (and_then (lift_py (epoch_policy (package_of r))) (\<lambda>policy.
        let check = verify_commit lib sw (epoch_input lib a c r e policy) in
        and_then (fenced_event out a (cd_token c) ''VerifyChecked'' (verify_to_dict check)) (\<lambda>_.
          settle lib out a c r check)))
     (\<lambda>_. ended (ea_mission_id a) start (outcome c r1 (verify_commit lib sw (epoch_input lib a c r E policy))))"
    unfolding Let_def
    by (rule achieves_given, rule achieves_and_then [where R = "\<lambda>p d. p = policy \<and> tracks (ea_mission_id a) k E d"])
      (use assms in \<open>auto intro!: achieves_lift achieves_given achieves_and_then [OF fenced_event_tracks] settle_ends
         ok_has_record\<close>)
qed

subsection \<open>The whole epoch\<close>

text \<open>The row the check reads: a running one has its envelope bound before, a sticky one is the row as read.\<close>

definition checked_row :: "epoch_args \<Rightarrow> mission_row \<Rightarrow> mission_row" where
  "checked_row a r = (if m_status r = VERIFYING then r
     else r\<lparr>m_package := Some (co_package (touched (ea_envelope_version a) (core_of r)))\<rparr>)"

definition epoch_verdict ::
  "pylib \<Rightarrow> switches \<Rightarrow> epoch_args \<Rightarrow> mission_row \<Rightarrow> governor_config \<times> string \<Rightarrow> mission_evidence_row list \<Rightarrow>
   evidence_policy \<Rightarrow> verify_result" where
  "epoch_verdict lib sw a r gs E policy =
    verify_commit lib sw (epoch_input lib a (candidate_of lib a r gs) (checked_row a r) E policy)"

text \<open>The last verdict in a checkpoint survives the entry of the billing.\<close>

lemma dget_dict_merge:
  assumes "k \<notin> fst ` set u"
  shows "dget (dict_merge d u) k = dget d k"
proof -
  have "map_of (rev u) k = None" using assms by (simp add: map_of_eq_None_iff)
  then show ?thesis by (simp add: dget_def map_of_dict_merge map_add_def)
qed

lemma previous_verdict_billing:
  "previous_verdict (dict_merge cp (redact_dict [(''billing'', v)])) = previous_verdict cp"
proof -
  have "dget (dict_merge cp (redact_dict [(''billing'', v)])) ''last_verify'' = dget cp ''last_verify''"
    "dget (dict_merge cp (redact_dict [(''billing'', v)])) ''candidate_hash'' = dget cp ''candidate_hash''"
    by (rule dget_dict_merge, simp add: redact_dict_eq)+
  then show ?thesis unfolding previous_verdict_def by (simp only:)
qed

definition begun :: "epoch_args \<Rightarrow> billing \<Rightarrow> core \<Rightarrow> core" where
  "begun a b k = k\<lparr>co_status := VERIFYING, co_version := co_version k + 1,
     co_checkpoint := dict_merge (co_checkpoint k) (redact_dict [(''billing'', JObj (billing_json b))])\<rparr>"

lemma enter_swap:
  assumes "undisturbed out" "core_of fresh = k" "co_status k = RUNNING"
    "co_token k = Some (cd_token c)" "co_generation k = ea_generation a"
  shows "achieves (tracks (ea_mission_id a) (touched v k) E)
    (swap out (swap_args a c fresh RUNNING VERIFYING [(''billing'', JObj (billing_json b))] False False))
    (\<lambda>ok d. ok \<and> tracks (ea_mission_id a) (begun a b (touched v k)) E d)"
  unfolding swap_def
proof (rule achieves_write [OF assms(1)])
  fix n d assume t: "tracks (ea_mission_id a) (touched v k) E d"
  let ?a = "swap_args a c fresh RUNNING VERIFYING [(''billing'', JObj (billing_json b))] False False"
  have a: "ca_mission_id ?a = ea_mission_id a" by (simp add: swap_args_def)
  have step: "allowed_step RUNNING VERIFYING" by (simp add: allowed_step_def ALLOWED_def TERMINAL_STATUSES_def)
  have "tracks (ca_mission_id ?a) (touched v k) E d" using t a by simp
  from swap_tracks(1,2) [where a = ?a and new = VERIFYING and now = "reading out n 0", OF this] step assms(2-5)
  have "fst (cas_mission_status (reading out n 0) ?a d)"
    "tracks (ea_mission_id a) (swapped ?a VERIFYING (touched v k)) E (snd (cas_mission_status (reading out n 0) ?a d))"
    by (auto simp: swap_args_def core_fields touched_def Let_def)
  moreover have "swapped ?a VERIFYING (touched v k) = begun a b (touched v k)"
    by (simp add: swapped_def begun_def swap_args_def Let_def)
  ultimately show "fst (cas_mission_status (reading out n 0) ?a d)
      \<and> tracks (ea_mission_id a) (begun a b (touched v k)) E (snd (cas_mission_status (reading out n 0) ?a d))" by simp
qed


lemma fail_is_final_same:
  assumes "previous_verdict (checkpoint_doc r') = previous_verdict (checkpoint_doc r)"
    "m_verify_failures r' = m_verify_failures r"
  shows "fail_is_final c r' check = fail_is_final c r check"
  by (simp only: fail_is_final_def assms)

lemma outcome_touched:
  assumes "core_of r' = touched v (core_of r)"
  shows "outcome c r' check = outcome c r check"
proof -
  have "checkpoint_doc r' = checkpoint_doc r" "m_verify_failures r' = m_verify_failures r"
    unfolding core_fields(6,7) [OF assms] by (simp_all add: touched_def core_of_def Let_def)
  then have "fail_is_final c r' check = fail_is_final c r check" by (intro fail_is_final_same) simp_all
  then show ?thesis by (simp add: outcome_def)
qed

lemma outcome_begun:
  assumes "core_of r' = begun a b (touched v (core_of r))"
  shows "outcome c r' check = outcome c r check"
proof -
  have "checkpoint_doc r' = dict_merge (checkpoint_doc r) (redact_dict [(''billing'', JObj (billing_json b))])"
    "m_verify_failures r' = m_verify_failures r"
    unfolding core_fields(6,7) [OF assms] by (simp_all add: begun_def touched_def core_of_def Let_def)
  then have "fail_is_final c r' check = fail_is_final c r check"
    by (intro fail_is_final_same) (simp_all add: previous_verdict_billing)
  then show ?thesis by (simp add: outcome_def)
qed

lemma core_row: "\<exists>r. core_of r = k"
proof -
  have "core_of (r\<lparr>m_status := co_status k, m_checkpoint_version := co_version k, m_lease_token := co_token k,
      m_lease_generation := co_generation k, m_package := Some (co_package k), m_checkpoint := Some (co_checkpoint k),
      m_verify_failures := co_failures k, m_envelope_version := co_envelope k\<rparr>) = k" for r :: mission_row
    by (cases k) (simp add: core_of_def package_of_def checkpoint_doc_def loads_or_empty_def)
  then show ?thesis by blast
qed

lemma epoch_input_same:
  "package_of r' = package_of r \<Longrightarrow> m_lease_generation r' = m_lease_generation r \<Longrightarrow>
   epoch_input lib a c r' E policy = epoch_input lib a c r E policy"
  by (simp add: epoch_input_def)

lemma enter_ends:
  assumes "within_the_hour out start" "undisturbed out" "core_of fresh = core_of r" "m_status r \<in> {RUNNING, VERIFYING}"
    "m_lease_token r = Some (cd_token c)" "m_lease_generation r = ea_generation a"
    "epoch_policy (package_of (checked_row a r)) = Inr policy"
  shows "achieves (tracks (ea_mission_id a) (touched (ea_envelope_version a) (core_of r)) E)
    (enter_verifying lib sw out a c fresh)
    (\<lambda>_. ended (ea_mission_id a) start
       (outcome c r (verify_commit lib sw (epoch_input lib a c (checked_row a r) E policy))))"
proof (cases "m_status r = VERIFYING")
  case True
  obtain r1 where r1: "core_of r1 = touched (ea_envelope_version a) (core_of r)" using core_row by blast
  have fresh: "m_status fresh = VERIFYING" "package_of fresh = package_of (checked_row a r)"
    "m_lease_generation fresh = m_lease_generation (checked_row a r)"
    using True core_fields [OF assms(3)] by (simp_all add: checked_row_def core_of_def)
  have "achieves (tracks (ea_mission_id a) (touched (ea_envelope_version a) (core_of r)) E)
    (check_candidate lib sw out a c fresh)
    (\<lambda>_. ended (ea_mission_id a) start (outcome c r1 (verify_commit lib sw (epoch_input lib a c fresh E policy))))"
    by (rule check_ends [OF assms(1,2) r1])
      (use True assms(5-7) fresh(2) in \<open>simp_all add: touched_def core_of_def Let_def\<close>)
  then show ?thesis
    unfolding outcome_touched [OF r1] epoch_input_same [OF fresh(2,3)] by (simp add: enter_verifying_def fresh(1))
next
  case False
  with assms(4) have running: "m_status r = RUNNING" by simp
  let ?k = "begun a (bill a fresh) (touched (ea_envelope_version a) (core_of r))"
  have fresh: "m_status fresh = RUNNING" using running core_fields(1) [OF assms(3)] by (simp add: core_of_def)
  have swap: "achieves (tracks (ea_mission_id a) (touched (ea_envelope_version a) (core_of r)) E)
      (swap out (swap_args a c fresh RUNNING VERIFYING [(''billing'', JObj (billing_json (bill a fresh)))] False False))
      (\<lambda>ok d. ok \<and> tracks (ea_mission_id a) ?k E d)"
    by (rule enter_swap [OF assms(2,3)]) (use running assms(5,6) in \<open>simp_all add: core_of_def\<close>)
  have check: "achieves (tracks (ea_mission_id a) ?k E) (check_candidate lib sw out a c r1)
      (\<lambda>_. ended (ea_mission_id a) start
        (outcome c r (verify_commit lib sw (epoch_input lib a c (checked_row a r) E policy))))"
    if r1: "core_of r1 = ?k" for r1
  proof -
    have same: "package_of r1 = package_of (checked_row a r)"
      "m_lease_generation r1 = m_lease_generation (checked_row a r)"
      unfolding core_fields(4,5) [OF r1] using False
      by (simp_all add: begun_def touched_def core_of_def Let_def checked_row_def package_of_def loads_or_empty_def)
    have "achieves (tracks (ea_mission_id a) ?k E) (check_candidate lib sw out a c r1)
      (\<lambda>_. ended (ea_mission_id a) start (outcome c r1 (verify_commit lib sw (epoch_input lib a c r1 E policy))))"
      by (rule check_ends [OF assms(1,2) r1])
        (use assms(5-7) same(1) in \<open>simp_all add: begun_def touched_def core_of_def Let_def\<close>)
    then show ?thesis unfolding outcome_begun [OF r1] epoch_input_same [OF same] .
  qed
  show ?thesis
    unfolding enter_verifying_def fresh
    by simp (rule achieves_and_then [OF swap], rule achieves_given, rule achieves_and_then [OF achieves_reload [OF assms(2)]],
        rule achieves_given, simp add: check)
qed


text \<open>The stages before, for the owner of the lease.\<close>

lemma bind_ends:
  assumes "within_the_hour out start" "undisturbed out" "core_of fresh = core_of r" "m_status r \<in> {RUNNING, VERIFYING}"
    "m_lease_token r = Some (cd_token c)" "m_lease_generation r = ea_generation a"
    "epoch_policy (package_of (checked_row a r)) = Inr policy"
  shows "achieves (tracks (ea_mission_id a) (core_of r) E) (bind_envelope lib sw out a c fresh)
    (\<lambda>_. ended (ea_mission_id a) start
       (outcome c r (verify_commit lib sw (epoch_input lib a c (checked_row a r) E policy))))"
proof -
  have k: "co_token (core_of r) = Some (cd_token c)" "co_generation (core_of r) = ea_generation a"
    "co_status (core_of r) \<notin> set TERMINAL_STATUSES"
    using assms(4-6) by (auto simp: core_of_def TERMINAL_STATUSES_def)
  have touch: "achieves (tracks (ea_mission_id a) (core_of r) E)
      (write_call out (\<lambda>clock. touch_mission_envelope (clock 0) (ea_mission_id a) (ea_envelope_version a) (cd_token c)
        (ea_generation a)))
      (\<lambda>bound d. bound \<and> tracks (ea_mission_id a) (touched (ea_envelope_version a) (core_of r)) E d)"
    by (rule achieves_write [OF assms(2)]) (use touch_tracks [OF _ k] in blast)
  show ?thesis
    unfolding bind_envelope_def
    by (rule achieves_and_then [OF touch], rule achieves_given) (simp add: enter_ends [OF assms])
qed

lemma freeze_tracks:
  assumes "undisturbed out" "co_token k = Some (cd_token c)" "co_generation k = ea_generation a"
  shows "achieves (tracks (ea_mission_id a) k E) (freeze_candidate out a c) (\<lambda>_. tracks (ea_mission_id a) k E)"
  unfolding freeze_candidate_def
proof (rule achieves_and_then)
  show "achieves (tracks (ea_mission_id a) k E)
      (store_call out (\<lambda>clock. put_mission_artifact (clock 0) (ea_mission_id a) (cd_key c) (projection_kind a)
        (cd_projection c) (cd_projection c) (Some (cd_token c)) (Some (ea_generation a))))
      (\<lambda>_. tracks (ea_mission_id a) k E)"
    by (rule achieves_store [OF assms(1)]) (rule artifact_tracks [OF _ assms(2,3)])
qed (auto intro!: achieves_and_then [OF fenced_event_tracks [OF assms]] achieves_give)

lemma frozen_ends:
  assumes "within_the_hour out start" "undisturbed out" "m_status r \<in> {RUNNING, VERIFYING}"
    "m_lease_token r = Some (cd_token c)" "m_lease_generation r = ea_generation a"
    "epoch_policy (package_of (checked_row a r)) = Inr policy"
  shows "achieves (tracks (ea_mission_id a) (core_of r) E) (seal_frozen lib sw out a c r0)
    (\<lambda>_. ended (ea_mission_id a) start
       (outcome c r (verify_commit lib sw (epoch_input lib a c (checked_row a r) E policy))))"
proof -
  have k: "co_token (core_of r) = Some (cd_token c)" "co_generation (core_of r) = ea_generation a"
    using assms(4,5) by (simp_all add: core_of_def)
  have bind: "achieves (tracks (ea_mission_id a) (core_of r) E)
      (if \<not> fence_held a (cd_token c) fresh then
        give (lost_after lib a fresh (cd_projection c) (cd_key c)
          ''Mission lease lost before verifying; re-invoke continue_token.'' [] (bill a fresh))
       else bind_envelope lib sw out a c fresh)
      (\<lambda>_. ended (ea_mission_id a) start
        (outcome c r (verify_commit lib sw (epoch_input lib a c (checked_row a r) E policy))))"
    if "core_of fresh = core_of r" for fresh
  proof -
    have "fence_held a (cd_token c) fresh"
      unfolding fence_held_def token_of_def core_fields(3,4) [OF that] using k by simp
    then show ?thesis by (simp add: bind_ends [OF assms(1,2) that assms(3-6)])
  qed
  show ?thesis
    unfolding seal_frozen_def
    by (rule achieves_and_then [OF freeze_tracks [OF assms(2) k]],
        rule achieves_and_then [OF achieves_reload [OF assms(2)]], rule achieves_given) (rule bind)
qed

lemma loaded_same:
  assumes "core_of r' = core_of r"
  shows "candidate_of lib a r' gs = candidate_of lib a r gs" "epoch_governor lib a r' = epoch_governor lib a r"
    "worker_token a r' = worker_token a r" "fence_held a tok r' = fence_held a tok r"
    "package_of r' = package_of r" "mission_terminal r' = mission_terminal r"
proof -
  have same: "package_of r' = package_of r" "m_lease_token r' = m_lease_token r" "m_status r' = m_status r"
    "m_verify_failures r' = m_verify_failures r" "m_lease_generation r' = m_lease_generation r"
    using assms by (simp_all add: core_of_def)
  show "candidate_of lib a r' gs = candidate_of lib a r gs"
    unfolding candidate_of_def worker_token_def token_of_def same ..
  show "epoch_governor lib a r' = epoch_governor lib a r" unfolding epoch_governor_def same ..
  show "worker_token a r' = worker_token a r" unfolding worker_token_def token_of_def same ..
  show "fence_held a tok r' = fence_held a tok r" unfolding fence_held_def token_of_def same ..
  show "mission_terminal r' = mission_terminal r" unfolding mission_terminal_def same ..
qed (use assms in \<open>simp add: core_of_def\<close>)

definition owned_by_worker :: "epoch_args \<Rightarrow> mission_row \<Rightarrow> bool" where
  "owned_by_worker a r \<longleftrightarrow> worker_token a r \<noteq> [] \<and> fence_held a (worker_token a r) r"

lemma owner_token: "owned_by_worker a r \<Longrightarrow> m_lease_token r = Some (worker_token a r)"
  by (auto simp: owned_by_worker_def fence_held_def token_of_def split: option.splits)

lemma seal_ends:
  assumes "within_the_hour out start" "undisturbed out" "owned_by_worker a r" "m_status r \<in> {RUNNING, VERIFYING}"
    "frozen_lease_ttl (package_of r) (ea_lease_ttl a) = Inr ttl" "epoch_governor lib a r = Inr gs"
    "epoch_policy (package_of (checked_row a r)) = Inr policy"
  shows "achieves (tracks (ea_mission_id a) (core_of r) E) (seal_mission_epoch lib sw out a)
    (\<lambda>_. ended (ea_mission_id a) start
       (outcome (candidate_of lib a r gs) r (epoch_verdict lib sw a r gs E policy)))"
  unfolding seal_mission_epoch_def
proof (rule achieves_and_then [OF achieves_read [OF assms(2),
      where Q = "\<lambda>row d. (\<exists>r0. row = Some r0 \<and> core_of r0 = core_of r) \<and> tracks (ea_mission_id a) (core_of r) E d"]])
  show "(\<exists>r0. load_mission (ea_mission_id a) d = Some r0 \<and> core_of r0 = core_of r)
      \<and> tracks (ea_mission_id a) (core_of r) E d" if "tracks (ea_mission_id a) (core_of r) E d" for d
    using that tracks_load [OF that] by simp
next
  fix row
  let ?Q = "\<lambda>_ :: doc. ended (ea_mission_id a) start
       (outcome (candidate_of lib a r gs) r (epoch_verdict lib sw a r gs E policy))"
  have token: "m_lease_token r = Some (cd_token (candidate_of lib a r gs))" "m_lease_generation r = ea_generation a"
    using assms(3) owner_token [OF assms(3)] by (simp_all add: candidate_of_def Let_def owned_by_worker_def fence_held_def)
  have k: "co_token (core_of r) = Some (worker_token a r)" "co_generation (core_of r) = ea_generation a"
    using token(2) owner_token [OF assms(3)] by (simp_all add: core_of_def)
  have alive: "\<not> mission_terminal r" using assms(4) by (auto simp: mission_terminal_def TERMINAL_STATUSES_def)
  have owned: "achieves (tracks (ea_mission_id a) (core_of r) E) (seal_owned lib sw out a ttl r0) ?Q"
    if r0: "core_of r0 = core_of r" for r0
  proof -
    note same = loaded_same [OF r0]
    have beat: "achieves (tracks (ea_mission_id a) (core_of r) E)
        (write_call out (\<lambda>clock. heartbeat_mission (clock 0) (clock 1) (ea_mission_id a) (worker_token a r)
          (ea_generation a) ttl)) (\<lambda>ok d. ok \<and> tracks (ea_mission_id a) (core_of r) E d)"
      by (rule achieves_write [OF assms(2)]) (use heartbeat_tracks [OF _ k] in blast)
    have frozen: "achieves (tracks (ea_mission_id a) (core_of r) E)
        (seal_frozen lib sw out a (candidate_of lib a r gs) r0) ?Q"
      unfolding epoch_verdict_def by (rule frozen_ends [OF assms(1,2,4) token assms(7)])
    show ?thesis
      unfolding seal_owned_def same assms(6)
      by (rule achieves_and_then [OF beat], rule achieves_given, simp,
          rule achieves_and_then [where R = "\<lambda>x d. x = gs \<and> tracks (ea_mission_id a) (core_of r) E d"],
          rule achieves_lift [OF refl], simp, rule achieves_given, simp only: same frozen)
  qed
  have "achieves (tracks (ea_mission_id a) (core_of r) E)
      (and_then (lift_py (frozen_lease_ttl (package_of r0) (ea_lease_ttl a))) (\<lambda>ttl.
         if mission_terminal r0 then terminal_payload lib out a r0 (bill a r0)
         else if worker_token a r0 = [] \<or> \<not> fence_held a (worker_token a r0) r0 then
           give (lost_before lib a r0 ''Mission lease is not owned by this worker; re-invoke continue_token.'' (bill a r0))
         else seal_owned lib sw out a ttl r0)) ?Q"
    if r0: "core_of r0 = core_of r" for r0
    unfolding loaded_same(3-6) [OF r0] assms(5)
    by (rule achieves_and_then [where R = "\<lambda>x d. x = ttl \<and> tracks (ea_mission_id a) (core_of r) E d"])
      (use alive assms(3) owned [OF r0] in \<open>auto intro!: achieves_lift achieves_given simp: owned_by_worker_def\<close>)
  then show "achieves (\<lambda>d. (\<exists>r0. row = Some r0 \<and> core_of r0 = core_of r) \<and> tracks (ea_mission_id a) (core_of r) E d)
      (case row of
        None \<Rightarrow> give (set_default ''job_id'' (JStr (ea_job_id a)) (ea_result a))
      | Some r \<Rightarrow>
          and_then (lift_py (frozen_lease_ttl (package_of r) (ea_lease_ttl a))) (\<lambda>ttl.
            if mission_terminal r then terminal_payload lib out a r (bill a r)
            else if worker_token a r = [] \<or> \<not> fence_held a (worker_token a r) r then
              give (lost_before lib a r ''Mission lease is not owned by this worker; re-invoke continue_token.'' (bill a r))
            else seal_owned lib sw out a ttl r)) ?Q"
    by (intro achieves_given) auto
qed


subsection \<open>A literal mission, sealed\<close>

definition sample_outside :: outside where
  "sample_outside = \<lparr>interfere = (\<lambda>_ d. d), reading = (\<lambda>_ _. 100), retention = None\<rparr>"

definition sample_args :: epoch_args where
  "sample_args =
    \<lparr>ea_mission_id = ''m1'', ea_job_id = ''j1'', ea_acceptance_text = ''7'', ea_result = [(''text'', JStr ''7'')],
     ea_generation = 1, ea_continue_token = ''c'', ea_lease_token = Some ''w1'', ea_envelope_version = 1,
     ea_shadow_cognition = True, ea_lease_ttl = 180\<rparr>"

definition sticky_mission :: mission_row where
  "sticky_mission = sample_mission\<lparr>m_status := VERIFYING,
     m_package := Some [(''task_class'', JStr ''literal''), (''verification_mode'', JStr ''structural'')]\<rparr>"

definition sticky_db :: db where
  "sticky_db = sample_db\<lparr>missions := [sticky_mission]\<rparr>"

definition sample_governor :: "governor_config \<times> string" where
  "sample_governor = (recommend_for_task ''7'' ''7'' 0 1 ''ultra'' False, ''legacy_mission_fallback'')"

lemma sticky_package: "package_of sticky_mission = [(''task_class'', JStr ''literal''), (''verification_mode'', JStr ''structural'')]"
  by (simp add: package_of_def sticky_mission_def loads_or_empty_def)

lemma sample_args_fields [simp]:
  "ea_mission_id sample_args = ''m1''" "ea_acceptance_text sample_args = ''7''" "ea_generation sample_args = 1"
  "ea_result sample_args = [(''text'', JStr ''7'')]" "ea_lease_token sample_args = Some ''w1''"
  "ea_shadow_cognition sample_args" "ea_lease_ttl sample_args = 180"
  by (simp_all add: sample_args_def)

lemma sticky_fields [simp]:
  "m_status sticky_mission = VERIFYING" "m_lease_generation sticky_mission = 1" "m_lease_token sticky_mission = Some ''w1''"
  "m_verify_failures sticky_mission = 0" "m_mission_id sticky_mission = ''m1''"
  by (simp_all add: sticky_mission_def sample_mission_def)

lemma sample_task: "package_task sample_lib sample_args (package_of sticky_mission) = ''7''"
  by (simp add: package_task_def sticky_package dget_def or_else_def)

lemma no_frozen_governor: "governor_from_dict lib (dget (package_of sticky_mission) ''governor_config'') = Inr None"
  by (simp add: sticky_package dget_def governor_from_dict_def)

lemma sample_package_keys:
  "dget (package_of sticky_mission) ''acceptance'' = JNull" "dget (package_of sticky_mission) ''level_ceiling'' = JNull"
  "dget (package_of sticky_mission) ''destructive'' = JNull" "dget (package_of sticky_mission) ''evidence_policy'' = JNull"
  "dget (package_of sticky_mission) ''task_class'' = JStr ''literal''"
  "dget (package_of sticky_mission) ''verification_mode'' = JStr ''structural''"
  "\<not> has_key (package_of sticky_mission) ''lease_ttl_seconds''"
  by (simp_all add: sticky_package dget_def has_key_def)

lemma sample_epoch_governor: "epoch_governor sample_lib sample_args sticky_mission = Inr sample_governor"
  unfolding epoch_governor_def Let_def no_frozen_governor sample_task
  by (simp add: sample_package_keys sample_governor_def or_else_def)

lemma sample_candidate:
  "cd_text (candidate_of sample_lib sample_args sticky_mission gs) = ''7''"
  "cd_digest (candidate_of sample_lib sample_args sticky_mission gs) = sealed_content_hash sample_lib ''7'' ''candidate''"
  "cd_task (candidate_of sample_lib sample_args sticky_mission gs) = ''7''"
  using sample_task by (simp_all add: candidate_of_def Let_def dget_def)

lemma sample_epoch_input:
  "epoch_input sample_lib sample_args (candidate_of sample_lib sample_args sticky_mission gs) sticky_mission []
     default_agent_policy =
   sample_verify_input\<lparr>task_text := ''7'',
     candidate_artifact_refs := [cd_key (candidate_of sample_lib sample_args sticky_mission gs)]\<rparr>"
  by (simp add: epoch_input_def sample_candidate live_veto_def sample_package_keys sample_verify_input_def
      status_value.simps)

lemma sample_epoch_verified:
  "vr_ok (verify_commit sample_lib sample_switches
     (sample_verify_input\<lparr>task_text := ''7'', candidate_artifact_refs := refs\<rparr>))"
proof -
  let ?i = "sample_verify_input\<lparr>task_text := ''7'', candidate_artifact_refs := refs\<rparr>"
  have controls: "decided_class sample_switches ?i = ([], ''literal'')" "decided_mode ?i = ([], ''structural'')"
    "control_gaps sample_lib ?i = []"
    using sample_controls by (simp_all add: decided_class_def decided_mode_def control_gaps_def sample_verify_input_def
        TASK_CLASSES_def VERIFICATION_MODES_def VERIFICATION_STRUCTURAL_def label_of_def)
  have literal: "extract_literal_acceptance [''7'', ''7''] = Some ''7''" by code_simp
  have ready: "literal_commit_ready sample_switches (task_text ?i) (acceptance_text ?i) (candidate_text ?i) (Some ''literal'')
      = (True, Some ''7'', ''literal'')"
    using literal sample_literal(2,3) by (simp add: literal_commit_ready_def sample_verify_input_def TASK_CLASSES_def
        del: extract_literal_acceptance.simps)
  have gaps: "literal_gaps (acceptance_text ?i) (candidate_text ?i) (Some ''7'') = []" using sample_gaps by simp
  have concluded: "vr_ok (conclude sample_lib ?i [] klass ''structural'' [] sr False)"
    if sr: "record_class (JObj sr) = EVIDENCE_STRUCTURAL" for klass sr
  proof -
    have ok: "acceptable ?i (JObj sr)"
      using sr by (simp add: acceptable_def allows_def candidate_is_forbidden_evidence_def record_class_def
          sample_verify_input_def default_agent_policy_def ALL_EVIDENCE_CLASSES_def)
    moreover have "evidence_gaps ?i ''structural'' False [JObj sr] = []"
      using ok by (simp add: evidence_gaps_def VERIFICATION_INDEPENDENT_def sample_verify_input_def default_agent_policy_def)
    moreover have "evidence_records ?i = []" by (simp add: sample_verify_input_def)
    ultimately show ?thesis by (simp add: conclude_def record_gaps_empty)
  qed
  show ?thesis
    unfolding verify_commit_def Let_def controls prod.case ready by (simp add: gaps [simplified] concluded)
qed

definition sample_world :: world where
  "sample_world = \<lparr>wd_db = sticky_db, wd_calls = 0, wd_seen = []\<rparr>"

lemma sample_world_db: "wd_db sample_world = sticky_db" "missions sticky_db = [sticky_mission]"
  "mission_at sticky_db ''m1'' = Some sticky_mission" "list_mission_evidence ''m1'' sticky_db = []"
  by (simp_all add: sample_world_def sticky_db_def sample_db_def empty_db_def list_mission_evidence_def)

lemma sample_undisturbed: "undisturbed sample_outside" "within_the_hour sample_outside 100"
  by (simp_all add: undisturbed_def within_the_hour_def sample_outside_def seconds_def)

lemma sample_owned: "owned_by_worker sample_args sticky_mission"
  by (simp add: owned_by_worker_def worker_token_def fence_held_def token_of_def)

lemma sample_lifts:
  "frozen_lease_ttl (package_of sticky_mission) (ea_lease_ttl sample_args) = Inr 180"
  "epoch_policy (package_of (checked_row sample_args sticky_mission)) = Inr default_agent_policy"
  by (simp_all add: frozen_lease_ttl_def sample_package_keys checked_row_def epoch_policy_def)

lemma sample_outcome:
  "outcome (candidate_of sample_lib sample_args sticky_mission gs) sticky_mission
     (epoch_verdict sample_lib sample_switches sample_args sticky_mission gs [] default_agent_policy) = COMPLETE"
  by (simp add: outcome_def epoch_verdict_def checked_row_def sample_epoch_input sample_epoch_verified)




text \<open>C4. An undisturbed epoch always settles its mission: when the worker owns the lease of a mission that
  is running, or was left verifying by a crash, and the frozen package can be read, the epoch returns, the
  lease is released, and the mission is complete exactly when the commit check passed; otherwise it has failed
  for good or waits for its host. It is never left running or verifying.\<close>
theorem undisturbed_epoch_settles:
  assumes "undisturbed out" "within_the_hour out start" "keyed m_mission_id (missions (wd_db w))"
    and "mission_at (wd_db w) (ea_mission_id a) = Some r" "owned_by_worker a r" "m_status r \<in> {RUNNING, VERIFYING}"
    and "frozen_lease_ttl (package_of r) (ea_lease_ttl a) = Inr ttl" "epoch_governor lib a r = Inr gs"
    and "epoch_policy (package_of (checked_row a r)) = Inr policy"
  shows "\<exists>x w' r'. seal_mission_epoch lib sw out a w = (Inr x, w')
    \<and> mission_at (wd_db w') (ea_mission_id a) = Some r' \<and> m_lease_token r' = None
    \<and> m_status r' = outcome (candidate_of lib a r gs) r
        (epoch_verdict lib sw a r gs (list_mission_evidence (ea_mission_id a) (wd_db w)) policy)"
proof -
  have "tracks (ea_mission_id a) (core_of r) (list_mission_evidence (ea_mission_id a) (wd_db w)) (wd_db w)"
    using assms(3,4) by (simp add: tracks_def)
  with seal_ends [OF assms(2,1,5-9)] show ?thesis unfolding achieves_def ended_def by blast
qed

theorem undisturbed_epoch_settles_witness:
  "\<exists>x w' r'. seal_mission_epoch sample_lib sample_switches sample_outside sample_args sample_world = (Inr x, w')
     \<and> mission_at (wd_db w') ''m1'' = Some r' \<and> m_lease_token r' = None \<and> m_status r' = COMPLETE"
proof -
  have at: "mission_at (wd_db sample_world) (ea_mission_id sample_args) = Some sticky_mission"
    by (simp add: sample_world_db)
  have "keyed m_mission_id (missions (wd_db sample_world))" "m_status sticky_mission \<in> {RUNNING, VERIFYING}"
    by (simp_all add: sample_world_db)
  from undisturbed_epoch_settles [OF sample_undisturbed this(1) at sample_owned this(2) sample_lifts(1)
      sample_epoch_governor sample_lifts(2), of sample_switches]
  show ?thesis by (simp only: sample_args_fields sample_world_db sample_outcome)
qed

text \<open>A worker that does not hold the lease writes nothing: whoever calls the epoch with a token or a
  generation other than the mission's, the store is afterwards exactly what the other workers had made of it
  when the epoch read it.\<close>
theorem stale_epoch_writes_nothing:
  assumes "mission_at (interfere out (wd_calls w) (wd_db w)) (ea_mission_id a) = Some r"
    and "\<not> mission_terminal r" "\<not> owned_by_worker a r"
  shows "wd_db (snd (seal_mission_epoch lib sw out a w)) = interfere out (wd_calls w) (wd_db w)"
proof -
  obtain r0 where "load_mission (ea_mission_id a) (interfere out (wd_calls w) (wd_db w)) = Some r0" "core_of r0 = core_of r"
    using assms(1) by (auto simp: load_mission_def core_of_def package_of_def checkpoint_doc_def loads_or_empty_def)
  with assms(2,3) show ?thesis
    using loaded_same [of r0 r]
    by (simp add: seal_mission_epoch_def and_then_def read_call_def store_call_def lift_py_def give_def owned_by_worker_def
        Let_def split: sum.split)
qed

theorem stale_epoch_writes_nothing_witness:
  "wd_db (snd (seal_mission_epoch sample_lib sample_switches sample_outside (sample_args\<lparr>ea_generation := 0\<rparr>) sample_world))
     = sticky_db"
  using stale_epoch_writes_nothing [of sample_outside sample_world "sample_args\<lparr>ea_generation := 0\<rparr>" sticky_mission
      sample_lib sample_switches]
  by (simp add: sample_world_db sample_outside_def mission_terminal_def TERMINAL_STATUSES_def owned_by_worker_def
      fence_held_def)

end
