(* ===== verification/Identity.thy ===== *)
theory Identity
  imports Py_Convert
begin

text \<open>
  \<open>identity.py\<close>: the authenticated principal of a request and the tenant-safe names of its state. The
  context variable is the argument \<open>active\<close>; the functions that may be given a principal take it as an option.
\<close>

definition MAX_STATE_NAME_CHARS :: int where "MAX_STATE_NAME_CHARS = 128"

definition TAG :: string where "TAG = ''tenant-''"

text \<open>The match of \<open>^tenant-[0-9a-f]{24}:\<close>.\<close>

definition tenant_tagged :: "string \<Rightarrow> bool" where
  "tenant_tagged s \<longleftrightarrow> starts_with TAG s
     \<and> length (take 24 (drop 7 s)) = 24 \<and> list_all hex_digit (take 24 (drop 7 s)) \<and> take 1 (drop 31 s) = '':''"

text \<open>\<open>set_active_principal\<close> binds the stripped text, or nothing.\<close>

definition set_active_principal :: "string option \<Rightarrow> string option" where
  "set_active_principal given =
    (let s = str_strip (case given of None \<Rightarrow> [] | Some p \<Rightarrow> p) in if s = [] then None else Some s)"

definition chosen :: "string option \<Rightarrow> string option \<Rightarrow> string option" where
  "chosen active given =
    (case (case given of Some p \<Rightarrow> Some p | None \<Rightarrow> active) of
       Some p \<Rightarrow> if p = [] then None else Some p
     | None \<Rightarrow> None)"

definition principal_kind :: "string option \<Rightarrow> string option \<Rightarrow> string" where
  "principal_kind active given =
    (case chosen active given of
       None \<Rightarrow> ''none''
     | Some p \<Rightarrow> if starts_with ''oauth:'' p then ''oauth'' else ''other'')"

definition principal_label :: "pylib \<Rightarrow> string option \<Rightarrow> string option \<Rightarrow> string option" where
  "principal_label lib active given =
    map_option (\<lambda>p. (if starts_with ''oauth:'' p then ''oauth-'' else ''principal-'') @ take 20 (sha256 lib p))
      (chosen active given)"

definition tenant_prefix :: "pylib \<Rightarrow> string option \<Rightarrow> string option \<Rightarrow> string option" where
  "tenant_prefix lib active given =
    map_option (\<lambda>p. TAG @ take 24 (sha256 lib p) @ '':'') (chosen active given)"

definition clip_name :: "pylib \<Rightarrow> int \<Rightarrow> string \<Rightarrow> string" where
  "clip_name lib available name =
    (if available < int (length name)
     then take (nat (max 1 (available - 17))) name @ ''~'' @ take 16 (sha256 lib name)
     else name)"

definition scoped_name :: "pylib \<Rightarrow> string option \<Rightarrow> json \<Rightarrow> py_error + string" where
  "scoped_name lib active v =
    (let name = str_strip (text_or_empty lib v) in
     case tenant_prefix lib active None of
       None \<Rightarrow> Inr name
     | Some prefix \<Rightarrow>
         if tenant_tagged name then
           if starts_with prefix name then Inr name
           else Inl (ValueError ''state resource does not belong to the authenticated principal'')
         else Inr (prefix @ clip_name lib (MAX_STATE_NAME_CHARS - int (length prefix)) name))"

definition scoped_session :: "pylib \<Rightarrow> string option \<Rightarrow> json \<Rightarrow> py_error + string" where
  "scoped_session lib active v = scoped_name lib active v"

definition scoped_scope :: "pylib \<Rightarrow> string option \<Rightarrow> json \<Rightarrow> py_error + string" where
  "scoped_scope lib active v =
    (let s = str_strip (str_of lib (or_else v (JStr ''global''))) in
     scoped_name lib active (JStr (if s = [] then ''global'' else s)))"

definition public_state_name :: "pylib \<Rightarrow> string option \<Rightarrow> json \<Rightarrow> string" where
  "public_state_name lib active v =
    (let name = text_or_empty lib v in
     case tenant_prefix lib active None of
       None \<Rightarrow> name
     | Some prefix \<Rightarrow> if starts_with prefix name then drop (length prefix) name else name)"

subsection \<open>Tenants do not share names\<close>

text \<open>What the names rely on: a digest is 64 lower-case hexadecimal digits.\<close>

definition hex_digests :: "pylib \<Rightarrow> bool" where
  "hex_digests lib \<longleftrightarrow> (\<forall>s. length (sha256 lib s) = 64 \<and> list_all hex_digit (sha256 lib s))"

lemma prefix_shape:
  assumes "hex_digests lib" "tenant_prefix lib active None = Some prefix"
  shows "length prefix = 32" "\<exists>h. prefix = TAG @ h @ '':'' \<and> length h = 24 \<and> list_all hex_digit h"
proof -
  obtain p where "prefix = TAG @ take 24 (sha256 lib p) @ '':''"
    using assms(2) by (auto simp: tenant_prefix_def)
  moreover have "length (take 24 (sha256 lib p)) = 24" "list_all hex_digit (take 24 (sha256 lib p))"
    using assms(1) by (auto simp: hex_digests_def list_all_iff dest: in_set_takeD)
  ultimately show "length prefix = 32" "\<exists>h. prefix = TAG @ h @ '':'' \<and> length h = 24 \<and> list_all hex_digit h"
    by (auto simp: TAG_def)
qed

lemma prefixed_tagged:
  assumes "length h = 24" "list_all hex_digit h"
  shows "tenant_tagged ((TAG @ h @ '':'') @ s)"
  using assms by (simp add: tenant_tagged_def TAG_def starts_with_def)

lemma scoped_has_prefix:
  "tenant_prefix lib active None = Some prefix \<Longrightarrow> scoped_name lib active v = Inr n \<Longrightarrow> starts_with prefix n"
  by (auto simp: scoped_name_def Let_def split: if_splits)

text \<open>C12. Tenants never share a state name: under two principals whose digests differ in their first 24
  digits, no two values, however long and whatever prefix they already carry, are given one name.\<close>
theorem tenant_names_disjoint:
  assumes "hex_digests lib" "tenant_prefix lib p None = Some a" "tenant_prefix lib q None = Some b" "a \<noteq> b"
    and "scoped_name lib p v = Inr m" "scoped_name lib q w = Inr n"
  shows "m \<noteq> n"
proof -
  have "take 32 m = a" "take 32 n = b"
    using scoped_has_prefix [OF assms(2,5)] scoped_has_prefix [OF assms(3,6)] prefix_shape(1) [OF assms(1,2)]
      prefix_shape(1) [OF assms(1,3)] by (simp_all add: starts_with_def)
  with assms(4) show ?thesis by auto
qed

lemma scoped_stripped:
  assumes "hex_digests lib" "tenant_prefix lib active None = Some prefix" "scoped_name lib active v = Inr n"
  shows "str_strip n = n" "starts_with prefix n" "tenant_tagged n"
proof -
  let ?name = "str_strip (text_or_empty lib v)"
  obtain h where h: "prefix = TAG @ h @ '':''" "length h = 24" "list_all hex_digit h"
    using prefix_shape(2) [OF assms(1,2)] by blast
  show start: "starts_with prefix n" by (rule scoped_has_prefix [OF assms(2,3)])
  then show tagged: "tenant_tagged n" using prefixed_tagged [OF h(2,3)] h(1) by (auto simp: starts_with_split)
  show "str_strip n = n"
  proof (cases "tenant_tagged ?name")
    case True
    with assms(2,3) have "n = ?name" by (auto simp: scoped_name_def Let_def split: if_splits)
    then show ?thesis by simp
  next
    case False
    define c where "c = clip_name lib (MAX_STATE_NAME_CHARS - int (length prefix)) ?name"
    have n: "n = prefix @ c" using False assms(2,3) by (simp add: scoped_name_def Let_def c_def)
    have "\<not> is_space (last c)" if "c \<noteq> []"
    proof (cases "MAX_STATE_NAME_CHARS - int (length prefix) < int (length ?name)")
      case True
      have digest: "length (sha256 lib ?name) = 64" "list_all hex_digit (sha256 lib ?name)"
        using assms(1) by (simp_all add: hex_digests_def)
      then have "take 16 (sha256 lib ?name) \<noteq> []" "list_all hex_digit (take 16 (sha256 lib ?name))"
        by (auto simp: list_all_iff dest: in_set_takeD)
      then have "hex_digit (last (take 16 (sha256 lib ?name)))" by (metis last_in_set list_all_iff)
      with True \<open>take 16 (sha256 lib ?name) \<noteq> []\<close> show ?thesis by (simp add: c_def clip_name_def hex_not_space)
    next
      case False
      with that show ?thesis by (simp add: c_def clip_name_def strip_last)
    qed
    moreover have "last prefix = CHR '':''" "hd n = CHR ''t''" "n \<noteq> []" using h n by (simp_all add: TAG_def)
    ultimately have "\<not> is_space (last n)" by (cases c rule: rev_cases) (auto simp: n is_space_def in_range_def code_def)
    with \<open>hd n = CHR ''t''\<close> \<open>n \<noteq> []\<close> show ?thesis
      by (intro strip_fixed) (simp_all add: is_space_def in_range_def code_def)
  qed
qed

text \<open>Scoping a name again changes nothing: every layer may scope the session or scope it is handed, and
  the name one principal's layer produced is kept by the next.\<close>
theorem scoping_idempotent:
  assumes "hex_digests lib" "scoped_name lib active v = Inr n"
  shows "scoped_name lib active (JStr n) = Inr n"
proof (cases "tenant_prefix lib active None")
  case None
  with assms(2) show ?thesis by (auto simp: scoped_name_def Let_def)
next
  case (Some prefix)
  with scoped_stripped [OF assms(1) Some assms(2)] show ?thesis by (simp add: scoped_name_def Let_def)
qed

text \<open>The caller gets its own name back: a name that fits, and carries no tenant's tag, is shown to the
  principal that stored it exactly as it was given, stripped.\<close>
theorem public_name_roundtrip:
  assumes "hex_digests lib" "scoped_name lib active (JStr s) = Inr n"
    and "\<not> tenant_tagged (str_strip s)" "length (str_strip s) \<le> 96"
  shows "public_state_name lib active (JStr n) = str_strip s"
proof (cases "tenant_prefix lib active None")
  case None
  with assms(2) show ?thesis by (auto simp: scoped_name_def public_state_name_def Let_def)
next
  case (Some prefix)
  have "length prefix = 32" by (rule prefix_shape(1) [OF assms(1) Some])
  with Some assms(2-4) have "n = prefix @ str_strip s"
    by (simp add: scoped_name_def Let_def clip_name_def MAX_STATE_NAME_CHARS_def)
  with Some show ?thesis by (simp add: public_state_name_def)
qed

definition sample_hex_lib :: pylib where
  "sample_hex_lib = \<lparr>sha256 = (\<lambda>s. take 64 (filter hex_digit s @ replicate 64 (CHR ''0''))), json_dumps = (\<lambda>_. []),
     json_canonical = (\<lambda>_. []), isoformat = (\<lambda>_. []), py_str = (\<lambda>_. [])\<rparr>"

lemma sample_hex: "hex_digests sample_hex_lib"
proof -
  have "list_all hex_digit (take 64 (filter hex_digit s @ replicate 64 (CHR ''0'')))" for s
    by (auto simp: list_all_iff hex_digit_def is_digit_def in_range_def code_def dest!: in_set_takeD)
  then show ?thesis by (auto simp: hex_digests_def sample_hex_lib_def min_def)
qed

lemma sample_prefixes:
  "tenant_prefix sample_hex_lib (Some ''a'') None = Some (''tenant-a'' @ replicate 23 (CHR ''0'') @ '':'')"
  "tenant_prefix sample_hex_lib (Some ''b'') None = Some (''tenant-b'' @ replicate 23 (CHR ''0'') @ '':'')"
  by code_simp+

lemma sample_scoped:
  "scoped_name sample_hex_lib (Some ''a'') (JStr ''s'') = Inr ((''tenant-a'' @ replicate 23 (CHR ''0'') @ '':'') @ ''s'')"
  "scoped_name sample_hex_lib (Some ''b'') (JStr ''s'') = Inr ((''tenant-b'' @ replicate 23 (CHR ''0'') @ '':'') @ ''s'')"
  "\<not> tenant_tagged (str_strip ''s'')" "str_strip ''s'' = ''s''"
  by code_simp+

theorem tenant_names_disjoint_witness:
  "(''tenant-a'' @ replicate 23 (CHR ''0'') @ '':'') @ ''s'' \<noteq> (''tenant-b'' @ replicate 23 (CHR ''0'') @ '':'') @ ''s''"
  by (rule tenant_names_disjoint [OF sample_hex sample_prefixes _ sample_scoped(1,2)]) simp

theorem scoping_idempotent_witness:
  "scoped_name sample_hex_lib (Some ''a'') (JStr ((''tenant-a'' @ replicate 23 (CHR ''0'') @ '':'') @ ''s''))
    = Inr ((''tenant-a'' @ replicate 23 (CHR ''0'') @ '':'') @ ''s'')"
  by (rule scoping_idempotent [OF sample_hex sample_scoped(1)])

theorem public_name_roundtrip_witness:
  "public_state_name sample_hex_lib (Some ''a'') (JStr ((''tenant-a'' @ replicate 23 (CHR ''0'') @ '':'') @ ''s'')) = ''s''"
  using public_name_roundtrip [OF sample_hex sample_scoped(1,3)] by (simp add: sample_scoped(4))

end
