(* ===== verification/Url_Quote.thy ===== *)
theory Url_Quote
  imports Py_Text
begin

text \<open>
  \<open>urllib.parse.quote\<close> and \<open>unquote\<close> on the bytes of a UTF-8 text, and what decoding needs of the bytes.
\<close>

definition ends_with :: "string \<Rightarrow> string \<Rightarrow> bool" where
  "ends_with suffix s \<longleftrightarrow> starts_with (rev suffix) (rev s)"

definition rstrip_of :: "char \<Rightarrow> string \<Rightarrow> string" where
  "rstrip_of c s = rev (dropWhile (\<lambda>x. x = c) (rev s))"

subsection \<open>Quoting\<close>

text \<open>\<open>urllib.parse.quote(s, safe=''-._~'')\<close> and \<open>unquote\<close> on the bytes of a UTF-8 text.\<close>

definition HEX :: string where "HEX = ''0123456789ABCDEF''"

definition url_safe :: "char \<Rightarrow> bool" where
  "url_safe c \<longleftrightarrow> is_alnum c \<or> c \<in> set ''_.-~''"

definition quote_char :: "char \<Rightarrow> string" where
  "quote_char c = (if url_safe c then [c]
     else [CHR ''%'', HEX ! nat (code c div 16), HEX ! nat (code c mod 16)])"

definition url_quote :: "string \<Rightarrow> string" where
  "url_quote s = concat (map quote_char s)"

definition hex_value :: "char \<Rightarrow> int option" where
  "hex_value c = (if is_digit c then Some (code c - 48) else if in_range 65 70 c then Some (code c - 55)
     else if in_range 97 102 c then Some (code c - 87) else None)"

fun url_unquote :: "string \<Rightarrow> string" where
  "url_unquote (p # a # b # cs) =
     (if p = CHR ''%'' then
        (case (hex_value a, hex_value b) of
           (Some x, Some y) \<Rightarrow> char_of (16 * x + y) # url_unquote cs
         | _ \<Rightarrow> p # url_unquote (a # b # cs))
      else p # url_unquote (a # b # cs))"
| "url_unquote s = s"

lemma unquote_plain: "c \<noteq> CHR ''%'' \<Longrightarrow> url_unquote (c # cs) = c # url_unquote cs"
  by (cases cs rule: url_unquote.cases) (auto split: list.split)

lemma hex_digit_table: "list_all (\<lambda>n. hex_value (HEX ! nat n) = Some n \<and> url_safe (HEX ! nat n)) [0..15]"
  by code_simp

lemma hex_digits_value:
  assumes "0 \<le> n" "n < 16"
  shows "hex_value (HEX ! nat n) = Some n" "url_safe (HEX ! nat n)"
  using hex_digit_table assms by (simp_all add: list_all_iff)

lemma code_bounds: "0 \<le> code c" "code c < 256"
  by (cases c, simp add: code_def)+

lemma unquote_quote_char: "url_unquote (quote_char c @ s) = c # url_unquote s"
proof (cases "url_safe c")
  case True
  then have "c \<noteq> CHR ''%''" by (auto simp: url_safe_def is_alnum_def is_upper_def is_lower_def is_digit_def in_range_def code_def)
  with True show ?thesis by (simp add: quote_char_def unquote_plain)
next
  case False
  have "0 \<le> code c div 16" "code c div 16 < 16" "0 \<le> code c mod 16" "code c mod 16 < 16"
    using code_bounds [of c] by auto
  then have "hex_value (HEX ! nat (code c div 16)) = Some (code c div 16)"
    "hex_value (HEX ! nat (code c mod 16)) = Some (code c mod 16)" by (simp_all add: hex_digits_value)
  moreover have "char_of (16 * (code c div 16) + code c mod 16) = c" by (simp add: code_def)
  ultimately show ?thesis using False by (simp add: quote_char_def)
qed

lemma unquote_quote: "url_unquote (url_quote s) = s"
proof (induction s)
  case (Cons c s)
  have "url_unquote (quote_char c @ url_quote s) = c # url_unquote (url_quote s)" by (rule unquote_quote_char)
  with Cons show ?case by (simp add: url_quote_def)
qed (simp add: url_quote_def)

lemma quote_char_set: "x \<in> set (quote_char c) \<Longrightarrow> url_safe x \<or> x = CHR ''%''"
  using code_bounds [of c] by (auto simp: quote_char_def hex_digits_value split: if_splits)

lemma quote_set: "x \<in> set (url_quote s) \<Longrightarrow> url_safe x \<or> x = CHR ''%''"
  by (auto simp: url_quote_def dest: quote_char_set)

lemma quote_no_colon: "CHR '':'' \<notin> set (url_quote s)" and quote_no_slash: "CHR ''/'' \<notin> set (url_quote s)"
  using quote_set by (fastforce simp: url_safe_def is_alnum_def is_upper_def is_lower_def is_digit_def in_range_def code_def)+

lemma quote_not_space: "x \<in> set (url_quote s) \<Longrightarrow> \<not> is_space x"
  by (drule quote_set) (auto simp: url_safe_def is_space_def is_alnum_def is_upper_def is_lower_def is_digit_def in_range_def code_def)

lemma quote_empty [simp]: "url_quote s = [] \<longleftrightarrow> s = []"
  by (cases s) (simp_all add: url_quote_def quote_char_def)

lemma quote_inject [simp]: "url_quote s = url_quote t \<longleftrightarrow> s = t"
  by (metis unquote_quote)

text \<open>Well-formed UTF-8. \<open>unquote\<close> replaces what is not, and the replacement never quotes back to what was there.\<close>

definition continuation :: "char \<Rightarrow> bool" where
  "continuation c \<longleftrightarrow> in_range 128 191 c"

text \<open>The number of code points of a UTF-8 text, which is what Python's \<open>len\<close> counts.\<close>

definition char_len :: "string \<Rightarrow> nat" where
  "char_len s = length (filter (\<lambda>c. \<not> continuation c) s)"

fun utf8_ok :: "string \<Rightarrow> bool" where
  "utf8_ok [] = True"
| "utf8_ok (c # cs) =
     (if code c < 128 then utf8_ok cs
      else case cs of
          [] \<Rightarrow> False
        | d # ds \<Rightarrow>
            if in_range 194 223 c then continuation d \<and> utf8_ok ds
            else (case ds of
                [] \<Rightarrow> False
              | e # es \<Rightarrow>
                  if in_range 224 239 c then
                    continuation d \<and> (code c = 224 \<longrightarrow> 160 \<le> code d) \<and> (code c = 237 \<longrightarrow> code d < 160)
                    \<and> continuation e \<and> utf8_ok es
                  else (case es of
                      [] \<Rightarrow> False
                    | f # fs \<Rightarrow>
                        in_range 240 244 c \<and> continuation d \<and> (code c = 240 \<longrightarrow> 144 \<le> code d)
                        \<and> (code c = 244 \<longrightarrow> code d < 144) \<and> continuation e \<and> continuation f \<and> utf8_ok fs)))"

end
