(* ===== verification/Remote_Auth.thy ===== *)
theory Remote_Auth
  imports Identity Url_Quote "HOL-Library.List_Lexorder" "HOL-Library.Char_ord"
begin

text \<open>
  \<open>remote_auth.py\<close>: the configuration of the remote edge, service tokens, OAuth principals and the two ASGI
  middlewares. \<open>os.environ\<close> is the argument \<open>env\<close>; \<open>urlsplit\<close>, \<open>ipaddress\<close> and \<open>json.loads\<close> are the fields of
  \<open>netlib\<close>; a digest is its \<open>hexdigest\<close>. The Control server's HTTP answer is the argument \<open>control\<close>, a function
  of the token and the scope sent; a request is its ASGI scope and the messages \<open>receive\<close> will return.
\<close>

subsection \<open>Configuration\<close>

type_synonym environ = "string \<Rightarrow> string option"

definition env_get :: "environ \<Rightarrow> string \<Rightarrow> string \<Rightarrow> string" where
  "env_get env k d = (case env k of None \<Rightarrow> d | Some v \<Rightarrow> v)"

record url_parts =
  up_scheme :: string
  up_netloc :: string
  up_host :: "string option"
  up_port :: "int option"
  up_username :: "string option"
  up_password :: "string option"
  up_path :: string
  up_query :: string
  up_fragment :: string

text \<open>\<open>None\<close> is the \<open>ValueError\<close> of the split, the host or the port, and of an address that is none.\<close>

record netlib =
  urlsplit :: "string \<Rightarrow> url_parts option"
  ip_global :: "string \<Rightarrow> bool option"
  json_loads :: "string \<Rightarrow> json option"

definition is_cloudrun_runtime :: "environ \<Rightarrow> bool" where
  "is_cloudrun_runtime env \<longleftrightarrow> str_lower (str_strip (env_get env ''UNIGROK_RUNTIME'' [])) = ''cloudrun''"

definition control_char :: "char \<Rightarrow> bool" where
  "control_char c \<longleftrightarrow> code c \<le> 31 \<or> code c = 127"

definition validated_https_url :: "netlib \<Rightarrow> string \<Rightarrow> string option" where
  "validated_https_url net raw =
    (let v = str_strip raw in
     if v = [] \<or> list_ex (\<lambda>c. code c \<le> 32 \<or> code c = 127) v then None
     else case urlsplit net v of
         None \<Rightarrow> None
       | Some p \<Rightarrow>
           (case up_host p of
              None \<Rightarrow> None
            | Some host \<Rightarrow>
                if str_lower (up_scheme p) \<noteq> ''https'' \<or> host = [] \<or> up_username p \<noteq> None \<or> up_password p \<noteq> None
                   \<or> up_query p \<noteq> [] \<or> up_fragment p \<noteq> [] then None
                else let h = rstrip_of CHR ''.'' (str_lower host) in
                  if h = ''localhost'' \<or> ends_with ''.localhost'' h \<or> ends_with ''.local'' h \<or> ends_with ''.internal'' h then None
                  else if ip_global net h = Some False then None
                  else Some (''https://'' @ up_netloc p @ rstrip_of CHR ''/'' (up_path p))))"

text \<open>A validated URL splits again; where \<open>netlib\<close> says otherwise there is no resource.\<close>

definition public_mcp_resource :: "netlib \<Rightarrow> environ \<Rightarrow> string option" where
  "public_mcp_resource net env =
    (case validated_https_url net (env_get env ''UNIGROK_PUBLIC_MCP_URL'' []) of
       None \<Rightarrow> None
     | Some resource \<Rightarrow>
         (case urlsplit net resource of
            None \<Rightarrow> None
          | Some p \<Rightarrow> if up_path p = [] then Some (resource @ ''/mcp'')
                      else if up_path p = ''/mcp'' then Some resource else None))"

definition comma_items :: "string \<Rightarrow> string list" where
  "comma_items s = filter (\<lambda>x. x \<noteq> []) (map str_strip (split_on CHR '','' [] s))"

definition authorization_servers :: "netlib \<Rightarrow> environ \<Rightarrow> string list" where
  "authorization_servers net env =
    (let validated = map (validated_https_url net) (comma_items (env_get env ''UNIGROK_OAUTH_AUTHORIZATION_SERVERS'' []))
     in if validated = [] \<or> None \<in> set validated then [] else dedup (List.map_filter id validated))"

definition introspection_url :: "netlib \<Rightarrow> environ \<Rightarrow> string option" where
  "introspection_url net env = validated_https_url net (env_get env ''UNIGROK_OAUTH_INTROSPECTION_URL'' [])"

definition oauth_scope_ok :: "string \<Rightarrow> bool" where
  "oauth_scope_ok s \<longleftrightarrow> 1 \<le> length s \<and> length s \<le> 128
     \<and> list_all (\<lambda>c. code c = 33 \<or> in_range 35 91 c \<or> in_range 93 126 c) s"

definition oauth_scopes :: "environ \<Rightarrow> string list" where
  "oauth_scopes env =
    (let xs = comma_items (env_get env ''UNIGROK_OAUTH_SCOPES'' ''unigrok:connect'')
     in if xs = [] \<or> \<not> list_all oauth_scope_ok xs then [] else dedup xs)"

subsection \<open>Service tokens\<close>

definition DEFAULT_SERVICE_SCOPES :: "string list" where
  "DEFAULT_SERVICE_SCOPES =
    [''unigrok:connect'', ''unigrok:invoke'', ''unigrok:review'', ''unigrok:status'', ''unigrok:chat'']"

definition service_token_scopes :: "environ \<Rightarrow> string list" where
  "service_token_scopes env =
    (let xs = str_split (replace_char CHR '','' CHR '' ''
           (env_get env ''UNIGROK_SERVICE_TOKEN_SCOPES'' (join '' '' DEFAULT_SERVICE_SCOPES)))
     in if xs = [] \<or> \<not> list_all oauth_scope_ok xs then DEFAULT_SERVICE_SCOPES else dedup xs)"

text \<open>\<open>re.sub(r"[^A-Za-z0-9._-]{1,64}", "-", raw)\<close>; \<open>n\<close> characters of the current run are already replaced.\<close>

fun squash_label :: "nat \<Rightarrow> string \<Rightarrow> string" where
  "squash_label n [] = []"
| "squash_label n (c # cs) =
     (if is_alnum c \<or> c \<in> set ''._-'' then c # squash_label 0 cs
      else if n = 0 \<or> n = 64 then CHR ''-'' # squash_label 1 cs else squash_label (Suc n) cs)"

definition service_token_label :: "environ \<Rightarrow> string" where
  "service_token_label env =
    (let raw = str_strip (env_get env ''UNIGROK_SERVICE_TOKEN_LABEL'' ''automation'');
         cleaned = strip_by (\<lambda>c. c \<in> set ''-._'') (take 64 (squash_label 0 (if raw = [] then ''automation'' else raw)))
     in if cleaned = [] then ''automation'' else cleaned)"

definition service_token_ok :: "string \<Rightarrow> bool" where
  "service_token_ok t \<longleftrightarrow> 32 \<le> length t \<and> length t \<le> 256
     \<and> list_all (\<lambda>c. is_alnum c \<or> c \<in> set ''._~+/=-'') t"

definition configured_service_digests :: "pylib \<Rightarrow> environ \<Rightarrow> string list" where
  "configured_service_digests lib env =
    map (sha256 lib) (filter service_token_ok (comma_items (env_get env ''UNIGROK_SERVICE_TOKENS'' [])))
    @ filter (\<lambda>h. length h = 64 \<and> list_all hex_digit h)
        (map str_lower (comma_items (env_get env ''UNIGROK_SERVICE_TOKEN_SHA256'' [])))"

definition service_tokens_configured :: "pylib \<Rightarrow> environ \<Rightarrow> bool" where
  "service_tokens_configured lib env \<longleftrightarrow> configured_service_digests lib env \<noteq> []"

definition auth_enforcement_active :: "pylib \<Rightarrow> netlib \<Rightarrow> environ \<Rightarrow> bool" where
  "auth_enforcement_active lib net env \<longleftrightarrow> introspection_url net env \<noteq> None \<or> service_tokens_configured lib env"

definition SERVICE_TOKEN_MAX :: nat where "SERVICE_TOKEN_MAX = 256"

definition service_claims :: "netlib \<Rightarrow> environ \<Rightarrow> doc" where
  "service_claims net env =
    [(''active'', JBool True), (''token_type'', JStr ''service''),
     (''scope'', JStr (join '' '' (service_token_scopes env))), (''iss'', JStr ''unigrok:service-token''),
     (''sub'', JStr (service_token_label env)),
     (''aud'', JStr (case public_mcp_resource net env of None \<Rightarrow> ''service-token'' | Some r \<Rightarrow> r)),
     (''unigrok_principal'', JStr (''service:'' @ service_token_label env)), (''unigrok_auth'', JStr ''service_token'')]"

definition match_service_token :: "pylib \<Rightarrow> netlib \<Rightarrow> environ \<Rightarrow> string option \<Rightarrow> doc option" where
  "match_service_token lib net env token =
    (case token of
       None \<Rightarrow> None
     | Some t \<Rightarrow>
         if t = [] \<or> SERVICE_TOKEN_MAX < length t then None
         else if sha256 lib t \<in> set (configured_service_digests lib env) then Some (service_claims net env) else None)"

subsection \<open>OAuth principals\<close>

definition canonical_oauth_principal :: "netlib \<Rightarrow> environ \<Rightarrow> json \<Rightarrow> json \<Rightarrow> string option" where
  "canonical_oauth_principal net env issuer subject =
    (case (issuer, subject) of
       (JStr i, JStr s) \<Rightarrow>
         if i \<notin> set (authorization_servers net env) then None
         else if s = [] \<or> 1024 < length s then None
         else if list_ex control_char s then None
         else Some (''oauth:'' @ url_quote i @ '':'' @ url_quote s)
     | _ \<Rightarrow> None)"

subsection \<open>Deployment checks\<close>

definition validate_remote_configuration :: "netlib \<Rightarrow> environ \<Rightarrow> py_error option" where
  "validate_remote_configuration net env =
    (if \<not> is_cloudrun_runtime env then None
     else if str_lower (str_strip (env_get env ''UNIGROK_ALLOW_UNAUTHENTICATED'' [])) \<in> {''1'', ''true'', ''yes''}
       then Some (RuntimeError ''UNIGROK_ALLOW_UNAUTHENTICATED is forbidden in Cloud Run'')
     else if public_mcp_resource net env = None
       then Some (RuntimeError ''Cloud Run requires a valid UNIGROK_PUBLIC_MCP_URL ending in /mcp'')
     else if authorization_servers net env = []
       then Some (RuntimeError ''Cloud Run requires valid OAuth authorization servers'')
     else if introspection_url net env = None
       then Some (RuntimeError ''Cloud Run requires UNIGROK_OAUTH_INTROSPECTION_URL'')
     else if \<not> set [''unigrok:connect'', ''unigrok:invoke'', ''unigrok:review'', ''unigrok:status''] \<subseteq> set (oauth_scopes env)
       then Some (RuntimeError ''Cloud Run OAuth scopes omit a required MCP capability'')
     else None)"

definition oauth_metadata :: "pylib \<Rightarrow> netlib \<Rightarrow> environ \<Rightarrow> doc \<times> int \<times> (string \<times> string) list" where
  "oauth_metadata lib net env =
    (let servers = authorization_servers net env; scopes = oauth_scopes env; service = service_tokens_configured lib env in
     case public_mcp_resource net env of
       Some resource \<Rightarrow>
         if servers = [] \<or> scopes = [] \<or> introspection_url net env = None then
           ([(''status'', JStr ''unavailable''), (''code'', JStr ''oauth_discovery_not_configured''),
             (''detail'', JStr ''The remote OAuth boundary is not fully configured.'')], 503,
            [(''Cache-Control'', ''no-store'')])
         else
           ([(''resource'', JStr resource), (''authorization_servers'', JArr (map JStr servers)),
             (''scopes_supported'', JArr (map JStr scopes)), (''bearer_methods_supported'', JArr [JStr ''header'']),
             (''x_unigrok_authorization_status'', JStr ''active''),
             (''x_unigrok_access_token_validation'',
                JStr (if service then ''remote-introspection-or-service-token'' else ''remote-introspection''))]
            @ (if service then [(''x_unigrok_service_token'', JBool True),
                 (''x_unigrok_service_token_scopes'', JArr (map JStr (service_token_scopes env)))] else []), 200,
            [(''Cache-Control'', ''public, max-age=300'')])
     | None \<Rightarrow>
         ([(''status'', JStr ''unavailable''), (''code'', JStr ''oauth_discovery_not_configured''),
           (''detail'', JStr ''The remote OAuth boundary is not fully configured.'')], 503,
          [(''Cache-Control'', ''no-store'')]))"

subsection \<open>Requests\<close>

record request =
  rq_type :: string
  rq_path :: string
  rq_method :: string
  rq_headers :: "(string \<times> string) list"
  rq_query :: string
  rq_oauth :: json

record message =
  mg_type :: string
  mg_body :: string
  mg_more :: bool

definition scope_header :: "request \<Rightarrow> string \<Rightarrow> string option" where
  "scope_header rq name = map_option snd (find (\<lambda>(k, v). str_lower k = name) (rq_headers rq))"

definition extract_bearer :: "string option \<Rightarrow> string option" where
  "extract_bearer value =
    (let s = (case value of None \<Rightarrow> [] | Some v \<Rightarrow> v);
         scheme = takeWhile (\<lambda>c. c \<noteq> CHR '' '') s; rest = dropWhile (\<lambda>c. c \<noteq> CHR '' '') s
     in if rest = [] \<or> str_lower scheme \<noteq> ''bearer'' then None
        else let token = str_strip (tl rest) in
          if token \<noteq> [] \<and> length token \<le> 8192 then Some token else None)"

definition STATUS_TOOLS :: "string list" where
  "STATUS_TOOLS = [''grok_mcp_discover_self'', ''grok_mcp_status'', ''list_models'', ''benchmark_status'']"

definition tool_scope :: "json \<Rightarrow> string" where
  "tool_scope name =
    (let tool = label_of name in
     if tool = ''agent_result'' then ''unigrok:connect''
     else if tool = ''review_pull_request'' then ''unigrok:review''
     else if tool \<in> set STATUS_TOOLS then ''unigrok:status'' else ''unigrok:invoke'')"

definition calls_of :: "json \<Rightarrow> json list" where
  "calls_of document = filter (\<lambda>r. is_obj r \<and> dget (obj_of r) ''method'' = JStr ''tools/call'')
     (case document of JArr xs \<Rightarrow> xs | v \<Rightarrow> [v])"

definition call_name :: "json \<Rightarrow> json" where
  "call_name r = dget (obj_of (dget (obj_of r) ''params'')) ''name''"

definition required_scope :: "netlib \<Rightarrow> string \<Rightarrow> string \<Rightarrow> string" where
  "required_scope net path body =
    (if starts_with ''/v1'' path then ''unigrok:chat''
     else if path \<noteq> ''/mcp'' then ''unigrok:status''
     else if body = [] then ''unigrok:connect''
     else case json_loads net body of
         None \<Rightarrow> ''unigrok:connect''
       | Some document \<Rightarrow>
           join '' '' (sort (remdups (''unigrok:connect'' # map (tool_scope \<circ> call_name) (calls_of document)))))"

definition scopes_of :: "string \<Rightarrow> string set" where
  "scopes_of s = set (str_split s)"

definition granted_scopes :: "doc \<Rightarrow> string set" where
  "granted_scopes claims = scopes_of (label_of (dget claims ''scope''))"

subsection \<open>Introspection\<close>

datatype control_answer = Unreachable | Answer int nat "json option"

definition audiences :: "json \<Rightarrow> string list option" where
  "audiences v =
    (case v of
       JStr a \<Rightarrow> Some [a]
     | JArr xs \<Rightarrow>
         if length xs \<le> 16 \<and> list_all (\<lambda>x. case x of JStr s \<Rightarrow> length s \<le> 2048 | _ \<Rightarrow> False) xs
         then Some (map label_of xs) else None
     | _ \<Rightarrow> None)"

definition named_login :: "doc \<Rightarrow> string \<Rightarrow> string option" where
  "named_login payload k =
    (case dget payload k of JStr s \<Rightarrow> if str_strip s = [] then None else Some (str_strip s) | _ \<Rightarrow> None)"

definition lstrip_at :: "string \<Rightarrow> string" where
  "lstrip_at s = dropWhile (\<lambda>c. c = CHR ''@'') s"

definition login_claims :: "doc \<Rightarrow> doc" where
  "login_claims payload =
    (case filter (\<lambda>k. named_login payload k \<noteq> None) [''login'', ''preferred_username'', ''nickname''] of
       k # _ \<Rightarrow> [(''github_login'', JStr (lstrip_at (the (named_login payload k)))),
                 (k, JStr (the (named_login payload k)))]
     | [] \<Rightarrow>
         (case named_login (obj_of (dget payload ''user'')) ''login'' of
            None \<Rightarrow> [] | Some l \<Rightarrow> [(''github_login'', JStr (lstrip_at l))]))"

text \<open>The payload of an answer: \<open>Inl\<close> says why the service is unavailable.\<close>

definition accept_payload :: "netlib \<Rightarrow> environ \<Rightarrow> string \<Rightarrow> doc \<Rightarrow> string + doc option" where
  "accept_payload net env required payload =
    (if dget payload ''active'' = JBool False then Inr None
     else if dget payload ''active'' \<noteq> JBool True then Inl ''oauth_control_missing_active''
     else if \<not> scopes_of required \<subseteq> granted_scopes payload then Inr None
     else case canonical_oauth_principal net env (dget payload ''iss'') (dget payload ''sub'') of
         None \<Rightarrow> Inr None
       | Some p \<Rightarrow>
           (case (audiences (dget payload ''aud''), public_mcp_resource net env) of
              (Some auds, Some resource) \<Rightarrow>
                if resource \<in> set auds then
                  Inr (Some ([(''active'', JBool True), (''scope'', dget payload ''scope''),
                    (''unigrok_principal'', JStr p), (''unigrok_auth'', JStr ''oauth'')] @ login_claims payload))
                else Inr None
            | _ \<Rightarrow> Inr None))"

definition perform_introspection ::
  "netlib \<Rightarrow> environ \<Rightarrow> (string \<Rightarrow> string \<Rightarrow> control_answer) \<Rightarrow> string \<Rightarrow> string \<Rightarrow> string + doc option" where
  "perform_introspection net env control token required =
    (if introspection_url net env = None \<or> token = [] \<or> 8192 < length token then Inr None
     else case control token required of
         Unreachable \<Rightarrow> Inl ''oauth_control_unreachable''
       | Answer status n body \<Rightarrow>
           if status \<noteq> 200 then Inl ''oauth_control_status''
           else if 16384 < n then Inl ''oauth_control_response_too_large''
           else (case body of
               None \<Rightarrow> Inl ''oauth_control_invalid_json''
             | Some (JObj payload) \<Rightarrow> accept_payload net env required payload
             | Some _ \<Rightarrow> Inl ''oauth_control_invalid_payload''))"

text \<open>
  \<open>introspect_oauth_token\<close>: one task per token and scope in flight, at most 256 of them. A caller that finds
  its task waits for that task's answer, which is the one \<open>control\<close> gives for the same arguments.
\<close>

definition OAUTH_INTROSPECTION_MAX_INFLIGHT :: nat where "OAUTH_INTROSPECTION_MAX_INFLIGHT = 256"

definition introspection_key :: "pylib \<Rightarrow> string \<Rightarrow> string \<Rightarrow> string \<times> string" where
  "introspection_key lib token required = (sha256 lib token, required)"

definition introspect_oauth_token ::
  "pylib \<Rightarrow> netlib \<Rightarrow> environ \<Rightarrow> (string \<Rightarrow> string \<Rightarrow> control_answer) \<Rightarrow> (string \<times> string) list \<Rightarrow> string \<Rightarrow> string \<Rightarrow>
   (string + doc option) \<times> (string \<times> string) list" where
  "introspect_oauth_token lib net env control inflight token required =
    (if token = [] \<or> 8192 < length token then (Inr None, inflight)
     else let key = introspection_key lib token required in
       if key \<in> set inflight then (perform_introspection net env control token required, inflight)
       else if OAUTH_INTROSPECTION_MAX_INFLIGHT \<le> length inflight then (Inl ''oauth_control_capacity'', inflight)
       else (perform_introspection net env control token required, key # inflight))"

definition finish_introspection :: "string \<times> string \<Rightarrow> (string \<times> string) list \<Rightarrow> (string \<times> string) list" where
  "finish_introspection key inflight = removeAll key inflight"

subsection \<open>The OAuth middleware\<close>

definition PUBLIC_PATHS :: "string list" where
  "PUBLIC_PATHS = [''/healthz'', ''/readyz'', ''/.well-known/webmcp'', ''/.well-known/oauth-protected-resource'',
     ''/.well-known/oauth-protected-resource/mcp'']"

definition LOCAL_SCOPE :: string where
  "LOCAL_SCOPE = ''unigrok:connect unigrok:invoke unigrok:review unigrok:status unigrok:chat''"

definition local_claims :: doc where
  "local_claims =
    [(''active'', JBool True), (''token_type'', JStr ''local''), (''scope'', JStr LOCAL_SCOPE),
     (''iss'', JStr ''unigrok:local-token''), (''sub'', JStr ''operator''), (''aud'', JStr ''local-mcp''),
     (''unigrok_principal'', JStr ''local:operator''), (''unigrok_auth'', JStr ''local_token'')]"

definition preauthenticated_local_claims :: "request \<Rightarrow> doc option" where
  "preauthenticated_local_claims rq =
    (case rq_oauth rq of
       JObj raw \<Rightarrow> if list_all (\<lambda>(k, v). dget raw k = v) local_claims then Some local_claims else None
     | _ \<Rightarrow> None)"

definition body_limit :: "environ \<Rightarrow> int" where
  "body_limit env =
    (let configured = (case int_of_text (env_get env ''UNIGROK_REMOTE_BODY_MAX_BYTES'' ''28000000'') of
           None \<Rightarrow> 28000000 | Some n \<Rightarrow> n)
     in max 64000 (min configured 32000000))"

definition metadata_url :: "netlib \<Rightarrow> environ \<Rightarrow> string \<Rightarrow> string \<Rightarrow> string option" where
  "metadata_url net env path query =
    (case public_mcp_resource net env of
       None \<Rightarrow> None
     | Some resource \<Rightarrow>
         if query \<noteq> [] then None
         else (case urlsplit net resource of
             None \<Rightarrow> None
           | Some p \<Rightarrow> if path \<noteq> up_path p then None
               else Some (up_scheme p @ ''://'' @ up_netloc p @ ''/.well-known/oauth-protected-resource'' @ path)))"

datatype edge = Forward "doc option" | Refuse int "string option" | Waiting

definition DQUOTE :: string where "DQUOTE = [char_of (34 :: nat)]"

definition unauthorized :: "netlib \<Rightarrow> environ \<Rightarrow> request \<Rightarrow> string \<Rightarrow> edge" where
  "unauthorized net env rq required =
    Refuse 401 (Some (case metadata_url net env (rq_path rq) (rq_query rq) of
       None \<Rightarrow> ''Bearer scope='' @ DQUOTE @ required @ DQUOTE
     | Some m \<Rightarrow> ''Bearer resource_metadata='' @ DQUOTE @ m @ DQUOTE @ '', scope='' @ DQUOTE @ required @ DQUOTE))"

datatype read_result = Body string | TooLarge | NotYet

text \<open>The buffering loop; \<open>NotYet\<close> when the messages end before the body does.\<close>

fun read_body :: "int \<Rightarrow> string \<Rightarrow> message list \<Rightarrow> read_result" where
  "read_body limit body [] = NotYet"
| "read_body limit body (m # ms) =
     (if mg_type m = ''http.request'' then
        let body' = body @ mg_body m in
        if limit < int (length body') then TooLarge
        else if mg_more m then read_body limit body' ms else Body body'
      else Body body)"

text \<open>The scope check of a request whose caller is known, and the last attempt for one whose caller is not.\<close>

definition authorize_known :: "netlib \<Rightarrow> environ \<Rightarrow> request \<Rightarrow> string \<Rightarrow> doc \<Rightarrow> edge" where
  "authorize_known net env rq required claims =
    (if scopes_of required \<subseteq> granted_scopes claims then Forward (Some claims) else unauthorized net env rq required)"

definition authorize_unknown ::
  "pylib \<Rightarrow> netlib \<Rightarrow> environ \<Rightarrow> (string \<Rightarrow> string \<Rightarrow> control_answer) \<Rightarrow> (string \<times> string) list \<Rightarrow> request \<Rightarrow> string \<Rightarrow>
   string option \<Rightarrow> edge" where
  "authorize_unknown lib net env control inflight rq required token =
    (case match_service_token lib net env token of
       Some claims \<Rightarrow> authorize_known net env rq required claims
     | None \<Rightarrow>
         (case fst (introspect_oauth_token lib net env control inflight (case token of None \<Rightarrow> [] | Some t \<Rightarrow> t) required) of
            Inl e \<Rightarrow> Refuse 503 None
          | Inr None \<Rightarrow> unauthorized net env rq required
          | Inr (Some claims) \<Rightarrow> Forward (Some claims)))"

definition first_claims :: "pylib \<Rightarrow> netlib \<Rightarrow> environ \<Rightarrow> request \<Rightarrow> string option \<Rightarrow> doc option" where
  "first_claims lib net env rq token =
    (case preauthenticated_local_claims rq of
       Some c \<Rightarrow> Some c
     | None \<Rightarrow> match_service_token lib net env token)"

definition posts_mcp :: "request \<Rightarrow> bool" where
  "posts_mcp rq \<longleftrightarrow> rq_path rq = ''/mcp'' \<and> rq_method rq = ''POST''"

text \<open>\<open>POST /mcp\<close>: the caller is authenticated before the body is buffered.\<close>

definition oauth_post ::
  "netlib \<Rightarrow> environ \<Rightarrow> request \<Rightarrow> message list \<Rightarrow> string + doc option \<Rightarrow> edge" where
  "oauth_post net env rq messages found =
    (case found of
       Inl e \<Rightarrow> Refuse 503 None
     | Inr None \<Rightarrow> unauthorized net env rq ''unigrok:connect''
     | Inr (Some claims) \<Rightarrow>
         (case read_body (body_limit env) [] messages of
            TooLarge \<Rightarrow> Refuse 413 None
          | NotYet \<Rightarrow> Waiting
          | Body body \<Rightarrow> authorize_known net env rq (required_scope net (rq_path rq) body) claims))"

definition remote_oauth ::
  "pylib \<Rightarrow> netlib \<Rightarrow> environ \<Rightarrow> (string \<Rightarrow> string \<Rightarrow> control_answer) \<Rightarrow> (string \<times> string) list \<Rightarrow> request \<Rightarrow>
   message list \<Rightarrow> edge" where
  "remote_oauth lib net env control inflight rq messages =
    (if rq_type rq \<noteq> ''http'' then Forward None
     else if rq_path rq \<in> set PUBLIC_PATHS \<or> \<not> auth_enforcement_active lib net env then Forward None
     else let token = extract_bearer (scope_header rq ''authorization''); claims = first_claims lib net env rq token in
       if posts_mcp rq then
         oauth_post net env rq messages
           (case claims of
              Some c \<Rightarrow> Inr (Some c)
            | None \<Rightarrow> fst (introspect_oauth_token lib net env control inflight
                (case token of None \<Rightarrow> [] | Some t \<Rightarrow> t) ''unigrok:connect''))
       else let required = required_scope net (rq_path rq) [] in
         (case claims of
            Some c \<Rightarrow> authorize_known net env rq required c
          | None \<Rightarrow> authorize_unknown lib net env control inflight rq required token))"

subsection \<open>The origin middleware\<close>

definition public_resource_origins :: "netlib \<Rightarrow> environ \<Rightarrow> string list" where
  "public_resource_origins net env =
    (if \<not> is_cloudrun_runtime env then []
     else case public_mcp_resource net env of
         None \<Rightarrow> []
       | Some resource \<Rightarrow>
           (case urlsplit net resource of
              None \<Rightarrow> []
            | Some p \<Rightarrow>
                let host = rstrip_of CHR ''.'' (str_lower (case up_host p of None \<Rightarrow> [] | Some h \<Rightarrow> h));
                    authority = (if CHR '':'' \<in> set host then ''['' @ host @ '']'' else host)
                in if host = [] then []
                   else (case up_port p of
                       None \<Rightarrow> [''https://'' @ authority, ''https://'' @ authority @ '':443'']
                     | Some n \<Rightarrow> if n = 443 then [''https://'' @ authority, ''https://'' @ authority @ '':443'']
                                 else [''https://'' @ authority @ '':'' @ str_int n])))"

definition allowed_origins :: "netlib \<Rightarrow> environ \<Rightarrow> string list" where
  "allowed_origins net env =
    map (rstrip_of CHR ''/'') (comma_items (env_get env ''UNIGROK_ALLOWED_ORIGINS'' []))
    @ public_resource_origins net env"

definition origin_allowed :: "netlib \<Rightarrow> environ \<Rightarrow> string option \<Rightarrow> bool" where
  "origin_allowed net env origin =
    (case origin of
       None \<Rightarrow> True
     | Some o' \<Rightarrow>
         o' = [] \<or>
         (let v = rstrip_of CHR ''/'' (str_strip o') in
          v \<in> set (allowed_origins net env)
          \<or> (case urlsplit net v of
               None \<Rightarrow> False
             | Some p \<Rightarrow> up_host p \<in> {Some ''localhost'', Some ''127.0.0.1'', Some ''::1''})))"

definition remote_origin :: "netlib \<Rightarrow> environ \<Rightarrow> request \<Rightarrow> edge" where
  "remote_origin net env rq =
    (if rq_type rq = ''http'' \<and> (starts_with ''/mcp'' (rq_path rq) \<or> starts_with ''/v1'' (rq_path rq))
        \<and> \<not> origin_allowed net env (scope_header rq ''origin'')
     then Refuse 403 None else Forward None)"

end
