(* ===== verification/Remote_Auth_Facts.thy ===== *)
theory Remote_Auth_Facts
  imports Remote_Auth
begin

text \<open>
  What the remote edge guarantees: a request that reaches the application through enforced authentication
  carries claims of a known kind whose scopes cover what it asks for, and one OAuth principal names one
  issuer and one subject.
\<close>

lemma colon_split:
  assumes "a @ CHR '':'' # b = a' @ CHR '':'' # b'" "CHR '':'' \<notin> set a" "CHR '':'' \<notin> set a'"
  shows "a = a' \<and> b = b'"
proof -
  have "takeWhile (\<lambda>c. c \<noteq> CHR '':'') (x @ CHR '':'' # y) = x" "dropWhile (\<lambda>c. c \<noteq> CHR '':'') (x @ CHR '':'' # y) = CHR '':'' # y"
    if "CHR '':'' \<notin> set x" for x y
    using that by (induction x) auto
  with assms show ?thesis by (metis list.inject)
qed

text \<open>One principal, one person: the canonical OAuth principal determines the issuer and the subject it was
  made from, so two accounts, at one authorization server or at two, never share a principal.\<close>
theorem principal_determines_account:
  assumes "canonical_oauth_principal net env (JStr i) (JStr s) = Some p"
    and "canonical_oauth_principal net env (JStr i') (JStr s') = Some p"
  shows "i = i' \<and> s = s'"
proof -
  have "url_quote i @ CHR '':'' # url_quote s = url_quote i' @ CHR '':'' # url_quote s'"
    using assms by (auto simp: canonical_oauth_principal_def split: if_splits)
  then have "url_quote i = url_quote i'" "url_quote s = url_quote s'"
    using colon_split quote_no_colon by blast+
  then show ?thesis by (metis unquote_quote)
qed

subsection \<open>Authentic claims\<close>

definition authentic ::
  "pylib \<Rightarrow> netlib \<Rightarrow> environ \<Rightarrow> (string \<Rightarrow> string \<Rightarrow> control_answer) \<Rightarrow> request \<Rightarrow> doc \<Rightarrow> bool" where
  "authentic lib net env control rq claims \<longleftrightarrow>
     (claims = local_claims \<and> preauthenticated_local_claims rq \<noteq> None)
     \<or> (\<exists>t. extract_bearer (scope_header rq ''authorization'') = Some t
          \<and> sha256 lib t \<in> set (configured_service_digests lib env) \<and> claims = service_claims net env)
     \<or> (\<exists>t required n payload p resource. extract_bearer (scope_header rq ''authorization'') = Some t
          \<and> control t required = Answer 200 n (Some (JObj payload)) \<and> dget payload ''active'' = JBool True
          \<and> canonical_oauth_principal net env (dget payload ''iss'') (dget payload ''sub'') = Some p
          \<and> dget claims ''unigrok_principal'' = JStr p
          \<and> public_mcp_resource net env = Some resource
          \<and> (\<exists>auds. audiences (dget payload ''aud'') = Some auds \<and> resource \<in> set auds))"

lemma accepted:
  assumes "accept_payload net env required payload = Inr (Some claims)"
  shows "dget payload ''active'' = JBool True" "scopes_of required \<subseteq> granted_scopes claims"
    "\<exists>p. canonical_oauth_principal net env (dget payload ''iss'') (dget payload ''sub'') = Some p
      \<and> dget claims ''unigrok_principal'' = JStr p"
    "\<exists>resource auds. public_mcp_resource net env = Some resource \<and> audiences (dget payload ''aud'') = Some auds
      \<and> resource \<in> set auds"
proof -
  from assms obtain p auds resource where p: "dget payload ''active'' = JBool True"
    "scopes_of required \<subseteq> granted_scopes payload"
    "canonical_oauth_principal net env (dget payload ''iss'') (dget payload ''sub'') = Some p"
    "audiences (dget payload ''aud'') = Some auds" "public_mcp_resource net env = Some resource" "resource \<in> set auds"
    "claims = [(''active'', JBool True), (''scope'', dget payload ''scope''), (''unigrok_principal'', JStr p),
       (''unigrok_auth'', JStr ''oauth'')] @ login_claims payload"
    unfolding accept_payload_def by (auto split: if_splits option.splits)
  then have "dget claims ''scope'' = dget payload ''scope''" "dget claims ''unigrok_principal'' = JStr p"
    by (simp_all add: dget_def)
  with p show "dget payload ''active'' = JBool True" "scopes_of required \<subseteq> granted_scopes claims"
    "\<exists>p. canonical_oauth_principal net env (dget payload ''iss'') (dget payload ''sub'') = Some p
      \<and> dget claims ''unigrok_principal'' = JStr p"
    "\<exists>resource auds. public_mcp_resource net env = Some resource \<and> audiences (dget payload ''aud'') = Some auds
      \<and> resource \<in> set auds"
    by (auto simp: granted_scopes_def)
qed

lemma introspected_authentic:
  assumes "fst (introspect_oauth_token lib net env control inflight (case token of None \<Rightarrow> [] | Some t \<Rightarrow> t) required)
      = Inr (Some claims)"
    and "extract_bearer (scope_header rq ''authorization'') = token"
  shows "authentic lib net env control rq claims" "scopes_of required \<subseteq> granted_scopes claims"
proof -
  from assms(1) obtain t where t: "token = Some t" "perform_introspection net env control t required = Inr (Some claims)"
    by (cases token) (auto simp: introspect_oauth_token_def Let_def split: if_splits)
  then obtain n payload where payload: "control t required = Answer 200 n (Some (JObj payload))"
    "accept_payload net env required payload = Inr (Some claims)"
    by (auto simp: perform_introspection_def split: if_splits control_answer.splits option.splits json.splits)
  note acc = accepted [OF payload(2)]
  then show "authentic lib net env control rq claims"
    unfolding authentic_def using t(1) assms(2) payload(1) by blast
  show "scopes_of required \<subseteq> granted_scopes claims" by (rule acc(2))
qed

lemma first_claims_authentic:
  assumes "first_claims lib net env rq (extract_bearer (scope_header rq ''authorization'')) = Some claims"
  shows "authentic lib net env control rq claims"
  using assms unfolding authentic_def
  by (auto simp: first_claims_def match_service_token_def preauthenticated_local_claims_def
      split: option.splits if_splits json.splits)

lemma matched_authentic:
  assumes "match_service_token lib net env (extract_bearer (scope_header rq ''authorization'')) = Some claims"
  shows "authentic lib net env control rq claims"
  using assms unfolding authentic_def by (auto simp: match_service_token_def split: option.splits if_splits)

lemma known_forwarded:
  "authorize_known net env rq required c = Forward found \<Longrightarrow> found = Some c \<and> scopes_of required \<subseteq> granted_scopes c"
  by (auto simp: authorize_known_def unauthorized_def split: if_splits)

lemma read_body_bound: "read_body limit body ms = Body b \<Longrightarrow> int (length body) \<le> limit \<Longrightarrow> int (length b) \<le> limit"
  by (induction limit body ms rule: read_body.induct) (auto simp: Let_def split: if_splits)

text \<open>What the edge asks of a request: the scopes of its path, or of the tools its body calls.\<close>

definition request_body :: "environ \<Rightarrow> request \<Rightarrow> message list \<Rightarrow> string" where
  "request_body env rq messages =
    (if posts_mcp rq then (case read_body (body_limit env) [] messages of Body b \<Rightarrow> b | _ \<Rightarrow> []) else [])"

lemma post_forwarded:
  assumes "oauth_post net env rq messages found = Forward out" "posts_mcp rq"
  shows "\<exists>c. found = Inr (Some c) \<and> out = Some c
    \<and> scopes_of (required_scope net (rq_path rq) (request_body env rq messages)) \<subseteq> granted_scopes c
    \<and> int (length (request_body env rq messages)) \<le> body_limit env"
proof -
  from assms(1) obtain c body where c: "found = Inr (Some c)" "read_body (body_limit env) [] messages = Body body"
    "authorize_known net env rq (required_scope net (rq_path rq) body) c = Forward out"
    by (auto simp: oauth_post_def unauthorized_def split: sum.splits option.splits read_result.splits)
  have "0 \<le> body_limit env" by (simp add: body_limit_def Let_def)
  then have "int (length body) \<le> body_limit env" using read_body_bound [OF c(2)] by simp
  with c known_forwarded [OF c(3)] assms(2) show ?thesis by (auto simp: request_body_def)
qed

text \<open>C11. Nothing protected is reached without authority: where the edge enforces authentication, a request to any
  path that is not public reaches the application only with claims attached that are authentic (the local
  operator's, a configured service token's, or an active OAuth token's for this resource, issued by a configured
  server) and that grant every scope the path, or each tool called in the body, requires; and no body
  larger than the limit of at most 32,000,000 bytes gets through.\<close>
theorem forwarded_is_authorised:
  assumes "remote_oauth lib net env control inflight rq messages = Forward found"
    and "rq_type rq = ''http''" "rq_path rq \<notin> set PUBLIC_PATHS" "auth_enforcement_active lib net env"
  shows "\<exists>claims. found = Some claims \<and> authentic lib net env control rq claims
    \<and> scopes_of (required_scope net (rq_path rq) (request_body env rq messages)) \<subseteq> granted_scopes claims
    \<and> length (request_body env rq messages) \<le> 32000000"
proof (cases "posts_mcp rq")
  case True
  let ?token = "extract_bearer (scope_header rq ''authorization'')"
  let ?found = "case first_claims lib net env rq ?token of Some c \<Rightarrow> Inr (Some c)
    | None \<Rightarrow> fst (introspect_oauth_token lib net env control inflight (case ?token of None \<Rightarrow> [] | Some t \<Rightarrow> t) ''unigrok:connect'')"
  have "oauth_post net env rq messages ?found = Forward found"
    using assms True by (simp add: remote_oauth_def Let_def)
  then obtain c where c: "?found = Inr (Some c)" "found = Some c"
    "scopes_of (required_scope net (rq_path rq) (request_body env rq messages)) \<subseteq> granted_scopes c"
    "int (length (request_body env rq messages)) \<le> body_limit env"
    using post_forwarded [OF _ True] by blast
  have "body_limit env \<le> 32000000" by (simp add: body_limit_def Let_def)
  moreover have "authentic lib net env control rq c"
    using c(1) first_claims_authentic introspected_authentic(1) [OF _ refl] by (auto split: option.splits)
  ultimately show ?thesis using c by auto
next
  case False
  let ?token = "extract_bearer (scope_header rq ''authorization'')"
  have body: "request_body env rq messages = []" using False by (simp add: request_body_def)
  show ?thesis
  proof (cases "first_claims lib net env rq ?token")
    case (Some c)
    with assms False have "authorize_known net env rq (required_scope net (rq_path rq) []) c = Forward found"
      by (simp add: remote_oauth_def Let_def)
    with known_forwarded first_claims_authentic [OF Some] body show ?thesis by fastforce
  next
    case None
    with assms False have
      unknown: "authorize_unknown lib net env control inflight rq (required_scope net (rq_path rq) []) ?token = Forward found"
      by (simp add: remote_oauth_def Let_def)
    show ?thesis
    proof (cases "match_service_token lib net env ?token")
      case (Some c)
      with unknown have "authorize_known net env rq (required_scope net (rq_path rq) []) c = Forward found"
        by (simp add: authorize_unknown_def)
      with known_forwarded matched_authentic [OF Some] body show ?thesis by fastforce
    next
      case None
      with unknown obtain c where "found = Some c" "fst (introspect_oauth_token lib net env control inflight
          (case ?token of None \<Rightarrow> [] | Some t \<Rightarrow> t) (required_scope net (rq_path rq) [])) = Inr (Some c)"
        by (auto simp: authorize_unknown_def unauthorized_def split: sum.splits option.splits)
      with introspected_authentic [OF _ refl] body show ?thesis by fastforce
    qed
  qed
qed

subsection \<open>A concrete edge\<close>

text \<open>A library that splits only the URL \<open>https://i\<close>, an edge with one service token, one with one OAuth server.\<close>

definition sample_net :: netlib where
  "sample_net = \<lparr>urlsplit = (\<lambda>s. if s = ''https://i'' then Some \<lparr>up_scheme = ''https'', up_netloc = ''i'',
       up_host = Some ''i'', up_port = None, up_username = None, up_password = None, up_path = [], up_query = [],
       up_fragment = []\<rparr> else None), ip_global = (\<lambda>_. None), json_loads = (\<lambda>_. None)\<rparr>"

definition sample_env :: environ where
  "sample_env k =
    (if k = ''UNIGROK_SERVICE_TOKEN_SHA256'' then Some (CHR ''a'' # replicate 63 (CHR ''0''))
     else if k = ''UNIGROK_OAUTH_AUTHORIZATION_SERVERS'' then Some ''https://i'' else None)"

definition sample_request :: request where
  "sample_request = \<lparr>rq_type = ''http'', rq_path = ''/runtimez'', rq_method = ''GET'',
     rq_headers = [(''authorization'', ''Bearer a'')], rq_query = [], rq_oauth = JNull\<rparr>"

lemma sample_servers: "authorization_servers sample_net sample_env = [''https://i'']"
  by code_simp

lemma sample_principal:
  "canonical_oauth_principal sample_net sample_env (JStr ''https://i'') (JStr ''u:1'') = Some ''oauth:https%3A%2F%2Fi:u%3A1''"
  by code_simp

theorem principal_determines_account_witness:
  "canonical_oauth_principal sample_net sample_env (JStr ''https://i'') (JStr ''u:1'') = Some ''oauth:https%3A%2F%2Fi:u%3A1''
   \<and> ''https://i'' = ''https://i'' \<and> ''u:1'' = ''u:1''"
  using sample_principal principal_determines_account [OF sample_principal sample_principal] by blast

lemma sample_forwarded:
  "remote_oauth sample_hex_lib sample_net sample_env (\<lambda>_ _. Unreachable) [] sample_request []
    = Forward (Some (service_claims sample_net sample_env))"
  "rq_type sample_request = ''http''" "rq_path sample_request \<notin> set PUBLIC_PATHS"
  "auth_enforcement_active sample_hex_lib sample_net sample_env"
  by code_simp+

theorem forwarded_is_authorised_witness:
  "\<exists>claims. Some (service_claims sample_net sample_env) = Some claims
    \<and> authentic sample_hex_lib sample_net sample_env (\<lambda>_ _. Unreachable) sample_request claims
    \<and> scopes_of (required_scope sample_net (rq_path sample_request) (request_body sample_env sample_request []))
        \<subseteq> granted_scopes claims
    \<and> length (request_body sample_env sample_request []) \<le> 32000000"
  by (rule forwarded_is_authorised [OF sample_forwarded])

end
