(* ===== verification/Caller_Guard.thy ===== *)
theory Caller_Guard
  imports Remote_Auth Local_Budget Spend_Guard
begin

text \<open>
  \<open>caller_budget.py\<close> above the ledgers: the caller budgets of the environment, the check before a metered call,
  the spend-guard policy with the attempts that open and close under it, and the preflight for routing. Messages
  are given without the amounts the code formats into them. \<open>hooked\<close> stands for
  \<open>json.loads(raw, object_pairs_hook=hook)\<close>: \<open>Inl None\<close> is a \<open>JSONDecodeError\<close>, \<open>Inl (Some e)\<close> what the hook (or a
  number that is too long) raised.
\<close>

subsection \<open>Caller budgets\<close>

type_synonym hooked_loads = "(doc \<Rightarrow> budget_error + doc) \<Rightarrow> string \<Rightarrow> budget_error option + json"

definition MAX_BUDGET_BYTES :: nat where "MAX_BUDGET_BYTES = 65536"
definition MAX_BUDGET_ENTRIES :: nat where "MAX_BUDGET_ENTRIES = 256"
definition MAX_PRINCIPAL_CHARS :: nat where "MAX_PRINCIPAL_CHARS = 160"

text \<open>\<open>principal.split('':'', 2)\<close>, where it gives three parts.\<close>

definition split_two :: "string \<Rightarrow> (string \<times> string \<times> string) option" where
  "split_two s =
    (let (a, r) = split_first CHR '':'' s; (b, c) = split_first CHR '':'' r
     in if length (filter (\<lambda>x. x = CHR '':'') s) < 2 then None else Some (a, b, c))"

definition is_configured_canonical_principal :: "netlib \<Rightarrow> environ \<Rightarrow> string \<Rightarrow> bool" where
  "is_configured_canonical_principal net env p =
    (case split_two p of
       None \<Rightarrow> False
     | Some (kind, i, s) \<Rightarrow>
         kind = ''oauth''
         \<and> (let issuer = url_unquote i; subject = url_unquote s in
            utf8_ok issuer \<and> utf8_ok subject \<and> issuer \<noteq> [] \<and> subject \<noteq> []
            \<and> issuer \<in> set (authorization_servers net env)
            \<and> canonical_oauth_principal net env (JStr issuer) (JStr subject) = Some p))"

definition reject_duplicates :: "doc \<Rightarrow> budget_error + doc" where
  "reject_duplicates pairs =
    (if distinct (map fst pairs) then Inr pairs else Inl (CallerBudgetConfigurationError ''duplicate_principal''))"

definition budget_limit :: "json \<Rightarrow> budget_error + rat" where
  "budget_limit v =
    (case (case v of JInt n \<Rightarrow> map_sum PyError Fin (float_of_int n) | JFloat f \<Rightarrow> Inr f
             | _ \<Rightarrow> Inl (CallerBudgetConfigurationError ''invalid_limit'')) of
       Inl e \<Rightarrow> Inl e
     | Inr (Fin q) \<Rightarrow> if q < 0 then Inl (CallerBudgetConfigurationError ''invalid_limit'') else Inr q
     | Inr _ \<Rightarrow> Inl (CallerBudgetConfigurationError ''invalid_limit''))"

definition budget_principal_ok :: "netlib \<Rightarrow> environ \<Rightarrow> string \<Rightarrow> bool" where
  "budget_principal_ok net env p \<longleftrightarrow> p \<noteq> [] \<and> length p \<le> MAX_PRINCIPAL_CHARS \<and> p = str_strip p
     \<and> \<not> list_ex control_char p \<and> is_configured_canonical_principal net env p"

fun read_budgets :: "netlib \<Rightarrow> environ \<Rightarrow> doc \<Rightarrow> budget_error + (string \<times> rat) list" where
  "read_budgets net env [] = Inr []"
| "read_budgets net env ((p, v) # rest) =
     (if \<not> budget_principal_ok net env p then Inl (CallerBudgetConfigurationError ''invalid_principal'')
      else case budget_limit v of
          Inl e \<Rightarrow> Inl e
        | Inr q \<Rightarrow> map_sum id (Cons (p, q)) (read_budgets net env rest))"

definition load_caller_budgets :: "hooked_loads \<Rightarrow> netlib \<Rightarrow> environ \<Rightarrow> budget_error + (string \<times> rat) list" where
  "load_caller_budgets hooked net env =
    (let raw = str_strip (env_get env ''UNIGROK_CALLER_BUDGETS'' []) in
     if raw = [] then Inr []
     else if MAX_BUDGET_BYTES < length raw then Inl (CallerBudgetConfigurationError ''too_large'')
     else case hooked reject_duplicates raw of
         Inl None \<Rightarrow> Inl (CallerBudgetConfigurationError ''invalid_json'')
       | Inl (Some e) \<Rightarrow> Inl e
       | Inr (JObj document) \<Rightarrow>
           if document = [] then Inl (CallerBudgetConfigurationError ''empty'')
           else if MAX_BUDGET_ENTRIES < length document then Inl (CallerBudgetConfigurationError ''too_many_entries'')
           else read_budgets net env document
       | Inr _ \<Rightarrow> Inl (CallerBudgetConfigurationError ''not_object''))"

subsection \<open>The check before a metered call\<close>

text \<open>\<open>get_caller_cost_today\<close>; \<open>sum_real\<close> is SQLite's \<open>SUM\<close>, zero over no rows.\<close>

definition get_caller_cost_today ::
  "(rat list \<Rightarrow> pyfloat) \<Rightarrow> instant \<Rightarrow> telemetry_row list \<Rightarrow> string \<Rightarrow> py_error + pyfloat" where
  "get_caller_cost_today sum_real now rows caller =
    (let c = str_strip caller in
     if c = [] \<or> 160 < length c then Inl (ValueError ''caller must be 1-160 characters'')
     else Inr (sum_real (map t_cost_usd
            (filter (\<lambda>t. t_caller t = c \<and> day_start_of (utc_day_of now) \<le> t_created_at t) rows))))"

text \<open>\<open>enforce_caller_budget\<close>: \<open>None\<close> lets the call go ahead. \<open>ledger\<close> is the store's \<open>get_caller_cost_today\<close>.\<close>

definition enforce_caller_budget ::
  "hooked_loads \<Rightarrow> pylib \<Rightarrow> netlib \<Rightarrow> environ \<Rightarrow> string option \<Rightarrow> (string \<Rightarrow> py_error + pyfloat) \<Rightarrow> budget_error option" where
  "enforce_caller_budget hooked lib net env active ledger =
    (if str_strip (env_get env ''UNIGROK_CALLER_BUDGETS'' []) = [] then None
     else case load_caller_budgets hooked net env of
         Inl e \<Rightarrow> Some e
       | Inr budgets \<Rightarrow>
           (case chosen active None of
              None \<Rightarrow> Some (CallerBudgetUnavailable ''Caller budget requires an authenticated OAuth principal.'')
            | Some p \<Rightarrow>
                if principal_kind active (Some p) \<noteq> ''oauth''
                then Some (CallerBudgetUnavailable ''Caller budget requires an authenticated OAuth principal.'')
                else (case map_of budgets p of
                    None \<Rightarrow> None
                  | Some limit \<Rightarrow>
                      (case principal_label lib active (Some p) of
                         None \<Rightarrow> Some (CallerBudgetUnavailable
                           ''Caller budget attribution is unavailable; provider spend was denied.'')
                       | Some label \<Rightarrow>
                           (case ledger label of
                              Inl e \<Rightarrow> Some (CallerBudgetUnavailable
                                ''Caller budget ledger is unavailable; provider spend was denied.'')
                            | Inr (Fin spent) \<Rightarrow>
                                if spent < 0 then Some (CallerBudgetUnavailable
                                  ''Caller budget ledger is invalid; provider spend was denied.'')
                                else if limit \<le> spent then Some (CallerBudgetExceeded ''Daily caller budget exhausted'')
                                else None
                            | Inr _ \<Rightarrow> Some (CallerBudgetUnavailable
                                ''Caller budget ledger is invalid; provider spend was denied.''))))))"

subsection \<open>The spend-guard policy\<close>

text \<open>\<open>math.nextafter((2 ** 63 - 1) / 10_000_000_000, -inf)\<close>; floats below \<open>2 ^ 30\<close> are \<open>2 ^ -23\<close> apart there.\<close>

definition SPEND_GUARD_MAX_USD :: rat where
  "SPEND_GUARD_MAX_USD = (case float_of ((2 ^ 63 - 1) / 10000000000) of Fin q \<Rightarrow> q - 1 / 2 ^ 23 | _ \<Rightarrow> 0)"

record guard_policy =
  gp_runtime :: string
  gp_scope :: string
  gp_limit :: rat
  gp_baseline :: "string option"

definition load_local_daily_spend_guard_limit :: "environ \<Rightarrow> budget_error + rat option" where
  "load_local_daily_spend_guard_limit env =
    (let raw = str_strip (env_get env ''UNIGROK_LOCAL_DAILY_BUDGET_USD'' []) in
     if raw = [] then Inr None
     else case float_of_text raw of
         Some (Fin limit) \<Rightarrow>
           if limit < 0 \<or> SPEND_GUARD_MAX_USD < limit
           then Inl (CallerBudgetConfigurationError ''invalid_local_spend_guard_limit'') else Inr (Some limit)
       | _ \<Rightarrow> Inl (CallerBudgetConfigurationError ''invalid_local_spend_guard_limit''))"

definition hosted_spend_guard_scope :: "pylib \<Rightarrow> string \<Rightarrow> string" where
  "hosted_spend_guard_scope lib p = ''hosted:oauth-sha256:'' @ sha256 lib p"

definition LOCAL_SPEND_GUARD_SCOPE :: string where "LOCAL_SPEND_GUARD_SCOPE = ''local:aggregate''"

definition hosted_policy ::
  "hooked_loads \<Rightarrow> pylib \<Rightarrow> netlib \<Rightarrow> environ \<Rightarrow> string option \<Rightarrow> budget_error + guard_policy option" where
  "hosted_policy hooked lib net env active =
    (case load_caller_budgets hooked net env of
       Inl (CallerBudgetConfigurationError _) \<Rightarrow>
         Inl (CallerBudgetUnavailable ''Hosted caller-budget configuration is invalid; spend was denied.'')
     | Inl e \<Rightarrow> Inl e
     | Inr budgets \<Rightarrow>
         (case chosen active None of
            None \<Rightarrow> Inl (CallerBudgetUnavailable ''Hosted spend guard requires an exact authenticated OAuth principal.'')
          | Some p \<Rightarrow>
              if principal_kind active (Some p) \<noteq> ''oauth'' \<or> \<not> is_configured_canonical_principal net env p
              then Inl (CallerBudgetUnavailable ''Hosted spend guard requires an exact authenticated OAuth principal.'')
              else (case map_of budgets p of
                  None \<Rightarrow> Inr None
                | Some limit \<Rightarrow>
                    (case principal_label lib active (Some p) of
                       None \<Rightarrow> Inl (CallerBudgetUnavailable
                         ''Hosted caller-budget attribution is unavailable; spend was denied.'')
                     | Some label \<Rightarrow> Inr (Some \<lparr>gp_runtime = ''hosted'', gp_scope = hosted_spend_guard_scope lib p,
                         gp_limit = limit, gp_baseline = Some label\<rparr>)))))"

definition active_spend_guard_policy ::
  "hooked_loads \<Rightarrow> pylib \<Rightarrow> netlib \<Rightarrow> environ \<Rightarrow> string option \<Rightarrow> budget_error + guard_policy option" where
  "active_spend_guard_policy hooked lib net env active =
    (if is_cloudrun_runtime env
     then (if env ''UNIGROK_CALLER_BUDGETS'' = None then Inr None else hosted_policy hooked lib net env active)
     else case load_local_daily_spend_guard_limit env of
         Inl e \<Rightarrow> Inl (CallerBudgetUnavailable ''Local spend-guard configuration is invalid; spend was denied.'')
       | Inr None \<Rightarrow> Inr None
       | Inr (Some limit) \<Rightarrow> Inr (Some \<lparr>gp_runtime = ''local'', gp_scope = LOCAL_SPEND_GUARD_SCOPE,
           gp_limit = limit, gp_baseline = None\<rparr>))"

subsection \<open>Attempts\<close>

text \<open>
  \<open>amount_of\<close> is \<open>Decimal(str(x))\<close> of a float. A refusal names its reason; the reasons of the store that are neither
  a limit, a busy scope nor the ledger's capacity are unresolved costs.
\<close>

definition guard_denial :: "string option \<Rightarrow> budget_error" where
  "guard_denial reason =
    (if reason = Some ''limit_reached'' then CallerBudgetExceeded
       ''Daily spend guard declined the requested reservation because the daily balance is exhausted''
     else if reason = Some ''scope_busy'' then CallerBudgetExceeded
       ''Daily spend guard declined the requested reservation because another metered attempt is pending''
     else if reason = Some ''ledger_capacity'' then CallerBudgetUnavailable
       ''Spend-guard daily ledger capacity was reached; provider spend was denied.''
     else CallerBudgetUnavailable ''Spend guard contains unresolved cost; provider spend was denied.'')"

definition begin_with_policy ::
  "(rat list \<Rightarrow> usd_arg) \<Rightarrow> (rat \<Rightarrow> usd_arg) \<Rightarrow> instant \<Rightarrow> guard_policy \<Rightarrow> string \<Rightarrow> int \<Rightarrow> rat option \<Rightarrow> db \<Rightarrow>
   (budget_error + (admission \<times> string)) \<times> db" where
  "begin_with_policy sum_cost amount_of now policy attempt stale reserve d =
    (case reserve_spend_guard sum_cost now attempt (gp_scope policy) (amount_of (gp_limit policy))
            (map_option amount_of reserve) stale (reserve = None) (gp_baseline policy) d of
       (Inl e, d1) \<Rightarrow> (Inl (CallerBudgetUnavailable ''Spend-guard ledger is unavailable; provider spend was denied.''), d1)
     | (Inr a, d1) \<Rightarrow> (if p_admitted a then Inr (a, gp_runtime policy) else Inl (guard_denial (p_reason a)), d1))"

definition begin_spend_guard_attempt ::
  "hooked_loads \<Rightarrow> pylib \<Rightarrow> netlib \<Rightarrow> environ \<Rightarrow> string option \<Rightarrow> (rat list \<Rightarrow> usd_arg) \<Rightarrow> (rat \<Rightarrow> usd_arg) \<Rightarrow> instant \<Rightarrow>
   string \<Rightarrow> int \<Rightarrow> rat option \<Rightarrow> db \<Rightarrow> (budget_error + (admission \<times> string) option) \<times> db" where
  "begin_spend_guard_attempt hooked lib net env active sum_cost amount_of now attempt stale reserve d =
    (case active_spend_guard_policy hooked lib net env active of
       Inl e \<Rightarrow> (Inl e, d)
     | Inr None \<Rightarrow> (Inr None, d)
     | Inr (Some policy) \<Rightarrow>
         map_prod (map_sum id Some) id (begin_with_policy sum_cost amount_of now policy attempt stale reserve d))"

definition finish_spend_guard_attempt ::
  "hooked_loads \<Rightarrow> pylib \<Rightarrow> netlib \<Rightarrow> environ \<Rightarrow> string option \<Rightarrow> instant \<Rightarrow> string \<Rightarrow> string \<Rightarrow> usd_arg option \<Rightarrow> string \<Rightarrow>
   db \<Rightarrow> (budget_error + (admission \<times> string)) \<times> db" where
  "finish_spend_guard_attempt hooked lib net env active now attempt guard_scope actual reason d =
    (case active_spend_guard_policy hooked lib net env active of
       Inl e \<Rightarrow> (Inl e, d)
     | Inr None \<Rightarrow> (Inl (CallerBudgetUnavailable
         ''Spend-guard identity or configuration changed; reconciliation failed.''), d)
     | Inr (Some policy) \<Rightarrow>
         if gp_scope policy \<noteq> guard_scope then (Inl (CallerBudgetUnavailable
           ''Spend-guard identity or configuration changed; reconciliation failed.''), d)
         else case reconcile_spend_guard now attempt actual reason (Some guard_scope) d of
             (Inl e, d1) \<Rightarrow> (Inl (CallerBudgetUnavailable
               ''Spend-guard reconciliation failed; spend state is unresolved.''), d1)
           | (Inr a, d1) \<Rightarrow> (Inr (a, gp_runtime policy), d1))"

definition begin_local_spend_guard_attempt ::
  "environ \<Rightarrow> (rat list \<Rightarrow> usd_arg) \<Rightarrow> (rat \<Rightarrow> usd_arg) \<Rightarrow> instant \<Rightarrow> string \<Rightarrow> rat \<Rightarrow> int \<Rightarrow> db \<Rightarrow>
   (budget_error + admission option) \<times> db" where
  "begin_local_spend_guard_attempt env sum_cost amount_of now attempt reserve stale d =
    (if is_cloudrun_runtime env then (Inr None, d)
     else case load_local_daily_spend_guard_limit env of
         Inl e \<Rightarrow> (Inl e, d)
       | Inr None \<Rightarrow> (Inr None, d)
       | Inr (Some limit) \<Rightarrow>
           (case reserve_spend_guard sum_cost now attempt LOCAL_SPEND_GUARD_SCOPE (amount_of limit)
                   (Some (amount_of reserve)) stale False None d of
              (Inl e, d1) \<Rightarrow>
                (Inl (CallerBudgetUnavailable ''Local spend guard is unavailable; provider spend was denied.''), d1)
            | (Inr a, d1) \<Rightarrow>
                (if p_admitted a then Inr (Some a)
                 else if p_reason a = Some ''limit_reached'' then Inl (CallerBudgetExceeded
                   ''Local daily spend guard declined the requested reservation'')
                 else if p_reason a = Some ''ledger_capacity'' then Inl (CallerBudgetUnavailable
                   ''Local spend-guard daily ledger capacity was reached; provider spend was denied.'')
                 else Inl (CallerBudgetUnavailable
                   ''Local spend guard contains unresolved cost; provider spend was denied.''), d1)))"

definition finish_local_spend_guard_attempt ::
  "instant \<Rightarrow> string \<Rightarrow> usd_arg option \<Rightarrow> string \<Rightarrow> db \<Rightarrow> (budget_error + admission) \<times> db" where
  "finish_local_spend_guard_attempt now attempt actual reason d =
    map_prod (map_sum (\<lambda>_. CallerBudgetUnavailable
        ''Local spend guard reconciliation failed; spend state is unresolved.'') id) id
      (reconcile_spend_guard now attempt actual reason (Some LOCAL_SPEND_GUARD_SCOPE) d)"

subsection \<open>Recognising a denial\<close>

text \<open>An exception as the check sees it: whether it is a \<open>CallerBudgetError\<close>, its text, its cause and its context.\<close>

datatype exn = Exn (exn_budget: bool) (exn_text: string) (exn_cause: "exn option") (exn_context: "exn option")

definition BUDGET_DENIAL_MARKERS :: "string list" where
  "BUDGET_DENIAL_MARKERS =
    [''caller budget'', ''daily budget'', ''monthly budget'', ''hourly request budget'', ''spend guard'', ''spend-guard'',
     ''budget exhausted'', ''budget reached'', ''declined the requested reservation'']"

definition is_caller_budget_error :: "exn option \<Rightarrow> bool" where
  "is_caller_budget_error exc =
    (case exc of
       None \<Rightarrow> False
     | Some e \<Rightarrow>
         exn_budget e
         \<or> (case (case exn_cause e of None \<Rightarrow> exn_context e | c \<Rightarrow> c) of None \<Rightarrow> False | Some c \<Rightarrow> exn_budget c)
         \<or> list_ex (\<lambda>m. contains m (str_lower (exn_text e))) BUDGET_DENIAL_MARKERS)"

subsection \<open>Preflight\<close>

record pressure =
  bp_exhausted :: bool
  bp_reason :: "string option"
  bp_source :: "string option"

definition no_pressure :: pressure where
  "no_pressure = \<lparr>bp_exhausted = False, bp_reason = None, bp_source = None\<rparr>"

definition pressed :: "string \<Rightarrow> string \<Rightarrow> pressure" where
  "pressed reason source = \<lparr>bp_exhausted = True, bp_reason = Some reason, bp_source = Some source\<rparr>"

text \<open>The hosted half: \<open>None\<close> falls through to the local one.\<close>

definition hosted_pressure ::
  "hooked_loads \<Rightarrow> pylib \<Rightarrow> netlib \<Rightarrow> environ \<Rightarrow> string option \<Rightarrow> (string \<Rightarrow> py_error + pyfloat) \<Rightarrow> pressure option" where
  "hosted_pressure hooked lib net env active ledger =
    (if str_strip (env_get env ''UNIGROK_CALLER_BUDGETS'' []) = [] then None
     else case load_caller_budgets hooked net env of
         Inl e \<Rightarrow> Some (pressed ''caller_budget_ledger_unavailable'' ''hosted_principal_budget'')
       | Inr budgets \<Rightarrow>
           (case chosen active None of
              None \<Rightarrow> None
            | Some p \<Rightarrow>
                (case (map_of budgets p, principal_label lib active (Some p)) of
                   (Some limit, Some label) \<Rightarrow>
                     (case ledger label of
                        Inl e \<Rightarrow> Some (pressed ''caller_budget_ledger_unavailable'' ''hosted_principal_budget'')
                      | Inr spent \<Rightarrow>
                          if float_le (Fin limit) spent
                          then Some (pressed ''caller_daily_budget_exhausted'' ''hosted_principal_budget'') else None)
                 | _ \<Rightarrow> None)))"

definition inspect_caller_budget_pressure ::
  "hooked_loads \<Rightarrow> pylib \<Rightarrow> netlib \<Rightarrow> environ \<Rightarrow> string option \<Rightarrow> (string \<Rightarrow> py_error + pyfloat) option \<Rightarrow> pressure" where
  "inspect_caller_budget_pressure hooked lib net env active store =
    (case store of
       None \<Rightarrow> no_pressure
     | Some ledger \<Rightarrow>
         (case hosted_pressure hooked lib net env active ledger of
            Some p \<Rightarrow> p
          | None \<Rightarrow>
              if is_cloudrun_runtime env then no_pressure
              else case load_local_daily_budget (env_get env ''UNIGROK_LOCAL_DAILY_BUDGET_USD'' []) of
                  Inl e \<Rightarrow> pressed ''local_spend_guard_unavailable'' ''local_spend_guard''
                | Inr (Some limit) \<Rightarrow>
                    if limit \<le> 0 then pressed ''local_daily_budget_exhausted'' ''local_spend_guard'' else no_pressure
                | Inr None \<Rightarrow> no_pressure))"

end
