(* ===== verification/Caller_Guard_Facts.thy ===== *)
theory Caller_Guard_Facts
  imports Caller_Guard Spend_Guard_Facts Remote_Auth_Facts
begin










subsection \<open>Attempts stay in their scope\<close>

text \<open>What a reconciliation does to another scope's row: at most it expires.\<close>

definition expired_or_same :: "instant \<Rightarrow> reservation_row \<Rightarrow> reservation_row \<Rightarrow> bool" where
  "expired_or_same now r r' \<longleftrightarrow> r' = r \<or> expirable now r \<and> r' = mark_unknown ''stale_reservation'' now r"

lemma expire_row:
  assumes "reservation_at d rid = Some r"
  shows "\<exists>r'. reservation_at (snd (expire_spend_guard_reservations now d)) rid = Some r' \<and> expired_or_same now r r' \<and> r_scope r' = r_scope r"
  using assms
  by (auto simp: expire_spend_guard_reservations_def table_simps mark_unknown_def expired_or_same_def Let_def)

lemma reconcile_other_scope:
  assumes "reservation_at d rid = Some r" "sc \<noteq> r_scope r"
  shows "\<exists>r'. reservation_at (snd (reconcile_sync now a actual reason resolve (Some sc) d)) rid = Some r' \<and> expired_or_same now r r'"
proof -
  obtain r1 where r1: "reservation_at (snd (expire_spend_guard_reservations now d)) rid = Some r1"
    "expired_or_same now r r1" "r_scope r1 = r_scope r" using expire_row [OF assms(1)] by blast
  have keep: "reservation_at (d1\<lparr>reservations := sql_update (\<lambda>x. r_reservation_id x = a) (reconciled_row now actual reason resolve) (reservations d1)\<rparr>) rid
      = Some r1" if "d1 = snd (expire_spend_guard_reservations now d)" "a \<noteq> rid" for d1
    using r1(1) row_of_Some [OF r1(1)] that by (simp add: table_simps)
  show ?thesis
    using assms r1 keep [OF refl]
    by (cases "a = rid") (auto simp: reconcile_sync_def Let_def expired_or_same_def split: option.split)
qed

text \<open>An attempt settles only its caller's ledger: whatever attempt id and scope a caller hands in when an attempt ends, a
  reservation of a scope other than that one is left as it is, or expires as it would have anyway; and with a scope that
  is not the caller's own nothing is written at all.\<close>
theorem finish_own_scope_only:
  assumes "reservation_at d rid = Some r" "r_scope r \<noteq> str_strip guard_scope"
  shows "\<exists>r'. reservation_at (snd (finish_spend_guard_attempt hooked lib net env active now attempt guard_scope actual reason d)) rid = Some r'
      \<and> expired_or_same now r r'
      \<and> ((\<forall>policy. active_spend_guard_policy hooked lib net env active = Inr (Some policy) \<longrightarrow> gp_scope policy \<noteq> guard_scope) \<longrightarrow>
          snd (finish_spend_guard_attempt hooked lib net env active now attempt guard_scope actual reason d) = d)"
proof -
  have same: "expired_or_same now r r" by (simp add: expired_or_same_def)
  have "snd (reconcile_spend_guard now attempt actual reason (Some guard_scope) d) = d
    \<or> (\<exists>a act why. snd (reconcile_spend_guard now attempt actual reason (Some guard_scope) d)
          = snd (reconcile_sync now a act why False (Some (str_strip guard_scope)) d))"
    by (auto simp: reconcile_spend_guard_def validated_spend_guard_identity_def Let_def split: sum.splits option.splits if_splits)
  then have "\<exists>r'. reservation_at (snd (reconcile_spend_guard now attempt actual reason (Some guard_scope) d)) rid = Some r' \<and> expired_or_same now r r'"
    using assms same reconcile_other_scope [OF assms(1), of "str_strip guard_scope"] by metis
  with assms(1) same show ?thesis
    by (auto simp: finish_spend_guard_attempt_def split: sum.split option.split prod.split)
qed

subsection \<open>A caller with a budget\<close>

definition sample_caller :: string where
  "sample_caller = ''oauth:https%3A%2F%2Fi:u''"

definition sample_budget_env :: environ where
  "sample_budget_env k =
    (if k = ''UNIGROK_CALLER_BUDGETS'' then Some ''b'' else if k = ''UNIGROK_OAUTH_AUTHORIZATION_SERVERS'' then Some ''https://i'' else None)"

definition sample_hooked :: hooked_loads where
  "sample_hooked hook raw = (case hook [(sample_caller, JInt 5)] of Inl e \<Rightarrow> Inl (Some e) | Inr pairs \<Rightarrow> Inr (JObj pairs))"








definition sample_reservation :: reservation_row where
  "sample_reservation = new_reservation 0 ''r'' ''other'' 10 5 Fixed 60"

theorem finish_own_scope_only_witness:
  "\<exists>r'. reservation_at (snd (finish_spend_guard_attempt sample_hooked sample_hex_lib sample_net sample_budget_env (Some sample_caller) 7
        ''r'' ''mine'' (Some (USD (Dec 1 0))) ''lost'' (empty_db\<lparr>reservations := [sample_reservation]\<rparr>))) ''r'' = Some r'
      \<and> expired_or_same 7 sample_reservation r'
      \<and> ((\<forall>policy. active_spend_guard_policy sample_hooked sample_hex_lib sample_net sample_budget_env (Some sample_caller) = Inr (Some policy)
            \<longrightarrow> gp_scope policy \<noteq> ''mine'') \<longrightarrow>
          snd (finish_spend_guard_attempt sample_hooked sample_hex_lib sample_net sample_budget_env (Some sample_caller) 7 ''r'' ''mine''
            (Some (USD (Dec 1 0))) ''lost'' (empty_db\<lparr>reservations := [sample_reservation]\<rparr>)) = empty_db\<lparr>reservations := [sample_reservation]\<rparr>)"
proof (rule finish_own_scope_only)
  show "reservation_at (empty_db\<lparr>reservations := [sample_reservation]\<rparr>) ''r'' = Some sample_reservation"
    by (simp add: sample_reservation_def new_reservation_def)
  show "r_scope sample_reservation \<noteq> str_strip ''mine''" by code_simp
qed

end
