(* ===== verification/Provider_Call.thy ===== *)
theory Provider_Call
  imports Caller_Guard Circuit_Breaker
begin

text \<open>
  \<open>_guarded_provider_call\<close> of \<open>server.py\<close>: a provider operation between the caller's budget, the local daily
  budget and the circuit breaker. A call is a small program whose stages lie between its \<open>await\<close>s; calls run
  interleaved over the breakers and the ledger they share (\<open>system\<close>, \<open>sys_step\<close>). At any \<open>await\<close> the
  coroutine may be cancelled, before its ledger transaction ran or while the thread completes it.
\<close>

subsection \<open>One call\<close>

record call_env =
  ce_hooked :: hooked_loads
  ce_lib :: pylib
  ce_net :: netlib
  ce_environ :: environ
  ce_sum :: "rat list \<Rightarrow> pyfloat"
  ce_digest :: "string \<Rightarrow> string"
  ce_cache_key :: string
  ce_config :: breaker_config

text \<open>What the provider operation did; \<open>Raised\<close> carries the exception's \<open>incurred_attempts\<close>.\<close>

datatype operation_outcome = Gave doc | Raised json | CancelledError

datatype call_result =
    Returned doc
  | BudgetDenied budget_error
  | BreakerOpen py_error
  | Failed
  | Cancelled

datatype stage =
    Checking string "string option" "string option"
  | Reserving string "string option"
  | Entering string "string option" "local_reservation option"
  | Releasing "local_reservation option" py_error
  | Calling breaker_admission "local_reservation option"
  | Settling "local_reservation option" doc
  | SettlingError "local_reservation option" json
  | Ended call_result

text \<open>What one step may use: the two clocks, the fresh token, the outcome of the operation and whether the coroutine is cancelled.\<close>

datatype cut = Runs | CutBefore | CutAfter

record tick =
  tk_now :: instant
  tk_mono :: instant
  tk_token :: string
  tk_outcome :: operation_outcome
  tk_cut :: cut

type_synonym shared = "circuits \<times> budget_db"

definition call_key :: "call_env \<Rightarrow> string \<Rightarrow> string option \<Rightarrow> string" where
  "call_key ce plane model = breaker_key (ce_digest ce) (ce_cache_key ce) plane model"

definition enter_breaker ::
  "call_env \<Rightarrow> tick \<Rightarrow> string \<Rightarrow> string option \<Rightarrow> local_reservation option \<Rightarrow> shared \<Rightarrow> stage \<times> shared" where
  "enter_breaker ce t plane model rv sh =
    (case breaker_before_call (tk_mono t) (call_key ce plane model) plane (fst sh) of
       (Inl e, cs) \<Rightarrow> (Releasing rv e, cs, snd sh)
     | (Inr adm, cs) \<Rightarrow> (Calling adm rv, cs, snd sh))"

text \<open>The step of a coroutine that is not cancelled. Only \<open>Calling\<close> and \<open>Entering\<close> touch the breakers.\<close>

fun run_stage :: "call_env \<Rightarrow> tick \<Rightarrow> stage \<Rightarrow> shared \<Rightarrow> stage \<times> shared" where
  "run_stage ce t (Checking plane model active) sh =
     (if plane \<noteq> ''api'' then enter_breaker ce t plane model None sh
      else case enforce_caller_budget (ce_hooked ce) (ce_lib ce) (ce_net ce) (ce_environ ce) active
              (get_caller_cost_today (ce_sum ce) (tk_now t) (bd_telemetry (snd sh))) of
          Some e \<Rightarrow> (Ended (BudgetDenied e), sh)
        | None \<Rightarrow> (Reserving plane model, sh))"
| "run_stage ce t (Reserving plane model) sh =
     (case reserve_local_budget (ce_sum ce) (is_cloudrun_runtime (ce_environ ce))
              (env_get (ce_environ ce) ''UNIGROK_LOCAL_DAILY_BUDGET_USD'' []) (tk_now t) (tk_token t) (snd sh) of
        (Inl e, b) \<Rightarrow> (Ended (BudgetDenied e), fst sh, b)
      | (Inr rv, b) \<Rightarrow> (Entering plane model rv, fst sh, b))"
| "run_stage ce t (Entering plane model rv) sh = enter_breaker ce t plane model rv sh"
| "run_stage ce t (Releasing rv e) sh =
     (Ended (BreakerOpen e), fst sh, snd (release_local_budget rv (tk_now t) (snd sh)))"
| "run_stage ce t (Calling adm rv) sh =
     (case tk_outcome t of
        Gave result \<Rightarrow> (Settling rv result, breaker_success adm (fst sh), snd sh)
      | Raised attempts \<Rightarrow> (SettlingError rv attempts, breaker_failure (ce_config ce) (tk_mono t) adm (fst sh), snd sh)
      | CancelledError \<Rightarrow> (Ended Cancelled, breaker_abandon_probe (ce_config ce) (tk_mono t) adm (fst sh), snd sh))"
| "run_stage ce t (Settling rv result) sh =
     (case settle_local_budget rv (tk_now t) result (snd sh) of
        (None, b) \<Rightarrow> (Ended (Returned result), fst sh, b)
      | (Some e, b) \<Rightarrow> (Ended (BudgetDenied e), fst sh, b))"
| "run_stage ce t (SettlingError rv attempts) sh =
     (case settle_local_budget_error rv (tk_now t) attempts (snd sh) of
        (None, b) \<Rightarrow> (Ended Failed, fst sh, b)
      | (Some e, b) \<Rightarrow> (Ended (BudgetDenied e), fst sh, b))"
| "run_stage ce t (Ended r) sh = (Ended r, sh)"

text \<open>\<open>Calling\<close> is cancelled through its outcome; entering the breaker is no \<open>await\<close>.\<close>

definition call_step :: "call_env \<Rightarrow> tick \<Rightarrow> stage \<Rightarrow> shared \<Rightarrow> stage \<times> shared" where
  "call_step ce t st sh =
    (case st of
       Calling adm rv \<Rightarrow> run_stage ce t st sh
     | Entering plane model rv \<Rightarrow> run_stage ce t st sh
     | Ended r \<Rightarrow> (st, sh)
     | _ \<Rightarrow> (case tk_cut t of
         Runs \<Rightarrow> run_stage ce t st sh
       | CutBefore \<Rightarrow> (Ended Cancelled, sh)
       | CutAfter \<Rightarrow> (Ended Cancelled, snd (run_stage ce t st sh))))"

subsection \<open>Many calls\<close>

text \<open>
  The server's calls over the shared state. \<open>sy_granted\<close> is bookkeeping of the model alone: when each token
  drawn so far was offered to the ledger. Wall clocks do not go back.
\<close>

record system =
  sy_now :: instant
  sy_shared :: shared
  sy_calls :: "stage list"
  sy_granted :: "(string \<times> instant) list"

definition step_call :: "call_env \<Rightarrow> nat \<Rightarrow> tick \<Rightarrow> system \<Rightarrow> system" where
  "step_call ce i t s =
    (let (st, sh) = call_step ce t (sy_calls s ! i) (sy_shared s) in
     s\<lparr>sy_now := tk_now t, sy_shared := sh, sy_calls := (sy_calls s)[i := st],
       sy_granted := (tk_token t, tk_now t) # sy_granted s\<rparr>)"

inductive sys_step :: "call_env \<Rightarrow> system \<Rightarrow> system \<Rightarrow> bool" for ce where
  arrive: "sys_step ce s (s\<lparr>sy_calls := sy_calls s @ [Checking plane model active]\<rparr>)"
| advance: "i < length (sy_calls s) \<Longrightarrow> sy_now s \<le> tk_now t \<Longrightarrow> tk_token t \<noteq> [] \<Longrightarrow>
    tk_token t \<notin> fst ` set (sy_granted s) \<Longrightarrow> sys_step ce s (step_call ce i t s)"

inductive_cases sys_stepE: "sys_step ce s s'"

inductive sys_reach :: "call_env \<Rightarrow> system \<Rightarrow> system \<Rightarrow> bool" for ce where
  start: "sys_reach ce s s"
| more: "sys_reach ce s s' \<Longrightarrow> sys_step ce s' s'' \<Longrightarrow> sys_reach ce s s''"

text \<open>The reservation a call holds.\<close>

fun held :: "stage \<Rightarrow> local_reservation option" where
  "held (Entering _ _ rv) = rv"
| "held (Releasing rv _) = rv"
| "held (Calling _ rv) = rv"
| "held (Settling rv _) = rv"
| "held (SettlingError rv _) = rv"
| "held _ = None"

subsection \<open>The ledger under other calls\<close>

text \<open>A row that carries the lease granted at \<open>g\<close> to \<open>token\<close>.\<close>

definition leased :: "string \<Rightarrow> instant \<Rightarrow> local_row \<Rightarrow> bool" where
  "leased token g r \<longleftrightarrow> lb_lease_token r = Some token \<and> lb_lease_expires_at r = Some (g + seconds LOCAL_BUDGET_LEASE_SECONDS)
     \<and> (\<exists>q. lb_spent r = Fin q \<and> 0 \<le> q \<and> is_float q)"

lemma leased_cost: "leased token g r \<Longrightarrow> \<exists>q. valid_cost (JFloat (lb_spent r)) = Inr (Some q)"
  by (auto simp: leased_def)

lemma keyed_reserve:
  assumes "keyed lb_day (bd_rows d)"
  shows "keyed lb_day (bd_rows (snd (reserve_local_budget_sync sum_real rv now e p d)))"
proof -
  have k: "keyed lb_day (sql_delete (\<lambda>r. lb_day r < p) (bd_rows d))" using assms by (rule keyed_delete)
  have new: "keyed lb_day (sql_delete (\<lambda>r. lb_day r < p) (bd_rows d) @ [r])"
    if "row_of lb_day (sql_delete (\<lambda>r. lb_day r < p) (bd_rows d)) (lb_day r) = None" for r
    using k that by (auto simp: keyed_def row_of_None)
  show ?thesis
    using assms k
    by (auto simp: reserve_local_budget_sync_def grant_lease_def Let_def intro!: keyed_set_row new
        split: option.split sum.split)
qed

lemma keyed_settle_with: "keyed lb_day (bd_rows d) \<Longrightarrow> keyed lb_day (bd_rows (snd (settle_with rv now how e d)))"
  by (auto simp: settle_with_def update_local_budget_sync_def Let_def intro!: keyed_set_row
      split: option.split sum.split prod.split)

text \<open>A settlement under another token leaves the leased row alone.\<close>

lemma settle_with_frame:
  assumes "row_of lb_day (bd_rows d) day = Some r" "leased token g r" "lr_token rv \<noteq> token" "lr_token rv \<noteq> []"
  shows "row_of lb_day (bd_rows (snd (settle_with rv now how e d))) day = Some r"
  using assms row_of_Some [OF assms(1)]
  by (auto simp: settle_with_def update_local_budget_sync_def Let_def row_of_set_row leased_def
      split: option.split sum.split prod.split)

text \<open>A reservation on the leased day is refused; on any day it leaves the row leased or exhausts it.\<close>

lemma reserve_sync_leased:
  assumes "row_of lb_day (bd_rows d) (lr_day rv) = Some r" "leased token g r" "token \<noteq> []"
    and "p \<le> lr_day rv" "keyed lb_day (bd_rows d)" "is_float (lr_limit rv)" "0 \<le> lr_limit rv"
  shows "isl (fst (reserve_local_budget_sync sum_real rv now e p d))"
    and "row_of lb_day (bd_rows (snd (reserve_local_budget_sync sum_real rv now e p d))) (lr_day rv) = Some r
      \<or> exhausted (lr_day rv) (lr_limit rv) (snd (reserve_local_budget_sync sum_real rv now e p d))"
proof -
  let ?rows = "sql_delete (\<lambda>r. lb_day r < p) (bd_rows d)"
  have kept: "row_of lb_day ?rows (lr_day rv) = Some r"
    using assms row_of_Some [OF assms(1)] by (simp add: table_simps)
  obtain q where q: "lb_spent r = Fin q" "0 \<le> q" "is_float q" using assms(2) by (auto simp: leased_def)
  show "isl (fst (reserve_local_budget_sync sum_real rv now e p d))"
    using assms kept q by (simp add: reserve_local_budget_sync_def grant_lease_def Let_def leased_def)
  have "exhausted (lr_day rv) (lr_limit rv) (set_row (lr_day rv) (closed_at now (Fin (max q (lr_limit rv)))) ?rows d)"
    using kept q assms(5-7) row_of_Some [OF kept]
    by (simp add: exhausted_def row_of_set_row keyed_set_row keyed_delete reached_max)
  then show "row_of lb_day (bd_rows (snd (reserve_local_budget_sync sum_real rv now e p d))) (lr_day rv) = Some r
      \<or> exhausted (lr_day rv) (lr_limit rv) (snd (reserve_local_budget_sync sum_real rv now e p d))"
    using assms kept q by (auto simp: reserve_local_budget_sync_def grant_lease_def Let_def leased_def)
qed

lemma reserve_sync_elsewhere:
  assumes "row_of lb_day (bd_rows d) day = Some r" "p \<le> day" "lr_day rv \<noteq> day" "keyed lb_day (bd_rows d)"
  shows "row_of lb_day (bd_rows (snd (reserve_local_budget_sync sum_real rv now e p d))) day = Some r"
proof -
  let ?rows = "sql_delete (\<lambda>r. lb_day r < p) (bd_rows d)"
  have day: "lb_day r = day" using row_of_Some [OF assms(1)] by simp
  have kept: "row_of lb_day ?rows day = Some r" using assms day by (simp add: table_simps)
  then have app: "row_of lb_day (?rows @ [x]) day = Some r" for x by (simp add: row_of_append)
  show ?thesis
    using assms kept day app
    by (auto simp: reserve_local_budget_sync_def grant_lease_def Let_def row_of_set_row split: option.split sum.split)
qed

text \<open>The amounts of the ledger are floats, as the column is.\<close>

definition float_rows :: "local_row list \<Rightarrow> bool" where
  "float_rows rows \<longleftrightarrow> (\<forall>r \<in> set rows. \<forall>q. lb_spent r = Fin q \<longrightarrow> is_float q)"

definition float_sums :: "(rat list \<Rightarrow> pyfloat) \<Rightarrow> bool" where
  "float_sums sum_real \<longleftrightarrow> (\<forall>xs q. sum_real xs = Fin q \<longrightarrow> is_float q)"

lemma float_rows_set:
  assumes "float_rows rows" "\<And>r q. r \<in> set rows \<Longrightarrow> lb_spent (f r) = Fin q \<Longrightarrow> lb_spent r = Fin q \<or> is_float q"
  shows "float_rows (bd_rows (set_row k f rows d))"
  using assms by (auto simp: float_rows_def set_row_def set_sql_update split: if_splits)

lemma float_rows_delete: "float_rows rows \<Longrightarrow> float_rows (sql_delete P rows)"
  by (auto simp: float_rows_def set_sql_delete)

lemma float_rows_settle:
  assumes "float_rows (bd_rows d)" "is_float (lr_limit rv)"
  shows "float_rows (bd_rows (snd (settle_with rv now how e d)))"
proof -
  have "is_float q" if "row_of lb_day (bd_rows d) day = Some r" "valid_cost (JFloat (lb_spent r)) = Inr (Some q)" for day r q
    using assms(1) row_of_Some [OF that(1)] that(2) by (cases "lb_spent r") (auto simp: float_rows_def split: if_splits)
  moreover have "is_float y" if "float_add (Fin q) (Fin c) = Fin y" for q c y
    using that by (auto dest: float_of_is_float)
  ultimately show ?thesis
    using assms
    by (auto simp: settle_with_def update_local_budget_sync_def Let_def max_def intro!: float_rows_set
        split: option.split sum.split prod.split settlement.splits if_splits)
qed

lemma float_rows_reserve:
  assumes "float_rows (bd_rows d)" "is_float (lr_limit rv)" "float_sums sum_real"
  shows "float_rows (bd_rows (snd (reserve_local_budget_sync sum_real rv now e p d)))"
proof -
  let ?rows = "sql_delete (\<lambda>r. lb_day r < p) (bd_rows d)"
  have rows: "float_rows ?rows" using assms(1) by (rule float_rows_delete)
  have old: "is_float q" if "row_of lb_day ?rows day = Some r" "valid_cost (JFloat (lb_spent r)) = Inr (Some q)" for day r q
    using rows row_of_Some [OF that(1)] that(2) by (cases "lb_spent r") (auto simp: float_rows_def split: if_splits)
  have new: "is_float q" if "valid_cost (JFloat (sum_real xs)) = Inr (Some q)" for xs q
    using assms(3) that by (cases "sum_real xs") (auto simp: float_sums_def split: if_splits)
  have app: "float_rows (?rows @ [x])" if "\<And>q. lb_spent x = Fin q \<Longrightarrow> is_float q" for x
    using rows that by (auto simp: float_rows_def)
  show ?thesis
    using assms(1,2) rows old new
    by (auto simp: reserve_local_budget_sync_def grant_lease_def Let_def max_def intro!: float_rows_set app
        split: option.split sum.split if_splits)
qed

lemma reserve_sync_grants:
  assumes "fst (reserve_local_budget_sync sum_real rv now (now + seconds LOCAL_BUDGET_LEASE_SECONDS) p d) = Inr rv'"
    and "p \<le> lr_day rv" "float_rows (bd_rows d)" "float_sums sum_real"
  shows "rv' = rv" "\<exists>r. row_of lb_day (bd_rows (snd (reserve_local_budget_sync sum_real rv now
      (now + seconds LOCAL_BUDGET_LEASE_SECONDS) p d))) (lr_day rv) = Some r \<and> leased (lr_token rv) now r"
proof -
  show "rv' = rv"
    using assms(1) by (auto simp: reserve_local_budget_sync_def grant_lease_def Let_def split: option.splits sum.splits if_splits)
  have valid: "\<exists>q'. s = Fin q' \<and> 0 \<le> q'" if "valid_cost (JFloat s) = Inr (Some q)" for s q
    using that by (cases s) (auto split: if_splits)
  have new: "0 \<le> q \<and> is_float q" if "valid_cost (JFloat (sum_real xs)) = Inr (Some q)" for xs q
    using assms(4) that by (cases "sum_real xs") (auto simp: float_sums_def split: if_splits)
  show "\<exists>r. row_of lb_day (bd_rows (snd (reserve_local_budget_sync sum_real rv now
      (now + seconds LOCAL_BUDGET_LEASE_SECONDS) p d))) (lr_day rv) = Some r \<and> leased (lr_token rv) now r"
  proof (cases "row_of lb_day (sql_delete (\<lambda>r. lb_day r < p) (bd_rows d)) (lr_day rv)")
    case None
    with assms(1) show ?thesis
      by (auto simp: reserve_local_budget_sync_def grant_lease_def Let_def row_of_set_row row_of_append leased_def
          dest: new split: option.splits sum.splits if_splits)
  next
    case (Some row)
    have row: "lb_day row = lr_day rv" using row_of_Some [OF Some] by simp
    have "is_float q" if "lb_spent row = Fin q" for q
      using assms(3) row_of_Some [OF Some] that by (auto simp: float_rows_def set_sql_delete)
    with Some row assms(1) show ?thesis
      by (auto simp: reserve_local_budget_sync_def grant_lease_def Let_def row_of_set_row leased_def
          dest: valid split: option.splits sum.splits if_splits)
  qed
qed

subsection \<open>Every step on the ledger\<close>

definition lease_request :: "tick \<Rightarrow> rat \<Rightarrow> local_reservation" where
  "lease_request t limit = \<lparr>lr_day = utc_day_of (tk_now t), lr_token = tk_token t, lr_limit = limit\<rparr>"

definition requested :: "call_env \<Rightarrow> tick \<Rightarrow> rat \<Rightarrow> budget_db \<Rightarrow> (budget_error + local_reservation) \<times> budget_db" where
  "requested ce t limit d = reserve_local_budget_sync (ce_sum ce) (lease_request t limit) (tk_now t)
     (tk_now t + seconds LOCAL_BUDGET_LEASE_SECONDS) (utc_day_of (tk_now t) - LOCAL_BUDGET_RETENTION_DAYS) d"

datatype effect = Untouched | Requests rat | Settles local_reservation settlement "budget_error option"

fun effect_on :: "call_env \<Rightarrow> tick \<Rightarrow> effect \<Rightarrow> budget_db \<Rightarrow> budget_db" where
  "effect_on ce t Untouched d = d"
| "effect_on ce t (Requests limit) d = snd (requested ce t limit d)"
| "effect_on ce t (Settles rv how e) d = snd (settle_with rv (tk_now t) how e d)"

fun charges :: "settlement \<Rightarrow> bool" where
  "charges (Cost c) = (0 \<le> c)"
| "charges _ = True"

text \<open>The configured limit of the local budget.\<close>

definition day_limit :: "call_env \<Rightarrow> rat option" where
  "day_limit ce = (case load_local_daily_budget (env_get (ce_environ ce) ''UNIGROK_LOCAL_DAILY_BUDGET_USD'' []) of
     Inr l \<Rightarrow> l | Inl _ \<Rightarrow> None)"

text \<open>What a step may do to the ledger, and which reservation the call holds after it.\<close>

definition explains :: "call_env \<Rightarrow> tick \<Rightarrow> stage \<Rightarrow> budget_db \<Rightarrow> effect \<Rightarrow> stage \<Rightarrow> bool" where
  "explains ce t st d f st' \<longleftrightarrow>
     (case f of
        Untouched \<Rightarrow> held st' = None \<or> held st' = held st
      | Requests limit \<Rightarrow> day_limit ce = Some limit
          \<and> (held st' = None \<or> (\<exists>rv. held st' = Some rv \<and> fst (requested ce t limit d) = Inr rv))
      | Settles rv how e \<Rightarrow> held st = Some rv \<and> held st' = None \<and> charges how)"

lemma reserve_explained:
  "\<exists>f. snd (reserve_local_budget (ce_sum ce) cr (env_get (ce_environ ce) ''UNIGROK_LOCAL_DAILY_BUDGET_USD'' [])
      (tk_now t) (tk_token t) d) = effect_on ce t f d
    \<and> (f = Untouched \<and> (\<forall>rv. fst (reserve_local_budget (ce_sum ce) cr
          (env_get (ce_environ ce) ''UNIGROK_LOCAL_DAILY_BUDGET_USD'' []) (tk_now t) (tk_token t) d) \<noteq> Inr (Some rv))
      \<or> (\<exists>limit. f = Requests limit \<and> day_limit ce = Some limit \<and> fst (reserve_local_budget (ce_sum ce) cr
          (env_get (ce_environ ce) ''UNIGROK_LOCAL_DAILY_BUDGET_USD'' []) (tk_now t) (tk_token t) d)
          = map_sum id Some (fst (requested ce t limit d))))"
proof (cases "cr \<or> day_limit ce = None")
  case True
  then show ?thesis
    by (intro exI [of _ Untouched]) (auto simp: reserve_local_budget_def day_limit_def split: sum.splits option.splits)
next
  case False
  then obtain limit where "\<not> cr" "day_limit ce = Some limit" by blast
  then show ?thesis
    by (intro exI [of _ "Requests limit"])
      (auto simp: reserve_local_budget_def requested_def lease_request_def day_limit_def split: sum.splits)
qed

definition settled_by :: "call_env \<Rightarrow> tick \<Rightarrow> local_reservation option \<Rightarrow> budget_db \<Rightarrow> budget_db \<Rightarrow> bool" where
  "settled_by ce t rv d d' \<longleftrightarrow> (\<exists>f. d' = effect_on ce t f d
     \<and> (f = Untouched \<or> (\<exists>r how e. rv = Some r \<and> f = Settles r how e \<and> charges how)))"

lemma settled_by_same [simp]: "settled_by ce t rv d d"
  by (auto simp: settled_by_def intro: exI [of _ Untouched])

lemma settled_by_settle: "charges how \<Longrightarrow> settled_by ce t (Some r) d (snd (settle_with r (tk_now t) how e d))"
  unfolding settled_by_def by (rule exI [of _ "Settles r how e"]) simp

lemma settle_explained: "settled_by ce t rv d (snd (settle_local_budget rv (tk_now t) result d))"
  by (auto simp: settle_local_budget_def dest: valid_cost_nonneg intro!: settled_by_settle split: option.split sum.split)

lemma settle_error_explained: "settled_by ce t rv d (snd (settle_local_budget_error rv (tk_now t) attempts d))"
  by (auto simp: settle_local_budget_error_def dest: attempts_cost_nonneg intro!: settled_by_settle
      split: option.split sum.split json.split list.split)

lemma release_explained: "settled_by ce t rv d (snd (release_local_budget rv (tk_now t) d))"
  by (auto simp: release_local_budget_def intro!: settled_by_settle split: option.split)

lemma enter_held: "held (fst (enter_breaker ce t plane model rv sh)) = rv"
  "snd (snd (enter_breaker ce t plane model rv sh)) = snd sh"
  by (auto simp: enter_breaker_def split: prod.split sum.split)

lemma settles_explains:
  assumes "settled_by ce t (held st) (snd sh) (snd (snd p))" "held (fst p) = None"
  shows "\<exists>f. snd (snd p) = effect_on ce t f (snd sh) \<and> explains ce t st (snd sh) f (fst p)"
proof -
  obtain f where "snd (snd p) = effect_on ce t f (snd sh)"
    "f = Untouched \<or> (\<exists>r how e. held st = Some r \<and> f = Settles r how e \<and> charges how)"
    using assms(1) by (auto simp: settled_by_def)
  then show ?thesis using assms(2) by (intro exI [of _ f]) (auto simp: explains_def)
qed

lemma run_explained:
  "\<exists>f. snd (snd (run_stage ce t st sh)) = effect_on ce t f (snd sh) \<and> explains ce t st (snd sh) f (fst (run_stage ce t st sh))"
proof (cases st)
  case (Checking plane model active)
  then show ?thesis
    by (intro exI [of _ Untouched]) (auto simp: explains_def enter_held split: option.split)
next
  case (Reserving plane model)
  define r where "r = reserve_local_budget (ce_sum ce) (is_cloudrun_runtime (ce_environ ce))
    (env_get (ce_environ ce) ''UNIGROK_LOCAL_DAILY_BUDGET_USD'' []) (tk_now t) (tk_token t) (snd sh)"
  obtain f where f: "snd r = effect_on ce t f (snd sh)"
    "f = Untouched \<and> (\<forall>rv. fst r \<noteq> Inr (Some rv))
      \<or> (\<exists>limit. f = Requests limit \<and> day_limit ce = Some limit \<and> fst r = map_sum id Some (fst (requested ce t limit (snd sh))))"
    using reserve_explained [of ce "is_cloudrun_runtime (ce_environ ce)" t "snd sh", folded r_def] by (elim exE conjE)
  have run: "run_stage ce t st sh = (case fst r of Inl e \<Rightarrow> Ended (BudgetDenied e) | Inr rv \<Rightarrow> Entering plane model rv, fst sh, snd r)"
    using Reserving by (cases "fst r"; cases r) (simp_all add: r_def)
  have held: "held (fst (run_stage ce t st sh)) = (case fst r of Inl e \<Rightarrow> None | Inr rv \<Rightarrow> rv)"
    by (simp add: run split: sum.split)
  have "explains ce t st (snd sh) f (fst (run_stage ce t st sh))"
    using f(2)
  proof (elim disjE exE conjE)
    assume "f = Untouched" "\<forall>rv. fst r \<noteq> Inr (Some rv)"
    then show ?thesis using held by (cases "fst r"; cases "projr (fst r)") (auto simp: explains_def)
  next
    fix limit assume "f = Requests limit" "day_limit ce = Some limit" "fst r = map_sum id Some (fst (requested ce t limit (snd sh)))"
    then show ?thesis using held by (cases "fst (requested ce t limit (snd sh))") (simp_all add: explains_def)
  qed
  with f(1) show ?thesis using run by (intro exI [of _ f]) simp
next
  case (Entering plane model rv)
  then show ?thesis by (intro exI [of _ Untouched]) (simp add: explains_def enter_held)
next
  case (Releasing rv e)
  with release_explained [of ce t rv "snd sh"] show ?thesis by (intro settles_explains) simp_all
next
  case (Calling adm rv)
  then show ?thesis by (intro exI [of _ Untouched]) (auto simp: explains_def split: operation_outcome.split)
next
  case (Settling rv result)
  with settle_explained [of ce t rv "snd sh" result] show ?thesis
    by (intro settles_explains; cases "settle_local_budget rv (tk_now t) result (snd sh)") (simp_all split: option.split)
next
  case (SettlingError rv attempts)
  with settle_error_explained [of ce t rv "snd sh" attempts] show ?thesis
    by (intro settles_explains; cases "settle_local_budget_error rv (tk_now t) attempts (snd sh)") (simp_all split: option.split)
next
  case (Ended r)
  then show ?thesis by (intro exI [of _ Untouched]) (simp add: explains_def)
qed

lemma explains_ended: "explains ce t st d f st' \<Longrightarrow> explains ce t st d f (Ended r)"
  by (auto simp: explains_def split: effect.splits)

lemma step_explained:
  "\<exists>f. snd (snd (call_step ce t st sh)) = effect_on ce t f (snd sh) \<and> explains ce t st (snd sh) f (fst (call_step ce t st sh))"
proof -
  obtain f where f: "snd (snd (run_stage ce t st sh)) = effect_on ce t f (snd sh)"
    "explains ce t st (snd sh) f (fst (run_stage ce t st sh))" using run_explained by blast
  have still: "explains ce t st (snd sh) Untouched (Ended r)" for r by (simp add: explains_def)
  have stay: "explains ce t st (snd sh) Untouched st" by (simp add: explains_def)
  have "call_step ce t st sh \<in> {run_stage ce t st sh, (Ended Cancelled, sh), (Ended Cancelled, snd (run_stage ce t st sh)), (st, sh)}"
    by (auto simp: call_step_def split: stage.split cut.split)
  with f explains_ended [OF f(2)] still stay show ?thesis
    by (elim insertE emptyE) (auto intro: exI [of _ f] exI [of _ Untouched])
qed

end
