(* ===== verification/Provider_Call_Facts.thy ===== *)
theory Provider_Call_Facts
  imports Provider_Call
begin

text \<open>
  What holds of the metered calls of a server, in every interleaving: one operation at a time under a day's
  budget, and a day closed for good by an operation that leaves no receipt.
\<close>

subsection \<open>One metered call at a time\<close>

text \<open>
  Until the ledger prunes its day, the row of a reservation that a call holds carries the call's lease, or
  another call found the lease expired and spent the day.
\<close>

definition granted_at :: "system \<Rightarrow> local_reservation \<Rightarrow> instant option" where
  "granted_at s rv = map_of (sy_granted s) (lr_token rv)"

definition locked :: "string \<Rightarrow> instant \<Rightarrow> int \<Rightarrow> rat \<Rightarrow> budget_db \<Rightarrow> bool" where
  "locked token g day limit d \<longleftrightarrow>
     (\<exists>r. row_of lb_day (bd_rows d) day = Some r \<and> leased token g r) \<or> exhausted day limit d"

definition holds :: "call_env \<Rightarrow> system \<Rightarrow> local_reservation \<Rightarrow> bool" where
  "holds ce s rv \<longleftrightarrow> lr_token rv \<noteq> [] \<and> day_limit ce = Some (lr_limit rv)
     \<and> (\<exists>g. granted_at s rv = Some g
        \<and> (utc_day_of (sy_now s) - LOCAL_BUDGET_RETENTION_DAYS \<le> lr_day rv
           \<longrightarrow> locked (lr_token rv) g (lr_day rv) (lr_limit rv) (snd (sy_shared s))))"

definition ledger_ok :: "budget_db \<Rightarrow> bool" where
  "ledger_ok d \<longleftrightarrow> keyed lb_day (bd_rows d) \<and> float_rows (bd_rows d)"

definition sound :: "call_env \<Rightarrow> system \<Rightarrow> bool" where
  "sound ce s \<longleftrightarrow> ledger_ok (snd (sy_shared s))
     \<and> (\<forall>i < length (sy_calls s). \<forall>rv. held (sy_calls s ! i) = Some rv \<longrightarrow> holds ce s rv)
     \<and> (\<forall>i < length (sy_calls s). \<forall>j < length (sy_calls s). \<forall>rv rv'.
          held (sy_calls s ! i) = Some rv \<longrightarrow> held (sy_calls s ! j) = Some rv' \<longrightarrow> i \<noteq> j \<longrightarrow>
          lr_token rv \<noteq> lr_token rv' \<and> lr_day rv \<noteq> lr_day rv')"

lemma day_limit_float: "day_limit ce = Some limit \<Longrightarrow> is_float limit \<and> 0 \<le> limit"
  using configured_limit by (auto simp: day_limit_def split: sum.splits)

lemma effect_ledger_ok:
  assumes "ledger_ok d" "explains ce t st d f st'" "float_sums (ce_sum ce)"
    and "\<And>rv. held st = Some rv \<Longrightarrow> day_limit ce = Some (lr_limit rv)"
  shows "ledger_ok (effect_on ce t f d)"
proof (cases f)
  case (Requests limit)
  with assms(2) have "day_limit ce = Some limit" by (simp add: explains_def)
  then have "is_float limit" by (simp add: day_limit_float)
  with Requests assms(1,3) show ?thesis
    by (auto simp: ledger_ok_def requested_def lease_request_def intro: keyed_reserve float_rows_reserve)
next
  case (Settles rv how e)
  with assms(2,4) have "is_float (lr_limit rv)" by (auto simp: explains_def dest: day_limit_float)
  with Settles assms(1) show ?thesis by (auto simp: ledger_ok_def intro: keyed_settle_with float_rows_settle)
qed (use assms in simp)

text \<open>A locked day grants nothing and stays locked; so does a day other than today's.\<close>

lemma requested_locked:
  assumes "locked token g day limit d" "ledger_ok d" "token \<noteq> []" "day_limit ce = Some limit"
    and "utc_day_of (tk_now t) - LOCAL_BUDGET_RETENTION_DAYS \<le> day"
  shows "locked token g day limit (snd (requested ce t limit d))"
    and "day = utc_day_of (tk_now t) \<Longrightarrow> isl (fst (requested ce t limit d))"
proof -
  let ?rv = "lease_request t limit" and ?p = "utc_day_of (tk_now t) - LOCAL_BUDGET_RETENTION_DAYS"
  have ok: "keyed lb_day (bd_rows d)" "is_float (lr_limit ?rv)" "0 \<le> lr_limit ?rv" and rv: "lr_day ?rv = utc_day_of (tk_now t)" "lr_limit ?rv = limit"
    using assms(2) day_limit_float [OF assms(4)] by (simp_all add: ledger_ok_def lease_request_def)
  have lease: "locked token g day limit (snd (requested ce t limit d)) \<and> (day = utc_day_of (tk_now t) \<longrightarrow> isl (fst (requested ce t limit d)))"
    if r: "row_of lb_day (bd_rows d) day = Some r" "leased token g r" for r
  proof (cases "lr_day ?rv = day")
    case True
    with r assms(5) have row: "row_of lb_day (bd_rows d) (lr_day ?rv) = Some r" "?p \<le> lr_day ?rv" by simp_all
    show ?thesis
      using True rv reserve_sync_leased [OF row(1) r(2) assms(3) row(2) ok, of "ce_sum ce" "tk_now t"] r(2)
      by (auto simp: requested_def locked_def)
  next
    case False
    with rv reserve_sync_elsewhere [OF r(1) assms(5) False ok(1)] r(2) show ?thesis
      by (auto simp: requested_def locked_def)
  qed
  have spent: "locked token g day limit (snd (requested ce t limit d)) \<and> (day = utc_day_of (tk_now t) \<longrightarrow> isl (fst (requested ce t limit d)))"
    if "exhausted day limit d"
  proof (cases "lr_day ?rv = day")
    case True
    with that rv assms(5) reserve_sync_exhausted [of ?rv d ?p] show ?thesis by (simp add: requested_def locked_def)
  next
    case False
    with that rv reserve_sync_other_day [OF that assms(5) False] show ?thesis by (simp add: requested_def locked_def)
  qed
  show "locked token g day limit (snd (requested ce t limit d))"
    "day = utc_day_of (tk_now t) \<Longrightarrow> isl (fst (requested ce t limit d))"
    using assms(1) lease spent by (auto simp: locked_def)
qed

lemma locked_kept:
  assumes "locked token g day limit d" "ledger_ok d" "token \<noteq> []" "day_limit ce = Some limit"
    and "utc_day_of (tk_now t) - LOCAL_BUDGET_RETENTION_DAYS \<le> day" "explains ce t st d f st'"
    and "\<And>rv. held st = Some rv \<Longrightarrow> lr_token rv \<noteq> [] \<and> lr_limit rv = limit"
    and "\<And>rv how e. f = Settles rv how e \<Longrightarrow> lr_token rv \<noteq> token"
  shows "locked token g day limit (effect_on ce t f d)"
proof (cases f)
  case (Requests l)
  with assms(4,6) have "l = limit" by (simp add: explains_def)
  with Requests requested_locked(1) [OF assms(1-5)] show ?thesis by simp
next
  case (Settles rv how e)
  with assms(6,7) have rv: "lr_token rv \<noteq> []" "lr_limit rv = limit" "charges how" by (auto simp: explains_def)
  from assms(1) show ?thesis unfolding locked_def
  proof (elim disjE exE conjE)
    fix r assume "row_of lb_day (bd_rows d) day = Some r" "leased token g r"
    with Settles assms(8) rv settle_with_frame [of d day r token g rv "tk_now t" how e] show
      "(\<exists>r. row_of lb_day (bd_rows (effect_on ce t f d)) day = Some r \<and> leased token g r) \<or> exhausted day limit (effect_on ce t f d)"
      by simp
  next
    assume "exhausted day limit d"
    then have "exhausted day limit (snd (settle_with rv (tk_now t) how e d))"
      using rv by (intro settle_with_keeps) auto
    with Settles show
      "(\<exists>r. row_of lb_day (bd_rows (effect_on ce t f d)) day = Some r \<and> leased token g r) \<or> exhausted day limit (effect_on ce t f d)"
      by simp
  qed
qed (use assms in simp)

lemma held_after_step:
  assumes "k < length (sy_calls s)" "held (sy_calls (step_call ce i t s) ! k) = Some rv"
  shows "k \<noteq> i \<and> held (sy_calls s ! k) = Some rv
    \<or> k = i \<and> held (fst (call_step ce t (sy_calls s ! i) (sy_shared s))) = Some rv"
  using assms by (cases "k = i") (simp_all add: step_call_def Let_def split: prod.splits)

lemma step_call_at: "i < length (sy_calls s) \<Longrightarrow> sy_calls (step_call ce i t s) ! i = fst (call_step ce t (sy_calls s ! i) (sy_shared s))"
  by (simp add: step_call_def Let_def split: prod.split)

lemma step_call_elsewhere: "k \<noteq> i \<Longrightarrow> sy_calls (step_call ce i t s) ! k = sy_calls s ! k"
  by (simp add: step_call_def Let_def split: prod.split)

lemma step_call_fields:
  "sy_now (step_call ce i t s) = tk_now t"
  "sy_shared (step_call ce i t s) = snd (call_step ce t (sy_calls s ! i) (sy_shared s))"
  "length (sy_calls (step_call ce i t s)) = length (sy_calls s)"
  "sy_granted (step_call ce i t s) = (tk_token t, tk_now t) # sy_granted s"
  by (simp_all add: step_call_def Let_def split: prod.split)

lemma granted_token: "granted_at s rv = Some g \<Longrightarrow> tok \<notin> fst ` set (sy_granted s) \<Longrightarrow> lr_token rv \<noteq> tok"
  by (auto simp: granted_at_def image_iff dest!: map_of_SomeD)

lemma holds_step:
  assumes "holds ce s rv" "ledger_ok (snd (sy_shared s))" "sy_now s \<le> tk_now t"
    and "tk_token t \<notin> fst ` set (sy_granted s)"
    and "snd (sy_shared (step_call ce i t s)) = effect_on ce t f (snd (sy_shared s))"
    and "explains ce t st (snd (sy_shared s)) f st'"
    and "\<And>rv'. held st = Some rv' \<Longrightarrow> lr_token rv' \<noteq> [] \<and> day_limit ce = Some (lr_limit rv')"
    and "\<And>rv' how e. f = Settles rv' how e \<Longrightarrow> lr_token rv' \<noteq> lr_token rv"
  shows "holds ce (step_call ce i t s) rv"
proof -
  let ?today = "\<lambda>now. utc_day_of now - LOCAL_BUDGET_RETENTION_DAYS"
  obtain g where g: "lr_token rv \<noteq> []" "day_limit ce = Some (lr_limit rv)" "granted_at s rv = Some g"
    "?today (sy_now s) \<le> lr_day rv \<Longrightarrow> locked (lr_token rv) g (lr_day rv) (lr_limit rv) (snd (sy_shared s))"
    using assms(1) by (auto simp: holds_def)
  have "granted_at (step_call ce i t s) rv = Some g"
    using g(3) granted_token [OF g(3) assms(4)] by (simp add: granted_at_def step_call_fields)
  moreover have "locked (lr_token rv) g (lr_day rv) (lr_limit rv) (snd (sy_shared (step_call ce i t s)))"
    if now: "?today (tk_now t) \<le> lr_day rv"
  proof -
    have "locked (lr_token rv) g (lr_day rv) (lr_limit rv) (snd (sy_shared s))"
      using now utc_day_of_mono [OF assms(3)] by (intro g(4)) simp
    then show ?thesis unfolding assms(5)
      by (rule locked_kept [OF _ assms(2) g(1,2) now assms(6)]) (use assms(7) g(2) assms(8) in auto)
  qed
  ultimately show ?thesis using g(1,2) by (simp add: holds_def step_call_fields)
qed

lemma holds_granted:
  assumes "tk_token t \<noteq> []" "ledger_ok (snd (sy_shared s))" "float_sums (ce_sum ce)" "day_limit ce = Some limit"
    and "snd (sy_shared (step_call ce i t s)) = effect_on ce t (Requests limit) (snd (sy_shared s))"
    and "fst (requested ce t limit (snd (sy_shared s))) = Inr rv"
  shows "lr_token rv = tk_token t" "lr_day rv = utc_day_of (tk_now t)" "holds ce (step_call ce i t s) rv"
proof -
  have p: "utc_day_of (tk_now t) - LOCAL_BUDGET_RETENTION_DAYS \<le> lr_day (lease_request t limit)"
    by (simp add: lease_request_def LOCAL_BUDGET_RETENTION_DAYS_def)
  have rows: "float_rows (bd_rows (snd (sy_shared s)))" using assms(2) by (simp add: ledger_ok_def)
  note grant = reserve_sync_grants [OF assms(6) [unfolded requested_def] p rows assms(3)]
  show token: "lr_token rv = tk_token t" "lr_day rv = utc_day_of (tk_now t)" by (simp_all add: grant(1) lease_request_def)
  have limit: "lr_limit rv = limit" by (simp add: grant(1) lease_request_def)
  obtain r where "row_of lb_day (bd_rows (effect_on ce t (Requests limit) (snd (sy_shared s)))) (utc_day_of (tk_now t)) = Some r"
    "leased (tk_token t) (tk_now t) r"
    using grant(2) by (auto simp: requested_def lease_request_def)
  then have "locked (tk_token t) (tk_now t) (lr_day rv) limit (snd (sy_shared (step_call ce i t s)))"
    unfolding locked_def token assms(5) by blast
  then show "holds ce (step_call ce i t s) rv"
    using assms(1,4) token limit by (simp add: holds_def granted_at_def step_call_fields)
qed

text \<open>A grant is for today, and today is not a day that is locked for another reservation.\<close>

lemma granted_elsewhere:
  assumes "token \<noteq> []"
    and "utc_day_of (sy_now s) - LOCAL_BUDGET_RETENTION_DAYS \<le> day \<Longrightarrow> locked token g day limit d"
    and "ledger_ok d" "day_limit ce = Some limit" "sy_now s \<le> tk_now t" "fst (requested ce t limit d) = Inr rv"
  shows "day \<noteq> utc_day_of (tk_now t)"
proof
  assume today: "day = utc_day_of (tk_now t)"
  with utc_day_of_mono [OF assms(5)] have "locked token g day limit d"
    by (intro assms(2)) (simp add: LOCAL_BUDGET_RETENTION_DAYS_def)
  from requested_locked(2) [OF this assms(3,1,4) _ today] today assms(6) show False
    by (simp add: LOCAL_BUDGET_RETENTION_DAYS_def)
qed

lemma sound_step:
  assumes "sound ce s" "i < length (sy_calls s)" "sy_now s \<le> tk_now t" "tk_token t \<noteq> []"
    and "tk_token t \<notin> fst ` set (sy_granted s)" "float_sums (ce_sum ce)"
  shows "sound ce (step_call ce i t s)"
proof -
  let ?st = "sy_calls s ! i" and ?s' = "step_call ce i t s" and ?n = "length (sy_calls s)" and ?d = "snd (sy_shared s)"
  let ?st' = "fst (call_step ce t ?st (sy_shared s))"
  obtain f where f: "snd (sy_shared ?s') = effect_on ce t f ?d" "explains ce t ?st ?d f ?st'"
    using step_explained [of ce t ?st "sy_shared s"] by (auto simp: step_call_fields)
  have ok: "ledger_ok ?d" using assms(1) by (simp add: sound_def)
  have old: "holds ce s rv" if "j < ?n" "held (sy_calls s ! j) = Some rv" for j rv
    using assms(1) that by (auto simp: sound_def)
  have apart: "lr_token rv \<noteq> lr_token rv' \<and> lr_day rv \<noteq> lr_day rv'"
    if "j < ?n" "held (sy_calls s ! j) = Some rv" "k < ?n" "held (sy_calls s ! k) = Some rv'" "j \<noteq> k" for j k rv rv'
    using assms(1) that unfolding sound_def by blast
  have mine: "lr_token rv' \<noteq> [] \<and> day_limit ce = Some (lr_limit rv')" if "held ?st = Some rv'" for rv'
    using old [OF assms(2) that] by (simp add: holds_def)
  have keep: "holds ce ?s' rv" if "j < ?n" "held (sy_calls s ! j) = Some rv" "\<And>rv' how e. f = Settles rv' how e \<Longrightarrow> j \<noteq> i" for j rv
  proof (rule holds_step [OF old [OF that(1,2)] ok assms(3,5) f mine])
    fix rv' how e assume S: "f = Settles rv' how e"
    then have "held ?st = Some rv'" using f(2) by (simp add: explains_def)
    then show "lr_token rv' \<noteq> lr_token rv" using apart [OF assms(2) _ that(1,2)] that(3) [OF S] by auto
  qed
  have own: "holds ce ?s' rv \<and> (held ?st = Some rv \<or> lr_token rv = tk_token t \<and> lr_day rv = utc_day_of (tk_now t)
      \<and> (\<exists>limit. f = Requests limit \<and> day_limit ce = Some limit \<and> fst (requested ce t limit ?d) = Inr rv))"
    if h: "held ?st' = Some rv" for rv
  proof (cases f)
    case Untouched
    with f(2) h have st: "held ?st = Some rv" by (simp add: explains_def)
    from keep [OF assms(2) this] Untouched st show ?thesis by simp
  next
    case (Requests limit)
    with f(2) h have "day_limit ce = Some limit" "fst (requested ce t limit ?d) = Inr rv" by (simp_all add: explains_def)
    with holds_granted [OF assms(4) ok assms(6) _ f(1) [unfolded Requests]] Requests show ?thesis by blast
  next
    case (Settles rv' how e)
    with f(2) h show ?thesis by (simp add: explains_def)
  qed
  have all: "holds ce ?s' rv" if "j < ?n" "held (sy_calls ?s' ! j) = Some rv" for j rv
  proof (cases "j = i")
    case True
    with held_after_step [OF that] own show ?thesis by blast
  next
    case False
    with held_after_step [OF that] keep [OF that(1)] show ?thesis by blast
  qed
  have pair: "lr_token rv \<noteq> lr_token rv' \<and> lr_day rv \<noteq> lr_day rv'"
    if h: "held ?st' = Some rv" and j: "j < ?n" "held (sy_calls s ! j) = Some rv'" "j \<noteq> i" for j rv rv'
  proof (cases "held ?st = Some rv")
    case True
    with apart [OF assms(2) _ j(1,2)] j(3) show ?thesis by auto
  next
    case False
    with own [OF h] obtain limit where new: "lr_token rv = tk_token t" "lr_day rv = utc_day_of (tk_now t)"
      "day_limit ce = Some limit" "fst (requested ce t limit ?d) = Inr rv" by blast
    obtain g where g: "lr_token rv' \<noteq> []" "lr_limit rv' = limit" "granted_at s rv' = Some g"
      "utc_day_of (sy_now s) - LOCAL_BUDGET_RETENTION_DAYS \<le> lr_day rv' \<Longrightarrow> locked (lr_token rv') g (lr_day rv') limit ?d"
      using old [OF j(1,2)] new(3) by (auto simp: holds_def)
    have "lr_day rv' \<noteq> utc_day_of (tk_now t)"
      by (rule granted_elsewhere [OF g(1,4) ok new(3) assms(3) new(4)])
    with new(1,2) granted_token [OF g(3) assms(5)] show ?thesis by simp
  qed
  show ?thesis unfolding sound_def step_call_fields(3)
  proof (intro conjI allI impI)
    show "ledger_ok (snd (sy_shared ?s'))" unfolding f(1) by (rule effect_ledger_ok [OF ok f(2) assms(6)]) (use mine in blast)
  next
    fix j rv assume "j < ?n" "held (sy_calls ?s' ! j) = Some rv"
    then show "holds ce ?s' rv" by (rule all)
  next
    fix j k rv rv'
    assume j: "j < ?n" "held (sy_calls ?s' ! j) = Some rv" and k: "k < ?n" "held (sy_calls ?s' ! k) = Some rv'" and "j \<noteq> k"
    consider "j = i" "k \<noteq> i" | "j \<noteq> i" "k = i" | "j \<noteq> i" "k \<noteq> i" using \<open>j \<noteq> k\<close> by blast
    then have "lr_token rv \<noteq> lr_token rv' \<and> lr_day rv \<noteq> lr_day rv'"
    proof cases
      case 1
      with held_after_step [OF j] held_after_step [OF k] k(1) show ?thesis by (intro pair [of rv k rv']) blast+
    next
      case 2
      with held_after_step [OF j] held_after_step [OF k] j(1) pair [of rv' j rv] show ?thesis by (metis (no_types))
    next
      case 3
      with held_after_step [OF j] held_after_step [OF k] j(1) k(1) \<open>j \<noteq> k\<close> show ?thesis by (intro apart [of j rv k rv']) blast+
    qed
    then show "lr_token rv \<noteq> lr_token rv'" "lr_day rv \<noteq> lr_day rv'" by blast+
  qed
qed

lemma held_arrive:
  "held ((sy_calls s @ [Checking plane model active]) ! j) = Some rv \<Longrightarrow> j < length (sy_calls s @ [Checking plane model active]) \<Longrightarrow>
   j < length (sy_calls s) \<and> held (sy_calls s ! j) = Some rv"
  by (cases "j = length (sy_calls s)") (simp_all add: nth_append)

lemma sound_arrive:
  assumes "sound ce s"
  shows "sound ce (s\<lparr>sy_calls := sy_calls s @ [Checking plane model active]\<rparr>)"
proof -
  let ?s' = "s\<lparr>sy_calls := sy_calls s @ [Checking plane model active]\<rparr>"
  have same: "holds ce ?s' = holds ce s" by (simp add: fun_eq_iff holds_def granted_at_def)
  have calls: "sy_calls ?s' = sy_calls s @ [Checking plane model active]" "sy_shared ?s' = sy_shared s" by simp_all
  show ?thesis unfolding sound_def same calls
  proof (intro conjI allI impI)
    show "ledger_ok (snd (sy_shared s))" using assms by (simp add: sound_def)
  next
    fix i rv assume "i < length (sy_calls s @ [Checking plane model active])"
      "held ((sy_calls s @ [Checking plane model active]) ! i) = Some rv"
    then show "holds ce s rv" using assms held_arrive unfolding sound_def by blast
  next
    fix i j rv rv'
    assume i: "i < length (sy_calls s @ [Checking plane model active])" "held ((sy_calls s @ [Checking plane model active]) ! i) = Some rv"
      and j: "j < length (sy_calls s @ [Checking plane model active])" "held ((sy_calls s @ [Checking plane model active]) ! j) = Some rv'"
      and "i \<noteq> j"
    then have "lr_token rv \<noteq> lr_token rv' \<and> lr_day rv \<noteq> lr_day rv'"
      using assms held_arrive [OF i(2,1)] held_arrive [OF j(2,1)] unfolding sound_def by blast
    then show "lr_token rv \<noteq> lr_token rv'" "lr_day rv \<noteq> lr_day rv'" by blast+
  qed
qed

lemma sound_reach:
  assumes "sys_reach ce s0 s" "sound ce s0" "float_sums (ce_sum ce)"
  shows "sound ce s"
  using assms
proof induction
  case (more s s' s'')
  then have "sound ce s'" by blast
  with more(2) show ?case
    by (rule_tac sys_stepE [OF more(2)]) (simp_all add: sound_arrive sound_step more(5))
qed

definition idle :: "instant \<Rightarrow> circuits \<Rightarrow> budget_db \<Rightarrow> system" where
  "idle now cs d = \<lparr>sy_now = now, sy_shared = (cs, d), sy_calls = [], sy_granted = []\<rparr>"

text \<open>Under a configured local limit a call to the metered API never runs without a reservation.\<close>

definition metered :: "call_env \<Rightarrow> bool" where
  "metered ce \<longleftrightarrow> \<not> is_cloudrun_runtime (ce_environ ce) \<and> day_limit ce \<noteq> None"

fun covered :: "stage \<Rightarrow> bool" where
  "covered (Entering plane _ rv) = (plane = ''api'' \<longrightarrow> rv \<noteq> None)"
| "covered (Calling adm rv) = (ba_plane adm = ''api'' \<longrightarrow> rv \<noteq> None)"
| "covered _ = True"

lemma enter_covered: "(plane = ''api'' \<longrightarrow> rv \<noteq> None) \<Longrightarrow> covered (fst (enter_breaker ce t plane model rv sh))"
  by (auto simp: enter_breaker_def breaker_before_call_def Let_def split: prod.split sum.split if_splits prod.splits)

lemma metered_reserves:
  "metered ce \<Longrightarrow> fst (reserve_local_budget (ce_sum ce) (is_cloudrun_runtime (ce_environ ce))
     (env_get (ce_environ ce) ''UNIGROK_LOCAL_DAILY_BUDGET_USD'' []) now token d) \<noteq> Inr None"
  by (auto simp: metered_def day_limit_def reserve_local_budget_def map_sum_def split: sum.splits option.splits)

lemma run_covered:
  assumes "metered ce" "covered st"
  shows "covered (fst (run_stage ce t st sh))"
proof (cases st)
  case (Checking plane model active)
  have "covered (fst (enter_breaker ce t plane model None sh))" if "plane \<noteq> ''api''" using that by (simp add: enter_covered)
  with Checking show ?thesis by (simp split: option.split)
next
  case (Reserving plane model)
  have "fst (reserve_local_budget (ce_sum ce) (is_cloudrun_runtime (ce_environ ce))
      (env_get (ce_environ ce) ''UNIGROK_LOCAL_DAILY_BUDGET_USD'' []) (tk_now t) (tk_token t) (snd sh)) \<noteq> Inr None"
    by (rule metered_reserves [OF assms(1)])
  then show ?thesis using Reserving by (auto split: prod.split sum.split)
next
  case (Entering plane model rv)
  with assms(2) enter_covered [of plane rv] show ?thesis by simp
qed (simp_all split: prod.split option.split operation_outcome.split)

lemma step_covered: "metered ce \<Longrightarrow> covered st \<Longrightarrow> covered (fst (call_step ce t st sh))"
  using run_covered [of ce st t sh] by (auto simp: call_step_def split: stage.split cut.split)

lemma covered_reach:
  assumes "sys_reach ce s0 s" "metered ce" "list_all covered (sy_calls s0)"
  shows "list_all covered (sy_calls s)"
  using assms
proof induction
  case (more s s' s'')
  then have all: "list_all covered (sy_calls s')" by blast
  from more(2) show ?case
  proof (rule sys_stepE)
    fix plane model active assume "s'' = s'\<lparr>sy_calls := sy_calls s' @ [Checking plane model active]\<rparr>"
    with all show ?thesis by simp
  next
    fix i t assume "s'' = step_call ce i t s'" "i < length (sy_calls s')"
    with all step_covered [OF more(4), of "sy_calls s' ! i" t "sy_shared s'"] show ?thesis
      by (auto simp: list_all_length step_call_def Let_def nth_list_update split: prod.splits)
  qed
qed

text \<open>C9. One metered operation at a time: under a configured local daily budget, however calls interleave with each
  other and with cancellations, two provider calls to the metered API that are under way at once hold
  reservations of different UTC days, so that a day's limit is overrun by at most one operation's cost.\<close>
theorem metered_calls_exclusive:
  assumes "sys_reach ce (idle now cs d) s" "metered ce" "float_sums (ce_sum ce)"
    and "keyed lb_day (bd_rows d)" "float_rows (bd_rows d)"
    and "i < length (sy_calls s)" "sy_calls s ! i = Calling a rv" "ba_plane a = ''api''"
    and "j < length (sy_calls s)" "sy_calls s ! j = Calling b rv'" "ba_plane b = ''api''" "i \<noteq> j"
  shows "\<exists>r r'. rv = Some r \<and> rv' = Some r' \<and> lr_day r \<noteq> lr_day r'"
proof -
  have "sound ce (idle now cs d)" using assms(4,5) by (simp add: sound_def ledger_ok_def idle_def)
  then have "sound ce s" by (rule sound_reach [OF assms(1) _ assms(3)])
  moreover have "list_all covered (sy_calls s)" by (rule covered_reach [OF assms(1,2)]) (simp add: idle_def)
  then have "covered (sy_calls s ! i)" "covered (sy_calls s ! j)" using assms(6,9) by (simp_all add: list_all_length)
  then obtain r r' where "rv = Some r" "rv' = Some r'" using assms(7,8,10,11) by auto
  moreover have "held (sy_calls s ! i) = rv" "held (sy_calls s ! j) = rv'" using assms(7,10) by simp_all
  ultimately show ?thesis using assms(6,9,12) unfolding sound_def by blast
qed

subsection \<open>A call without a receipt\<close>

text \<open>How an operation ends without one: cancelled, or with an error that carries no incurred attempts.\<close>

definition no_receipt :: "json \<Rightarrow> bool" where
  "no_receipt attempts \<longleftrightarrow> (\<forall>a as. attempts \<noteq> JArr (a # as))"

definition unreceipted :: "operation_outcome \<Rightarrow> bool" where
  "unreceipted out \<longleftrightarrow> out = CancelledError \<or> (\<exists>attempts. out = Raised attempts \<and> no_receipt attempts)"

definition over :: "stage \<Rightarrow> bool" where
  "over st \<longleftrightarrow> (\<exists>r. st = Ended r) \<or> (\<exists>rv attempts. st = SettlingError rv attempts \<and> no_receipt attempts)"

lemma over_step: "over st \<Longrightarrow> over (fst (call_step ce t st sh)) \<and> snd (snd (call_step ce t st sh)) = snd sh"
  by (auto simp: over_def call_step_def settle_local_budget_error_def no_receipt_def
      split: cut.split option.split json.split list.split)

lemma unreceipted_over:
  "unreceipted (tk_outcome t) \<Longrightarrow> over (fst (call_step ce t (Calling adm rv) sh)) \<and> snd (snd (call_step ce t (Calling adm rv) sh)) = snd sh"
  by (auto simp: unreceipted_def over_def call_step_def)

definition closed :: "call_env \<Rightarrow> nat \<Rightarrow> local_reservation \<Rightarrow> system \<Rightarrow> bool" where
  "closed ce i rv s \<longleftrightarrow> sound ce s \<and> holds ce s rv \<and> i < length (sy_calls s) \<and> over (sy_calls s ! i)
     \<and> (\<forall>j < length (sy_calls s). \<forall>r. j \<noteq> i \<longrightarrow> held (sy_calls s ! j) = Some r \<longrightarrow>
          lr_day r \<noteq> lr_day rv \<and> lr_token r \<noteq> lr_token rv)"

lemma closed_step:
  assumes "closed ce i rv s" "k < length (sy_calls s)" "sy_now s \<le> tk_now t" "tk_token t \<noteq> []"
    and "tk_token t \<notin> fst ` set (sy_granted s)" "float_sums (ce_sum ce)"
  shows "closed ce i rv (step_call ce k t s)"
proof -
  let ?st = "sy_calls s ! k" and ?s' = "step_call ce k t s" and ?n = "length (sy_calls s)" and ?d = "snd (sy_shared s)"
  let ?st' = "fst (call_step ce t ?st (sy_shared s))"
  have c: "sound ce s" "holds ce s rv" "i < ?n" "over (sy_calls s ! i)"
    and apart: "\<And>j r. j < ?n \<Longrightarrow> j \<noteq> i \<Longrightarrow> held (sy_calls s ! j) = Some r \<Longrightarrow> lr_day r \<noteq> lr_day rv \<and> lr_token r \<noteq> lr_token rv"
    using assms(1) unfolding closed_def by blast+
  have ok: "ledger_ok ?d" using c(1) by (simp add: sound_def)
  have mine: "lr_token r \<noteq> [] \<and> day_limit ce = Some (lr_limit r)" if "held ?st = Some r" for r
    using c(1) assms(2) that by (auto simp: sound_def holds_def)
  have sound': "sound ce ?s'" by (rule sound_step [OF c(1) assms(2-6)])
  obtain f where f: "snd (sy_shared ?s') = effect_on ce t f ?d" "explains ce t ?st ?d f ?st'"
    and fi: "k = i \<Longrightarrow> f = Untouched"
  proof (cases "k = i")
    case True
    with over_step [OF c(4)] have "snd (sy_shared ?s') = effect_on ce t Untouched ?d" "over ?st'"
      by (simp_all add: step_call_fields)
    moreover have "explains ce t ?st ?d Untouched ?st'"
      using True c(4) by (auto simp: over_def explains_def call_step_def split: cut.split prod.split option.split)
    ultimately show ?thesis using that by blast
  next
    case False
    with step_explained [of ce t ?st "sy_shared s"] that show ?thesis by (auto simp: step_call_fields)
  qed
  have keep: "holds ce ?s' rv"
  proof (rule holds_step [OF c(2) ok assms(3,5) f mine])
    fix r how e assume S: "f = Settles r how e"
    then have "held ?st = Some r" "k \<noteq> i" using f(2) fi by (auto simp: explains_def)
    with apart [OF assms(2)] show "lr_token r \<noteq> lr_token rv" by blast
  qed
  have over': "over (sy_calls ?s' ! i)"
    using c(3,4) over_step [OF c(4)] by (cases "k = i") (simp_all add: step_call_at step_call_elsewhere)
  have new: "lr_day r \<noteq> lr_day rv \<and> lr_token r \<noteq> lr_token rv" if h: "held ?st' = Some r" and "k \<noteq> i" for r
  proof (cases "held ?st = Some r")
    case True
    with apart [OF assms(2) that(2)] show ?thesis by blast
  next
    case False
    with f(2) h obtain limit where limit: "f = Requests limit" "day_limit ce = Some limit" "fst (requested ce t limit ?d) = Inr r"
      by (cases f) (auto simp: explains_def)
    note r = holds_granted [OF assms(4) ok assms(6) limit(2) f(1) [unfolded limit(1)] limit(3)]
    obtain g where g: "lr_token rv \<noteq> []" "lr_limit rv = limit" "granted_at s rv = Some g"
      "utc_day_of (sy_now s) - LOCAL_BUDGET_RETENTION_DAYS \<le> lr_day rv \<Longrightarrow> locked (lr_token rv) g (lr_day rv) limit ?d"
      using c(2) limit(2) by (auto simp: holds_def)
    have "lr_day rv \<noteq> utc_day_of (tk_now t)"
      by (rule granted_elsewhere [OF g(1,4) ok limit(2) assms(3) limit(3)])
    with r(1,2) granted_token [OF g(3) assms(5)] show ?thesis by simp
  qed
  show ?thesis unfolding closed_def step_call_fields(3)
  proof (intro conjI allI impI sound' keep c(3) over')
    fix j r assume j: "j < ?n" "j \<noteq> i" "held (sy_calls ?s' ! j) = Some r"
    then have "lr_day r \<noteq> lr_day rv \<and> lr_token r \<noteq> lr_token rv"
      using held_after_step [OF j(1,3)] apart [OF j(1,2)] new by blast
    then show "lr_day r \<noteq> lr_day rv" "lr_token r \<noteq> lr_token rv" by blast+
  qed
qed

lemma closed_arrive:
  assumes "closed ce i rv s"
  shows "closed ce i rv (s\<lparr>sy_calls := sy_calls s @ [Checking plane model active]\<rparr>)"
proof -
  let ?s' = "s\<lparr>sy_calls := sy_calls s @ [Checking plane model active]\<rparr>"
  have "sound ce ?s'" "holds ce ?s' rv" "i < length (sy_calls ?s')" "over (sy_calls ?s' ! i)"
    using assms sound_arrive [of ce s] by (simp_all add: closed_def holds_def granted_at_def nth_append)
  moreover have "lr_day r \<noteq> lr_day rv \<and> lr_token r \<noteq> lr_token rv"
    if "j < length (sy_calls ?s')" "j \<noteq> i" "held (sy_calls ?s' ! j) = Some r" for j r
  proof -
    have "j < length (sy_calls s) \<and> held (sy_calls s ! j) = Some r" using held_arrive [of s plane model active j r] that by simp
    with that(2) assms show ?thesis unfolding closed_def by blast
  qed
  ultimately show ?thesis unfolding closed_def by blast
qed

lemma closed_reach:
  assumes "sys_reach ce s0 s" "closed ce i rv s0" "float_sums (ce_sum ce)"
  shows "closed ce i rv s"
  using assms
proof induction
  case (more s s' s'')
  then have "closed ce i rv s'" by blast
  with more(2) show ?case
    by (rule_tac sys_stepE [OF more(2)]) (simp_all add: closed_arrive closed_step more(5))
qed

text \<open>C10. A call that leaves no receipt closes its day: when a metered operation is cancelled, or fails without the cost
  of what it attempted, no later operation ever runs under that UTC day's budget, whatever calls follow and
  however they interleave.\<close>
theorem unreceipted_call_closes_day:
  assumes "sys_reach ce (idle now cs d) s" "float_sums (ce_sum ce)" "keyed lb_day (bd_rows d)" "float_rows (bd_rows d)"
    and "i < length (sy_calls s)" "sy_calls s ! i = Calling a (Some rv)"
    and "sy_now s \<le> tk_now t" "tk_token t \<noteq> []" "tk_token t \<notin> fst ` set (sy_granted s)" "unreceipted (tk_outcome t)"
    and "sys_reach ce (step_call ce i t s) s'" "j < length (sy_calls s')" "sy_calls s' ! j = Calling b (Some r)"
  shows "lr_day r \<noteq> lr_day rv"
proof -
  have "sound ce (idle now cs d)" using assms(3,4) by (simp add: sound_def ledger_ok_def idle_def)
  then have sound: "sound ce s" by (rule sound_reach [OF assms(1) _ assms(2)])
  have held: "held (sy_calls s ! i) = Some rv" using assms(6) by simp
  let ?s1 = "step_call ce i t s"
  have over: "over (fst (call_step ce t (sy_calls s ! i) (sy_shared s)))"
    and same: "snd (sy_shared ?s1) = effect_on ce t Untouched (snd (sy_shared s))"
    using unreceipted_over [OF assms(10), of ce a "Some rv" "sy_shared s"] assms(6) by (simp_all add: step_call_fields)
  have "holds ce s rv" using sound held assms(5) by (auto simp: sound_def)
  then have "holds ce ?s1 rv"
  proof (rule holds_step [OF _ _ assms(7,9) same])
    show "ledger_ok (snd (sy_shared s))" using sound by (simp add: sound_def)
    show "explains ce t (Ended Cancelled) (snd (sy_shared s)) Untouched (Ended Cancelled)" by (simp add: explains_def)
  qed simp_all
  moreover have "sound ce ?s1" by (rule sound_step [OF sound assms(5,7-9,2)])
  moreover have "over (sy_calls ?s1 ! i)" using over assms(5) by (simp add: step_call_at)
  moreover have "lr_day r \<noteq> lr_day rv \<and> lr_token r \<noteq> lr_token rv"
    if "j < length (sy_calls s)" "j \<noteq> i" "held (sy_calls ?s1 ! j) = Some r" for j r
    using held_after_step [OF that(1,3)] that(1,2) sound held assms(5) unfolding sound_def by metis
  ultimately have "closed ce i rv ?s1" using assms(5) by (simp add: closed_def step_call_fields)
  then have "closed ce i rv s'" by (rule closed_reach [OF assms(11) _ assms(2)])
  moreover from this have "j \<noteq> i" using assms(13) by (auto simp: closed_def over_def)
  ultimately show ?thesis using assms(12,13) by (auto simp: closed_def)
qed

subsection \<open>A run across midnight\<close>

definition sample_ce :: call_env where
  "sample_ce = \<lparr>ce_hooked = (\<lambda>_ _. Inl None), ce_lib = sample_hex_lib,
     ce_net = \<lparr>urlsplit = (\<lambda>_. None), ip_global = (\<lambda>_. None), json_loads = (\<lambda>_. None)\<rparr>,
     ce_environ = (\<lambda>k. if k = ''UNIGROK_LOCAL_DAILY_BUDGET_USD'' then Some ''5'' else None), ce_sum = (\<lambda>_. Fin 0),
     ce_digest = (\<lambda>_. ''d''), ce_cache_key = ''k'',
     ce_config = \<lparr>cfg_threshold = 3, cfg_cooldown = 30, cfg_api_timeout = 60, cfg_media_timeout = 60, cfg_build_timeout = 60\<rparr>\<rparr>"

definition sample_tick :: "instant \<Rightarrow> string \<Rightarrow> tick" where
  "sample_tick now token = \<lparr>tk_now = now, tk_mono = 0, tk_token = token, tk_outcome = CancelledError, tk_cut = Runs\<rparr>"

definition sample_start :: system where
  "sample_start = (idle 0 [] \<lparr>bd_rows = [], bd_telemetry = []\<rparr>)\<lparr>sy_calls := [Checking ''api'' None None, Checking ''api'' None None]\<rparr>"

fun moves_ok :: "call_env \<Rightarrow> (nat \<times> tick) list \<Rightarrow> system \<Rightarrow> bool" where
  "moves_ok ce [] s = True"
| "moves_ok ce ((i, t) # ms) s = (i < length (sy_calls s) \<and> sy_now s \<le> tk_now t \<and> tk_token t \<noteq> []
     \<and> tk_token t \<notin> fst ` set (sy_granted s) \<and> moves_ok ce ms (step_call ce i t s))"

lemma moves_reach:
  "sys_reach ce s0 s \<Longrightarrow> moves_ok ce ms s \<Longrightarrow> sys_reach ce s0 (fold (\<lambda>(i, t). step_call ce i t) ms s)"
proof (induction ms arbitrary: s)
  case (Cons m ms)
  obtain i t where m: "m = (i, t)" by (cases m)
  with Cons.prems have "sys_step ce s (step_call ce i t s)" by (intro advance) simp_all
  with Cons.prems(1) have "sys_reach ce s0 (step_call ce i t s)" by (rule sys_reach.more)
  with Cons.IH Cons.prems(2) m show ?case by simp
qed simp

lemma sample_begun: "sys_reach sample_ce (idle 0 [] \<lparr>bd_rows = [], bd_telemetry = []\<rparr>) sample_start"
proof -
  let ?s0 = "idle 0 [] \<lparr>bd_rows = [], bd_telemetry = []\<rparr>"
  have "sys_reach sample_ce ?s0 (?s0\<lparr>sy_calls := sy_calls ?s0 @ [Checking ''api'' None None]\<rparr>)" (is "sys_reach _ _ ?s1")
    by (rule sys_reach.more [OF sys_reach.start arrive])
  then have "sys_reach sample_ce ?s0 (?s1\<lparr>sy_calls := sy_calls ?s1 @ [Checking ''api'' None None]\<rparr>)"
    by (rule sys_reach.more [OF _ arrive])
  then show ?thesis by (simp add: sample_start_def idle_def)
qed

lemma sample_environ:
  "env_get (ce_environ sample_ce) ''UNIGROK_LOCAL_DAILY_BUDGET_USD'' [] = ''5''"
  "is_cloudrun_runtime (ce_environ sample_ce) = False"
  "str_strip (env_get (ce_environ sample_ce) ''UNIGROK_CALLER_BUDGETS'' []) = []"
  "ce_sum sample_ce xs = Fin 0"
  by (code_simp, code_simp, code_simp, simp add: sample_ce_def)

text \<open>The three steps that bring a call to its operation.\<close>

lemma sample_checks: "call_step sample_ce (sample_tick n k) (Checking ''api'' None None) sh = (Reserving ''api'' None, sh)"
  by (simp add: call_step_def sample_tick_def enforce_caller_budget_def sample_environ)

definition sample_lease :: "instant \<Rightarrow> string \<Rightarrow> local_row" where
  "sample_lease n k = \<lparr>lb_day = utc_day_of n, lb_spent = Fin 0, lb_lease_token = Some k,
     lb_lease_expires_at = Some (n + seconds 900), lb_updated_at = n\<rparr>"

lemma sample_reserves:
  assumes "\<forall>r \<in> set (bd_rows b). utc_day_of n - 8 \<le> lb_day r \<and> lb_day r \<noteq> utc_day_of n"
  shows "call_step sample_ce (sample_tick n k) (Reserving ''api'' None) (cs, b) =
    (Entering ''api'' None (Some \<lparr>lr_day = utc_day_of n, lr_token = k, lr_limit = 5\<rparr>), cs,
     b\<lparr>bd_rows := bd_rows b @ [sample_lease n k]\<rparr>)"
proof -
  have kept: "sql_delete (\<lambda>r. lb_day r < utc_day_of n - 8) (bd_rows b) = bd_rows b"
    using assms by (intro sql_delete_id) fastforce
  have none: "row_of lb_day (bd_rows b) (utc_day_of n) = None" using assms by (auto simp: row_of_None)
  have upd: "sql_update (\<lambda>r. lb_day r = utc_day_of n) f (bd_rows b @ [x]) = bd_rows b @ [f x]"
    if "lb_day x = utc_day_of n" for f x
    using assms that by (auto simp: sql_update_def intro: map_idI)
  show ?thesis
    by (simp add: call_step_def sample_tick_def reserve_local_budget_def sample_environ sample_limit
        reserve_local_budget_sync_def Let_def LOCAL_BUDGET_RETENTION_DAYS_def kept none grant_lease_def set_row_def
        upd sample_lease_def LOCAL_BUDGET_LEASE_SECONDS_def)
qed

lemma sample_key: "call_key sample_ce ''api'' None = ''api:d:default''"
  by (simp add: call_key_def breaker_key_def sample_ce_def)

definition sample_admission :: breaker_admission where
  "sample_admission = \<lparr>ba_key = ''api:d:default'', ba_plane = ''api'', ba_generation = 0, ba_probe = False\<rparr>"

lemma sample_enters:
  assumes "breaker_state ''api:d:default'' cs = (new_breaker, cs')"
  shows "call_step sample_ce (sample_tick n k) (Entering ''api'' None rv) (cs, b) = (Calling sample_admission rv, cs', b)"
  using assms
  by (simp add: call_step_def enter_breaker_def sample_key breaker_before_call_def new_breaker_def sample_tick_def
      sample_admission_def)

lemma sample_breaker:
  "breaker_state ''api:d:default'' [] = (new_breaker, [(''api:d:default'', new_breaker)])"
  "breaker_state ''api:d:default'' [(''api:d:default'', new_breaker)] = (new_breaker, [(''api:d:default'', new_breaker)])"
  by (simp_all add: breaker_state_def)

text \<open>The first call is under way on day 0; the second, after midnight, on day 1, whether or not the first was cancelled.\<close>

definition sample_first :: system where
  "sample_first = fold (\<lambda>(i, t). step_call sample_ce i t)
     [(0, sample_tick 0 ''a''), (0, sample_tick 0 ''b''), (0, sample_tick 0 ''c'')] sample_start"

definition sample_second :: "system \<Rightarrow> system" where
  "sample_second s = fold (\<lambda>(i, t). step_call sample_ce i t)
     [(1, sample_tick day_micros ''d''), (1, sample_tick day_micros ''e''), (1, sample_tick day_micros ''f'')] s"

lemma sample_first_is:
  "sample_first = \<lparr>sy_now = 0, sy_shared = ([(''api:d:default'', new_breaker)], \<lparr>bd_rows = [sample_lease 0 ''b''], bd_telemetry = []\<rparr>),
     sy_calls = [Calling sample_admission (Some \<lparr>lr_day = 0, lr_token = ''b'', lr_limit = 5\<rparr>), Checking ''api'' None None],
     sy_granted = [(''c'', 0), (''b'', 0), (''a'', 0)]\<rparr>"
  by (simp add: sample_first_def sample_start_def idle_def step_call_def sample_checks sample_reserves
      sample_enters sample_breaker utc_day_of_def) (simp_all add: sample_tick_def)

lemma sample_second_is:
  assumes "sy_calls s = [c, Checking ''api'' None None]" "sy_shared s = ([(''api:d:default'', new_breaker)], \<lparr>bd_rows = [sample_lease 0 ''b''], bd_telemetry = []\<rparr>)"
  shows "sy_calls (sample_second s) = [c, Calling sample_admission (Some \<lparr>lr_day = 1, lr_token = ''e'', lr_limit = 5\<rparr>)]"
proof -
  have day: "utc_day_of day_micros = 1" "lb_day (sample_lease 0 ''b'') = 0" by (simp_all add: utc_day_of_def day_micros_def sample_lease_def)
  show ?thesis
    using assms
    by (simp add: sample_second_def step_call_def sample_checks sample_reserves sample_enters sample_breaker day)
qed

lemma sample_second_reach:
  assumes "sy_now s = 0" "length (sy_calls s) = 2" "{''d'', ''e'', ''f''} \<inter> fst ` set (sy_granted s) = {}" "sys_reach sample_ce s0 s"
  shows "sys_reach sample_ce s0 (sample_second s)"
  unfolding sample_second_def
  by (rule moves_reach [OF assms(4)]) (use assms(1-3) in \<open>simp add: step_call_fields sample_tick_def day_micros_def\<close>)

lemma sample_first_reached: "sys_reach sample_ce (idle 0 [] \<lparr>bd_rows = [], bd_telemetry = []\<rparr>) sample_first"
  unfolding sample_first_def
  by (rule moves_reach [OF sample_begun]) (simp add: step_call_fields sample_tick_def sample_start_def idle_def)

lemma sample_metered: "metered sample_ce"
  by (simp add: metered_def day_limit_def sample_environ sample_limit)

lemma sample_float_sums: "float_sums (ce_sum sample_ce)"
  by (simp add: float_sums_def sample_ce_def is_float_def float_of_def float_round_def round_pos_def)

lemma sample_running:
  "sys_reach sample_ce (idle 0 [] \<lparr>bd_rows = [], bd_telemetry = []\<rparr>) (sample_second sample_first)"
  "sy_calls (sample_second sample_first) = [Calling sample_admission (Some \<lparr>lr_day = 0, lr_token = ''b'', lr_limit = 5\<rparr>),
     Calling sample_admission (Some \<lparr>lr_day = 1, lr_token = ''e'', lr_limit = 5\<rparr>)]"
  by (rule sample_second_reach [OF _ _ _ sample_first_reached], simp_all add: sample_first_is sample_second_is)

lemma sample_api: "ba_plane sample_admission = ''api''"
  by (simp add: sample_admission_def)

theorem metered_calls_exclusive_witness:
  "\<exists>r r'. Some \<lparr>lr_day = 0, lr_token = ''b'', lr_limit = 5\<rparr> = Some r \<and> Some \<lparr>lr_day = 1, lr_token = ''e'', lr_limit = 5\<rparr> = Some r'
    \<and> lr_day r \<noteq> lr_day r'"
  by (rule metered_calls_exclusive [OF sample_running(1) sample_metered sample_float_sums _ _ _ _ sample_api _ _ sample_api,
        where i = 0 and j = 1]) (simp_all add: sample_running float_rows_def)

definition sample_cancelled :: system where
  "sample_cancelled = step_call sample_ce 0 (sample_tick 0 ''z'') sample_first"

lemma sample_cancelled_is:
  "sy_now sample_cancelled = 0" "sy_calls sample_cancelled = [Ended Cancelled, Checking ''api'' None None]"
  "sy_shared sample_cancelled = sy_shared sample_first" "sy_granted sample_cancelled = (''z'', 0) # sy_granted sample_first"
  by (simp_all add: sample_cancelled_def sample_first_is step_call_def call_step_def sample_tick_def
      breaker_abandon_probe_def sample_admission_def)

theorem unreceipted_call_closes_day_witness:
  "lr_day \<lparr>lr_day = 1, lr_token = ''e'', lr_limit = 5\<rparr> \<noteq> lr_day \<lparr>lr_day = 0, lr_token = ''b'', lr_limit = 5\<rparr>"
proof (rule unreceipted_call_closes_day [OF sample_first_reached sample_float_sums, where i = 0 and j = 1
      and t = "sample_tick 0 ''z''", folded sample_cancelled_def])
  show "sys_reach sample_ce sample_cancelled (sample_second sample_cancelled)"
    by (rule sample_second_reach [OF _ _ _ sys_reach.start]) (simp_all add: sample_cancelled_is sample_first_is)
  show "sy_calls (sample_second sample_cancelled) ! 1 = Calling sample_admission (Some \<lparr>lr_day = 1, lr_token = ''e'', lr_limit = 5\<rparr>)"
    "1 < length (sy_calls (sample_second sample_cancelled))"
    by (simp_all add: sample_cancelled_is sample_first_is sample_second_is)
qed (simp_all add: sample_first_is sample_tick_def unreceipted_def float_rows_def)

end
