(* ===== verification/Cabinet_Uri.thy ===== *)
theory Cabinet_Uri
  imports Url_Quote
begin

text \<open>
  \<open>cabinet/uri.py\<close> and the containment part of \<open>cabinet/wiki.py\<close>: the addresses of the knowledge cabinet and
  the directories they name. An error is the text of the \<open>CabinetUriError\<close>. \<open>lossy\<close> is what \<open>bytes.decode\<close>
  with \<open>errors="replace"\<close> makes of bytes that are not UTF-8.
\<close>

record cabinet_uri =
  cu_scope :: string
  cu_kind :: string
  cu_path :: string

definition SCHEME :: string where "SCHEME = ''unigrok://''"

definition KINDS :: "string list" where
  "KINDS = [''memories'', ''resources'', ''skills'', ''peers'', ''sessions'']"

definition PATH_MAX_BYTES :: nat where "PATH_MAX_BYTES = 512"

definition is_slash :: "char \<Rightarrow> bool" where "is_slash c \<longleftrightarrow> c = CHR ''/''"

definition strip_slash :: "string \<Rightarrow> string" where "strip_slash s = strip_by is_slash s"

definition slash_parts :: "string \<Rightarrow> string list" where "slash_parts s = split_on CHR ''/'' [] s"

definition dots :: "string list" where "dots = [''.'', ''..'']"

definition has_nul_or_backslash :: "string \<Rightarrow> bool" where
  "has_nul_or_backslash s \<longleftrightarrow> CHR 0x00 \<in> set s \<or> CHR 0x5C \<in> set s"

definition is_dir :: "cabinet_uri \<Rightarrow> bool" where
  "is_dir u \<longleftrightarrow> cu_path u = [] \<or> ends_with ''/'' (cu_path u)"

definition normalized_path :: "cabinet_uri \<Rightarrow> string" where
  "normalized_path u = strip_slash (cu_path u)"

text \<open>\<open>rest.rpartition("/")\<close>: what is before the last slash.\<close>

definition before_last_slash :: "string \<Rightarrow> string" where
  "before_last_slash s = rev (tl (dropWhile (\<lambda>c. \<not> is_slash c) (rev s)))"

definition uri_parent :: "cabinet_uri \<Rightarrow> cabinet_uri option" where
  "uri_parent u =
    (let rest = normalized_path u in
     if rest = [] then None
     else if CHR ''/'' \<notin> set rest then Some (u\<lparr>cu_path := []\<rparr>)
     else Some (u\<lparr>cu_path := before_last_slash rest\<rparr>))"

definition uri_child :: "cabinet_uri \<Rightarrow> string \<Rightarrow> string + cabinet_uri" where
  "uri_child u name =
    (let piece = strip_slash (str_strip name) in
     if piece = [] \<or> CHR ''/'' \<in> set piece \<or> piece \<in> set dots
     then Inl ''child name must be a single path segment''
     else let rest = normalized_path u in
       Inr (u\<lparr>cu_path := (if rest = [] then piece else rest @ ''/'' @ piece)\<rparr>))"

definition valid_scope :: "string \<Rightarrow> string + string" where
  "valid_scope s =
    (let text = str_strip s in
     if text = [] \<or> has_nul_or_backslash text \<or> 128 < char_len text then Inl ''scope is invalid''
     else if list_ex (\<lambda>p. p \<in> set dots \<or> p = []) (slash_parts text) then Inl ''scope is invalid''
     else Inr text)"

definition valid_segment :: "string \<Rightarrow> string + string" where
  "valid_segment s =
    (if s = [] \<or> s \<in> set dots \<or> CHR ''/'' \<in> set s \<or> has_nul_or_backslash s
     then Inl ''path must not contain empty, . or .. segments, slash, or NUL'' else Inr s)"

definition fs_segment :: "string \<Rightarrow> string + string" where
  "fs_segment s =
    (if s = [] \<or> has_nul_or_backslash s then Inl ''invalid filesystem segment''
     else if s \<in> set dots \<or> list_ex (\<lambda>p. p \<in> set dots \<or> p = []) (slash_parts s) then Inl ''invalid filesystem segment''
     else Inr (url_quote s))"

text \<open>The list comprehension over segments: the first failure is raised.\<close>

fun each_ok :: "('a \<Rightarrow> string + 'b) \<Rightarrow> 'a list \<Rightarrow> string + 'b list" where
  "each_ok f [] = Inr []"
| "each_ok f (x # xs) =
     (case f x of Inl e \<Rightarrow> Inl e
      | Inr y \<Rightarrow> (case each_ok f xs of Inl e \<Rightarrow> Inl e | Inr ys \<Rightarrow> Inr (y # ys)))"

definition quoted_segment :: "string \<Rightarrow> string + string" where
  "quoted_segment s = map_sum id url_quote (valid_segment s)"

definition format_uri :: "string \<Rightarrow> string \<Rightarrow> string \<Rightarrow> string + string" where
  "format_uri scope kind path =
    (let k = str_strip kind in
     if k \<notin> set KINDS then Inl ''kind must be one of the cabinet kinds''
     else case valid_scope (str_strip scope) of
         Inl e \<Rightarrow> Inl e
       | Inr sc \<Rightarrow>
           (let rest = strip_slash path; base = SCHEME @ url_quote sc @ ''/'' @ k in
            if rest = [] then Inr base
            else if PATH_MAX_BYTES < length rest then Inl ''path exceeds 512 bytes''
            else map_sum id (\<lambda>parts. base @ ''/'' @ join ''/'' parts) (each_ok quoted_segment (slash_parts rest))))"

definition py_unquote :: "(string \<Rightarrow> string) \<Rightarrow> string \<Rightarrow> string" where
  "py_unquote lossy s = (let b = url_unquote s in if utf8_ok b then b else lossy b)"

definition parse_uri :: "(string \<Rightarrow> string) \<Rightarrow> string \<Rightarrow> string + cabinet_uri" where
  "parse_uri lossy v =
    (let raw = str_strip v in
     if \<not> starts_with SCHEME raw then Inl ''URI must start with unigrok://''
     else let body = drop (length SCHEME) raw in
       if body = [] \<or> starts_with ''/'' body then Inl ''URI is missing a scope''
       else case slash_parts body of
           sc # k # segs \<Rightarrow>
             (case valid_scope (py_unquote lossy sc) of
                Inl e \<Rightarrow> Inl e
              | Inr scope \<Rightarrow>
                  (let kind = py_unquote lossy k in
                   if kind \<notin> set KINDS then Inl ''kind must be one of the cabinet kinds''
                   else case each_ok (\<lambda>p. valid_segment (py_unquote lossy p)) (filter (\<lambda>p. p \<noteq> []) segs) of
                       Inl e \<Rightarrow> Inl e
                     | Inr xs \<Rightarrow>
                         (let path = join ''/'' xs in
                          if PATH_MAX_BYTES < length path then Inl ''path exceeds 512 bytes''
                          else Inr \<lparr>cu_scope = scope, cu_kind = kind, cu_path = path\<rparr>)))
         | _ \<Rightarrow> Inl ''URI must include a kind'')"

definition name_path :: "string \<Rightarrow> string \<Rightarrow> string + string" where
  "name_path v leaf =
    (let text = strip_slash (str_strip v) in
     if text = [] then Inl ''name is required''
     else map_sum id (\<lambda>safe. join ''/'' (safe @ [leaf])) (each_ok valid_segment (slash_parts text)))"

definition fact_uri :: "string \<Rightarrow> int \<Rightarrow> cabinet_uri" where
  "fact_uri scope n = \<lparr>cu_scope = scope, cu_kind = ''memories'', cu_path = ''facts/'' @ str_int n\<rparr>"

definition handoff_uri :: "string \<Rightarrow> string \<Rightarrow> string + cabinet_uri" where
  "handoff_uri scope session =
    map_sum id (\<lambda>p. \<lparr>cu_scope = scope, cu_kind = ''sessions'', cu_path = p\<rparr>) (name_path session ''handoff'')"

definition peer_last_job_uri :: "string \<Rightarrow> string \<Rightarrow> string + cabinet_uri" where
  "peer_last_job_uri scope seat =
    map_sum id (\<lambda>p. \<lparr>cu_scope = scope, cu_kind = ''peers'', cu_path = p\<rparr>) (name_path seat ''last-job'')"

text \<open>\<open>WikiStore.node_dir\<close>: the components below the cabinet's root.\<close>

definition node_dir :: "cabinet_uri \<Rightarrow> string + string list" where
  "node_dir u =
    (case fs_segment (cu_scope u) of
       Inl e \<Rightarrow> Inl e
     | Inr sc \<Rightarrow>
         (let rest = normalized_path u in
          if rest = [] then Inr [sc, cu_kind u]
          else map_sum id (\<lambda>parts. [sc, cu_kind u] @ parts) (each_ok fs_segment (slash_parts rest))))"

text \<open>\<open>WikiStore.leaf_path\<close>: the directory's name with \<open>.md\<close>, or the index of the kind's directory.\<close>

definition leaf_path :: "cabinet_uri \<Rightarrow> string + string list" where
  "leaf_path u =
    map_sum id (\<lambda>d. if normalized_path u \<noteq> [] then butlast d @ [last d @ ''.md''] else d @ [''INDEX.md'']) (node_dir u)"

subsection \<open>Splitting and joining\<close>

lemma split_on_append: "sep \<notin> set x \<Longrightarrow> split_on sep acc (x @ sep # s) = (rev acc @ x) # split_on sep [] s"
  by (induction x arbitrary: acc) auto

lemma split_on_single: "sep \<notin> set x \<Longrightarrow> split_on sep acc x = [rev acc @ x]"
  by (induction x arbitrary: acc) auto

lemma slash_parts_join:
  "xs \<noteq> [] \<Longrightarrow> \<forall>x \<in> set xs. CHR ''/'' \<notin> set x \<Longrightarrow> slash_parts (join ''/'' xs) = xs"
  by (induction "''/''" xs rule: join.induct) (auto simp: slash_parts_def split_on_single split_on_append)

lemma split_on_nonempty [simp]: "split_on sep acc s \<noteq> []"
  by (induction s arbitrary: acc) auto

lemma join_Cons: "xs \<noteq> [] \<Longrightarrow> join sep (x # xs) = x @ sep @ join sep xs"
  by (cases xs) auto

lemma split_on_join: "join [sep] (split_on sep acc s) = rev acc @ s"
  by (induction s arbitrary: acc) (auto simp: join_Cons)

lemma split_on_parts: "x \<in> set (split_on sep acc s) \<Longrightarrow> sep \<notin> set acc \<Longrightarrow> sep \<notin> set x"
proof (induction s arbitrary: acc)
  case (Cons c s)
  show ?case
  proof (cases "c = sep")
    case True
    then show ?thesis using Cons.prems Cons.IH [of "[]"] by auto
  next
    case False
    then show ?thesis using Cons.prems Cons.IH [of "c # acc"] by auto
  qed
qed simp

lemma join_slash_parts [simp]: "join ''/'' (slash_parts s) = s"
  by (simp add: slash_parts_def split_on_join)

lemma slash_parts_no_slash: "x \<in> set (slash_parts s) \<Longrightarrow> CHR ''/'' \<notin> set x"
  by (simp add: slash_parts_def split_on_parts)

lemma slash_parts_nonempty [simp]: "slash_parts s \<noteq> []"
  by (simp add: slash_parts_def)

lemma each_ok_iff: "each_ok f xs = Inr ys \<longleftrightarrow> list_all2 (\<lambda>x y. f x = Inr y) xs ys"
proof (induction xs arbitrary: ys)
  case step: (Cons a xs)
  show ?case
  proof (cases ys)
    case Nil
    then show ?thesis by (simp split: sum.split)
  next
    case (Cons y zs)
    then show ?thesis using step [of zs] by (cases "f a"; cases "each_ok f xs") simp_all
  qed
qed auto

lemma each_ok_Inr: "(\<And>x. x \<in> set xs \<Longrightarrow> f x = Inr (g x)) \<Longrightarrow> each_ok f xs = Inr (map g xs)"
  by (induction xs) auto

lemma each_ok_values:
  assumes "each_ok f xs = Inr ys" "\<And>x y. f x = Inr y \<Longrightarrow> y = g x"
  shows "ys = map g xs" "x \<in> set xs \<Longrightarrow> \<exists>y. f x = Inr y"
  using assms by (auto simp: each_ok_iff list_all2_conv_all_nth in_set_conv_nth intro!: nth_equalityI)

subsection \<open>Addresses and directories\<close>

lemma valid_scope_Inr: "valid_scope s = Inr t \<Longrightarrow> t = str_strip s"
  by (auto simp: valid_scope_def Let_def split: if_splits)

lemma valid_scope_idem: "valid_scope s = Inr t \<Longrightarrow> valid_scope t = Inr t"
  by (auto simp: valid_scope_def Let_def split: if_splits)

lemma valid_segment_Inr: "valid_segment s = Inr t \<Longrightarrow> t = s"
  by (auto simp: valid_segment_def split: if_splits)

lemma valid_segment_ok: "valid_segment s = Inr t \<Longrightarrow> s \<noteq> [] \<and> s \<notin> set dots \<and> CHR ''/'' \<notin> set s"
  by (auto simp: valid_segment_def split: if_splits)

lemma quoted_segment_Inr: "quoted_segment s = Inr q \<Longrightarrow> q = url_quote s \<and> valid_segment s = Inr s"
  by (cases "valid_segment s") (auto simp: quoted_segment_def dest: valid_segment_Inr)

text \<open>The directory of a segment is one component, not a special one, and names the segment.\<close>

definition safe_component :: "string \<Rightarrow> bool" where
  "safe_component d \<longleftrightarrow> d \<noteq> [] \<and> d \<noteq> ''.'' \<and> d \<noteq> ''..'' \<and> CHR ''/'' \<notin> set d \<and> CHR 0x00 \<notin> set d"

lemma quote_dots: "url_quote ''.'' = ''.''" "url_quote ''..'' = ''..''"
  by code_simp+

lemma quote_no_nul: "CHR 0x00 \<notin> set (url_quote s)"
  using quote_set by (fastforce simp: url_safe_def is_alnum_def is_upper_def is_lower_def is_digit_def in_range_def code_def)

lemma quote_safe: "s \<noteq> [] \<Longrightarrow> s \<notin> set dots \<Longrightarrow> safe_component (url_quote s)"
  using quote_inject [of s "''.''"] quote_inject [of s "''..''"]
  by (auto simp: safe_component_def dots_def quote_dots quote_no_slash quote_no_nul)

lemma fs_segment_Inr:
  assumes "fs_segment s = Inr d"
  shows "d = url_quote s" "safe_component d"
  using assms by (auto simp: fs_segment_def intro: quote_safe split: if_splits)

subsection \<open>An address read back\<close>

lemma strip_no_space: "(\<And>c. c \<in> set s \<Longrightarrow> \<not> is_space c) \<Longrightarrow> str_strip s = s"
  by (cases "s = []") (simp add: str_strip_def strip_by_def, simp add: strip_fixed)

lemma join_not_space:
  "(\<And>c. c \<in> set sep \<Longrightarrow> \<not> is_space c) \<Longrightarrow> (\<And>x c. x \<in> set xs \<Longrightarrow> c \<in> set x \<Longrightarrow> \<not> is_space c) \<Longrightarrow>
   c \<in> set (join sep xs) \<Longrightarrow> \<not> is_space c"
proof (induction sep xs rule: join.induct)
  case (3 sep x y xs)
  then show ?case by (auto simp del: join.simps(3) simp: join_Cons)
qed auto

lemma kinds_plain: "\<forall>k \<in> set KINDS. CHR ''/'' \<notin> set k \<and> (\<forall>c \<in> set k. \<not> is_space c) \<and> url_unquote k = k \<and> utf8_ok k \<and> k \<noteq> []"
  by code_simp

lemma scheme_plain: "\<forall>c \<in> set SCHEME. \<not> is_space c" "\<not> is_space CHR ''/''"
  by code_simp+

lemma py_unquote_quote: "utf8_ok s \<Longrightarrow> py_unquote lossy (url_quote s) = s"
  by (simp add: py_unquote_def unquote_quote)

lemma py_unquote_kind: "k \<in> set KINDS \<Longrightarrow> py_unquote lossy k = k"
  using kinds_plain by (auto simp: py_unquote_def)

lemma starts_with_prefix: "starts_with p (p @ s)"
  by (simp add: starts_with_def)

lemma parse_parts:
  assumes k: "k \<in> set KINDS" and sc: "valid_scope sc = Inr sc" "utf8_ok sc" "sc \<noteq> []"
    and ps: "\<forall>p \<in> set ps. valid_segment p = Inr p \<and> utf8_ok p" and len: "length (join ''/'' ps) \<le> PATH_MAX_BYTES"
  shows "parse_uri lossy (SCHEME @ join ''/'' (url_quote sc # k # map url_quote ps)) =
    Inr \<lparr>cu_scope = sc, cu_kind = k, cu_path = join ''/'' ps\<rparr>"
proof -
  let ?parts = "url_quote sc # k # map url_quote ps"
  let ?body = "join ''/'' ?parts"
  have clean: "x \<in> set ?parts \<Longrightarrow> c \<in> set x \<Longrightarrow> \<not> is_space c" for x c
    using k kinds_plain quote_not_space by auto
  have "\<not> is_space c" if "c \<in> set (SCHEME @ ?body)" for c
    using that scheme_plain join_not_space [of "''/''" ?parts c] clean by auto
  then have strip: "str_strip (SCHEME @ ?body) = SCHEME @ ?body" by (rule strip_no_space)
  have no_slash: "\<forall>x \<in> set ?parts. CHR ''/'' \<notin> set x"
    using k kinds_plain quote_no_slash by auto
  have split: "slash_parts ?body = ?parts" by (rule slash_parts_join) (use no_slash in auto)
  obtain c cs where q: "url_quote sc = c # cs" using sc(3) by (cases "url_quote sc") auto
  with no_slash have "c \<noteq> CHR ''/''" by auto
  then have body: "?body \<noteq> []" "\<not> starts_with ''/'' ?body" by (simp_all add: q starts_with_def)
  have keep: "filter (\<lambda>p. p \<noteq> []) (map url_quote ps) = map url_quote ps"
    using ps by (auto simp: filter_id_conv dest: valid_segment_ok)
  have "each_ok (\<lambda>p. valid_segment (py_unquote lossy p)) (map url_quote ps) = Inr ps"
    using ps by (auto simp: each_ok_iff list_all2_map1 py_unquote_quote intro!: list.rel_refl_strong)
  then show ?thesis
    using k sc(1,2) body len keep
    by (simp add: parse_uri_def strip starts_with_prefix split py_unquote_quote py_unquote_kind Let_def del: join.simps)
qed

lemma format_parts:
  assumes "format_uri scope kind path = Inr s" and p: "list_all utf8_ok (slash_parts (strip_slash path))"
  obtains sc ps where "valid_scope (str_strip scope) = Inr sc" "str_strip kind \<in> set KINDS"
    "join ''/'' ps = strip_slash path" "length (strip_slash path) \<le> PATH_MAX_BYTES"
    "\<forall>p \<in> set ps. valid_segment p = Inr p \<and> utf8_ok p"
    "s = SCHEME @ join ''/'' (url_quote sc # str_strip kind # map url_quote ps)"
proof -
  have k: "str_strip kind \<in> set KINDS" using assms(1) by (auto simp: format_uri_def Let_def split: if_splits)
  obtain sc where sc: "valid_scope (str_strip scope) = Inr sc"
    using assms(1) k by (auto simp: format_uri_def Let_def split: sum.splits)
  show ?thesis
  proof (cases "strip_slash path = []")
    case True
    then show ?thesis using that [OF sc k, of "[]"] assms(1) sc k by (simp add: format_uri_def Let_def)
  next
    case False
    let ?ps = "slash_parts (strip_slash path)"
    obtain qs where qs: "each_ok quoted_segment ?ps = Inr qs"
      and s: "s = SCHEME @ url_quote sc @ ''/'' @ str_strip kind @ ''/'' @ join ''/'' qs"
      and len: "length (strip_slash path) \<le> PATH_MAX_BYTES"
      using assms(1) sc k False by (cases "each_ok quoted_segment ?ps") (auto simp: format_uri_def Let_def split: if_splits)
    have ok: "\<forall>p \<in> set ?ps. valid_segment p = Inr p \<and> utf8_ok p"
      using each_ok_values(2) [OF qs, of url_quote] quoted_segment_Inr p by (fastforce simp: list_all_iff)
    have "qs = map url_quote ?ps"
      using each_ok_values(1) [OF qs, of url_quote] quoted_segment_Inr by blast
    with s have "s = SCHEME @ join ''/'' (url_quote sc # str_strip kind # map url_quote ?ps)"
      by (simp add: join_Cons)
    with that [OF sc k, of ?ps] ok len show ?thesis by simp
  qed
qed

text \<open>C39. An address that \<open>format_uri\<close> prints is read back by \<open>parse_uri\<close> to the scope, the kind and the path it was
  printed from (without the blanks and the slashes around them), whatever the bytes of the names are.\<close>

theorem uri_roundtrip:
  assumes "format_uri scope kind path = Inr s"
    and "utf8_ok (str_strip scope)" "list_all utf8_ok (slash_parts (strip_slash path))"
  shows "parse_uri lossy s = Inr \<lparr>cu_scope = str_strip scope, cu_kind = str_strip kind, cu_path = strip_slash path\<rparr>"
proof -
  obtain sc ps where f: "valid_scope (str_strip scope) = Inr sc" "str_strip kind \<in> set KINDS"
    "join ''/'' ps = strip_slash path" "length (strip_slash path) \<le> PATH_MAX_BYTES"
    "\<forall>p \<in> set ps. valid_segment p = Inr p \<and> utf8_ok p"
    "s = SCHEME @ join ''/'' (url_quote sc # str_strip kind # map url_quote ps)"
    by (rule format_parts [OF assms(1,3)])
  have sc: "sc = str_strip scope" using valid_scope_Inr [OF f(1)] by simp
  then have "sc \<noteq> []" using f(1) by (auto simp: valid_scope_def Let_def)
  with parse_parts [of "str_strip kind" sc ps lossy] f sc assms(2) show ?thesis by (simp add: valid_scope_idem del: join.simps)
qed

theorem uri_roundtrip_witness:
  "parse_uri (\<lambda>b. b) ''unigrok://a%3Ab/peers/x%20y/%25''
    = Inr \<lparr>cu_scope = ''a:b'', cu_kind = ''peers'', cu_path = ''x y/%''\<rparr>"
proof -
  have "format_uri '' a:b'' ''peers'' ''/x y/%/'' = Inr ''unigrok://a%3Ab/peers/x%20y/%25''"
    "str_strip '' a:b'' = ''a:b''" "str_strip ''peers'' = ''peers''" "strip_slash ''/x y/%/'' = ''x y/%''"
    "utf8_ok ''a:b''" "list_all utf8_ok (slash_parts ''x y/%'')"
    by code_simp+
  then show ?thesis using uri_roundtrip [of "'' a:b''" "''peers''" "''/x y/%/''" _ "\<lambda>b. b"] by simp
qed

text \<open>Every directory the cabinet uses lies below its root, component by component: no component of it but the kind is
  empty, special or holds a slash, and two addresses with the same directory have the same scope, kind and path.\<close>

theorem directories_contained_and_distinct:
  assumes "node_dir u = Inr d"
  shows "\<exists>rest. d = url_quote (cu_scope u) # cu_kind u # rest
      \<and> list_all safe_component (url_quote (cu_scope u) # rest)
      \<and> (node_dir v = Inr d \<longrightarrow>
           cu_scope v = cu_scope u \<and> cu_kind v = cu_kind u \<and> normalized_path v = normalized_path u)"
proof -
  have parts: "\<exists>rest. d = url_quote (cu_scope w) # cu_kind w # rest \<and> list_all safe_component (url_quote (cu_scope w) # rest)
      \<and> rest = (if normalized_path w = [] then [] else map url_quote (slash_parts (normalized_path w)))"
    if w: "node_dir w = Inr d" for w
  proof -
    obtain sc where sc: "fs_segment (cu_scope w) = Inr sc" using w by (auto simp: node_dir_def split: sum.splits)
    show ?thesis
    proof (cases "normalized_path w = []")
      case True
      with w sc fs_segment_Inr [OF sc] show ?thesis by (simp add: node_dir_def Let_def)
    next
      case False
      let ?ps = "slash_parts (normalized_path w)"
      obtain qs where qs: "each_ok fs_segment ?ps = Inr qs" and d: "d = [sc, cu_kind w] @ qs"
        using w sc False by (cases "each_ok fs_segment ?ps") (auto simp: node_dir_def Let_def)
      have q: "qs = map url_quote ?ps" using each_ok_values(1) [OF qs, of url_quote] fs_segment_Inr by blast
      have "list_all safe_component qs"
        using each_ok_values(2) [OF qs, of url_quote] fs_segment_Inr
        by (force simp: q list_all_iff)
      with q d fs_segment_Inr [OF sc] False show ?thesis by simp
    qed
  qed
  have same: "slash_parts a = slash_parts b \<Longrightarrow> a = b" for a b
    by (metis join_slash_parts)
  have "cu_scope v = cu_scope u \<and> cu_kind v = cu_kind u \<and> normalized_path v = normalized_path u" if v: "node_dir v = Inr d"
    using parts [OF assms] parts [OF v] by (auto simp: inj_map_eq_map inj_def dest: same split: if_splits)
  with parts [OF assms] show ?thesis by blast
qed

theorem directories_contained_and_distinct_witness:
  "node_dir \<lparr>cu_scope = ''a:b'', cu_kind = ''peers'', cu_path = ''/x/y''\<rparr> = Inr [''a%3Ab'', ''peers'', ''x'', ''y'']
    \<and> list_all safe_component [''a%3Ab'', ''x'', ''y'']"
proof -
  let ?u = "\<lparr>cu_scope = ''a:b'', cu_kind = ''peers'', cu_path = ''/x/y''\<rparr>"
  have d: "node_dir ?u = Inr [''a%3Ab'', ''peers'', ''x'', ''y'']" "url_quote ''a:b'' = ''a%3Ab''"
    by code_simp+
  from directories_contained_and_distinct [OF d(1), of ?u] d show ?thesis by simp
qed

end
