(* ===== verification/Cabinet_Text.thy ===== *)
theory Cabinet_Text
  imports Cabinet_Uri Py_Float Py_Convert
begin

text \<open>
  \<open>cabinet/layers.py\<close> and \<open>cabinet/compile.py\<close>: the token estimate, clipping, the abstracts made without a
  model, and the compilation of a session's turns into events and one handoff.
\<close>

definition TOKEN_L0 :: int where "TOKEN_L0 = 100"
definition TOKEN_L1 :: int where "TOKEN_L1 = 2000"
definition FRESH_THETA :: int where "FRESH_THETA = 3"
definition FRESH_DELTA_S :: rat where "FRESH_DELTA_S = 300"

definition space_join :: "string list \<Rightarrow> string" where "space_join ws = join '' '' ws"

text \<open>\<open>math.ceil(n * 1.3)\<close>, on floats.\<close>

definition words_cost :: "nat \<Rightarrow> int" where
  "words_cost n = \<lceil>float_round (of_nat n * float_round (13 / 10))\<rceil>"

definition estimate_tokens :: "string \<Rightarrow> int" where
  "estimate_tokens text = (let n = length (str_split text) in if n = 0 then 0 else max 1 (words_cost n))"

fun clip_words :: "int \<Rightarrow> string list \<Rightarrow> string list \<Rightarrow> string list" where
  "clip_words cap kept [] = kept"
| "clip_words cap kept (w # ws) =
     (if kept \<noteq> [] \<and> cap < estimate_tokens (space_join (kept @ [w])) then kept
      else let kept' = kept @ [w] in
        if cap \<le> estimate_tokens (space_join kept') then kept' else clip_words cap kept' ws)"

definition clip_tokens :: "string \<Rightarrow> int \<Rightarrow> string" where
  "clip_tokens text limit =
    (let ws = str_split text in if ws = [] then [] else space_join (clip_words (max 1 limit) [] ws))"

definition sentence_end :: "char \<Rightarrow> bool" where "sentence_end c \<longleftrightarrow> c \<in> set ''.!?''"

definition first_sentence :: "string \<Rightarrow> string" where
  "first_sentence text =
    (let raw = space_join (str_split text) in
     case dropWhile (\<lambda>c. \<not> sentence_end c) raw of
       [] \<Rightarrow> raw
     | c # _ \<Rightarrow> str_strip (takeWhile (\<lambda>c. \<not> sentence_end c) raw @ [c]))"

definition CABINET_TERM :: re where
  "CABINET_TERM = Seq (Chr is_word) (plus (Chr is_word))"

fun first_terms :: "nat \<Rightarrow> string list \<Rightarrow> string list \<Rightarrow> string list" where
  "first_terms limit out [] = out"
| "first_terms limit out (m # ms) =
     (if m \<in> set out then first_terms limit out ms
      else let out' = out @ [m] in if limit \<le> length out' then out' else first_terms limit out' ms)"

definition cabinet_terms :: "string \<Rightarrow> string list" where
  "cabinet_terms text = first_terms 8 [] (re_findall CABINET_TERM (str_lower text))"

definition zero_llm_l0 :: "string \<Rightarrow> int \<Rightarrow> string" where
  "zero_llm_l0 text limit =
    (let sentence = first_sentence text; ts = cabinet_terms text; extra = space_join ts;
         sentence' = (if ts \<noteq> [] \<and> \<not> contains (str_lower extra) (str_lower sentence)
           then (if sentence \<noteq> [] then sentence @ '' ['' @ extra @ '']'' else extra) else sentence)
     in clip_tokens sentence' limit)"

definition zero_llm_l1 :: "string \<Rightarrow> string list \<Rightarrow> int \<Rightarrow> string" where
  "zero_llm_l1 title abstracts limit =
    (let t = str_strip title;
         head = ''# '' @ (if t \<noteq> [] then t else ''directory'');
         clipped = filter (\<lambda>c. c \<noteq> []) (map (\<lambda>a. clip_tokens a 40) abstracts);
         lines = head # (if abstracts = [] then [] else ''## Children'' # map (\<lambda>c. ''- '' @ c) clipped)
     in clip_tokens (join NEWLINE lines) limit)"

definition should_refresh :: "int \<Rightarrow> rat \<Rightarrow> bool" where
  "should_refresh pending age \<longleftrightarrow> FRESH_THETA \<le> pending \<or> FRESH_DELTA_S \<le> age"

subsection \<open>Sessions\<close>

definition HANDOFF_LIMIT :: int where "HANDOFF_LIMIT = 240"
definition EVENT_BODY_LIMIT :: nat where "EVENT_BODY_LIMIT = 16384"
definition ORIGIN_PREFIX :: string where "ORIGIN_PREFIX = ''ugcab-v1:''"

definition EVENT_KINDS :: "string list" where
  "EVENT_KINDS = [''session-start'', ''user-prompt'', ''tool'', ''compact'', ''session-end'', ''remember'', ''peer-cream'', ''other'']"

definition origin_marker :: "string \<Rightarrow> py_error + string" where
  "origin_marker qid =
    (let token = str_strip qid in if token = [] then Inl (ValueError ''qid is required'') else Inr (ORIGIN_PREFIX @ token))"

definition contains_origin :: "string \<Rightarrow> bool" where
  "contains_origin text \<longleftrightarrow> contains ORIGIN_PREFIX text"

definition rule_summary :: "string \<Rightarrow> int \<Rightarrow> string" where
  "rule_summary text limit = zero_llm_l0 text (max 8 limit)"

text \<open>\<open>hay.replace(needle, new, 1)\<close>.\<close>

fun replace_once :: "string \<Rightarrow> string \<Rightarrow> string \<Rightarrow> string" where
  "replace_once needle new [] = (if needle = [] then new else [])"
| "replace_once needle new (c # cs) =
     (if starts_with needle (c # cs) then new @ drop (length needle) (c # cs) else c # replace_once needle new cs)"

definition eua_patch :: "string \<Rightarrow> string \<Rightarrow> string \<Rightarrow> string" where
  "eua_patch hay needle new = (if needle = [] \<or> \<not> contains needle hay then hay else replace_once needle new hay)"

definition event_kind :: "string \<Rightarrow> string" where
  "event_kind role =
    (let lowered = str_lower (str_strip role) in
     if lowered = ''user'' then ''user-prompt'' else if lowered \<in> set EVENT_KINDS then lowered else ''other'')"

text \<open>\<open>content.encode()[:n].decode(errors="ignore")\<close>: the whole characters that fit.\<close>

definition char_bytes :: "char \<Rightarrow> nat" where
  "char_bytes c = (if code c < 192 then 1 else if code c < 224 then 2 else if code c < 240 then 3 else 4)"

function utf8_take :: "nat \<Rightarrow> string \<Rightarrow> string" where
  "utf8_take n [] = []"
| "utf8_take n (c # cs) =
     (let k = char_bytes c in
      if k \<le> n then take k (c # cs) @ utf8_take (n - k) (drop k (c # cs)) else [])"
  by pat_completeness auto
termination by (relation "measure (\<lambda>(n, s). length s)") (auto simp: char_bytes_def)

record turn_event =
  tv_kind :: string
  tv_role :: string
  tv_body :: string

record compiled_session =
  cs_session :: string
  cs_scope :: string
  cs_uri :: string
  cs_from_seat :: string
  cs_to_seat :: string
  cs_events :: "turn_event list"
  cs_handoff :: string
  cs_observation :: string

definition turn_role :: "pylib \<Rightarrow> doc \<Rightarrow> string" where
  "turn_role lib raw = str_of lib (or_else (dget raw ''role'') (JStr ''other''))"

definition turn_content :: "pylib \<Rightarrow> doc \<Rightarrow> string" where
  "turn_content lib raw = text_or_empty lib (dget raw ''content'')"

definition turn_event_of :: "pylib \<Rightarrow> doc \<Rightarrow> turn_event option" where
  "turn_event_of lib raw =
    (let role = turn_role lib raw; content = turn_content lib raw in
     if contains_origin content then None
     else let body = utf8_take EVENT_BODY_LIMIT content in
       if str_strip body = [] then None
       else Some \<lparr>tv_kind = event_kind role, tv_role = role, tv_body = body\<rparr>)"

definition last_of_role :: "string \<Rightarrow> turn_event list \<Rightarrow> string" where
  "last_of_role role evs = (case find (\<lambda>e. tv_role e = role) (rev evs) of Some e \<Rightarrow> tv_body e | None \<Rightarrow> [])"

text \<open>\<open>digest\<close> is \<open>observation_hash\<close>: the SHA-256 of the JSON of the kept turns, keys sorted.\<close>

definition kept_json :: "turn_event list \<Rightarrow> json" where
  "kept_json evs = JArr (map (\<lambda>e. JObj [(''role'', JStr (tv_role e)), (''content'', JStr (tv_body e))]) evs)"

definition observation_hash :: "pylib \<Rightarrow> (json \<Rightarrow> string) \<Rightarrow> json \<Rightarrow> string" where
  "observation_hash lib dumps_sorted payload = sha256 lib (dumps_sorted payload)"

definition compile_session ::
  "pylib \<Rightarrow> (json \<Rightarrow> string) \<Rightarrow> string \<Rightarrow> doc list \<Rightarrow> string \<Rightarrow> string \<Rightarrow> string \<Rightarrow> string + compiled_session" where
  "compile_session lib dumps_sorted session turns scope from_seat to_seat =
    (let name = str_strip session in
     if name = [] then Inl ''session is required''
     else
       let evs = List.map_filter (turn_event_of lib) turns;
           last_user = last_of_role ''user'' evs; last_assistant = last_of_role ''assistant'' evs;
           handoff = rule_summary (space_join (filter (\<lambda>p. p \<noteq> []) [last_user, last_assistant])) HANDOFF_LIMIT
       in case handoff_uri scope name of
            Inl e \<Rightarrow> Inl e
          | Inr u \<Rightarrow>
              (case format_uri (cu_scope u) (cu_kind u) (cu_path u) of
                 Inl e \<Rightarrow> Inl e
               | Inr shown \<Rightarrow> Inr \<lparr>cs_session = name, cs_scope = scope, cs_uri = shown, cs_from_seat = from_seat,
                   cs_to_seat = to_seat, cs_events = evs, cs_handoff = handoff,
                   cs_observation = observation_hash lib dumps_sorted (kept_json evs)\<rparr>))"

definition peer_last_job_markdown :: "string \<Rightarrow> string \<Rightarrow> string \<Rightarrow> string" where
  "peer_last_job_markdown seat job next_step =
    (let name = (if str_strip seat \<noteq> [] then str_strip seat else ''peer'');
         body = (if str_strip job \<noteq> [] then str_strip job else ''(empty)'');
         step = str_strip next_step;
         lines = [''# '' @ name @ '' last-job'', [], body] @ (if step \<noteq> [] then [[], ''## Next'', step] else [])
     in join NEWLINE lines @ NEWLINE)"

definition write_peer_target :: "string \<Rightarrow> string \<Rightarrow> string + cabinet_uri" where
  "write_peer_target scope seat = peer_last_job_uri scope seat"

subsection \<open>Words and tokens\<close>

definition words :: "string list \<Rightarrow> bool" where
  "words ws \<longleftrightarrow> (\<forall>w \<in> set ws. w \<noteq> [] \<and> (\<forall>c \<in> set w. \<not> is_space c))"

lemma words_simps [simp]: "words []" "words (xs @ ys) \<longleftrightarrow> words xs \<and> words ys"
  "words (w # ws) \<longleftrightarrow> w \<noteq> [] \<and> (\<forall>c \<in> set w. \<not> is_space c) \<and> words ws"
  by (auto simp: words_def)

lemma words_take: "words ws \<Longrightarrow> words (take k ws)"
  by (auto simp: words_def dest: in_set_takeD)

lemma words_split_words: "(\<forall>c \<in> set acc. \<not> is_space c) \<Longrightarrow> words (split_words acc s)"
  by (induction acc s rule: split_words.induct) auto

lemma words_split: "words (str_split s)"
  by (simp add: str_split_def words_split_words)

lemma split_words_run: "(\<forall>c \<in> set w. \<not> is_space c) \<Longrightarrow> split_words acc (w @ s) = split_words (rev w @ acc) s"
  by (induction w arbitrary: acc) auto

lemma space_is_space: "is_space CHR '' ''"
  by code_simp

lemma split_joined: "words ws \<Longrightarrow> str_split (space_join ws) = ws"
proof (induction ws)
  case (Cons w ws)
  show ?case
  proof (cases ws)
    case Nil
    with Cons.prems show ?thesis using split_words_run [of w "[]" "[]"] by (simp add: str_split_def space_join_def)
  next
    case (Cons v vs)
    then have "space_join (w # ws) = w @ CHR '' '' # space_join ws" by (simp add: space_join_def)
    with Cons.prems Cons.IH show ?thesis
      using split_words_run [of w "[]" "CHR '' '' # space_join ws"] by (simp add: str_split_def space_is_space)
  qed
qed (simp add: str_split_def space_join_def)

text \<open>The estimate of a number of words.\<close>

definition cost_of :: "nat \<Rightarrow> int" where
  "cost_of n = (if n = 0 then 0 else max 1 (words_cost n))"

lemma words_cost_mono: "m \<le> n \<Longrightarrow> words_cost m \<le> words_cost n"
proof -
  assume "m \<le> n"
  moreover have "0 \<le> float_round (13 / 10)" using float_round_mono [of 0 "13 / 10"] by simp
  ultimately show ?thesis
    unfolding words_cost_def by (intro ceiling_mono float_round_mono mult_right_mono) simp_all
qed

lemma cost_of_mono: "m \<le> n \<Longrightarrow> cost_of m \<le> cost_of n"
  using words_cost_mono [of m n] by (auto simp: cost_of_def)

lemma cost_of_nonneg: "0 \<le> cost_of n"
  by (auto simp: cost_of_def le_max_iff_disj)

lemma estimate_cost: "estimate_tokens s = cost_of (length (str_split s))"
  by (simp add: estimate_tokens_def cost_of_def Let_def)

lemma estimate_joined [simp]: "words ws \<Longrightarrow> estimate_tokens (space_join ws) = cost_of (length ws)"
  by (simp add: estimate_cost split_joined)

lemma estimate_nonneg [simp]: "0 \<le> estimate_tokens s"
  by (simp add: estimate_cost cost_of_nonneg)

lemma clip_words_spec:
  "words (kept @ ws) \<Longrightarrow> length kept \<le> 1 \<or> cost_of (length kept) \<le> cap \<Longrightarrow>
   \<exists>k. clip_words cap kept ws = kept @ take k ws
     \<and> (length (kept @ take k ws) \<le> 1 \<or> cost_of (length (kept @ take k ws)) \<le> cap)"
proof (induction cap kept ws rule: clip_words.induct)
  case (1 cap kept)
  then show ?case by (intro exI [of _ 0]) simp
next
  case (2 cap kept w ws)
  let ?kept = "kept @ [w]"
  show ?case
  proof (cases "kept \<noteq> [] \<and> cap < estimate_tokens (space_join ?kept)")
    case True
    with 2(3) show ?thesis by (intro exI [of _ 0]) (simp add: clip_words.simps(2))
  next
    case False
    have w: "words (?kept @ ws)" using 2(2) by simp
    then have cost: "estimate_tokens (space_join ?kept) = cost_of (Suc (length kept))" by simp
    have fits: "length ?kept \<le> 1 \<or> cost_of (length ?kept) \<le> cap" using False cost by auto
    show ?thesis
    proof (cases "cap \<le> estimate_tokens (space_join ?kept)")
      case True
      with False fits show ?thesis by (intro exI [of _ 1]) simp
    next
      case go: False
      obtain k where "clip_words cap ?kept ws = ?kept @ take k ws"
        "length (?kept @ take k ws) \<le> 1 \<or> cost_of (length (?kept @ take k ws)) \<le> cap"
        using 2(1) [OF False refl go w fits] by blast
      with False go show ?thesis by (intro exI [of _ "Suc k"]) simp
    qed
  qed
qed

lemma clip_words_progress: "ws \<noteq> [] \<Longrightarrow> clip_words cap [] ws \<noteq> []"
proof (cases ws)
  case (Cons w vs)
  have "kept \<noteq> [] \<Longrightarrow> clip_words cap kept us \<noteq> []" for kept us
    by (induction cap kept us rule: clip_words.induct) (auto simp: Let_def)
  with Cons show ?thesis by (simp add: Let_def)
qed simp

text \<open>A clipped text is made of the first words of the text, and its estimate is within the limit unless one word
  alone exceeds it.\<close>

lemma clip_tokens_spec:
  "\<exists>k. str_split (clip_tokens s limit) = take k (str_split s)
     \<and> clip_tokens s limit = space_join (take k (str_split s))
     \<and> (str_split s \<noteq> [] \<longrightarrow> k \<noteq> 0)
     \<and> (length (take k (str_split s)) = 1 \<or> estimate_tokens (clip_tokens s limit) \<le> max 1 limit)"
proof (cases "str_split s = []")
  case True
  then show ?thesis
    by (intro exI [of _ 0]) (simp add: clip_tokens_def space_join_def estimate_cost cost_of_def str_split_def)
next
  case False
  obtain k where k: "clip_words (max 1 limit) [] (str_split s) = take k (str_split s)"
    "length (take k (str_split s)) \<le> 1 \<or> cost_of (length (take k (str_split s))) \<le> max 1 limit"
    using clip_words_spec [of "[]" "str_split s" "max 1 limit"] words_split by auto
  have "take k (str_split s) \<noteq> []" using k(1) clip_words_progress [OF False] by metis
  moreover have "clip_tokens s limit = space_join (take k (str_split s))"
    using False k(1) by (simp add: clip_tokens_def)
  moreover have "length (take k (str_split s)) = 1 \<or> cost_of (length (take k (str_split s))) \<le> max 1 limit"
    using k(2) calculation(1) by (cases "take k (str_split s)") auto
  ultimately show ?thesis
    using words_take [OF words_split, of k s]
    by (intro exI [of _ k]) (simp add: split_joined del: length_take)
qed

end
