(* ===== verification/Cabinet_Wiki.thy ===== *)
theory Cabinet_Wiki
  imports Cabinet_Text "HOL-Library.Char_ord" "HOL-Library.List_Lexorder"
begin

text \<open>
  \<open>cabinet/wiki.py\<close>: the markdown files of the cabinet. A path is the list of its components below the root; the
  file system (without symbolic links) is the files with their texts and the directories. An operation that raises
  leaves the files as they are at that moment. \<open>age\<close> gives the seconds since a file was written.
\<close>

record wiki_fs =
  wf_files :: "(string list \<times> string) list"
  wf_dirs :: "string list list"

datatype wiki_error = UriError string | OsError

type_synonym 'a wiki = "wiki_fs \<Rightarrow> (wiki_error + 'a) \<times> wiki_fs"

definition wiki_return :: "'a \<Rightarrow> 'a wiki" where "wiki_return x fs = (Inr x, fs)"

definition wiki_bind :: "'a wiki \<Rightarrow> ('a \<Rightarrow> 'b wiki) \<Rightarrow> 'b wiki" where
  "wiki_bind m k fs = (case m fs of (Inl e, fs') \<Rightarrow> (Inl e, fs') | (Inr x, fs') \<Rightarrow> k x fs')"

definition wiki_lift :: "string + 'a \<Rightarrow> 'a wiki" where
  "wiki_lift r fs = (map_sum UriError id r, fs)"

definition is_file :: "wiki_fs \<Rightarrow> string list \<Rightarrow> bool" where "is_file fs p \<longleftrightarrow> map_of (wf_files fs) p \<noteq> None"

definition is_directory :: "wiki_fs \<Rightarrow> string list \<Rightarrow> bool" where
  "is_directory fs p \<longleftrightarrow> p = [] \<or> p \<in> set (wf_dirs fs)"

text \<open>\<open>Path.mkdir(parents=True, exist_ok=True)\<close>: it fails when a file is in the way.\<close>

definition prefixes_of :: "'a list \<Rightarrow> 'a list list" where
  "prefixes_of p = map (\<lambda>k. take k p) [1..<Suc (length p)]"

definition make_dirs :: "string list \<Rightarrow> unit wiki" where
  "make_dirs p fs =
    (if list_ex (is_file fs) (prefixes_of p) then (Inl OsError, fs)
     else (Inr (), fs\<lparr>wf_dirs := wf_dirs fs @ filter (\<lambda>q. q \<notin> set (wf_dirs fs)) (prefixes_of p)\<rparr>))"

text \<open>\<open>write_text\<close> and \<open>os.replace\<close> in an existing directory, \<open>read_text\<close> with its universal newlines.\<close>

definition put_file :: "string list \<Rightarrow> string \<Rightarrow> unit wiki" where
  "put_file p text fs =
    (if is_directory fs p then (Inl OsError, fs) else (Inr (), fs\<lparr>wf_files := AList.update p text (wf_files fs)\<rparr>))"

definition rename_file :: "string list \<Rightarrow> string list \<Rightarrow> unit wiki" where
  "rename_file a b fs =
    (case map_of (wf_files fs) a of
       None \<Rightarrow> (Inl OsError, fs)
     | Some text \<Rightarrow>
         if is_directory fs b then (Inl OsError, fs)
         else (Inr (), fs\<lparr>wf_files := AList.update b text (AList.delete a (wf_files fs))\<rparr>))"

fun universal_newlines :: "string \<Rightarrow> string" where
  "universal_newlines [] = []"
| "universal_newlines (c # cs) =
     (if code c \<noteq> 13 then c # universal_newlines cs
      else char_of (10 :: nat) # (case cs of [] \<Rightarrow> [] | d # ds \<Rightarrow> if code d = 10 then universal_newlines ds else universal_newlines cs))"

definition read_text :: "wiki_fs \<Rightarrow> string list \<Rightarrow> string" where
  "read_text fs p = (case map_of (wf_files fs) p of Some t \<Rightarrow> universal_newlines t | None \<Rightarrow> [])"

definition ABSTRACT :: string where "ABSTRACT = ''.abstract.md''"
definition OVERVIEW :: string where "OVERVIEW = ''.overview.md''"

definition parent_dir :: "string list \<Rightarrow> string list" where "parent_dir p = butlast p"

definition tmp_name :: "string list \<Rightarrow> string list" where
  "tmp_name p = butlast p @ [''.'' @ last p @ ''.tmp'']"

definition atomic_write :: "string list \<Rightarrow> string \<Rightarrow> unit wiki" where
  "atomic_write p text =
    wiki_bind (make_dirs (parent_dir p)) (\<lambda>_. wiki_bind (put_file (tmp_name p) text) (\<lambda>_. rename_file (tmp_name p) p))"

definition sidecar :: "cabinet_uri \<Rightarrow> string \<Rightarrow> string + string list" where
  "sidecar u name = map_sum id (\<lambda>d. d @ [name]) (node_dir u)"

definition sidecar_age :: "(string list \<Rightarrow> rat) \<Rightarrow> wiki_fs \<Rightarrow> string list \<Rightarrow> rat" where
  "sidecar_age age fs p = (if is_file fs p \<or> is_directory fs p then max 0 (age p) else 10000)"

definition child_names :: "wiki_fs \<Rightarrow> string list \<Rightarrow> string list" where
  "child_names fs d =
    sort (remdups (map last (filter (\<lambda>p. p \<noteq> [] \<and> butlast p = d) (map fst (wf_files fs) @ wf_dirs fs))))"

definition child_abstract :: "wiki_fs \<Rightarrow> string list \<Rightarrow> string \<Rightarrow> string option" where
  "child_abstract fs d name =
    (let p = d @ [name] in
     if name \<in> {ABSTRACT, OVERVIEW} \<or> starts_with ''.'' name then None
     else if ends_with ''.md'' name \<and> is_file fs p then Some (zero_llm_l0 (read_text fs p) 40)
     else if is_directory fs p then
       (if is_file fs (p @ [ABSTRACT]) then Some (zero_llm_l0 (read_text fs (p @ [ABSTRACT])) 40) else None)
     else None)"

definition or_text :: "string \<Rightarrow> string \<Rightarrow> string" where "or_text a b = (if a \<noteq> [] then a else b)"

text \<open>What \<open>refresh_directory\<close> writes, from the state it finds after \<open>mkdir\<close>.\<close>

definition write_sidecars :: "cabinet_uri \<Rightarrow> string list \<Rightarrow> string \<Rightarrow> wiki_fs \<Rightarrow> unit wiki" where
  "write_sidecars u d title fs =
    (let abstracts = List.map_filter (child_abstract fs d) (child_names fs d);
         heading = or_text title (or_text (normalized_path u) (cu_kind u));
         l0 = zero_llm_l0 (or_text (space_join abstracts) heading) TOKEN_L0;
         l1 = zero_llm_l1 heading abstracts TOKEN_L1
     in wiki_bind (atomic_write (d @ [ABSTRACT]) (l0 @ NEWLINE)) (\<lambda>_. atomic_write (d @ [OVERVIEW]) (l1 @ NEWLINE)))"

definition refresh_directory :: "cabinet_uri \<Rightarrow> string \<Rightarrow> unit wiki" where
  "refresh_directory u title =
    wiki_bind (wiki_lift (node_dir u)) (\<lambda>d. wiki_bind (make_dirs d) (\<lambda>_ fs. write_sidecars u d title fs fs))"

definition rstrip :: "string \<Rightarrow> string" where "rstrip s = rev (dropWhile is_space (rev s))"

definition leaf_text :: "cabinet_uri \<Rightarrow> string \<Rightarrow> string \<Rightarrow> string" where
  "leaf_text u body title =
    (let heading = or_text title (or_text (normalized_path u) (cu_kind u)) in
     if starts_with ''#'' (lstrip_by is_space body) then rstrip body @ NEWLINE
     else rstrip (''# '' @ heading @ NEWLINE @ NEWLINE @ body) @ NEWLINE)"

text \<open>The refreshes after the leaf is written: its directory, and the one above when its abstract is old.\<close>

definition refresh_above :: "(string list \<Rightarrow> rat) \<Rightarrow> cabinet_uri \<Rightarrow> string list \<Rightarrow> (string list) wiki" where
  "refresh_above age u p =
    (let parent = (case uri_parent u of Some q \<Rightarrow> q | None \<Rightarrow> u\<lparr>cu_path := []\<rparr>) in
     wiki_bind (refresh_directory parent (or_text (normalized_path parent) (cu_kind parent))) (\<lambda>_.
       case uri_parent parent of
         None \<Rightarrow> wiki_return p
       | Some grand \<Rightarrow>
           wiki_bind (wiki_lift (sidecar grand ABSTRACT)) (\<lambda>s fs.
             if should_refresh 1 (sidecar_age age fs s)
             then wiki_bind (refresh_directory grand (cu_kind grand)) (\<lambda>_. wiki_return p) fs
             else wiki_return p fs)))"

definition write_leaf :: "(string list \<Rightarrow> rat) \<Rightarrow> cabinet_uri \<Rightarrow> string \<Rightarrow> string \<Rightarrow> (string list) wiki" where
  "write_leaf age u body title =
    wiki_bind (wiki_lift (leaf_path u)) (\<lambda>p.
    wiki_bind (make_dirs (parent_dir p)) (\<lambda>_.
    wiki_bind (atomic_write p (leaf_text u body title)) (\<lambda>_. refresh_above age u p)))"

definition read_leaf :: "cabinet_uri \<Rightarrow> string wiki" where
  "read_leaf u = wiki_bind (wiki_lift (leaf_path u)) (\<lambda>p fs. (Inr (if is_file fs p then read_text fs p else []), fs))"

definition delete_leaf :: "cabinet_uri \<Rightarrow> bool wiki" where
  "delete_leaf u =
    wiki_bind (wiki_lift (leaf_path u)) (\<lambda>p fs.
      if \<not> is_file fs p then (Inr False, fs)
      else let fs1 = fs\<lparr>wf_files := AList.delete p (wf_files fs)\<rparr> in
        case uri_parent u of
          None \<Rightarrow> (Inr True, fs1)
        | Some parent \<Rightarrow> wiki_bind (refresh_directory parent (cu_kind parent)) (\<lambda>_. wiki_return True) fs1)"

definition read_sidecar :: "string \<Rightarrow> cabinet_uri \<Rightarrow> string wiki" where
  "read_sidecar name u =
    wiki_bind (wiki_lift (sidecar u name)) (\<lambda>p fs. (Inr (if is_file fs p then str_strip (read_text fs p) else []), fs))"

definition read_l0 :: "cabinet_uri \<Rightarrow> string wiki" where "read_l0 u = read_sidecar ABSTRACT u"
definition read_l1 :: "cabinet_uri \<Rightarrow> string wiki" where "read_l1 u = read_sidecar OVERVIEW u"

subsection \<open>What an operation leaves alone\<close>

text \<open>A program that keeps what the files in \<open>P\<close> hold, whether it raises or not.\<close>

definition leaves :: "(string list \<Rightarrow> bool) \<Rightarrow> 'a wiki \<Rightarrow> bool" where
  "leaves P m \<longleftrightarrow> (\<forall>fs p. P p \<longrightarrow> map_of (wf_files (snd (m fs))) p = map_of (wf_files fs) p)"

lemma leaves_bind: "leaves P m \<Longrightarrow> (\<And>x. leaves P (k x)) \<Longrightarrow> leaves P (wiki_bind m k)"
  by (auto simp: leaves_def wiki_bind_def split: prod.splits sum.splits) (metis snd_conv)+

lemma leaves_basic: "leaves P (wiki_lift r)" "leaves P (wiki_return x)" "leaves P (make_dirs d)"
  by (simp_all add: leaves_def wiki_lift_def wiki_return_def make_dirs_def)

lemma leaves_put: "\<not> P p \<Longrightarrow> leaves P (put_file p text)"
  by (auto simp: leaves_def put_file_def update_conv')

lemma leaves_rename: "\<not> P a \<Longrightarrow> \<not> P b \<Longrightarrow> leaves P (rename_file a b)"
  by (auto simp: leaves_def rename_file_def update_conv' delete_conv' split: option.split)

lemma leaves_write: "\<not> P p \<Longrightarrow> \<not> P (tmp_name p) \<Longrightarrow> leaves P (atomic_write p text)"
  unfolding atomic_write_def by (intro leaves_bind leaves_basic leaves_put leaves_rename)

text \<open>A leaf's file: its name ends in \<open>.md\<close> and is not that of a sidecar.\<close>

definition leaf_file :: "string list \<Rightarrow> bool" where
  "leaf_file p \<longleftrightarrow> p \<noteq> [] \<and> ends_with ''.md'' (last p) \<and> last p \<noteq> ABSTRACT \<and> last p \<noteq> OVERVIEW"

lemma tmp_not_leaf: "\<not> leaf_file (tmp_name p)"
  by (simp add: leaf_file_def tmp_name_def ends_with_def starts_with_def)

lemma leaves_refresh: "leaves leaf_file (refresh_directory u title)"
proof -
  have "leaves leaf_file (atomic_write (d @ [name]) t)" if "name = ABSTRACT \<or> name = OVERVIEW" for d name t
    using that by (intro leaves_write tmp_not_leaf) (auto simp: leaf_file_def)
  then have "leaves leaf_file (write_sidecars u d title fs)" for d fs
    unfolding write_sidecars_def Let_def by (intro leaves_bind) simp_all
  then have "leaves leaf_file (\<lambda>fs. write_sidecars u d title fs fs)" for d
    by (simp add: leaves_def)
  then show ?thesis
    unfolding refresh_directory_def by (intro leaves_bind leaves_basic)
qed

text \<open>The file of an address is a leaf's file unless its last segment names a sidecar.\<close>

definition names_sidecar :: "cabinet_uri \<Rightarrow> bool" where
  "names_sidecar u \<longleftrightarrow> last (slash_parts (normalized_path u)) \<in> {''.abstract'', ''.overview''}"

lemma quote_sidecars: "url_quote ''.abstract'' = ''.abstract''" "url_quote ''.overview'' = ''.overview''"
  by code_simp+

lemma node_dir_last:
  assumes "node_dir u = Inr d" "normalized_path u \<noteq> []"
  shows "d \<noteq> []" "last d = url_quote (last (slash_parts (normalized_path u)))"
proof -
  obtain sc qs where qs: "each_ok fs_segment (slash_parts (normalized_path u)) = Inr qs" and d: "d = [sc, cu_kind u] @ qs"
    using assms by (cases "each_ok fs_segment (slash_parts (normalized_path u))") (auto simp: node_dir_def Let_def split: sum.splits)
  have "qs = map url_quote (slash_parts (normalized_path u))"
    using each_ok_values(1) [OF qs, of url_quote] fs_segment_Inr by blast
  with d show "d \<noteq> []" "last d = url_quote (last (slash_parts (normalized_path u)))"
    by (simp_all add: last_map)
qed

lemma ends_with_append [simp]: "ends_with q (s @ q)"
  by (simp add: ends_with_def starts_with_def)

lemma leaf_path_leaf:
  assumes "leaf_path u = Inr p" "\<not> names_sidecar u"
  shows "leaf_file p"
proof -
  obtain d where d: "node_dir u = Inr d" using assms(1) by (cases "node_dir u") (auto simp: leaf_path_def)
  show ?thesis
  proof (cases "normalized_path u = []")
    case True
    with assms(1) d have "p = d @ [''INDEX.md'']" by (simp add: leaf_path_def)
    then show ?thesis by (simp add: leaf_file_def ends_with_def starts_with_def ABSTRACT_def OVERVIEW_def)
  next
    case False
    let ?x = "last (slash_parts (normalized_path u))"
    have p: "last p = url_quote ?x @ ''.md''" "p \<noteq> []"
      using assms(1) d False node_dir_last [OF d False] by (auto simp: leaf_path_def)
    moreover have "url_quote ?x \<noteq> ''.abstract''" "url_quote ?x \<noteq> ''.overview''"
      using assms(2) quote_inject [of ?x "''.abstract''"] quote_inject [of ?x "''.overview''"]
      unfolding quote_sidecars names_sidecar_def by auto
    moreover have "''.abstract.md'' = ''.abstract'' @ ''.md''" "''.overview.md'' = ''.overview'' @ ''.md''" by simp_all
    ultimately show ?thesis
      unfolding leaf_file_def ABSTRACT_def OVERVIEW_def by (metis append_same_eq ends_with_append)
  qed
qed

lemma bind_Inr:
  assumes "wiki_bind m k fs = (Inr y, fs')"
  obtains x fs1 where "m fs = (Inr x, fs1)" "k x fs1 = (Inr y, fs')"
  using assms by (auto simp: wiki_bind_def split: prod.splits sum.splits)

lemma atomic_write_done:
  assumes "atomic_write p text fs = (Inr x, fs')"
  shows "map_of (wf_files fs') p = Some text"
    and "q \<noteq> p \<Longrightarrow> q \<noteq> tmp_name p \<Longrightarrow> map_of (wf_files fs') q = map_of (wf_files fs) q"
  using assms
  by (auto simp: atomic_write_def put_file_def rename_file_def make_dirs_def update_conv' delete_conv'
      elim!: bind_Inr split: if_splits option.splits)

lemma leaves_above: "leaves leaf_file (refresh_above age u p)"
proof -
  have test: "leaves P m \<Longrightarrow> leaves P n \<Longrightarrow> leaves P (\<lambda>fs. if b fs then m fs else n fs)" for P b and m n :: "'a wiki"
    by (simp add: leaves_def)
  show ?thesis
    unfolding refresh_above_def Let_def
    by (intro leaves_bind leaves_refresh; (split option.split)?)
      (auto intro!: leaves_bind test leaves_basic leaves_refresh)
qed

lemma read_leaf_at: "leaf_path u = Inr p \<Longrightarrow>
  fst (read_leaf u fs) = Inr (case map_of (wf_files fs) p of Some t \<Rightarrow> universal_newlines t | None \<Rightarrow> [])"
  by (auto simp: read_leaf_def wiki_bind_def wiki_lift_def is_file_def read_text_def split: option.split)

lemma read_leaf_bad: "leaf_path u = Inl e \<Longrightarrow> fst (read_leaf u fs) = Inl (UriError e)"
  by (simp add: read_leaf_def wiki_bind_def wiki_lift_def)

text \<open>C38. A leaf that has been written is read back as the text that was written (its newlines normalised), and every
  leaf with another file still reads as it did, although the write refreshes the summaries of the directories above;
  the addresses that name a directory's summary files are excluded, since there the refresh overwrites the leaf.\<close>

theorem written_leaf_is_read:
  assumes w: "write_leaf age u body title fs = (Inr p, fs')" and u: "\<not> names_sidecar u"
  shows "fst (read_leaf u fs') = Inr (universal_newlines (leaf_text u body title))
    \<and> (\<not> names_sidecar v \<and> leaf_path v \<noteq> leaf_path u \<longrightarrow> fst (read_leaf v fs') = fst (read_leaf v fs))"
proof -
  obtain q fs1 fs2 where q: "leaf_path u = Inr q" and mk: "make_dirs (parent_dir q) fs = (Inr (), fs1)"
    and put: "atomic_write q (leaf_text u body title) fs1 = (Inr (), fs2)" and r: "refresh_above age u q fs2 = (Inr p, fs')"
    using w by (auto simp: write_leaf_def wiki_lift_def map_sum_def elim!: bind_Inr split: sum.splits)
  have leaf: "leaf_file q" by (rule leaf_path_leaf [OF q u])
  have kept: "leaf_file x \<Longrightarrow> map_of (wf_files fs') x = map_of (wf_files fs2) x" for x
    using leaves_above [of age u q] r by (metis leaves_def snd_conv)
  have made: "wf_files fs1 = wf_files fs" using mk by (auto simp: make_dirs_def split: if_splits)
  have "fst (read_leaf u fs') = Inr (universal_newlines (leaf_text u body title))"
    using kept [OF leaf] atomic_write_done(1) [OF put] by (simp add: read_leaf_at [OF q])
  moreover have "fst (read_leaf v fs') = fst (read_leaf v fs)" if v: "\<not> names_sidecar v" "leaf_path v \<noteq> leaf_path u"
  proof (cases "leaf_path v")
    case (Inr x)
    have "leaf_file x" by (rule leaf_path_leaf [OF Inr v(1)])
    moreover have "x \<noteq> q" "x \<noteq> tmp_name q" using v(2) Inr q \<open>leaf_file x\<close> tmp_not_leaf [of q] by auto
    ultimately show ?thesis
      using kept [of x] atomic_write_done(2) [OF put, of x] made by (simp add: read_leaf_at [OF Inr])
  qed (simp add: read_leaf_bad)
  ultimately show ?thesis by blast
qed

definition sample_node :: cabinet_uri where
  "sample_node = \<lparr>cu_scope = ''global'', cu_kind = ''peers'', cu_path = ''seat''\<rparr>"

lemma sample_paths:
  "leaf_path sample_node = Inr [''global'', ''peers'', ''seat.md'']"
  "node_dir \<lparr>cu_scope = ''global'', cu_kind = ''peers'', cu_path = []\<rparr> = Inr [''global'', ''peers'']"
  "uri_parent sample_node = Some \<lparr>cu_scope = ''global'', cu_kind = ''peers'', cu_path = []\<rparr>"
  "uri_parent \<lparr>cu_scope = ''global'', cu_kind = ''peers'', cu_path = []\<rparr> = None"
  "\<not> names_sidecar sample_node"
  by code_simp+

lemma sample_node_prefixes:
  "prefixes_of [''global'', ''peers''] = [[''global''], [''global'', ''peers'']]"
  by code_simp

lemma sample_write:
  "\<exists>fs'. write_leaf age sample_node body title \<lparr>wf_files = [], wf_dirs = []\<rparr> = (Inr [''global'', ''peers'', ''seat.md''], fs')"
  by (simp add: write_leaf_def refresh_above_def refresh_directory_def write_sidecars_def wiki_bind_def wiki_lift_def wiki_return_def
    sample_paths make_dirs_def parent_dir_def sample_node_prefixes atomic_write_def put_file_def rename_file_def tmp_name_def
    is_file_def is_directory_def Let_def ABSTRACT_def OVERVIEW_def)

theorem written_leaf_is_read_witness:
  "\<exists>fs'. write_leaf (\<lambda>_. 0) sample_node ''# Done'' [] \<lparr>wf_files = [], wf_dirs = []\<rparr>
      = (Inr [''global'', ''peers'', ''seat.md''], fs')
    \<and> fst (read_leaf sample_node fs') = Inr (''# Done'' @ NEWLINE)"
proof -
  obtain fs' where w: "write_leaf (\<lambda>_. 0) sample_node ''# Done'' [] \<lparr>wf_files = [], wf_dirs = []\<rparr>
      = (Inr [''global'', ''peers'', ''seat.md''], fs')" using sample_write by blast
  have "universal_newlines (leaf_text sample_node ''# Done'' []) = ''# Done'' @ NEWLINE" by code_simp
  with w written_leaf_is_read [OF w sample_paths(5)] show ?thesis by auto
qed

text \<open>Where the exclusion is needed: such a leaf is the very file of the directory's summary; and the leaf \<open>INDEX\<close> of a
  kind is the kind's own index.\<close>

lemma sidecar_collision:
  "leaf_path \<lparr>cu_scope = ''global'', cu_kind = k, cu_path = ''.abstract''\<rparr>
    = sidecar \<lparr>cu_scope = ''global'', cu_kind = k, cu_path = []\<rparr> ABSTRACT"
  "leaf_path \<lparr>cu_scope = ''global'', cu_kind = k, cu_path = ''INDEX''\<rparr>
    = leaf_path \<lparr>cu_scope = ''global'', cu_kind = k, cu_path = []\<rparr>"
  by code_simp+

end
