(* ===== verification/Memory_Store.thy ===== *)
theory Memory_Store
  imports Cabinet_Walk Cabinet_Wiki Identity Redaction
begin

text \<open>
  The sessions, facts and cabinet of \<open>state.py\<close>: conversations with their turns, distilled facts, and the index and
  files of the knowledge cabinet. The tables are as in \<open>Database\<close>; the files of the cabinet (\<open>Cabinet_Wiki\<close>) are part
  of the state and are not rolled back with a transaction; of the telemetry rows only the session's name is here. Columns with JSON hold the decoded value. \<open>mem_env\<close> holds
  what is outside: \<open>hashlib\<close> and \<open>json\<close>, the age of files and rows, \<open>math.exp\<close>, the decoding of bytes that are
  not UTF-8 (\<open>lossy\<close> of \<open>Cabinet_Uri\<close>), and the FTS5 index, which gives the
  addresses that match a query by rank, or \<open>None\<close> where SQLite raises.
\<close>

record session_row =
  sn_name :: string
  sn_created_at :: instant
  sn_updated_at :: instant
  sn_model :: "string option"
  sn_plane :: "string option"

record message_row =
  mg_id :: int
  mg_session :: string
  mg_role :: string
  mg_content :: string
  mg_created_at :: instant
  mg_metadata :: "json option"

record commit_row =
  cm_job_id :: string
  cm_session :: string
  cm_created_at :: instant

record pack_row =
  pk_session :: string
  pk_pack :: json
  pk_version :: int
  pk_updated_at :: instant

record knowledge_row =
  kn_id :: int
  kn_scope :: string
  kn_fact :: string
  kn_terms :: string
  kn_source :: string
  kn_created_at :: instant
  kn_last_used_at :: "instant option"
  kn_uses :: int

record node_row =
  nd_uri :: string
  nd_parent :: "string option"
  nd_scope :: string
  nd_kind :: string
  nd_path :: string
  nd_is_dir :: bool
  nd_title :: string
  nd_l0 :: string
  nd_l1 :: string
  nd_body :: string
  nd_sha256 :: string
  nd_tokens_l0 :: int
  nd_tokens_l1 :: int
  nd_pinned :: bool
  nd_tags :: string
  nd_updated_at :: instant

record event_row =
  ce_id :: int
  ce_session :: string
  ce_kind :: string
  ce_ts :: instant
  ce_uri :: string
  ce_body :: string
  ce_hash :: string

record traj_row =
  tj_qid :: string
  tj_query :: string
  tj_gamma :: "walk_step list"
  tj_picked :: "string list"
  tj_created_at :: instant

record handoff_row =
  hf_key :: string
  hf_from_seat :: string
  hf_to_seat :: string
  hf_state :: string
  hf_body :: string
  hf_obs_hash :: string
  hf_created_at :: instant

record fts_row =
  ft_title :: string
  ft_l0 :: string
  ft_l1 :: string
  ft_body :: string
  ft_uri :: string

record memory =
  sessions :: "session_row list"
  messages :: "message_row list"
  messages_seq :: int
  session_commits :: "commit_row list"
  context_packs :: "pack_row list"
  knowledge :: "knowledge_row list"
  knowledge_seq :: int
  cabinet_nodes :: "node_row list"
  cabinet_events :: "event_row list"
  cabinet_events_seq :: int
  cabinet_traj :: "traj_row list"
  cabinet_handoff :: "handoff_row list"
  cabinet_fts :: "fts_row list"
  has_fts :: bool
  telemetry_sessions :: "(int \<times> string option) list"
  wiki :: wiki_fs

record mem_env =
  en_lib :: pylib
  en_dumps_sorted :: "json \<Rightarrow> string"
  en_file_age :: "string list \<Rightarrow> rat"
  en_age_days :: "instant \<Rightarrow> rat"
  en_exp :: "rat \<Rightarrow> rat"
  en_lossy :: "string \<Rightarrow> string"
  en_fts :: "string \<Rightarrow> fts_row list \<Rightarrow> string list option"

text \<open>What an operation raises: \<open>ValueError\<close> (with \<open>CabinetUriError\<close>), \<open>OSError\<close>, or SQLite's integrity error.\<close>

datatype mem_error = BadValue string | IoError | ForeignKey

fun wiki_raised :: "wiki_error \<Rightarrow> mem_error" where
  "wiki_raised (UriError e) = BadValue e"
| "wiki_raised OsError = IoError"

definition shown_uri :: "cabinet_uri \<Rightarrow> mem_error + string" where
  "shown_uri u = map_sum BadValue id (format_uri (cu_scope u) (cu_kind u) (cu_path u))"

subsection \<open>Names\<close>

definition name_head :: "char \<Rightarrow> bool" where "name_head c \<longleftrightarrow> is_alnum c"
definition name_tail :: "char \<Rightarrow> bool" where "name_tail c \<longleftrightarrow> is_alnum c \<or> c \<in> set ''._:/-''"

text \<open>A full match of \<open>^[A-Za-z0-9][A-Za-z0-9._:/-]{0,127}$\<close>.\<close>

fun state_name :: "string \<Rightarrow> bool" where
  "state_name [] = False"
| "state_name (c # cs) = (name_head c \<and> list_all name_tail cs \<and> length cs \<le> 127)"

definition normalize_session :: "string \<Rightarrow> mem_error + string" where
  "normalize_session value =
    (let s = str_strip value in if state_name s then Inr s else Inl (BadValue ''session must be 1-128 characters''))"

definition normalize_scope :: "string \<Rightarrow> mem_error + string" where
  "normalize_scope value =
    (let s = str_strip (if value = [] then ''global'' else value); s' = (if s = [] then ''global'' else s) in
     if state_name s' then Inr s' else Inl (BadValue ''scope must be 1-128 characters''))"

definition state_terms :: "string \<Rightarrow> string list" where
  "state_terms value = dedup (map str_lower (re_findall CABINET_TERM value))"

definition cabinet_qid :: "pylib \<Rightarrow> string \<Rightarrow> string option \<Rightarrow> string" where
  "cabinet_qid lib query scope = take 16 (sha256 lib (query @ NEWLINE @ (case scope of Some s \<Rightarrow> s | None \<Rightarrow> [])))"

text \<open>SQLite's \<open>LIKE\<close> (of texts in which every character is one byte).\<close>

fun sql_like :: "string \<Rightarrow> string \<Rightarrow> bool" where
  "sql_like [] s = (s = [])"
| "sql_like (p # ps) [] = (p = CHR ''%'' \<and> sql_like ps [])"
| "sql_like (p # ps) (c # cs) =
     (if p = CHR ''%'' then sql_like ps (c # cs) \<or> sql_like (p # ps) cs
      else (p = CHR ''_'' \<or> to_lower p = to_lower c) \<and> sql_like ps cs)"

subsection \<open>Which scopes a caller sees\<close>

text \<open>\<open>_scope_rows\<close> and \<open>_search_facts_sync\<close>: a tenant's scope sees itself and the tenant's \<open>global\<close>; another scope sees
  itself and \<open>global\<close>; without a scope, everything that is no tenant's.\<close>

definition tenant_global :: "string \<Rightarrow> string option" where
  "tenant_global s = (if tenant_tagged s then Some (take 31 s @ '':global'') else None)"

definition scope_sees :: "string option \<Rightarrow> string \<Rightarrow> bool" where
  "scope_sees scope s \<longleftrightarrow>
    (case scope of
       None \<Rightarrow> \<not> tenant_tagged s
     | Some sc \<Rightarrow>
         if sc = [] then \<not> tenant_tagged s
         else case tenant_global sc of
             Some g \<Rightarrow> (if sc \<noteq> g then s = g \<or> s = sc else s = g)
           | None \<Rightarrow> (if sc \<noteq> ''global'' then s = ''global'' \<or> s = sc else s = ''global''))"

definition newest :: "('r \<Rightarrow> int) \<Rightarrow> nat \<Rightarrow> 'r list \<Rightarrow> 'r list" where
  "newest key n rows = take n (sort_key (\<lambda>r. - key r) rows)"

definition scope_nodes :: "memory \<Rightarrow> string option \<Rightarrow> nat \<Rightarrow> node_row list" where
  "scope_nodes m scope limit = newest nd_updated_at limit (filter (\<lambda>r. scope_sees scope (nd_scope r)) (cabinet_nodes m))"

definition scope_facts :: "memory \<Rightarrow> string option \<Rightarrow> nat \<Rightarrow> knowledge_row list" where
  "scope_facts m scope limit = newest kn_id limit (filter (\<lambda>r. scope_sees scope (kn_scope r)) (knowledge m))"

subsection \<open>The cabinet's index\<close>

definition node_of ::
  "pylib \<Rightarrow> string \<Rightarrow> string option \<Rightarrow> cabinet_uri \<Rightarrow> bool \<Rightarrow> string \<Rightarrow> string \<Rightarrow> string \<Rightarrow> string \<Rightarrow> instant \<Rightarrow> node_row" where
  "node_of lib shown parent u dir title l0 l1 body now =
    \<lparr>nd_uri = shown, nd_parent = parent, nd_scope = cu_scope u, nd_kind = cu_kind u, nd_path = normalized_path u,
     nd_is_dir = dir, nd_title = title, nd_l0 = l0, nd_l1 = l1, nd_body = body,
     nd_sha256 = sha256 lib (or_text body l0), nd_tokens_l0 = estimate_tokens l0, nd_tokens_l1 = estimate_tokens l1,
     nd_pinned = False, nd_tags = [], nd_updated_at = now\<rparr>"

text \<open>\<open>ON CONFLICT(uri) DO UPDATE\<close> leaves \<open>scope\<close>, \<open>kind\<close>, \<open>path\<close> and \<open>is_dir\<close> of the row that is there.\<close>

definition put_node :: "node_row \<Rightarrow> memory \<Rightarrow> memory" where
  "put_node n m =
    (let nodes = (case row_of nd_uri (cabinet_nodes m) (nd_uri n) of
          None \<Rightarrow> cabinet_nodes m @ [n]
        | Some _ \<Rightarrow> sql_update (\<lambda>r. nd_uri r = nd_uri n)
            (\<lambda>r. n\<lparr>nd_scope := nd_scope r, nd_kind := nd_kind r, nd_path := nd_path r, nd_is_dir := nd_is_dir r\<rparr>)
            (cabinet_nodes m));
         fts = (if has_fts m
           then sql_delete (\<lambda>f. ft_uri f = nd_uri n) (cabinet_fts m)
             @ [\<lparr>ft_title = nd_title n, ft_l0 = nd_l0 n, ft_l1 = nd_l1 n, ft_body = nd_body n, ft_uri = nd_uri n\<rparr>]
           else cabinet_fts m)
     in m\<lparr>cabinet_nodes := nodes, cabinet_fts := fts\<rparr>)"

definition upsert_node ::
  "mem_env \<Rightarrow> cabinet_uri \<Rightarrow> bool \<Rightarrow> string \<Rightarrow> string \<Rightarrow> string \<Rightarrow> string \<Rightarrow> instant \<Rightarrow> memory \<Rightarrow> (mem_error + unit) \<times> memory" where
  "upsert_node en u dir title l0 l1 body now m =
    (case (case uri_parent u of None \<Rightarrow> Inr None | Some p \<Rightarrow> map_sum id Some (shown_uri p)) of
       Inl e \<Rightarrow> (Inl e, m)
     | Inr parent \<Rightarrow>
         (case shown_uri u of
            Inl e \<Rightarrow> (Inl e, m)
          | Inr shown \<Rightarrow> (Inr (), put_node (node_of (en_lib en) shown parent u dir title l0 l1 body now) m)))"

definition delete_node :: "string \<Rightarrow> memory \<Rightarrow> memory" where
  "delete_node shown m =
    m\<lparr>cabinet_nodes := sql_delete (\<lambda>r. nd_uri r = shown) (cabinet_nodes m),
      cabinet_fts := (if has_fts m then sql_delete (\<lambda>f. ft_uri f = shown) (cabinet_fts m) else cabinet_fts m)\<rparr>"

text \<open>Steps that may raise; a call into the files; the rollback, which leaves the files as they are.\<close>

type_synonym 'a mem = "memory \<Rightarrow> (mem_error + 'a) \<times> memory"

definition mem_bind :: "'a mem \<Rightarrow> ('a \<Rightarrow> 'b mem) \<Rightarrow> 'b mem" where
  "mem_bind f k m = (case f m of (Inl e, m') \<Rightarrow> (Inl e, m') | (Inr x, m') \<Rightarrow> k x m')"

definition mem_return :: "'a \<Rightarrow> 'a mem" where "mem_return x m = (Inr x, m)"

definition mem_raise :: "mem_error + 'a \<Rightarrow> 'a mem" where "mem_raise r m = (r, m)"

definition on_files :: "'a wiki \<Rightarrow> 'a mem" where
  "on_files w m = (case w (wiki m) of (r, fs) \<Rightarrow> (map_sum wiki_raised id r, m\<lparr>wiki := fs\<rparr>))"

text \<open>\<open>try: ... except OSError: pass\<close>.\<close>

definition forgiving :: "'a mem \<Rightarrow> unit mem" where
  "forgiving f m = (case f m of (Inl IoError, m') \<Rightarrow> (Inr (), m') | (Inl e, m') \<Rightarrow> (Inl e, m') | (Inr _, m') \<Rightarrow> (Inr (), m'))"

definition transaction :: "'a mem \<Rightarrow> 'a mem" where
  "transaction f m = (case f m of (Inl e, m') \<Rightarrow> (Inl e, m\<lparr>wiki := wiki m'\<rparr>) | (Inr x, m') \<Rightarrow> (Inr x, m'))"

subsection \<open>Conversations\<close>

definition session_messages :: "memory \<Rightarrow> string \<Rightarrow> message_row list" where
  "session_messages m session = filter (\<lambda>r. mg_session r = session) (messages m)"

definition coalesce :: "'a option \<Rightarrow> 'a option \<Rightarrow> 'a option" where
  "coalesce a b = (case a of Some _ \<Rightarrow> a | None \<Rightarrow> b)"

definition upsert_session :: "string \<Rightarrow> string option \<Rightarrow> string option \<Rightarrow> instant \<Rightarrow> memory \<Rightarrow> memory" where
  "upsert_session session model plane now m =
    m\<lparr>sessions :=
      (if row_of sn_name (sessions m) session = None
       then sessions m @ [\<lparr>sn_name = session, sn_created_at = now, sn_updated_at = now, sn_model = model, sn_plane = plane\<rparr>]
       else sql_update (\<lambda>r. sn_name r = session)
         (\<lambda>r. r\<lparr>sn_updated_at := now, sn_model := coalesce model (sn_model r), sn_plane := coalesce plane (sn_plane r)\<rparr>)
         (sessions m))\<rparr>"

definition insert_turn :: "string \<Rightarrow> string \<Rightarrow> string \<Rightarrow> json option \<Rightarrow> instant \<Rightarrow> memory \<Rightarrow> memory" where
  "insert_turn session user assistant metadata now m =
    m\<lparr>messages := messages m @
        [\<lparr>mg_id = messages_seq m + 1, mg_session = session, mg_role = ''user'', mg_content = user, mg_created_at = now,
          mg_metadata = None\<rparr>,
         \<lparr>mg_id = messages_seq m + 2, mg_session = session, mg_role = ''assistant'', mg_content = assistant,
          mg_created_at = now, mg_metadata = metadata\<rparr>],
      messages_seq := messages_seq m + 2\<rparr>"

definition insert_events :: "pylib \<Rightarrow> string \<Rightarrow> instant \<Rightarrow> string \<Rightarrow> turn_event list \<Rightarrow> memory \<Rightarrow> memory" where
  "insert_events lib session now shown evs m =
    fold (\<lambda>e m. m\<lparr>cabinet_events := cabinet_events m @
        [\<lparr>ce_id = cabinet_events_seq m + 1, ce_session = session, ce_kind = or_text (tv_kind e) ''other'', ce_ts = now,
          ce_uri = shown, ce_body = tv_body e, ce_hash = sha256 lib (tv_body e)\<rparr>],
      cabinet_events_seq := cabinet_events_seq m + 1\<rparr>) evs m"

definition put_handoff :: "string \<Rightarrow> compiled_session \<Rightarrow> instant \<Rightarrow> memory \<Rightarrow> memory" where
  "put_handoff session c now m =
    (let row = \<lparr>hf_key = session, hf_from_seat = cs_from_seat c, hf_to_seat = cs_to_seat c, hf_state = ''open'',
         hf_body = cs_handoff c, hf_obs_hash = cs_observation c, hf_created_at = now\<rparr>
     in m\<lparr>cabinet_handoff :=
       (if row_of hf_key (cabinet_handoff m) session = None then cabinet_handoff m @ [row]
        else sql_update (\<lambda>r. hf_key r = session) (\<lambda>_. row) (cabinet_handoff m))\<rparr>)"

definition turn_docs :: "string \<Rightarrow> string \<Rightarrow> doc list" where
  "turn_docs user assistant =
    [[(''role'', JStr ''user''), (''content'', JStr user)], [(''role'', JStr ''assistant''), (''content'', JStr assistant)]]"

definition compile_turn :: "mem_env \<Rightarrow> string \<Rightarrow> string \<Rightarrow> string \<Rightarrow> instant \<Rightarrow> unit mem" where
  "compile_turn en session user assistant now =
    (if contains_origin user \<or> contains_origin assistant then mem_return ()
     else mem_bind (mem_raise (map_sum BadValue id
         (compile_session (en_lib en) (en_dumps_sorted en) session (turn_docs user assistant) ''global'' [] []))) (\<lambda>c.
       mem_bind (mem_raise (map_sum BadValue id (handoff_uri ''global'' session))) (\<lambda>u.
       transaction (\<lambda>m.
         if (case row_of hf_key (cabinet_handoff m) session of Some r \<Rightarrow> hf_obs_hash r = cs_observation c | None \<Rightarrow> False)
         then (Inr (), m)
         else mem_bind (forgiving (on_files (write_leaf (en_file_age en) u (cs_handoff c) (session @ '' handoff''))))
           (\<lambda>_. upsert_node en u False (session @ '' handoff'') (zero_llm_l0 (cs_handoff c) TOKEN_L0) [] (cs_handoff c) now)
           (put_handoff session c now (insert_events (en_lib en) session now (cs_uri c) (cs_events c) m))))))"

text \<open>\<open>_append_turn_sync\<close>: the count of the session's messages and whether the turn was inserted. What compiling raises
  is swallowed.\<close>

definition append_turn_sync ::
  "mem_env \<Rightarrow> instant \<Rightarrow> string \<Rightarrow> string \<Rightarrow> string \<Rightarrow> string option \<Rightarrow> string option \<Rightarrow> doc \<Rightarrow> string option
    \<Rightarrow> memory \<Rightarrow> (int \<times> bool) \<times> memory" where
  "append_turn_sync en now session user assistant model plane metadata commit_key m =
    (let safe_user = str_strip (bounded_redacted_text DURABLE_TEXT_MAX_BYTES user);
         safe_assistant = str_strip (bounded_redacted_text DURABLE_TEXT_MAX_BYTES assistant);
         safe_metadata = (if metadata = [] then None else Some (redact_json_value [] (JObj metadata)));
         m1 = upsert_session session model plane now m;
         insert = (\<lambda>m. let m3 = insert_turn session safe_user safe_assistant safe_metadata now m
           in ((int (length (session_messages m3 session)), True), snd (compile_turn en session safe_user safe_assistant now m3)))
     in case commit_key of
          None \<Rightarrow> insert m1
        | Some key \<Rightarrow>
            if row_of cm_job_id (session_commits m1) key \<noteq> None
            then ((int (length (session_messages m1 session)), False), m1)
            else insert (m1\<lparr>session_commits := session_commits m1 @
              [\<lparr>cm_job_id = key, cm_session = session, cm_created_at = now\<rparr>]\<rparr>))"

definition append_turn ::
  "mem_env \<Rightarrow> instant \<Rightarrow> string \<Rightarrow> string \<Rightarrow> string \<Rightarrow> string option \<Rightarrow> string option \<Rightarrow> doc \<Rightarrow> int mem" where
  "append_turn en now session user assistant model plane metadata =
    mem_bind (mem_raise (normalize_session session)) (\<lambda>s m.
      case append_turn_sync en now s user assistant model plane metadata None m of ((n, _), m') \<Rightarrow> (Inr n, m'))"

definition append_turn_once ::
  "mem_env \<Rightarrow> instant \<Rightarrow> string \<Rightarrow> string \<Rightarrow> string \<Rightarrow> string \<Rightarrow> string option \<Rightarrow> string option \<Rightarrow> doc \<Rightarrow> (int \<times> bool) mem" where
  "append_turn_once en now commit_key session user assistant model plane metadata =
    (let key = str_strip commit_key in
     if key = [] then mem_raise (Inl (BadValue ''commit_key is required''))
     else mem_bind (mem_raise (normalize_session session)) (\<lambda>s m.
       case append_turn_sync en now s user assistant model plane metadata (Some key) m of (r, m') \<Rightarrow> (Inr r, m')))"

text \<open>\<open>int(limit or n)\<close> between 1 and \<open>upper\<close>.\<close>

definition bounded_limit :: "int \<Rightarrow> int \<Rightarrow> int \<Rightarrow> nat" where
  "bounded_limit standard upper limit = nat (max 1 (min (if limit = 0 then standard else limit) upper))"

definition load_messages :: "string \<Rightarrow> int \<Rightarrow> (message_row list) mem" where
  "load_messages session limit =
    mem_bind (mem_raise (normalize_session session)) (\<lambda>s m.
      (Inr (sort_key mg_id (newest mg_id (bounded_limit 24 100 limit) (session_messages m s))), m))"

definition message_metadata :: "message_row \<Rightarrow> doc option" where
  "message_metadata r = (case mg_metadata r of Some (JObj d) \<Rightarrow> Some d | _ \<Rightarrow> None)"

definition put_pack :: "pack_row \<Rightarrow> memory \<Rightarrow> memory" where
  "put_pack row m =
    m\<lparr>context_packs :=
      (if row_of pk_session (context_packs m) (pk_session row) = None then context_packs m @ [row]
       else sql_update (\<lambda>r. pk_session r = pk_session row) (\<lambda>_. row) (context_packs m))\<rparr>"

text \<open>\<open>save_context_pack\<close>: the foreign key fails for a session that is not there.\<close>

definition save_context_pack :: "instant \<Rightarrow> string \<Rightarrow> doc \<Rightarrow> int \<Rightarrow> unit mem" where
  "save_context_pack now session pack version =
    mem_bind (mem_raise (normalize_session session)) (\<lambda>s m.
      if row_of sn_name (sessions m) s = None then (Inl ForeignKey, m)
      else (Inr (), put_pack \<lparr>pk_session = s, pk_pack = redact_json_value [] (JObj pack), pk_version = version, pk_updated_at = now\<rparr> m))"

definition load_context_pack :: "string \<Rightarrow> (doc option) mem" where
  "load_context_pack session =
    mem_bind (mem_raise (normalize_session session)) (\<lambda>s m.
      ((case row_of pk_session (context_packs m) s of
          None \<Rightarrow> Inr None
        | Some r \<Rightarrow> (case pk_pack r of
              JObj d \<Rightarrow> (if pk_version r \<noteq> 0 then Inr (Some (AList.update ''version'' (JInt (pk_version r)) d))
                else case py_int (or_else (dget d ''version'') (JInt 1)) of
                    Inr v \<Rightarrow> Inr (Some (AList.update ''version'' (JInt v) d))
                  | Inl _ \<Rightarrow> Inl (BadValue ''invalid version''))
            | _ \<Rightarrow> Inr None)), m))"

definition list_sessions :: "int \<Rightarrow> string \<Rightarrow> memory \<Rightarrow> (session_row \<times> int) list" where
  "list_sessions limit prefix m =
    (let p = take 40 prefix;
         rows = (if p \<noteq> [] then filter (\<lambda>r. sql_like (p @ ''%'') (sn_name r)) (sessions m) else sessions m)
     in map (\<lambda>r. (r, int (length (session_messages m (sn_name r))))) (newest sn_updated_at (bounded_limit 50 100 limit) rows))"

text \<open>\<open>_delete_session_sync\<close> with its cascade; the telemetry rows lose the session's name.\<close>

definition delete_session :: "string \<Rightarrow> bool mem" where
  "delete_session session =
    mem_bind (mem_raise (normalize_session session)) (\<lambda>s m.
      (Inr (row_of sn_name (sessions m) s \<noteq> None),
       m\<lparr>sessions := sql_delete (\<lambda>r. sn_name r = s) (sessions m),
         messages := sql_delete (\<lambda>r. mg_session r = s) (messages m),
         session_commits := sql_delete (\<lambda>r. cm_session r = s) (session_commits m),
         context_packs := sql_delete (\<lambda>r. pk_session r = s) (context_packs m),
         telemetry_sessions := map (\<lambda>(i, n). (i, if n = Some s then None else n)) (telemetry_sessions m)\<rparr>))"

end
