(* ===== verification/Memory_Cabinet.thy ===== *)
theory Memory_Cabinet
  imports Memory_Store
begin

text \<open>
  The facts of \<open>state.py\<close> and its cabinet: saving, searching and deleting facts, walking the cabinet, listing and
  reading its files, and the peers' last jobs.
\<close>

subsection \<open>Facts\<close>

definition write_fact_nodes :: "mem_env \<Rightarrow> int \<Rightarrow> string \<Rightarrow> string \<Rightarrow> instant \<Rightarrow> unit mem" where
  "write_fact_nodes en fact_id scope item now =
    (let u = fact_uri scope fact_id; title = ''fact '' @ str_int fact_id in
     mem_bind (forgiving (on_files (write_leaf (en_file_age en) u item title))) (\<lambda>_.
     mem_bind (upsert_node en u False title (zero_llm_l0 item TOKEN_L0) [] item now) (\<lambda>_.
     case uri_parent u of
       None \<Rightarrow> mem_return ()
     | Some parent \<Rightarrow>
         (let root = \<lparr>cu_scope = scope, cu_kind = cu_kind u, cu_path = []\<rparr> in
          mem_bind (on_files (read_l0 parent)) (\<lambda>l0. mem_bind (on_files (read_l1 parent)) (\<lambda>l1.
          mem_bind (upsert_node en parent True (or_text (normalized_path parent) (cu_kind parent)) l0 l1 [] now) (\<lambda>_.
          mem_bind (on_files (read_l0 root)) (\<lambda>r0. mem_bind (on_files (read_l1 root)) (\<lambda>r1.
          upsert_node en root True (cu_kind u) r0 r1 [] now)))))))))"

text \<open>\<open>INSERT ... ON CONFLICT(scope, fact) DO UPDATE\<close>: the counter of an \<open>AUTOINCREMENT\<close> table moves on either branch.\<close>

definition put_fact :: "string \<Rightarrow> string \<Rightarrow> string \<Rightarrow> instant \<Rightarrow> memory \<Rightarrow> memory" where
  "put_fact item scope source now m =
    (let same = (\<lambda>r. kn_scope r = scope \<and> kn_fact r = item) in
     m\<lparr>knowledge_seq := knowledge_seq m + 1,
       knowledge :=
        (if sql_find same (knowledge m) \<noteq> None then sql_update same (\<lambda>r. r\<lparr>kn_source := source\<rparr>) (knowledge m)
         else knowledge m @ [\<lparr>kn_id = knowledge_seq m + 1, kn_scope = scope, kn_fact = item,
           kn_terms = space_join (state_terms item), kn_source = source, kn_created_at = now, kn_last_used_at = None,
           kn_uses = 0\<rparr>])\<rparr>)"

definition save_fact_sync :: "mem_env \<Rightarrow> instant \<Rightarrow> string \<Rightarrow> string \<Rightarrow> string \<Rightarrow> int mem" where
  "save_fact_sync en now item scope source =
    transaction (\<lambda>m.
      let m1 = put_fact item scope source now m;
          fact_id = (case sql_find (\<lambda>r. kn_scope r = scope \<and> kn_fact r = item) (knowledge m1) of Some r \<Rightarrow> kn_id r | None \<Rightarrow> 0)
      in mem_bind (write_fact_nodes en fact_id scope item now) (\<lambda>_. mem_return fact_id) m1)"

definition save_fact :: "mem_env \<Rightarrow> instant \<Rightarrow> string \<Rightarrow> string \<Rightarrow> string \<Rightarrow> int mem" where
  "save_fact en now item scope source =
    (let safe = str_strip (redact_secrets item) in
     if safe = [] then mem_raise (Inl (BadValue ''fact must not be empty''))
     else if 4000 < char_len safe then mem_raise (Inl (BadValue ''fact exceeds the 4000 character limit''))
     else if contains_origin safe then mem_raise (Inl (BadValue ''fact must not contain cabinet origin markers''))
     else mem_bind (mem_raise (normalize_scope scope))
       (\<lambda>sc. save_fact_sync en now safe sc (take 160 (or_text source ''manual''))))"

record fact_hit =
  fh_row :: knowledge_row
  fh_score :: rat
  fh_uri :: string
  fh_qid :: string

definition fact_overlap :: "string list \<Rightarrow> knowledge_row \<Rightarrow> nat" where
  "fact_overlap terms r = length (filter (\<lambda>t. t \<in> set (str_split (kn_terms r))) terms)"

text \<open>The rows that share a term with the query, best first and newest first among equals.\<close>

definition scored_facts :: "string list \<Rightarrow> knowledge_row list \<Rightarrow> (rat \<times> knowledge_row) list" where
  "scored_facts terms rows =
    rev (sort_key (\<lambda>p. (fst p, kn_id (snd p)))
      (map (\<lambda>r. (fl (of_nat (fact_overlap terms r) / of_nat (max (length terms) 1)), r))
        (filter (\<lambda>r. 0 < fact_overlap terms r) rows)))"

definition fact_hit_of :: "string \<Rightarrow> rat \<times> knowledge_row \<Rightarrow> mem_error + fact_hit" where
  "fact_hit_of qid p =
    map_sum id (\<lambda>shown. \<lparr>fh_row = snd p, fh_score = fst p, fh_uri = shown, fh_qid = qid\<rparr>)
      (shown_uri (fact_uri (kn_scope (snd p)) (kn_id (snd p))))"

fun all_ok :: "('e + 'a) list \<Rightarrow> 'e + 'a list" where
  "all_ok [] = Inr []"
| "all_ok (r # rs) = (case r of Inl e \<Rightarrow> Inl e | Inr x \<Rightarrow> map_sum id (\<lambda>xs. x # xs) (all_ok rs))"

definition search_facts_sync :: "mem_env \<Rightarrow> string \<Rightarrow> string option \<Rightarrow> nat \<Rightarrow> memory \<Rightarrow> mem_error + fact_hit list" where
  "search_facts_sync en query scope limit m =
    (let terms = state_terms query in
     if terms = [] then Inr []
     else all_ok (map (fact_hit_of (cabinet_qid (en_lib en) query scope))
       (take limit (scored_facts terms (scope_facts m scope 400)))))"

definition optional_scope :: "string option \<Rightarrow> mem_error + string option" where
  "optional_scope scope =
    (case scope of None \<Rightarrow> Inr None | Some s \<Rightarrow> if s = [] then Inr None else map_sum id Some (normalize_scope s))"

definition search_facts :: "mem_env \<Rightarrow> string \<Rightarrow> string option \<Rightarrow> int \<Rightarrow> (fact_hit list) mem" where
  "search_facts en query scope limit =
    (let q = str_strip query in
     if q = [] then mem_raise (Inl (BadValue ''query must not be empty''))
     else mem_bind (mem_raise (optional_scope scope))
       (\<lambda>sc m. (search_facts_sync en q sc (bounded_limit 5 25 limit) m, m)))"

definition touch_facts :: "instant \<Rightarrow> int list \<Rightarrow> memory \<Rightarrow> memory" where
  "touch_facts now ids m =
    m\<lparr>knowledge := fold (\<lambda>i. sql_update (\<lambda>r. kn_id r = i) (\<lambda>r. r\<lparr>kn_last_used_at := Some now, kn_uses := kn_uses r + 1\<rparr>))
      (dedup ids) (knowledge m)\<rparr>"

definition count_facts :: "memory \<Rightarrow> int" where "count_facts m = int (length (knowledge m))"

definition delete_fact :: "mem_env \<Rightarrow> int \<Rightarrow> string \<Rightarrow> bool mem" where
  "delete_fact en fact_id scope_prefix m =
    (let prefix = take 40 scope_prefix in
     case sql_find (\<lambda>r. kn_id r = fact_id \<and> (prefix \<noteq> [] \<longrightarrow> sql_like (prefix @ ''%'') (kn_scope r))) (knowledge m) of
       None \<Rightarrow> (Inr False, m)
     | Some r \<Rightarrow>
         let u = fact_uri (kn_scope r) (kn_id r) in
         (case shown_uri u of
            Inl e \<Rightarrow> (Inl e, m)
          | Inr shown \<Rightarrow>
              let m1 = delete_node shown m; m2 = m1\<lparr>knowledge := sql_delete (\<lambda>k. kn_id k = fact_id) (knowledge m1)\<rparr>
              in mem_bind (forgiving (on_files (delete_leaf u))) (\<lambda>_. mem_return True) m2))"

subsection \<open>The walk over the index\<close>

definition candidate_of_node :: "mem_env \<Rightarrow> node_row \<Rightarrow> walk_candidate" where
  "candidate_of_node en r =
    \<lparr>cn_uri = nd_uri r, cn_scope = nd_scope r, cn_kind = nd_kind r, cn_path = nd_path r,
     cn_parent = (if nd_parent r = Some [] then None else nd_parent r), cn_is_dir = nd_is_dir r, cn_l0 = nd_l0 r,
     cn_l1 = nd_l1 r, cn_body = nd_body r, cn_updated_at = isoformat (en_lib en) (nd_updated_at r),
     cn_age_days = en_age_days en (nd_updated_at r), cn_pinned = nd_pinned r, cn_tags = str_split (nd_tags r)\<rparr>"

definition candidate_of_fact :: "mem_env \<Rightarrow> knowledge_row \<Rightarrow> mem_error + walk_candidate" where
  "candidate_of_fact en r =
    (let u = fact_uri (kn_scope r) (kn_id r) in
     case shown_uri u of
       Inl e \<Rightarrow> Inl e
     | Inr shown \<Rightarrow>
         map_sum id (\<lambda>parent.
           \<lparr>cn_uri = shown, cn_scope = kn_scope r, cn_kind = ''memories'', cn_path = normalized_path u, cn_parent = parent,
            cn_is_dir = False, cn_l0 = zero_llm_l0 (kn_fact r) TOKEN_L0, cn_l1 = [], cn_body = kn_fact r,
            cn_updated_at = isoformat (en_lib en) (kn_created_at r), cn_age_days = en_age_days en (kn_created_at r),
            cn_pinned = False, cn_tags = []\<rparr>)
         (case uri_parent u of None \<Rightarrow> Inr None | Some p \<Rightarrow> map_sum id Some (shown_uri p)))"

definition walk_candidates :: "mem_env \<Rightarrow> string option \<Rightarrow> memory \<Rightarrow> mem_error + walk_candidate list" where
  "walk_candidates en scope m =
    (let nodes = scope_nodes m scope 400 in
     if nodes \<noteq> [] then Inr (map (candidate_of_node en) nodes)
     else all_ok (map (candidate_of_fact en) (scope_facts m scope 400)))"

definition fts_ranking :: "mem_env \<Rightarrow> string \<Rightarrow> string list \<Rightarrow> memory \<Rightarrow> string list option" where
  "fts_ranking en query allowed m =
    (if \<not> has_fts m \<or> allowed = [] then None
     else let terms = state_terms query in
       if terms = [] then None
       else map_option (filter (\<lambda>u. u \<in> set allowed))
         (en_fts en (join '' OR '' (map (\<lambda>t. [CHR 0x22] @ filter (\<lambda>c. c \<noteq> CHR 0x22) t @ [CHR 0x22]) terms)) (cabinet_fts m)))"

definition put_traj :: "string \<Rightarrow> walk_result \<Rightarrow> instant \<Rightarrow> memory \<Rightarrow> memory" where
  "put_traj query r now m =
    (let row = \<lparr>tj_qid = wr_qid r, tj_query = query, tj_gamma = wr_trajectory r, tj_picked = map wh_uri (wr_hits r),
         tj_created_at = now\<rparr>
     in m\<lparr>cabinet_traj :=
       (if row_of tj_qid (cabinet_traj m) (wr_qid r) = None then cabinet_traj m @ [row]
        else sql_update (\<lambda>t. tj_qid t = wr_qid r) (\<lambda>_. row) (cabinet_traj m))\<rparr>)"

definition walk_cabinet_sync :: "mem_env \<Rightarrow> instant \<Rightarrow> string \<Rightarrow> string option \<Rightarrow> int \<Rightarrow> walk_result mem" where
  "walk_cabinet_sync en now query scope budget m =
    (case walk_candidates en scope m of
       Inl e \<Rightarrow> (Inl e, m)
     | Inr cs \<Rightarrow>
         let fts = (case fts_ranking en query (map cn_uri cs) m of None \<Rightarrow> [] | Some us \<Rightarrow> us);
             r = walk (en_exp en) query cs (cabinet_qid (en_lib en) query scope) (max 1 budget) fts
         in (Inr r, put_traj query r now m))"

definition walk_cabinet :: "mem_env \<Rightarrow> instant \<Rightarrow> string \<Rightarrow> string option \<Rightarrow> int \<Rightarrow> walk_result mem" where
  "walk_cabinet en now query scope budget =
    (let q = str_strip query in
     if q = [] then mem_raise (Inl (BadValue ''query must not be empty''))
     else mem_bind (mem_raise (optional_scope scope)) (\<lambda>sc. walk_cabinet_sync en now q sc (max 1 budget)))"

definition load_trajectory :: "string \<Rightarrow> (traj_row option) mem" where
  "load_trajectory qid =
    (let token = str_strip qid in
     if token = [] then mem_raise (Inl (BadValue ''qid is required''))
     else (\<lambda>m. (Inr (row_of tj_qid (cabinet_traj m) token), m)))"

subsection \<open>Files\<close>

definition guard_cabinet_uri :: "cabinet_uri \<Rightarrow> string \<Rightarrow> mem_error + unit" where
  "guard_cabinet_uri u prefix =
    (if tenant_tagged (cu_scope u) \<and> (prefix = [] \<or> \<not> starts_with prefix (cu_scope u))
     then Inl (BadValue ''cabinet uri is outside the caller tenant'') else Inr ())"

record ls_item =
  li_name :: string
  li_is_dir :: bool
  li_l0 :: string

definition ls_item_of :: "wiki_fs \<Rightarrow> string list \<Rightarrow> string \<Rightarrow> ls_item option" where
  "ls_item_of fs d name =
    (let p = d @ [name] in
     if starts_with ''.'' name \<or> name \<in> {''.abstract.md'', ''.overview.md''} then None
     else if ends_with ''.md'' name \<and> is_file fs p then
       Some \<lparr>li_name = take (length name - 3) name, li_is_dir = False, li_l0 = zero_llm_l0 (read_text fs p) 40\<rparr>
     else if is_directory fs p then
       Some \<lparr>li_name = name, li_is_dir = True,
         li_l0 = (if is_file fs (p @ [''.abstract.md'']) then str_strip (read_text fs (p @ [''.abstract.md''])) else [])\<rparr>
     else None)"

definition guarded_uri :: "mem_env \<Rightarrow> string \<Rightarrow> string \<Rightarrow> mem_error + cabinet_uri" where
  "guarded_uri en value prefix =
    (case parse_uri (en_lossy en) value of
       Inl e \<Rightarrow> Inl (BadValue e)
     | Inr u \<Rightarrow> map_sum id (\<lambda>_. u) (guard_cabinet_uri u (take 40 prefix)))"

definition cabinet_ls :: "mem_env \<Rightarrow> string \<Rightarrow> string \<Rightarrow> (ls_item list) mem" where
  "cabinet_ls en value prefix =
    mem_bind (mem_raise (guarded_uri en value prefix)) (\<lambda>u.
      mem_bind (mem_raise (map_sum BadValue id (node_dir u))) (\<lambda>d m.
        (Inr (if is_directory (wiki m) d then List.map_filter (ls_item_of (wiki m) d) (child_names (wiki m) d) else []), m)))"

definition cabinet_read :: "mem_env \<Rightarrow> string \<Rightarrow> int \<Rightarrow> string \<Rightarrow> (string \<times> int \<times> string) mem" where
  "cabinet_read en value layer prefix =
    (let bounded = max 0 (min layer 2) in
     mem_bind (mem_raise (guarded_uri en value prefix)) (\<lambda>u.
     mem_bind (on_files (if bounded \<le> 0 then read_l0 u else if bounded = 1 then read_l1 u else read_leaf u)) (\<lambda>content.
     mem_bind (mem_raise (shown_uri u)) (\<lambda>shown. mem_return (shown, bounded, content)))))"

definition write_peer_last_job_sync :: "mem_env \<Rightarrow> string \<Rightarrow> string \<Rightarrow> string \<Rightarrow> string \<Rightarrow> instant \<Rightarrow> string mem" where
  "write_peer_last_job_sync en seat body scope next_step now =
    mem_bind (mem_raise (map_sum BadValue id (peer_last_job_uri scope seat))) (\<lambda>u.
      let markdown = peer_last_job_markdown seat body next_step; title = seat @ '' last-job'' in
      mem_bind (on_files (write_leaf (en_file_age en) u markdown title)) (\<lambda>_.
      mem_bind (transaction (
        mem_bind (upsert_node en u False title (zero_llm_l0 markdown TOKEN_L0) [] markdown now) (\<lambda>_.
        case uri_parent u of
          None \<Rightarrow> mem_return ()
        | Some parent \<Rightarrow>
            mem_bind (on_files (read_l0 parent)) (\<lambda>l0. mem_bind (on_files (read_l1 parent)) (\<lambda>l1.
            upsert_node en parent True seat l0 l1 [] now))))) (\<lambda>_.
      mem_raise (shown_uri u))))"

definition write_peer_last_job :: "mem_env \<Rightarrow> instant \<Rightarrow> string \<Rightarrow> string \<Rightarrow> string \<Rightarrow> string \<Rightarrow> string mem" where
  "write_peer_last_job en now seat body scope next_step =
    (let name = str_strip seat; content = str_strip body in
     if name = [] then mem_raise (Inl (BadValue ''seat is required''))
     else if content = [] then mem_raise (Inl (BadValue ''last-job body must not be empty''))
     else if contains_origin content \<or> contains_origin next_step
     then mem_raise (Inl (BadValue ''last-job must not contain cabinet origin markers''))
     else mem_bind (mem_raise (normalize_scope scope)) (\<lambda>sc. write_peer_last_job_sync en name content sc next_step now))"

end
