(* ===== verification/Memory_Facts.thy ===== *)
theory Memory_Facts
  imports Memory_Cabinet
begin

text \<open>
  What the memory keeps in every sequence of its operations: well-formed rows, conversations of whole turns, an index
  that mirrors its nodes, turns that are committed once, and tenants that see only their own memory.
\<close>

subsection \<open>The operations of a run\<close>

datatype mem_op =
    Append instant string string string "string option" "string option" doc
  | Append_Once instant string string string string "string option" "string option" doc
  | Save_Pack instant string doc int
  | Forget_Session string
  | Save_Fact instant string string string
  | Touch_Facts instant "int list"
  | Forget_Fact int string
  | Walk_Cabinet instant string "string option" int
  | Peer_Last_Job instant string string string string

fun mem_exec :: "mem_env \<Rightarrow> mem_op \<Rightarrow> memory \<Rightarrow> memory" where
  "mem_exec en (Append now s u a model plane meta) m = snd (append_turn en now s u a model plane meta m)"
| "mem_exec en (Append_Once now key s u a model plane meta) m = snd (append_turn_once en now key s u a model plane meta m)"
| "mem_exec en (Save_Pack now s pack v) m = snd (save_context_pack now s pack v m)"
| "mem_exec en (Forget_Session s) m = snd (delete_session s m)"
| "mem_exec en (Save_Fact now body scope source) m = snd (save_fact en now body scope source m)"
| "mem_exec en (Touch_Facts now ids) m = touch_facts now ids m"
| "mem_exec en (Forget_Fact i prefix) m = snd (delete_fact en i prefix m)"
| "mem_exec en (Walk_Cabinet now q scope budget) m = snd (walk_cabinet en now q scope budget m)"
| "mem_exec en (Peer_Last_Job now seat body scope step) m = snd (write_peer_last_job en now seat body scope step m)"

definition empty_memory :: "bool \<Rightarrow> memory" where
  "empty_memory fts = \<lparr>sessions = [], messages = [], messages_seq = 0, session_commits = [], context_packs = [],
    knowledge = [], knowledge_seq = 0, cabinet_nodes = [], cabinet_events = [], cabinet_events_seq = 0, cabinet_traj = [],
    cabinet_handoff = [], cabinet_fts = [], has_fts = fts, telemetry_sessions = [],
    wiki = \<lparr>wf_files = [], wf_dirs = []\<rparr>\<rparr>"

subsection \<open>Programs that keep a condition\<close>

definition keeps_mem :: "(memory \<Rightarrow> bool) \<Rightarrow> 'a mem \<Rightarrow> bool" where
  "keeps_mem P f \<longleftrightarrow> (\<forall>m. P m \<longrightarrow> P (snd (f m)))"

text \<open>A condition that does not depend on the files.\<close>

definition files_free :: "(memory \<Rightarrow> bool) \<Rightarrow> bool" where
  "files_free P \<longleftrightarrow> (\<forall>m w. P (m\<lparr>wiki := w\<rparr>) = P m)"

lemma keeps_memD: "keeps_mem P f \<Longrightarrow> P m \<Longrightarrow> P (snd (f m))"
  by (simp add: keeps_mem_def)

lemma keeps_mem_bind:
  assumes f: "keeps_mem P f" and k: "\<And>x. keeps_mem P (k x)"
  shows "keeps_mem P (mem_bind f k)"
  unfolding keeps_mem_def
proof (intro allI impI)
  fix m assume "P m"
  obtain r m' where r: "f m = (r, m')" by fastforce
  with f \<open>P m\<close> have "P m'" by (auto dest: keeps_memD)
  with k r show "P (snd (mem_bind f k m))" by (cases r) (auto simp: mem_bind_def keeps_mem_def)
qed

lemma keeps_mem_pure [simp]: "keeps_mem P (mem_return x)" "keeps_mem P (mem_raise r)"
  by (simp_all add: keeps_mem_def mem_return_def mem_raise_def)

lemma keeps_mem_files [simp]: "files_free P \<Longrightarrow> keeps_mem P (on_files w)"
  by (auto simp: keeps_mem_def files_free_def on_files_def split: prod.split)

lemma keeps_mem_forgiving: "keeps_mem P f \<Longrightarrow> keeps_mem P (forgiving f)"
proof -
  have "snd (forgiving f m) = snd (f m)" for m
    by (simp add: forgiving_def split: prod.split sum.split mem_error.split)
  then show "keeps_mem P f \<Longrightarrow> keeps_mem P (forgiving f)" by (simp add: keeps_mem_def)
qed

lemma keeps_mem_transaction: "files_free P \<Longrightarrow> keeps_mem P f \<Longrightarrow> keeps_mem P (transaction f)"
  by (auto simp: keeps_mem_def files_free_def transaction_def split: prod.split sum.split)

lemma keeps_mem_after: "keeps_mem P f \<Longrightarrow> (\<And>m. P m \<Longrightarrow> P (g m)) \<Longrightarrow> keeps_mem P (\<lambda>m. f (g m))"
  by (simp add: keeps_mem_def)

lemma keeps_mem_if: "keeps_mem P f \<Longrightarrow> keeps_mem P g \<Longrightarrow> keeps_mem P (\<lambda>m. if b m then f m else g m)"
  by (simp add: keeps_mem_def)

text \<open>A row the operations put into the index.\<close>

definition node_ok :: "node_row \<Rightarrow> bool" where
  "node_ok n \<longleftrightarrow> nd_tokens_l0 n = estimate_tokens (nd_l0 n) \<and> nd_tokens_l1 n = estimate_tokens (nd_l1 n)
    \<and> str_strip (nd_kind n) \<in> set KINDS \<and> valid_scope (str_strip (nd_scope n)) = Inr (str_strip (nd_scope n))"

lemma format_uri_parts: "format_uri scope kind path = Inr s \<Longrightarrow>
  str_strip kind \<in> set KINDS \<and> valid_scope (str_strip scope) = Inr (str_strip scope)"
  by (auto simp: format_uri_def Let_def split: if_splits sum.splits dest: valid_scope_Inr)

lemma keeps_mem_upsert:
  assumes "\<And>n m. P m \<Longrightarrow> node_ok n \<Longrightarrow> P (put_node n m)"
  shows "keeps_mem P (upsert_node en u dir title l0 l1 body now)"
proof -
  have "node_ok (node_of lib shown parent u dir title l0 l1 body now)" if "shown_uri u = Inr shown" for shown parent lib
    using that format_uri_parts [of "cu_scope u" "cu_kind u" "cu_path u" shown]
    by (cases "format_uri (cu_scope u) (cu_kind u) (cu_path u)") (auto simp: shown_uri_def node_ok_def node_of_def)
  then show ?thesis
    using assms by (auto simp: keeps_mem_def upsert_node_def split: option.split sum.split)
qed

lemma keeps_mem_write_fact:
  assumes "files_free P" "\<And>n m. P m \<Longrightarrow> node_ok n \<Longrightarrow> P (put_node n m)"
  shows "keeps_mem P (write_fact_nodes en i scope body now)"
  unfolding write_fact_nodes_def Let_def
  using assms by (auto intro!: keeps_mem_bind keeps_mem_forgiving keeps_mem_upsert split: option.split)

lemma keeps_mem_peer:
  assumes "files_free P" "\<And>n m. P m \<Longrightarrow> node_ok n \<Longrightarrow> P (put_node n m)"
  shows "keeps_mem P (write_peer_last_job en now seat body scope step)"
  unfolding write_peer_last_job_def write_peer_last_job_sync_def Let_def
  using assms by (auto intro!: keeps_mem_bind keeps_mem_forgiving keeps_mem_upsert keeps_mem_transaction split: option.split)

lemma keeps_mem_compile:
  assumes "files_free P" "\<And>n m. P m \<Longrightarrow> node_ok n \<Longrightarrow> P (put_node n m)"
    and "\<And>s c m. P m \<Longrightarrow> P (put_handoff s c now m)" "\<And>s shown evs m. P m \<Longrightarrow> P (insert_events (en_lib en) s now shown evs m)"
  shows "keeps_mem P (compile_turn en session user assistant now)"
proof -
  have "keeps_mem P (\<lambda>m. if b m then (Inr (), m) else mem_bind f k (g m))"
    if "keeps_mem P f" "\<And>x. keeps_mem P (k x)" "\<And>m. P m \<Longrightarrow> P (g m)"
    for b and f :: "unit mem" and k :: "unit \<Rightarrow> unit mem" and g
    using keeps_mem_bind [OF that(1,2)] that(3) by (simp add: keeps_mem_def)
  note step = this
  show ?thesis
    unfolding compile_turn_def
    using assms by (auto intro!: keeps_mem_bind keeps_mem_forgiving keeps_mem_upsert keeps_mem_transaction step)
qed

text \<open>What a saved fact is.\<close>

definition fact_text_ok :: "string \<Rightarrow> string \<Rightarrow> bool" where
  "fact_text_ok scope body \<longleftrightarrow> body \<noteq> [] \<and> char_len body \<le> 4000 \<and> \<not> contains_origin body \<and> state_name scope"

lemma normalize_scope_name: "normalize_scope v = Inr s \<Longrightarrow> state_name s"
  by (auto simp: normalize_scope_def Let_def split: if_splits)

lemma normalize_session_name: "normalize_session v = Inr s \<Longrightarrow> state_name s \<and> s = str_strip v"
  by (auto simp: normalize_session_def Let_def split: if_splits)

lemma keeps_mem_save_fact:
  assumes free: "files_free P" and node: "\<And>n m. P m \<Longrightarrow> node_ok n \<Longrightarrow> P (put_node n m)"
    and put: "\<And>m body sc source. P m \<Longrightarrow> fact_text_ok sc body \<Longrightarrow> P (put_fact body sc source now m)"
  shows "keeps_mem P (save_fact en now body scope source)"
proof -
  have "keeps_mem P (mem_bind (write_fact_nodes en i sc body now) (\<lambda>_. mem_return i))" for i sc body
    by (rule keeps_mem_bind [OF keeps_mem_write_fact [OF free]]) (simp_all add: node)
  then have "keeps_mem P (save_fact_sync en now body sc source)" if "fact_text_ok sc body" for body sc source
    unfolding save_fact_sync_def Let_def
    by (intro keeps_mem_transaction free) (simp add: keeps_mem_def put that)
  note sync = this
  have "keeps_mem P (mem_bind (mem_raise (normalize_scope scope)) (\<lambda>sc. save_fact_sync en now b sc src))"
    if "b \<noteq> []" "char_len b \<le> 4000" "\<not> contains_origin b" for b src
    using that sync normalize_scope_name
    by (cases "normalize_scope scope") (auto simp: mem_bind_def mem_raise_def keeps_mem_def fact_text_ok_def)
  then show ?thesis by (simp add: save_fact_def Let_def)
qed

lemma keeps_mem_walk:
  assumes "\<And>m q r. P m \<Longrightarrow> P (put_traj q r now m)"
  shows "keeps_mem P (walk_cabinet en now q sc budget)"
proof -
  have "keeps_mem P (walk_cabinet_sync en now q sc budget)" for q sc budget
    using assms by (auto simp: keeps_mem_def walk_cabinet_sync_def Let_def split: sum.split)
  then show ?thesis by (simp add: walk_cabinet_def Let_def keeps_mem_bind)
qed

lemma keeps_mem_delete_fact:
  assumes free: "files_free P" and node: "\<And>m shown. P m \<Longrightarrow> P (delete_node shown m)"
    and del: "\<And>m i. P m \<Longrightarrow> P (m\<lparr>knowledge := sql_delete (\<lambda>k. kn_id k = i) (knowledge m)\<rparr>)"
  shows "keeps_mem P (delete_fact en i prefix)"
proof -
  have "keeps_mem P (mem_bind (forgiving (on_files (delete_leaf u))) (\<lambda>_. mem_return True))" for u
    by (intro keeps_mem_bind keeps_mem_forgiving) (simp_all add: free)
  then show ?thesis
    using node del by (auto simp: delete_fact_def Let_def keeps_mem_def split: option.split sum.split)
qed

subsection \<open>Conversations\<close>

text \<open>What is stored about conversations, and when it is well formed: rows belong to sessions with proper names, the ids
  increase, and each session's messages are whole turns.\<close>

definition turns :: "message_row list \<Rightarrow> bool" where
  "turns rows \<longleftrightarrow> (\<exists>n. map mg_role rows = concat (replicate n [''user'', ''assistant'']))"

definition talks_ok :: "memory \<Rightarrow> bool" where
  "talks_ok m \<longleftrightarrow>
    keyed sn_name (sessions m) \<and> list_all (\<lambda>r. state_name (sn_name r)) (sessions m)
    \<and> mg_session ` set (messages m) \<subseteq> sn_name ` set (sessions m)
    \<and> cm_session ` set (session_commits m) \<subseteq> sn_name ` set (sessions m)
    \<and> pk_session ` set (context_packs m) \<subseteq> sn_name ` set (sessions m)
    \<and> keyed cm_job_id (session_commits m) \<and> keyed pk_session (context_packs m)
    \<and> sorted_wrt (<) (map mg_id (messages m)) \<and> list_all (\<lambda>r. mg_id r \<le> messages_seq m) (messages m)
    \<and> (\<forall>s. turns (session_messages m s))"

definition talk_tables :: "memory \<Rightarrow> session_row list \<times> message_row list \<times> int \<times> commit_row list \<times> pack_row list" where
  "talk_tables m = (sessions m, messages m, messages_seq m, session_commits m, context_packs m)"

lemma talks_ok_cong: "talk_tables m = talk_tables m' \<Longrightarrow> talks_ok m = talks_ok m'"
  by (simp add: talk_tables_def talks_ok_def session_messages_def)

lemma talk_frames [simp]:
  "talk_tables (put_node n m) = talk_tables m" "talk_tables (put_handoff s c now m) = talk_tables m"
  "talk_tables (m\<lparr>wiki := w\<rparr>) = talk_tables m" "talk_tables (delete_node shown m) = talk_tables m"
  "talk_tables (put_traj q r now m) = talk_tables m" "talk_tables (put_fact body sc src now m) = talk_tables m"
  "talk_tables (m\<lparr>knowledge := ks\<rparr>) = talk_tables m"
  by (simp_all add: talk_tables_def put_node_def put_handoff_def delete_node_def put_traj_def put_fact_def Let_def)

lemma talk_frame_events [simp]: "talk_tables (insert_events lib s now shown evs m) = talk_tables m"
  unfolding insert_events_def by (induction evs arbitrary: m) (simp_all add: talk_tables_def)

lemma compile_talks: "talk_tables (snd (compile_turn en s u a now m)) = talk_tables m"
proof -
  have "keeps_mem (\<lambda>x. talk_tables x = talk_tables m) (compile_turn en s u a now)"
    by (rule keeps_mem_compile) (simp_all add: files_free_def)
  then show ?thesis by (simp add: keeps_mem_def)
qed

text \<open>The cabinet's operations leave the conversations alone.\<close>

lemma cabinet_talks:
  "talk_tables (snd (save_fact en now body scope source m)) = talk_tables m"
  "talk_tables (snd (write_peer_last_job en now seat body scope step m)) = talk_tables m"
  "talk_tables (snd (walk_cabinet en now q sc budget m)) = talk_tables m"
  "talk_tables (snd (delete_fact en i prefix m)) = talk_tables m"
proof -
  let ?P = "\<lambda>x. talk_tables x = talk_tables m"
  have free: "files_free ?P" by (simp add: files_free_def)
  have "keeps_mem ?P (save_fact en now body scope source)"
    by (rule keeps_mem_save_fact [OF free]) simp_all
  then show "talk_tables (snd (save_fact en now body scope source m)) = talk_tables m" by (simp add: keeps_mem_def)
  have "keeps_mem ?P (write_peer_last_job en now seat body scope step)"
    by (rule keeps_mem_peer [OF free]) simp
  then show "talk_tables (snd (write_peer_last_job en now seat body scope step m)) = talk_tables m" by (simp add: keeps_mem_def)
  have "keeps_mem ?P (walk_cabinet en now q sc budget)" by (rule keeps_mem_walk) simp
  then show "talk_tables (snd (walk_cabinet en now q sc budget m)) = talk_tables m" by (simp add: keeps_mem_def)
  have "keeps_mem ?P (delete_fact en i prefix)" by (rule keeps_mem_delete_fact [OF free]) simp_all
  then show "talk_tables (snd (delete_fact en i prefix m)) = talk_tables m" by (simp add: keeps_mem_def)
qed

lemma turns_append:
  assumes "turns xs" "map mg_role ys = [''user'', ''assistant'']"
  shows "turns (xs @ ys)"
proof -
  have snoc: "concat (replicate n t) @ t = concat (replicate (Suc n) t)" for n and t :: "string list"
    by (induction n) simp_all
  from assms show ?thesis unfolding turns_def by (metis map_append snoc)
qed

lemma session_row_there: "row_of sn_name (sessions (upsert_session s model plane now m)) s \<noteq> None"
  by (cases "row_of sn_name (sessions m) s") (auto simp: upsert_session_def row_of_append row_of_update)

lemma upsert_session_names:
  "map sn_name (sessions (upsert_session s model plane now m))
    = (if s \<in> sn_name ` set (sessions m) then map sn_name (sessions m) else map sn_name (sessions m) @ [s])"
proof -
  have "row_of sn_name (sessions m) s = None \<longleftrightarrow> s \<notin> sn_name ` set (sessions m)"
    by (auto simp: row_of_None)
  then show ?thesis by (auto simp: upsert_session_def map_sql_update)
qed

lemma touch_talks [simp]: "talk_tables (touch_facts now ids m) = talk_tables m"
  by (simp add: talk_tables_def touch_facts_def)

lemma upsert_talks:
  assumes "talks_ok m" "state_name s"
  shows "talks_ok (upsert_session s model plane now m)" "s \<in> sn_name ` set (sessions (upsert_session s model plane now m))"
proof -
  let ?m = "upsert_session s model plane now m"
  note names = upsert_session_names [of s model plane now m]
  have set_names: "sn_name ` set (sessions ?m) = insert s (sn_name ` set (sessions m))"
    using arg_cong [OF names, of set] by auto
  then show "s \<in> sn_name ` set (sessions ?m)" by simp
  have "keyed sn_name (sessions ?m)" using assms(1) names by (auto simp: talks_ok_def keyed_def)
  moreover have "\<forall>n \<in> sn_name ` set (sessions ?m). state_name n"
    using assms unfolding set_names by (auto simp: talks_ok_def list_all_iff)
  then have "list_all (\<lambda>r. state_name (sn_name r)) (sessions ?m)" by (simp add: list_all_iff)
  moreover have "messages ?m = messages m" "messages_seq ?m = messages_seq m" "session_commits ?m = session_commits m"
    "context_packs ?m = context_packs m" by (simp_all add: upsert_session_def)
  ultimately show "talks_ok ?m"
    using assms(1) set_names unfolding talks_ok_def session_messages_def by auto
qed

lemma insert_turn_talks:
  assumes "talks_ok m" "s \<in> sn_name ` set (sessions m)"
  shows "talks_ok (insert_turn s u a meta now m)"
proof -
  let ?m = "insert_turn s u a meta now m"
  obtain x y where msgs: "messages ?m = messages m @ [x, y]" and new: "mg_id x = messages_seq m + 1" "mg_id y = messages_seq m + 2"
    "mg_session x = s" "mg_session y = s" "mg_role x = ''user''" "mg_role y = ''assistant''"
    and rest: "sessions ?m = sessions m" "messages_seq ?m = messages_seq m + 2" "session_commits ?m = session_commits m"
      "context_packs ?m = context_packs m"
    by (simp add: insert_turn_def)
  have "turns (session_messages ?m t)" for t
    using assms(1) new turns_append [of "session_messages m t" "[x, y]"]
    by (auto simp: talks_ok_def session_messages_def msgs)
  then show ?thesis
    using assms new unfolding talks_ok_def
    by (auto simp: msgs rest sorted_wrt_append list_all_iff)
qed

lemma append_turn_sync_talks:
  assumes "talks_ok m" "state_name s"
  shows "talks_ok (snd (append_turn_sync en now s u a model plane meta key m))"
proof -
  let ?m1 = "upsert_session s model plane now m"
  have m1: "talks_ok ?m1" "s \<in> sn_name ` set (sessions ?m1)" by (rule upsert_talks [OF assms])+
  have commit: "talks_ok (?m1\<lparr>session_commits := session_commits ?m1 @ [\<lparr>cm_job_id = k, cm_session = s, cm_created_at = now\<rparr>]\<rparr>)"
    if "row_of cm_job_id (session_commits ?m1) k = None" for k
    using m1 that by (auto simp: talks_ok_def session_messages_def keyed_def row_of_None)
  have "talks_ok (snd (compile_turn en s u' a' now (insert_turn s u' a' meta' now m')))"
    if "talks_ok m'" "s \<in> sn_name ` set (sessions m')" for u' a' meta' m'
    using talks_ok_cong [OF compile_talks] insert_turn_talks [OF that] by blast
  with m1 commit show ?thesis
    by (auto simp: append_turn_sync_def Let_def split: option.split)
qed

lemma talks_step:
  assumes "talks_ok m"
  shows "talks_ok (mem_exec en x m)"
proof (cases x)
  case (Append now s u a model plane meta)
  then show ?thesis
    using assms append_turn_sync_talks [OF assms] normalize_session_name
    by (cases "normalize_session s") (auto simp: append_turn_def mem_bind_def mem_raise_def case_prod_beta)
next
  case (Append_Once now key s u a model plane meta)
  then show ?thesis
    using assms append_turn_sync_talks [OF assms] normalize_session_name
    by (cases "normalize_session s") (auto simp: append_turn_once_def mem_bind_def mem_raise_def Let_def case_prod_beta)
next
  case (Save_Pack now s pack v)
  have "talks_ok (put_pack r m)" if "pk_session r \<in> sn_name ` set (sessions m)" for r
    using assms that
    by (auto simp: put_pack_def talks_ok_def session_messages_def keyed_def row_of_None map_sql_update set_sql_update)
  with Save_Pack assms show ?thesis
    by (cases "normalize_session s") (auto simp: save_context_pack_def mem_bind_def mem_raise_def Let_def row_of_None)
next
  case (Forget_Session s)
  have "talks_ok (m\<lparr>sessions := sql_delete (\<lambda>r. sn_name r = t) (sessions m), messages := sql_delete (\<lambda>r. mg_session r = t) (messages m),
      session_commits := sql_delete (\<lambda>r. cm_session r = t) (session_commits m),
      context_packs := sql_delete (\<lambda>r. pk_session r = t) (context_packs m), telemetry_sessions := ts\<rparr>)" for t ts
  proof -
    have "session_messages (m\<lparr>messages := sql_delete (\<lambda>r. mg_session r = t) (messages m)\<rparr>) s = (if s = t then [] else session_messages m s)" for s
      by (auto simp: session_messages_def sql_delete_def filter_empty_conv intro: filter_cong)
    moreover have "turns []" by (auto simp: turns_def intro: exI [of _ 0])
    moreover have "sorted_wrt (<) (map mg_id (sql_delete (\<lambda>r. mg_session r = t) (messages m)))"
      using assms by (auto simp: talks_ok_def sql_delete_def sorted_wrt_map intro: sorted_wrt_filter)
    ultimately show ?thesis
      using assms by (auto simp: talks_ok_def session_messages_def keyed_def sql_delete_def list_all_iff distinct_map_filter)
  qed
  with Forget_Session assms show ?thesis
    by (cases "normalize_session s") (auto simp: delete_session_def mem_bind_def mem_raise_def)
qed (use assms in \<open>simp_all add: talks_ok_cong [OF cabinet_talks(1)] talks_ok_cong [OF cabinet_talks(2)]
  talks_ok_cong [OF cabinet_talks(3)] talks_ok_cong [OF cabinet_talks(4)] talks_ok_cong [OF touch_talks]\<close>)

subsection \<open>Facts\<close>

definition facts_ok :: "memory \<Rightarrow> bool" where
  "facts_ok m \<longleftrightarrow>
    sorted_wrt (<) (map kn_id (knowledge m)) \<and> list_all (\<lambda>r. kn_id r \<le> knowledge_seq m) (knowledge m)
    \<and> keyed (\<lambda>r. (kn_scope r, kn_fact r)) (knowledge m)
    \<and> list_all (\<lambda>r. fact_text_ok (kn_scope r) (kn_fact r) \<and> kn_terms r = space_join (state_terms (kn_fact r))) (knowledge m)"

definition fact_tables :: "memory \<Rightarrow> knowledge_row list \<times> int" where
  "fact_tables m = (knowledge m, knowledge_seq m)"

lemma facts_ok_cong: "fact_tables m = fact_tables m' \<Longrightarrow> facts_ok m = facts_ok m'"
  by (simp add: fact_tables_def facts_ok_def)

lemma fact_frames [simp]:
  "fact_tables (put_node n m) = fact_tables m" "fact_tables (put_handoff s c now m) = fact_tables m"
  "fact_tables (m\<lparr>wiki := w\<rparr>) = fact_tables m" "fact_tables (delete_node shown m) = fact_tables m"
  "fact_tables (put_traj q r now m) = fact_tables m" "fact_tables (upsert_session s model plane now m) = fact_tables m"
  "fact_tables (insert_turn s u a meta now m) = fact_tables m" "fact_tables (put_pack row m) = fact_tables m"
  by (simp_all add: fact_tables_def put_node_def put_handoff_def delete_node_def put_traj_def upsert_session_def
    insert_turn_def put_pack_def Let_def)

lemma fact_frame_events [simp]: "fact_tables (insert_events lib s now shown evs m) = fact_tables m"
  unfolding insert_events_def by (induction evs arbitrary: m) (simp_all add: fact_tables_def)

lemma files_free_facts: "files_free facts_ok"
  by (simp add: files_free_def facts_ok_def)

lemma node_facts: "facts_ok m \<Longrightarrow> facts_ok (put_node n m)" "facts_ok m \<Longrightarrow> facts_ok (delete_node shown m)"
  using facts_ok_cong [OF fact_frames(1)] facts_ok_cong [OF fact_frames(4)] by auto

lemma sql_find_there: "sql_find P t \<noteq> None \<longleftrightarrow> (\<exists>r \<in> set t. P r)"
  by (auto simp: sql_find_def find_None_iff)

lemma put_fact_seq: "knowledge_seq (put_fact body sc source now m) = knowledge_seq m + 1"
  by (simp add: put_fact_def Let_def)

lemma put_fact_facts:
  assumes ok: "facts_ok m" and new: "fact_text_ok sc body"
  shows "facts_ok (put_fact body sc source now m)"
proof (cases "\<exists>r \<in> set (knowledge m). kn_scope r = sc \<and> kn_fact r = body")
  case True
  let ?same = "\<lambda>r. kn_scope r = sc \<and> kn_fact r = body"
  let ?ks = "sql_update ?same (\<lambda>r. r\<lparr>kn_source := source\<rparr>) (knowledge m)"
  have k: "knowledge (put_fact body sc source now m) = ?ks"
    using True sql_find_there [of ?same "knowledge m"] unfolding put_fact_def Let_def by simp
  have "map kn_id ?ks = map kn_id (knowledge m)"
    "map (\<lambda>r. (kn_scope r, kn_fact r)) ?ks = map (\<lambda>r. (kn_scope r, kn_fact r)) (knowledge m)"
    by (simp_all add: map_sql_update)
  with ok show ?thesis
    unfolding facts_ok_def k put_fact_seq keyed_def by (auto simp: list_all_iff set_sql_update)
next
  case False
  then have none: "sql_find (\<lambda>r. kn_scope r = sc \<and> kn_fact r = body) (knowledge m) = None"
    by (auto simp: sql_find_def find_None_iff)
  define r where "r = \<lparr>kn_id = knowledge_seq m + 1, kn_scope = sc, kn_fact = body, kn_terms = space_join (state_terms body),
    kn_source = source, kn_created_at = now, kn_last_used_at = None, kn_uses = 0\<rparr>"
  have k: "knowledge (put_fact body sc source now m) = knowledge m @ [r]"
    by (simp add: put_fact_def Let_def none r_def)
  have r: "kn_id r = knowledge_seq m + 1" "kn_scope r = sc" "kn_fact r = body" "kn_terms r = space_join (state_terms body)"
    by (simp_all add: r_def)
  from r ok new False show ?thesis
    unfolding facts_ok_def k put_fact_seq keyed_def by (auto simp: list_all_iff sorted_wrt_append)
qed

lemma compile_facts: "fact_tables (snd (compile_turn en s u a now m)) = fact_tables m"
proof -
  have "keeps_mem (\<lambda>x. fact_tables x = fact_tables m) (compile_turn en s u a now)"
    by (rule keeps_mem_compile) (simp_all add: files_free_def)
  then show ?thesis by (simp add: keeps_mem_def)
qed

lemma append_facts: "fact_tables (snd (append_turn_sync en now s u a model plane meta key m)) = fact_tables m"
proof -
  have "fact_tables (m\<lparr>session_commits := cs\<rparr>) = fact_tables m" for cs and m by (simp add: fact_tables_def)
  then show ?thesis by (simp add: append_turn_sync_def Let_def compile_facts split: option.split)
qed

lemma touch_facts_ok:
  assumes "facts_ok m" shows "facts_ok (touch_facts now ids m)"
proof -
  let ?step = "\<lambda>i. sql_update (\<lambda>r. kn_id r = i) (\<lambda>r. r\<lparr>kn_last_used_at := Some now, kn_uses := kn_uses r + 1\<rparr>)"
  have same: "map (\<lambda>r. (kn_id r, kn_scope r, kn_fact r, kn_terms r)) (fold ?step is ks) = map (\<lambda>r. (kn_id r, kn_scope r, kn_fact r, kn_terms r)) ks"
    for "is" ks by (induction "is" arbitrary: ks) (simp_all add: map_sql_update)
  define ks where "ks = fold ?step (dedup ids) (knowledge m)"
  have "map (\<lambda>r. (kn_id r, kn_scope r, kn_fact r, kn_terms r)) ks = map (\<lambda>r. (kn_id r, kn_scope r, kn_fact r, kn_terms r)) (knowledge m)"
    unfolding ks_def by (rule same)
  then have "map f (map (\<lambda>r. (kn_id r, kn_scope r, kn_fact r, kn_terms r)) ks)
      = map f (map (\<lambda>r. (kn_id r, kn_scope r, kn_fact r, kn_terms r)) (knowledge m))" for f by simp
  from this [of fst] this [of "\<lambda>(i, s, b, t). (s, b)"] this [of "\<lambda>(i, s, b, t). (s, b, t)"]
  have ids: "map kn_id ks = map kn_id (knowledge m)"
    and keys: "map (\<lambda>r. (kn_scope r, kn_fact r)) ks = map (\<lambda>r. (kn_scope r, kn_fact r)) (knowledge m)"
    and texts: "map (\<lambda>r. (kn_scope r, kn_fact r, kn_terms r)) ks = map (\<lambda>r. (kn_scope r, kn_fact r, kn_terms r)) (knowledge m)"
    by (simp_all add: o_def)
  have all: "list_all (\<lambda>r. p (f r)) xs = list_all p (map f xs)" for p f and xs :: "knowledge_row list"
    by (simp add: list_all_iff)
  have "list_all (\<lambda>r. kn_id r \<le> knowledge_seq m) ks = list_all (\<lambda>r. kn_id r \<le> knowledge_seq m) (knowledge m)"
    unfolding all [of "\<lambda>i. i \<le> knowledge_seq m"] ids ..
  moreover have "list_all (\<lambda>r. fact_text_ok (kn_scope r) (kn_fact r) \<and> kn_terms r = space_join (state_terms (kn_fact r))) ks
      = list_all (\<lambda>r. fact_text_ok (kn_scope r) (kn_fact r) \<and> kn_terms r = space_join (state_terms (kn_fact r))) (knowledge m)"
    using all [of "\<lambda>(s, b, t). fact_text_ok s b \<and> t = space_join (state_terms b)" "\<lambda>r. (kn_scope r, kn_fact r, kn_terms r)"] texts
    by simp
  ultimately show ?thesis
    using assms ids keys by (simp add: facts_ok_def touch_facts_def ks_def [symmetric] keyed_def)
qed

lemma facts_step:
  assumes ok: "facts_ok m"
  shows "facts_ok (mem_exec en x m)"
proof (cases x)
  case (Append now s u a model plane meta)
  then show ?thesis
    using ok facts_ok_cong [OF append_facts]
    by (cases "normalize_session s") (auto simp: append_turn_def mem_bind_def mem_raise_def case_prod_beta)
next
  case (Append_Once now key s u a model plane meta)
  then show ?thesis
    using ok facts_ok_cong [OF append_facts]
    by (cases "normalize_session s") (auto simp: append_turn_once_def mem_bind_def mem_raise_def Let_def case_prod_beta)
next
  case (Save_Pack now s pack v)
  then show ?thesis
    using ok facts_ok_cong [OF fact_frames(8)]
    by (cases "normalize_session s") (auto simp: save_context_pack_def mem_bind_def mem_raise_def)
next
  case (Forget_Session s)
  then show ?thesis
    using ok by (cases "normalize_session s") (auto simp: delete_session_def mem_bind_def mem_raise_def facts_ok_def)
next
  case (Save_Fact now body scope source)
  have "keeps_mem facts_ok (save_fact en now body scope source)"
    by (rule keeps_mem_save_fact [OF files_free_facts]) (simp_all add: node_facts put_fact_facts)
  with Save_Fact ok show ?thesis by (simp add: keeps_memD)
next
  case (Touch_Facts now ids)
  with ok show ?thesis by (simp add: touch_facts_ok)
next
  case (Forget_Fact i prefix)
  have del: "facts_ok m \<Longrightarrow> facts_ok (m\<lparr>knowledge := sql_delete (\<lambda>k. kn_id k = i) (knowledge m)\<rparr>)" for m i
    by (auto simp: facts_ok_def sql_delete_def keyed_def list_all_iff distinct_map_filter sorted_wrt_map intro: sorted_wrt_filter)
  have "keeps_mem facts_ok (delete_fact en i prefix)"
    by (rule keeps_mem_delete_fact [OF files_free_facts]) (simp_all add: node_facts del)
  with Forget_Fact ok show ?thesis by (simp add: keeps_memD)
next
  case (Walk_Cabinet now q scope budget)
  have "keeps_mem facts_ok (walk_cabinet en now q scope budget)"
    by (rule keeps_mem_walk) (simp add: facts_ok_cong [OF fact_frames(5)])
  with Walk_Cabinet ok show ?thesis by (simp add: keeps_memD)
next
  case (Peer_Last_Job now seat body scope step)
  have "keeps_mem facts_ok (write_peer_last_job en now seat body scope step)"
    by (rule keeps_mem_peer [OF files_free_facts]) (simp add: node_facts)
  with Peer_Last_Job ok show ?thesis by (simp add: keeps_memD)
qed

subsection \<open>The index\<close>

definition fts_of :: "node_row \<Rightarrow> fts_row" where
  "fts_of n = \<lparr>ft_title = nd_title n, ft_l0 = nd_l0 n, ft_l1 = nd_l1 n, ft_body = nd_body n, ft_uri = nd_uri n\<rparr>"

definition index_ok :: "memory \<Rightarrow> bool" where
  "index_ok m \<longleftrightarrow> keyed nd_uri (cabinet_nodes m) \<and> list_all node_ok (cabinet_nodes m)
    \<and> (if has_fts m then set (cabinet_fts m) = fts_of ` set (cabinet_nodes m) \<and> keyed ft_uri (cabinet_fts m)
       else cabinet_fts m = [])"

definition index_tables :: "memory \<Rightarrow> node_row list \<times> fts_row list \<times> bool" where
  "index_tables m = (cabinet_nodes m, cabinet_fts m, has_fts m)"

lemma index_ok_cong: "index_tables m = index_tables m' \<Longrightarrow> index_ok m = index_ok m'"
  by (simp add: index_tables_def index_ok_def)

lemma index_frames [simp]:
  "index_tables (put_handoff s c now m) = index_tables m" "index_tables (m\<lparr>wiki := w\<rparr>) = index_tables m"
  "index_tables (put_traj q r now m) = index_tables m" "index_tables (upsert_session s model plane now m) = index_tables m"
  "index_tables (insert_turn s u a meta now m) = index_tables m" "index_tables (put_pack row m) = index_tables m"
  "index_tables (put_fact body sc src now m) = index_tables m" "index_tables (touch_facts now ids m) = index_tables m"
  by (simp_all add: index_tables_def put_handoff_def put_traj_def upsert_session_def insert_turn_def put_pack_def
    put_fact_def touch_facts_def Let_def)

lemma index_frame_events [simp]: "index_tables (insert_events lib s now shown evs m) = index_tables m"
  unfolding insert_events_def by (induction evs arbitrary: m) (simp_all add: index_tables_def)

lemma files_free_index: "files_free index_ok"
  by (simp add: files_free_def index_ok_cong [OF index_frames(2)])

lemma keyed_replace: "keyed key t \<Longrightarrow> keyed key (sql_delete (\<lambda>r. key r = k) t @ [r])" if "key r = k" for key
  using that by (auto simp: keyed_def sql_delete_def distinct_map_filter)

lemma put_node_index:
  assumes ok: "index_ok m" and n: "node_ok n"
  shows "index_ok (put_node n m)"
proof -
  define upd where "upd = (\<lambda>r :: node_row. n\<lparr>nd_scope := nd_scope r, nd_kind := nd_kind r, nd_path := nd_path r, nd_is_dir := nd_is_dir r\<rparr>)"
  define ns where "ns = (if row_of nd_uri (cabinet_nodes m) (nd_uri n) = None then cabinet_nodes m @ [n]
    else sql_update (\<lambda>r. nd_uri r = nd_uri n) upd (cabinet_nodes m))"
  have upd: "nd_uri (upd r) = nd_uri n" "fts_of (upd r) = fts_of n" "node_ok r \<Longrightarrow> node_ok (upd r)" for r
    using n by (simp_all add: upd_def fts_of_def node_ok_def)
  have nodes: "cabinet_nodes (put_node n m) = ns"
    by (cases "row_of nd_uri (cabinet_nodes m) (nd_uri n)") (simp_all add: put_node_def Let_def ns_def upd_def)
  have fts: "cabinet_fts (put_node n m) = (if has_fts m then sql_delete (\<lambda>f. ft_uri f = nd_uri n) (cabinet_fts m) @ [fts_of n] else cabinet_fts m)"
    "has_fts (put_node n m) = has_fts m" by (simp_all add: put_node_def Let_def fts_of_def)
  have "keyed nd_uri ns"
    using ok upd(1) by (auto simp: index_ok_def ns_def keyed_def row_of_None map_sql_update)
  moreover have "list_all node_ok ns"
    using ok n upd(3) by (auto simp: index_ok_def ns_def list_all_iff set_sql_update)
  moreover have "fts_of ` set ns = insert (fts_of n) {f \<in> fts_of ` set (cabinet_nodes m). ft_uri f \<noteq> nd_uri n}"
  proof (cases "row_of nd_uri (cabinet_nodes m) (nd_uri n)")
    case None
    then show ?thesis by (auto simp: ns_def row_of_None fts_of_def image_iff)
  next
    case (Some r)
    let ?A = "{r \<in> set (cabinet_nodes m). nd_uri r = nd_uri n}" and ?B = "{r \<in> set (cabinet_nodes m). nd_uri r \<noteq> nd_uri n}"
    have "set ns = upd ` ?A \<union> ?B" using Some by (auto simp: ns_def sql_update_def)
    then have "fts_of ` set ns = (\<lambda>_. fts_of n) ` ?A \<union> fts_of ` ?B" by (simp add: image_Un image_image upd(2))
    moreover have "r \<in> ?A" using Some by (auto dest: row_of_Some)
    then have "(\<lambda>_. fts_of n) ` ?A = {fts_of n}" by blast
    moreover have "fts_of ` ?B = {f \<in> fts_of ` set (cabinet_nodes m). ft_uri f \<noteq> nd_uri n}" by (auto simp: fts_of_def)
    ultimately show ?thesis by simp
  qed
  moreover have "keyed ft_uri (sql_delete (\<lambda>f. ft_uri f = nd_uri n) (cabinet_fts m) @ [fts_of n])" if "keyed ft_uri (cabinet_fts m)"
    by (rule keyed_replace [OF _ that]) (simp add: fts_of_def)
  ultimately show ?thesis
    using ok by (auto simp: index_ok_def nodes fts sql_delete_def)
qed

lemma delete_node_index: "index_ok m \<Longrightarrow> index_ok (delete_node shown m)"
  by (auto simp: index_ok_def delete_node_def sql_delete_def keyed_def list_all_iff distinct_map_filter fts_of_def image_iff)

lemma compile_index: "index_ok m \<Longrightarrow> index_ok (snd (compile_turn en s u a now m))"
proof -
  have "keeps_mem index_ok (compile_turn en s u a now)"
    by (rule keeps_mem_compile [OF files_free_index])
      (simp_all add: put_node_index index_ok_cong [OF index_frames(1)] index_ok_cong [OF index_frame_events])
  then show "index_ok m \<Longrightarrow> ?thesis" by (simp add: keeps_memD)
qed

lemma append_index: "index_ok m \<Longrightarrow> index_ok (snd (append_turn_sync en now s u a model plane meta key m))"
proof -
  have "index_ok (m\<lparr>session_commits := cs\<rparr>) = index_ok m" for cs m by (simp add: index_ok_def)
  then show "index_ok m \<Longrightarrow> ?thesis"
    by (auto simp: append_turn_sync_def Let_def compile_index index_ok_cong [OF index_frames(4)]
      index_ok_cong [OF index_frames(5)] split: option.split)
qed

lemma index_step:
  assumes ok: "index_ok m"
  shows "index_ok (mem_exec en x m)"
proof (cases x)
  case (Append now s u a model plane meta)
  then show ?thesis
    using ok append_index
    by (cases "normalize_session s") (auto simp: append_turn_def mem_bind_def mem_raise_def case_prod_beta)
next
  case (Append_Once now key s u a model plane meta)
  then show ?thesis
    using ok append_index
    by (cases "normalize_session s") (auto simp: append_turn_once_def mem_bind_def mem_raise_def Let_def case_prod_beta)
next
  case (Save_Pack now s pack v)
  then show ?thesis
    using ok index_ok_cong [OF index_frames(6)]
    by (cases "normalize_session s") (auto simp: save_context_pack_def mem_bind_def mem_raise_def)
next
  case (Forget_Session s)
  then show ?thesis
    using ok by (cases "normalize_session s") (auto simp: delete_session_def mem_bind_def mem_raise_def index_ok_def)
next
  case (Save_Fact now body scope source)
  have "keeps_mem index_ok (save_fact en now body scope source)"
    by (rule keeps_mem_save_fact [OF files_free_index]) (simp_all add: put_node_index index_ok_cong [OF index_frames(7)])
  with Save_Fact ok show ?thesis by (simp add: keeps_memD)
next
  case (Touch_Facts now ids)
  with ok show ?thesis by (simp add: index_ok_cong [OF index_frames(8)])
next
  case (Forget_Fact i prefix)
  have del: "index_ok (m\<lparr>knowledge := ks\<rparr>) = index_ok m" for m ks by (simp add: index_ok_def)
  have "keeps_mem index_ok (delete_fact en i prefix)"
    by (rule keeps_mem_delete_fact [OF files_free_index]) (simp_all add: delete_node_index del)
  with Forget_Fact ok show ?thesis by (simp add: keeps_memD)
next
  case (Walk_Cabinet now q scope budget)
  have "keeps_mem index_ok (walk_cabinet en now q scope budget)"
    by (rule keeps_mem_walk) (simp add: index_ok_cong [OF index_frames(3)])
  with Walk_Cabinet ok show ?thesis by (simp add: keeps_memD)
next
  case (Peer_Last_Job now seat body scope step)
  have "keeps_mem index_ok (write_peer_last_job en now seat body scope step)"
    by (rule keeps_mem_peer [OF files_free_index]) (simp add: put_node_index)
  with Peer_Last_Job ok show ?thesis by (simp add: keeps_memD)
qed

subsection \<open>The event log, the handoffs and the trajectories\<close>

definition log_tables :: "memory \<Rightarrow> event_row list \<times> int \<times> handoff_row list \<times> traj_row list" where
  "log_tables m = (cabinet_events m, cabinet_events_seq m, cabinet_handoff m, cabinet_traj m)"

lemma log_frames [simp]:
  "log_tables (put_node n m) = log_tables m" "log_tables (delete_node shown m) = log_tables m"
  "log_tables (m\<lparr>wiki := w\<rparr>) = log_tables m" "log_tables (upsert_session s model plane now m) = log_tables m"
  "log_tables (insert_turn s u a meta now m) = log_tables m" "log_tables (put_pack row m) = log_tables m"
  "log_tables (put_fact body sc src now m) = log_tables m" "log_tables (touch_facts now ids m) = log_tables m"
  "log_tables (m\<lparr>knowledge := ks\<rparr>) = log_tables m" "log_tables (m\<lparr>session_commits := cs\<rparr>) = log_tables m"
  by (simp_all add: log_tables_def put_node_def delete_node_def upsert_session_def insert_turn_def put_pack_def
    put_fact_def touch_facts_def Let_def)

text \<open>A condition on these tables survives every operation when the three that write them keep it.\<close>

lemma log_step:
  assumes cong: "\<And>m m'. log_tables m = log_tables m' \<Longrightarrow> P m = P m'"
    and handoff: "\<And>s c now m. P m \<Longrightarrow> P (put_handoff s c now m)"
    and events: "\<And>lib s now shown evs m. P m \<Longrightarrow> P (insert_events lib s now shown evs m)"
    and traj: "\<And>q r now m. P m \<Longrightarrow> P (put_traj q r now m)"
    and ok: "P m"
  shows "P (mem_exec en x m)"
proof -
  note same = cong [OF log_frames(1)] cong [OF log_frames(2)] cong [OF log_frames(4)] cong [OF log_frames(5)]
    cong [OF log_frames(6)] cong [OF log_frames(7)] cong [OF log_frames(8)] cong [OF log_frames(9)] cong [OF log_frames(10)]
  have free: "files_free P" using cong [OF log_frames(3)] by (simp add: files_free_def)
  have compile: "P (snd (compile_turn en s u a now m'))" if "P m'" for s u a now m'
  proof -
    have "keeps_mem P (compile_turn en s u a now)" by (rule keeps_mem_compile [OF free]) (simp_all add: handoff events same(1))
    with that show ?thesis by (simp add: keeps_memD)
  qed
  have append: "P (snd (append_turn_sync en now s u a model plane meta key m))" for now s u a model plane meta key
    using ok by (auto simp: append_turn_sync_def Let_def compile same split: option.split)
  show ?thesis
  proof (cases x)
    case (Append now s u a model plane meta)
    then show ?thesis
      using ok append by (cases "normalize_session s") (auto simp: append_turn_def mem_bind_def mem_raise_def case_prod_beta)
  next
    case (Append_Once now key s u a model plane meta)
    then show ?thesis
      using ok append
      by (cases "normalize_session s") (auto simp: append_turn_once_def mem_bind_def mem_raise_def Let_def case_prod_beta)
  next
    case (Save_Pack now s pack v)
    then show ?thesis
      using ok same by (cases "normalize_session s") (auto simp: save_context_pack_def mem_bind_def mem_raise_def)
  next
    case (Forget_Session s)
    have "log_tables (snd (delete_session s m)) = log_tables m"
      by (cases "normalize_session s") (simp_all add: delete_session_def mem_bind_def mem_raise_def log_tables_def)
    with Forget_Session ok cong show ?thesis by (metis mem_exec.simps(4))
  next
    case (Save_Fact now body scope source)
    have "keeps_mem P (save_fact en now body scope source)"
      by (rule keeps_mem_save_fact [OF free]) (simp_all add: same)
    with Save_Fact ok show ?thesis by (simp add: keeps_memD)
  next
    case (Touch_Facts now ids)
    with ok same show ?thesis by simp
  next
    case (Forget_Fact i prefix)
    have "keeps_mem P (delete_fact en i prefix)"
      by (rule keeps_mem_delete_fact [OF free]) (simp_all add: same)
    with Forget_Fact ok show ?thesis by (simp add: keeps_memD)
  next
    case (Walk_Cabinet now q scope budget)
    have "keeps_mem P (walk_cabinet en now q scope budget)" by (rule keeps_mem_walk) (rule traj)
    with Walk_Cabinet ok show ?thesis by (simp add: keeps_memD)
  next
    case (Peer_Last_Job now seat body scope step)
    have "keeps_mem P (write_peer_last_job en now seat body scope step)"
      by (rule keeps_mem_peer [OF free]) (simp add: same)
    with Peer_Last_Job ok show ?thesis by (simp add: keeps_memD)
  qed
qed

definition log_ok :: "memory \<Rightarrow> bool" where
  "log_ok m \<longleftrightarrow>
    sorted_wrt (<) (map ce_id (cabinet_events m)) \<and> list_all (\<lambda>r. ce_id r \<le> cabinet_events_seq m) (cabinet_events m)
    \<and> keyed hf_key (cabinet_handoff m) \<and> list_all (\<lambda>r. hf_state r = ''open'') (cabinet_handoff m) \<and> keyed tj_qid (cabinet_traj m)"

lemma keyed_upsert_row:
  assumes "keyed key t" "key row = k"
  shows "keyed key (if row_of key t k = None then t @ [row] else sql_update (\<lambda>r. key r = k) (\<lambda>_. row) t)"
proof -
  have "map key (sql_update (\<lambda>r. key r = k) (\<lambda>_. row) t) = map key t"
    using assms(2) by (auto simp: sql_update_def)
  then show ?thesis using assms by (auto simp: keyed_def row_of_None)
qed

lemma log_ok_events: "log_ok m \<Longrightarrow> log_ok (insert_events lib s now shown evs m)"
proof (induction evs arbitrary: m)
  case (Cons e evs)
  let ?m = "insert_events lib s now shown [e] m"
  have "log_ok ?m"
    using Cons.prems by (auto simp: log_ok_def insert_events_def list_all_iff sorted_wrt_append)
  then have "log_ok (insert_events lib s now shown evs ?m)" by (rule Cons.IH)
  then show ?case by (simp add: insert_events_def)
qed (simp add: insert_events_def)

lemma log_ok_handoff: "log_ok m \<Longrightarrow> log_ok (put_handoff s c now m)"
  unfolding put_handoff_def Let_def log_ok_def
  using keyed_upsert_row [of hf_key "cabinet_handoff m" _ s] by (auto simp: list_all_iff set_sql_update simp del: split_paired_All)

lemma log_ok_traj: "log_ok m \<Longrightarrow> log_ok (put_traj q r now m)"
  unfolding put_traj_def Let_def log_ok_def
  using keyed_upsert_row [of tj_qid "cabinet_traj m" _ "wr_qid r"] by simp

lemma log_ok_step: "log_ok m \<Longrightarrow> log_ok (mem_exec en x m)"
  by (rule log_step [where P = log_ok])
    (simp_all add: log_ok_handoff log_ok_events log_ok_traj, simp add: log_tables_def log_ok_def)

subsection \<open>Every run\<close>

interpretation memory_run: transactions "mem_exec en" "\<lambda>_ _. True" "\<lambda>m. talks_ok m \<and> facts_ok m \<and> index_ok m \<and> log_ok m" for en
  by unfold_locales (auto intro: talks_step facts_step index_step log_ok_step)

lemma empty_memory_ok:
  "talks_ok (empty_memory fts) \<and> facts_ok (empty_memory fts) \<and> index_ok (empty_memory fts) \<and> log_ok (empty_memory fts)"
  by (auto simp: talks_ok_def facts_ok_def index_ok_def log_ok_def empty_memory_def keyed_def session_messages_def turns_def
    intro: exI [of _ 0])

text \<open>C30. In every sequence of operations on an empty memory the stored rows stay well typed. Sessions have unique, proper
  names, and messages, commits and packs belong to one of them; commits and packs have unique keys, message ids increase,
  and each conversation is a sequence of whole user and assistant turns. Facts are non-empty, at most 4000 characters, free
  of the cabinet's own marker, unique in their scope, with increasing ids, and indexed by their terms. The index has one
  row per address, of a known kind and a valid scope, its token counts are the estimates of its texts, and the full-text
  table mirrors it. Event ids increase, handoffs are open and unique by session, trajectories unique by query.\<close>

theorem memory_well_typed:
  "let m = fold (mem_exec en) ops (empty_memory fts) in talks_ok m \<and> facts_ok m \<and> index_ok m \<and> log_ok m"
  using memory_run.run_keeps [OF empty_memory_ok, of en ops fts] by (simp add: Let_def along_list_all [where P = "\<lambda>_. True"] list_all_iff)

subsection \<open>A turn is committed once\<close>

definition committed :: "string \<Rightarrow> string \<Rightarrow> memory \<Rightarrow> bool" where
  "committed key s m \<longleftrightarrow> (\<exists>r \<in> set (session_commits m). cm_job_id r = key \<and> cm_session r = s)"

definition forgets :: "string \<Rightarrow> mem_op \<Rightarrow> bool" where
  "forgets s x \<longleftrightarrow> (\<exists>f. x = Forget_Session f \<and> normalize_session f = Inr s)"

lemma committed_cong: "talk_tables m = talk_tables m' \<Longrightarrow> committed key s m = committed key s m'"
  by (simp add: talk_tables_def committed_def)

lemma append_commits:
  "session_commits (snd (append_turn_sync en now s u a model plane meta key m)) =
    (case key of None \<Rightarrow> session_commits m
     | Some k \<Rightarrow> if row_of cm_job_id (session_commits m) k \<noteq> None then session_commits m
        else session_commits m @ [\<lparr>cm_job_id = k, cm_session = s, cm_created_at = now\<rparr>])"
proof -
  have c: "session_commits (snd (compile_turn en s u a now m)) = session_commits m" for u a m
    using compile_talks [of en s u a now m] by (simp add: talk_tables_def)
  have "session_commits (upsert_session s model plane now m) = session_commits m" by (simp add: upsert_session_def)
  then show ?thesis by (simp add: append_turn_sync_def Let_def c insert_turn_def split: option.split)
qed

lemma committed_step:
  assumes c: "committed key s m" and x: "\<not> forgets s x"
  shows "committed key s (mem_exec en x m)"
proof (cases x)
  case (Append now t u a model plane meta)
  with c show ?thesis
    by (cases "normalize_session t")
      (auto simp: append_turn_def mem_bind_def mem_raise_def case_prod_beta committed_def append_commits)
next
  case (Append_Once now k t u a model plane meta)
  with c show ?thesis
    by (cases "normalize_session t")
      (auto simp: append_turn_once_def mem_bind_def mem_raise_def Let_def case_prod_beta committed_def append_commits)
next
  case (Save_Pack now t pack v)
  with c show ?thesis
    by (cases "normalize_session t") (auto simp: save_context_pack_def mem_bind_def mem_raise_def committed_def put_pack_def)
next
  case (Forget_Session t)
  with c x show ?thesis
    by (cases "normalize_session t") (auto simp: delete_session_def mem_bind_def mem_raise_def committed_def sql_delete_def forgets_def)
qed (use c in \<open>simp_all add: committed_cong [OF cabinet_talks(1)] committed_cong [OF cabinet_talks(2)]
  committed_cong [OF cabinet_talks(3)] committed_cong [OF cabinet_talks(4)] committed_cong [OF touch_talks]\<close>)

lemma once_parts:
  "append_turn_once en now key s u a model plane meta m = (Inr (n, b), m1) \<Longrightarrow>
   \<exists>t. normalize_session s = Inr t \<and> str_strip key \<noteq> []
     \<and> append_turn_sync en now t u a model plane meta (Some (str_strip key)) m = ((n, b), m1)"
  by (cases "normalize_session s") (auto simp: append_turn_once_def mem_bind_def mem_raise_def Let_def split: if_splits prod.splits)

lemma inserted_commits:
  assumes "append_turn_sync en now t u a model plane meta (Some k) m = ((n, True), m1)"
  shows "committed k t m1"
proof -
  have "row_of cm_job_id (session_commits m) k = None"
    using assms by (auto simp: append_turn_sync_def upsert_session_def Let_def split: if_splits)
  then show ?thesis using append_commits [of en now t u a model plane meta "Some k" m] assms by (simp add: committed_def)
qed

text \<open>C1. A turn that was committed under a key is never committed again: whatever operations follow, short of forgetting
  the session, a replay of the commit (with any text, for any session) reports that nothing was inserted and adds no
  message.\<close>

theorem turn_committed_once:
  assumes first: "append_turn_once en now key s u a model plane meta m = (Inr (n, True), m1)"
    and kept: "list_all (\<lambda>x. \<not> forgets (str_strip s) x) ops"
    and name: "normalize_session s' = Inr t'"
  defines "m2 \<equiv> fold (mem_exec en) ops m1"
  shows "\<exists>k m3. append_turn_once en now' key s' u' a' model' plane' meta' m2 = (Inr (k, False), m3) \<and> messages m3 = messages m2"
proof -
  obtain t where t: "normalize_session s = Inr t" "str_strip key \<noteq> []"
    and sync: "append_turn_sync en now t u a model plane meta (Some (str_strip key)) m = ((n, True), m1)"
    using once_parts [OF first] by blast
  have ts: "t = str_strip s" using normalize_session_name [OF t(1)] by simp
  have "committed (str_strip key) t (fold (mem_exec en) ops m')" if "committed (str_strip key) t m'" for m'
    using that kept [folded ts] by (induction ops arbitrary: m') (auto intro: committed_step)
  then have "committed (str_strip key) t m2" unfolding m2_def using inserted_commits [OF sync] by blast
  then obtain r where "r \<in> set (session_commits m2)" "cm_job_id r = str_strip key" by (auto simp: committed_def)
  then have there: "row_of cm_job_id (session_commits m2) (str_strip key) \<noteq> None"
    using imageI [of r "set (session_commits m2)" cm_job_id] by (simp add: row_of_None)
  have "append_turn_sync en now' t' u' a' model' plane' meta' (Some (str_strip key)) m2
      = ((int (length (session_messages (upsert_session t' model' plane' now' m2) t')), False), upsert_session t' model' plane' now' m2)"
    using there by (simp add: append_turn_sync_def upsert_session_def Let_def)
  with name t(2) show ?thesis
    by (simp add: append_turn_once_def mem_bind_def mem_raise_def Let_def) (simp add: upsert_session_def)
qed

subsection \<open>Tenants\<close>

lemma tagged_global: "\<not> tenant_tagged ''global''"
  by code_simp

lemma scope_sees_tenant:
  assumes "scope_sees sc s" "tenant_tagged s"
  shows "\<exists>q. sc = Some q \<and> tenant_tagged q \<and> take 32 q = take 32 s"
proof -
  obtain q where q: "sc = Some q" "q \<noteq> []" using assms by (auto simp: scope_sees_def split: option.splits if_splits)
  show ?thesis
  proof (cases "tenant_tagged q")
    case False
    with assms q tagged_global show ?thesis by (auto simp: scope_sees_def tenant_global_def split: if_splits)
  next
    case True
    then have colon: "take 1 (drop 31 q) = '':''" and len: "length (take 31 q) = 31"
      by (auto simp: tenant_tagged_def min_def split: if_splits)
    have "take 32 q = take 31 q @ take 1 (drop 31 q)" using take_add [of 31 1 q] by simp
    with colon len True assms q show ?thesis
      by (auto simp: scope_sees_def tenant_global_def split: if_splits)
  qed
qed

lemma map_sum_Inr [simp]: "map_sum id f r = Inr y \<longleftrightarrow> (\<exists>x. r = Inr x \<and> y = f x)"
  "Inr y = map_sum id f r \<longleftrightarrow> (\<exists>x. r = Inr x \<and> y = f x)"
  by (cases r; auto)+

lemma all_ok_mem: "all_ok rs = Inr xs \<Longrightarrow> x \<in> set xs \<Longrightarrow> Inr x \<in> set rs"
  by (induction rs arbitrary: xs) (auto split: sum.splits)

lemma scope_facts_seen: "r \<in> set (scope_facts m sc n) \<Longrightarrow> r \<in> set (knowledge m) \<and> scope_sees sc (kn_scope r)"
  by (auto simp: scope_facts_def newest_def dest: in_set_takeD)

lemma scope_nodes_seen: "r \<in> set (scope_nodes m sc n) \<Longrightarrow> r \<in> set (cabinet_nodes m) \<and> scope_sees sc (nd_scope r)"
  by (auto simp: scope_nodes_def newest_def dest: in_set_takeD)

text \<open>A hit quotes a candidate: it carries its address, and its text is one of the candidate's texts, or its first words.\<close>

definition candidate_texts :: "walk_candidate \<Rightarrow> string set" where
  "candidate_texts c = {cn_l0 c, cn_path c, cn_l1 c, cn_body c}"

definition quotes :: "walk_candidate list \<Rightarrow> walk_hit \<Rightarrow> bool" where
  "quotes cs h \<longleftrightarrow> (\<exists>c \<in> set cs. wh_uri h = cn_uri c
    \<and> (\<exists>src \<in> candidate_texts c. wh_text h = str_strip src \<or> (\<exists>k. wh_text h = clip_tokens (str_strip src) k)))"

lemma pack_add_quotes:
  "Ball (set (fst p)) (quotes cs) \<Longrightarrow> c \<in> set cs \<Longrightarrow> src \<in> candidate_texts c \<Longrightarrow>
   Ball (set (fst (snd (pack_add cap scores why c l src p)))) (quotes cs)"
  by (auto simp: pack_add_def hit_of_def Let_def quotes_def split: prod.split)

lemma pack_l0_quotes: "Ball (set (fst p)) (quotes cs) \<Longrightarrow> set xs \<subseteq> set cs \<Longrightarrow> Ball (set (fst (pack_l0 cap scores why xs p))) (quotes cs)"
proof (induction cap scores why xs p rule: pack_l0.induct)
  case (2 cap scores why c xs p)
  then show ?case
    using pack_add_quotes [OF 2(2), of c "if cn_l0 c \<noteq> [] then cn_l0 c else cn_path c" cap scores why 0]
    by (simp add: candidate_texts_def)
qed simp

lemma pack_l1_quotes: "Ball (set (fst p)) (quotes cs) \<Longrightarrow> set xs \<subseteq> set cs \<Longrightarrow> Ball (set (fst (pack_l1 cap scores why xs p))) (quotes cs)"
proof (induction cap scores why xs p rule: pack_l1.induct)
  case (2 cap scores why c xs p)
  then show ?case
    using pack_add_quotes [OF 2(2), of c "cn_l1 c" cap scores why 1] by (simp add: candidate_texts_def)
qed simp

lemma pack_l2_quotes: "Ball (set (fst p)) (quotes cs) \<Longrightarrow> set xs \<subseteq> set cs \<Longrightarrow> Ball (set (fst (pack_l2 cap scores why xs n p))) (quotes cs)"
proof (induction cap scores why xs n p rule: pack_l2.induct)
  case (2 cap scores why c xs n p)
  then show ?case
    using pack_add_quotes [OF 2(3), of c "cn_body c" cap scores why 2] by (auto simp: candidate_texts_def split: prod.split)
qed simp

lemma walk_quotes: "h \<in> set (wr_hits (walk expf query cs qid budget fts)) \<Longrightarrow> quotes cs h"
proof -
  define w where "w = walk_loop cs (walk_start expf query cs fts)"
  let ?ordered = "List.map_filter (by_uri cs) (rank_by_score (wk_scored w))"
  have "set ?ordered \<subseteq> set cs" using set_map_filter by_uri_Some by fastforce
  then have "Ball (set (fst (pack_budget ?ordered (wk_scored w) (wk_why w) budget))) (quotes cs)"
    unfolding pack_budget_def Let_def by (intro pack_l2_quotes pack_l1_quotes pack_l0_quotes) simp_all
  then show "h \<in> set (wr_hits (walk expf query cs qid budget fts)) \<Longrightarrow> quotes cs h"
    by (auto simp: walk_def w_def Let_def split: prod.splits)
qed

lemma walk_candidates_seen:
  assumes "walk_candidates en sc m = Inr cs" "c \<in> set cs"
  shows "scope_sees sc (cn_scope c)"
proof -
  have "scope_sees sc (cn_scope c)" if "Inr c \<in> set (map (candidate_of_fact en) (scope_facts m sc 400))"
    using that scope_facts_seen [of _ m sc 400]
    by (auto simp: candidate_of_fact_def Let_def split: sum.splits option.splits)
  with assms show ?thesis
    using scope_nodes_seen [of _ m sc 400] all_ok_mem
    by (fastforce simp: walk_candidates_def candidate_of_node_def Let_def split: if_splits)
qed

text \<open>A candidate made from a stored row of the index, or from a stored fact.\<close>

definition from_row :: "mem_env \<Rightarrow> memory \<Rightarrow> walk_candidate \<Rightarrow> bool" where
  "from_row en m c \<longleftrightarrow> c \<in> candidate_of_node en ` set (cabinet_nodes m) \<or> Inr c \<in> candidate_of_fact en ` set (knowledge m)"

lemma walk_candidates_stored:
  assumes "walk_candidates en sc m = Inr cs" "c \<in> set cs"
  shows "from_row en m c"
proof (cases "scope_nodes m sc 400 = []")
  case True
  with assms have "Inr c \<in> set (map (candidate_of_fact en) (scope_facts m sc 400))"
    by (auto simp: walk_candidates_def Let_def dest: all_ok_mem)
  then show ?thesis using scope_facts_seen by (fastforce simp: from_row_def)
next
  case False
  with assms show ?thesis using scope_nodes_seen by (fastforce simp: walk_candidates_def Let_def from_row_def)
qed

lemma optional_scope_tenant:
  assumes "optional_scope sc = Inr sc'" "scope_sees sc' t" "tenant_tagged t"
  shows "\<exists>s. sc = Some s \<and> take 32 (str_strip s) = take 32 t"
proof -
  obtain q where q: "sc' = Some q" "tenant_tagged q" "take 32 q = take 32 t" using scope_sees_tenant [OF assms(2,3)] by blast
  with assms(1) obtain s where "sc = Some s" "s \<noteq> []" "normalize_scope s = Inr q"
    by (auto simp: optional_scope_def split: option.splits if_splits)
  with q tagged_global show ?thesis by (auto simp: normalize_scope_def Let_def split: if_splits)
qed

text \<open>C2. Memory is private to its tenant. A search returns stored facts, and each hit of the cabinet's walk carries
  the address and a text of a row the store holds; a fact or row that lies in a tenant's scope is returned only to a caller
  whose own scope carries the prefix of that very tenant, so a caller without a scope sees no tenant's memory.\<close>

theorem tenant_memory_private:
  assumes search: "search_facts en q sc limit m = (Inr found, m1)" and walk: "walk_cabinet en now q sc budget m = (Inr r, m2)"
  shows "(\<forall>h \<in> set found. fh_row h \<in> set (knowledge m) \<and>
      (tenant_tagged (kn_scope (fh_row h)) \<longrightarrow> (\<exists>s. sc = Some s \<and> take 32 (str_strip s) = take 32 (kn_scope (fh_row h)))))
    \<and> (\<forall>h \<in> set (wr_hits r). \<exists>c. from_row en m c \<and> quotes [c] h \<and>
      (tenant_tagged (cn_scope c) \<longrightarrow> (\<exists>s. sc = Some s \<and> take 32 (str_strip s) = take 32 (cn_scope c))))"
proof -
  obtain sc' where sc': "optional_scope sc = Inr sc'"
    and found: "search_facts_sync en (str_strip q) sc' (bounded_limit 5 25 limit) m = Inr found"
    using search by (cases "optional_scope sc") (auto simp: search_facts_def mem_bind_def mem_raise_def Let_def split: if_splits)
  have "fh_row h \<in> set (knowledge m) \<and> scope_sees sc' (kn_scope (fh_row h))" if h: "h \<in> set found" for h
  proof -
    have "Inr h \<in> set (map (fact_hit_of (cabinet_qid (en_lib en) (str_strip q) sc'))
        (take (bounded_limit 5 25 limit) (scored_facts (state_terms (str_strip q)) (scope_facts m sc' 400))))"
      using found h by (auto simp: search_facts_sync_def Let_def dest!: all_ok_mem split: if_splits)
    then have "fh_row h \<in> set (scope_facts m sc' 400)"
      by (auto simp: fact_hit_of_def scored_facts_def dest!: in_set_takeD)
    then show ?thesis by (rule scope_facts_seen)
  qed
  moreover obtain cs where cs: "walk_candidates en sc' m = Inr cs"
    and r: "\<exists>fts. r = Cabinet_Walk.walk (en_exp en) (str_strip q) cs (cabinet_qid (en_lib en) (str_strip q) sc') (max 1 (max 1 budget)) fts"
    using walk sc'
    by (auto simp: walk_cabinet_def walk_cabinet_sync_def mem_bind_def mem_raise_def Let_def split: if_splits sum.splits)
  have "\<exists>c. from_row en m c \<and> quotes [c] h \<and> scope_sees sc' (cn_scope c)" if h: "h \<in> set (wr_hits r)" for h
  proof -
    have "quotes cs h" using r h walk_quotes by blast
    then obtain c where "c \<in> set cs" "quotes [c] h" by (auto simp: quotes_def)
    then show ?thesis using walk_candidates_stored [OF cs] walk_candidates_seen [OF cs] by blast
  qed
  ultimately show ?thesis
    using optional_scope_tenant [OF sc'] by blast
qed

subsection \<open>What forgetting a session leaves\<close>

text \<open>File operations that may fail but never complain about the address.\<close>

definition address_fine :: "'a wiki \<Rightarrow> bool" where
  "address_fine w \<longleftrightarrow> (\<forall>fs e. fst (w fs) \<noteq> Inl (UriError e))"

lemma address_fine_bind: "address_fine w \<Longrightarrow> (\<And>x. address_fine (k x)) \<Longrightarrow> address_fine (wiki_bind w k)"
  by (auto simp: address_fine_def wiki_bind_def split: prod.splits sum.splits) (metis fst_conv)+

lemma address_fine_basic:
  "address_fine (wiki_lift (Inr x))" "address_fine (wiki_return x)" "address_fine (make_dirs d)" "address_fine (put_file p t)"
  "address_fine (rename_file p q)"
  by (auto simp: address_fine_def wiki_lift_def wiki_return_def make_dirs_def put_file_def rename_file_def split: option.split)

lemma lift_bind [simp]: "wiki_bind (wiki_lift (Inr x)) k = k x"
  by (rule ext) (simp add: wiki_bind_def wiki_lift_def)

lemma address_fine_refresh: "node_dir u = Inr d \<Longrightarrow> address_fine (refresh_directory u title)"
proof -
  have a: "address_fine (atomic_write p t)" for p t
    unfolding atomic_write_def by (intro address_fine_bind address_fine_basic)
  have "address_fine (write_sidecars u d title fs)" for fs
    unfolding write_sidecars_def Let_def by (intro address_fine_bind a)
  then have "address_fine (\<lambda>fs. write_sidecars u d title fs fs)" by (simp add: address_fine_def)
  then show "node_dir u = Inr d \<Longrightarrow> address_fine (refresh_directory u title)"
    by (simp add: refresh_directory_def lift_bind address_fine_bind address_fine_basic)
qed

lemma address_fine_write_leaf:
  assumes "leaf_path u = Inr p" "uri_parent u = Some v" "uri_parent v = Some w" "node_dir v = Inr dv" "node_dir w = Inr dw"
  shows "address_fine (write_leaf age u body title)"
proof -
  have test: "address_fine f \<Longrightarrow> address_fine g \<Longrightarrow> address_fine (\<lambda>fs. if b fs then f fs else g fs)" for b and f g :: "'a wiki"
    by (simp add: address_fine_def)
  have a: "address_fine (atomic_write p t)" for p t
    unfolding atomic_write_def by (intro address_fine_bind address_fine_basic)
  have "sidecar w ABSTRACT = Inr (dw @ [ABSTRACT])" using assms(5) by (simp add: sidecar_def)
  then have "address_fine (refresh_above age u p)" for p
    unfolding refresh_above_def Let_def assms(2) option.case assms(3)
    by (simp only: lift_bind) (intro address_fine_bind test address_fine_basic address_fine_refresh [OF assms(4)] address_fine_refresh [OF assms(5)])
  with a show ?thesis
    unfolding write_leaf_def assms(1) lift_bind by (intro address_fine_bind address_fine_basic)
qed

lemma forgiving_files: "address_fine w \<Longrightarrow> \<exists>fs. forgiving (on_files w) m = (Inr (), m\<lparr>wiki := fs\<rparr>)"
proof -
  assume "address_fine w"
  then have fine: "\<forall>e. fst (w (wiki m)) \<noteq> Inl (UriError e)" by (simp add: address_fine_def)
  obtain r fs where "w (wiki m) = (r, fs)" by fastforce
  with fine have w: "w (wiki m) = (r, fs)" "\<forall>e. r \<noteq> Inl (UriError e)" by auto
  have "forgiving (on_files w) m = (Inr (), m\<lparr>wiki := fs\<rparr>)"
  proof (cases r)
    case (Inl e)
    with w(2) have "e = OsError" by (cases e) simp_all
    with w(1) Inl show ?thesis by (simp add: forgiving_def on_files_def)
  qed (use w(1) in \<open>simp add: forgiving_def on_files_def\<close>)
  then show ?thesis ..
qed

definition demo_user :: string where "demo_user = ''plan b''"
definition demo_reply :: string where "demo_reply = ''ok''"

lemma demo_redacted: "redact_secrets ''plan b'' = ''plan b''" "redact_secrets ''ok'' = ''ok''"
  by code_simp+

lemma demo_stripped: "str_strip demo_user = demo_user" "str_strip demo_reply = demo_reply"
  "\<not> contains_origin demo_user" "\<not> contains_origin demo_reply"
  by code_simp+

lemma demo_texts:
  "str_strip (bounded_redacted_text DURABLE_TEXT_MAX_BYTES demo_user) = demo_user"
  "str_strip (bounded_redacted_text DURABLE_TEXT_MAX_BYTES demo_reply) = demo_reply"
  "demo_user \<noteq> []" "demo_reply \<noteq> []"
  using demo_stripped
  by (simp_all add: bounded_redacted_text_def DURABLE_TEXT_MAX_BYTES_def demo_user_def demo_reply_def demo_redacted Let_def)

lemma demo_taken: "utf8_take EVENT_BODY_LIMIT demo_user = demo_user" "utf8_take EVENT_BODY_LIMIT demo_reply = demo_reply"
  by (simp_all add: EVENT_BODY_LIMIT_def demo_user_def demo_reply_def char_bytes_def code_def)

abbreviation demo_uri :: "string \<Rightarrow> cabinet_uri" where
  "demo_uri path \<equiv> \<lparr>cu_scope = ''global'', cu_kind = ''sessions'', cu_path = path\<rparr>"

lemma demo_paths:
  "handoff_uri ''global'' ''demo'' = Inr (demo_uri ''demo/handoff'')"
  "format_uri ''global'' ''sessions'' ''demo/handoff'' = Inr ''unigrok://global/sessions/demo/handoff''"
  "format_uri ''global'' ''sessions'' ''demo'' = Inr ''unigrok://global/sessions/demo''"
  "leaf_path (demo_uri ''demo/handoff'') = Inr [''global'', ''sessions'', ''demo'', ''handoff.md'']"
  "uri_parent (demo_uri ''demo/handoff'') = Some (demo_uri ''demo'')" "uri_parent (demo_uri ''demo'') = Some (demo_uri [])"
  "node_dir (demo_uri ''demo'') = Inr [''global'', ''sessions'', ''demo'']" "node_dir (demo_uri []) = Inr [''global'', ''sessions'']"
  "normalize_session ''demo'' = Inr ''demo''" "str_strip ''demo'' = ''demo''"
  by code_simp+

lemma demo_kinds: "event_kind ''user'' = ''user-prompt''" "event_kind ''assistant'' = ''other''"
  by code_simp+

lemma demo_compiled:
  "\<exists>c. compile_session lib dumps ''demo'' (turn_docs demo_user demo_reply) ''global'' [] [] = Inr c
    \<and> cs_events c = [\<lparr>tv_kind = ''user-prompt'', tv_role = ''user'', tv_body = demo_user\<rparr>,
        \<lparr>tv_kind = ''other'', tv_role = ''assistant'', tv_body = demo_reply\<rparr>]
    \<and> cs_handoff c = rule_summary (space_join [demo_user, demo_reply]) HANDOFF_LIMIT"
proof -
  have "List.map_filter (turn_event_of lib) (turn_docs demo_user demo_reply) =
      [\<lparr>tv_kind = ''user-prompt'', tv_role = ''user'', tv_body = demo_user\<rparr>,
       \<lparr>tv_kind = ''other'', tv_role = ''assistant'', tv_body = demo_reply\<rparr>]"
    by (simp add: map_filter_simps turn_event_of_def turn_docs_def turn_role_def turn_content_def dget_def or_else_def
      demo_texts demo_stripped demo_taken demo_kinds Let_def)
  then show ?thesis
    by (simp add: compile_session_def demo_paths demo_texts last_of_role_def Let_def)
qed

lemma demo_turn:
  "\<exists>m1. append_turn en now ''demo'' demo_user demo_reply None None [] (empty_memory fts) = (Inr 2, m1)
    \<and> map sn_name (sessions m1) = [''demo''] \<and> map mg_content (messages m1) = [demo_user, demo_reply]
    \<and> map mg_session (messages m1) = [''demo'', ''demo'']
    \<and> map ce_body (cabinet_events m1) = [demo_user, demo_reply]
    \<and> map (\<lambda>n. (nd_scope n, nd_body n)) (cabinet_nodes m1)
        = [(''global'', rule_summary (space_join [demo_user, demo_reply]) HANDOFF_LIMIT)]"
proof -
  let ?m2 = "insert_turn ''demo'' demo_user demo_reply None now (upsert_session ''demo'' None None now (empty_memory fts))"
  obtain c where c: "compile_session (en_lib en) (en_dumps_sorted en) ''demo'' (turn_docs demo_user demo_reply) ''global'' [] [] = Inr c"
    "cs_events c = [\<lparr>tv_kind = ''user-prompt'', tv_role = ''user'', tv_body = demo_user\<rparr>,
        \<lparr>tv_kind = ''other'', tv_role = ''assistant'', tv_body = demo_reply\<rparr>]"
    "cs_handoff c = rule_summary (space_join [demo_user, demo_reply]) HANDOFF_LIMIT"
    using demo_compiled by blast
  let ?m3 = "put_handoff ''demo'' c now (insert_events (en_lib en) ''demo'' now (cs_uri c) (cs_events c) ?m2)"
  have "address_fine (write_leaf (en_file_age en) (demo_uri ''demo/handoff'') (cs_handoff c) (''demo'' @ '' handoff''))"
    by (rule address_fine_write_leaf [OF demo_paths(4) demo_paths(5) demo_paths(6) demo_paths(7) demo_paths(8)])
  then obtain fs where fs: "forgiving (on_files (write_leaf (en_file_age en) (demo_uri ''demo/handoff'') (cs_handoff c) (''demo'' @ '' handoff''))) ?m3
      = (Inr (), ?m3\<lparr>wiki := fs\<rparr>)" using forgiving_files by blast
  have empty: "cabinet_handoff ?m2 = []" "cabinet_nodes ?m3 = []"
    by (simp_all add: insert_turn_def upsert_session_def empty_memory_def put_handoff_def insert_events_def c Let_def)
  define n where "n = node_of (en_lib en) ''unigrok://global/sessions/demo/handoff'' (Some ''unigrok://global/sessions/demo'')
    (demo_uri ''demo/handoff'') False (''demo'' @ '' handoff'') (zero_llm_l0 (cs_handoff c) TOKEN_L0) [] (cs_handoff c) now"
  have up: "upsert_node en (demo_uri ''demo/handoff'') False (''demo'' @ '' handoff'') (zero_llm_l0 (cs_handoff c) TOKEN_L0) [] (cs_handoff c) now m
      = (Inr (), put_node n m)" for m
    by (simp add: upsert_node_def shown_uri_def demo_paths n_def)
  have run: "snd (compile_turn en ''demo'' demo_user demo_reply now ?m2) = put_node n (?m3\<lparr>wiki := fs\<rparr>)"
    using fs up empty(1)
    by (simp add: compile_turn_def demo_stripped mem_bind_def mem_raise_def transaction_def c(1) demo_paths(1))
  have turn: "append_turn_sync en now ''demo'' demo_user demo_reply None None [] None (empty_memory fts)
      = ((int (length (session_messages ?m2 ''demo'')), True), put_node n (?m3\<lparr>wiki := fs\<rparr>))"
    using run by (simp add: append_turn_sync_def demo_texts Let_def)
  have "cabinet_nodes (put_node n (?m3\<lparr>wiki := fs\<rparr>)) = [n]"
    using empty(2) by (simp add: put_node_def Let_def)
  moreover have "map ce_body (cabinet_events (put_node n (?m3\<lparr>wiki := fs\<rparr>))) = [demo_user, demo_reply]"
    by (simp add: put_node_def put_handoff_def insert_events_def c(2) insert_turn_def upsert_session_def empty_memory_def Let_def)
  moreover have "talk_tables (put_node n (?m3\<lparr>wiki := fs\<rparr>)) = talk_tables ?m2" by simp
  moreover have "map sn_name (sessions ?m2) = [''demo'']" "map mg_content (messages ?m2) = [demo_user, demo_reply]"
    "map mg_session (messages ?m2) = [''demo'', ''demo'']" "length (session_messages ?m2 ''demo'') = 2"
    by (simp_all add: insert_turn_def upsert_session_def empty_memory_def session_messages_def)
  ultimately show ?thesis
    using turn by (simp add: append_turn_def mem_bind_def mem_raise_def demo_paths(9) talk_tables_def n_def node_of_def c(3))
qed

text \<open>A turn appended to an empty memory and then forgotten: its texts are in the event log and in the index.\<close>

lemma forgotten_demo_leaves_text:
  "let m1 = snd (append_turn en now ''demo'' demo_user demo_reply None None [] (empty_memory fts));
       (r, m2) = delete_session ''demo'' m1
   in r = Inr True \<and> sessions m2 = [] \<and> messages m2 = []
     \<and> map ce_body (cabinet_events m2) = [demo_user, demo_reply]
     \<and> map nd_body (scope_nodes m2 (Some ''global'') 400) = [rule_summary (space_join [demo_user, demo_reply]) HANDOFF_LIMIT]"
proof -
  obtain m1 where m1: "append_turn en now ''demo'' demo_user demo_reply None None [] (empty_memory fts) = (Inr 2, m1)"
    "map sn_name (sessions m1) = [''demo'']" "map mg_session (messages m1) = [''demo'', ''demo'']"
    "map ce_body (cabinet_events m1) = [demo_user, demo_reply]"
    "map (\<lambda>n. (nd_scope n, nd_body n)) (cabinet_nodes m1) = [(''global'', rule_summary (space_join [demo_user, demo_reply]) HANDOFF_LIMIT)]"
    using demo_turn [of en now fts] by (elim exE conjE) (rule that)
  then obtain s where s: "sessions m1 = [s]" "sn_name s = ''demo''" by auto
  obtain x y where xy: "messages m1 = [x, y]" "mg_session x = ''demo''" "mg_session y = ''demo''" using m1(3) by auto
  obtain n where n: "cabinet_nodes m1 = [n]" "nd_scope n = ''global''"
    "nd_body n = rule_summary (space_join [demo_user, demo_reply]) HANDOFF_LIMIT" using m1(5) by auto
  have "tenant_global ''global'' = None" using tagged_global by (simp add: tenant_global_def)
  then have "scope_sees (Some ''global'') ''global''" by (simp add: scope_sees_def)
  with m1 s xy n show ?thesis
    by (simp add: delete_session_def mem_bind_def mem_raise_def demo_paths(9) sql_delete_def scope_nodes_def newest_def)
qed

definition log_extends :: "memory \<Rightarrow> memory \<Rightarrow> bool" where
  "log_extends m m' \<longleftrightarrow> (\<exists>rest. cabinet_events m' = cabinet_events m @ rest)"

lemma insert_events_extends: "log_extends m (insert_events lib s now shown evs m)"
proof (induction evs arbitrary: m)
  case (Cons e evs)
  have "insert_events lib s now shown (e # evs) m = insert_events lib s now shown evs (insert_events lib s now shown [e] m)"
    "log_extends m (insert_events lib s now shown [e] m)"
    by (simp_all add: insert_events_def log_extends_def)
  with Cons.IH [of "insert_events lib s now shown [e] m"] show ?case
    by (auto simp: log_extends_def)
qed (simp add: insert_events_def log_extends_def)

lemma log_extends_step: "log_extends m0 m \<Longrightarrow> log_extends m0 (mem_exec en x m)"
proof (rule log_step [where P = "log_extends m0"])
  show "log_extends m0 (insert_events lib s now shown evs m)" if "log_extends m0 m" for lib s now shown evs m
    using that insert_events_extends [of m lib s now shown evs] by (auto simp: log_extends_def)
qed (simp_all add: log_extends_def log_tables_def put_handoff_def put_traj_def Let_def)

lemma log_extends_run: "log_extends m0 m \<Longrightarrow> log_extends m0 (fold (mem_exec en) ops m)"
  by (induction ops arbitrary: m) (simp_all add: log_extends_step)

text \<open>C31. No operation removes or changes an event of the cabinet's log, forgetting a session included: after any run that
  ends by forgetting a session, its row, messages, commits and context pack are gone, while every event that was ever logged
  is still there in its place, and the index, the handoffs and the files are as they were before.\<close>

theorem forgetting_keeps_event_log:
  assumes name: "normalize_session s = Inr n"
  shows "let m1 = fold (mem_exec en) ops m; (r, m2) = delete_session s m1 in
    n \<notin> sn_name ` set (sessions m2) \<and> session_messages m2 n = [] \<and> n \<notin> cm_session ` set (session_commits m2)
    \<and> n \<notin> pk_session ` set (context_packs m2)
    \<and> take (length (cabinet_events m)) (cabinet_events m2) = cabinet_events m
    \<and> (cabinet_events m2, cabinet_nodes m2, cabinet_handoff m2, wiki m2)
        = (cabinet_events m1, cabinet_nodes m1, cabinet_handoff m1, wiki m1)"
proof -
  define m1 where "m1 = fold (mem_exec en) ops m"
  have "log_extends m m" by (simp add: log_extends_def)
  then have "log_extends m m1" unfolding m1_def by (rule log_extends_run)
  then have "take (length (cabinet_events m)) (cabinet_events m1) = cabinet_events m" by (auto simp: log_extends_def)
  with name show ?thesis
    unfolding m1_def [symmetric] Let_def
    by (auto simp: delete_session_def mem_bind_def mem_raise_def sql_delete_def session_messages_def)
qed

subsection \<open>Samples\<close>

lemma demo_key: "str_strip ''job'' = ''job''" "str_strip ''job'' \<noteq> []"
  by code_simp+

lemma demo_commit:
  "\<exists>m1. append_turn_once en now ''job'' ''demo'' demo_user demo_reply None None [] (empty_memory fts) = (Inr (2, True), m1)"
  by (simp add: append_turn_once_def mem_bind_def mem_raise_def demo_paths(9) demo_key append_turn_sync_def upsert_session_def
    insert_turn_def empty_memory_def session_messages_def Let_def)

theorem turn_committed_once_witness:
  "\<forall>en. \<exists>m1 k m3. append_turn_once en 0 ''job'' ''demo'' demo_user demo_reply None None [] (empty_memory False) = (Inr (2, True), m1)
    \<and> append_turn_once en 1 ''job'' ''demo'' demo_reply demo_user None None []
        (fold (mem_exec en) [Touch_Facts 1 [7], Forget_Fact 7 []] m1) = (Inr (k, False), m3)
    \<and> messages m3 = messages (fold (mem_exec en) [Touch_Facts 1 [7], Forget_Fact 7 []] m1)"
proof
  fix en
  obtain m1 where m1: "append_turn_once en 0 ''job'' ''demo'' demo_user demo_reply None None [] (empty_memory False) = (Inr (2, True), m1)"
    using demo_commit by blast
  have "list_all (\<lambda>x. \<not> forgets (str_strip ''demo'') x) [Touch_Facts 1 [7], Forget_Fact 7 []]" by (simp add: forgets_def)
  from m1 turn_committed_once [OF m1 this demo_paths(9), of 1 demo_reply demo_user None None "[]"]
  show "\<exists>m1 k m3. append_turn_once en 0 ''job'' ''demo'' demo_user demo_reply None None [] (empty_memory False) = (Inr (2, True), m1)
    \<and> append_turn_once en 1 ''job'' ''demo'' demo_reply demo_user None None []
        (fold (mem_exec en) [Touch_Facts 1 [7], Forget_Fact 7 []] m1) = (Inr (k, False), m3)
    \<and> messages m3 = messages (fold (mem_exec en) [Touch_Facts 1 [7], Forget_Fact 7 []] m1)" by blast
qed

definition tenant_a :: string where "tenant_a = ''tenant-aaaaaaaaaaaaaaaaaaaaaaaa:global''"

definition tenant_row :: knowledge_row where
  "tenant_row = \<lparr>kn_id = 1, kn_scope = tenant_a, kn_fact = ''deploy on friday'', kn_terms = ''deploy on friday'',
    kn_source = ''manual'', kn_created_at = 0, kn_last_used_at = None, kn_uses = 0\<rparr>"

definition tenant_memory :: memory where
  "tenant_memory = (empty_memory False)\<lparr>knowledge := [tenant_row], knowledge_seq := 1\<rparr>"

lemma tenant_texts:
  "optional_scope (Some tenant_a) = Inr (Some tenant_a)" "tenant_tagged tenant_a" "tenant_global tenant_a = Some tenant_a"
  "tenant_a \<noteq> []" "str_strip ''deploy'' = ''deploy''" "state_terms ''deploy'' = [''deploy'']"
  "str_split ''deploy on friday'' = [''deploy'', ''on'', ''friday'']"
  by code_simp+

lemma tenant_uris: "\<exists>a. shown_uri (fact_uri tenant_a 1) = Inr a" "\<exists>b. shown_uri (\<lparr>cu_scope = tenant_a, cu_kind = ''memories'', cu_path = ''facts''\<rparr>) = Inr b"
  "uri_parent (fact_uri tenant_a 1) = Some \<lparr>cu_scope = tenant_a, cu_kind = ''memories'', cu_path = ''facts''\<rparr>"
proof -
  have "shown_uri (fact_uri tenant_a 1) = Inr ''unigrok://tenant-aaaaaaaaaaaaaaaaaaaaaaaa%3Aglobal/memories/facts/1''"
    "shown_uri (\<lparr>cu_scope = tenant_a, cu_kind = ''memories'', cu_path = ''facts''\<rparr>) = Inr ''unigrok://tenant-aaaaaaaaaaaaaaaaaaaaaaaa%3Aglobal/memories/facts''"
    by code_simp+
  then show "\<exists>a. shown_uri (fact_uri tenant_a 1) = Inr a" "\<exists>b. shown_uri (\<lparr>cu_scope = tenant_a, cu_kind = ''memories'', cu_path = ''facts''\<rparr>) = Inr b"
    by blast+
  show "uri_parent (fact_uri tenant_a 1) = Some \<lparr>cu_scope = tenant_a, cu_kind = ''memories'', cu_path = ''facts''\<rparr>"
    by code_simp
qed

lemma tenant_rows: "scope_facts tenant_memory (Some tenant_a) 400 = [tenant_row]" "scope_nodes tenant_memory (Some tenant_a) 400 = []"
  by (simp_all add: scope_facts_def scope_nodes_def newest_def tenant_memory_def tenant_row_def empty_memory_def scope_sees_def tenant_texts)

lemma tenant_search:
  "\<exists>h. search_facts en ''deploy'' (Some tenant_a) 5 tenant_memory = (Inr [h], tenant_memory) \<and> fh_row h = tenant_row"
proof -
  obtain a where a: "shown_uri (fact_uri tenant_a 1) = Inr a" using tenant_uris(1) by blast
  have "kn_scope tenant_row = tenant_a" "kn_id tenant_row = 1" "fact_overlap [''deploy''] tenant_row = 1"
    by (simp_all add: tenant_row_def fact_overlap_def tenant_texts)
  then show ?thesis
    by (simp add: search_facts_def mem_bind_def mem_raise_def tenant_texts search_facts_sync_def tenant_rows scored_facts_def
      fact_hit_of_def a bounded_limit_def Let_def)
qed

lemma tenant_walk: "\<exists>r m2. walk_cabinet en 0 ''deploy'' (Some tenant_a) 100 tenant_memory = (Inr r, m2)"
proof -
  obtain a b where "shown_uri (fact_uri tenant_a 1) = Inr a"
    "shown_uri (\<lparr>cu_scope = tenant_a, cu_kind = ''memories'', cu_path = ''facts''\<rparr>) = Inr b" using tenant_uris by blast
  moreover have "kn_scope tenant_row = tenant_a" "kn_id tenant_row = 1" by (simp_all add: tenant_row_def)
  ultimately have "\<exists>cs. walk_candidates en (Some tenant_a) tenant_memory = Inr cs"
    by (simp add: walk_candidates_def tenant_rows candidate_of_fact_def tenant_uris(3) Let_def)
  then show ?thesis
    by (auto simp: walk_cabinet_def mem_bind_def mem_raise_def tenant_texts walk_cabinet_sync_def Let_def)
qed

theorem tenant_memory_private_witness:
  "\<forall>en. \<exists>h r m2. search_facts en ''deploy'' (Some tenant_a) 5 tenant_memory = (Inr [h], tenant_memory)
    \<and> walk_cabinet en 0 ''deploy'' (Some tenant_a) 100 tenant_memory = (Inr r, m2)
    \<and> fh_row h \<in> set (knowledge tenant_memory) \<and> take 32 (str_strip tenant_a) = take 32 (kn_scope (fh_row h))"
proof
  fix en
  obtain h where h: "search_facts en ''deploy'' (Some tenant_a) 5 tenant_memory = (Inr [h], tenant_memory)" "fh_row h = tenant_row"
    using tenant_search by blast
  obtain r m2 where w: "walk_cabinet en 0 ''deploy'' (Some tenant_a) 100 tenant_memory = (Inr r, m2)" using tenant_walk by blast
  have "tenant_tagged (kn_scope (fh_row h))" using tenant_texts(2) by (simp add: h(2) tenant_row_def)
  with tenant_memory_private [OF h(1) w] h(1) w
  show "\<exists>h r m2. search_facts en ''deploy'' (Some tenant_a) 5 tenant_memory = (Inr [h], tenant_memory)
    \<and> walk_cabinet en 0 ''deploy'' (Some tenant_a) 100 tenant_memory = (Inr r, m2)
    \<and> fh_row h \<in> set (knowledge tenant_memory) \<and> take 32 (str_strip tenant_a) = take 32 (kn_scope (fh_row h))" by auto
qed

theorem forgetting_keeps_event_log_witness:
  "\<forall>en. let m1 = snd (append_turn en 0 ''demo'' demo_user demo_reply None None [] (empty_memory False)); (r, m2) = delete_session ''demo'' m1
    in session_messages m2 ''demo'' = [] \<and> map ce_body (take (length (cabinet_events m1)) (cabinet_events m2)) = [demo_user, demo_reply]"
proof
  fix en
  obtain m1 where m1: "append_turn en 0 ''demo'' demo_user demo_reply None None [] (empty_memory False) = (Inr 2, m1)"
    "map ce_body (cabinet_events m1) = [demo_user, demo_reply]"
    using demo_turn [of en 0 False] by (elim exE conjE) (rule that)
  from forgetting_keeps_event_log [OF demo_paths(9), of en "[]" m1] m1
  show "let m1 = snd (append_turn en 0 ''demo'' demo_user demo_reply None None [] (empty_memory False)); (r, m2) = delete_session ''demo'' m1
    in session_messages m2 ''demo'' = [] \<and> map ce_body (take (length (cabinet_events m1)) (cabinet_events m2)) = [demo_user, demo_reply]"
    by (auto simp: Let_def split: prod.splits)
qed

end
