(* ===== verification/Context_Pack.thy ===== *)
theory Context_Pack
  imports Cabinet_Walk
begin

text \<open>
  \<open>context_pack.py\<close>, first part: what a pack holds, the inventory of a session's messages and facts, the five persona
  votes, the lead's merge into keeps and don'ts, the condensation into one prefrontal sentence in at most two loops,
  and the clause proposed as absent. Lengths and slices count characters (a character is its UTF-8 bytes); floats are
  rationals rounded after each operation; sets of terms, of which only sizes are read, are lists without duplicates.
\<close>

subsection \<open>Slices by characters\<close>

text \<open>A character is a byte that starts one and the continuation bytes after it.\<close>

fun char_take :: "nat \<Rightarrow> string \<Rightarrow> string" where
  "char_take n [] = []"
| "char_take n (c # cs) =
     (if continuation c then c # char_take n cs else case n of 0 \<Rightarrow> [] | Suc k \<Rightarrow> c # char_take k cs)"

definition char_drop :: "nat \<Rightarrow> string \<Rightarrow> string" where
  "char_drop n s = drop (length (char_take n s)) s"

text \<open>\<open>s[:n]\<close>, where a negative \<open>n\<close> counts from the end.\<close>

definition char_prefix :: "int \<Rightarrow> string \<Rightarrow> string" where
  "char_prefix n s = char_take (nat (if n < 0 then int (char_len s) + n else n)) s"

definition ELLIPSIS :: string where "ELLIPSIS = map char_of [226, 128, 166 :: nat]"
definition EM_DASH :: string where "EM_DASH = map char_of [226, 128, 148 :: nat]"

subsection \<open>Constants and patterns\<close>

definition MAX_KEEP :: nat where "MAX_KEEP = 12"
definition MAX_DONTS :: nat where "MAX_DONTS = 8"
definition MAX_ITEM_CHARS :: int where "MAX_ITEM_CHARS = 1200"
definition MAX_PACK_CHARS :: int where "MAX_PACK_CHARS = 24000"
definition MAX_PFC_CHARS :: int where "MAX_PFC_CHARS = 360"
definition MAX_PFC_LOOPS :: int where "MAX_PFC_LOOPS = 2"
definition PFC_POINT_LIMIT :: nat where "PFC_POINT_LIMIT = 6"
definition PFC_LOOP2_MIN_POINTS :: nat where "PFC_LOOP2_MIN_POINTS = 4"
definition MAX_PFC_ABSENT_CHARS :: int where "MAX_PFC_ABSENT_CHARS = 140"
definition PFC_ABSENT_MIN_VOTES :: nat where "PFC_ABSENT_MIN_VOTES = 3"

text \<open>One character for which \<open>P\<close> holds, with its continuation bytes.\<close>

definition one_char :: "(char \<Rightarrow> bool) \<Rightarrow> re" where
  "one_char P = Seq (Chr (\<lambda>c. \<not> continuation c \<and> P c)) (Star (Chr continuation))"

definition DONT :: re where
  "DONT = seqs
    [WordB,
     alts [seqs [lit_ci ''do'', plus space_re, lit_ci ''not''], lit_ci ''don't'', lit_ci ''never'', lit_ci ''avoid'',
       seqs [lit_ci ''must'', plus space_re, lit_ci ''not''], lit_ci ''cannot'', lit_ci ''can't'', lit_ci ''forbid'',
       seqs [lit_ci ''without'', plus space_re, alts [lit_ci ''asking'', lit_ci ''changing'']],
       seqs [lit_ci ''no'', plus space_re, lit_ci ''force'', one_of ''- '', lit_ci ''push'']],
     WordB,
     Rep 200 (one_char (\<lambda>c. c \<notin> set (''.!?'' @ NEWLINE)))]"

definition GOALISH :: re where
  "GOALISH = seqs
    [WordB,
     alts [lit_ci ''goal'', lit_ci ''must'', seqs [lit_ci ''need'', Opt (lit_ci ''s''), plus space_re, lit_ci ''to''],
       lit_ci ''should'', lit_ci ''require'', lit_ci ''acceptance'', lit_ci ''commit'', lit_ci ''ship'', lit_ci ''fix'',
       lit_ci ''implement'', lit_ci ''literal'', lit_ci ''mission''],
     WordB]"

definition STOP :: "string list" where
  "STOP = [''the'', ''and'', ''for'', ''with'', ''that'', ''this'', ''from'', ''your'', ''into'', ''have'', ''been'',
    ''will'', ''when'', ''what'', ''which'']"

definition TERM3 :: re where
  "TERM3 = seqs [Chr is_word, Chr is_word, Chr is_word, Star (Chr is_word)]"

definition SENTENCE_END :: re where
  "SENTENCE_END = seqs [one_of ''.!?'', Star space_re, Eos]"

definition pack_terms :: "string \<Rightarrow> string list" where
  "pack_terms text = first_terms 32 [] (filter (\<lambda>t. t \<notin> set STOP) (re_findall TERM3 (str_lower text)))"

text \<open>\<open>len(a & b)\<close>.\<close>

definition overlap :: "string \<Rightarrow> string \<Rightarrow> nat" where
  "overlap a b = length (filter (\<lambda>t. t \<in> set (pack_terms b)) (pack_terms a))"

definition clip :: "string \<Rightarrow> int \<Rightarrow> string" where
  "clip text limit =
    (let clean = str_strip (redact_secrets text) in
     if int (char_len clean) \<le> limit then clean else char_prefix (limit - 1) clean @ ELLIPSIS)"

definition item_id :: "pylib \<Rightarrow> string \<Rightarrow> string \<Rightarrow> string" where
  "item_id lib kind text = kind @ '':'' @ take 16 (sha256 lib (kind @ NEWLINE @ text))"

subsection \<open>The pack\<close>

datatype vote = Retain | Drop | Pin_Dont | Pin_Keep

record context_item =
  ci_id :: string
  ci_kind :: string
  ci_text :: string
  ci_score :: rat
  ci_votes :: "(string \<times> vote) list"
  ci_decision :: vote

datatype point_kind = Dont_Point | Goal_Point | Keep_Point

fun kind_text :: "point_kind \<Rightarrow> string" where
  "kind_text Dont_Point = ''dont''"
| "kind_text Goal_Point = ''goal''"
| "kind_text Keep_Point = ''keep''"

text \<open>A \<open>KnowledgePoint\<close>, or an \<open>AbsentCandidate\<close>, which has the same fields; a vote is \<open>keep\<close> (true) or \<open>skip\<close>.\<close>

record knowledge_point =
  kp_text :: string
  kp_kind :: point_kind
  kp_weight :: rat
  kp_votes :: "(string \<times> bool) list"

record context_pack =
  cp_session :: string
  cp_version :: int
  cp_mode :: string
  cp_keeps :: "string list"
  cp_donts :: "string list"
  cp_dropped :: int
  cp_item_count :: int
  cp_lead_notes :: string
  cp_prefrontal :: string
  cp_pfc_loops :: int
  cp_pfc_points :: int
  cp_pfc_confidence :: pyfloat
  cp_pfc_absent :: string
  cp_pfc_absent_confidence :: pyfloat

definition pack_to_dict :: "context_pack \<Rightarrow> doc" where
  "pack_to_dict p =
    [(''session'', JStr (cp_session p)), (''version'', JInt (cp_version p)), (''mode'', JStr (cp_mode p)),
     (''keeps'', JArr (map JStr (cp_keeps p))), (''donts'', JArr (map JStr (cp_donts p))),
     (''dropped'', JInt (cp_dropped p)), (''item_count'', JInt (cp_item_count p)),
     (''lead_notes'', JStr (cp_lead_notes p)), (''prefrontal'', JStr (cp_prefrontal p)),
     (''pfc_loops'', JInt (cp_pfc_loops p)), (''pfc_points'', JInt (cp_pfc_points p)),
     (''pfc_confidence'', JFloat (cp_pfc_confidence p)), (''pfc_absent'', JStr (cp_pfc_absent p)),
     (''pfc_absent_confidence'', JFloat (cp_pfc_absent_confidence p))]"

text \<open>\<open>[str(x) for x in (data.get(key) or []) if str(x).strip()]\<close>.\<close>

definition text_items :: "pylib \<Rightarrow> json \<Rightarrow> py_error + string list" where
  "text_items lib v =
    map_sum id (\<lambda>xs. filter (\<lambda>s. str_strip s \<noteq> []) (map (str_of lib) xs)) (py_iter (or_else v (JArr [])))"

definition int_or :: "doc \<Rightarrow> string \<Rightarrow> int \<Rightarrow> py_error + int" where
  "int_or d k z = py_int (or_else (dget d k) (JInt z))"

definition float_or_zero :: "doc \<Rightarrow> string \<Rightarrow> py_error + pyfloat" where
  "float_or_zero d k = py_float (or_else (dget d k) (JFloat (Fin 0)))"

definition chain :: "'e + 'a \<Rightarrow> ('a \<Rightarrow> 'e + 'b) \<Rightarrow> 'e + 'b" where
  "chain r f = (case r of Inl e \<Rightarrow> Inl e | Inr x \<Rightarrow> f x)"

definition pack_from_dict :: "pylib \<Rightarrow> json \<Rightarrow> py_error + context_pack option" where
  "pack_from_dict lib data =
    (case data of
       JObj d \<Rightarrow>
         chain (text_items lib (dget d ''keeps'')) (\<lambda>keeps.
         chain (text_items lib (dget d ''donts'')) (\<lambda>donts.
         chain (int_or d ''version'' 1) (\<lambda>version.
         chain (int_or d ''dropped'' 0) (\<lambda>dropped.
         chain (int_or d ''item_count'' 0) (\<lambda>count.
         chain (int_or d ''pfc_loops'' 0) (\<lambda>loops.
         chain (int_or d ''pfc_points'' 0) (\<lambda>points.
         chain (float_or_zero d ''pfc_confidence'') (\<lambda>conf.
         chain (float_or_zero d ''pfc_absent_confidence'') (\<lambda>absent_conf.
           Inr (Some \<lparr>cp_session = text_or_empty lib (dget d ''session''), cp_version = version,
             cp_mode = str_of lib (or_else (dget d ''mode'') (JStr ''cpu'')), cp_keeps = keeps, cp_donts = donts,
             cp_dropped = dropped, cp_item_count = count, cp_lead_notes = text_or_empty lib (dget d ''lead_notes''),
             cp_prefrontal = text_or_empty lib (dget d ''prefrontal''), cp_pfc_loops = loops, cp_pfc_points = points,
             cp_pfc_confidence = conf, cp_pfc_absent = text_or_empty lib (dget d ''pfc_absent''),
             cp_pfc_absent_confidence = absent_conf\<rparr>))))))))))
     | _ \<Rightarrow> Inr None)"

text \<open>\<open>UNIGROK_CONTEXT_PACK\<close>: \<open>None\<close> for an unset variable.\<close>

definition context_pack_mode :: "string option \<Rightarrow> string" where
  "context_pack_mode var =
    (let raw = str_lower (str_strip (case var of Some s \<Rightarrow> s | None \<Rightarrow> ''off'')) in
     if raw \<in> set [''0'', ''false'', ''off'', ''no'', ''''] then ''off''
     else if raw \<in> set [''cpu'', ''hive'', ''on'', ''true'', ''1''] then ''cpu'' else ''off'')"

subsection \<open>The inventory\<close>

definition new_item :: "pylib \<Rightarrow> string \<Rightarrow> string \<Rightarrow> string \<Rightarrow> rat \<Rightarrow> context_item" where
  "new_item lib prefix kind text score =
    \<lparr>ci_id = item_id lib prefix text, ci_kind = kind, ci_text = text, ci_score = score, ci_votes = [], ci_decision = Drop\<rparr>"

definition dont_items :: "pylib \<Rightarrow> nat \<Rightarrow> string \<Rightarrow> context_item list" where
  "dont_items lib ov text =
    map (\<lambda>dont. new_item lib ''dont'' ''dont_candidate'' dont (fl (fl (9 / 10) + fl (fl (5 / 100) * min 1 (fl (of_nat ov / 3))))))
      (filter (\<lambda>dont. 12 \<le> char_len dont) (map (\<lambda>m. clip m 280) (re_findall DONT text)))"

definition message_items :: "pylib \<Rightarrow> string \<Rightarrow> nat \<Rightarrow> nat \<times> doc \<Rightarrow> context_item list" where
  "message_items lib task n p =
    (let (index, message) = p; role = str_of lib (or_else (dget message ''role'') (JStr ''user''));
         text = clip (text_or_empty lib (dget message ''content'')) MAX_ITEM_CHARS in
     if text = [] then []
     else
       let kind = (if role = ''user'' then ''turn_user'' else ''turn_assistant''); ov = overlap text task;
           recency = fl (of_nat (index + 1) / of_nat (max 1 n));
           score = fl (fl (fl (fl (35 / 100) * recency) + fl (fl (45 / 100) * min 1 (fl (of_nat ov / 4))))
             + (if re_search GOALISH text then fl (2 / 10) else 0))
       in new_item lib kind kind text score # dont_items lib ov text)"

definition fact_items :: "pylib \<Rightarrow> string \<Rightarrow> doc \<Rightarrow> context_item list" where
  "fact_items lib task d =
    (let body = clip (text_or_empty lib (or_else (dget d ''fact'') (dget d ''content''))) MAX_ITEM_CHARS in
     if body = [] then []
     else [new_item lib ''fact'' ''fact'' body (fl (1 / 2 + fl (fl (4 / 10) * min 1 (fl (of_nat (overlap body task) / 3)))))])"

definition inventory :: "pylib \<Rightarrow> doc list \<Rightarrow> doc list \<Rightarrow> string \<Rightarrow> context_item list" where
  "inventory lib history facts task =
    concat (map (message_items lib task (length history)) (List.enumerate 0 history)) @ concat (map (fact_items lib task) facts)"

subsection \<open>Votes and the lead's merge\<close>

definition persona_votes :: "context_item \<Rightarrow> string \<Rightarrow> (string \<times> vote) list" where
  "persona_votes item task =
    (let text_l = str_lower (ci_text item); task_l = str_lower task; ov = overlap (ci_text item) task;
         candidate = (ci_kind item = ''dont_candidate'');
         critic = (if fl (45 / 100) \<le> ci_score item \<or> ov \<noteq> 0 then Retain else Drop);
         bounty = (if candidate then Pin_Dont else if 3 \<le> ov then Pin_Keep else critic);
         spec = (if re_search GOALISH (ci_text item) \<or> ov \<noteq> 0 then Retain else Drop);
         failures = (if candidate \<or> contains ''fail'' text_l \<or> contains ''never'' text_l then Pin_Dont else critic);
         complexity = (if 800 < char_len (ci_text item) \<and> ov = 0 then Drop else critic);
         touches = (candidate \<and> (ov \<noteq> 0 \<or>
           list_ex (\<lambda>tok. 3 < char_len tok \<and> contains tok text_l) (take 8 (str_split task_l))))
     in [(''critic'', critic), (''bounty'', if touches then Pin_Dont else bounty), (''spec'', spec),
         (''failures'', if touches then Pin_Dont else failures), (''complexity'', complexity)])"

definition vote_count :: "(string \<times> vote) list \<Rightarrow> vote \<Rightarrow> nat" where
  "vote_count votes v = length (filter (\<lambda>p. snd p = v) votes)"

text \<open>The first of the most frequent votes in the order of precedence.\<close>

definition majority :: "(string \<times> vote) list \<Rightarrow> vote" where
  "majority votes =
    foldl (\<lambda>best v. if vote_count votes best < vote_count votes v then v else best) Pin_Dont [Pin_Keep, Retain, Drop]"

definition decide :: "string \<Rightarrow> context_item \<Rightarrow> context_item" where
  "decide task item =
    (let votes = persona_votes item task in item\<lparr>ci_votes := votes, ci_decision := majority votes\<rparr>)"

definition items_by_score :: "context_item list \<Rightarrow> context_item list" where
  "items_by_score items = sort_key (\<lambda>x. (- ci_score x, ci_id x)) items"

definition add_dont :: "nat \<Rightarrow> string list \<Rightarrow> context_item \<Rightarrow> string list" where
  "add_dont max_donts donts item =
    (if (ci_decision item = Pin_Dont \<or> ci_kind item = ''dont_candidate'' \<and> ci_decision item \<noteq> Drop)
        \<and> ci_text item \<notin> set donts \<and> length donts < max_donts
     then donts @ [ci_text item] else donts)"

definition add_keep :: "nat \<Rightarrow> string list \<Rightarrow> string list \<Rightarrow> context_item \<Rightarrow> string list" where
  "add_keep max_keep donts keeps item =
    (if ci_decision item \<in> {Pin_Keep, Retain} \<and> ci_kind item \<noteq> ''dont_candidate''
        \<and> ci_text item \<notin> set keeps \<and> ci_text item \<notin> set donts \<and> length keeps < max_keep
     then keeps @ [ci_text item] else keeps)"

definition lead_merge :: "context_item list \<Rightarrow> string \<Rightarrow> context_pack" where
  "lead_merge items0 task =
    (let items = map (decide task) items0;
         donts = foldl (add_dont MAX_DONTS) [] (items_by_score items);
         keeps = foldl (add_keep MAX_KEEP donts) [] (items_by_score items);
         dropped = max 0 (int (length items) - int (length keeps) - int (length donts));
         notes = ''lead_merge keeps='' @ str_int (int (length keeps)) @ '' donts='' @ str_int (int (length donts))
           @ '' dropped='' @ str_int dropped @ '' task_terms='' @ str_int (int (length (pack_terms task)))
     in \<lparr>cp_session = [], cp_version = 1, cp_mode = ''cpu'', cp_keeps = keeps, cp_donts = donts, cp_dropped = dropped,
         cp_item_count = int (length items), cp_lead_notes = notes, cp_prefrontal = [], cp_pfc_loops = 0,
         cp_pfc_points = 0, cp_pfc_confidence = Fin 0, cp_pfc_absent = [], cp_pfc_absent_confidence = Fin 0\<rparr>)"

subsection \<open>The prefrontal sentence\<close>

definition point_seed :: "string \<Rightarrow> point_kind \<Rightarrow> rat \<Rightarrow> knowledge_point" where
  "point_seed text kind weight =
    \<lparr>kp_text = clip (re_sub (plus space_re) (\<lambda>_. '' '') text) 96, kp_kind = kind, kp_weight = weight, kp_votes = []\<rparr>"

text \<open>The loop's state: the lower-case texts seen and the points.\<close>

definition add_seed :: "string list \<times> knowledge_point list \<Rightarrow> knowledge_point \<Rightarrow> string list \<times> knowledge_point list" where
  "add_seed st seed =
    (let t = str_lower (kp_text seed) in if t \<in> set (fst st) then st else (fst st @ [t], snd st @ [seed]))"

definition keep_seed :: "string \<Rightarrow> string \<Rightarrow> knowledge_point" where
  "keep_seed task keep =
    (let weight = fl (fl (55 / 100) + fl (fl (35 / 100) * min 1 (fl (of_nat (overlap keep task) / 3)))) in
     if re_search DONT keep then point_seed keep Dont_Point (max weight (fl (9 / 10)))
     else if re_search GOALISH keep then point_seed keep Goal_Point (max weight (fl (85 / 100)))
     else point_seed keep Keep_Point weight)"

definition extract_points :: "context_pack \<Rightarrow> string \<Rightarrow> knowledge_point list \<Rightarrow> knowledge_point list" where
  "extract_points pack task prior =
    (let st0 = (map (\<lambda>p. str_lower (kp_text p)) prior, prior);
         st1 = foldl add_seed st0 (map (\<lambda>dont. point_seed dont Dont_Point 1) (cp_donts pack));
         st2 = foldl add_seed st1 (map (keep_seed task) (cp_keeps pack));
         st3 = (if str_strip task \<noteq> [] \<and> length (snd st2) < 2
                then add_seed st2 (point_seed task Goal_Point (fl (7 / 10))) else st2)
     in take (max (PFC_POINT_LIMIT * 2) 8)
          (sort_key (\<lambda>p. (- kp_weight p, kind_text (kp_kind p), kp_text p)) (snd st3)))"

definition pfc_persona_vote :: "string \<Rightarrow> nat \<Rightarrow> knowledge_point \<Rightarrow> (string \<times> bool) list" where
  "pfc_persona_vote task loop point =
    (let ov = overlap (kp_text point) task; dont = (kp_kind point = Dont_Point);
         critic = (dont \<or> fl (6 / 10) \<le> kp_weight point \<or> ov \<noteq> 0);
         bounty = (dont \<or> critic);
         spec = (kp_kind point \<in> {Dont_Point, Goal_Point} \<or> ov \<noteq> 0);
         failures = (dont \<or> contains ''fail'' (str_lower (kp_text point)) \<or> critic);
         complexity = (if 2 \<le> loop \<and> kp_kind point \<in> {Dont_Point, Goal_Point} then True
           else if 80 < char_len (kp_text point) \<and> ov = 0 \<and> kp_kind point = Keep_Point then False else critic)
     in [(''critic'', critic), (''bounty'', bounty), (''spec'', spec), (''failures'', failures), (''complexity'', complexity)])"

definition keep_votes :: "knowledge_point \<Rightarrow> nat" where
  "keep_votes p = length (filter snd (kp_votes p))"

definition point_order :: "knowledge_point \<Rightarrow> rat \<times> nat \<times> string" where
  "point_order p = (- kp_weight p, if kp_kind p = Dont_Point then 0 else 1, kp_text p)"

definition selected_points :: "knowledge_point list \<Rightarrow> knowledge_point list" where
  "selected_points points = take PFC_POINT_LIMIT (sort_key point_order (filter (\<lambda>p. 3 \<le> keep_votes p) points))"

definition clause :: "string \<Rightarrow> string" where
  "clause text = re_sub (Seq (plus (one_of ''.!?'')) Eos) (\<lambda>_. []) (str_strip text)"

definition clauses_of :: "point_kind \<Rightarrow> knowledge_point list \<Rightarrow> string list" where
  "clauses_of kind points =
    filter (\<lambda>c. c \<noteq> []) (map (\<lambda>p. clause (kp_text p)) (filter (\<lambda>p. kp_kind p = kind) points))"

definition compose_prefrontal :: "knowledge_point list \<Rightarrow> string \<Rightarrow> string" where
  "compose_prefrontal points task =
    (if points = [] then
       (let t = clip task 120 in if t \<noteq> [] then ''Hold focus: '' @ clause t @ ''.'' else [])
     else
       let donts = clauses_of Dont_Point points; blob = str_lower (space_join donts);
           fresh = filter (\<lambda>c. \<not> contains (str_lower c) blob);
           goals = fresh (clauses_of Goal_Point points); keeps = fresh (clauses_of Keep_Point points);
           extras = filter (\<lambda>k. k \<notin> set goals) (take 2 keeps);
           lead = (if goals \<noteq> [] then [''Aim: '' @ join ''; '' (take 2 goals)]
             else if keeps \<noteq> [] then [''Hold: '' @ join ''; '' (take 2 keeps)] else []);
           avoid = (if donts \<noteq> [] then [''Avoid: '' @ join ''; '' (take 3 donts)] else []);
           also_part = (if keeps \<noteq> [] \<and> goals \<noteq> [] \<and> extras \<noteq> [] then [''Also: '' @ join ''; '' extras] else []);
           sentence = str_strip (join ''. '' (lead @ avoid @ also_part))
       in if sentence = [] then []
          else clip (if re_search SENTENCE_END sentence then sentence else sentence @ ''.'') MAX_PFC_CHARS)"

text \<open>\<open>sum\<close> of floats, which since Python 3.12 carries a compensation of the rounding errors.\<close>

definition sum_step :: "rat \<times> rat \<Rightarrow> rat \<Rightarrow> rat \<times> rat" where
  "sum_step p x =
    (let (s, c) = p; t = fl (s + x) in
     (t, if \<bar>x\<bar> \<le> \<bar>s\<bar> then fl (c + fl (fl (s - t) + x)) else fl (c + fl (fl (x - t) + s))))"

definition float_sum :: "rat list \<Rightarrow> rat" where
  "float_sum xs = (let (s, c) = foldl sum_step (0, 0) xs in if c \<noteq> 0 then fl (s + c) else s)"

text \<open>\<open>round(x, 3)\<close>.\<close>

definition round3 :: "rat \<Rightarrow> rat" where
  "round3 x = fl (of_int (round_even (x * 1000)) / 1000)"

definition pfc_confidence :: "knowledge_point list \<Rightarrow> context_pack \<Rightarrow> rat" where
  "pfc_confidence points pack =
    (if points = [] \<and> cp_keeps pack = [] \<and> cp_donts pack = [] then 0
     else
       let dont_cover = (if cp_donts pack = [] \<or> list_ex (\<lambda>p. kp_kind p = Dont_Point) points then 1 else 0);
           density = min 1 (fl (of_nat (length points) / of_nat (max 1 (min PFC_POINT_LIMIT 3))));
           strength = (if points = [] then 0
             else fl (float_sum (map (\<lambda>p. fl (of_nat (keep_votes p) / 5)) points) / of_nat (length points)))
       in round3 (fl (fl (fl (fl (4 / 10) * dont_cover) + fl (fl (3 / 10) * density)) + fl (fl (3 / 10) * strength))))"

definition needs_second_loop :: "knowledge_point list \<Rightarrow> context_pack \<Rightarrow> rat \<Rightarrow> string \<Rightarrow> bool" where
  "needs_second_loop points pack confidence provisional =
    (let slots = length (cp_donts pack) + length (cp_keeps pack) in
     if str_strip provisional = [] then cp_keeps pack \<noteq> [] \<or> cp_donts pack \<noteq> []
     else confidence < fl (55 / 100)
       \<or> (cp_donts pack \<noteq> [] \<and> \<not> list_ex (\<lambda>p. kp_kind p = Dont_Point) points)
       \<or> (PFC_LOOP2_MIN_POINTS \<le> slots \<and> length points < min 3 slots))"

record pfc_state =
  pf_loops :: nat
  pf_prior :: "knowledge_point list"
  pf_selected :: "knowledge_point list"
  pf_sentence :: string
  pf_confidence :: rat

definition pfc_pass :: "context_pack \<Rightarrow> string \<Rightarrow> nat \<Rightarrow> pfc_state \<Rightarrow> pfc_state" where
  "pfc_pass pack task i st =
    (let extracted = map (\<lambda>p. p\<lparr>kp_votes := pfc_persona_vote task i p\<rparr>) (extract_points pack task (pf_prior st));
         selected = selected_points extracted
     in \<lparr>pf_loops = i, pf_prior = extracted, pf_selected = selected, pf_sentence = compose_prefrontal selected task,
         pf_confidence = pfc_confidence selected pack\<rparr>)"

text \<open>The loop over the pass numbers still to do.\<close>

fun pfc_passes :: "context_pack \<Rightarrow> string \<Rightarrow> nat list \<Rightarrow> pfc_state \<Rightarrow> pfc_state" where
  "pfc_passes pack task [] st = st"
| "pfc_passes pack task (i # is) st =
     (let st' = pfc_pass pack task i st in
      if i = 1 \<and> \<not> needs_second_loop (pf_selected st') pack (pf_confidence st') (pf_sentence st') then st'
      else if 2 \<le> i then st' else pfc_passes pack task is st')"

definition strip_notes :: "string \<Rightarrow> string" where
  "strip_notes s = strip_by (\<lambda>c. c \<in> set ''; '') s"

definition pass_numbers :: "int \<Rightarrow> nat list" where
  "pass_numbers max_loops = [1..<Suc (nat (max 1 (min max_loops MAX_PFC_LOOPS)))]"

definition prefrontal_condense :: "pylib \<Rightarrow> context_pack \<Rightarrow> string \<Rightarrow> int \<Rightarrow> context_pack" where
  "prefrontal_condense lib pack task max_loops =
    (if cp_keeps pack = [] \<and> cp_donts pack = [] \<and> str_strip task = [] then
       pack\<lparr>cp_prefrontal := [], cp_pfc_loops := 0, cp_pfc_points := 0, cp_pfc_confidence := Fin 0\<rparr>
     else
       let st = pfc_passes pack task (pass_numbers max_loops) \<lparr>pf_loops = 0, pf_prior = [],
             pf_selected = [], pf_sentence = [], pf_confidence = 0\<rparr>
       in pack\<lparr>cp_prefrontal := pf_sentence st, cp_pfc_loops := int (pf_loops st),
            cp_pfc_points := int (length (pf_selected st)), cp_pfc_confidence := Fin (pf_confidence st),
            cp_lead_notes := strip_notes (cp_lead_notes pack @ ''; pfc_loops='' @ str_int (int (pf_loops st)) @ '' pfc_points=''
              @ str_int (int (length (pf_selected st))) @ '' pfc_conf='' @ py_str lib (JFloat (Fin (pf_confidence st))))\<rparr>)"

subsection \<open>The clause proposed as absent\<close>

definition covered_by_prefrontal :: "string \<Rightarrow> string \<Rightarrow> bool" where
  "covered_by_prefrontal text prefrontal =
    (let src = pack_terms text in
     src = [] \<or> max 1 ((length src + 1) div 2) \<le> length (filter (\<lambda>t. t \<in> set (pack_terms prefrontal)) src))"

definition add_absent ::
  "string \<Rightarrow> string list \<times> knowledge_point list \<Rightarrow> string \<times> point_kind \<times> rat \<Rightarrow> string list \<times> knowledge_point list" where
  "add_absent pfc st entry =
    (let (text, kind, weight) = entry; c = clause (clip text 96); key = str_lower c in
     if char_len c < 8 \<or> key \<in> set (fst st) \<or> covered_by_prefrontal c pfc then st
     else (fst st @ [key], snd st @ [\<lparr>kp_text = c, kp_kind = kind, kp_weight = weight, kp_votes = []\<rparr>]))"

definition absent_kind :: "string \<Rightarrow> string \<times> point_kind \<times> rat" where
  "absent_kind keep =
    (if re_search DONT keep then (keep, Dont_Point, fl (95 / 100))
     else if re_search GOALISH keep then (keep, Goal_Point, fl (8 / 10)) else (keep, Keep_Point, fl (65 / 100)))"

definition absent_candidates :: "context_pack \<Rightarrow> string \<Rightarrow> knowledge_point list" where
  "absent_candidates pack task =
    (let pfc = cp_prefrontal pack;
         entries = map (\<lambda>dont. (dont, Dont_Point, 1)) (cp_donts pack) @ map absent_kind (cp_keeps pack)
           @ (if str_strip task \<noteq> [] \<and> \<not> covered_by_prefrontal task pfc then [(task, Goal_Point, fl (7 / 10))] else [])
     in take 6 (sort_key point_order (snd (foldl (add_absent pfc) ([], []) entries))))"

definition absent_persona_vote :: "string \<Rightarrow> knowledge_point \<Rightarrow> (string \<times> bool) list" where
  "absent_persona_vote task c =
    (let ov = overlap (kp_text c) task; dont = (kp_kind c = Dont_Point);
         critic = (dont \<or> 3 / 4 \<le> kp_weight c \<or> ov \<noteq> 0);
         bounty = (dont \<or> critic);
         spec = (kp_kind c \<in> {Dont_Point, Goal_Point} \<or> ov \<noteq> 0);
         failures = (dont \<or> critic);
         complexity = (if kp_kind c = Keep_Point \<and> ov = 0 \<and> 72 < char_len (kp_text c) then False else critic)
     in [(''critic'', critic), (''bounty'', bounty), (''spec'', spec), (''failures'', failures), (''complexity'', complexity)])"

definition absent_text :: "knowledge_point \<Rightarrow> string" where
  "absent_text c =
    (let body = clause (kp_text c) in
     case kp_kind c of
       Dont_Point \<Rightarrow> ''likely missing: hold constraint '' @ EM_DASH @ '' '' @ body
     | Goal_Point \<Rightarrow> ''likely missing: next aim '' @ EM_DASH @ '' '' @ body
     | Keep_Point \<Rightarrow> ''likely missing: '' @ body)"

definition absent_confidence :: "knowledge_point \<Rightarrow> rat" where
  "absent_confidence c =
    round3 (fl (fl (of_nat (keep_votes c) / 5) * fl (fl (7 / 10) + fl (fl (3 / 10) * min 1 (kp_weight c)))))"

definition noted :: "string \<Rightarrow> string \<Rightarrow> string" where
  "noted notes extra = strip_notes (notes @ ''; pfc_absent='' @ extra)"

definition imagine_pfc_absent :: "pylib \<Rightarrow> context_pack \<Rightarrow> string \<Rightarrow> context_pack" where
  "imagine_pfc_absent lib pack task =
    (let none = pack\<lparr>cp_pfc_absent := [], cp_pfc_absent_confidence := Fin 0\<rparr>;
         voted = map (\<lambda>c. c\<lparr>kp_votes := absent_persona_vote task c\<rparr>) (absent_candidates pack task);
         winners = sort_key point_order (filter (\<lambda>c. PFC_ABSENT_MIN_VOTES \<le> keep_votes c) voted)
     in if str_strip (cp_prefrontal pack) = [] then none
        else case winners of
          [] \<Rightarrow> none\<lparr>cp_lead_notes := noted (cp_lead_notes pack) ''null''\<rparr>
        | best # _ \<Rightarrow>
            let conf = absent_confidence best; shown = '' conf='' @ py_str lib (JFloat (Fin conf)) in
            if conf < 1 / 2 then
              pack\<lparr>cp_pfc_absent := [], cp_pfc_absent_confidence := Fin conf,
                cp_lead_notes := noted (cp_lead_notes pack) (''null'' @ shown)\<rparr>
            else
              pack\<lparr>cp_pfc_absent := clip (absent_text best) MAX_PFC_ABSENT_CHARS, cp_pfc_absent_confidence := Fin conf,
                cp_lead_notes := noted (cp_lead_notes pack) (''1'' @ shown)\<rparr>)"

definition build_context_pack ::
  "pylib \<Rightarrow> string option \<Rightarrow> string \<Rightarrow> doc list \<Rightarrow> string \<Rightarrow> doc list \<Rightarrow> int \<Rightarrow> context_pack option" where
  "build_context_pack lib var session history task facts version =
    (let mode = context_pack_mode var; items = inventory lib history facts task in
     if mode = ''off'' \<or> items = [] then None
     else Some ((imagine_pfc_absent lib (prefrontal_condense lib (lead_merge items task) task MAX_PFC_LOOPS) task)
       \<lparr>cp_session := session, cp_version := max 1 version, cp_mode := mode\<rparr>))"

end
