(* ===== verification/Context_Pack_Facts.thy ===== *)
theory Context_Pack_Facts
  imports Context_Prompt_Facts
begin

text \<open>
  Properties of the pack: its bounds, that a constraint found in the messages is never voted away, that the clause
  proposed as absent is taken from the session's own material, and that a built pack survives the store.
\<close>

subsection \<open>Substitution by nothing\<close>

lemma iter_greedy_le:
  assumes "\<And>x y. y \<in> set (f x) \<Longrightarrow> fst x \<le> fst y" "y \<in> set (iter_greedy n f x)"
  shows "fst x \<le> fst y"
  using assms(2) by (induction n arbitrary: x) (auto dest: assms(1) intro: order_trans)

lemma iter_lazy_le:
  assumes "\<And>x y. y \<in> set (f x) \<Longrightarrow> fst x \<le> fst y" "y \<in> set (iter_lazy n f x)"
  shows "fst x \<le> fst y"
  using assms(2) by (induction n arbitrary: x) (auto dest: assms(1) intro: order_trans)

lemma ends_le: "y \<in> set (ends r s x) \<Longrightarrow> fst x \<le> fst y"
proof (induction r arbitrary: x y)
  case (Seq a b)
  then obtain z where "z \<in> set (ends a s x)" "y \<in> set (ends b s z)" by auto
  with Seq.IH show ?case by (meson order_trans)
next
  case (Star a)
  then show ?case using iter_greedy_le [of "ends a s"] by auto
next
  case (Rep n a)
  then show ?case using iter_greedy_le [of "ends a s"] by auto
next
  case (LazyStar a)
  then show ?case using iter_lazy_le [of "ends a s"] by auto
next
  case (LazyRep n a)
  then show ?case using iter_lazy_le [of "ends a s"] by auto
qed (auto split: if_splits)

lemma search_from_match: "search_from r s i = Some (b, m) \<Longrightarrow> match_at r s b = Some m"
proof (induction r s i rule: search_from.induct)
  case (1 r s i)
  from "1.prems" show ?case
    by (subst (asm) search_from.simps) (auto split: if_splits option.splits intro: "1.IH")
qed

lemma search_from_ends: "search_from r s i = Some (b, m) \<Longrightarrow> b \<le> fst m"
proof -
  assume "search_from r s i = Some (b, m)"
  then have "m \<in> set (ends r s (b, []))"
    using search_from_match [of r s i b m] by (auto simp: match_at_def split: list.splits)
  then show ?thesis using ends_le [of m r s "(b, [])"] by simp
qed

lemma char_len_split: "i \<le> b \<Longrightarrow> char_len (slice s i b) + char_len (drop b s) = char_len (drop i s)"
  by (metis add.commute append_take_drop_id char_len_append drop_drop le_add_diff_inverse2 slice_def)

lemma char_len_drop_mono: "i \<le> j \<Longrightarrow> char_len (drop j s) \<le> char_len (drop i s)"
  using char_len_split [of i j s] by linarith

lemma sub_pieces_len: "i \<le> j \<Longrightarrow> char_len (sub_pieces (\<lambda>_. []) s i (finditer_from r s j)) \<le> char_len (drop i s)"
proof (induction r s j arbitrary: i rule: finditer_from.induct)
  case (1 r s j)
  show ?case
  proof (cases "search_from r s j")
    case None
    then show ?thesis by (subst finditer_from.simps) simp
  next
    case (Some p)
    obtain b m where p: "p = (b, m)" by (cases p)
    note m = search_from_ends [OF Some [unfolded p]] search_from_le [OF Some [unfolded p]]
    have "char_len (sub_pieces (\<lambda>_. []) s (fst m) (finditer_from r s (if fst m \<le> b then Suc b else fst m))) \<le> char_len (drop (fst m) s)"
      using m by (intro "1.IH" [OF Some p [symmetric]]) auto
    moreover have "char_len (slice s i b) + char_len (drop b s) = char_len (drop i s)" using m "1.prems" by (intro char_len_split) simp
    moreover have "char_len (drop (fst m) s) \<le> char_len (drop b s)" using m(1) by (rule char_len_drop_mono)
    moreover have "finditer_from r s j = (b, m) # finditer_from r s (if fst m \<le> b then Suc b else fst m)"
      using Some p m by (subst finditer_from.simps) simp
    ultimately show ?thesis by simp
  qed
qed

lemma char_len_dropWhile: "char_len (dropWhile P s) \<le> char_len s"
  by (metis char_len_drop_mono drop0 dropWhile_eq_drop le0)

lemma char_len_rev [simp]: "char_len (rev s) = char_len s"
  by (simp add: char_len_def rev_filter [symmetric])

lemma char_len_strip: "char_len (str_strip s) \<le> char_len s"
  unfolding str_strip_def strip_by_def by (metis char_len_dropWhile char_len_rev order_trans)

lemma clause_len: "char_len (clause s) \<le> char_len s"
  using sub_pieces_len [of 0 0 "str_strip s"] char_len_strip [of s] by (simp add: clause_def re_sub_def re_finditer_def) (metis order_trans)

subsection \<open>Bounds\<close>

lemma compose_len: "char_len (compose_prefrontal points task) \<le> 360"
proof -
  have "char_len (clause (clip task 120)) \<le> 120" using clause_len [of "clip task 120"] clip_len [of 120 task] by linarith
  moreover have "int (char_len (clip s MAX_PFC_CHARS)) \<le> 360" for s
    using clip_len [of MAX_PFC_CHARS s] by (simp add: MAX_PFC_CHARS_def)
  moreover have "char_len (''Hold focus: '' @ t @ ''.'') = char_len t + 13" for t
  proof -
    have "char_len ''Hold focus: '' = 12" "char_len ''.'' = 1" by code_simp+
    then show ?thesis by (simp only: char_len_append)
  qed
  moreover have "points \<noteq> [] \<Longrightarrow> compose_prefrontal points task = [] \<or> (\<exists>s. compose_prefrontal points task = clip s MAX_PFC_CHARS)"
  proof -
    have one: "(if P then [] else clip u MAX_PFC_CHARS) = [] \<or> (\<exists>s. (if P then [] else clip u MAX_PFC_CHARS) = clip s MAX_PFC_CHARS)"
      for P u by auto
    assume "points \<noteq> []"
    show ?thesis unfolding compose_prefrontal_def Let_def if_not_P [OF \<open>points \<noteq> []\<close>] by (rule one)
  qed
  moreover have "points = [] \<Longrightarrow> compose_prefrontal points task = [] \<or> compose_prefrontal points task = ''Hold focus: '' @ clause (clip task 120) @ ''.''"
    by (simp add: compose_prefrontal_def Let_def)
  ultimately show ?thesis by (cases "points = []") (fastforce simp del: append.simps)+
qed

lemma add_donts:
  assumes "distinct ds" "length ds \<le> n"
  shows "distinct (foldl (add_dont n) ds xs) \<and> length (foldl (add_dont n) ds xs) \<le> n
    \<and> set (foldl (add_dont n) ds xs) \<subseteq> set ds \<union> ci_text ` set xs"
  using assms
proof (induction xs arbitrary: ds)
  case (Cons x xs)
  have "distinct (add_dont n ds x)" "length (add_dont n ds x) \<le> n" "set (add_dont n ds x) \<subseteq> insert (ci_text x) (set ds)"
    using Cons.prems by (auto simp: add_dont_def)
  with Cons.IH [OF this(1,2)] show ?case by auto
qed simp

lemma add_keeps:
  assumes "distinct ks" "length ks \<le> n" "set ks \<inter> set ds = {}"
  shows "distinct (foldl (add_keep n ds) ks xs) \<and> length (foldl (add_keep n ds) ks xs) \<le> n
    \<and> set (foldl (add_keep n ds) ks xs) \<inter> set ds = {}
    \<and> set (foldl (add_keep n ds) ks xs) \<subseteq> set ks \<union> ci_text ` set xs"
  using assms
proof (induction xs arbitrary: ks)
  case (Cons x xs)
  have "distinct (add_keep n ds ks x)" "length (add_keep n ds ks x) \<le> n" "set (add_keep n ds ks x) \<inter> set ds = {}"
    "set (add_keep n ds ks x) \<subseteq> insert (ci_text x) (set ks)"
    using Cons.prems by (auto simp: add_keep_def)
  with Cons.IH [OF this(1-3)] show ?case by auto
qed simp

lemma items_by_score_set [simp]: "set (items_by_score xs) = set xs"
  by (simp add: items_by_score_def)

lemma decide_fields [simp]: "ci_text (decide task x) = ci_text x" "ci_kind (decide task x) = ci_kind x" "ci_score (decide task x) = ci_score x"
  by (simp_all add: decide_def Let_def)

lemma lead_merge_ok:
  "length (cp_donts (lead_merge items task)) \<le> 8" "length (cp_keeps (lead_merge items task)) \<le> 12"
  "distinct (cp_donts (lead_merge items task) @ cp_keeps (lead_merge items task))"
  "set (cp_donts (lead_merge items task) @ cp_keeps (lead_merge items task)) \<subseteq> ci_text ` set items"
proof -
  let ?xs = "items_by_score (map (decide task) items)"
  let ?ds = "foldl (add_dont MAX_DONTS) [] ?xs"
  note d = add_donts [of "[]" MAX_DONTS ?xs] and k = add_keeps [of "[]" MAX_KEEP ?ds ?xs]
  show "length (cp_donts (lead_merge items task)) \<le> 8" "length (cp_keeps (lead_merge items task)) \<le> 12"
    "distinct (cp_donts (lead_merge items task) @ cp_keeps (lead_merge items task))"
    "set (cp_donts (lead_merge items task) @ cp_keeps (lead_merge items task)) \<subseteq> ci_text ` set items"
    using d k by (auto simp: lead_merge_def Let_def MAX_DONTS_def MAX_KEEP_def image_image)
qed

lemma lead_of_pass [simp]:
  "cp_keeps (prefrontal_condense lib p task n) = cp_keeps p" "cp_donts (prefrontal_condense lib p task n) = cp_donts p"
  "cp_keeps (imagine_pfc_absent lib p task) = cp_keeps p" "cp_donts (imagine_pfc_absent lib p task) = cp_donts p"
  "cp_prefrontal (imagine_pfc_absent lib p task) = cp_prefrontal p" "cp_pfc_loops (imagine_pfc_absent lib p task) = cp_pfc_loops p"
  "cp_pfc_points (imagine_pfc_absent lib p task) = cp_pfc_points p"
  "cp_pfc_confidence (imagine_pfc_absent lib p task) = cp_pfc_confidence p"
  by (simp_all add: prefrontal_condense_def imagine_pfc_absent_def Let_def split: list.splits)

text \<open>What every pass leaves behind.\<close>

lemma pfc_pass_ok:
  "char_len (pf_sentence (pfc_pass p task i st)) \<le> 360" "length (pf_selected (pfc_pass p task i st)) \<le> 6"
  "pf_loops (pfc_pass p task i st) = i"
  by (simp_all add: pfc_pass_def Let_def compose_len selected_points_def PFC_POINT_LIMIT_def)

lemma pass_numbers_cases: "pass_numbers n = (if 2 \<le> n then [1, 2] else [1])"
  by (simp add: pass_numbers_def MAX_PFC_LOOPS_def upt_rec [of 1] upt_rec [of 2] numeral_2_eq_2 min_def)

lemma passes_end: "\<exists>i \<in> {1, 2}. \<exists>st'. pfc_passes p task (pass_numbers n) st = pfc_pass p task i st'"
  by (auto simp: pass_numbers_cases Let_def)

lemma condense_ok:
  "char_len (cp_prefrontal (prefrontal_condense lib p task n)) \<le> 360"
  "cp_pfc_loops (prefrontal_condense lib p task n) \<in> {0, 1, 2}"
  "cp_pfc_points (prefrontal_condense lib p task n) \<in> {0..6}"
proof -
  let ?st = "\<lparr>pf_loops = 0, pf_prior = [], pf_selected = [], pf_sentence = [], pf_confidence = 0\<rparr>"
  obtain i st' where "i \<in> {1, 2}" "pfc_passes p task (pass_numbers n) ?st = pfc_pass p task i st'"
    using passes_end [of p task n ?st] by auto
  with pfc_pass_ok [of p task i st']
  show "char_len (cp_prefrontal (prefrontal_condense lib p task n)) \<le> 360"
    "cp_pfc_loops (prefrontal_condense lib p task n) \<in> {0, 1, 2}" "cp_pfc_points (prefrontal_condense lib p task n) \<in> {0..6}"
    by (simp_all add: prefrontal_condense_def Let_def) 
qed

lemma absent_len: "char_len (cp_pfc_absent (imagine_pfc_absent lib p task)) \<le> 140"
  using clip_len [of MAX_PFC_ABSENT_CHARS]
  by (auto simp: imagine_pfc_absent_def Let_def MAX_PFC_ABSENT_CHARS_def split: list.splits)

subsection \<open>The inventory\<close>

definition item_ok :: "context_item \<Rightarrow> bool" where
  "item_ok x \<longleftrightarrow> str_strip (ci_text x) \<noteq> [] \<and> char_len (ci_text x) \<le> 1200
    \<and> (ci_kind x = ''dont_candidate'' \<longrightarrow> fl (9 / 10) \<le> ci_score x \<and> char_len (ci_text x) \<le> 280)"

lemma fl_mono: "x \<le> y \<Longrightarrow> fl x \<le> fl y"
  by (simp add: fl_def float_round_mono)

lemma fl_nonneg: "0 \<le> x \<Longrightarrow> 0 \<le> fl x"
  using fl_mono [of 0 x] by (simp add: fl_def)

lemma fl_idem [simp]: "fl (fl x) = fl x"
  by (simp add: fl_def float_round_idem)

lemma clip_item: "char_len (clip t MAX_ITEM_CHARS) \<le> 1200" "char_len (clip t 280) \<le> 280"
  using clip_len [of MAX_ITEM_CHARS t] clip_len [of 280 t] by (simp_all add: MAX_ITEM_CHARS_def)

lemma clip_not_blank:
  assumes "clip t n \<noteq> []"
  shows "str_strip (clip t n) \<noteq> []"
proof -
  have "\<not> (\<forall>c \<in> set ELLIPSIS. is_space c)" by code_simp
  then have "str_strip (a @ ELLIPSIS) \<noteq> []" for a
    by (simp add: strip_blank_append) (simp add: strip_empty)
  with assms show ?thesis by (auto simp: clip_def Let_def split: if_splits)
qed

lemma dont_item_ok: "x \<in> set (dont_items lib ov text) \<Longrightarrow> item_ok x"
proof -
  have s: "fl (9 / 10) \<le> fl (fl (9 / 10) + fl (fl (5 / 100) * min 1 (fl (of_nat ov / 3))))"
    using fl_mono [of "fl (9 / 10)" "fl (9 / 10) + fl (fl (5 / 100) * min 1 (fl (of_nat ov / 3)))"]
    by (simp add: fl_nonneg)
  assume "x \<in> set (dont_items lib ov text)"
  then obtain m where m: "12 \<le> char_len (clip m 280)"
    "x = new_item lib ''dont'' ''dont_candidate'' (clip m 280) (fl (fl (9 / 10) + fl (fl (5 / 100) * min 1 (fl (of_nat ov / 3)))))"
    by (auto simp: dont_items_def)
  have "clip m 280 \<noteq> []" using m(1) by auto
  with m s clip_item(2) [of m] clip_not_blank [of m 280] show ?thesis by (simp add: item_ok_def new_item_def)
qed

lemma inventory_ok: "x \<in> set (inventory lib history facts task) \<Longrightarrow> item_ok x"
proof -
  have k: "ci_kind (new_item lib p k t s) = k" "ci_text (new_item lib p k t s) = t" for p k t s by (simp_all add: new_item_def)
  have "item_ok x" if "x \<in> set (message_items lib task n p)" for n p x
    using that clip_item(1) clip_not_blank dont_item_ok by (auto simp: message_items_def Let_def item_ok_def k split: prod.splits if_splits)
  moreover have "item_ok x" if "x \<in> set (fact_items lib task d)" for d x
    using that clip_item(1) clip_not_blank by (auto simp: fact_items_def Let_def item_ok_def k split: if_splits)
  ultimately show "x \<in> set (inventory lib history facts task) \<Longrightarrow> item_ok x" by (auto simp: inventory_def)
qed

definition pack_bounded :: "context_item list \<Rightarrow> context_pack \<Rightarrow> bool" where
  "pack_bounded items p \<longleftrightarrow>
    length (cp_donts p) \<le> 8 \<and> length (cp_keeps p) \<le> 12 \<and> distinct (cp_donts p @ cp_keeps p)
    \<and> list_all (\<lambda>t. t \<in> ci_text ` set items \<and> str_strip t \<noteq> [] \<and> char_len t \<le> 1200) (cp_donts p @ cp_keeps p)
    \<and> char_len (cp_prefrontal p) \<le> 360 \<and> char_len (cp_pfc_absent p) \<le> 140
    \<and> cp_pfc_loops p \<in> {0, 1, 2} \<and> cp_pfc_points p \<in> {0..6} \<and> 1 \<le> cp_version p \<and> cp_mode p = ''cpu''"

lemma built_pack:
  assumes "build_context_pack lib var session history task facts version = Some p"
  shows "p = (imagine_pfc_absent lib (prefrontal_condense lib (lead_merge (inventory lib history facts task) task) task MAX_PFC_LOOPS) task)
    \<lparr>cp_session := session, cp_version := max 1 version, cp_mode := ''cpu''\<rparr>"
proof -
  have "context_pack_mode var = ''cpu'' \<or> context_pack_mode var = ''off''" by (simp add: context_pack_mode_def Let_def)
  with assms show ?thesis by (auto simp: build_context_pack_def Let_def split: if_splits)
qed

lemma built_bounded:
  assumes built: "build_context_pack lib var session history task facts version = Some p"
  shows "pack_bounded (inventory lib history facts task) p"
proof -
  let ?items = "inventory lib history facts task"
  note p = built_pack [OF built] and l = lead_merge_ok [of ?items task]
  have "list_all (\<lambda>t. t \<in> ci_text ` set ?items \<and> str_strip t \<noteq> [] \<and> char_len t \<le> 1200) (cp_donts p @ cp_keeps p)"
    using l(4) inventory_ok [of _ lib history facts task] by (fastforce simp: p list_all_iff item_ok_def)
  with l(1-3) condense_ok [of lib "lead_merge ?items task" task MAX_PFC_LOOPS] absent_len show ?thesis
    by (simp add: pack_bounded_def p)
qed

text \<open>C36. A pack that is built holds at most eight don'ts and twelve keeps, all different, each the text of an item of the
  inventory of at most 1200 characters; its sentence has at most 360 characters, the clause proposed as absent at most
  140, and at most two passes and six points went into it.\<close>

theorem built_pack_bounded:
  "case build_context_pack lib var session history task facts version of
     None \<Rightarrow> True | Some p \<Rightarrow> pack_bounded (inventory lib history facts task) p"
  using built_bounded [of lib var session history task facts version] by (simp split: option.split)

subsection \<open>Constraints found in the messages\<close>

lemma score_order: "fl (45 / 100) \<le> fl (9 / 10)"
  by (rule fl_mono) simp

lemma dont_retained:
  assumes "item_ok x" "ci_kind x = ''dont_candidate''"
  shows "ci_decision (decide task x) \<in> {Pin_Dont, Retain}"
proof -
  have "fl (45 / 100) \<le> ci_score x" "char_len (ci_text x) \<le> 800"
    using assms score_order by (auto simp: item_ok_def)
  then show ?thesis using assms(2)
    by (auto simp: decide_def persona_votes_def majority_def vote_count_def Let_def)
qed

lemma foldl_add_dont_mono: "set ds \<subseteq> set (foldl (add_dont n) ds xs) \<and> length ds \<le> length (foldl (add_dont n) ds xs)"
proof (induction xs arbitrary: ds)
  case (Cons x xs)
  have "set ds \<subseteq> set (add_dont n ds x)" "length ds \<le> length (add_dont n ds x)" by (auto simp: add_dont_def)
  with Cons [of "add_dont n ds x"] show ?case by auto
qed simp

lemma dont_added:
  assumes "x \<in> set xs" "ci_kind x = ''dont_candidate''" "ci_decision x \<noteq> Drop"
  shows "ci_text x \<in> set (foldl (add_dont n) ds xs) \<or> n \<le> length (foldl (add_dont n) ds xs)"
  using assms(1)
proof (induction xs arbitrary: ds)
  case (Cons y ys)
  show ?case
  proof (cases "y = x")
    case True
    have "ci_text x \<in> set (add_dont n ds x) \<or> n \<le> length (add_dont n ds x)" using assms(2,3) by (auto simp: add_dont_def)
    with True foldl_add_dont_mono [of "add_dont n ds x" n ys] show ?thesis by auto
  next
    case False
    with Cons show ?thesis by auto
  qed
qed simp

text \<open>C35. No constraint found in the messages is voted away: each is among the pack's don'ts, unless eight others are.\<close>

theorem constraints_survive_the_vote:
  "case build_context_pack lib var session history task facts version of
     None \<Rightarrow> True
   | Some p \<Rightarrow> list_all (\<lambda>x. ci_text x \<in> set (cp_donts p) \<or> length (cp_donts p) = MAX_DONTS)
       (filter (\<lambda>x. ci_kind x = ''dont_candidate'') (inventory lib history facts task))"
proof (cases "build_context_pack lib var session history task facts version")
  case (Some p)
  let ?items = "inventory lib history facts task"
  let ?xs = "items_by_score (map (decide task) ?items)"
  have donts: "cp_donts p = foldl (add_dont MAX_DONTS) [] ?xs" by (simp add: built_pack [OF Some] lead_merge_def Let_def)
  have "ci_text x \<in> set (cp_donts p) \<or> length (cp_donts p) = MAX_DONTS"
    if x: "x \<in> set ?items" "ci_kind x = ''dont_candidate''" for x
  proof -
    have "ci_decision (decide task x) \<noteq> Drop" using dont_retained [OF inventory_ok [OF x(1)] x(2), of task] by auto
    then have "ci_text x \<in> set (cp_donts p) \<or> MAX_DONTS \<le> length (cp_donts p)"
      using dont_added [of "decide task x" ?xs MAX_DONTS "[]"] x by (simp add: donts)
    then show ?thesis using add_donts [of "[]" MAX_DONTS ?xs] by (auto simp: donts)
  qed
  then show ?thesis by (simp add: Some list_all_iff)
qed simp

subsection \<open>The numbers of a pack are floats\<close>

lemma fl_int: "\<bar>n\<bar> < 2 ^ 53 \<Longrightarrow> fl (of_int n) = of_int n"
  using float_of_Fin [OF small_int_float [of n]] by (simp add: fl_def)

lemma fl_abs:
  assumes "\<bar>x\<bar> \<le> of_int n" "n < 2 ^ 53"
  shows "\<bar>fl x\<bar> \<le> of_int n"
proof -
  have n: "0 \<le> n" using assms(1) by (meson abs_ge_zero of_int_0_le_iff order_trans)
  have "x \<le> of_int n" "of_int (- n) \<le> x" using assms(1) by simp_all
  then have "fl x \<le> fl (of_int n)" "fl (of_int (- n)) \<le> fl x" by (blast intro: fl_mono)+
  then show ?thesis using fl_int [of n] fl_int [of "- n"] n assms(2) by (simp add: abs_le_iff)
qed

lemma fl_is_float: "\<bar>fl x\<bar> \<le> of_int n \<Longrightarrow> n < 2 ^ 53 \<Longrightarrow> float_of (fl x) = Fin (fl x)"
proof -
  assume n: "\<bar>fl x\<bar> \<le> of_int n" "n < 2 ^ 53"
  then have "\<bar>fl x\<bar> < of_int (2 ^ 53)" by (meson le_less_trans of_int_less_iff)
  also have "(of_int (2 ^ 53) :: rat) < 2 ^ 1024" by simp
  finally show ?thesis by (simp add: float_of_def Let_def fl_def float_round_idem abs_less_iff)
qed

lemma float_sum_abs:
  assumes "\<forall>x \<in> set xs. \<bar>x\<bar> \<le> 1" "length xs \<le> 6"
  shows "\<bar>float_sum xs\<bar> \<le> 90"
proof -
  have step: "\<bar>fst (sum_step p x)\<bar> \<le> of_int (a + 1) \<and> \<bar>snd (sum_step p x)\<bar> \<le> of_int (b + 2 * a + 2)"
    if "\<bar>fst p\<bar> \<le> of_int a" "\<bar>snd p\<bar> \<le> of_int b" "\<bar>x\<bar> \<le> 1" "a < 1000" "b < 1000" for p x and a b :: int
  proof -
    obtain s c where p: "p = (s, c)" by (cases p)
    let ?t = "fl (s + x)"
    have t: "\<bar>?t\<bar> \<le> of_int (a + 1)" using that by (intro fl_abs) (simp_all add: p)
    have u: "\<bar>fl (s - ?t)\<bar> \<le> of_int (2 * a + 1)" "\<bar>fl (x - ?t)\<bar> \<le> of_int (a + 2)"
      using that t by (intro fl_abs; simp add: p)+
    have "\<bar>fl (fl (s - ?t) + x)\<bar> \<le> of_int (2 * a + 2)" "\<bar>fl (fl (x - ?t) + s)\<bar> \<le> of_int (2 * a + 2)"
      using that u by (intro fl_abs; simp add: p)+
    then have "\<bar>fl (c + fl (fl (s - ?t) + x))\<bar> \<le> of_int (b + 2 * a + 2)" "\<bar>fl (c + fl (fl (x - ?t) + s))\<bar> \<le> of_int (b + 2 * a + 2)"
      using that by (intro fl_abs; simp add: p)+
    with t show ?thesis by (simp add: sum_step_def p Let_def)
  qed
  have "\<bar>fst (foldl sum_step (0, 0) ys)\<bar> \<le> of_int (int (length ys))
      \<and> \<bar>snd (foldl sum_step (0, 0) ys)\<bar> \<le> of_int (int (length ys) * 14)"
    if "\<forall>x \<in> set ys. \<bar>x\<bar> \<le> 1" "length ys \<le> 6" for ys
    using that
  proof (induction ys rule: rev_induct)
    case (snoc y ys)
    let ?p = "foldl sum_step (0, 0) ys"
    have "\<bar>fst (sum_step ?p y)\<bar> \<le> of_int (int (length ys) + 1)"
      "\<bar>snd (sum_step ?p y)\<bar> \<le> of_int (int (length ys) * 14 + 2 * int (length ys) + 2)"
      using snoc step [of ?p "int (length ys)" "int (length ys) * 14" y] by auto
    moreover have "int (length ys) * 14 + 2 * int (length ys) + 2 \<le> int (length (ys @ [y])) * 14" using snoc.prems by simp
    then have "(of_int (int (length ys) * 14 + 2 * int (length ys) + 2) :: rat) \<le> of_int (int (length (ys @ [y])) * 14)"
      by (rule of_int_le_iff [THEN iffD2])
    ultimately show ?case by (simp del: of_int_add of_int_mult of_int_of_nat_eq) 
  qed simp
  from this [OF assms] have "\<bar>fst (foldl sum_step (0, 0) xs)\<bar> \<le> 6" "\<bar>snd (foldl sum_step (0, 0) xs)\<bar> \<le> 84"
    using assms(2) by (auto intro: order_trans)
  then show ?thesis using fl_abs [of "fst (foldl sum_step (0, 0) xs) + snd (foldl sum_step (0, 0) xs)" 90]
    by (auto simp: float_sum_def Let_def split: prod.splits)
qed

lemma round3_float:
  assumes "\<bar>x\<bar> \<le> of_int n" "0 \<le> n" "n < 1000"
  shows "float_of (round3 x) = Fin (round3 x)"
proof -
  have "- (n * 1000) \<le> round_even (x * 1000)" "round_even (x * 1000) \<le> n * 1000"
    using assms round_even_mono [of "of_int (- (n * 1000))" "x * 1000"] round_even_mono [of "x * 1000" "of_int (n * 1000)"]
      round_even_int [of "- (n * 1000)"] round_even_int [of "n * 1000"]
    by (auto simp: abs_le_iff)
  then have "\<bar>round_even (x * 1000)\<bar> \<le> n * 1000" by (simp add: abs_le_iff)
  then have "\<bar>(of_int (round_even (x * 1000)) :: rat)\<bar> \<le> of_int (n * 1000)" by (simp only: of_int_abs [symmetric] of_int_le_iff)
  then have "\<bar>of_int (round_even (x * 1000)) / 1000 :: rat\<bar> \<le> of_int n" by (simp add: abs_le_iff)
  then have "\<bar>round3 x\<bar> \<le> of_int n" unfolding round3_def using assms(3) by (intro fl_abs) simp_all
  with assms(3) show ?thesis unfolding round3_def by (intro fl_is_float [of _ n]) simp_all
qed

lemma fl_unit: "0 \<le> x \<Longrightarrow> x \<le> 1 \<Longrightarrow> 0 \<le> fl x \<and> fl x \<le> 1"
  using fl_abs [of x 1] fl_nonneg [of x] by auto

lemma voted_length [simp]: "length (pfc_persona_vote task i p) = 5" "length (absent_persona_vote task p) = 5"
  by (simp_all add: pfc_persona_vote_def absent_persona_vote_def Let_def)

lemma keep_votes_le: "keep_votes p \<le> length (kp_votes p)"
  by (simp add: keep_votes_def)

lemma if_float: "float_of y = Fin y \<Longrightarrow> float_of x = Fin x \<Longrightarrow> float_of (if P then x else y) = Fin (if P then x else y)"
  by simp

lemma confidence_float:
  assumes "\<forall>p \<in> set points. length (kp_votes p) = 5" "length points \<le> 6"
  shows "float_of (pfc_confidence points pack) = Fin (pfc_confidence points pack)"
proof -
  define dc where "dc = (if cp_donts pack = [] \<or> list_ex (\<lambda>p. kp_kind p = Dont_Point) points then 1 else 0 :: rat)"
  define dn where "dn = min 1 (fl (of_nat (length points) / of_nat (max 1 (min PFC_POINT_LIMIT 3))))"
  define sm where "sm = float_sum (map (\<lambda>p. fl (of_nat (keep_votes p) / 5)) points)"
  define st where "st = (if points = [] then 0 else fl (sm / of_nat (length points)))"
  have votes: "\<bar>fl (of_nat (keep_votes p) / 5)\<bar> \<le> 1" if "p \<in> set points" for p
    using assms(1) that keep_votes_le [of p] fl_unit [of "of_nat (keep_votes p) / 5"] by auto
  have "\<bar>sm\<bar> \<le> 90" unfolding sm_def using votes assms(2) by (intro float_sum_abs) auto
  then have "\<bar>sm / of_nat (length points)\<bar> \<le> of_int 90" if "points \<noteq> []"
  proof -
    have "1 \<le> (of_nat (length points) :: rat)" using that by (cases points) simp_all
    then show ?thesis using \<open>\<bar>sm\<bar> \<le> 90\<close> by (simp add: abs_le_iff divide_le_eq le_divide_eq)
  qed
  then have st: "\<bar>st\<bar> \<le> 90" unfolding st_def using fl_abs [of "sm / of_nat (length points)" 90] by simp
  have dc: "0 \<le> dc" "dc \<le> 1" and dn: "0 \<le> dn" "dn \<le> 1" by (simp_all add: dc_def dn_def fl_nonneg)
  have w: "0 \<le> fl (4 / 10)" "fl (4 / 10) \<le> 1" "0 \<le> fl (3 / 10)" "fl (3 / 10) \<le> 1"
    using fl_unit [of "4 / 10"] fl_unit [of "3 / 10"] by simp_all
  have a: "\<bar>fl (fl (4 / 10) * dc)\<bar> \<le> 1" "\<bar>fl (fl (3 / 10) * dn)\<bar> \<le> 1"
    using fl_unit [of "fl (4 / 10) * dc"] fl_unit [of "fl (3 / 10) * dn"] w dc dn by (simp_all add: mult_le_one)
  have b: "\<bar>fl (fl (3 / 10) * st)\<bar> \<le> of_int 90"
  proof (rule fl_abs)
    have "fl (3 / 10) * \<bar>st\<bar> \<le> 1 * 90" using w st by (intro mult_mono) auto
    then show "\<bar>fl (3 / 10) * st\<bar> \<le> of_int 90" using w by (simp add: abs_mult)
  qed simp
  have "\<bar>fl (fl (fl (4 / 10) * dc) + fl (fl (3 / 10) * dn))\<bar> \<le> of_int 2" using a by (intro fl_abs) simp_all
  with b have "\<bar>fl (fl (fl (fl (4 / 10) * dc) + fl (fl (3 / 10) * dn)) + fl (fl (3 / 10) * st))\<bar> \<le> of_int 92"
    by (intro fl_abs) simp_all
  then have "float_of (round3 (fl (fl (fl (fl (4 / 10) * dc) + fl (fl (3 / 10) * dn)) + fl (fl (3 / 10) * st))))
      = Fin (round3 (fl (fl (fl (fl (4 / 10) * dc) + fl (fl (3 / 10) * dn)) + fl (fl (3 / 10) * st))))"
    by (rule round3_float) simp_all
  moreover have "float_of 0 = Fin 0" using small_int_float [of 0] by simp
  ultimately show ?thesis unfolding pfc_confidence_def Let_def dc_def dn_def st_def sm_def by (rule if_float)
qed

lemma absent_float:
  assumes "length (kp_votes c) = 5" "0 \<le> kp_weight c"
  shows "float_of (absent_confidence c) = Fin (absent_confidence c)"
proof -
  have v: "0 \<le> fl (of_nat (keep_votes c) / 5)" "fl (of_nat (keep_votes c) / 5) \<le> 1"
    using assms(1) keep_votes_le [of c] fl_unit [of "of_nat (keep_votes c) / 5"] by auto
  have w: "\<bar>fl (7 / 10)\<bar> \<le> 1" "0 \<le> fl (3 / 10)" "fl (3 / 10) \<le> 1" using fl_unit [of "7 / 10"] fl_unit [of "3 / 10"] by simp_all
  have "\<bar>fl (fl (3 / 10) * min 1 (kp_weight c))\<bar> \<le> 1"
    using fl_unit [of "fl (3 / 10) * min 1 (kp_weight c)"] w assms(2) by (simp add: mult_le_one)
  with w have u: "\<bar>fl (fl (7 / 10) + fl (fl (3 / 10) * min 1 (kp_weight c)))\<bar> \<le> of_int 2" by (intro fl_abs) simp_all
  have "\<bar>fl (fl (of_nat (keep_votes c) / 5) * fl (fl (7 / 10) + fl (fl (3 / 10) * min 1 (kp_weight c))))\<bar> \<le> of_int 2"
  proof (rule fl_abs)
    have "fl (of_nat (keep_votes c) / 5) * \<bar>fl (fl (7 / 10) + fl (fl (3 / 10) * min 1 (kp_weight c)))\<bar> \<le> 1 * 2"
      using v u by (intro mult_mono) auto
    then show "\<bar>fl (of_nat (keep_votes c) / 5) * fl (fl (7 / 10) + fl (fl (3 / 10) * min 1 (kp_weight c)))\<bar> \<le> of_int 2"
      using v by (simp add: abs_mult)
  qed simp
  then show ?thesis unfolding absent_confidence_def by (rule round3_float) simp_all
qed

subsection \<open>Through the store and back\<close>

lemma pass_floats: "float_of (pf_confidence (pfc_pass p task i st)) = Fin (pf_confidence (pfc_pass p task i st))"
proof -
  have "length (kp_votes x) = 5" if "x \<in> set (selected_points (map (\<lambda>p. p\<lparr>kp_votes := pfc_persona_vote task i p\<rparr>) ps))" for x ps
    using that by (auto simp: selected_points_def dest!: in_set_takeD)
  then show ?thesis
    by (auto simp: pfc_pass_def Let_def selected_points_def PFC_POINT_LIMIT_def intro!: confidence_float)
qed

lemma condensed_float:
  "\<exists>q. cp_pfc_confidence (prefrontal_condense lib p task n) = Fin q \<and> float_of q = Fin q"
proof -
  let ?st = "\<lparr>pf_loops = 0, pf_prior = [], pf_selected = [], pf_sentence = [], pf_confidence = 0\<rparr>"
  obtain i st' where "pfc_passes p task (pass_numbers n) ?st = pfc_pass p task i st'"
    using passes_end [of p task n ?st] by auto
  moreover have "float_of 0 = Fin 0" using small_int_float [of 0] by simp
  ultimately show ?thesis using pass_floats [of p task i st'] by (simp add: prefrontal_condense_def Let_def)
qed

lemma absent_candidate_weight: "c \<in> set (absent_candidates pack task) \<Longrightarrow> 0 \<le> kp_weight c"
proof -
  have add: "\<forall>c \<in> set (snd (add_absent pfc st e)). 0 \<le> kp_weight c"
    if "\<forall>c \<in> set (snd st). 0 \<le> kp_weight c" "0 \<le> snd (snd e)" for pfc st and e :: "string \<times> point_kind \<times> rat"
  proof -
    obtain t k w where "e = (t, k, w)" by (cases e)
    with that show ?thesis by (simp add: add_absent_def Let_def)
  qed
  have all: "\<forall>c \<in> set (snd (foldl (add_absent pfc) st es)). 0 \<le> kp_weight c"
    if "\<forall>c \<in> set (snd st). 0 \<le> kp_weight c" "\<forall>e \<in> set es. 0 \<le> snd (snd e)" for pfc st and es :: "(string \<times> point_kind \<times> rat) list"
    using that
  proof (induction es arbitrary: st)
    case (Cons e es)
    have "\<forall>c \<in> set (snd (add_absent pfc st e)). 0 \<le> kp_weight c" using Cons.prems by (intro add) simp_all
    from Cons.IH [OF this] Cons.prems(2) show ?case by simp
  qed simp
  have kind: "0 \<le> snd (snd (absent_kind k))" for k by (simp add: absent_kind_def fl_nonneg)
  have task_weight: "0 \<le> fl (7 / 10)" by (rule fl_nonneg) simp
  define es where "es = map (\<lambda>dont. (dont, Dont_Point, 1 :: rat)) (cp_donts pack) @ map absent_kind (cp_keeps pack)
    @ (if str_strip task \<noteq> [] \<and> \<not> covered_by_prefrontal task (cp_prefrontal pack) then [(task, Goal_Point, fl (7 / 10))] else [])"
  have "\<forall>e \<in> set es. 0 \<le> snd (snd e)" unfolding es_def by (simp add: ball_Un kind task_weight)
  then have "\<forall>c \<in> set (snd (foldl (add_absent (cp_prefrontal pack)) ([], []) es)). 0 \<le> kp_weight c" by (intro all) simp
  moreover assume "c \<in> set (absent_candidates pack task)"
  then have "c \<in> set (snd (foldl (add_absent (cp_prefrontal pack)) ([], []) es))"
    unfolding absent_candidates_def Let_def es_def by (rule in_set_takeD [THEN set_sort [THEN equalityD1, THEN subsetD]])
  ultimately show "0 \<le> kp_weight c" by blast
qed

lemma imagined_float: "\<exists>q. cp_pfc_absent_confidence (imagine_pfc_absent lib p task) = Fin q \<and> float_of q = Fin q"
proof -
  have zero: "float_of 0 = Fin 0" using small_int_float [of 0] by simp
  define voted where "voted = map (\<lambda>c. c\<lparr>kp_votes := absent_persona_vote task c\<rparr>) (absent_candidates p task)"
  define winners where "winners = sort_key point_order (filter (\<lambda>c. PFC_ABSENT_MIN_VOTES \<le> keep_votes c) voted)"
  have "float_of (absent_confidence c) = Fin (absent_confidence c)" if "c \<in> set winners" for c
    using that absent_candidate_weight by (auto simp: winners_def voted_def intro!: absent_float)
  with zero show ?thesis
    unfolding imagine_pfc_absent_def Let_def voted_def [symmetric] winners_def [symmetric]
    by (cases winners) auto
qed

text \<open>A built pack read back from the dictionary that is stored is the pack.\<close>

theorem pack_roundtrip:
  "case build_context_pack lib var session history task facts version of
     None \<Rightarrow> True | Some p \<Rightarrow> pack_from_dict lib (JObj (pack_to_dict p)) = Inr (Some p)"
proof (cases "build_context_pack lib var session history task facts version")
  case (Some p)
  note p = built_bounded [OF Some]
  have texts: "text_items lib (JArr (map JStr xs)) = Inr xs" if "list_all (\<lambda>t. str_strip t \<noteq> []) xs" for xs
  proof -
    have "py_iter (or_else (JArr (map JStr xs)) (JArr [])) = Inr (map JStr xs)" by (simp add: or_else_def)
    moreover have "filter (\<lambda>s. str_strip s \<noteq> []) xs = xs" using that by (simp add: list_all_iff filter_id_conv)
    ultimately show ?thesis by (simp add: text_items_def comp_def)
  qed
  obtain a b where f: "cp_pfc_confidence p = Fin a" "float_of a = Fin a" "cp_pfc_absent_confidence p = Fin b" "float_of b = Fin b"
  proof -
    have "cp_pfc_confidence p = cp_pfc_confidence (prefrontal_condense lib (lead_merge (inventory lib history facts task) task) task MAX_PFC_LOOPS)"
      "cp_pfc_absent_confidence p = cp_pfc_absent_confidence (imagine_pfc_absent lib (prefrontal_condense lib (lead_merge (inventory lib history facts task) task) task MAX_PFC_LOOPS) task)"
      by (simp_all add: built_pack [OF Some])
    then show ?thesis using condensed_float imagined_float that by metis
  qed
  have floats: "py_float (or_else (JFloat (Fin x)) (JFloat (Fin 0))) = Inr (Fin x)" if "float_of x = Fin x" for x
    using that by (cases "x = 0") (simp_all add: or_else_def)
  have ints: "py_int (or_else (JInt n) (JInt 0)) = Inr n" "1 \<le> k \<Longrightarrow> py_int (or_else (JInt k) (JInt 1)) = Inr k" for n k
    by (simp_all add: or_else_def)
  have donts: "text_items lib (JArr (map JStr (cp_donts p))) = Inr (cp_donts p)" "text_items lib (JArr (map JStr (cp_keeps p))) = Inr (cp_keeps p)"
    using p by (auto simp: pack_bounded_def list_all_iff intro!: texts)
  have mode: "or_else (JStr ''cpu'') v = JStr ''cpu''" for v by (simp add: or_else_def)
  have "1 \<le> cp_version p" "cp_mode p = ''cpu''" using p by (simp_all add: pack_bounded_def)
  then show ?thesis
    by (simp add: Some pack_from_dict_def pack_to_dict_def dget_def int_or_def float_or_zero_def chain_def donts ints f floats mode)
qed simp

subsection \<open>The clause proposed as absent\<close>

lemma absent_candidate_source:
  assumes "c \<in> set (absent_candidates pack task)"
  shows "\<exists>src \<in> set (cp_donts pack @ cp_keeps pack @ [task]). kp_text c = clause (clip src 96)
    \<and> \<not> covered_by_prefrontal (kp_text c) (cp_prefrontal pack)"
proof -
  define es where "es = map (\<lambda>dont. (dont, Dont_Point, 1 :: rat)) (cp_donts pack) @ map absent_kind (cp_keeps pack)
    @ (if str_strip task \<noteq> [] \<and> \<not> covered_by_prefrontal task (cp_prefrontal pack) then [(task, Goal_Point, fl (7 / 10))] else [])"
  let ?P = "\<lambda>c. \<exists>e \<in> set es. kp_text c = clause (clip (fst e) 96) \<and> \<not> covered_by_prefrontal (kp_text c) (cp_prefrontal pack)"
  have "\<forall>c \<in> set (snd (foldl (add_absent (cp_prefrontal pack)) st xs)). ?P c"
    if "\<forall>c \<in> set (snd st). ?P c" "set xs \<subseteq> set es" for st and xs
    using that
  proof (induction xs arbitrary: st)
    case (Cons x xs)
    obtain t k w where x: "x = (t, k, w)" by (cases x)
    have entry: "(t, k, w) \<in> set es" using Cons.prems(2) x by simp
    have added: "snd (add_absent (cp_prefrontal pack) st x) = snd st
        \<or> (\<exists>c. snd (add_absent (cp_prefrontal pack) st x) = snd st @ [c] \<and> kp_text c = clause (clip t 96)
          \<and> \<not> covered_by_prefrontal (kp_text c) (cp_prefrontal pack))"
      by (simp add: x add_absent_def Let_def)
    have "?P c" if "c \<in> set (snd (add_absent (cp_prefrontal pack) st x))" for c
    proof (cases "c \<in> set (snd st)")
      case True
      with Cons.prems(1) show ?thesis by blast
    next
      case False
      with added that have "kp_text c = clause (clip t 96)" "\<not> covered_by_prefrontal (kp_text c) (cp_prefrontal pack)" by auto
      with entry show ?thesis by (intro bexI [of _ "(t, k, w)"]) simp_all
    qed
    then have "\<forall>c \<in> set (snd (add_absent (cp_prefrontal pack) st x)). ?P c" by blast
    from Cons.IH [OF this] Cons.prems(2) show ?case by simp
  qed simp
  from this [of "([], [])" es]
  have "\<forall>c \<in> set (snd (foldl (add_absent (cp_prefrontal pack)) ([], []) es)). ?P c" by simp
  moreover have "c \<in> set (snd (foldl (add_absent (cp_prefrontal pack)) ([], []) es))"
    using assms unfolding absent_candidates_def Let_def es_def
    by (rule in_set_takeD [THEN set_sort [THEN equalityD1, THEN subsetD]])
  ultimately obtain e where e: "e \<in> set es" "kp_text c = clause (clip (fst e) 96)"
    "\<not> covered_by_prefrontal (kp_text c) (cp_prefrontal pack)" by blast
  have "fst (absent_kind k) = k" for k by (simp add: absent_kind_def)
  then have "fst e \<in> set (cp_donts pack @ cp_keeps pack @ [task])" using e(1) by (auto simp: es_def split: if_splits)
  with e show ?thesis by blast
qed

lemma imagined_source:
  "cp_pfc_absent (imagine_pfc_absent lib p task) = []
   \<or> (\<exists>c votes. c \<in> set (absent_candidates p task)
      \<and> cp_pfc_absent (imagine_pfc_absent lib p task) = clip (absent_text (c\<lparr>kp_votes := votes\<rparr>)) MAX_PFC_ABSENT_CHARS)"
proof -
  define voted where "voted = map (\<lambda>c. c\<lparr>kp_votes := absent_persona_vote task c\<rparr>) (absent_candidates p task)"
  define winners where "winners = sort_key point_order (filter (\<lambda>c. PFC_ABSENT_MIN_VOTES \<le> keep_votes c) voted)"
  have w: "\<exists>c votes. c \<in> set (absent_candidates p task) \<and> x = c\<lparr>kp_votes := votes\<rparr>" if "x \<in> set winners" for x
    using that by (auto simp: winners_def voted_def)
  show ?thesis
  proof (cases winners)
    case Nil
    then show ?thesis unfolding imagine_pfc_absent_def Let_def voted_def [symmetric] winners_def [symmetric] by simp
  next
    case (Cons x xs)
    then have "x \<in> set winners" by simp
    from w [OF this] obtain c votes where "c \<in> set (absent_candidates p task)" "x = c\<lparr>kp_votes := votes\<rparr>" by blast
    with Cons show ?thesis unfolding imagine_pfc_absent_def Let_def voted_def [symmetric] winners_def [symmetric] by auto
  qed
qed

text \<open>The clause proposed as absent is not invented: when there is one, it renders the clause of one of the pack's
  don'ts or keeps or of the next task, most of whose terms the sealed sentence lacks.\<close>

theorem absent_clause_is_grounded:
  "case build_context_pack lib var session history task facts version of
     None \<Rightarrow> True
   | Some p \<Rightarrow> cp_pfc_absent p = []
       \<or> (\<exists>src \<in> set (cp_donts p @ cp_keeps p @ [task]). \<exists>c. kp_text c = clause (clip src 96)
            \<and> \<not> covered_by_prefrontal (kp_text c) (cp_prefrontal p) \<and> cp_pfc_absent p = clip (absent_text c) MAX_PFC_ABSENT_CHARS)"
proof (cases "build_context_pack lib var session history task facts version")
  case (Some p)
  let ?q = "prefrontal_condense lib (lead_merge (inventory lib history facts task) task) task MAX_PFC_LOOPS"
  note p = built_pack [OF Some]
  have same: "cp_donts p = cp_donts ?q" "cp_keeps p = cp_keeps ?q" "cp_prefrontal p = cp_prefrontal ?q"
    "cp_pfc_absent p = cp_pfc_absent (imagine_pfc_absent lib ?q task)" by (simp_all add: p)
  show ?thesis
  proof (cases "cp_pfc_absent p = []")
    case False
    then obtain c votes where c: "c \<in> set (absent_candidates ?q task)"
      "cp_pfc_absent p = clip (absent_text (c\<lparr>kp_votes := votes\<rparr>)) MAX_PFC_ABSENT_CHARS"
      using imagined_source [of lib ?q task] by (auto simp: same)
    from absent_candidate_source [OF c(1)] obtain src where "src \<in> set (cp_donts p @ cp_keeps p @ [task])"
      "kp_text c = clause (clip src 96)" "\<not> covered_by_prefrontal (kp_text c) (cp_prefrontal p)"
      unfolding same [symmetric] by blast
    then have "\<exists>src \<in> set (cp_donts p @ cp_keeps p @ [task]). \<exists>c. kp_text c = clause (clip src 96)
        \<and> \<not> covered_by_prefrontal (kp_text c) (cp_prefrontal p) \<and> cp_pfc_absent p = clip (absent_text c) MAX_PFC_ABSENT_CHARS"
      using c(2) by (intro bexI [of _ src] exI [of _ "c\<lparr>kp_votes := votes\<rparr>"]) auto
    then show ?thesis by (simp add: Some)
  qed (simp add: Some)
qed simp

subsection \<open>Notes\<close>

lemma one_line_strip [simp]: "one_line s \<Longrightarrow> one_line (strip_notes s)"
proof -
  have "set (strip_by P s) \<subseteq> set s" for P
    unfolding strip_by_def by (metis set_dropWhileD set_rev subsetI)
  then show "one_line s \<Longrightarrow> one_line (strip_notes s)" by (auto simp: one_line_def strip_notes_def)
qed

text \<open>The notes and the mode of a built pack are one line each, as \<open>quoted_history_adds_no_heading\<close> assumes.\<close>

lemma built_notes_one_line:
  assumes floats: "\<And>x. one_line (py_str lib (JFloat x))"
    and built: "build_context_pack lib var session history task facts version = Some p"
  shows "notes_one_line p"
proof -
  have "one_line (cp_lead_notes (lead_merge items task))" for items by (simp add: lead_merge_def Let_def)
  moreover have "one_line (cp_lead_notes (prefrontal_condense lib q task n))" if "one_line (cp_lead_notes q)" for q n
    using that floats by (simp add: prefrontal_condense_def Let_def)
  moreover have "one_line (cp_lead_notes (imagine_pfc_absent lib q task))" if "one_line (cp_lead_notes q)" for q
    using that floats by (simp add: imagine_pfc_absent_def noted_def Let_def split: list.splits)
  ultimately show ?thesis by (simp add: notes_one_line_def built_pack [OF built])
qed

end
