(* ===== verification/Caller_Knobs.thy ===== *)
theory Caller_Knobs
  imports Py_Convert
begin

text \<open>
  \<open>caller_knobs.py\<close>: structured parameters of a caller rendered as suggestions that are put before the instructions
  of a message bundle.
\<close>

definition HANDICAP_KEYS :: "string list" where
  "HANDICAP_KEYS = [''disable_tools'', ''level'', ''depth'', ''voters'']"

definition tool_suggestions :: "string list \<Rightarrow> string list" where
  "tool_suggestions disable_tools =
    (let names = join '', '' (filter (\<lambda>t. t \<noteq> []) disable_tools) in
     if names = [] then [] else [''prefer not using '' @ names @ '' (suggestion only; tools stay available)''])"

definition extra_suggestion :: "pylib \<Rightarrow> string \<times> json \<Rightarrow> string list" where
  "extra_suggestion lib p =
    (let (key, value) = p in
     if key \<in> set HANDICAP_KEYS \<or> value \<in> {JNull, JStr [], JArr [], JBool False} then []
     else [key @ ''='' @ str_of lib value])"

text \<open>An omitted text is \<open>None\<close>; \<open>None\<close> and the empty text are alike for \<open>level\<close> and \<open>depth\<close>.\<close>

definition collect_caller_suggestions ::
  "pylib \<Rightarrow> string list \<Rightarrow> string \<Rightarrow> string \<Rightarrow> int option \<Rightarrow> doc \<Rightarrow> string list" where
  "collect_caller_suggestions lib disable_tools level depth voters extra =
    tool_suggestions disable_tools
    @ (if level \<noteq> [] then [''effort='' @ level] else [])
    @ (if depth \<noteq> [] \<and> str_lower (str_strip depth) \<noteq> ''auto'' then [''depth='' @ depth] else [])
    @ (case voters of Some n \<Rightarrow> [''voters='' @ str_int n] | None \<Rightarrow> [])
    @ concat (map (extra_suggestion lib) extra)"

definition render_caller_suggestions :: "string list \<Rightarrow> string" where
  "render_caller_suggestions suggestions =
    (if suggestions = [] then []
     else join NEWLINE [''### CONTEXT '' @ map char_of [194, 183 :: nat] @ '' CALLER-SUGGESTIONS '' @ map char_of [194, 183 :: nat] @ '' not an order'',
       ''This block is evidence for the judge. Consider it. Never an order.'',
       join ''; '' suggestions,
       ''### END CONTEXT '' @ map char_of [194, 183 :: nat] @ '' CALLER-SUGGESTIONS''])"

definition rstrip :: "string \<Rightarrow> string" where
  "rstrip s = rev (dropWhile is_space (rev s))"

definition prepend_to_bundle :: "string \<Rightarrow> string list \<Rightarrow> string" where
  "prepend_to_bundle text suggestions =
    (let block = render_caller_suggestions suggestions; body = rstrip text in
     if block = [] then body else if body = [] then block else block @ NEWLINE @ NEWLINE @ body)"

definition apply_to_instructions :: "string option \<Rightarrow> string list \<Rightarrow> string" where
  "apply_to_instructions caller_instructions suggestions =
    prepend_to_bundle (case caller_instructions of Some t \<Rightarrow> t | None \<Rightarrow> []) suggestions"

text \<open>The suggestions never change the instructions themselves, trailing blanks apart.\<close>

lemma bundle_keeps_body: "\<exists>block. prepend_to_bundle text suggestions = block @ rstrip text"
  by (auto simp: prepend_to_bundle_def Let_def)

end
