(* ===== verification/Local_Plane_Loader.thy ===== *)
theory Local_Plane_Loader
  imports Py_Convert Prelude "HOL-Library.Char_ord" "HOL-Library.List_Lexorder" "HOL-Library.Product_Lexorder"
begin

text \<open>
  \<open>local_plane_loader.py\<close> over the tables of \<open>schema_local_plane.sql\<close>: loading seed assets, the offline minimum,
  and \<open>rewrite_at_load\<close>, which binds discovered models to role floors and certificates. A table is the list of its
  rows; a statement that violates a constraint raises, and the transaction is rolled back. Regular expressions of the
  data, \<open>datetime.fromisoformat\<close> and SQLite's \<open>strftime\<close> are parameters.
\<close>

subsection \<open>Tables\<close>

record family_rule =
  fr_id :: int
  fr_kind :: string
  fr_pattern :: string
  fr_family :: string
  fr_priority :: int
  fr_enabled :: bool

record dialect_row =
  dl_family :: string
  dl_slot :: string
  dl_content :: string
  dl_version :: string
  dl_source :: "string option"
  dl_updated :: string

record manifest_row =
  gm_key :: string
  gm_sha256 :: string
  gm_sla :: int
  gm_pinned_at :: string
  gm_uri :: "string option"
  gm_notes :: "string option"

record promote_row =
  pg_cert :: string
  pg_role :: string
  pg_metric :: string
  pg_status :: string
  pg_model :: "string option"
  pg_family :: "string option"
  pg_ship :: "pyfloat option"
  pg_manifest :: string
  pg_certified_at :: "string option"
  pg_expires_at :: "string option"
  pg_payload :: "string option"

record trap_row =
  tp_id :: string
  tp_role :: "string option"
  tp_hash :: string
  tp_uri :: string
  tp_version :: string
  tp_status :: string
  tp_manifest :: string
  tp_last_pass :: "string option"
  tp_payload :: "string option"

record floor_row =
  rf_metric :: string
  rf_role :: string
  rf_model :: "string option"
  rf_family :: "string option"
  rf_filled :: bool
  rf_scaffold :: bool
  rf_floor :: "pyfloat option"
  rf_lo :: "pyfloat option"
  rf_hi :: "pyfloat option"
  rf_n :: int
  rf_src :: "string option"
  rf_updated :: string

record bind_row =
  rb_model :: string
  rb_role :: string
  rb_family :: string
  rb_metric :: string
  rb_dialect :: string
  rb_cert :: "string option"

record local_db =
  lp_rules :: "family_rule list"
  lp_rule_seq :: int
  lp_dialects :: "dialect_row list"
  lp_manifest :: "manifest_row list"
  lp_promote :: "promote_row list"
  lp_traps :: "trap_row list"
  lp_floors :: "floor_row list"
  lp_binds :: "bind_row list"

definition empty_local :: local_db where
  "empty_local = \<lparr>lp_rules = [], lp_rule_seq = 0, lp_dialects = [], lp_manifest = [], lp_promote = [], lp_traps = [],
    lp_floors = [], lp_binds = []\<rparr>"

text \<open>
  The library: \<open>hashlib\<close> and \<open>json\<close>, \<open>re.search\<close> of a pattern from the data (\<open>None\<close> for \<open>re.error\<close>), the
  timestamp \<open>_parse_iso\<close> reads from a non-empty text, \<open>strftime('%s', text)\<close>, and the text of \<open>datetime('now')\<close>.
\<close>

record local_lib =
  ll_py :: pylib
  ll_search :: "string \<Rightarrow> string \<Rightarrow> bool option"
  ll_stamp :: "string \<Rightarrow> rat option"
  ll_seconds :: "string \<Rightarrow> int option"

definition MIN_OFFLINE_ROLES :: "string list" where "MIN_OFFLINE_ROLES = [''router'', ''text_generator'']"
definition VALID_ROLES :: "string list" where
  "VALID_ROLES = [''router'', ''text_generator'', ''judge'', ''gate'', ''code'', ''other'']"

record discovered_model =
  dm_id :: string
  dm_raw_name :: string

record bind_result =
  br_model :: string
  br_role :: string
  br_family :: string
  br_metric :: string
  br_cert :: "string option"

record load_report =
  rp_ok :: bool
  rp_binds :: "bind_result list"
  rp_missing :: "string list"
  rp_errors :: "string list"
  rp_ready :: bool

subsection \<open>Reading seed values\<close>

text \<open>Each may raise on a number Python cannot convert (\<open>None\<close>); \<open>_as_int\<close> and \<open>_as_float\<close> give \<open>Some None\<close> for their
  default.\<close>

definition as_bool :: "json \<Rightarrow> bool \<Rightarrow> bool option" where
  "as_bool v z =
    (case v of
       JBool b \<Rightarrow> Some b
     | JInt n \<Rightarrow> Some (n \<noteq> 0)
     | JFloat f \<Rightarrow> (case f of Fin q \<Rightarrow> Some (trunc_rat q \<noteq> 0) | _ \<Rightarrow> None)
     | JStr t \<Rightarrow> (let s = str_lower (str_strip t) in
         if s \<in> set [''1'', ''true'', ''yes'', ''on''] then Some True
         else if s \<in> set [''0'', ''false'', ''no'', ''off''] then Some False else Some z)
     | _ \<Rightarrow> Some z)"

definition converted :: "py_error + 'a \<Rightarrow> 'a option option" where
  "converted r = (case r of Inr x \<Rightarrow> Some (Some x) | Inl (OverflowError _) \<Rightarrow> None | Inl _ \<Rightarrow> Some None)"

definition as_int :: "json \<Rightarrow> int option option" where
  "as_int v = (if v = JNull then Some None else converted (py_int v))"

definition as_float :: "json \<Rightarrow> pyfloat option option" where
  "as_float v = (if v = JNull then Some None else converted (py_float v))"

text \<open>What SQLite takes and keeps: an integer outside 64 bits raises, and a NaN is stored as \<open>NULL\<close>.\<close>

definition sql_int :: "int \<Rightarrow> bool" where
  "sql_int n \<longleftrightarrow> - (2 ^ 63) \<le> n \<and> n < 2 ^ 63"

definition real_column :: "pyfloat option \<Rightarrow> pyfloat option" where
  "real_column v = (if v = Some NaN then None else v)"

text \<open>\<open>str(row[k]) if row.get(k) else None\<close>.\<close>

definition text_or_none :: "pylib \<Rightarrow> json \<Rightarrow> string option" where
  "text_or_none lib v = (if truthy v then Some (str_of lib v) else None)"

text \<open>\<open>(v or "").strip().lower()\<close>: only a text has these methods.\<close>

definition tag_text :: "json \<Rightarrow> string option" where
  "tag_text v = (if \<not> truthy v then Some [] else case v of JStr s \<Rightarrow> Some (str_lower (str_strip s)) | _ \<Rightarrow> None)"

definition payload_text :: "pylib \<Rightarrow> json \<Rightarrow> string option" where
  "payload_text lib v = (case v of JNull \<Rightarrow> None | JStr s \<Rightarrow> Some s | _ \<Rightarrow> Some (json_dumps lib v))"

text \<open>A table update that inserts a row or, when the key is there, changes it.\<close>

definition upsert :: "('r \<Rightarrow> 'k) \<Rightarrow> 'r \<Rightarrow> ('r \<Rightarrow> 'r) \<Rightarrow> 'r list \<Rightarrow> 'r list" where
  "upsert key r change t = (if row_of key t (key r) = None then t @ [r] else sql_update (\<lambda>x. key x = key r) change t)"

text \<open>The state of a load: the database, the number of rows and the errors so far; a step that raises leaves the errors.\<close>

type_synonym seeding = "local_db \<times> nat \<times> string list"
type_synonym seed_step = "seeding \<Rightarrow> string list + seeding"

definition raised :: seed_step where "raised st = Inl (snd (snd st))"

definition problem :: "string \<Rightarrow> seed_step" where
  "problem e st = (case st of (d, n, errors) \<Rightarrow> Inr (d, n, errors @ [e]))"

definition counted :: "(local_db \<Rightarrow> local_db) \<Rightarrow> seed_step" where
  "counted f st = (case st of (d, n, errors) \<Rightarrow> Inr (f d, n + 1, errors))"

definition at_row :: "string \<Rightarrow> nat \<Rightarrow> string \<Rightarrow> string" where
  "at_row name i what = name @ ''['' @ str_int (int i) @ '']: '' @ what"

fun each_row :: "(nat \<Rightarrow> json \<Rightarrow> seed_step) \<Rightarrow> nat \<Rightarrow> json list \<Rightarrow> seed_step" where
  "each_row f i [] st = Inr st"
| "each_row f i (x # xs) st = (case f i x st of Inl e \<Rightarrow> Inl e | Inr st' \<Rightarrow> each_row f (i + 1) xs st')"

definition list_rows :: "string \<Rightarrow> (nat \<Rightarrow> json \<Rightarrow> seed_step) \<Rightarrow> json \<Rightarrow> seed_step" where
  "list_rows name f data st =
    (case data of JArr xs \<Rightarrow> each_row f 0 xs st | _ \<Rightarrow> problem (name @ '': expected list'') st)"

definition put_rule :: "string \<Rightarrow> string \<Rightarrow> string \<Rightarrow> int \<Rightarrow> bool \<Rightarrow> local_db \<Rightarrow> local_db" where
  "put_rule kind pattern family priority enabled d =
    (let key = (\<lambda>r. (fr_kind r, fr_pattern r, fr_family r)) in
     if row_of key (lp_rules d) (kind, pattern, family) = None then
       d\<lparr>lp_rules := lp_rules d @ [\<lparr>fr_id = lp_rule_seq d + 1, fr_kind = kind, fr_pattern = pattern, fr_family = family,
           fr_priority = priority, fr_enabled = enabled\<rparr>], lp_rule_seq := lp_rule_seq d + 1\<rparr>
     else d\<lparr>lp_rules := sql_update (\<lambda>r. key r = (kind, pattern, family))
       (\<lambda>r. r\<lparr>fr_priority := priority, fr_enabled := enabled\<rparr>) (lp_rules d)\<rparr>)"

definition load_rule :: "pylib \<Rightarrow> nat \<Rightarrow> json \<Rightarrow> seed_step" where
  "load_rule lib i v st =
    (case v of
       JObj row \<Rightarrow>
         (case tag_text (or_else (dget row ''match_kind'') (dget row ''match'')) of
            None \<Rightarrow> raised st
          | Some kind \<Rightarrow>
              let pattern = dget row ''pattern''; family = dget row ''family'' in
              if kind \<notin> {''regex'', ''substring''} then problem (at_row ''family_map'' i ''bad match_kind'') st
              else if \<not> truthy pattern \<or> \<not> truthy family then problem (at_row ''family_map'' i ''missing pattern/family'') st
              else (case (as_int (dget row ''priority''), as_bool (dget row ''enabled'') True) of
                  (Some given, Some enabled) \<Rightarrow>
                    let priority = (case given of Some n \<Rightarrow> n | None \<Rightarrow> 100) in
                    if sql_int priority then counted (put_rule kind (str_of lib pattern) (str_of lib family) priority enabled) st
                    else raised st
                | _ \<Rightarrow> raised st))
     | _ \<Rightarrow> problem (at_row ''family_map'' i ''not object'') st)"

definition load_family_map :: "pylib \<Rightarrow> json \<Rightarrow> seed_step" where
  "load_family_map lib data st = list_rows ''family_map'' (load_rule lib) data st"

definition put_dialect ::
  "string \<Rightarrow> string \<Rightarrow> string \<Rightarrow> string \<Rightarrow> string option \<Rightarrow> string option \<Rightarrow> local_db \<Rightarrow> local_db" where
  "put_dialect now family slot content version source d =
    d\<lparr>lp_dialects := upsert (\<lambda>r. (dl_family r, dl_slot r))
      \<lparr>dl_family = family, dl_slot = slot, dl_content = content,
        dl_version = (case version of Some v \<Rightarrow> v | None \<Rightarrow> ''1''), dl_source = source, dl_updated = now\<rparr>
      (\<lambda>r. r\<lparr>dl_content := content, dl_version := (case version of Some v \<Rightarrow> v | None \<Rightarrow> ''1''),
         dl_source := (case source of Some s \<Rightarrow> Some s | None \<Rightarrow> dl_source r), dl_updated := now\<rparr>)
      (lp_dialects d)\<rparr>"

type_synonym dialect_entry = "string \<times> string \<times> string \<times> string option \<times> string option"

definition slot_entries :: "pylib \<Rightarrow> string \<times> json \<Rightarrow> dialect_entry list \<times> string list" where
  "slot_entries lib p =
    (case snd p of
       JObj slots \<Rightarrow> (concat (map (\<lambda>(slot, c). if c = JNull then [] else [(fst p, slot, str_of lib c, None, None)]) slots), [])
     | _ \<Rightarrow> ([], [''dialect_matrix['' @ fst p @ '']: expected slot map'']))"

definition row_entry :: "pylib \<Rightarrow> nat \<Rightarrow> json \<Rightarrow> dialect_entry list \<times> string list" where
  "row_entry lib i v =
    (case v of
       JObj row \<Rightarrow>
         let family = dget row ''family''; slot = dget row ''slot''; content = dget row ''content'';
             version = dget row ''version'' in
         if \<not> truthy family \<or> \<not> truthy slot \<or> content = JNull
         then ([], [at_row ''dialect_matrix'' i ''missing family/slot/content''])
         else ([(str_of lib family, str_of lib slot, str_of lib content,
                 if version = JNull then None else Some (str_of lib version), text_or_none lib (dget row ''source_path''))], [])
     | _ \<Rightarrow> ([], [at_row ''dialect_matrix'' i ''not object'']))"

definition load_dialect_matrix :: "pylib \<Rightarrow> string \<Rightarrow> json \<Rightarrow> seed_step" where
  "load_dialect_matrix lib now data st =
    (let parts = (case data of
        JObj kvs \<Rightarrow> Some (map (slot_entries lib) kvs)
      | JArr xs \<Rightarrow> Some (map (\<lambda>(i, x). row_entry lib i x) (List.enumerate 0 xs))
      | _ \<Rightarrow> None) in
     case parts of
       None \<Rightarrow> problem ''dialect_matrix: expected object or list'' st
     | Some ps \<Rightarrow>
         let rows = concat (map fst ps); (d, n, errors) = st in
         Inr (foldl (\<lambda>d (f, s, c, v, src). put_dialect now f s c v src d) d rows, n + length rows, errors @ concat (map snd ps)))"

definition put_manifest :: "manifest_row \<Rightarrow> local_db \<Rightarrow> local_db" where
  "put_manifest r d = d\<lparr>lp_manifest := upsert gm_key r (\<lambda>_. r) (lp_manifest d)\<rparr>"

definition load_manifest_row :: "pylib \<Rightarrow> nat \<Rightarrow> json \<Rightarrow> seed_step" where
  "load_manifest_row lib i v st =
    (case v of
       JObj row \<Rightarrow>
         let key = dget row ''asset_key''; sha = dget row ''sha256''; pinned = dget row ''pinned_at'' in
         (case as_int (dget row ''freshness_sla_s'') of
            None \<Rightarrow> raised st
          | Some (Some sla) \<Rightarrow>
              if \<not> truthy key \<or> \<not> truthy sha \<or> \<not> truthy pinned
              then problem (at_row ''gate_manifest'' i ''missing required fields'') st
              else if \<not> sql_int sla then raised st
              else counted (put_manifest \<lparr>gm_key = str_of lib key, gm_sha256 = str_of lib sha, gm_sla = sla,
                gm_pinned_at = str_of lib pinned, gm_uri = text_or_none lib (dget row ''source_uri''),
                gm_notes = text_or_none lib (dget row ''notes'')\<rparr>) st
          | Some None \<Rightarrow> problem (at_row ''gate_manifest'' i ''missing required fields'') st)
     | _ \<Rightarrow> problem (at_row ''gate_manifest'' i ''not object'') st)"

definition load_gate_manifest :: "pylib \<Rightarrow> json \<Rightarrow> seed_step" where
  "load_gate_manifest lib data st = list_rows ''gate_manifest'' (load_manifest_row lib) data st"

text \<open>A row whose \<open>manifest_key\<close> names no pin violates the foreign key.\<close>

definition pinned :: "local_db \<Rightarrow> string \<Rightarrow> bool" where
  "pinned d key \<longleftrightarrow> key \<in> gm_key ` set (lp_manifest d)"

definition put_promote :: "promote_row \<Rightarrow> local_db \<Rightarrow> local_db" where
  "put_promote r d = d\<lparr>lp_promote := upsert pg_cert r (\<lambda>_. r) (lp_promote d)\<rparr>"

definition load_promote_row :: "pylib \<Rightarrow> nat \<Rightarrow> json \<Rightarrow> seed_step" where
  "load_promote_row lib i v st =
    (case v of
       JObj row \<Rightarrow>
         let cert = dget row ''cert_id''; role = dget row ''role''; metric = dget row ''metric_id'';
             manifest = str_of lib (or_else (dget row ''manifest_key'') (JStr ''promote_gates'')) in
         (case tag_text (dget row ''status'') of
            None \<Rightarrow> raised st
          | Some status \<Rightarrow>
              if \<not> truthy cert \<or> \<not> truthy role \<or> \<not> truthy metric \<or> status \<notin> {''pending'', ''certified'', ''revoked''}
              then problem (at_row ''promote'' i ''missing/invalid required fields'') st
              else (case as_float (dget row ''ship_fr'') of
                None \<Rightarrow> raised st
              | Some ship \<Rightarrow>
                  if \<not> pinned (fst st) manifest then raised st
                  else counted (put_promote \<lparr>pg_cert = str_of lib cert, pg_role = str_of lib role, pg_metric = str_of lib metric,
                pg_status = status, pg_model = text_or_none lib (dget row ''model_id''),
                pg_family = text_or_none lib (dget row ''family''), pg_ship = real_column ship,
                pg_manifest = manifest, pg_certified_at = text_or_none lib (dget row ''certified_at''),
                pg_expires_at = text_or_none lib (dget row ''expires_at''),
                pg_payload = payload_text lib (dget row ''payload_json'')\<rparr>) st))
     | _ \<Rightarrow> problem (at_row ''promote'' i ''not object'') st)"

definition load_promote :: "pylib \<Rightarrow> json \<Rightarrow> seed_step" where
  "load_promote lib data st = list_rows ''promote'' (load_promote_row lib) data st"

definition put_trap :: "trap_row \<Rightarrow> local_db \<Rightarrow> local_db" where
  "put_trap r d = d\<lparr>lp_traps := upsert tp_id r (\<lambda>_. r) (lp_traps d)\<rparr>"

definition load_trap_row :: "pylib \<Rightarrow> nat \<Rightarrow> json \<Rightarrow> seed_step" where
  "load_trap_row lib i v st =
    (case v of
       JObj row \<Rightarrow>
         let trap = dget row ''trap_id''; hash = dget row ''fixture_hash''; uri = dget row ''fixture_uri'';
             version = dget row ''version'';
             manifest = str_of lib (or_else (dget row ''manifest_key'') (JStr ''trap_regression'')) in
         (case tag_text (dget row ''status'') of
            None \<Rightarrow> raised st
          | Some status \<Rightarrow>
              if \<not> truthy trap \<or> \<not> truthy hash \<or> \<not> truthy uri \<or> \<not> truthy version
              then problem (at_row ''traps'' i ''missing required fields'') st
              else if status \<notin> {''active'', ''waived'', ''retired''} then problem (at_row ''traps'' i ''bad status'') st
              else if \<not> pinned (fst st) manifest then raised st
              else counted (put_trap \<lparr>tp_id = str_of lib trap, tp_role = text_or_none lib (dget row ''role''),
                tp_hash = str_of lib hash, tp_uri = str_of lib uri, tp_version = str_of lib version, tp_status = status,
                tp_manifest = manifest, tp_last_pass = text_or_none lib (dget row ''last_pass_at''),
                tp_payload = payload_text lib (dget row ''payload_json'')\<rparr>) st)
     | _ \<Rightarrow> problem (at_row ''traps'' i ''not object'') st)"

definition load_traps :: "pylib \<Rightarrow> json \<Rightarrow> seed_step" where
  "load_traps lib data st = list_rows ''traps'' (load_trap_row lib) data st"

subsection \<open>Scorecards\<close>

definition HISTORICAL_ROLES :: "(string \<times> string) list" where
  "HISTORICAL_ROLES =
    [(''router'', ''router''), (''generator'', ''text_generator''), (''text generator'', ''text_generator''),
     (''text_generator'', ''text_generator''), (''judge'', ''judge''), (''gate'', ''gate''), (''code'', ''code'')]"

definition normalize_role :: "pylib \<Rightarrow> json \<Rightarrow> string" where
  "normalize_role lib raw =
    (case map_of HISTORICAL_ROLES (str_lower (str_strip (text_or_empty lib raw))) of Some r \<Rightarrow> r | None \<Rightarrow> ''other'')"

definition or_old :: "'a option \<Rightarrow> 'a option \<Rightarrow> 'a option" where
  "or_old new old = (case new of Some x \<Rightarrow> Some x | None \<Rightarrow> old)"

text \<open>The upsert leaves \<open>filled\<close>, \<open>is_scaffold\<close> and \<open>model_id\<close> of an existing row alone.\<close>

definition put_scaffold :: "floor_row \<Rightarrow> local_db \<Rightarrow> local_db" where
  "put_scaffold new d =
    d\<lparr>lp_floors := upsert rf_metric new
      (\<lambda>r. r\<lparr>rf_role := rf_role new, rf_family := or_old (rf_family new) (rf_family r), rf_floor := or_old (rf_floor new) (rf_floor r),
         rf_lo := or_old (rf_lo new) (rf_lo r), rf_hi := or_old (rf_hi new) (rf_hi r), rf_n := rf_n new,
         rf_src := or_old (rf_src new) (rf_src r), rf_updated := rf_updated new\<rparr>)
      (lp_floors d)\<rparr>"

definition metric_of :: "pylib \<Rightarrow> nat \<Rightarrow> doc \<Rightarrow> string" where
  "metric_of lib i row =
    (let raw_role = or_else (dget row ''role'') (dget row ''skill''); src = or_else (dget row ''model'') (dget row ''checkpoint'');
         seed = str_of lib raw_role @ ''|'' @ str_of lib (or_else src (JInt (int i))) @ ''|'' @ text_or_empty lib (dget row ''id'');
         family = text_or_none lib (dget row ''family'')
     in normalize_role lib raw_role @ '':'' @ (case family of Some f \<Rightarrow> f | None \<Rightarrow> ''unknown'') @ '':'' @ take 12 (sha256 lib seed))"

definition load_scorecard_row :: "pylib \<Rightarrow> string \<Rightarrow> nat \<Rightarrow> json \<Rightarrow> seed_step" where
  "load_scorecard_row lib now i v st =
    (case v of
       JObj row \<Rightarrow>
         let raw_role = or_else (dget row ''role'') (dget row ''skill''); src = or_else (dget row ''model'') (dget row ''checkpoint'');
             given = (if dget row ''floor_value'' = JNull then dget row ''floor'' else dget row ''floor_value'');
             count = (if dget row ''sample_n'' = JNull then dget row ''n'' else dget row ''sample_n'') in
         if \<not> truthy raw_role then problem (at_row ''scorecard'' i ''missing role/skill'') st
         else (case (as_float given, as_float (dget row ''interval_lo''), as_float (dget row ''interval_hi''), as_int count) of
             (Some floor_value, Some lo, Some hi, Some given_n) \<Rightarrow>
               let n = (case given_n of Some k \<Rightarrow> k | None \<Rightarrow> 0) in
               if \<not> sql_int n then raised st
               else counted (put_scaffold \<lparr>rf_metric = metric_of lib i row, rf_role = normalize_role lib raw_role, rf_model = None,
                 rf_family = text_or_none lib (dget row ''family''), rf_filled = False, rf_scaffold = True, rf_floor = real_column floor_value,
                 rf_lo = real_column lo, rf_hi = real_column hi, rf_n = n, rf_src = text_or_none lib src,
                 rf_updated = now\<rparr>) st
           | _ \<Rightarrow> raised st)
     | _ \<Rightarrow> problem (at_row ''scorecard'' i ''not object'') st)"

definition load_scorecard :: "pylib \<Rightarrow> string \<Rightarrow> json \<Rightarrow> seed_step" where
  "load_scorecard lib now data st = list_rows ''scorecard'' (load_scorecard_row lib now) data st"

subsection \<open>Loading the seed assets\<close>

text \<open>An asset is \<open>None\<close> when the file is missing and \<open>Some None\<close> when it is not JSON, which raises.\<close>

type_synonym asset = "json option option"

record seed_assets =
  sa_dialects :: asset
  sa_families :: asset
  sa_scorecard :: asset
  sa_manifest :: asset
  sa_promote :: asset
  sa_traps :: asset

record seed_stats =
  st_family_map :: nat
  st_dialects :: nat
  st_manifest :: nat
  st_promote :: nat
  st_traps :: nat
  st_scorecard :: nat
  st_errors :: "string list"

text \<open>One asset: the counter starts anew, the errors go on.\<close>

definition load_asset :: "(json \<Rightarrow> seed_step) \<Rightarrow> asset \<Rightarrow> local_db \<times> string list \<Rightarrow> string list + seeding" where
  "load_asset f a st =
    (case a of None \<Rightarrow> Inr (fst st, 0, snd st) | Some None \<Rightarrow> Inl (snd st) | Some (Some data) \<Rightarrow> f data (fst st, 0, snd st))"

definition missing_assets :: "seed_assets \<Rightarrow> string list" where
  "missing_assets a = concat (map (\<lambda>(name, x). if x = None then [''missing_asset:'' @ name] else [])
    [(''family_map'', sa_families a), (''dialect_matrix'', sa_dialects a), (''gate_manifest'', sa_manifest a),
     (''promote_gates'', sa_promote a), (''trap_regression'', sa_traps a)])"

text \<open>The assets in order: the counts of those loaded and, unless one raised, the database.\<close>

fun load_all ::
  "(asset \<times> (json \<Rightarrow> seed_step)) list \<Rightarrow> local_db \<times> string list \<Rightarrow> nat list \<Rightarrow> nat list \<times> string list \<times> local_db option" where
  "load_all [] st counts = (counts, snd st, Some (fst st))"
| "load_all ((a, f) # rest) st counts =
     (case load_asset f a st of
        Inl errors \<Rightarrow> (counts, errors, None)
      | Inr (d, n, errors) \<Rightarrow> load_all rest (d, errors) (counts @ [n]))"

definition stats_of :: "nat list \<Rightarrow> string list \<Rightarrow> seed_stats" where
  "stats_of counts errors =
    (let n = (\<lambda>i. if i < length counts then counts ! i else 0) in
     \<lparr>st_family_map = n 0, st_dialects = n 1, st_manifest = n 2, st_promote = n 3, st_traps = n 4, st_scorecard = n 5,
       st_errors = errors\<rparr>)"

text \<open>A load that raises is rolled back; the statistics keep the counts of the assets before it (the text of the
  exception is left out of the last error).\<close>

definition load_seed_assets :: "pylib \<Rightarrow> string \<Rightarrow> seed_assets \<Rightarrow> local_db \<Rightarrow> seed_stats \<times> local_db" where
  "load_seed_assets lib now a d =
    (case load_all
        [(sa_families a, load_family_map lib), (sa_dialects a, load_dialect_matrix lib now), (sa_manifest a, load_gate_manifest lib),
         (sa_promote a, load_promote lib), (sa_traps a, load_traps lib), (sa_scorecard a, load_scorecard lib now)]
        (d, missing_assets a) [] of
       (counts, errors, Some d') \<Rightarrow> (stats_of counts errors, d')
     | (counts, errors, None) \<Rightarrow> (stats_of counts (errors @ [''seed_txn'']), d))"

subsection \<open>The offline minimum\<close>

definition dogfood_rules :: "string \<Rightarrow> (string \<times> string \<times> int) list" where
  "dogfood_rules family = [(''substring'', ''ai/gemma'', 5), (''substring'', ''unigrok/'', 8), (''substring'', ''gemma'', 10), (''regex'', ''(?i)gemma'', 20)]"

definition dogfood_metric :: "string \<Rightarrow> string \<Rightarrow> string" where
  "dogfood_metric family role = role @ '':'' @ family @ '':offline-min''"

definition put_dogfood_floor :: "string \<Rightarrow> string \<Rightarrow> string \<Rightarrow> local_db \<Rightarrow> local_db" where
  "put_dogfood_floor now family role d =
    (let m = dogfood_metric family role; floor_value = Some (float_of (9 / 10)) in
     d\<lparr>lp_floors := upsert rf_metric
        \<lparr>rf_metric = m, rf_role = role, rf_model = None, rf_family = Some family, rf_filled = True, rf_scaffold = False,
          rf_floor = floor_value, rf_lo = None, rf_hi = None, rf_n = 1, rf_src = None, rf_updated = now\<rparr>
        (\<lambda>r. r\<lparr>rf_role := role, rf_family := Some family, rf_filled := True, rf_scaffold := False, rf_floor := floor_value,
           rf_updated := now\<rparr>) (lp_floors d)\<rparr>)"

definition put_dogfood_pin :: "string \<Rightarrow> local_db \<Rightarrow> local_db" where
  "put_dogfood_pin now d =
    (let sha = ''offline-dogfood-seed-v1''; note = Some ''auto offline min-role seed'' in
     d\<lparr>lp_manifest := upsert gm_key
        \<lparr>gm_key = ''promote_gates'', gm_sha256 = sha, gm_sla = 2592000, gm_pinned_at = now, gm_uri = None, gm_notes = note\<rparr>
        (\<lambda>r. r\<lparr>gm_sha256 := sha, gm_sla := 2592000, gm_pinned_at := now, gm_notes := note\<rparr>) (lp_manifest d)\<rparr>)"

definition put_dogfood_cert :: "pylib \<Rightarrow> string \<Rightarrow> string \<Rightarrow> string \<Rightarrow> local_db \<Rightarrow> local_db" where
  "put_dogfood_cert lib now family role d =
    (let m = dogfood_metric family role; payload = Some (json_dumps lib (JObj [(''seed'', JStr ''offline-min-roles-auto'')])) in
     d\<lparr>lp_promote := upsert pg_cert
        \<lparr>pg_cert = ''cert-offline-'' @ role @ ''-'' @ family, pg_role = role, pg_metric = m, pg_status = ''certified'', pg_model = None,
          pg_family = Some family, pg_ship = None, pg_manifest = ''promote_gates'', pg_certified_at = Some now, pg_expires_at = None,
          pg_payload = payload\<rparr>
        (\<lambda>r. r\<lparr>pg_role := role, pg_metric := m, pg_status := ''certified'', pg_family := Some family,
           pg_manifest := ''promote_gates'', pg_certified_at := Some now, pg_payload := payload\<rparr>) (lp_promote d)\<rparr>)"

definition funded :: "local_db \<Rightarrow> bool" where
  "funded d \<longleftrightarrow> 1 \<le> length (lp_rules d)
    \<and> 2 \<le> length (filter (\<lambda>r. rf_filled r \<and> \<not> rf_scaffold r \<and> rf_role r \<in> set MIN_OFFLINE_ROLES) (lp_floors d))"

definition ensure_dogfood_min_roles :: "pylib \<Rightarrow> string \<Rightarrow> string \<Rightarrow> local_db \<Rightarrow> bool \<times> local_db" where
  "ensure_dogfood_min_roles lib now family d =
    (let d1 = foldl (\<lambda>d (kind, pattern, priority). put_rule kind pattern family priority True d) d (dogfood_rules family) in
     if funded d then (False, d1)
     else (True, foldl (\<lambda>d role. put_dogfood_cert lib now family role d)
       (put_dogfood_pin now (foldl (\<lambda>d role. put_dogfood_floor now family role d) d1 MIN_OFFLINE_ROLES)) MIN_OFFLINE_ROLES))"

subsection \<open>Families, metrics and certificates\<close>

text \<open>\<open>ORDER BY ... LIMIT 1\<close> for an order given by its comparison.\<close>

definition first_by :: "('a \<Rightarrow> 'a \<Rightarrow> bool) \<Rightarrow> 'a list \<Rightarrow> 'a option" where
  "first_by before xs = (case xs of [] \<Rightarrow> None | x # rest \<Rightarrow> Some (foldl (\<lambda>best y. if before y best then y else best) x rest))"

definition rule_matches :: "local_lib \<Rightarrow> string \<Rightarrow> string \<Rightarrow> family_rule \<Rightarrow> bool" where
  "rule_matches lib model_id hay r =
    (if fr_kind r = ''substring'' then
       contains (str_lower (fr_pattern r)) (str_lower model_id) \<or> contains (str_lower (fr_pattern r)) (str_lower hay)
     else fr_kind r = ''regex'' \<and>
       (case ll_search lib (fr_pattern r) model_id of
          None \<Rightarrow> False
        | Some True \<Rightarrow> True
        | Some False \<Rightarrow> ll_search lib (fr_pattern r) hay = Some True))"

definition resolve_family :: "local_lib \<Rightarrow> local_db \<Rightarrow> string \<Rightarrow> string \<Rightarrow> string option" where
  "resolve_family lib d model_id raw_name =
    (let hay = (if raw_name \<noteq> [] then raw_name else model_id);
         rules = sort_key (\<lambda>r. (fr_priority r, fr_id r)) (filter fr_enabled (lp_rules d))
     in map_option fr_family (find (rule_matches lib model_id hay) rules))"

definition floor_in :: "string \<Rightarrow> floor_row \<Rightarrow> bool" where
  "floor_in family r \<longleftrightarrow> rf_family r = Some family \<or> rf_family r = None"

definition roles_for_family :: "local_db \<Rightarrow> string \<Rightarrow> string list" where
  "roles_for_family d family = sort (remdups (map rf_role (filter (floor_in family) (lp_floors d))))"

text \<open>\<open>COALESCE(floor_value, -1e18) DESC\<close>.\<close>

fun float_place :: "pyfloat \<Rightarrow> int \<times> rat" where
  "float_place (Fin q) = (0, q)" | "float_place PosInf = (1, 0)" | "float_place _ = (- 1, 0)"

definition floor_order :: "string \<Rightarrow> floor_row \<Rightarrow> nat \<times> (int \<times> rat) \<times> nat \<times> string" where
  "floor_order family r =
    (let (s, q) = (case rf_floor r of Some NaN \<Rightarrow> (0, - (10 ^ 18)) | Some f \<Rightarrow> float_place f | None \<Rightarrow> (0, - (10 ^ 18))) in
     (if rf_filled r \<and> \<not> rf_scaffold r then 0 else 1, (- s, - q), if rf_family r = Some family then 0 else 1, rf_metric r))"

definition pick_role_metric :: "local_db \<Rightarrow> string \<Rightarrow> string \<Rightarrow> string option" where
  "pick_role_metric d family role =
    map_option rf_metric (first_by (\<lambda>a b. floor_order family a < floor_order family b)
      (filter (\<lambda>r. rf_role r = role \<and> floor_in family r) (lp_floors d)))"

text \<open>A missing text comes first in ascending order, so last in descending order.\<close>

definition cert_before :: "string \<Rightarrow> promote_row \<Rightarrow> promote_row \<Rightarrow> bool" where
  "cert_before family a b =
    (let near = (\<lambda>r. if pg_family r = Some family then 0 else 1 :: nat);
         later = (\<lambda>x y. case (x, y) of (Some s, Some t) \<Rightarrow> (t :: string) < s | (Some _, None) \<Rightarrow> True | _ \<Rightarrow> False) in
     near a < near b \<or> (near a = near b \<and> (later (pg_certified_at a) (pg_certified_at b)
       \<or> (pg_certified_at a = pg_certified_at b \<and> pg_cert a < pg_cert b))))"

definition pick_cert :: "local_db \<Rightarrow> string \<Rightarrow> string \<Rightarrow> string \<Rightarrow> string option" where
  "pick_cert d role family metric =
    map_option pg_cert (first_by (cert_before family)
      (filter (\<lambda>r. pg_role r = role \<and> (metric \<noteq> [] \<longrightarrow> pg_metric r = metric) \<and> pg_status r = ''certified''
          \<and> (pg_family r = None \<or> pg_family r = Some family)) (lp_promote d)))"

definition stamp_of :: "local_lib \<Rightarrow> string \<Rightarrow> rat option" where
  "stamp_of lib t = (if t = [] then None else ll_stamp lib t)"

definition cert_fresh :: "local_lib \<Rightarrow> rat \<Rightarrow> local_db \<Rightarrow> string option \<Rightarrow> bool" where
  "cert_fresh lib now d cert =
    (case cert of
       None \<Rightarrow> False
     | Some c \<Rightarrow> c \<noteq> [] \<and>
         (case row_of pg_cert (lp_promote d) c of
            None \<Rightarrow> False
          | Some p \<Rightarrow>
              pg_status p = ''certified''
              \<and> (case Option.bind (pg_expires_at p) (stamp_of lib) of Some e \<Rightarrow> now \<le> e | None \<Rightarrow> True)
              \<and> (case row_of gm_key (lp_manifest d) (pg_manifest p) of
                   None \<Rightarrow> False
                 | Some g \<Rightarrow> (case stamp_of lib (gm_pinned_at g) of
                     None \<Rightarrow> False
                   | Some pin \<Rightarrow> max 0 (now - pin) \<le> of_int (gm_sla g)))))"

text \<open>The view \<open>v_local_min_role_cert\<close>: whether a bind's role is ready at \<open>datetime('now')\<close>.\<close>

definition role_ready :: "local_lib \<Rightarrow> int \<Rightarrow> string \<Rightarrow> local_db \<Rightarrow> bind_row \<Rightarrow> bool" where
  "role_ready lib now_s now_text d b \<longleftrightarrow>
    rb_role b \<in> set MIN_OFFLINE_ROLES \<and>
    (case row_of rf_metric (lp_floors d) (rb_metric b) of
       None \<Rightarrow> False
     | Some f \<Rightarrow> rf_filled f \<and> \<not> rf_scaffold f
         \<and> (case Option.bind (rb_cert b) (row_of pg_cert (lp_promote d)) of
              None \<Rightarrow> False
            | Some p \<Rightarrow> pg_status p = ''certified''
                \<and> (case row_of gm_key (lp_manifest d) (pg_manifest p) of
                     None \<Rightarrow> False
                   | Some g \<Rightarrow> (case ll_seconds lib (gm_pinned_at g) of Some t \<Rightarrow> now_s - t \<le> gm_sla g | None \<Rightarrow> False))
                \<and> (case pg_expires_at p of None \<Rightarrow> True | Some e \<Rightarrow> now_text < e)))"

definition plane_data_ready :: "local_lib \<Rightarrow> int \<Rightarrow> string \<Rightarrow> local_db \<Rightarrow> bool" where
  "plane_data_ready lib now_s now_text d \<longleftrightarrow>
    list_all (\<lambda>role. list_ex (\<lambda>b. rb_role b = role \<and> role_ready lib now_s now_text d b) (lp_binds d)) MIN_OFFLINE_ROLES"

definition get_bind :: "local_db \<Rightarrow> string \<Rightarrow> string \<Rightarrow> bind_result option" where
  "get_bind d model_id role =
    (if model_id = [] \<or> role = [] then None
     else map_option (\<lambda>b. \<lparr>br_model = rb_model b, br_role = rb_role b, br_family = rb_family b, br_metric = rb_metric b, br_cert = rb_cert b\<rparr>)
       (find (\<lambda>b. rb_model b = model_id \<and> rb_role b = role) (lp_binds d)))"

definition list_binds :: "local_db \<Rightarrow> string option \<Rightarrow> string option \<Rightarrow> bind_result list" where
  "list_binds d model_id role =
    map (\<lambda>b. \<lparr>br_model = rb_model b, br_role = rb_role b, br_family = rb_family b, br_metric = rb_metric b, br_cert = rb_cert b\<rparr>)
      (sort_key (\<lambda>b. (rb_model b, rb_role b))
        (filter (\<lambda>b. (case model_id of Some m \<Rightarrow> rb_model b = m | None \<Rightarrow> True)
          \<and> (case role of Some r \<Rightarrow> rb_role b = r | None \<Rightarrow> True)) (lp_binds d)))"

subsection \<open>Rewriting the binds at load\<close>

type_synonym rewriting = "local_db \<times> bind_result list \<times> string list"

definition bind_role :: "string \<Rightarrow> discovered_model \<Rightarrow> string \<Rightarrow> rewriting \<Rightarrow> string \<Rightarrow> rewriting" where
  "bind_role now m family st role =
    (let (d, binds, errors) = st in
     if role \<notin> set VALID_ROLES then st
     else case pick_role_metric d family role of
       None \<Rightarrow> (d, binds, errors @ [''no_metric:'' @ family @ '':'' @ role])
     | Some metric \<Rightarrow>
         let cert = pick_cert d role family metric;
             row = \<lparr>rb_model = dm_id m, rb_role = role, rb_family = family, rb_metric = metric, rb_dialect = family, rb_cert = cert\<rparr> in
         (d\<lparr>lp_floors := sql_update (\<lambda>r. rf_metric r = metric)
              (\<lambda>r. r\<lparr>rf_model := Some (dm_id m), rf_family := Some family, rf_updated := now\<rparr>) (lp_floors d),
            lp_binds := sql_delete (\<lambda>b. rb_model b = dm_id m \<and> rb_role b = role) (lp_binds d) @ [row]\<rparr>,
          binds @ [\<lparr>br_model = dm_id m, br_role = role, br_family = family, br_metric = metric, br_cert = cert\<rparr>], errors))"

definition bind_model :: "local_lib \<Rightarrow> string \<Rightarrow> rewriting \<Rightarrow> discovered_model \<Rightarrow> rewriting" where
  "bind_model lib now st m =
    (let (d, binds, errors) = st in
     case resolve_family lib d (dm_id m) (dm_raw_name m) of
       None \<Rightarrow> (d, binds, errors @ [''no_family:'' @ dm_id m])
     | Some family \<Rightarrow>
         if family = [] then (d, binds, errors @ [''no_family:'' @ dm_id m])
         else let roles = roles_for_family d family in
           if roles = [] then (d, binds, errors @ [''no_roles:'' @ family @ '':'' @ dm_id m])
           else foldl (bind_role now m family) st roles)"

text \<open>\<open>now\<close> is the timestamp text the rows get, with its seconds; \<open>now_s\<close> and \<open>now_text\<close> are SQLite's clock.\<close>

definition rewrite_at_load ::
  "local_lib \<Rightarrow> string \<Rightarrow> rat \<Rightarrow> int \<Rightarrow> string \<Rightarrow> discovered_model list \<Rightarrow> local_db \<Rightarrow> load_report \<times> local_db" where
  "rewrite_at_load lib now stamp now_s now_text discovered d =
    (let (d', binds, errors) = foldl (bind_model lib now) (d\<lparr>lp_binds := []\<rparr>, [], []) discovered;
         missing = filter (\<lambda>r. \<not> list_ex (\<lambda>b. br_role b = r \<and> cert_fresh lib stamp d' (br_cert b)) binds) MIN_OFFLINE_ROLES;
         ready = (missing = [] \<and> plane_data_ready lib now_s now_text d')
     in (\<lparr>rp_ok = (errors = [] \<or> ready), rp_binds = binds, rp_missing = missing, rp_errors = errors, rp_ready = ready\<rparr>, d'))"

text \<open>\<open>rewrite_local_binds\<close> of the store: what is discovered, as dictionaries.\<close>

definition discovered_of :: "pylib \<Rightarrow> json list \<Rightarrow> discovered_model list" where
  "discovered_of lib items =
    map (\<lambda>v. let d = obj_of v in \<lparr>dm_id = str_of lib (dget d ''model_id''), dm_raw_name = str_of lib (or_else (dget d ''raw_name'') (dget d ''model_id''))\<rparr>)
      (filter (\<lambda>v. is_obj v \<and> truthy (dget (obj_of v) ''model_id'')) items)"

definition rewrite_local_binds ::
  "local_lib \<Rightarrow> string \<Rightarrow> rat \<Rightarrow> int \<Rightarrow> string \<Rightarrow> json list \<Rightarrow> local_db \<Rightarrow> load_report \<times> local_db" where
  "rewrite_local_binds lib now stamp now_s now_text items d =
    rewrite_at_load lib now stamp now_s now_text (discovered_of (ll_py lib) items) d"

end
