(* ===== verification/Local_Route.thy ===== *)
theory Local_Route
  imports Local_Plane_Loader
begin

text \<open>
  The rest of \<open>local_plane_loader.py\<close>: what a probe reads from a runtime's answer, the chain of probes, and
  \<open>resolve_m2_plane_route\<close>. The HTTP answer of a runtime is a parameter (\<open>None\<close> for any exception on the way).
\<close>

subsection \<open>Probes\<close>

definition openai_compat_api_base :: "string \<Rightarrow> py_error + string" where
  "openai_compat_api_base base_url =
    (let base = rev (dropWhile (\<lambda>c. c = CHR ''/'') (rev (str_strip base_url))) in
     if base = [] then Inl (ValueError ''OpenAI-compatible runtime URL is empty'')
     else if last (split_on (CHR ''/'') [] base) = ''v1'' then Inr base
     else Inr (base @ ''/v1''))"

record probe_result =
  pr_up :: bool
  pr_models :: "discovered_model list"
  pr_errors :: "string list"

definition down :: "string \<Rightarrow> probe_result" where
  "down e = \<lparr>pr_up = False, pr_models = [], pr_errors = [e]\<rparr>"

text \<open>The models of an answer: the rows of the list under \<open>field\<close> whose first name among \<open>keys\<close> is not empty.\<close>

definition named_models :: "pylib \<Rightarrow> string \<Rightarrow> (doc \<Rightarrow> json) \<Rightarrow> string \<Rightarrow> string \<Rightarrow> json option \<Rightarrow> probe_result" where
  "named_models lib field name_of failed shape answer =
    (case answer of
       None \<Rightarrow> down failed
     | Some payload \<Rightarrow>
         (case (if is_obj payload then dget (obj_of payload) field else JNull) of
            JArr rows \<Rightarrow>
              \<lparr>pr_up = True, pr_models = map (\<lambda>n. \<lparr>dm_id = str_of lib n, dm_raw_name = str_of lib n\<rparr>)
                 (filter truthy (map (\<lambda>r. name_of (obj_of r)) (filter is_obj rows))), pr_errors = []\<rparr>
          | _ \<Rightarrow> down shape))"

definition openai_probe :: "pylib \<Rightarrow> json option \<Rightarrow> probe_result" where
  "openai_probe lib answer =
    named_models lib ''data'' (\<lambda>r. dget r ''id'') ''openai_compat'' ''openai_compat:openai_models_shape'' answer"

definition ollama_probe :: "pylib \<Rightarrow> json option \<Rightarrow> probe_result" where
  "ollama_probe lib answer =
    named_models lib ''models'' (\<lambda>r. or_else (dget r ''name'') (dget r ''model'')) ''ollama'' ''ollama:ollama_tags_shape'' answer"

definition mlx_probe :: "pylib \<Rightarrow> json option \<Rightarrow> probe_result" where
  "mlx_probe lib answer = named_models lib ''data'' (\<lambda>r. dget r ''id'') ''mlx'' ''mlx:openai_models_shape'' answer"

text \<open>The first probe that finds the runtime up, or every error.\<close>

fun probe_runtime :: "probe_result list \<Rightarrow> string list \<Rightarrow> probe_result" where
  "probe_runtime [] errors = \<lparr>pr_up = False, pr_models = [], pr_errors = errors\<rparr>"
| "probe_runtime (r # rest) errors = (if pr_up r then r else probe_runtime rest (errors @ pr_errors r))"

subsection \<open>The route\<close>

record route_args =
  ra_requested :: string
  ra_policy :: string
  ra_requires_api :: bool
  ra_metered :: bool
  ra_prefer_local :: bool
  ra_cost_tier :: string
  ra_budget_exhausted :: bool
  ra_budget_reason :: string
  ra_allow_local :: bool

record readiness =
  rd_cli :: bool
  rd_api :: bool
  rd_local :: bool

record plane_route =
  pl_requested :: string
  pl_resolved :: string
  pl_effective :: string
  pl_fallback :: bool
  pl_from :: "string option"
  pl_reason :: "string option"
  pl_degraded :: bool
  pl_trigger :: string

definition straight :: "string \<Rightarrow> string \<Rightarrow> bool \<Rightarrow> plane_route" where
  "straight requested plane degraded =
    \<lparr>pl_requested = requested, pl_resolved = plane, pl_effective = plane, pl_fallback = False, pl_from = None,
      pl_reason = None, pl_degraded = degraded, pl_trigger = ''none''\<rparr>"

definition to_local :: "string \<Rightarrow> string \<Rightarrow> string \<Rightarrow> string \<Rightarrow> plane_route" where
  "to_local requested from reason trigger =
    \<lparr>pl_requested = requested, pl_resolved = ''local'', pl_effective = ''local'', pl_fallback = True, pl_from = Some from,
      pl_reason = Some reason, pl_degraded = True, pl_trigger = trigger\<rparr>"

definition text_or :: "string \<Rightarrow> string \<Rightarrow> string" where "text_or s z = (if s \<noteq> [] then s else z)"

definition budget_refusal :: "route_args \<Rightarrow> py_error" where
  "budget_refusal a = RuntimeError (text_or (ra_budget_reason a) ''caller budget exhausted'')"

definition LOCAL_TIERS :: "string list" where "LOCAL_TIERS = [''local'', ''free'', ''zero'', ''offline'']"

definition resolve_m2_plane_route :: "route_args \<Rightarrow> readiness \<Rightarrow> py_error + plane_route" where
  "resolve_m2_plane_route a r =
    (let requested = text_or (str_lower (str_strip (text_or (ra_requested a) ''auto''))) ''auto'';
         policy = text_or (str_lower (str_strip (text_or (ra_policy a) ''cross_plane''))) ''cross_plane'';
         api_ready = (rd_api r \<and> ra_metered a); tier = str_lower (str_strip (ra_cost_tier a)) in
     if requested = ''cli'' then
       if ra_requires_api a then Inl (ValueError ''this request requires the xAI API plane'')
       else if rd_cli r then Inr (straight ''cli'' ''cli'' False)
       else if ra_allow_local a \<and> rd_local r then Inr (to_local ''cli'' ''cli'' ''cli_runtime_unavailable'' ''error'')
       else Inl (RuntimeError ''The Grok Build subscription plane is not ready'')
     else if requested = ''api'' then
       if \<not> api_ready then Inl (RuntimeError ''The xAI API plane is not ready'')
       else if ra_budget_exhausted a then
         if ra_allow_local a \<and> rd_local r then Inr (to_local ''api'' ''api'' ''api_budget_exceeded'' ''budget_exhausted'')
         else Inl (budget_refusal a)
       else Inr (straight ''api'' ''api'' False)
     else if requested = ''local'' then
       if \<not> rd_local r then Inl (RuntimeError ''The local plane is not ready'') else Inr (straight ''local'' ''local'' True)
     else if rd_local r \<and> (ra_prefer_local a \<or> tier \<in> set LOCAL_TIERS) then
       Inr ((straight ''auto'' ''local'' True)\<lparr>pl_reason := Some ''m2_cost_tier_local''\<rparr>)
     else if rd_cli r \<and> \<not> ra_requires_api a then Inr (straight ''auto'' ''cli'' False)
     else if api_ready then
       if ra_budget_exhausted a then
         if (policy = ''cross_plane'' \<or> ra_allow_local a) \<and> rd_local r
         then Inr (to_local ''auto'' ''api'' ''api_budget_exceeded'' ''budget_exhausted'')
         else Inl (budget_refusal a)
       else Inr (straight ''auto'' ''api'' False)
     else if rd_local r then Inr (straight ''auto'' ''local'' True)
     else Inl (RuntimeError ''Neither Grok credential plane is ready''))"

text \<open>
  The invariants of the docstring, and what it does not say: a route is to a plane that is ready and, for the API,
  metered and within its budget; an explicit plane is never left unless local fallback is allowed; under \<open>same_plane\<close>
  an exhausted API budget is refused; a fallback is marked degraded.
\<close>

lemma route_choices:
  assumes "resolve_m2_plane_route a r = Inr p"
  defines "requested \<equiv> text_or (str_lower (str_strip (text_or (ra_requested a) ''auto''))) ''auto''"
  shows "pl_resolved p \<in> {''cli'', ''api'', ''local''}"
    "pl_resolved p = ''cli'' \<Longrightarrow> rd_cli r \<and> \<not> ra_requires_api a"
    "pl_resolved p = ''api'' \<Longrightarrow> rd_api r \<and> ra_metered a \<and> \<not> ra_budget_exhausted a"
    "pl_resolved p = ''local'' \<Longrightarrow> rd_local r"
    "requested \<in> {''cli'', ''api''} \<Longrightarrow> pl_resolved p = requested \<or> ra_allow_local a"
    "pl_fallback p \<Longrightarrow> pl_degraded p \<and> pl_resolved p = ''local'' \<and> pl_from p \<noteq> None"
  using assms(1) unfolding resolve_m2_plane_route_def Let_def requested_def [symmetric]
  by (auto simp: straight_def to_local_def split: if_splits)

end
