(* ===== verification/Usage_Accounting.thy ===== *)
theory Usage_Accounting
  imports Caller_Guard Context_Pack
begin

text \<open>
  The usage accounting of \<open>server.py\<close>: what a provider result reports, the bounded record of one attempt, totals,
  and the usage a failure carries across an exception. A result is a JSON document; a dictionary keeps its order.
\<close>

definition USAGE_INT_FIELDS :: "string list" where
  "USAGE_INT_FIELDS = [''input_tokens'', ''output_tokens'', ''total_tokens'']"

definition USAGE_ATTEMPT_FIELDS :: "string list" where
  "USAGE_ATTEMPT_FIELDS = [''stage'', ''outcome'', ''plane'', ''model'', ''cost_usd''] @ USAGE_INT_FIELDS @ [''persona'', ''error_type'']"

definition nonnegative_float :: "json \<Rightarrow> pyfloat" where
  "nonnegative_float v =
    (case py_float (or_else v (JFloat (Fin 0))) of
       Inl _ \<Rightarrow> Fin 0
     | Inr f \<Rightarrow> if float_le f (Fin 0) \<or> f = NaN then Fin 0 else f)"

definition nonnegative_int :: "json \<Rightarrow> int" where
  "nonnegative_int v = (case py_int (or_else v (JInt 0)) of Inl _ \<Rightarrow> 0 | Inr n \<Rightarrow> max 0 n)"

text \<open>\<open>sum\<close> of floats starting from the integer 0 (compensated since Python 3.12).\<close>

fun float_neg :: "pyfloat \<Rightarrow> pyfloat" where
  "float_neg (Fin x) = Fin (- x)" | "float_neg PosInf = NegInf" | "float_neg NegInf = PosInf" | "float_neg NaN = NaN"

fun float_abs :: "pyfloat \<Rightarrow> pyfloat" where
  "float_abs (Fin x) = Fin \<bar>x\<bar>" | "float_abs NaN = NaN" | "float_abs _ = PosInf"

definition float_sub :: "pyfloat \<Rightarrow> pyfloat \<Rightarrow> pyfloat" where
  "float_sub a b = float_add a (float_neg b)"

definition py_sum_step :: "pyfloat \<times> pyfloat \<Rightarrow> pyfloat \<Rightarrow> pyfloat \<times> pyfloat" where
  "py_sum_step p x =
    (let (s, c) = p; t = float_add s x in
     (t, if float_le (float_abs x) (float_abs s) then float_add c (float_add (float_sub s t) x)
         else float_add c (float_add (float_sub x t) s)))"

definition py_sum :: "pyfloat list \<Rightarrow> json" where
  "py_sum xs =
    (if xs = [] then JInt 0
     else let (s, c) = foldl py_sum_step (Fin 0, Fin 0) xs in
       JFloat (if c \<noteq> Fin 0 \<and> is_finite c then float_add s c else s))"

text \<open>\<open>d[k] = v\<close> and \<open>d.setdefault(k, v)\<close>.\<close>

definition dset :: "doc \<Rightarrow> string \<Rightarrow> json \<Rightarrow> doc" where
  "dset d k v = AList.update k v d"

definition dict_default :: "doc \<Rightarrow> string \<Rightarrow> json \<Rightarrow> doc" where
  "dict_default d k v = (if has_key d k then d else dset d k v)"

definition sanitized_value :: "pylib \<Rightarrow> string \<Rightarrow> json \<Rightarrow> json" where
  "sanitized_value lib key value =
    (if key = ''cost_usd'' then JFloat (nonnegative_float value)
     else if key \<in> set USAGE_INT_FIELDS then JInt (nonnegative_int value)
     else JStr (char_prefix 160 (str_of lib value)))"

definition sanitize_usage_attempt :: "pylib \<Rightarrow> doc \<Rightarrow> doc" where
  "sanitize_usage_attempt lib attempt =
    dict_default
      (concat (map (\<lambda>key. if dget attempt key = JNull then [] else [(key, sanitized_value lib key (dget attempt key))])
        USAGE_ATTEMPT_FIELDS))
      ''cost_usd'' (JFloat (Fin 0))"

definition USAGE_ALIASES :: "(string \<times> string list) list" where
  "USAGE_ALIASES =
    [(''input_tokens'', [''input_tokens'', ''prompt_tokens'', ''inputTokens'', ''promptTokens'']),
     (''output_tokens'', [''output_tokens'', ''completion_tokens'', ''outputTokens'', ''completionTokens'']),
     (''total_tokens'', [''total_tokens'', ''totalTokens''])]"

text \<open>The count of one field: the result's own, or the first alias its nested usage has.\<close>

definition field_usage :: "doc \<Rightarrow> string \<times> string list \<Rightarrow> (string \<times> int) list" where
  "field_usage result entry =
    (let (canonical, keys) = entry; usage = obj_of (dget result ''usage'') in
     if has_key result canonical then [(canonical, nonnegative_int (dget result canonical))]
     else case find (has_key usage) keys of
       Some key \<Rightarrow> [(canonical, nonnegative_int (dget usage key))]
     | None \<Rightarrow> [])"

definition count_of :: "(string \<times> int) list \<Rightarrow> string \<Rightarrow> int" where
  "count_of counts key = (case map_of counts key of Some n \<Rightarrow> n | None \<Rightarrow> 0)"

definition normalized_usage :: "doc \<Rightarrow> (string \<times> int) list" where
  "normalized_usage result =
    (let counts = concat (map (field_usage result) USAGE_ALIASES); known = (\<lambda>k. map_of counts k \<noteq> None) in
     if \<not> known ''total_tokens'' \<and> (known ''input_tokens'' \<or> known ''output_tokens'')
     then counts @ [(''total_tokens'', count_of counts ''input_tokens'' + count_of counts ''output_tokens'')]
     else counts)"

definition counts_doc :: "(string \<times> int) list \<Rightarrow> doc" where
  "counts_doc counts = map (\<lambda>(k, n). (k, JInt n)) counts"

definition usage_attempt :: "pylib \<Rightarrow> doc \<Rightarrow> string \<Rightarrow> string \<Rightarrow> json \<Rightarrow> json \<Rightarrow> doc" where
  "usage_attempt lib result stage outcome plane persona =
    sanitize_usage_attempt lib (dict_merge
      [(''stage'', JStr stage), (''outcome'', JStr outcome),
       (''plane'', or_else plane (or_else (dget result ''resolved_plane'') (dget result ''plane''))),
       (''model'', dget result ''model''), (''cost_usd'', JFloat (nonnegative_float (dget result ''cost_usd''))),
       (''persona'', persona)]
      (counts_doc (normalized_usage result)))"

text \<open>\<open>_usage_totals\<close>: a token field has a total when some attempt has it.\<close>

definition int_totals :: "doc list \<Rightarrow> (string \<times> int) list" where
  "int_totals attempts =
    concat (map (\<lambda>key. let values = map (\<lambda>a. nonnegative_int (dget a key)) (filter (\<lambda>a. has_key a key) attempts)
                       in if values = [] then [] else [(key, sum_list values)]) USAGE_INT_FIELDS)"

definition cost_total :: "doc list \<Rightarrow> json" where
  "cost_total attempts = py_sum (map (\<lambda>a. nonnegative_float (dget a ''cost_usd'')) attempts)"

definition usage_totals :: "doc list \<Rightarrow> doc" where
  "usage_totals attempts = (''cost_usd'', cost_total attempts) # counts_doc (int_totals attempts)"

text \<open>The documents in \<open>result["incurred_attempts"]\<close>, sanitised.\<close>

definition safe_attempts :: "pylib \<Rightarrow> json \<Rightarrow> doc list" where
  "safe_attempts lib v =
    (case v of JArr xs \<Rightarrow> map (\<lambda>x. sanitize_usage_attempt lib (obj_of x)) (filter is_obj xs) | _ \<Rightarrow> [])"

definition attempts_json :: "doc list \<Rightarrow> json" where
  "attempts_json attempts = JArr (map JObj attempts)"

definition residual_cost :: "json \<Rightarrow> json \<Rightarrow> json" where
  "residual_cost whole prior =
    (let d = float_sub (nonnegative_float whole) (nonnegative_float prior) in
     JFloat (if float_le d (Fin 0) \<or> d = NaN then Fin 0 else d))"

definition usage_attempts_for_result :: "pylib \<Rightarrow> doc \<Rightarrow> string \<Rightarrow> string \<Rightarrow> json \<Rightarrow> json \<Rightarrow> doc list" where
  "usage_attempts_for_result lib result stage outcome plane persona =
    (let prior = safe_attempts lib (dget result ''incurred_attempts'');
         whole = usage_attempt lib result stage outcome plane persona;
         counts = int_totals prior;
         costed = dset whole ''cost_usd'' (residual_cost (dget whole ''cost_usd'') (cost_total prior));
         reduced = foldl (\<lambda>t key. if has_key t key
             then dset t key (JInt (max 0 (nonnegative_int (dget t key) - count_of counts key))) else t)
           costed USAGE_INT_FIELDS
     in prior @ [sanitize_usage_attempt lib reduced])"

subsection \<open>Failures\<close>

text \<open>
  An exception of a run: the class of the original exception, the original itself, and the attempts an
  \<open>_IncurredUsageError\<close> around it carries (none for a plain exception). The wrapper has the original's text and, by
  \<open>raise ... from\<close>, an exception with that original as its cause, so \<open>is_caller_budget_error\<close> holds of the wrapper only
  if it holds of the original.
\<close>

datatype exn_class = Value_Error | Timeout_Exn | Os_Exn | Other_Exn

record failure =
  fa_class :: exn_class
  fa_exn :: exn
  fa_attempts :: "doc list"

definition plain_failure :: "exn_class \<Rightarrow> string \<Rightarrow> failure" where
  "plain_failure cls msg = \<lparr>fa_class = cls, fa_exn = Exn False msg None None, fa_attempts = []\<rparr>"

definition with_incurred_usage :: "pylib \<Rightarrow> failure \<Rightarrow> doc list \<Rightarrow> failure" where
  "with_incurred_usage lib f prior = f\<lparr>fa_attempts := map (sanitize_usage_attempt lib) (prior @ fa_attempts f)\<rparr>"

definition attach_incurred_attempts :: "pylib \<Rightarrow> doc \<Rightarrow> doc list \<Rightarrow> doc" where
  "attach_incurred_attempts lib result attempts =
    (let existing = safe_attempts lib (dget result ''incurred_attempts''); new = map (sanitize_usage_attempt lib) attempts in
     if existing \<noteq> [] \<or> new \<noteq> [] then dset result ''incurred_attempts'' (attempts_json (existing @ new)) else result)"

definition add_counts :: "doc \<Rightarrow> (string \<times> int) list \<Rightarrow> (string \<times> int) list \<Rightarrow> doc" where
  "add_counts result mine extra =
    foldl (\<lambda>r key. if map_of extra key \<noteq> None \<or> map_of mine key \<noteq> None
        then dset r key (JInt (count_of mine key + count_of extra key)) else r) result USAGE_INT_FIELDS"

definition merge_incurred_usage :: "pylib \<Rightarrow> doc \<Rightarrow> doc list \<Rightarrow> bool \<Rightarrow> doc" where
  "merge_incurred_usage lib result attempts prepend =
    (let safe = map (sanitize_usage_attempt lib) attempts;
         costed = dset result ''cost_usd'' (JFloat (float_add (nonnegative_float (dget result ''cost_usd''))
           (nonnegative_float (cost_total safe))));
         counted = add_counts costed (normalized_usage costed) (int_totals safe)
     in if prepend
        then dset counted ''incurred_attempts'' (attempts_json (safe @ safe_attempts lib (dget counted ''incurred_attempts'')))
        else attach_incurred_attempts lib counted safe)"

definition failure_usage :: "failure \<Rightarrow> doc" where
  "failure_usage f = usage_totals (fa_attempts f)
    @ (if fa_attempts f = [] then [] else [(''incurred_attempts'', attempts_json (fa_attempts f))])"

definition result_usage :: "pylib \<Rightarrow> doc \<Rightarrow> doc" where
  "result_usage lib result =
    (let usage = (''cost_usd'', JFloat (nonnegative_float (dget result ''cost_usd''))) # counts_doc (normalized_usage result) in
     case dget result ''incurred_attempts'' of
       JArr xs \<Rightarrow> usage @ [(''incurred_attempts'', attempts_json (safe_attempts lib (JArr xs)))]
     | _ \<Rightarrow> usage)"

text \<open>\<open>sorted({str(item[key]) for item in attempts if item.get(key)})\<close> and what the receipt shows of it.\<close>

definition named :: "pylib \<Rightarrow> string \<Rightarrow> doc list \<Rightarrow> string list" where
  "named lib key attempts = sorted_list_of_set (set (map (\<lambda>a. str_of lib (dget a key)) (filter (\<lambda>a. truthy (dget a key)) attempts)))"

definition one_or_mixed :: "string list \<Rightarrow> json" where
  "one_or_mixed xs = (case xs of [] \<Rightarrow> JNull | [x] \<Rightarrow> JStr x | _ \<Rightarrow> JStr ''mixed'')"

definition failed_usage_stage :: "pylib \<Rightarrow> failure \<Rightarrow> string \<Rightarrow> string \<Rightarrow> string \<Rightarrow> doc option" where
  "failed_usage_stage lib f error_type stage persona =
    (let attempts = fa_attempts f in
     if attempts = [] then None
     else Some ([(''stage'', JStr stage), (''outcome'', JStr ''failed_after_reported_usage''),
         (''plane'', one_or_mixed (named lib ''plane'' attempts)), (''model'', one_or_mixed (named lib ''model'' attempts)),
         (''cost_usd'', cost_total attempts), (''parsed'', JBool False), (''error_type'', JStr error_type),
         (''incurred_attempts'', attempts_json attempts)]
       @ (if persona \<noteq> [] then [(''persona'', JStr persona)] else []) @ counts_doc (int_totals attempts)))"

definition vote_attempts :: "pylib \<Rightarrow> json \<Rightarrow> doc list" where
  "vote_attempts lib votes =
    (case votes of
       JArr xs \<Rightarrow> concat (map (\<lambda>x. let v = obj_of x in
         usage_attempts_for_result lib v ''router_vote'' (str_of lib (or_else (dget v ''outcome'') (JStr ''completed'')))
           (JStr (text_or_empty lib (dget v ''plane''))) JNull) (filter is_obj xs))
     | _ \<Rightarrow> [])"

definition routing_usage_attempts :: "pylib \<Rightarrow> doc \<Rightarrow> doc list" where
  "routing_usage_attempts lib routing =
    (let cost = nonnegative_float (dget routing ''router_cost_usd''); votes = dget routing ''router_votes'' in
     if cost = Fin 0 \<and> \<not> truthy votes \<and> \<not> truthy (dget routing ''router_model'') then []
     else
       let attempts = vote_attempts lib votes;
           base = [(''stage'', JStr ''routing''), (''outcome'', JStr ''completed''), (''plane'', dget routing ''router_plane''),
             (''model'', dget routing ''router_model''), (''cost_usd'', residual_cost (JFloat cost) (cost_total attempts))];
           residual = (case dget routing ''router_usage'' of JObj u \<Rightarrow> base @ counts_doc (normalized_usage u) | _ \<Rightarrow> base)
       in if attempts = [] \<or> nonnegative_float (dget residual ''cost_usd'') \<noteq> Fin 0
            \<or> list_ex (has_key residual) USAGE_INT_FIELDS
          then attempts @ [sanitize_usage_attempt lib residual] else attempts)"

end
