(* ===== verification/Local_Serve.thy ===== *)
theory Local_Serve
  imports Local_Route Usage_Accounting Task_Class Answer_Check
begin

text \<open>
  The offline plane of \<open>server.py\<close>: its concurrency slots, the choice of a local model for a role, one local call
  through a bind, the router floor, and \<open>_serve_local_offline\<close> with the bound on continuations.
\<close>

subsection \<open>Slots\<close>

text \<open>\<open>_LOCAL_SLOTS\<close> is the value of the semaphore, \<open>_LOCAL_SLOTS_BUDGET\<close> the budget it was made for. The budget is
  the knob's value at the call. A plain \<open>asyncio.Semaphore\<close> counts any number of releases.\<close>

record slots =
  sl_value :: "int option"
  sl_budget :: "int option"

definition no_slots :: slots where "no_slots = \<lparr>sl_value = None, sl_budget = None\<rparr>"

definition local_slot_acquire :: "int \<Rightarrow> slots \<Rightarrow> bool \<times> slots" where
  "local_slot_acquire budget s =
    (if budget \<le> 0 then (False, s)
     else
       let s' = (if sl_value s = None \<or> sl_budget s \<noteq> Some budget then \<lparr>sl_value = Some budget, sl_budget = Some budget\<rparr> else s) in
       case sl_value s' of
         Some n \<Rightarrow> if n = 0 then (False, s') else (True, s'\<lparr>sl_value := Some (n - 1)\<rparr>)
       | None \<Rightarrow> (False, s'))"

definition local_slot_release :: "slots \<Rightarrow> slots" where
  "local_slot_release s = s\<lparr>sl_value := map_option (\<lambda>n. n + 1) (sl_value s)\<rparr>"

subsection \<open>Routes read from the prompt\<close>

definition upto_any :: "nat \<Rightarrow> re" where "upto_any n = Rep n (one_char (\<lambda>_. True))"

definition SPECIALIST_ROUTE_HINT :: re where
  "SPECIALIST_ROUTE_HINT =
    (let make = map lit_ci [''generate'', ''create'', ''draw'', ''render'', ''imagine'', ''extend''];
         media = map lit_ci [''image'', ''picture'', ''photo'', ''logo'', ''icon'', ''video''] in
     alts
      [seqs [whole_words make, upto_any 48, whole_words (media @ map lit_ci [''clip'', ''animation''])],
       seqs [whole_words media, upto_any 48, whole_words make],
       whole_words (map lit_ci [''implement'', ''refactor'', ''optimize'', ''optimise'', ''debug'', ''compile'', ''typecheck'']),
       seqs [whole_words (map lit_ci [''write'', ''build'', ''create'']), upto_any 48,
         whole_words (map lit_ci [''function'', ''class'', ''module'', ''parser'', ''algorithm'', ''script'', ''code'', ''api'', ''endpoint''])],
       seqs [whole_words (map lit_ci [''python'', ''typescript'', ''javascript'', ''rust'', ''go'']), upto_any 24,
         whole_words (map lit_ci [''code'', ''function'', ''class'', ''module'', ''file''])],
       lit (replicate 3 (CHR 0x60))])"

text \<open>\<open>direct\<close>, or \<open>None\<close> when unsure.\<close>

definition heuristic_route :: "string \<Rightarrow> string option" where
  "heuristic_route prompt =
    (let s = str_strip prompt in
     if s = [] then Some ''direct'' else if re_search SPECIALIST_ROUTE_HINT s then None else Some ''direct'')"

definition line_chars :: "nat \<Rightarrow> re" where "line_chars n = Rep n (one_char (\<lambda>c. c \<notin> set (''.'' @ NEWLINE)))"

definition MEDIA_GEN :: re where
  "MEDIA_GEN = alts
    [seqs [whole_words (map lit_ci [''generate'', ''create'', ''draw'', ''render'', ''imagine'', ''make'', ''produce'', ''design'', ''paint'']),
       line_chars 48, WordB,
       Grp 1 (alts (map lit_ci [''image'', ''picture'', ''photo'', ''logo'', ''icon'', ''illustration'', ''artwork'', ''drawing'',
         ''video'', ''clip'', ''animation'', ''gif''])), WordB],
     seqs [WordB, Grp 2 (alts (map lit_ci [''image'', ''picture'', ''photo'', ''logo'', ''video'', ''clip'', ''animation'', ''gif''])), WordB,
       line_chars 32, whole_words (map lit_ci [''of'', ''showing'', ''depicting'', ''with''])]]"

definition wants_media_generation :: "string \<Rightarrow> string option" where
  "wants_media_generation prompt =
    (case search_from MEDIA_GEN prompt 0 of
       None \<Rightarrow> None
     | Some (b, m) \<Rightarrow>
         let kind = str_lower (case group prompt m 1 of Some g \<Rightarrow> g | None \<Rightarrow> (case group prompt m 2 of Some g \<Rightarrow> g | None \<Rightarrow> [])) in
         Some (if kind \<in> {''video'', ''clip'', ''animation'', ''gif''} then ''video'' else ''image''))"

subsection \<open>A model for a role\<close>

text \<open>
  What a local call sees: the local part of the catalogue, the binds, the preferred model, the runtime's answer to a
  call after the calls before it (with the breaker's refusal among its failures), \<open>json.loads\<close>, the knob and a clock
  reading.
\<close>

type_synonym local_call = "string \<times> string"

record local_reply =
  lr_text :: string
  lr_stop :: string

record serve_env =
  se_py :: pylib
  se_configured :: bool
  se_catalog :: doc
  se_bind :: "string \<Rightarrow> string \<Rightarrow> bind_result option"
  se_preferred :: string
  se_answer :: "local_call list \<Rightarrow> string \<Rightarrow> string \<Rightarrow> string \<Rightarrow> string option \<Rightarrow> failure + json"
  se_loads :: "string \<Rightarrow> json option"
  se_continue_max :: int
  se_latency :: int

definition entry_id :: "pylib \<Rightarrow> json \<Rightarrow> string" where
  "entry_id lib v =
    str_strip (case v of
      JStr s \<Rightarrow> s
    | JObj d \<Rightarrow> text_or_empty lib (or_else (dget d ''model_id'') (dget d ''id''))
    | _ \<Rightarrow> text_or_empty lib v)"

definition add_new :: "string list \<Rightarrow> string \<Rightarrow> string list" where
  "add_new ids m = (if m \<noteq> [] \<and> m \<notin> set ids then ids @ [m] else ids)"

definition catalog_models :: "doc \<Rightarrow> json list" where
  "catalog_models cat = (case py_iter (or_else (dget cat ''models'') (JArr [])) of Inr xs \<Rightarrow> xs | Inl _ \<Rightarrow> [])"

definition local_model_ids :: "pylib \<Rightarrow> doc \<Rightarrow> string list" where
  "local_model_ids lib cat =
    (let ids = foldl add_new [] (map (entry_id lib) (catalog_models cat)) in
     case dget cat ''default_model'' of
       JStr s \<Rightarrow> if str_strip s \<noteq> [] \<and> s \<notin> set ids then str_strip s # ids else ids
     | _ \<Rightarrow> ids)"

definition TEXT_PREFER :: "string list" where "TEXT_PREFER = [''gemma3-qat'', ''gemma3n'', ''gemma3'']"

fun first_index :: "('a \<Rightarrow> bool) \<Rightarrow> nat \<Rightarrow> 'a list \<Rightarrow> nat option" where
  "first_index P i [] = None"
| "first_index P i (x # xs) = (if P x then Some i else first_index P (i + 1) xs)"

definition local_role_model_score :: "string \<Rightarrow> string \<Rightarrow> string \<Rightarrow> nat \<times> nat" where
  "local_role_model_score model_id role preferred =
    (let mid = str_strip model_id; low = str_lower mid;
         tiny = list_ex (\<lambda>w. contains w low) [''embeddinggemma'', ''mxbai'', ''needle-26m''];
         function_router = contains ''functiongemma'' low; named_router = (contains ''router'' low \<and> \<not> function_router) in
     if preferred \<noteq> [] \<and> (mid = preferred \<or> contains (str_lower preferred) low) then (0, 0)
     else if role = ''text_generator'' then
       if tiny then (9, 0) else if function_router \<or> named_router then (8, 0)
       else (case first_index (\<lambda>t. contains t low) 0 TEXT_PREFER of Some i \<Rightarrow> (1, i) | None \<Rightarrow> (2, 50))
     else if tiny then (9, 0) else if named_router then (1, 0) else if function_router then (1, 1) else (2, 50))"

definition pick_local_role_model :: "serve_env \<Rightarrow> string \<Rightarrow> string option" where
  "pick_local_role_model en role =
    (let ids = local_model_ids (se_py en) (se_catalog en); bound = filter (\<lambda>m. se_bind en m role \<noteq> None) ids;
         pool = (if bound \<noteq> [] then bound else ids) in
     case sort_key (\<lambda>p. (local_role_model_score (snd p) role (se_preferred en), fst p)) (List.enumerate 0 pool) of
       [] \<Rightarrow> None | p # _ \<Rightarrow> Some (snd p))"

subsection \<open>One local call\<close>

text \<open>
  The transport shared by every local call: what is read from the body of a chat completion, a list or an object of
  \<open>choices\<close>. Anything unexpected gives the empty text and \<open>stop\<close>.
\<close>

definition first_choice :: "doc \<Rightarrow> json option" where
  "first_choice payload =
    (case dget payload ''choices'' of JArr (c # _) \<Rightarrow> Some c | JStr (c # _) \<Rightarrow> Some (JStr [c]) | _ \<Rightarrow> None)"

definition block_text :: "pylib \<Rightarrow> json \<Rightarrow> string" where
  "block_text lib v =
    (case v of
       JObj b \<Rightarrow> if dget b ''type'' = JStr ''text'' then text_or_empty lib (dget b ''text'') else []
     | JStr s \<Rightarrow> s
     | _ \<Rightarrow> [])"

definition openai_chat_text :: "pylib \<Rightarrow> doc \<Rightarrow> string" where
  "openai_chat_text lib payload =
    (case first_choice payload of
       Some (JObj c) \<Rightarrow>
         (case dget c ''message'' of
            JObj m \<Rightarrow>
              (case dget m ''content'' of
                 JStr s \<Rightarrow> s
               | JArr blocks \<Rightarrow> concat (map (block_text lib) blocks)
               | _ \<Rightarrow> [])
          | _ \<Rightarrow> [])
     | _ \<Rightarrow> [])"

definition chat_stop_reason :: "pylib \<Rightarrow> doc \<Rightarrow> string" where
  "chat_stop_reason lib payload =
    (case first_choice payload of
       Some (JObj c) \<Rightarrow> str_of lib (or_else (dget c ''finish_reason'') (JStr ''stop''))
     | _ \<Rightarrow> ''stop'')"

definition openai_compat_chat :: "pylib \<Rightarrow> failure + json \<Rightarrow> failure + local_reply" where
  "openai_compat_chat lib body =
    (case body of
       Inl f \<Rightarrow> Inl f
     | Inr (JObj payload) \<Rightarrow> Inr \<lparr>lr_text = openai_chat_text lib payload, lr_stop = chat_stop_reason lib payload\<rparr>
     | Inr _ \<Rightarrow> Inl (plain_failure Other_Exn ''local chat bad payload''))"

definition no_floor :: "string \<Rightarrow> failure" where
  "no_floor role = plain_failure Other_Exn (''local '' @ role @ '' bind missing (no_floor)'')"

definition local_lead :: "serve_env \<Rightarrow> string \<Rightarrow> string option \<Rightarrow> string option" where
  "local_lead en role model_id =
    (case (case model_id of Some m \<Rightarrow> if m \<noteq> [] then Some m else pick_local_role_model en role | None \<Rightarrow> pick_local_role_model en role) of
       Some m \<Rightarrow> Some m
     | None \<Rightarrow> (let v = dget (se_catalog en) ''default_model'' in if truthy v then Some (str_of (se_py en) v) else None))"

text \<open>The calls made to the runtime so far are part of the state: the model and the role of each.\<close>

type_synonym 'a local_result = "(failure + 'a) \<times> local_call list"

definition local_chat ::
  "serve_env \<Rightarrow> string \<Rightarrow> string option \<Rightarrow> string \<Rightarrow> string option \<Rightarrow> local_call list \<Rightarrow> doc local_result" where
  "local_chat en prompt system role model_id calls =
    (if \<not> se_configured en then (Inl (plain_failure Other_Exn ''local runtime not configured''), calls)
     else case local_lead en role model_id of
       None \<Rightarrow> (Inl (no_floor role), calls)
     | Some lead \<Rightarrow>
         (case se_bind en lead role of
            None \<Rightarrow> (Inl (no_floor role), calls)
          | Some _ \<Rightarrow>
              (case openai_compat_chat (se_py en) (se_answer en calls lead role prompt system) of
                 Inl f \<Rightarrow> (Inl f, calls @ [(lead, role)])
               | Inr got \<Rightarrow>
                   (Inr [(''text'', JStr (lr_text got)), (''model'', JStr lead), (''plane'', JStr ''local''),
                     (''billing_class'', JStr ''local_runtime''), (''cost_usd'', JFloat (Fin 0)),
                     (''stop_reason'', JStr (lr_stop got))], calls @ [(lead, role)]))))"

subsection \<open>The router floor\<close>

text \<open>\<open>text[start : end + 1]\<close> from the first opening to the last closing brace, when there is one.\<close>

definition brace_span :: "string \<Rightarrow> string option" where
  "brace_span s =
    (let start = length (takeWhile (\<lambda>c. c \<noteq> CHR ''{'') s); stop = length s - length (takeWhile (\<lambda>c. c \<noteq> CHR ''}'') (rev s)) in
     if start < length s \<and> start + 1 < stop then Some (drop start (take stop s)) else None)"

definition FENCE :: string where "FENCE = replicate 3 (CHR 0x60)"

definition unfenced :: "string \<Rightarrow> string" where
  "unfenced s =
    (if starts_with FENCE s then
       let lines = str_splitlines s;
           opened = (case lines of x # rest \<Rightarrow> if starts_with FENCE x then rest else lines | [] \<Rightarrow> []);
           closed = (if opened \<noteq> [] \<and> str_strip (last opened) = FENCE then butlast opened else opened)
       in str_strip (join NEWLINE closed)
     else s)"

definition coerce_local_route_brief :: "(string \<Rightarrow> json option) \<Rightarrow> string \<Rightarrow> doc" where
  "coerce_local_route_brief loads content =
    (let s = str_strip content in
     if s = [] then []
     else
       let s = unfenced s in
       case loads s of
         Some (JObj d) \<Rightarrow> d
       | _ \<Rightarrow> (case Option.bind (brace_span s) loads of Some (JObj d) \<Rightarrow> d | _ \<Rightarrow> []))"

definition ROUTE_INSTRUCTION :: string where
  "ROUTE_INSTRUCTION =
    ''Reply ONLY with JSON: {\"route\":\"direct\"|\"code\",\"brief\":\"<=80 word specialist brief\"}. No markdown fences, no prose outside the JSON object.''"

record routed_brief =
  ro_route :: json
  ro_brief :: string
  ro_model :: string

definition blank_line :: string where "blank_line = NEWLINE @ NEWLINE"

definition with_context :: "string \<Rightarrow> string option \<Rightarrow> string" where
  "with_context s context = (case context of Some c \<Rightarrow> if c \<noteq> [] then s @ blank_line @ c else s | None \<Rightarrow> s)"

definition local_router_floor :: "serve_env \<Rightarrow> string \<Rightarrow> string option \<Rightarrow> local_call list \<Rightarrow> routed_brief local_result" where
  "local_router_floor en prompt context calls =
    (case pick_local_role_model en ''router'' of
       None \<Rightarrow> (Inl (plain_failure Other_Exn ''local router floor unfunded (no_floor)''), calls)
     | Some router \<Rightarrow>
         (case local_chat en prompt (Some (with_context ROUTE_INSTRUCTION context)) ''router'' (Some router) calls of
            (Inl f, calls') \<Rightarrow> (Inl f, calls')
          | (Inr payload, calls') \<Rightarrow>
              let parsed = coerce_local_route_brief (se_loads en) (text_or_empty (se_py en) (dget payload ''text''));
                  brief = str_strip (text_or_empty (se_py en) (dget parsed ''brief''))
              in (Inr \<lparr>ro_route = or_else (dget parsed ''route'') (JStr ''direct''),
                    ro_brief = (if brief = [] then ''Direct local answer for: '' @ char_prefix 120 prompt else brief),
                    ro_model = router\<rparr>, calls')))"

subsection \<open>Fit, triggers and the bound on continuations\<close>

text \<open>\<open>_local_op_role_fit\<close>: the model and the bind of the first candidate that has one.\<close>

definition fit_candidate :: "pylib \<Rightarrow> json \<Rightarrow> string option" where
  "fit_candidate lib v =
    (let mid = (case v of JObj d \<Rightarrow> or_else (dget d ''model_id'') (dget d ''id'') | _ \<Rightarrow> v) in
     if mid = JNull \<or> mid = JStr [] then None else Some (str_of lib mid))"

definition role_fit :: "serve_env \<Rightarrow> string \<Rightarrow> string option \<Rightarrow> string + string \<times> bind_result" where
  "role_fit en role model_id =
    (if \<not> truthy (dget (se_catalog en) ''ready'') then Inl ''plane_not_ready''
     else
       let entries = (case model_id of Some m \<Rightarrow> [JStr m] | None \<Rightarrow> catalog_models (se_catalog en));
           fits = List.map_filter (\<lambda>v. Option.bind (fit_candidate (se_py en) v) (\<lambda>m. map_option (Pair m) (se_bind en m role))) entries
       in case fits of [] \<Rightarrow> Inl ''no_floor'' | p # _ \<Rightarrow> Inr p)"

definition canonical_trigger :: "string \<Rightarrow> string" where
  "canonical_trigger reason =
    (let has = (\<lambda>ws. list_ex (\<lambda>w. contains w (str_lower reason)) ws) in
     if reason = [] then ''none''
     else if has [''no_floor'', ''unfunded''] then ''no_floor''
     else if has [''breaker'', ''circuit_open''] then ''breaker_open''
     else if has [''timeout''] then ''timeout''
     else if has [''429'', ''rate_limited''] then ''429''
     else if has [''incomplete_response'', ''non_answer'', ''nonanswer''] then ''non_answer''
     else if has [''budget'', ''spend_guard'', ''spend-guard''] then ''budget_exhausted''
     else if has [''capacity'', ''exhausted'', ''congested'', ''shed''] then ''shed''
     else if has [''capability_unavailable'', ''missing''] then ''missing''
     else ''error'')"

text \<open>\<open>bound\<close> is the knob \<open>continue_max\<close>; every caller writes an integer under \<open>continue_count\<close>.\<close>

definition apply_continue_bound :: "int \<Rightarrow> doc \<Rightarrow> doc" where
  "apply_continue_bound bound result =
    (let trigger = or_else (dget result ''trigger'') (JStr ''none'') in
     if trigger \<noteq> JStr ''shed'' \<and> trigger \<noteq> JStr ''non_answer'' then result
     else if dget result ''status'' = JStr ''continue'' \<or> dget result ''status'' = JStr ''error'' then result
     else
       let nxt = (case dget result ''continue_count'' of JInt n \<Rightarrow> n | _ \<Rightarrow> 0) + 1;
           counted = dset result ''continue_count'' (JInt nxt)
       in if bound < nxt then dset (dset counted ''status'' (JStr ''error'')) ''continue_exhausted'' (JBool True)
          else dset counted ''status'' (JStr ''continue''))"

subsection \<open>Serving offline\<close>

definition orchestration :: "json \<Rightarrow> json \<Rightarrow> json \<Rightarrow> bool \<Rightarrow> string \<Rightarrow> json \<Rightarrow> json" where
  "orchestration lead route specialist authored source brief =
    JObj [(''lead'', lead), (''route'', route), (''specialist_model'', specialist), (''brief_authored_by_lead'', JBool authored),
      (''router_source'', JStr source), (''brief_source'', brief)]"

definition degraded_message :: "string \<Rightarrow> string" where
  "degraded_message stop =
    (if stop = ''local_capacity_exhausted'' then ''Local concurrency capacity is exhausted; offline serve is degraded.''
     else if stop = ''local_skill_no_floor'' then ''The requested skill has no certified local floor; offline serve fails closed.''
     else if stop = ''local_non_answer'' then ''Local specialist returned a non-answer; offline serve is degraded.''
     else ''Local router floor is unfunded; offline serve is degraded.'')"

definition degraded_reply :: "int \<Rightarrow> string \<Rightarrow> string \<Rightarrow> doc" where
  "degraded_reply prior stop reason =
    [(''text'', JStr []), (''error'', JStr (degraded_message stop)), (''model'', JNull), (''plane'', JStr ''local''),
     (''billing_class'', JStr ''local_runtime''), (''cost_usd'', JFloat (Fin 0)), (''stop_reason'', JStr stop),
     (''requested_plane'', JStr ''auto''), (''resolved_plane'', JStr ''local''), (''fallback_policy'', JStr ''cross_plane''),
     (''fallback_occurred'', JBool False), (''fallback_from'', JNull), (''fallback_reason'', JStr reason), (''degraded'', JBool True),
     (''trigger'', JStr (canonical_trigger reason)), (''router_source'', JStr ''heuristic''), (''heuristic_only'', JBool False),
     (''continue_count'', JInt prior),
     (''orchestration'', orchestration JNull (JStr ''direct'') JNull False ''heuristic'' JNull)]"

definition stamp_latency :: "serve_env \<Rightarrow> string option \<Rightarrow> doc \<Rightarrow> doc" where
  "stamp_latency en context r =
    dict_default (dict_default (dset r ''latency_ms'' (JInt (se_latency en))) ''effective_plane'' (JStr ''local''))
      ''memory_used'' (JBool (case context of Some c \<Rightarrow> c \<noteq> [] | None \<Rightarrow> False))"

definition stamp_router_receipt_fields :: "string \<Rightarrow> bool \<Rightarrow> string option \<Rightarrow> doc \<Rightarrow> doc" where
  "stamp_router_receipt_fields source heuristic_only brief r =
    (let r' = dset (dset r ''router_source'' (JStr source)) ''heuristic_only'' (JBool heuristic_only) in
     case brief of Some b \<Rightarrow> dset r' ''brief_source'' (JStr b) | None \<Rightarrow> r')"

definition refused_reply :: "int \<Rightarrow> string \<Rightarrow> string \<Rightarrow> doc" where
  "refused_reply prior stop reason = dset (degraded_reply prior stop reason) ''status'' (JStr ''error'')"

definition fallback_fields :: "json \<Rightarrow> string \<Rightarrow> int \<Rightarrow> doc" where
  "fallback_fields reason trigger count =
    [(''requested_plane'', JStr ''auto''), (''resolved_plane'', JStr ''local''), (''fallback_policy'', JStr ''cross_plane''),
     (''fallback_occurred'', JBool False), (''fallback_from'', JNull), (''fallback_reason'', reason), (''degraded'', JBool True),
     (''trigger'', JStr trigger), (''continue_count'', JInt count)]"

text \<open>The router floor failed: the answer of a direct local call, if there is one.\<close>

definition direct_reply :: "serve_env \<Rightarrow> string \<Rightarrow> string option \<Rightarrow> int \<Rightarrow> local_call list \<Rightarrow> doc local_result" where
  "direct_reply en prompt context prior calls =
    (case local_chat en prompt context ''text_generator'' None calls of
       (Inl _, calls') \<Rightarrow> (Inr (refused_reply prior ''local_router_floor_unfunded'' ''local_router_floor_unfunded''), calls')
     | (Inr direct, calls') \<Rightarrow>
         (Inr (stamp_router_receipt_fields ''direct_local_no_floor'' True None
            (dict_merge direct (fallback_fields (JStr ''local_router_floor_unfunded'') ''no_floor'' prior
               @ [(''orchestration'', orchestration JNull (JStr ''direct'') (dget direct ''model'') False ''direct_local_no_floor'' JNull)]))),
          calls'))"

definition bound_metric :: "serve_env \<Rightarrow> doc \<Rightarrow> string \<Rightarrow> json" where
  "bound_metric en r role =
    JArr (case se_bind en (text_or_empty (se_py en) (dget r ''model'')) role of Some b \<Rightarrow> [JStr (br_metric b)] | None \<Rightarrow> [])"

text \<open>The receipt of a specialist's answer; a non-answer keeps its text and is offered for continuation.\<close>

definition specialist_reply :: "serve_env \<Rightarrow> string \<Rightarrow> int \<Rightarrow> string option \<Rightarrow> json \<Rightarrow> routed_brief \<Rightarrow> doc \<Rightarrow> doc" where
  "specialist_reply en prompt prior heuristic route routed r =
    (let source = (if heuristic \<noteq> None then ''heuristic'' else ''local_router_floor'');
         role = (if route = JStr ''code'' then ''code'' else ''text_generator'');
         bad = (case dget r ''text'' of JStr s \<Rightarrow> is_nonanswer_completion s prompt | _ \<Rightarrow> True);
         fields = (if bad then fallback_fields (JStr ''local_non_answer'') (canonical_trigger ''local_non_answer'') prior
              @ [(''stop_reason'', or_else (dget r ''stop_reason'') (JStr ''local_non_answer''))]
            else fallback_fields JNull ''none'' 0);
         r' = dict_merge r (fields @ [(''model_id'', dget r ''model''), (''floor_role'', JStr role), (''floor_metric_ids'', bound_metric en r role)]);
         stamped = dset (stamp_router_receipt_fields source (heuristic \<noteq> None) (Some ''local_router_floor'') r') ''orchestration''
           (orchestration (JStr (ro_model routed)) route (dget r ''model'') True source (JStr ''local_router_floor''))
     in if bad then apply_continue_bound (se_continue_max en) stamped else stamped)"

definition serve_specialist ::
  "serve_env \<Rightarrow> string \<Rightarrow> string option \<Rightarrow> int \<Rightarrow> routed_brief \<Rightarrow> local_call list \<Rightarrow> doc local_result" where
  "serve_specialist en prompt context prior routed calls =
    (let heuristic = heuristic_route prompt;
         route = (case heuristic of Some h \<Rightarrow> JStr h | None \<Rightarrow> ro_route routed);
         system = Some (with_context (''# Router brief (from local router floor)'' @ NEWLINE @ ro_brief routed) context);
         attempt = (\<lambda>role model. case local_chat en prompt system role model calls of
             (Inl f, calls') \<Rightarrow> (Inl f, calls')
           | (Inr r, calls') \<Rightarrow> (Inr (specialist_reply en prompt prior heuristic route routed r), calls'))
     in if route = JStr ''code'' then
          (case role_fit en ''code'' None of
             Inl _ \<Rightarrow> (Inr (refused_reply prior ''local_skill_no_floor'' ''local_code_floor_unfunded''), calls)
           | Inr (m, _) \<Rightarrow> attempt ''code'' (Some m))
        else attempt ''text_generator'' None)"

text \<open>With a slot taken; an exception of the specialist's call escapes.\<close>

definition serve_with_slot :: "serve_env \<Rightarrow> string \<Rightarrow> string option \<Rightarrow> int \<Rightarrow> local_call list \<Rightarrow> doc local_result" where
  "serve_with_slot en prompt context prior calls =
    (case wants_media_generation prompt of
       Some kind \<Rightarrow> (Inr (refused_reply prior ''local_skill_no_floor'' (''local_media_'' @ kind @ ''_no_floor'')), calls)
     | None \<Rightarrow>
         (case local_router_floor en prompt context calls of
            (Inl _, calls') \<Rightarrow> direct_reply en prompt context prior calls'
          | (Inr routed, calls') \<Rightarrow> serve_specialist en prompt context prior routed calls'))"

definition serve_local_offline ::
  "serve_env \<Rightarrow> int \<Rightarrow> string \<Rightarrow> string option \<Rightarrow> int \<Rightarrow> slots \<Rightarrow> local_call list \<Rightarrow> doc local_result \<times> slots" where
  "serve_local_offline en budget prompt context prior s calls =
    (let (taken, s') = local_slot_acquire budget s in
     if \<not> taken then
       ((Inr (stamp_latency en context (apply_continue_bound (se_continue_max en)
           (degraded_reply prior ''local_capacity_exhausted'' ''local_concurrency_exhausted''))), calls), s')
     else
       let (r, calls') = serve_with_slot en prompt context prior calls in
       ((map_sum id (stamp_latency en context) r, calls'), local_slot_release s'))"

text \<open>\<open>_local_op_invoke\<close>, the adapter: role fit, a slot, the call; every outcome is a document.\<close>

definition not_invoked :: "string \<Rightarrow> string \<Rightarrow> json \<Rightarrow> doc" where
  "not_invoked reason role mid =
    [(''ok'', JBool False), (''reason'', JStr reason), (''role'', JStr role), (''model_id'', mid), (''content'', JNull),
     (''usage'', JNull), (''floor_role'', JStr role), (''floor_metric_ids'', JArr [])]"

definition local_op_invoke ::
  "serve_env \<Rightarrow> int \<Rightarrow> (failure \<Rightarrow> string \<times> string) \<Rightarrow> string \<Rightarrow> string option \<Rightarrow> string \<Rightarrow> string option \<Rightarrow> slots \<Rightarrow> local_call list
     \<Rightarrow> (doc \<times> local_call list) \<times> slots" where
  "local_op_invoke en budget describe prompt system role model_id s calls =
    (case role_fit en role model_id of
       Inl reason \<Rightarrow> ((not_invoked reason role
         (if reason = ''no_floor'' then (case model_id of Some m \<Rightarrow> JStr m | None \<Rightarrow> JNull) else JNull), calls), s)
     | Inr (m, b) \<Rightarrow>
         let (taken, s') = local_slot_acquire budget s in
         if \<not> taken then ((not_invoked ''local_busy'' role (JStr m), calls), s')
         else
           let (r, calls') = local_chat en prompt system role (Some m) calls;
               reply = (case r of
                  Inl f \<Rightarrow> dict_merge (not_invoked (''invoke_error:'' @ fst (describe f)) role (JStr m)) [(''error'', JStr (snd (describe f)))]
                | Inr got \<Rightarrow> dict_merge
                    (dict_default (dict_default (dict_default (dict_default got ''ok'' (JBool True)) ''reason'' (JStr ''ok'')) ''role'' (JStr role))
                      ''model_id'' (JStr m))
                    [(''floor_role'', JStr role), (''floor_metric_ids'', JArr (if br_metric b \<noteq> [] then [JStr (br_metric b)] else []))])
           in ((reply, calls'), local_slot_release s'))"

end
