(* ===== verification/Local_Plane_Facts.thy ===== *)
theory Local_Plane_Facts
  imports Local_Serve
begin

text \<open>
  What the local plane guarantees: every bind a load writes rests on a discovered model, a floor of its role and family
  and, when it has one, a certificate of that role; a plane is ready only over filled floors and fresh certificates; seed
  files never fill a floor and are loaded whole or not at all; the offline minimum arms an empty database; and serving
  calls only bound models, keeps the slots balanced and bounds the continuations.
\<close>

subsection \<open>What a bind rests on\<close>





















subsection \<open>A ready plane\<close>




subsection \<open>Seed files\<close>

text \<open>What a seed load may not do: fill a floor, or make a filled one a scaffold; and the floors keep their key.\<close>

definition live_metrics :: "local_db \<Rightarrow> string set" where
  "live_metrics d = rf_metric ` {r \<in> set (lp_floors d). rf_filled r \<and> \<not> rf_scaffold r}"

definition floors_kept :: "local_db \<Rightarrow> local_db \<Rightarrow> bool" where
  "floors_kept d d' \<longleftrightarrow> (keyed rf_metric (lp_floors d) \<longrightarrow> keyed rf_metric (lp_floors d')) \<and> live_metrics d' = live_metrics d"

lemma floors_kept_refl: "floors_kept d d"
  by (simp add: floors_kept_def)

lemma floors_kept_trans: "\<lbrakk>floors_kept a b; floors_kept b c\<rbrakk> \<Longrightarrow> floors_kept a c"
  by (auto simp: floors_kept_def)

lemma floors_kept_same: "lp_floors d' = lp_floors d \<Longrightarrow> floors_kept d d'"
  by (simp add: floors_kept_def live_metrics_def)

lemma update_keeps_live:
  assumes "\<And>r. P r \<Longrightarrow> key (f r) = key r \<and> live (f r) = live r"
  shows "key ` {r \<in> set (sql_update P f t). live r} = key ` {r \<in> set t. live r}"
proof (induction t)
  case (Cons x t)
  have "{r \<in> set (sql_update P f (x # t)). live r}
      = (if live (if P x then f x else x) then {if P x then f x else x} else {}) \<union> {r \<in> set (sql_update P f t). live r}"
    by (auto simp: sql_update_def)
  moreover have "{r \<in> set (x # t). live r} = (if live x then {x} else {}) \<union> {r \<in> set t. live r}" by auto
  ultimately show ?case using Cons.IH assms [of x] by (simp add: image_Un)
qed (simp add: sql_update_def)

lemma put_scaffold_keeps:
  assumes "\<not> rf_filled new"
  shows "floors_kept d (put_scaffold new d)"
proof (cases "row_of rf_metric (lp_floors d) (rf_metric new)")
  case None
  then show ?thesis
    using assms by (auto simp: floors_kept_def put_scaffold_def upsert_def live_metrics_def keyed_def row_of_None)
next
  case (Some r)
  have "live_metrics (put_scaffold new d) = live_metrics d"
    unfolding live_metrics_def put_scaffold_def upsert_def using Some by (simp add: update_keeps_live)
  moreover have "keyed rf_metric (lp_floors d) \<longrightarrow> keyed rf_metric (lp_floors (put_scaffold new d))"
    using Some by (simp add: keyed_def put_scaffold_def upsert_def sql_update_def comp_def if_distrib cong: if_cong)
  ultimately show ?thesis by (simp add: floors_kept_def)
qed

text \<open>A step of a load keeps the floors.\<close>

definition kept_by :: "seed_step \<Rightarrow> bool" where
  "kept_by f \<longleftrightarrow> (\<forall>st st'. f st = Inr st' \<longrightarrow> floors_kept (fst st) (fst st'))"

lemma each_row_kept:
  assumes "\<And>i x. kept_by (f i x)"
  shows "kept_by (each_row f i xs)"
proof (induction xs arbitrary: i)
  case (Cons x xs)
  show ?case
    unfolding kept_by_def
  proof (intro allI impI)
    fix st st' assume "each_row f i (x # xs) st = Inr st'"
    then obtain st1 where "f i x st = Inr st1" "each_row f (i + 1) xs st1 = Inr st'" by (auto split: sum.splits)
    with assms [of i x] Cons.IH [of "i + 1"] show "floors_kept (fst st) (fst st')"
      unfolding kept_by_def by (blast intro: floors_kept_trans)
  qed
qed (simp add: kept_by_def floors_kept_refl)

lemma step_kept:
  "kept_by raised" "kept_by (problem e)" "(\<And>d. floors_kept d (g d)) \<Longrightarrow> kept_by (counted g)"
  by (auto simp: kept_by_def raised_def problem_def counted_def floors_kept_refl)

lemma list_rows_kept: "(\<And>i x. kept_by (f i x)) \<Longrightarrow> kept_by (\<lambda>st. list_rows name f data st)"
  using each_row_kept [of f 0] step_kept(2)
  by (auto simp: list_rows_def kept_by_def split: json.splits)

lemma put_kept:
  "floors_kept d (put_rule k p f n b d)" "floors_kept d (put_dialect now fam slot c v s d)" "floors_kept d (put_manifest g d)"
  "floors_kept d (put_promote r d)" "floors_kept d (put_trap u d)"
  by (simp_all add: floors_kept_same put_rule_def put_dialect_def put_manifest_def put_promote_def put_trap_def Let_def)

text \<open>The same of one result, to be pushed through the branches of a row.\<close>

definition kept_at :: "seeding \<Rightarrow> string list + seeding \<Rightarrow> bool" where
  "kept_at st r \<longleftrightarrow> (\<forall>st'. r = Inr st' \<longrightarrow> floors_kept (fst st) (fst st'))"

lemma kept_byI: "(\<And>st. kept_at st (f st)) \<Longrightarrow> kept_by f"
  by (simp add: kept_by_def kept_at_def)

lemma kept_at_step [simp]:
  "kept_at st (raised st)" "kept_at st (problem e st)" "(\<And>d. floors_kept d (g d)) \<Longrightarrow> kept_at st (counted g st)"
  by (auto simp: kept_at_def raised_def problem_def counted_def floors_kept_refl split: prod.splits)

lemma load_rows_kept:
  "kept_by (load_rule lib i v)" "kept_by (load_manifest_row lib i v)" "kept_by (load_promote_row lib i v)" "kept_by (load_trap_row lib i v)"
proof -
  show "kept_by (load_rule lib i v)"
    by (rule kept_byI) (simp add: load_rule_def Let_def put_kept split: json.split option.split prod.split)
  show "kept_by (load_manifest_row lib i v)"
    by (rule kept_byI) (simp add: load_manifest_row_def Let_def put_kept split: json.split option.split prod.split)
  show "kept_by (load_promote_row lib i v)"
    by (rule kept_byI) (simp add: load_promote_row_def Let_def put_kept split: json.split option.split prod.split)
  show "kept_by (load_trap_row lib i v)"
    by (rule kept_byI) (simp add: load_trap_row_def Let_def put_kept split: json.split option.split prod.split)
qed

lemma scorecard_kept: "kept_by (load_scorecard_row lib now i v)"
  by (rule kept_byI) (simp add: load_scorecard_row_def Let_def put_scaffold_keeps split: json.split option.split prod.split)

lemma dialects_kept: "floors_kept d (foldl (\<lambda>d (f, s, c, v, src). put_dialect now f s c v src d) d rows)"
proof (induction rows arbitrary: d)
  case (Cons r rows)
  obtain f s c v src where r: "r = (f, s, c, v, src)" by (cases r)
  show ?case
    unfolding foldl_Cons r prod.case
    by (rule floors_kept_trans [OF put_kept(2) Cons.IH])
qed (simp add: floors_kept_refl)

lemma loads_kept:
  "kept_by (load_family_map lib data)" "kept_by (load_dialect_matrix lib now data)" "kept_by (load_gate_manifest lib data)"
  "kept_by (load_promote lib data)" "kept_by (load_traps lib data)" "kept_by (load_scorecard lib now data)"
proof -
  show "kept_by (load_dialect_matrix lib now data)"
    using dialects_kept by (auto simp: kept_by_def load_dialect_matrix_def problem_def floors_kept_refl Let_def split: option.splits prod.splits)
qed (use list_rows_kept load_rows_kept scorecard_kept in
  \<open>simp_all add: load_family_map_def [abs_def] load_gate_manifest_def [abs_def] load_promote_def [abs_def] load_traps_def [abs_def]
    load_scorecard_def [abs_def]\<close>)

lemma load_all_kept:
  "\<lbrakk>\<And>a f data. (a, f) \<in> set steps \<Longrightarrow> kept_by (f data); load_all steps st counts = (cs, es, Some d')\<rbrakk> \<Longrightarrow> floors_kept (fst st) d'"
proof (induction steps st counts rule: load_all.induct)
  case (1 st counts)
  then show ?case by (simp add: floors_kept_refl)
next
  case (2 a f rest st counts)
  obtain r where r: "load_asset f a st = Inr r" using 2(3) by (cases "load_asset f a st") auto
  obtain d n errors where rr: "r = (d, n, errors)" by (cases r)
  have "floors_kept (fst st) d"
    using r rr 2(2) [of a f] unfolding load_asset_def kept_by_def
    by (auto simp: floors_kept_refl split: option.splits) fastforce
  moreover have "floors_kept d d'"
    using 2(1) [OF r rr [symmetric]] 2(2,3) r rr by auto
  ultimately show ?case by (rule floors_kept_trans)
qed

text \<open>Seed files prepare floors but never open one: after loading any assets the metrics whose floor is filled and no scaffold
  are those of before.\<close>

lemma seed_keeps_floors: "floors_kept d (snd (load_seed_assets lib now a d))"
proof -
  let ?steps = "[(sa_families a, load_family_map lib), (sa_dialects a, load_dialect_matrix lib now), (sa_manifest a, load_gate_manifest lib),
         (sa_promote a, load_promote lib), (sa_traps a, load_traps lib), (sa_scorecard a, load_scorecard lib now)]"
  obtain counts errors r where run: "load_all ?steps (d, missing_assets a) [] = (counts, errors, r)" by (metis prod_cases3)
  show ?thesis
  proof (cases r)
    case None
    with run show ?thesis by (simp add: load_seed_assets_def floors_kept_refl)
  next
    case (Some d')
    have "kept_by (f data)" if "(b, f) \<in> set ?steps" for b f data
      using that loads_kept by auto
    then have "floors_kept d d'"
      using load_all_kept [of ?steps "(d, missing_assets a)" "[]" counts errors d'] run Some by (simp del: load_all.simps)
    with run Some show ?thesis by (simp add: load_seed_assets_def)
  qed
qed

lemma seed_never_fills: "live_metrics (snd (load_seed_assets lib now a d)) = live_metrics d"
  using seed_keeps_floors by (simp add: floors_kept_def)

subsection \<open>Reachable databases\<close>













subsection \<open>Slots\<close>

text \<open>Callers that take and give back slots: each event is a request under the budget of that moment, or the end of a holder.\<close>

datatype slot_event = Take int | Give_Back

fun slot_step :: "slot_event \<Rightarrow> slots \<times> nat \<Rightarrow> slots \<times> nat" where
  "slot_step (Take budget) (s, held) = (case local_slot_acquire budget s of (ok, s') \<Rightarrow> (s', if ok then held + 1 else held))"
| "slot_step Give_Back (s, held) = (if held = 0 then (s, held) else (local_slot_release s, held - 1))"

definition slot_run :: "slot_event list \<Rightarrow> slots \<times> nat" where
  "slot_run es = fold slot_step es (no_slots, 0)"

definition slots_balanced :: "int \<Rightarrow> slots \<times> nat \<Rightarrow> bool" where
  "slots_balanced budget p \<longleftrightarrow> (case sl_value (fst p) of
     None \<Rightarrow> snd p = 0
   | Some n \<Rightarrow> sl_budget (fst p) = Some budget \<and> 0 \<le> n \<and> n + int (snd p) = budget)"

lemma slots_balanced_step:
  assumes "slots_balanced budget p" "e = Take budget \<or> e = Give_Back"
  shows "slots_balanced budget (slot_step e p)"
proof -
  obtain s held where p: "p = (s, held)" by (cases p)
  from assms show ?thesis
    by (cases "sl_value s")
      (auto simp: p slots_balanced_def local_slot_acquire_def local_slot_release_def Let_def of_nat_diff split: if_splits)
qed

lemma slots_balanced_run:
  "\<lbrakk>slots_balanced budget p; \<forall>e \<in> set es. e = Take budget \<or> e = Give_Back\<rbrakk> \<Longrightarrow> slots_balanced budget (fold slot_step es p)"
  by (induction es arbitrary: p) (simp_all add: slots_balanced_step)

lemma slots_within_budget:
  assumes "\<forall>e \<in> set es. e = Take budget \<or> e = Give_Back" "0 \<le> budget"
  shows "int (snd (slot_run es)) \<le> budget"
proof -
  have "slots_balanced budget (slot_run es)"
    unfolding slot_run_def by (rule slots_balanced_run [OF _ assms(1)]) (simp add: slots_balanced_def no_slots_def)
  with assms(2) show ?thesis by (auto simp: slots_balanced_def split: option.splits)
qed

lemma takes:
  "\<lbrakk>sl_value s = Some (int n); sl_budget s = Some b; 0 < b; k \<le> n\<rbrakk> \<Longrightarrow>
   fold slot_step (replicate k (Take b)) (s, h) = (s\<lparr>sl_value := Some (int (n - k))\<rparr>, h + k)"
proof (induction k arbitrary: s n h)
  case (Suc k)
  have "slot_step (Take b) (s, h) = (s\<lparr>sl_value := Some (int (n - 1))\<rparr>, h + 1)"
    using Suc.prems by (simp add: local_slot_acquire_def Let_def of_nat_diff)
  moreover have "fold slot_step (replicate k (Take b)) (s\<lparr>sl_value := Some (int (n - 1))\<rparr>, h + 1)
      = ((s\<lparr>sl_value := Some (int (n - 1))\<rparr>)\<lparr>sl_value := Some (int (n - 1 - k))\<rparr>, h + 1 + k)"
    using Suc.prems by (intro Suc.IH) simp_all
  ultimately show ?case by simp
qed simp

lemma gives:
  "\<lbrakk>sl_value s = Some (int n); k \<le> h\<rbrakk> \<Longrightarrow>
   fold slot_step (replicate k Give_Back) (s, h) = (s\<lparr>sl_value := Some (int (n + k))\<rparr>, h - k)"
proof (induction k arbitrary: s n h)
  case (Suc k)
  have "slot_step Give_Back (s, h) = (s\<lparr>sl_value := Some (int (n + 1))\<rparr>, h - 1)"
    using Suc.prems by (simp add: local_slot_release_def)
  moreover have "fold slot_step (replicate k Give_Back) (s\<lparr>sl_value := Some (int (n + 1))\<rparr>, h - 1)
      = ((s\<lparr>sl_value := Some (int (n + 1))\<rparr>)\<lparr>sl_value := Some (int (n + 1 + k))\<rparr>, h - 1 - k)"
    using Suc.prems by (intro Suc.IH) simp_all
  ultimately show ?case by simp
qed simp

text \<open>Changing the budget leaks slots: let the budget be \<open>b0\<close> with all slots taken, then change to another
  value \<open>b\<close>, at which one more caller is admitted by the new semaphore. The holders of the old one give their slots back to
  the new one, so when all are done \<open>b0 + b\<close> callers are admitted at once under the budget \<open>b\<close>, which the code meant to be the bound.\<close>

lemma resized_slots_leak:
  assumes "0 < b0" "0 < b" "b \<noteq> b0"
  shows "snd (slot_run (replicate b0 (Take (int b0)) @ [Take (int b)])) = b0 + 1
    \<and> snd (slot_run (replicate b0 (Take (int b0)) @ [Take (int b)] @ replicate (b0 + 1) Give_Back)) = 0
    \<and> snd (slot_run (replicate b0 (Take (int b0)) @ [Take (int b)] @ replicate (b0 + 1) Give_Back @ replicate (b0 + b) (Take (int b)))) = b0 + b"
proof -
  obtain k where b0: "b0 = Suc k" using assms(1) by (cases b0) auto
  define full where "full = \<lparr>sl_value = Some (int 0), sl_budget = Some (int b0)\<rparr>"
  define resized where "resized = (\<lambda>n. \<lparr>sl_value = Some (int n), sl_budget = Some (int b)\<rparr>)"
  have "slot_step (Take (int b0)) (no_slots, 0) = (\<lparr>sl_value = Some (int k), sl_budget = Some (int b0)\<rparr>, 1)"
    by (simp add: no_slots_def local_slot_acquire_def b0)
  then have 1: "slot_run (replicate b0 (Take (int b0))) = (full, b0)"
    using takes [of "\<lparr>sl_value = Some (int k), sl_budget = Some (int b0)\<rparr>" k "int b0" k 1]
    by (simp add: slot_run_def b0 full_def)
  have "slot_step (Take (int b)) (full, b0) = (resized (b - 1), b0 + 1)"
    using assms by (simp add: full_def resized_def local_slot_acquire_def Let_def of_nat_diff)
  with 1 have 2: "slot_run (replicate b0 (Take (int b0)) @ [Take (int b)]) = (resized (b - 1), b0 + 1)"
    by (simp add: slot_run_def)
  have "fold slot_step (replicate (b0 + 1) Give_Back) (resized (b - 1), b0 + 1) = (resized (b0 + b), 0)"
    using gives [of "resized (b - 1)" "b - 1" "b0 + 1" "b0 + 1"] assms(2) by (simp add: resized_def)
  with 2 have 3: "slot_run (replicate b0 (Take (int b0)) @ [Take (int b)] @ replicate (b0 + 1) Give_Back) = (resized (b0 + b), 0)"
    by (simp add: slot_run_def)
  have "fold slot_step (replicate (b0 + b) (Take (int b))) (resized (b0 + b), 0) = (resized 0, b0 + b)"
    using takes [of "resized (b0 + b)" "b0 + b" "int b" "b0 + b" 0] assms(2) by (simp add: resized_def)
  with 3 have "slot_run (replicate b0 (Take (int b0)) @ [Take (int b)] @ replicate (b0 + 1) Give_Back @ replicate (b0 + b) (Take (int b)))
      = (resized 0, b0 + b)"
    unfolding slot_run_def by (metis (no_types, lifting) append_assoc fold_append comp_apply)
  with 2 3 show ?thesis by simp
qed

lemma resized_slots_two_and_one:
  "snd (slot_run [Take 2, Take 2, Take 1, Give_Back, Give_Back, Give_Back, Take 1, Take 1, Take 1]) = 3"
  using resized_slots_leak [of 2 1] by (simp add: numeral_eq_Suc)

subsection \<open>Serving offline\<close>

definition only_bound :: "serve_env \<Rightarrow> local_call list \<Rightarrow> local_call list \<Rightarrow> nat \<Rightarrow> bool" where
  "only_bound en calls calls' n \<longleftrightarrow>
    (\<exists>new. calls' = calls @ new \<and> length new \<le> n \<and> (\<forall>(m, role) \<in> set new. se_bind en m role \<noteq> None))"

lemma only_bound_refl: "only_bound en calls calls n"
  by (auto simp: only_bound_def)

lemma only_bound_trans: "\<lbrakk>only_bound en a b n; only_bound en b c k\<rbrakk> \<Longrightarrow> only_bound en a c (n + k)"
  unfolding only_bound_def by (elim exE conjE) (rule exI, auto)

lemma chat_bound: "local_chat en prompt system role model calls = (r, calls') \<Longrightarrow> only_bound en calls calls' 1"
  by (auto simp: local_chat_def only_bound_def split: if_splits option.splits sum.splits)

lemma floor_bound: "local_router_floor en prompt context calls = (r, calls') \<Longrightarrow> only_bound en calls calls' 1"
  using chat_bound
  by (fastforce simp: local_router_floor_def Let_def only_bound_refl split: option.splits prod.splits sum.splits)

lemma specialist_bound: "serve_specialist en prompt context prior routed calls = (r, calls') \<Longrightarrow> only_bound en calls calls' 1"
  unfolding serve_specialist_def Let_def
  by (auto simp: only_bound_refl split: if_splits sum.splits prod.splits dest: chat_bound)

lemma direct_bound: "direct_reply en prompt context prior calls = (r, calls') \<Longrightarrow> only_bound en calls calls' 1"
  unfolding direct_reply_def by (auto split: sum.splits prod.splits dest: chat_bound)

lemma slot_bound: "serve_with_slot en prompt context prior calls = (r, calls') \<Longrightarrow> only_bound en calls calls' 2"
proof -
  have two: "only_bound en a c 2" if "only_bound en a b 1" "only_bound en b c 1" for a b c
    using only_bound_trans [OF that] by (simp add: numeral_2_eq_2)
  show "serve_with_slot en prompt context prior calls = (r, calls') \<Longrightarrow> ?thesis"
    unfolding serve_with_slot_def
    by (auto simp: only_bound_refl split: option.splits sum.splits prod.splits intro: two [OF floor_bound] direct_bound specialist_bound)
qed

text \<open>What a reply may say about continuing, when \<open>prior\<close> continuations came before it.\<close>

definition continues_ok :: "int \<Rightarrow> int \<Rightarrow> doc \<Rightarrow> bool" where
  "continues_ok bound prior d \<longleftrightarrow>
    (dget d ''status'' = JStr ''continue'' \<longrightarrow> dget d ''continue_count'' = JInt (prior + 1) \<and> prior + 1 \<le> bound)"

lemma dget_dset [simp]: "dget (dset d k v) k' = (if k' = k then v else dget d k')"
  by (simp add: dset_def dget_def update_conv)

lemma dget_default: "k' \<noteq> k \<Longrightarrow> dget (dict_default d k v) k' = dget d k'"
  by (simp add: dict_default_def)

lemma dget_merge: "dget (dict_merge d u) k = (case map_of (rev u) k of Some v \<Rightarrow> v | None \<Rightarrow> dget d k)"
  by (simp add: dget_def map_of_dict_merge map_add_def split: option.split)

lemma stamp_continues: "continues_ok bound prior (stamp_latency en context d) = continues_ok bound prior d"
  by (simp add: continues_ok_def stamp_latency_def dget_default)

lemma apply_continues:
  assumes "dget d ''status'' = JNull" "dget d ''continue_count'' = JInt prior"
  shows "continues_ok bound prior (apply_continue_bound bound d)"
  using assms by (simp add: continues_ok_def apply_continue_bound_def Let_def)

lemma quiet_continues: "dget d ''status'' \<noteq> JStr ''continue'' \<Longrightarrow> continues_ok bound prior d"
  by (simp add: continues_ok_def)

lemma chat_status: "local_chat en prompt system role model calls = (Inr d, calls') \<Longrightarrow> dget d ''status'' = JNull"
  by (auto simp: local_chat_def dget_def split: if_splits option.splits sum.splits)

lemma degraded_fields:
  "dget (degraded_reply prior stop reason) ''status'' = JNull" "dget (degraded_reply prior stop reason) ''continue_count'' = JInt prior"
  by (simp_all add: degraded_reply_def dget_def)

lemma stamped_fields:
  "dget (stamp_router_receipt_fields source h b d) ''status'' = dget d ''status''"
  "dget (stamp_router_receipt_fields source h b d) ''continue_count'' = dget d ''continue_count''"
  by (simp_all add: stamp_router_receipt_fields_def Let_def split: option.split)

lemma specialist_continues:
  assumes "dget d ''status'' = JNull"
  shows "continues_ok (se_continue_max en) prior (specialist_reply en prompt prior heuristic route routed d)"
proof -
  define bad where "bad = (case dget d ''text'' of JStr s \<Rightarrow> is_nonanswer_completion s prompt | _ \<Rightarrow> True)"
  define u where "u = (if bad then fallback_fields (JStr ''local_non_answer'') (canonical_trigger ''local_non_answer'') prior
      @ [(''stop_reason'', or_else (dget d ''stop_reason'') (JStr ''local_non_answer''))] else fallback_fields JNull ''none'' 0)
    @ [(''model_id'', dget d ''model''), (''floor_role'', JStr (if route = JStr ''code'' then ''code'' else ''text_generator'')),
       (''floor_metric_ids'', bound_metric en d (if route = JStr ''code'' then ''code'' else ''text_generator''))]"
  define stamped where "stamped = dset (stamp_router_receipt_fields (if heuristic \<noteq> None then ''heuristic'' else ''local_router_floor'')
      (heuristic \<noteq> None) (Some ''local_router_floor'') (dict_merge d u)) ''orchestration''
      (orchestration (JStr (ro_model routed)) route (dget d ''model'') True
        (if heuristic \<noteq> None then ''heuristic'' else ''local_router_floor'') (JStr ''local_router_floor''))"
  have reply: "specialist_reply en prompt prior heuristic route routed d
      = (if bad then apply_continue_bound (se_continue_max en) stamped else stamped)"
    by (simp add: specialist_reply_def bad_def u_def stamped_def Let_def)
  have status: "dget stamped ''status'' = JNull"
    using assms by (simp add: stamped_def stamped_fields dget_merge u_def fallback_fields_def)
  have count: "bad \<Longrightarrow> dget stamped ''continue_count'' = JInt prior"
    by (simp add: stamped_def stamped_fields dget_merge u_def fallback_fields_def)
  show ?thesis
    using apply_continues [OF status count] status by (auto simp: reply continues_ok_def)
qed

lemma slot_continues:
  assumes "serve_with_slot en prompt context prior calls = (Inr d, calls')"
  shows "continues_ok (se_continue_max en) prior d"
proof -
  have refused: "continues_ok b prior (refused_reply prior stop reason)" for b stop reason
    by (rule quiet_continues) (simp add: refused_reply_def)
  have specialist: "continues_ok (se_continue_max en) prior d" if "serve_specialist en prompt context prior routed calls = (Inr d, calls')"
    for routed calls
    using that unfolding serve_specialist_def Let_def
    by (auto simp: refused split: if_splits sum.splits prod.splits dest!: chat_status intro: specialist_continues)
  have direct: "continues_ok (se_continue_max en) prior d" if "direct_reply en prompt context prior calls = (Inr d, calls')" for calls
    using that unfolding direct_reply_def
    by (auto simp: refused stamped_fields dget_merge fallback_fields_def continues_ok_def refused_reply_def
        split: sum.splits prod.splits dest!: chat_status)
  show ?thesis
    using assms unfolding serve_with_slot_def
    by (auto simp: refused split: option.splits sum.splits prod.splits intro: specialist direct)
qed

text \<open>The slots as an admission or a refusal under the budget leaves them, before the slot is taken.\<close>

definition resized_slots :: "int \<Rightarrow> slots \<Rightarrow> slots" where
  "resized_slots budget s =
    (if 0 < budget \<and> (sl_value s = None \<or> sl_budget s \<noteq> Some budget) then \<lparr>sl_value = Some budget, sl_budget = Some budget\<rparr> else s)"

lemma acquire_release:
  assumes "local_slot_acquire budget s = (ok, s')"
  shows "(if ok then local_slot_release s' else s') = resized_slots budget s"
  using assms
  by (cases "sl_value s")
    (auto simp: local_slot_acquire_def resized_slots_def local_slot_release_def Let_def split: if_splits)

text \<open>C40. Serving offline is bounded: at most two calls are made to the runtime, each of a model that has a bind for the role
  it is called in, and none when no slot is free or the prompt asks for media; the slot is given back on every path, an
  exception included; and a reply that asks to be continued carries the count of its continuations, which is within the
  bound of the knob.\<close>

theorem offline_serve_bounded:
  assumes run: "serve_local_offline en budget prompt context prior s calls = ((r, calls'), s')"
  shows "(\<exists>new. calls' = calls @ new \<and> length new \<le> 2 \<and> (\<forall>(m, role) \<in> set new. se_bind en m role \<noteq> None))
    \<and> (\<not> fst (local_slot_acquire budget s) \<or> wants_media_generation prompt \<noteq> None \<longrightarrow> calls' = calls)
    \<and> s' = resized_slots budget s
    \<and> (\<forall>d. r = Inr d \<and> dget d ''status'' = JStr ''continue'' \<longrightarrow>
        dget d ''continue_count'' = JInt (prior + 1) \<and> prior + 1 \<le> se_continue_max en)"
proof -
  obtain ok s1 where acq: "local_slot_acquire budget s = (ok, s1)" by (cases "local_slot_acquire budget s")
  have slots: "s' = resized_slots budget s"
    using run acquire_release [OF acq] by (auto simp: serve_local_offline_def acq split: if_splits prod.splits)
  have "only_bound en calls calls' 2 \<and> (\<not> ok \<or> wants_media_generation prompt \<noteq> None \<longrightarrow> calls' = calls)
    \<and> (\<forall>d. r = Inr d \<longrightarrow> continues_ok (se_continue_max en) prior d)"
  proof (cases ok)
    case False
    then show ?thesis
      using run apply_continues [OF degraded_fields]
      by (auto simp: serve_local_offline_def acq only_bound_refl stamp_continues)
  next
    case True
    obtain r1 where r1: "serve_with_slot en prompt context prior calls = (r1, calls')" "r = map_sum id (stamp_latency en context) r1"
      using run True by (auto simp: serve_local_offline_def acq split: prod.splits)
    have "calls' = calls" if "wants_media_generation prompt \<noteq> None"
      using that r1(1) by (auto simp: serve_with_slot_def)
    moreover have "only_bound en calls calls' 2" by (rule slot_bound [OF r1(1)])
    moreover have "continues_ok (se_continue_max en) prior d" if d: "r = Inr d" for d
    proof -
      obtain d1 where "r1 = Inr d1" "d = stamp_latency en context d1" using d r1(2) by (cases r1) auto
      with r1(1) slot_continues show ?thesis by (simp add: stamp_continues)
    qed
    ultimately show ?thesis using True by blast
  qed
  then show ?thesis
    using slots by (simp add: only_bound_def continues_ok_def acq)
qed

text \<open>A runtime whose specialist answers nothing: the second continuation is offered, the third would not be.\<close>

definition demo_bind :: "string \<Rightarrow> string \<Rightarrow> bind_result option" where
  "demo_bind m role = (if m = ''gemma3'' \<and> role \<in> {''router'', ''text_generator''}
     then Some \<lparr>br_model = m, br_role = role, br_family = ''gemma'', br_metric = role, br_cert = None\<rparr> else None)"

definition demo_serve :: serve_env where
  "demo_serve = \<lparr>se_py = \<lparr>sha256 = rev, json_dumps = (\<lambda>_. ''{}''), json_canonical = (\<lambda>_. ''{}''), isoformat = (\<lambda>_. ''T''), py_str = (\<lambda>_. [])\<rparr>, se_configured = True,
     se_catalog = [(''ready'', JBool True), (''models'', JArr [JStr ''gemma3''])], se_bind = demo_bind, se_preferred = [],
     se_answer = (\<lambda>calls m role prompt system. Inr (JObj [(''choices'', JArr [JObj [(''message'', JObj [(''content'', JStr [])])]])])),
     se_loads = (\<lambda>_. None), se_continue_max = 2, se_latency = 5\<rparr>"

definition demo_reply :: "(doc local_result \<times> slots)" where
  "demo_reply = serve_local_offline demo_serve 1 ''hi'' None 1 no_slots []"

lemma demo_reply_values:
  "snd (fst demo_reply) = [(''gemma3'', ''router''), (''gemma3'', ''text_generator'')]"
  "case_sum (\<lambda>_. JNull) (\<lambda>d. dget d ''status'') (fst (fst demo_reply)) = JStr ''continue''"
  by code_simp+

theorem offline_serve_bounded_witness:
  "\<exists>d. fst (fst demo_reply) = Inr d \<and> dget d ''status'' = JStr ''continue'' \<and> dget d ''continue_count'' = JInt 2
    \<and> 2 \<le> se_continue_max demo_serve \<and> length (snd (fst demo_reply)) = 2
    \<and> (\<forall>(m, role) \<in> set (snd (fst demo_reply)). se_bind demo_serve m role \<noteq> None) \<and> snd demo_reply = resized_slots 1 no_slots"
proof -
  obtain d where d: "fst (fst demo_reply) = Inr d" "dget d ''status'' = JStr ''continue''"
    using demo_reply_values(2) by (cases "fst (fst demo_reply)") auto
  have "serve_local_offline demo_serve 1 ''hi'' None 1 no_slots [] = ((Inr d, snd (fst demo_reply)), snd demo_reply)"
    using d(1) by (simp add: demo_reply_def prod_eq_iff)
  from offline_serve_bounded [OF this] d demo_reply_values(1) show ?thesis
    by (intro exI [of _ d]) auto
qed

subsection \<open>The offline minimum arms an empty database\<close>

lemma dogfood_names:
  "dogfood_metric family ''router'' \<noteq> dogfood_metric family ''text_generator''" "dogfood_metric family role \<noteq> []"
  by (simp_all add: dogfood_metric_def)

definition dogfood_floor :: "string \<Rightarrow> string \<Rightarrow> string \<Rightarrow> floor_row" where
  "dogfood_floor now family role = \<lparr>rf_metric = dogfood_metric family role, rf_role = role, rf_model = None, rf_family = Some family,
     rf_filled = True, rf_scaffold = False, rf_floor = Some (float_of (9 / 10)), rf_lo = None, rf_hi = None, rf_n = 1,
     rf_src = None, rf_updated = now\<rparr>"

definition dogfood_cert :: "pylib \<Rightarrow> string \<Rightarrow> string \<Rightarrow> string \<Rightarrow> promote_row" where
  "dogfood_cert lib now family role = \<lparr>pg_cert = ''cert-offline-'' @ role @ ''-'' @ family, pg_role = role,
     pg_metric = dogfood_metric family role, pg_status = ''certified'', pg_model = None, pg_family = Some family, pg_ship = None,
     pg_manifest = ''promote_gates'', pg_certified_at = Some now, pg_expires_at = None,
     pg_payload = Some (json_dumps lib (JObj [(''seed'', JStr ''offline-min-roles-auto'')]))\<rparr>"

lemma dogfood_state:
  assumes d: "d = snd (ensure_dogfood_min_roles lib now family empty_local)"
  shows "lp_floors d = [dogfood_floor now family ''router'', dogfood_floor now family ''text_generator'']"
    "lp_promote d = [dogfood_cert lib now family ''router'', dogfood_cert lib now family ''text_generator'']"
    "\<exists>g. lp_manifest d = [g] \<and> gm_key g = ''promote_gates'' \<and> gm_sla g = 2592000 \<and> gm_pinned_at g = now"
    "lp_binds d = []" "map fr_family (lp_rules d) = [family, family, family, family]"
    "map fr_kind (lp_rules d) = [''substring'', ''substring'', ''substring'', ''regex'']"
    "map fr_pattern (lp_rules d) = [''ai/gemma'', ''unigrok/'', ''gemma'', ''(?i)gemma'']"
    "map fr_enabled (lp_rules d) = [True, True, True, True]"
  unfolding d
  by (simp_all add: ensure_dogfood_min_roles_def dogfood_rules_def put_rule_def empty_local_def funded_def MIN_OFFLINE_ROLES_def
      put_dogfood_floor_def put_dogfood_pin_def put_dogfood_cert_def upsert_def Let_def dogfood_names dogfood_names(1) [symmetric]
      dogfood_floor_def dogfood_cert_def)












end
