(* ===== verification/Spec2Isabelle.thy ===== *)
theory Spec2Isabelle
  imports Mission_Sweeper Spend_Guard_Runs Circuit_Breaker Storm_Breaker Local_Budget Store_Invariants
    Mission_Verify_Facts Mission_Billing_Facts Mission_Epoch_Alone Remote_Auth_Facts
    Caller_Guard_Facts Provider_Call_Facts Memory_Facts Context_Pack_Facts Caller_Knobs Local_Plane_Facts
begin

text \<open>
  A model of UniGrok (\<open>src/src/unigrok_public/\<close>), a Python MCP server that runs long agent missions over metered
  language-model providers, with the theorems that make its durable core correct.

  \<^bold>\<open>The program.\<close> Hosts call MCP tools over HTTP. \<open>remote_auth.py\<close> authenticates them at a public edge and
  \<open>identity.py\<close> turns the authenticated principal into the names of its state. A task becomes a mission:
  a row of the SQLite store (\<open>state.py\<close>) that workers of several processes lease, with an append-only ledger,
  artifacts and evidence. A worker computes a candidate answer and calls \<open>seal_mission_epoch\<close>
  (\<open>mission/epoch.py\<close>), which freezes the candidate, checks it (\<open>mission/verify.py\<close>, \<open>harness.py\<close>,
  \<open>mission/task_class.py\<close>, \<open>mission/evidence.py\<close>, \<open>mission/voters.py\<close>) under the configuration recommended by
  \<open>mission/governor.py\<close>, and completes, fails or returns the mission by a fenced compare-and-swap. A sweeper
  requeues missions whose lease ran out. Provider calls pass the caller's budget, the local daily budget and a
  circuit breaker (\<open>caller_budget.py\<close>, \<open>server.py\<close>); the spend guard of the store reserves money before it is
  spent. Envelopes for the host are laid out by \<open>autonomy.py\<close> and \<open>host_ux.py\<close>. Sessions, facts and their
  cabinet (\<open>cabinet/\<close>: addresses, markdown files, summaries, an index and a budgeted walk over it) are the memory
  the tools write after a turn and recall before the next; \<open>context_pack.py\<close> prunes a session's
  history to a pack and frames it, quoted, before the current request. When no provider can be reached a local
  runtime answers (\<open>local_plane_loader.py\<close> and the offline part of \<open>server.py\<close>), by models bound to roles.

  \<^bold>\<open>The theories.\<close> \<open>Prelude\<close> has clock readings, dictionaries, SQL tables and the locale \<open>transactions\<close>;
  \<open>Py_Value\<close>, \<open>Py_Text\<close> (with a backtracking \<open>re\<close>), \<open>Py_Float\<close>, \<open>Py_Decimal\<close>, \<open>Py_Number\<close> and \<open>Py_Convert\<close> the
  part of Python the source uses. Then, by component:

    \<^item> store: \<open>Redaction\<close>, \<open>Mission_Types\<close>, \<open>Database\<close> (rows and retention), \<open>Mission_Store\<close>, \<open>Job_Store\<close>;
      \<open>Mission_Fencing\<close> (what every interleaving of operations keeps: fences, versions, statuses, leases),
      \<open>Mission_Concurrency\<close> (the two-phase compare-and-swap refines an atomic one), \<open>Store_Invariants\<close>
      (references between tables, ledger numbering, masked secrets), \<open>Mission_Sweeper\<close> (locale
      \<open>mission_sweep_store\<close>, interpreted by the SQLite store);
    \<^item> checks: \<open>Task_Class\<close>, \<open>Answer_Check\<close>, \<open>Mission_Evidence\<close>, \<open>Mission_Voters\<close>, \<open>Mission_Verify\<close>,
      \<open>Mission_Verify_Facts\<close>, \<open>Mission_Governor\<close>; envelopes: \<open>Host_UX\<close>, \<open>Autonomy\<close>;
    \<^item> epoch: \<open>Mission_Billing\<close>, \<open>Mission_Billing_Facts\<close>, \<open>Mission_Epoch\<close> (the coroutine as a program of store
      calls with interference between them), \<open>Mission_Epoch_Facts\<close> (what holds under any interference),
      \<open>Mission_Epoch_Alone\<close> (total correctness of an undisturbed epoch);
    \<^item> money: \<open>Spend_Guard\<close>, \<open>Spend_Guard_Facts\<close>, \<open>Spend_Guard_Runs\<close>, \<open>Local_Budget\<close>, \<open>Caller_Guard\<close>,
      \<open>Caller_Guard_Facts\<close>;
    \<^item> calls: \<open>Circuit_Breaker\<close>, \<open>Storm_Breaker\<close>, \<open>Provider_Call\<close>, \<open>Provider_Call_Facts\<close> (the three together,
      interleaved and cancelled);
    \<^item> edge: \<open>Identity\<close>, \<open>Remote_Auth\<close>, \<open>Remote_Auth_Facts\<close>;
    \<^item> cabinet: \<open>Url_Quote\<close> (percent quoting), \<open>Cabinet_Uri\<close> (addresses and directories), \<open>Cabinet_Text\<close> (summaries,
      session compilation, token estimates), \<open>Cabinet_Walk\<close> (scores and the walk), \<open>Cabinet_Wiki\<close> (the markdown
      files over an explicit file system);
    \<^item> memory: \<open>Memory_Store\<close> (sessions, turns, context packs, facts and the cabinet's tables), \<open>Memory_Cabinet\<close>
      (walks, trajectories and listings over the tables), \<open>Memory_Facts\<close> (every run of operations keeps the tables
      well typed, a turn is committed once, a tenant recalls its own memory, a forgotten session's texts remain);
    \<^item> prompt: \<open>Context_Pack\<close> (inventory, votes, merge, the prefrontal sentence, the absent clause), \<open>Context_Format\<close>
      (the quoted blocks and the prompt within its budget), \<open>Context_Prompt_Facts\<close> (the request is kept whole, quoted
      history adds no heading, a cut one can), \<open>Context_Pack_Facts\<close> (bounds, surviving constraints, the round trip),
      \<open>Caller_Knobs\<close>;
    \<^item> local plane: \<open>Local_Plane_Loader\<close> (seed files, floors, certificates and the rewrite of the binds), \<open>Local_Route\<close>
      (probes and the choice of a plane), \<open>Usage_Accounting\<close> (what an attempt reports), \<open>Local_Serve\<close> (slots, one local
      call, the offline serve), \<open>Local_Plane_Facts\<close> (a ready plane is armed, seeds fill no floor, serving is bounded,
      slots leak when the budget changes).

  \<^bold>\<open>How state and steps correspond.\<close> A table is the list of its rows, one record field per column; a store
  operation takes the clock readings, the arguments and the database and returns the result and the database after
  the commit, the old one after a rollback. SQLite serialises writers, so a run of several processes is a sequence
  of operations (\<open>run\<close>, \<open>fold\<close>); the two operations that read outside their transaction
  (\<open>_cas_mission_status_sync\<close>, \<open>_claim_autonomy_sync\<close>) are two steps. In-memory state of the event loop changes
  atomically between \<open>await\<close>s. Exceptions are \<open>Inl\<close> values or constructors of a result type.

  \<^bold>\<open>Idealisations.\<close> Texts are byte lists: ASCII, or UTF-8 with the non-ASCII characters the source names given by
  their bytes; lengths of texts count bytes. Instants are integers of microseconds. SHA-256, \<open>json\<close>, \<open>str\<close> of other
  values, URL splitting, SQLite's \<open>SUM\<close> over reals, \<open>strftime\<close> and full-text \<open>MATCH\<close>, the regular expressions of
  seed files, the exponential and the logarithm and the HTTP answers are parameters (\<open>pylib\<close>, \<open>netlib\<close>, \<open>sum_real\<close>,
  \<open>mem_env\<close>, \<open>control\<close>, \<open>local_lib\<close>, \<open>serve_env\<close>); what a theorem needs of them is a named hypothesis
  (\<open>hex_digests\<close>, \<open>float_sums\<close>). Fresh
  random tokens are arguments, distinct where a theorem says so. Regular-expression repetition is bounded by the
  length of the text, which no run of non-empty iterations exceeds; no other fuel is used. Amounts in messages
  are left out.

  \<^bold>\<open>Not modelled.\<close> The HTTP and subprocess clients of the providers, the MCP tool registrations and prompt assembly
  (\<open>server.py\<close> outside the breakers, the guarded call, the usage documents and the offline serve, \<open>xai_api.py\<close>,
  \<open>grok_build.py\<close>, \<open>tools/\<close>), and files with secrets (\<open>local_auth.py\<close>, \<open>principal_xai.py\<close>): I/O around
  libraries whose behaviour is not in this repository.
\<close>

end
